(* ===== verification/Prelude.thy ===== *)
theory Prelude
  imports Main "HOL-Library.AList"
begin

text \<open>
  Shared vocabulary of the development: JSON values and Python dictionaries, the exceptions
  the modelled code raises, the few SQL idioms the stores are written in (\<open>SELECT ... WHERE\<close>,
  \<open>scalar_one\<close>, \<open>UPDATE ... WHERE\<close>, \<open>ORDER BY ... LIMIT\<close>), instants and durations, and the
  lemmas about them that every component uses.

  Conventions. A table is the list of its rows in insertion order. A \<open>datetime\<close> in UTC is the
  number of microseconds since the epoch, an \<open>int\<close>; a \<open>timedelta\<close> is a difference of two of
  them. Python integers are \<open>int\<close> (or \<open>nat\<close> where the code only counts upwards from 0).
  A Python \<open>float\<close> is an exact rational (\<open>rat\<close>): rounding is not modelled.
\<close>

section \<open>Proof hints\<close>

named_theorems table_simps "rewriting of table operations"
named_theorems step_intros "introduction rules for steps"
named_theorems keeps_intros "rules that a composed action keeps a property"

section \<open>Exceptions\<close>

text \<open>Every exception that the modelled code raises, or that SQLAlchemy raises in it.\<close>

datatype py_error =
    NoResultFound
  | MultipleResultsFound
  | IntegrityError
  | KeyError string
  | ValueError string
  | RuntimeError string
  | ValidationError string
  | InvalidRunStatusTransitionError string
  | StaleGateResponseError string
  | AnswerKeyLeakageError string "string list"
  | SnapshotPersistenceError string
  | NonStandaloneSnapshotApprovalError string
  | SnapshotVersionMismatchError string
  | SnapshotBaseVersionConflictError string "string option"
  | ExportAdapterError string
  | AuthorizationError string
  | TypeError string
  | ConnectionError string
  | OMCError string
  | CircuitOpenError
  | HTTPException nat string
  | HTTPError string
  | StaleArtifactVersionError string int "int option"
  | ArtifactHasNoVersionsError string
  | ArtifactVersionNotFoundError string int
  | ArtifactDocumentNotFoundError string
  | ArtifactNotCurrentError string int int
  | BlockingReviewNotesOpenError string
  | ReviewNoteNotFoundError string
  | LanguageVersionAlreadyInTargetLanguageError string string
  | ArtifactProjectionConversionError string

type_synonym 'a result = "py_error + 'a"

fun ebind :: "'a result \<Rightarrow> ('a \<Rightarrow> 'b result) \<Rightarrow> 'b result" where
  "ebind (Inl e) f = Inl e"
| "ebind (Inr x) f = f x"

lemma ebind_Inr_iff: "ebind m f = Inr y \<longleftrightarrow> (\<exists>x. m = Inr x \<and> f x = Inr y)"
  by (cases m) auto

lemma ebind_Inl_iff: "ebind m f = Inl e \<longleftrightarrow> m = Inl e \<or> (\<exists>x. m = Inr x \<and> f x = Inl e)"
  by (cases m) auto

text \<open>\<open>x if x is not None else d\<close>.\<close>

definition the_default :: "'a \<Rightarrow> 'a option \<Rightarrow> 'a" where
  "the_default d x = (case x of None \<Rightarrow> d | Some v \<Rightarrow> v)"

lemma the_default_simps [simp]: "the_default d None = d" "the_default d (Some v) = v"
  by (simp_all add: the_default_def)

section \<open>JSON values and dictionaries\<close>

datatype json =
    JNull
  | JBool bool
  | JInt int
  | JStr string
  | JList "json list"
  | JObj "(string \<times> json) list"

type_synonym json_object = "(string \<times> json) list"

text \<open>Python truthiness of a JSON value.\<close>

fun truthy :: "json \<Rightarrow> bool" where
  "truthy JNull = False"
| "truthy (JBool b) = b"
| "truthy (JInt i) = (i \<noteq> 0)"
| "truthy (JStr s) = (s \<noteq> [])"
| "truthy (JList xs) = (xs \<noteq> [])"
| "truthy (JObj kvs) = (kvs \<noteq> [])"

text \<open>\<open>d.get(k)\<close>: Python returns \<open>None\<close> for a missing key, as it does for a null value.\<close>

definition dict_get :: "json_object \<Rightarrow> string \<Rightarrow> json" where
  "dict_get d k = (case map_of d k of None \<Rightarrow> JNull | Some v \<Rightarrow> v)"

text \<open>\<open>{**d, **e}\<close>: keys of \<open>d\<close> keep their place, new keys of \<open>e\<close> follow in order.\<close>

definition dict_merge :: "('k \<times> 'v) list \<Rightarrow> ('k \<times> 'v) list \<Rightarrow> ('k \<times> 'v) list" where
  "dict_merge d e = foldl (\<lambda>acc (k, v). AList.update k v acc) d e"

lemma map_of_dict_merge_snoc:
  "map_of (dict_merge d (e @ [(k, v)])) = (map_of (dict_merge d e))(k \<mapsto> v)"
  by (simp add: dict_merge_def update_conv')

lemma dict_merge_lookup:
  assumes "distinct (map fst e)"
  shows "map_of (dict_merge d e) = map_of d ++ map_of e"
  using assms
proof (induction e rule: rev_induct)
  case Nil
  then show ?case by (simp add: dict_merge_def)
next
  case (snoc kv e)
  obtain k v where kv: "kv = (k, v)" by (cases kv)
  from snoc.prems kv have k: "map_of e k = None" and "distinct (map fst e)"
    by (auto simp: map_of_eq_None_iff)
  with snoc.IH have "map_of (dict_merge d (e @ [kv])) = (map_of d ++ map_of e)(k \<mapsto> v)"
    by (simp add: kv map_of_dict_merge_snoc)
  also have "\<dots> = map_of d ++ map_of (e @ [kv])"
    using k by (auto simp: kv fun_eq_iff map_add_def split: option.splits)
  finally show ?case .
qed

lemma distinct_dict_merge:
  "distinct (map fst d) \<Longrightarrow> distinct (map fst (dict_merge d e))"
  unfolding dict_merge_def
  by (induction e arbitrary: d) (auto simp: distinct_update)

section \<open>SQL idioms\<close>

text \<open>\<open>Result.scalar_one()\<close> and \<open>Result.scalar_one_or_none()\<close>.\<close>

fun scalar_one :: "'a list \<Rightarrow> 'a result" where
  "scalar_one [] = Inl NoResultFound"
| "scalar_one [x] = Inr x"
| "scalar_one (x # y # zs) = Inl MultipleResultsFound"

fun scalar_one_or_none :: "'a list \<Rightarrow> 'a option result" where
  "scalar_one_or_none [] = Inr None"
| "scalar_one_or_none [x] = Inr (Some x)"
| "scalar_one_or_none (x # y # zs) = Inl MultipleResultsFound"

lemma scalar_one_Inr [simp]: "scalar_one xs = Inr x \<longleftrightarrow> xs = [x]"
  by (cases xs rule: scalar_one.cases) auto

lemma scalar_one_or_none_Some [simp]: "scalar_one_or_none xs = Inr (Some x) \<longleftrightarrow> xs = [x]"
  by (cases xs rule: scalar_one_or_none.cases) auto

lemma scalar_one_or_none_None [simp]: "scalar_one_or_none xs = Inr None \<longleftrightarrow> xs = []"
  by (cases xs rule: scalar_one_or_none.cases) auto

text \<open>\<open>UPDATE t SET ... WHERE p\<close>: every row that satisfies \<open>p\<close> is rewritten by \<open>f\<close>.\<close>

definition update_where :: "('a \<Rightarrow> bool) \<Rightarrow> ('a \<Rightarrow> 'a) \<Rightarrow> 'a list \<Rightarrow> 'a list" where
  "update_where p f xs = map (\<lambda>x. if p x then f x else x) xs"

lemma update_where_Nil [table_simps]: "update_where p f [] = []"
  by (simp add: update_where_def)

lemma update_where_Cons [table_simps]:
  "update_where p f (x # xs) = (if p x then f x else x) # update_where p f xs"
  by (simp add: update_where_def)

lemma length_update_where [simp]: "length (update_where p f xs) = length xs"
  by (simp add: update_where_def)

lemma set_update_where:
  "set (update_where p f xs) = (\<lambda>x. if p x then f x else x) ` set xs"
  by (simp add: update_where_def)

lemma map_update_where:
  "(\<And>x. p x \<Longrightarrow> g (f x) = g x) \<Longrightarrow> map g (update_where p f xs) = map g xs"
  by (simp add: update_where_def)

lemma update_where_id: "(\<And>x. x \<in> set xs \<Longrightarrow> \<not> p x) \<Longrightarrow> update_where p f xs = xs"
  unfolding update_where_def by (induction xs) auto

lemma update_where_ball:
  "(\<And>x. x \<in> set xs \<Longrightarrow> P x) \<Longrightarrow> (\<And>x. x \<in> set xs \<Longrightarrow> p x \<Longrightarrow> P (f x)) \<Longrightarrow>
   x \<in> set (update_where p f xs) \<Longrightarrow> P x"
  by (auto simp: set_update_where split: if_splits)

text \<open>A primary key finds at most one row.\<close>

lemma filter_key_le_one:
  "distinct (map key xs) \<Longrightarrow> x \<in> set xs \<Longrightarrow> filter (\<lambda>y. key y = key x) xs = [x]"
proof (induction xs)
  case Nil
  then show ?case by simp
next
  case (Cons a xs)
  then show ?case
    by (cases "a = x") (auto simp: filter_empty_conv image_iff)
qed

lemma distinct_key_eq:
  "distinct (map key xs) \<Longrightarrow> x \<in> set xs \<Longrightarrow> y \<in> set xs \<Longrightarrow> key x = key y \<Longrightarrow> x = y"
  by (auto simp: distinct_map inj_on_def)

lemma filter_and: "filter (\<lambda>x. q x \<and> p x) xs = filter q (filter p xs)"
  by (induction xs) auto

lemma filter_absent_key: "k \<notin> set (map f xs) \<Longrightarrow> filter (\<lambda>x. q x \<and> f x = k) xs = []"
  by (induction xs) auto

lemma filter_singletonD: "filter p xs = [x] \<Longrightarrow> x \<in> set xs \<and> p x"
  by (auto simp: filter_eq_Cons_iff)

text \<open>Rows of the head of an ordered, filtered query.\<close>

lemma sort_key_filter_hdD:
  "filter p (sort_key k xs) = x # ys \<Longrightarrow> x \<in> set xs \<and> p x \<and> (\<forall>y \<in> set xs. p y \<longrightarrow> k x \<le> k y)"
proof -
  assume eq: "filter p (sort_key k xs) = x # ys"
  have "sorted (map k (filter p (sort_key k xs)))"
    by (rule sorted_filter) simp
  with eq have le: "\<forall>y \<in> set ys. k x \<le> k y" by simp
  from eq have "set (filter p (sort_key k xs)) = insert x (set ys)" by simp
  then have "{y \<in> set xs. p y} = insert x (set ys)" by (simp add: filter_set)
  with le show ?thesis by auto
qed

section \<open>Instants, durations, decimal text\<close>

type_synonym instant = int

definition seconds :: "int \<Rightarrow> int" where
  "seconds n = n * 1000000"

definition days :: "int \<Rightarrow> int" where
  "days n = n * 86400 * 1000000"

lemma seconds_mono [simp]: "seconds a \<le> seconds b \<longleftrightarrow> a \<le> b"
  by (simp add: seconds_def)

lemma seconds_pos [simp]: "0 < seconds a \<longleftrightarrow> 0 < a"
  by (simp add: seconds_def)

lemma seconds_nonneg [simp]: "0 \<le> seconds a \<longleftrightarrow> 0 \<le> a"
  by (simp add: seconds_def)

lemma days_mono [simp]: "days a \<le> days b \<longleftrightarrow> a \<le> b"
  by (simp add: days_def)

text \<open>\<open>str(n)\<close> for the integers that the code interpolates into text.\<close>

fun show_nat :: "nat \<Rightarrow> string" where
  "show_nat n =
     (if n < 10 then [char_of (48 + n)] else show_nat (n div 10) @ [char_of (48 + n mod 10)])"

declare show_nat.simps [simp del]

definition show_int :: "int \<Rightarrow> string" where
  "show_int i = (if i < 0 then CHR ''-'' # show_nat (nat (- i)) else show_nat (nat i))"

text \<open>The value a decimal numeral denotes: a left inverse of \<open>show_nat\<close>.\<close>

definition digit_of :: "char \<Rightarrow> nat" where
  "digit_of c = of_char c - 48"

definition read_nat :: "string \<Rightarrow> nat" where
  "read_nat s = foldl (\<lambda>acc c. 10 * acc + digit_of c) 0 s"

lemma digit_of_char [simp]: "d < 10 \<Longrightarrow> digit_of (char_of (48 + d)) = d"
  by (simp add: digit_of_def)

lemma read_show_nat: "read_nat (show_nat n) = n"
proof (induction n rule: show_nat.induct)
  case (1 n)
  show ?case
  proof (cases "n < 10")
    case True
    then show ?thesis by (simp add: read_nat_def show_nat.simps [of n])
  next
    case False
    then have "read_nat (show_nat n) = 10 * read_nat (show_nat (n div 10)) + n mod 10"
      by (simp add: read_nat_def show_nat.simps [of n])
    with 1 False show ?thesis by simp
  qed
qed

lemma show_nat_inj: "show_nat m = show_nat n \<longleftrightarrow> m = n"
  by (metis read_show_nat)

text \<open>A decimal numeral has digits only, so it ends where the next separator starts.\<close>

lemma show_nat_digits: "c \<in> set (show_nat n) \<Longrightarrow> 48 \<le> (of_char c :: nat) \<and> (of_char c :: nat) < 58"
proof (induction n rule: show_nat.induct)
  case (1 n)
  show ?case
  proof (cases "n < 10")
    case True
    with "1.prems" show ?thesis by (simp add: show_nat.simps [of n])
  next
    case False
    then have "c \<in> set (show_nat (n div 10)) \<or> c = char_of (48 + n mod 10)"
      using "1.prems" by (subst (asm) show_nat.simps) auto
    with "1.IH" [OF False] show ?thesis by auto
  qed
qed

lemma show_nat_no_char:
  "of_char c < (48::nat) \<or> (58::nat) \<le> of_char c \<Longrightarrow> c \<notin> set (show_nat n)"
  using show_nat_digits by fastforce

lemma colon_not_in_show_nat [simp]: "CHR '':'' \<notin> set (show_nat n)"
  by (rule show_nat_no_char) simp

text \<open>Two texts split at the last separator agree piecewise.\<close>

lemma split_first_sep:
  "xs @ c # ys = xs' @ c # ys' \<Longrightarrow> c \<notin> set xs \<Longrightarrow> c \<notin> set xs' \<Longrightarrow> xs = xs' \<and> ys = ys'"
proof (induction xs arbitrary: xs')
  case Nil
  then show ?case by (cases xs') auto
next
  case (Cons x xs)
  then show ?case by (cases xs') auto
qed

lemma split_last_sep:
  assumes "xs @ c # ys = xs' @ c # ys'" and "c \<notin> set ys" and "c \<notin> set ys'"
  shows "xs = xs' \<and> ys = ys'"
  using split_first_sep [of "rev ys" c "rev xs" "rev ys'" "rev xs'"]
    arg_cong [OF assms(1), of rev] assms(2,3) by simp

section \<open>Text\<close>

text \<open>\<open>str.strip()\<close> and \<open>str.split(sep)\<close>, of ASCII text.\<close>

definition blank :: "char \<Rightarrow> bool" where
  "blank c \<longleftrightarrow> c \<in> set [CHR '' '', CHR 0x09, CHR 0x0A, CHR 0x0B, CHR 0x0C, CHR 0x0D,
     CHR 0x1C, CHR 0x1D, CHR 0x1E, CHR 0x1F]"

definition strip :: "string \<Rightarrow> string" where
  "strip s = rev (dropWhile blank (rev (dropWhile blank s)))"

fun split_on :: "char \<Rightarrow> string \<Rightarrow> string list" where
  "split_on sep [] = [[]]"
| "split_on sep (c # cs) =
     (if c = sep then [] # split_on sep cs
      else case split_on sep cs of [] \<Rightarrow> [[c]] | w # ws \<Rightarrow> (c # w) # ws)"

text \<open>\<open>str(v)\<close> of a JSON value; \<open>py_str\<close> is Python's \<open>str\<close> on a list or a dictionary.\<close>

fun json_str :: "(json \<Rightarrow> string) \<Rightarrow> json \<Rightarrow> string" where
  "json_str py_str JNull = ''None''"
| "json_str py_str (JBool b) = (if b then ''True'' else ''False'')"
| "json_str py_str (JInt i) = show_int i"
| "json_str py_str (JStr s) = s"
| "json_str py_str (JList xs) = py_str (JList xs)"
| "json_str py_str (JObj kvs) = py_str (JObj kvs)"

text \<open>
  \<open>int(s)\<close> of a text: an optional sign and decimal digits, with single underscores between digits,
  surrounded by blanks.
\<close>

definition digits :: "string \<Rightarrow> bool" where
  "digits s \<longleftrightarrow> s \<noteq> [] \<and> (\<forall>c \<in> set s. 48 \<le> (of_char c :: nat) \<and> (of_char c :: nat) < 58)"

definition int_of_digits :: "string \<Rightarrow> int option" where
  "int_of_digits s =
     (let parts = split_on (CHR ''_'') s
      in if \<forall>w \<in> set parts. digits w then Some (int (read_nat (concat parts))) else None)"

definition int_of_text :: "string \<Rightarrow> int option" where
  "int_of_text s =
     (case strip s of
        [] \<Rightarrow> None
      | c # cs \<Rightarrow>
          if c = CHR ''-'' then map_option uminus (int_of_digits cs)
          else if c = CHR ''+'' then int_of_digits cs else int_of_digits (c # cs))"

text \<open>\<open>int(str(i))\<close> is \<open>i\<close>.\<close>

lemma strip_plain: "\<forall>c \<in> set s. \<not> blank c \<Longrightarrow> strip s = s"
proof -
  have plain: "dropWhile blank xs = xs" if "\<forall>c \<in> set xs. \<not> blank c" for xs
    using that by (cases xs) auto
  show "\<forall>c \<in> set s. \<not> blank c \<Longrightarrow> strip s = s" by (simp add: strip_def plain)
qed

lemma split_on_plain: "sep \<notin> set s \<Longrightarrow> split_on sep s = [s]"
  by (induction s) auto

lemma show_nat_Nil [simp]: "show_nat n \<noteq> []"
  by (simp add: show_nat.simps [of n])

lemma int_of_digits_show: "int_of_digits (show_nat n) = Some (int n)"
proof -
  have "digits (show_nat n)" using show_nat_digits by (auto simp: digits_def)
  moreover have "CHR ''_'' \<notin> set (show_nat n)" by (rule show_nat_no_char) simp
  ultimately show ?thesis by (simp add: int_of_digits_def split_on_plain read_show_nat)
qed

lemma blank_code: "blank c \<Longrightarrow> (of_char c :: nat) < 33"
  by (auto simp: blank_def)

lemma strip_show_int: "strip (show_int i) = show_int i"
proof (rule strip_plain, rule ballI, rule notI)
  fix c
  assume "c \<in> set (show_int i)" and "blank c"
  then show False
    using show_nat_digits [of c "nat (- i)"] show_nat_digits [of c "nat i"] blank_code [of c]
    by (auto simp: show_int_def split: if_splits)
qed

lemma int_of_text_show_int: "int_of_text (show_int i) = Some i"
proof (cases "i < 0")
  case True
  then have "strip (show_int i) = CHR ''-'' # show_nat (nat (- i))"
    unfolding strip_show_int by (simp add: show_int_def)
  with True show ?thesis by (simp add: int_of_text_def int_of_digits_show)
next
  case False
  then have plain: "strip (show_int i) = show_nat (nat i)"
    unfolding strip_show_int by (simp add: show_int_def)
  obtain c cs where cs: "show_nat (nat i) = c # cs" by (cases "show_nat (nat i)") simp_all
  then have "48 \<le> (of_char c :: nat)" using show_nat_digits [of c "nat i"] by simp
  then have "c \<noteq> CHR ''-''" and "c \<noteq> CHR ''+''" by auto
  with False plain cs show ?thesis
    using int_of_digits_show [of "nat i"] by (simp add: int_of_text_def)
qed

text \<open>\<open>int(v or 0)\<close> of a JSON value.\<close>

fun int_or_0 :: "json \<Rightarrow> int result" where
  "int_or_0 JNull = Inr 0"
| "int_or_0 (JBool b) = Inr (if b then 1 else 0)"
| "int_or_0 (JInt i) = Inr i"
| "int_or_0 (JStr s) =
     (if s = [] then Inr 0
      else case int_of_text s of None \<Rightarrow> Inl (ValueError s) | Some i \<Rightarrow> Inr i)"
| "int_or_0 (JList xs) = (if xs = [] then Inr 0 else Inl (TypeError ''list''))"
| "int_or_0 (JObj kvs) = (if kvs = [] then Inr 0 else Inl (TypeError ''dict''))"

end
