(* ===== verification/Stages.thy ===== *)
theory Stages
  imports Prelude
begin

text \<open>
  The stage names of the teaching-pack graph and the event names derived from them
  (\<open>packages/agents/teaching_pack/stages.py\<close>).
\<close>

datatype stage =
    SETUP_CONTRACT | TRIAGE | UNIT_PLANNING | UNIT_APPROVAL | UNIT_PREP | PREPLANNING_SEARCH
  | PLANNING_BLUEPRINT | PROVISIONAL_COMPONENT_STRATEGY | POST_BLUEPRINT_RESEARCH
  | FINALIZE_COMPONENT_STRATEGY | ARTIFACT_WORKFLOW | RENDER_QUALITY | COMPLIANCE_GATE
  | TEACHER_APPROVAL | EXPORT_FINALIZE

fun stage_value :: "stage \<Rightarrow> string" where
  "stage_value SETUP_CONTRACT = ''setup_contract''"
| "stage_value TRIAGE = ''triage''"
| "stage_value UNIT_PLANNING = ''unit_planning''"
| "stage_value UNIT_APPROVAL = ''unit_approval''"
| "stage_value UNIT_PREP = ''unit_prep''"
| "stage_value PREPLANNING_SEARCH = ''preplanning_search''"
| "stage_value PLANNING_BLUEPRINT = ''planning_blueprint''"
| "stage_value PROVISIONAL_COMPONENT_STRATEGY = ''provisional_component_strategy''"
| "stage_value POST_BLUEPRINT_RESEARCH = ''post_blueprint_research''"
| "stage_value FINALIZE_COMPONENT_STRATEGY = ''finalize_component_strategy''"
| "stage_value ARTIFACT_WORKFLOW = ''artifact_workflow''"
| "stage_value RENDER_QUALITY = ''render_quality''"
| "stage_value COMPLIANCE_GATE = ''compliance_gate''"
| "stage_value TEACHER_APPROVAL = ''teacher_approval''"
| "stage_value EXPORT_FINALIZE = ''export_finalize''"

text \<open>\<open>_event_name\<close> spells the same values out again before it builds the name.\<close>

fun event_name_part :: "stage \<Rightarrow> string" where
  "event_name_part SETUP_CONTRACT = ''setup_contract''"
| "event_name_part TRIAGE = ''triage''"
| "event_name_part UNIT_PLANNING = ''unit_planning''"
| "event_name_part UNIT_APPROVAL = ''unit_approval''"
| "event_name_part UNIT_PREP = ''unit_prep''"
| "event_name_part PREPLANNING_SEARCH = ''preplanning_search''"
| "event_name_part PLANNING_BLUEPRINT = ''planning_blueprint''"
| "event_name_part PROVISIONAL_COMPONENT_STRATEGY = ''provisional_component_strategy''"
| "event_name_part POST_BLUEPRINT_RESEARCH = ''post_blueprint_research''"
| "event_name_part FINALIZE_COMPONENT_STRATEGY = ''finalize_component_strategy''"
| "event_name_part ARTIFACT_WORKFLOW = ''artifact_workflow''"
| "event_name_part RENDER_QUALITY = ''render_quality''"
| "event_name_part COMPLIANCE_GATE = ''compliance_gate''"
| "event_name_part TEACHER_APPROVAL = ''teacher_approval''"
| "event_name_part EXPORT_FINALIZE = ''export_finalize''"

definition stage_event_name :: "stage \<Rightarrow> string \<Rightarrow> string" where
  "stage_event_name s suffix = ''teaching_pack.'' @ event_name_part s @ ''.'' @ suffix"

definition started_event :: "stage \<Rightarrow> string" where
  "started_event s = stage_event_name s ''started''"

definition completed_event :: "stage \<Rightarrow> string" where
  "completed_event s = stage_event_name s ''completed''"

definition TEACHING_PACK_STAGES :: "stage list" where
  "TEACHING_PACK_STAGES =
     [SETUP_CONTRACT, TRIAGE, PREPLANNING_SEARCH, PLANNING_BLUEPRINT, POST_BLUEPRINT_RESEARCH,
      ARTIFACT_WORKFLOW, RENDER_QUALITY, COMPLIANCE_GATE, TEACHER_APPROVAL, EXPORT_FINALIZE]"

definition TEACHING_PACK_STAGES_WITH_COMPONENT_STRATEGY :: "stage list" where
  "TEACHING_PACK_STAGES_WITH_COMPONENT_STRATEGY =
     [SETUP_CONTRACT, TRIAGE, PREPLANNING_SEARCH, PLANNING_BLUEPRINT,
      PROVISIONAL_COMPONENT_STRATEGY, POST_BLUEPRINT_RESEARCH, FINALIZE_COMPONENT_STRATEGY,
      TEACHER_APPROVAL, ARTIFACT_WORKFLOW, RENDER_QUALITY, COMPLIANCE_GATE, EXPORT_FINALIZE]"

definition teaching_pack_stages :: "bool \<Rightarrow> stage list" where
  "teaching_pack_stages component_strategy_enabled =
     (if component_strategy_enabled then TEACHING_PACK_STAGES_WITH_COMPONENT_STRATEGY
      else TEACHING_PACK_STAGES)"

text \<open>The loop of \<open>stage_number\<close> over \<open>enumerate(TEACHING_PACK_STAGES, start=1)\<close>.\<close>

fun stage_number_from :: "nat \<Rightarrow> stage list \<Rightarrow> stage \<Rightarrow> nat" where
  "stage_number_from i [] s = length TEACHING_PACK_STAGES + 1"
| "stage_number_from i (c # cs) s = (if c = s then i else stage_number_from (Suc i) cs s)"

definition stage_number :: "stage \<Rightarrow> nat" where
  "stage_number s = stage_number_from 1 TEACHING_PACK_STAGES s"

lemma event_name_part_value: "event_name_part s = stage_value s"
  by (cases s) simp_all

lemma stage_value_inj: "stage_value a = stage_value b \<longleftrightarrow> a = b"
  by (cases a; cases b) simp_all

lemma stage_event_name_inj:
  "stage_event_name a s = stage_event_name b s \<longleftrightarrow> a = b"
  by (simp add: stage_event_name_def event_name_part_value stage_value_inj)

lemma started_neq_completed: "started_event a \<noteq> completed_event b"
proof
  assume "started_event a = completed_event b"
  then have "rev (started_event a) ! 3 = rev (completed_event b) ! 3" by simp
  then show False
    by (simp add: started_event_def completed_event_def stage_event_name_def numeral_3_eq_3)
qed

text \<open>
  In the pipeline without component strategy \<open>stage_number\<close> is the
  position of the stage, and with component strategy it is not: the extra stages share one number
  past the end, and teacher approval is numbered after artifact generation although it runs first.
\<close>
lemma stage_number_positions:
  "map stage_number (teaching_pack_stages False) = [1..<11]
   \<and> map stage_number (teaching_pack_stages True) = [1, 2, 3, 4, 11, 5, 11, 9, 6, 7, 8, 10]"
  by (simp add: teaching_pack_stages_def stage_number_def TEACHING_PACK_STAGES_def upt_rec
      TEACHING_PACK_STAGES_WITH_COMPONENT_STRATEGY_def)

end
