(* ===== verification/Status_Machine.thy ===== *)
theory Status_Machine
  imports Prelude
begin

text \<open>
  The interface of a lifecycle table: a finite table of allowed successors and a validator that
  accepts a transition when nothing changes or when the table lists the successor. The gateway
  has two of them, for runs (\<open>teaching_pack_status.py\<close>) and for live teaching sessions
  (\<open>teaching_session/status.py\<close>); both interpret this locale.
\<close>

datatype 's transition_result =
    Transition_Accepted (from_status: 's) (to_status: 's)
  | Transition_Rejected (from_status: 's) (to_status: 's) (reject_reason: string)

locale status_machine =
  fixes allowed :: "'s \<Rightarrow> 's list"
    and validate :: "'s \<Rightarrow> 's \<Rightarrow> 's transition_result"
  assumes validate_accepts:
      "a = b \<or> b \<in> set (allowed a) \<Longrightarrow> validate a b = Transition_Accepted a b"
    and validate_rejects:
      "a \<noteq> b \<Longrightarrow> b \<notin> set (allowed a) \<Longrightarrow>
       validate a b = Transition_Rejected a b ''transition_not_allowed''"
    and irreflexive: "a \<notin> set (allowed a)"
begin

lemma accepted_iff: "validate a b = Transition_Accepted a b \<longleftrightarrow> a = b \<or> b \<in> set (allowed a)"
  using validate_accepts validate_rejects by fastforce

lemma rejected_iff:
  "(\<exists>r. validate a b = Transition_Rejected a b r) \<longleftrightarrow> a \<noteq> b \<and> b \<notin> set (allowed a)"
  using validate_accepts validate_rejects by fastforce

lemma terminal_final:
  assumes "(\<lambda>a b. validate a b = Transition_Accepted a b)\<^sup>*\<^sup>* a b" and "allowed a = []"
  shows "b = a"
  using assms
proof (induction rule: rtranclp_induct)
  case base
  show ?case by simp
next
  case (step y z)
  then show ?case by (simp add: accepted_iff)
qed

lemma closed_set:
  assumes "(\<lambda>a b. validate a b = Transition_Accepted a b)\<^sup>*\<^sup>* a b"
    and "a \<in> S" and "\<And>x y. x \<in> S \<Longrightarrow> y \<in> set (allowed x) \<Longrightarrow> y \<in> S"
  shows "b \<in> S"
  using assms(1,2)
proof (induction rule: rtranclp_induct)
  case base
  then show ?case .
next
  case (step y z)
  then show ?case using assms(3) by (auto simp: accepted_iff)
qed

end

text \<open>A lifecycle that only moves forward: every listed successor is later in the order.\<close>

locale forward_machine = status_machine allowed validate
  for allowed :: "'s::linorder \<Rightarrow> 's list" and validate :: "'s \<Rightarrow> 's \<Rightarrow> 's transition_result" +
  assumes forward: "b \<in> set (allowed a) \<Longrightarrow> a < b"
begin

lemma accepted_le: "validate a b = Transition_Accepted a b \<Longrightarrow> a \<le> b"
  by (auto simp: accepted_iff dest: forward)

lemma reach_le: "(\<lambda>a b. validate a b = Transition_Accepted a b)\<^sup>*\<^sup>* a b \<Longrightarrow> a \<le> b"
  by (induction rule: rtranclp_induct) (auto dest: accepted_le)

lemma no_return:
  "(\<lambda>a b. validate a b = Transition_Accepted a b)\<^sup>*\<^sup>* a b \<Longrightarrow> a \<noteq> b \<Longrightarrow>
   \<not> (\<lambda>a b. validate a b = Transition_Accepted a b)\<^sup>*\<^sup>* b a"
  using reach_le by (meson order.antisym)

end

end
