(* ===== verification/Run_Status.thy ===== *)
theory Run_Status
  imports Status_Machine
begin

text \<open>
  The lifecycle of a teaching-pack run (\<open>services/gateway/models.py\<close> \<open>RunStatus\<close> and
  \<open>services/gateway/teaching_pack_status.py\<close>): the statuses, the table of allowed transitions,
  the validator, and what follows from the table: which statuses are final and which stations a
  run must pass before it can be completed.
\<close>

datatype run_status =
    PENDING | PLANNING | RESEARCHING | GENERATING | REVIEWING
  | AWAITING_APPROVAL | EXPORTING | COMPLETED | FAILED | CANCELLED

datatype unit_role = STANDALONE | UNIT_PARENT | UNIT_SESSION

fun run_status_value :: "run_status \<Rightarrow> string" where
  "run_status_value PENDING = ''pending''"
| "run_status_value PLANNING = ''planning''"
| "run_status_value RESEARCHING = ''researching''"
| "run_status_value GENERATING = ''generating''"
| "run_status_value REVIEWING = ''reviewing''"
| "run_status_value AWAITING_APPROVAL = ''awaiting_approval''"
| "run_status_value EXPORTING = ''exporting''"
| "run_status_value COMPLETED = ''completed''"
| "run_status_value FAILED = ''failed''"
| "run_status_value CANCELLED = ''cancelled''"

fun run_allowed_transitions :: "run_status \<Rightarrow> run_status list" where
  "run_allowed_transitions PENDING = [PLANNING, AWAITING_APPROVAL, CANCELLED, FAILED]"
| "run_allowed_transitions PLANNING = [RESEARCHING, AWAITING_APPROVAL, CANCELLED, FAILED]"
| "run_allowed_transitions RESEARCHING = [GENERATING, CANCELLED, FAILED]"
| "run_allowed_transitions GENERATING = [REVIEWING, AWAITING_APPROVAL, CANCELLED, FAILED]"
| "run_allowed_transitions REVIEWING = [AWAITING_APPROVAL, EXPORTING, CANCELLED, FAILED]"
| "run_allowed_transitions AWAITING_APPROVAL =
     [PLANNING, GENERATING, EXPORTING, CANCELLED, FAILED]"
| "run_allowed_transitions EXPORTING = [COMPLETED, FAILED, CANCELLED]"
| "run_allowed_transitions COMPLETED = []"
| "run_allowed_transitions FAILED = []"
| "run_allowed_transitions CANCELLED = []"

definition validate_status_transition :: "run_status \<Rightarrow> run_status \<Rightarrow> run_status transition_result" where
  "validate_status_transition a b =
     (if a = b then Transition_Accepted a b
      else if b \<in> set (run_allowed_transitions a) then Transition_Accepted a b
      else Transition_Rejected a b ''transition_not_allowed'')"

interpretation run_machine: status_machine run_allowed_transitions validate_status_transition
proof unfold_locales
  fix a b :: run_status
  show "a = b \<or> b \<in> set (run_allowed_transitions a) \<Longrightarrow>
    validate_status_transition a b = Transition_Accepted a b"
    by (auto simp: validate_status_transition_def)
  show "a \<noteq> b \<Longrightarrow> b \<notin> set (run_allowed_transitions a) \<Longrightarrow>
    validate_status_transition a b = Transition_Rejected a b ''transition_not_allowed''"
    by (simp add: validate_status_transition_def)
  show "a \<notin> set (run_allowed_transitions a)" by (cases a) simp_all
qed

abbreviation run_step :: "run_status \<Rightarrow> run_status \<Rightarrow> bool" where
  "run_step \<equiv> (\<lambda>a b. validate_status_transition a b = Transition_Accepted a b)"

definition run_terminal :: "run_status \<Rightarrow> bool" where
  "run_terminal s \<longleftrightarrow> s \<in> {COMPLETED, FAILED, CANCELLED}"

lemma run_terminal_iff: "run_terminal s \<longleftrightarrow> run_allowed_transitions s = []"
  by (cases s) (simp_all add: run_terminal_def)

lemma run_status_value_inj: "run_status_value a = run_status_value b \<longleftrightarrow> a = b"
  by (cases a; cases b) simp_all

lemma run_completed_pred: "run_step a COMPLETED \<longleftrightarrow> a \<in> {EXPORTING, COMPLETED}"
  unfolding run_machine.accepted_iff by (cases a) simp_all

lemma run_exporting_pred: "run_step a EXPORTING \<longleftrightarrow> a \<in> {REVIEWING, AWAITING_APPROVAL, EXPORTING}"
  unfolding run_machine.accepted_iff by (cases a) simp_all

text \<open>
  A path is a list of statuses in which each is an accepted successor of the one before, the
  shape the status history of a run has.
\<close>

fun run_path :: "run_status list \<Rightarrow> bool" where
  "run_path [] = True"
| "run_path [a] = True"
| "run_path (a # b # xs) = (run_step a b \<and> run_path (b # xs))"

lemma run_path_snoc: "run_path (xs @ [b]) \<longleftrightarrow> run_path xs \<and> (xs \<noteq> [] \<longrightarrow> run_step (last xs) b)"
  by (induction xs rule: run_path.induct) auto

lemma run_path_reach: "run_path (a # xs) \<Longrightarrow> b \<in> set (a # xs) \<Longrightarrow> run_step\<^sup>*\<^sup>* a b"
proof (induction xs arbitrary: a)
  case Nil
  then show ?case by simp
next
  case (Cons c xs)
  then have "run_step a c" and "b = a \<or> run_step\<^sup>*\<^sup>* c b" by auto
  then show ?case by (auto intro: converse_rtranclp_into_rtranclp)
qed

lemma run_path_visits:
  assumes "run_path (a # xs)" and "last (a # xs) \<in> T" and "a \<notin> T"
    and "\<And>x y. run_step x y \<Longrightarrow> y \<in> T \<Longrightarrow> x \<in> T \<or> x \<in> V"
  shows "\<exists>v \<in> set (a # xs). v \<in> V"
  using assms(1-3)
proof (induction xs arbitrary: a)
  case Nil
  then show ?case by simp
next
  case (Cons b xs)
  show ?case
  proof (cases "b \<in> T")
    case True
    with Cons.prems assms(4) [of a b] show ?thesis by auto
  next
    case False
    with Cons show ?thesis by fastforce
  qed
qed

text \<open>
  a run that has reached completed, failed or cancelled never has any other
  status again, whatever transitions are requested of it.
\<close>
lemma run_terminal_final:
  assumes "run_terminal a" and "run_step\<^sup>*\<^sup>* a b"
  shows "b = a"
  using run_machine.terminal_final [OF assms(2)] assms(1) by (simp add: run_terminal_iff)

lemma run_terminal_final_witness: "run_terminal FAILED \<and> FAILED = FAILED"
  using run_terminal_final [of FAILED FAILED] by (simp add: run_terminal_def)

text \<open>
  Every history that starts at pending and ends at completed contains an
  exporting entry and, before it, a reviewing or awaiting-approval entry: no run is completed
  without having stood at a point where it could be reviewed.
\<close>
lemma run_completion_path:
  assumes "run_path (PENDING # xs)" and "last (PENDING # xs) = COMPLETED"
  shows "EXPORTING \<in> set xs \<and> (REVIEWING \<in> set xs \<or> AWAITING_APPROVAL \<in> set xs)"
proof -
  have "\<exists>v \<in> set (PENDING # xs). v \<in> {EXPORTING}"
    by (rule run_path_visits [where T = "{COMPLETED}"]) (use assms run_completed_pred in auto)
  moreover have "\<exists>v \<in> set (PENDING # xs). v \<in> {REVIEWING, AWAITING_APPROVAL}"
    by (rule run_path_visits [where T = "{COMPLETED, EXPORTING}"])
      (use assms run_completed_pred run_exporting_pred in auto)
  ultimately show ?thesis by auto
qed

lemma run_completion_path_witness:
  "EXPORTING \<in> set [PLANNING, RESEARCHING, GENERATING, REVIEWING, EXPORTING, COMPLETED]"
  using run_completion_path [of "[PLANNING, RESEARCHING, GENERATING, REVIEWING, EXPORTING, COMPLETED]"]
  by (simp add: validate_status_transition_def)

text \<open>Every run that is not final can still be failed or cancelled, in one step.\<close>

lemma run_can_abort: "\<not> run_terminal s \<Longrightarrow> run_step s FAILED \<and> run_step s CANCELLED"
  unfolding run_machine.accepted_iff by (cases s) (simp_all add: run_terminal_def)

text \<open>Every run that is not final can still be completed.\<close>

lemma run_can_complete: "\<not> run_terminal s \<Longrightarrow> run_step\<^sup>*\<^sup>* s COMPLETED"
proof -
  have steps: "run_step EXPORTING COMPLETED" "run_step AWAITING_APPROVAL EXPORTING"
    "run_step REVIEWING EXPORTING" "run_step GENERATING REVIEWING" "run_step RESEARCHING GENERATING"
    "run_step PLANNING RESEARCHING" "run_step PENDING PLANNING"
    by (simp_all add: validate_status_transition_def)
  then have e: "run_step\<^sup>*\<^sup>* EXPORTING COMPLETED" by blast
  then have r: "run_step\<^sup>*\<^sup>* REVIEWING COMPLETED" and a: "run_step\<^sup>*\<^sup>* AWAITING_APPROVAL COMPLETED"
    using steps(2,3) by (meson converse_rtranclp_into_rtranclp)+
  then have g: "run_step\<^sup>*\<^sup>* RESEARCHING COMPLETED" "run_step\<^sup>*\<^sup>* GENERATING COMPLETED"
    using steps(4,5) by (meson converse_rtranclp_into_rtranclp)+
  then have p: "run_step\<^sup>*\<^sup>* PLANNING COMPLETED" "run_step\<^sup>*\<^sup>* PENDING COMPLETED"
    using steps(6,7) by (meson converse_rtranclp_into_rtranclp)+
  assume "\<not> run_terminal s"
  with e r a g p show ?thesis by (cases s) (simp_all add: run_terminal_def)
qed

end
