(* ===== verification/Sequenced_Log.thy ===== *)
theory Sequenced_Log
  imports Prelude
begin

text \<open>
  The interface of an append-only log that numbers its entries per stream: each append to a
  stream takes \<open>COALESCE(MAX(sequence), 0) + 1\<close> under an advisory lock. The run-event ledger
  (one stream per run) and the live-session event log (one stream per session) both provide it.
  What clients rely on is proved here once: the sequence numbers of a stream are exactly
  1, 2, ..., n, so replaying after a known number yields the missing suffix and nothing else.
\<close>

text \<open>\<open>SELECT COALESCE(MAX(sequence), 0) + 1\<close> over the numbers of one stream.\<close>

definition next_seq :: "nat list \<Rightarrow> nat" where
  "next_seq ns = Suc (foldr max ns 0)"

lemma foldr_max_absorb: "\<forall>x \<in> set xs. x \<le> (m::nat) \<Longrightarrow> foldr max xs m = m"
  by (induction xs) auto

lemma foldr_max_upt: "foldr max [1..<Suc n] 0 = n"
proof (cases n)
  case 0
  then show ?thesis by simp
next
  case (Suc m)
  have "foldr max [1..<Suc (Suc m)] 0 = foldr max [1..<Suc m] (Suc m)" by simp
  also have "\<dots> = Suc m" by (rule foldr_max_absorb) auto
  finally show ?thesis by (simp only: Suc)
qed

lemma next_seq_gt: "n \<in> set ns \<Longrightarrow> n < next_seq ns"
  unfolding next_seq_def by (induction ns) (auto simp: less_Suc_eq_le)

lemma next_seq_upt: "next_seq [1..<Suc n] = Suc n"
  by (simp only: next_seq_def foldr_max_upt)

text \<open>A stream without gaps: its numbers are 1, 2, ..., n in insertion order.\<close>

definition gapless :: "nat list \<Rightarrow> bool" where
  "gapless ns \<longleftrightarrow> ns = [1..<Suc (length ns)]"

lemma gapless_Nil [simp]: "gapless []"
  by (simp add: gapless_def)

lemma next_of_gapless: "gapless ns \<Longrightarrow> next_seq ns = Suc (length ns)"
  by (metis gapless_def next_seq_upt)

lemma gapless_snoc: "gapless ns \<Longrightarrow> gapless (ns @ [next_seq ns])"
  unfolding next_of_gapless by (simp add: gapless_def next_of_gapless)

lemma gapless_distinct: "gapless ns \<Longrightarrow> distinct ns"
  by (metis gapless_def distinct_upt)

lemma gapless_sorted: "gapless ns \<Longrightarrow> sorted ns"
  by (metis gapless_def sorted_upt)

lemma gapless_set: "gapless ns \<Longrightarrow> s \<in> set ns \<longleftrightarrow> 1 \<le> s \<and> s \<le> length ns"
  by (metis atLeastLessThan_iff gapless_def less_Suc_eq_le set_upt)

lemma gapless_after: "gapless ns \<Longrightarrow> filter (\<lambda>s. n < s) ns = drop n ns"
proof -
  have "filter (\<lambda>s. n < s) [1..<Suc m] = drop n [1..<Suc m]" for m
  proof (induction m)
    case 0
    then show ?case by simp
  next
    case (Suc m)
    have u: "[1..<Suc (Suc m)] = [1..<Suc m] @ [Suc m]" by simp
    show ?case unfolding u filter_append drop_append Suc by auto
  qed
  then show "gapless ns \<Longrightarrow> ?thesis" by (metis gapless_def)
qed

lemma filter_map_drop:
  "map f xs = ys \<Longrightarrow> filter P ys = drop n ys \<Longrightarrow> distinct ys \<Longrightarrow> filter (\<lambda>x. P (f x)) xs = drop n xs"
proof -
  assume m: "map f xs = ys" and fl: "filter P ys = drop n ys" and d: "distinct ys"
  have "map f (filter (\<lambda>x. P (f x)) xs) = map f (drop n xs)"
    using fl by (simp add: m [symmetric] filter_map drop_map comp_def)
  moreover have "inj_on f (set xs)" using d by (simp add: m [symmetric] distinct_map)
  moreover have "set (filter (\<lambda>x. P (f x)) xs) \<union> set (drop n xs) \<subseteq> set xs"
    by (auto dest: in_set_dropD)
  ultimately show ?thesis by (metis inj_on_map_eq_map inj_on_subset)
qed

lemma gapless_rows_after:
  "gapless (map f xs) \<Longrightarrow> filter (\<lambda>x. n < f x) xs = drop n xs"
  by (rule filter_map_drop [OF refl gapless_after gapless_distinct])

lemma gapless_rows_sorted: "gapless (map f xs) \<Longrightarrow> sort_key f (drop n xs) = drop n xs"
  using gapless_sorted [of "map f xs"]
  by (simp add: sort_key_id_if_sorted sorted_wrt_drop drop_map [symmetric])

locale sequenced_log =
  fixes seqs :: "'l \<Rightarrow> 'k \<Rightarrow> nat list"
    and appended :: "'k \<Rightarrow> 'l \<Rightarrow> 'l \<Rightarrow> bool"
  assumes own_stream: "appended k l l' \<Longrightarrow> seqs l' k = seqs l k @ [next_seq (seqs l k)]"
    and other_streams: "appended k l l' \<Longrightarrow> k' \<noteq> k \<Longrightarrow> seqs l' k' = seqs l k'"
begin

lemma gapless_appended:
  assumes "\<And>k. gapless (seqs l k)" and "appended k l l'"
  shows "gapless (seqs l' j)"
  using own_stream [OF assms(2)] other_streams [OF assms(2)] gapless_snoc [OF assms(1)] assms(1)
  by (cases "j = k") simp_all

lemma gapless_run:
  assumes "(\<lambda>l l'. (\<exists>k. appended k l l') \<or> seqs l' = seqs l)\<^sup>*\<^sup>* l l'"
    and "\<And>k. gapless (seqs l k)"
  shows "gapless (seqs l' j)"
proof -
  from assms(1) have "\<forall>k. gapless (seqs l' k)"
  proof (induction rule: rtranclp_induct)
    case base
    then show ?case using assms(2) by simp
  next
    case (step y z)
    then show ?case using gapless_appended by metis
  qed
  then show ?thesis ..
qed

text \<open>Earlier entries keep their numbers: a stream only grows at its end.\<close>

lemma prefix_kept: "appended k l l' \<Longrightarrow> \<exists>ns. seqs l' j = seqs l j @ ns"
  using own_stream other_streams by (cases "j = k") fastforce+

lemma appended_number:
  "(\<And>k. gapless (seqs l k)) \<Longrightarrow> appended k l l' \<Longrightarrow>
   last (seqs l' k) = Suc (length (seqs l k))"
  using own_stream next_of_gapless by simp

end

end
