(* ===== verification/Run_Store.thy ===== *)
theory Run_Store
  imports Run_Status Stages Sequenced_Log
begin

text \<open>
  The run store and its transactional outbox (\<open>services/gateway/teaching_pack_store.py\<close>,
  \<open>services/gateway/run_event_outbox.py\<close>, rows from \<open>models.py\<close> and
  \<open>teaching_pack_models.py\<close>). The state is the part of the database these functions touch:
  runs, their status history, the run-event ledger and the outbox, plus the set of run ids that the
  session will notify after commit. A function that raises returns \<open>Inl\<close>, and the transaction is
  rolled back by its caller, so no new state is returned with an error.
\<close>

section \<open>Rows\<close>

datatype visibility = VIS_TEACHER | VIS_ADMIN | VIS_INTERNAL

record run_row =
  run_id :: string
  run_teacher_id :: string
  run_organization_id :: string
  run_status :: run_status
  run_current_step :: int
  run_raw_request :: string
  run_class_info :: json_object
  run_retention_days :: "int option"
  run_artifact_types :: "string list"
  run_theme :: string
  run_quality_passed :: bool
  run_teacher_approved :: bool
  run_revision_count :: int
  run_export_formats :: "string list"
  run_tokens_used :: int
  run_deleted_at :: "instant option"
  run_deleted_by :: "string option"
  run_parent_run_id :: "string option"
  run_session_id :: "string option"
  run_session_index :: "int option"
  run_unit_role :: unit_role
  run_lesson_sequence :: "json_object option"

record history_row =
  hist_run_id :: string
  hist_status :: run_status
  hist_stage :: "string option"
  hist_reason :: "string option"

record event_row =
  ev_run_id :: string
  ev_sequence :: nat
  ev_name :: string
  ev_stage :: "string option"
  ev_visibility :: visibility
  ev_payload :: "json_object option"
  ev_created_at :: instant

datatype outbox_status = OB_PENDING | OB_PUBLISHING | OB_PUBLISHED

record outbox_row =
  outbox_id :: nat
  ob_run_id :: string
  ob_sequence :: nat
  ob_dedupe_key :: string
  ob_status :: outbox_status
  ob_attempts :: nat
  ob_available_at :: "instant option"
  ob_lease_owner :: "string option"
  ob_lease_expires_at :: "instant option"
  ob_last_error :: "string option"
  ob_published_at :: "instant option"

record pack_db =
  runs :: "run_row list"
  run_history :: "history_row list"
  run_events :: "event_row list"
  outbox :: "outbox_row list"
  next_outbox_id :: nat
  pending_event_run_ids :: "string list"

section \<open>Payload records\<close>

record run_create =
  rc_run_id :: string
  rc_teacher_id :: string
  rc_raw_request :: string
  rc_class_info :: json_object
  rc_retention_days :: "int option"
  rc_organization_id :: "string option"

record run_read =
  rr_run_id :: string
  rr_teacher_id :: string
  rr_status :: run_status
  rr_raw_request :: string
  rr_organization_id :: string

record event_create =
  ec_run_id :: string
  ec_event_name :: string
  ec_visibility :: visibility
  ec_stage :: "stage option"
  ec_payload :: "json_object option"

record event_read =
  er_run_id :: string
  er_sequence :: nat
  er_event_name :: string
  er_visibility :: visibility
  er_payload :: "json_object option"

record status_transition =
  st_run_id :: string
  st_status :: run_status
  st_stage :: "string option"
  st_reason :: "string option"

section \<open>Outbox: enqueue\<close>

definition dedupe_key :: "string \<Rightarrow> nat \<Rightarrow> string" where
  "dedupe_key r n = r @ CHR '':'' # show_nat n"

text \<open>Two unique constraints guard the outbox: the dedupe key and (run, sequence).\<close>

definition outbox_enqueue :: "string \<Rightarrow> nat \<Rightarrow> pack_db \<Rightarrow> pack_db result" where
  "outbox_enqueue r n db =
     (if \<exists>b \<in> set (outbox db). ob_dedupe_key b = dedupe_key r n \<or> (ob_run_id b = r \<and> ob_sequence b = n)
      then Inl IntegrityError
      else Inr (db\<lparr>outbox := outbox db @
             [\<lparr>outbox_id = next_outbox_id db, ob_run_id = r, ob_sequence = n,
               ob_dedupe_key = dedupe_key r n, ob_status = OB_PENDING, ob_attempts = 0,
               ob_available_at = None, ob_lease_owner = None, ob_lease_expires_at = None,
               ob_last_error = None, ob_published_at = None\<rparr>],
             next_outbox_id := Suc (next_outbox_id db)\<rparr>))"

section \<open>Run store operations\<close>

definition run_exists :: "pack_db \<Rightarrow> string \<Rightarrow> bool" where
  "run_exists db r \<longleftrightarrow> r \<in> set (map run_id (runs db))"

definition event_seqs :: "pack_db \<Rightarrow> string \<Rightarrow> nat list" where
  "event_seqs db r = map ev_sequence (filter (\<lambda>e. ev_run_id e = r) (run_events db))"

definition create_run :: "run_create \<Rightarrow> pack_db \<Rightarrow> pack_db result" where
  "create_run p db =
     (if run_exists db (rc_run_id p) then Inl IntegrityError
      else Inr (db\<lparr>runs := runs db @
             [\<lparr>run_id = rc_run_id p, run_teacher_id = rc_teacher_id p,
               run_organization_id =
                 (case rc_organization_id p of
                    Some (c # cs) \<Rightarrow> c # cs
                  | _ \<Rightarrow> ''teacher:'' @ rc_teacher_id p),
               run_status = PENDING, run_current_step = 1, run_raw_request = rc_raw_request p,
               run_class_info = rc_class_info p, run_retention_days = rc_retention_days p,
               run_artifact_types = [], run_theme = ''default'', run_quality_passed = False,
               run_teacher_approved = False, run_revision_count = 0,
               run_export_formats = [''html''], run_tokens_used = 0, run_deleted_at = None,
               run_deleted_by = None, run_parent_run_id = None, run_session_id = None,
               run_session_index = None, run_unit_role = STANDALONE,
               run_lesson_sequence = None\<rparr>],
             run_history := run_history db @
             [\<lparr>hist_run_id = rc_run_id p, hist_status = PENDING, hist_stage = None,
               hist_reason = Some ''created''\<rparr>]\<rparr>))"

definition read_run :: "run_row \<Rightarrow> run_read" where
  "read_run r = \<lparr>rr_run_id = run_id r, rr_teacher_id = run_teacher_id r, rr_status = run_status r,
     rr_raw_request = run_raw_request r, rr_organization_id = run_organization_id r\<rparr>"

definition get_run :: "pack_db \<Rightarrow> string \<Rightarrow> string \<Rightarrow> run_read option result" where
  "get_run db r t =
     ebind (scalar_one_or_none (filter (\<lambda>x. run_id x = r \<and> run_teacher_id x = t) (runs db)))
       (\<lambda>x. Inr (map_option read_run x))"

definition get_run_by_id :: "pack_db \<Rightarrow> string \<Rightarrow> run_read option result" where
  "get_run_by_id db r =
     ebind (scalar_one_or_none (filter (\<lambda>x. run_id x = r) (runs db))) (\<lambda>x. Inr (map_option read_run x))"

definition event_next_sequence :: "pack_db \<Rightarrow> string \<Rightarrow> nat" where
  "event_next_sequence db r = next_seq (event_seqs db r)"

text \<open>
  The common tail of \<open>write_event\<close> and \<open>write_observability_event\<close>: number the row, insert it
  (the run must exist and the (run, sequence) pair be new), enqueue it in the outbox in the same
  transaction, and remember the run for the notification after commit.
\<close>

definition insert_event ::
  "instant \<Rightarrow> string \<Rightarrow> string \<Rightarrow> string option \<Rightarrow> visibility \<Rightarrow> json_object option \<Rightarrow> pack_db
   \<Rightarrow> (event_read \<times> pack_db) result" where
  "insert_event now r name stg vis payload db =
     (let n = event_next_sequence db r;
          row = \<lparr>ev_run_id = r, ev_sequence = n, ev_name = name, ev_stage = stg,
                 ev_visibility = vis, ev_payload = payload, ev_created_at = now\<rparr>
      in if \<not> run_exists db r \<or> n \<in> set (event_seqs db r) then Inl IntegrityError
         else ebind (outbox_enqueue r n (db\<lparr>run_events := run_events db @ [row]\<rparr>))
           (\<lambda>db'. Inr (\<lparr>er_run_id = r, er_sequence = n, er_event_name = name,
                        er_visibility = vis, er_payload = payload\<rparr>,
                       db'\<lparr>pending_event_run_ids := List.insert r (pending_event_run_ids db')\<rparr>)))"

definition write_event :: "instant \<Rightarrow> event_create \<Rightarrow> pack_db \<Rightarrow> (event_read \<times> pack_db) result" where
  "write_event now p db =
     insert_event now (ec_run_id p) (ec_event_name p) (map_option stage_value (ec_stage p))
       (ec_visibility p) (ec_payload p) db"

definition write_observability_event ::
  "instant \<Rightarrow> string \<Rightarrow> string \<Rightarrow> string option \<Rightarrow> json_object \<Rightarrow> visibility \<Rightarrow> pack_db
   \<Rightarrow> (event_read \<times> pack_db) result" where
  "write_observability_event now r event_type stg payload vis db =
     insert_event now r event_type stg vis (Some payload) db"

definition opt_json :: "string option \<Rightarrow> json" where
  "opt_json x = (case x of None \<Rightarrow> JNull | Some s \<Rightarrow> JStr s)"

definition transition_status :: "instant \<Rightarrow> status_transition \<Rightarrow> pack_db \<Rightarrow> pack_db result" where
  "transition_status now p db =
     ebind (scalar_one (filter (\<lambda>x. run_id x = st_run_id p) (runs db)))
       (\<lambda>run. case validate_status_transition (run_status run) (st_status p) of
          Transition_Rejected _ _ why \<Rightarrow> Inl (InvalidRunStatusTransitionError why)
        | Transition_Accepted _ _ \<Rightarrow>
            ebind (write_event now
                \<lparr>ec_run_id = st_run_id p, ec_event_name = ''teaching_pack.status.changed'',
                 ec_visibility = VIS_TEACHER, ec_stage = None,
                 ec_payload = Some [(''status'', JStr (run_status_value (st_status p))),
                   (''stage'', opt_json (st_stage p)), (''reason'', opt_json (st_reason p))]\<rparr>
                (db\<lparr>runs := update_where (\<lambda>x. run_id x = st_run_id p)
                        (\<lambda>x. x\<lparr>run_status := st_status p\<rparr>) (runs db),
                    run_history := run_history db @
                      [\<lparr>hist_run_id = st_run_id p, hist_status = st_status p,
                        hist_stage = st_stage p, hist_reason = st_reason p\<rparr>]\<rparr>))
              (\<lambda>(_, db'). Inr db'))"

definition mark_stage_started :: "instant \<Rightarrow> string \<Rightarrow> stage \<Rightarrow> pack_db \<Rightarrow> pack_db result" where
  "mark_stage_started now r s db =
     ebind (write_event now \<lparr>ec_run_id = r, ec_event_name = started_event s,
              ec_visibility = VIS_TEACHER, ec_stage = Some s, ec_payload = None\<rparr> db)
       (\<lambda>(_, db'). Inr db')"

definition mark_stage_completed :: "instant \<Rightarrow> string \<Rightarrow> stage \<Rightarrow> pack_db \<Rightarrow> pack_db result" where
  "mark_stage_completed now r s db =
     ebind (write_event now \<lparr>ec_run_id = r, ec_event_name = completed_event s,
              ec_visibility = VIS_TEACHER, ec_stage = Some s, ec_payload = None\<rparr> db)
       (\<lambda>(_, db'). Inr db')"

definition write_stage_event ::
  "instant \<Rightarrow> string \<Rightarrow> stage \<Rightarrow> string \<Rightarrow> pack_db \<Rightarrow> pack_db result" where
  "write_stage_event now r s name db =
     ebind (write_event now \<lparr>ec_run_id = r, ec_event_name = name,
              ec_visibility = VIS_INTERNAL, ec_stage = Some s, ec_payload = None\<rparr> db)
       (\<lambda>(_, db'). Inr db')"

definition read_event :: "event_row \<Rightarrow> event_read" where
  "read_event e = \<lparr>er_run_id = ev_run_id e, er_sequence = ev_sequence e,
     er_event_name = ev_name e, er_visibility = ev_visibility e, er_payload = ev_payload e\<rparr>"

definition run_replay_events :: "pack_db \<Rightarrow> string \<Rightarrow> nat \<Rightarrow> event_read list" where
  "run_replay_events db r after_sequence =
     map read_event (sort_key ev_sequence
       (filter (\<lambda>e. ev_run_id e = r \<and> after_sequence < ev_sequence e) (run_events db)))"

definition list_events_by_name :: "pack_db \<Rightarrow> string \<Rightarrow> string \<Rightarrow> event_read list" where
  "list_events_by_name db r name =
     map read_event (sort_key ev_sequence
       (filter (\<lambda>e. ev_run_id e = r \<and> ev_name e = name) (run_events db)))"

text \<open>The \<open>after_commit\<close> and \<open>after_rollback\<close> listeners of the session.\<close>

definition notify_after_commit :: "pack_db \<Rightarrow> string list \<times> pack_db" where
  "notify_after_commit db = (pending_event_run_ids db, db\<lparr>pending_event_run_ids := []\<rparr>)"

definition clear_after_rollback :: "pack_db \<Rightarrow> pack_db" where
  "clear_after_rollback db = db\<lparr>pending_event_run_ids := []\<rparr>"

end
