(* ===== verification/Run_Ledger.thy ===== *)
theory Run_Ledger
  imports Run_Store
begin

text \<open>
  What the run store promises: the invariant that ties runs, history, ledger and outbox together,
  its preservation by every write, and the ledger as a sequenced log.
\<close>

section \<open>Effect of one ledger write\<close>

lemma insert_event_Inr:
  assumes "insert_event now r name stg vis payload db = Inr (er, db')"
  shows "run_exists db r"
    and "er = \<lparr>er_run_id = r, er_sequence = event_next_sequence db r, er_event_name = name,
               er_visibility = vis, er_payload = payload\<rparr>"
    and "run_events db' = run_events db @
           [\<lparr>ev_run_id = r, ev_sequence = event_next_sequence db r, ev_name = name, ev_stage = stg,
             ev_visibility = vis, ev_payload = payload, ev_created_at = now\<rparr>]"
    and "outbox db' = outbox db @
           [\<lparr>outbox_id = next_outbox_id db, ob_run_id = r, ob_sequence = event_next_sequence db r,
             ob_dedupe_key = dedupe_key r (event_next_sequence db r), ob_status = OB_PENDING,
             ob_attempts = 0, ob_available_at = None, ob_lease_owner = None,
             ob_lease_expires_at = None, ob_last_error = None, ob_published_at = None\<rparr>]"
    and "next_outbox_id db' = Suc (next_outbox_id db)"
    and "runs db' = runs db" and "run_history db' = run_history db"
  using assms
  by (auto simp: insert_event_def outbox_enqueue_def Let_def ebind_Inr_iff split: if_splits)

lemma write_event_insert:
  "write_event now p db = insert_event now (ec_run_id p) (ec_event_name p)
     (map_option stage_value (ec_stage p)) (ec_visibility p) (ec_payload p) db"
  by (simp add: write_event_def)

lemma event_seqs_insert:
  "run_events db' = run_events db @ [e] \<Longrightarrow>
   event_seqs db' k = event_seqs db k @ (if ev_run_id e = k then [ev_sequence e] else [])"
  by (simp add: event_seqs_def)

definition ledger_append :: "string \<Rightarrow> pack_db \<Rightarrow> pack_db \<Rightarrow> bool" where
  "ledger_append r db db' \<longleftrightarrow>
     (\<exists>now name stg vis payload er. insert_event now r name stg vis payload db = Inr (er, db'))"

interpretation run_ledger: sequenced_log event_seqs ledger_append
proof unfold_locales
  fix r k :: string and db db' :: pack_db
  assume "ledger_append r db db'"
  then obtain now name stg vis payload er
    where "insert_event now r name stg vis payload db = Inr (er, db')"
    unfolding ledger_append_def by blast
  note seqs = event_seqs_insert [OF insert_event_Inr(3) [OF this]]
  show "event_seqs db' r = event_seqs db r @ [next_seq (event_seqs db r)]"
    by (simp add: seqs event_next_sequence_def)
  show "k \<noteq> r \<Longrightarrow> event_seqs db' k = event_seqs db k" by (simp add: seqs)
qed

lemma dedupe_key_inj: "dedupe_key r m = dedupe_key s n \<longleftrightarrow> r = s \<and> m = n"
proof
  assume "dedupe_key r m = dedupe_key s n"
  then have "r = s \<and> show_nat m = show_nat n"
    unfolding dedupe_key_def by (rule split_last_sep) simp_all
  then show "r = s \<and> m = n" by (simp add: show_nat_inj)
qed simp

section \<open>The store invariant\<close>

definition statuses_of :: "pack_db \<Rightarrow> string \<Rightarrow> run_status list" where
  "statuses_of db r = map hist_status (filter (\<lambda>h. hist_run_id h = r) (run_history db))"

definition history_ok :: "pack_db \<Rightarrow> bool" where
  "history_ok db \<longleftrightarrow>
     (\<forall>x \<in> set (runs db). \<exists>ss. statuses_of db (run_id x) = PENDING # ss
        \<and> run_path (PENDING # ss) \<and> last (PENDING # ss) = run_status x)
     \<and> (\<forall>h \<in> set (run_history db). run_exists db (hist_run_id h))"

definition ledger_ok :: "pack_db \<Rightarrow> bool" where
  "ledger_ok db \<longleftrightarrow> (\<forall>r. gapless (event_seqs db r))
     \<and> (\<forall>e \<in> set (run_events db). run_exists db (ev_run_id e))"

definition outbox_ok :: "pack_db \<Rightarrow> bool" where
  "outbox_ok db \<longleftrightarrow>
     map (\<lambda>b. (ob_run_id b, ob_sequence b)) (outbox db)
       = map (\<lambda>e. (ev_run_id e, ev_sequence e)) (run_events db)
     \<and> (\<forall>b \<in> set (outbox db). ob_dedupe_key b = dedupe_key (ob_run_id b) (ob_sequence b)
          \<and> outbox_id b < next_outbox_id db)
     \<and> distinct (map outbox_id (outbox db))"

definition pack_ok :: "pack_db \<Rightarrow> bool" where
  "pack_ok db \<longleftrightarrow> distinct (map run_id (runs db)) \<and> history_ok db \<and> ledger_ok db \<and> outbox_ok db"

definition empty_db :: pack_db where
  "empty_db = \<lparr>runs = [], run_history = [], run_events = [], outbox = [], next_outbox_id = 1,
     pending_event_run_ids = []\<rparr>"

lemma pack_ok_empty: "pack_ok empty_db"
  by (simp add: pack_ok_def history_ok_def ledger_ok_def outbox_ok_def event_seqs_def empty_db_def)

lemma pack_okD:
  assumes "pack_ok db"
  shows "distinct (map run_id (runs db))" and "history_ok db" and "ledger_ok db" and "outbox_ok db"
  using assms by (simp_all add: pack_ok_def)

lemma event_seqs_mem:
  "n \<in> set (event_seqs db r) \<longleftrightarrow> (r, n) \<in> set (map (\<lambda>e. (ev_run_id e, ev_sequence e)) (run_events db))"
  by (auto simp: event_seqs_def image_iff)

lemma outbox_mem_events:
  "outbox_ok db \<Longrightarrow> b \<in> set (outbox db) \<Longrightarrow> ob_sequence b \<in> set (event_seqs db (ob_run_id b))"
  unfolding event_seqs_mem outbox_ok_def by (metis (no_types, lifting) image_eqI set_map)

lemma next_sequence_fresh: "event_next_sequence db r \<notin> set (event_seqs db r)"
  unfolding event_next_sequence_def using next_seq_gt by blast

lemma outbox_enqueue_fresh:
  assumes "outbox_ok db"
  shows "\<not> (\<exists>b \<in> set (outbox db). ob_dedupe_key b = dedupe_key r (event_next_sequence db r)
              \<or> (ob_run_id b = r \<and> ob_sequence b = event_next_sequence db r))"
proof
  assume "\<exists>b \<in> set (outbox db). ob_dedupe_key b = dedupe_key r (event_next_sequence db r)
              \<or> (ob_run_id b = r \<and> ob_sequence b = event_next_sequence db r)"
  then obtain b where b: "b \<in> set (outbox db)"
    "ob_run_id b = r \<and> ob_sequence b = event_next_sequence db r"
    using assms by (auto simp: outbox_ok_def dedupe_key_inj)
  with outbox_mem_events [OF assms b(1)] next_sequence_fresh show False by simp
qed

text \<open>Under the invariant a ledger write fails only when the run does not exist.\<close>

lemma insert_event_total:
  assumes "outbox_ok db" and "run_exists db r"
  shows "\<exists>er db'. insert_event now r name stg vis payload db = Inr (er, db')"
  using outbox_enqueue_fresh [OF assms(1), of r] next_sequence_fresh [of db r] assms(2)
  by (auto simp: insert_event_def Let_def outbox_enqueue_def run_exists_def)

lemma run_exists_cong: "runs db' = runs db \<Longrightarrow> run_exists db' = run_exists db"
  by (simp add: run_exists_def fun_eq_iff)

lemma insert_event_ok:
  assumes ok: "pack_ok db" and ins: "insert_event now r name stg vis payload db = Inr (er, db')"
  shows "pack_ok db'"
proof -
  note eff = insert_event_Inr [OF ins]
  have ex: "run_exists db' = run_exists db" by (rule run_exists_cong) (rule eff)
  have h: "statuses_of db' = statuses_of db" by (simp add: statuses_of_def fun_eq_iff eff)
  have "history_ok db'"
    using pack_okD(2) [OF ok] by (simp add: history_ok_def h ex eff)
  moreover have "ledger_ok db'"
  proof -
    have "ledger_append r db db'" unfolding ledger_append_def using ins by blast
    then have "gapless (event_seqs db' k)" for k
      by (rule run_ledger.gapless_appended [rotated])
        (use pack_okD(3) [OF ok] in \<open>simp add: ledger_ok_def\<close>)
    then show ?thesis using pack_okD(3) [OF ok] eff(1) by (auto simp: ledger_ok_def ex eff(3))
  qed
  moreover have "outbox_ok db'"
    using pack_okD(4) [OF ok] by (auto simp: outbox_ok_def eff dest: less_SucI)
  ultimately show ?thesis using pack_okD(1) [OF ok] by (simp add: pack_ok_def eff)
qed

section \<open>Preservation by the run operations\<close>

text \<open>Any new pending run with its first history row.\<close>

lemma new_run_ok:
  assumes ok: "pack_ok db" and fresh: "\<not> run_exists db (run_id x)" and pending: "run_status x = PENDING"
    and x: "runs db' = runs db @ [x]"
    and h: "run_history db' = run_history db @ [\<lparr>hist_run_id = run_id x, hist_status = PENDING,
              hist_stage = None, hist_reason = Some ''created''\<rparr>]"
    and same: "run_events db' = run_events db" "outbox db' = outbox db"
      "next_outbox_id db' = next_outbox_id db"
  shows "pack_ok db'"
proof -
  have ex: "run_exists db' s \<longleftrightarrow> run_exists db s \<or> s = run_id x" for s
    by (auto simp: run_exists_def x)
  have none: "statuses_of db (run_id x) = []"
    using pack_okD(2) [OF ok] fresh by (auto simp: statuses_of_def history_ok_def filter_empty_conv)
  have st: "statuses_of db' s = statuses_of db s @ (if s = run_id x then [PENDING] else [])" for s
    by (simp add: statuses_of_def h)
  have "\<exists>ss. statuses_of db' (run_id y) = PENDING # ss \<and> run_path (PENDING # ss)
          \<and> last (PENDING # ss) = run_status y" if "y \<in> set (runs db')" for y
  proof (cases "y \<in> set (runs db)")
    case True
    then have "run_id y \<noteq> run_id x" using fresh unfolding run_exists_def by (metis imageI list.set_map)
    with True show ?thesis using pack_okD(2) [OF ok] by (simp add: st history_ok_def)
  next
    case False
    with that have "y = x" by (simp add: x)
    then show ?thesis by (simp add: st none pending)
  qed
  moreover have "\<forall>k \<in> set (run_history db'). run_exists db' (hist_run_id k)"
    using pack_okD(2) [OF ok] by (auto simp: h ex history_ok_def)
  ultimately have "history_ok db'" by (simp add: history_ok_def)
  moreover have "ledger_ok db'" using pack_okD(3) [OF ok]
    by (auto simp: ledger_ok_def event_seqs_def same ex)
  moreover have "outbox_ok db'" using pack_okD(4) [OF ok] by (simp add: outbox_ok_def same)
  moreover have "distinct (map run_id (runs db'))"
    using pack_okD(1) [OF ok] fresh by (auto simp: x run_exists_def)
  ultimately show ?thesis by (simp add: pack_ok_def)
qed

lemma create_run_ok:
  assumes ok: "pack_ok db" and cr: "create_run p db = Inr db'"
  shows "pack_ok db'"
proof -
  from cr have fresh: "\<not> run_exists db (rc_run_id p)" by (auto simp: create_run_def split: if_splits)
  with cr obtain x where "runs db' = runs db @ [x]" "run_id x = rc_run_id p" "run_status x = PENDING"
    and "run_history db' = run_history db @ [\<lparr>hist_run_id = rc_run_id p, hist_status = PENDING,
              hist_stage = None, hist_reason = Some ''created''\<rparr>]"
    and "run_events db' = run_events db" "outbox db' = outbox db" "next_outbox_id db' = next_outbox_id db"
    by (auto simp: create_run_def)
  with fresh show ?thesis by (intro new_run_ok [OF ok, of x]) simp_all
qed

text \<open>Setting the status of a run and recording it in the history, before the event is written.\<close>

definition set_status :: "status_transition \<Rightarrow> pack_db \<Rightarrow> pack_db" where
  "set_status p db = db\<lparr>runs := update_where (\<lambda>x. run_id x = st_run_id p)
       (\<lambda>x. x\<lparr>run_status := st_status p\<rparr>) (runs db),
     run_history := run_history db @ [\<lparr>hist_run_id = st_run_id p, hist_status = st_status p,
       hist_stage = st_stage p, hist_reason = st_reason p\<rparr>]\<rparr>"

lemma set_status_ok:
  assumes ok: "pack_ok db" and run: "filter (\<lambda>x. run_id x = st_run_id p) (runs db) = [x]"
    and step: "run_step (run_status x) (st_status p)"
  shows "pack_ok (set_status p db)"
proof -
  let ?db = "set_status p db"
  have ids: "map run_id (runs ?db) = map run_id (runs db)"
    by (simp add: set_status_def map_update_where)
  then have ex: "run_exists ?db = run_exists db" by (simp add: run_exists_def fun_eq_iff)
  from run have x: "x \<in> set (runs db)" "run_id x = st_run_id p" by (auto dest: filter_singletonD)
  have st: "statuses_of ?db s = statuses_of db s @ (if s = st_run_id p then [st_status p] else [])" for s
    by (simp add: statuses_of_def set_status_def)
  from pack_okD(2) [OF ok] x obtain ss where ss: "statuses_of db (st_run_id p) = PENDING # ss"
    "run_path (PENDING # ss)" "last (PENDING # ss) = run_status x"
    unfolding history_ok_def by metis
  have snoc: "run_path ((PENDING # ss) @ [st_status p])"
    using run_path_snoc [of "PENDING # ss" "st_status p"] ss step by simp
  have "\<exists>ts. statuses_of ?db (run_id y) = PENDING # ts \<and> run_path (PENDING # ts)
          \<and> last (PENDING # ts) = run_status y" if y: "y \<in> set (runs ?db)" for y
  proof (cases "run_id y = st_run_id p")
    case True
    with y have "run_status y = st_status p" by (auto simp: set_status_def set_update_where split: if_splits)
    with True snoc show ?thesis by (simp add: st ss)
  next
    case False
    with y have "y \<in> set (runs db)" by (auto simp: set_status_def set_update_where split: if_splits)
    with False show ?thesis using pack_okD(2) [OF ok] by (simp add: st history_ok_def)
  qed
  moreover have "\<forall>k \<in> set (run_history ?db). run_exists ?db (hist_run_id k)"
  proof -
    have "run_exists db (st_run_id p)" using x unfolding run_exists_def by (metis imageI list.set_map)
    then show ?thesis using pack_okD(2) [OF ok] by (auto simp: ex history_ok_def) (auto simp: set_status_def)
  qed
  ultimately have "history_ok ?db" by (simp add: history_ok_def)
  moreover have "ledger_ok ?db" using pack_okD(3) [OF ok]
    by (simp add: ledger_ok_def ex) (simp add: event_seqs_def set_status_def)
  moreover have "outbox_ok ?db" using pack_okD(4) [OF ok] by (simp add: outbox_ok_def set_status_def)
  ultimately show ?thesis using pack_okD(1) [OF ok] by (simp add: pack_ok_def ids)
qed

lemma transition_status_cases:
  assumes "transition_status now p db = Inr db'"
  obtains x er where "filter (\<lambda>x. run_id x = st_run_id p) (runs db) = [x]"
    and "run_step (run_status x) (st_status p)"
    and "write_event now
           \<lparr>ec_run_id = st_run_id p, ec_event_name = ''teaching_pack.status.changed'',
            ec_visibility = VIS_TEACHER, ec_stage = None,
            ec_payload = Some [(''status'', JStr (run_status_value (st_status p))),
              (''stage'', opt_json (st_stage p)), (''reason'', opt_json (st_reason p))]\<rparr>
           (set_status p db) = Inr (er, db')"
proof -
  from assms obtain x where x: "filter (\<lambda>x. run_id x = st_run_id p) (runs db) = [x]"
    by (auto simp: transition_status_def ebind_Inr_iff)
  show thesis
  proof (cases "validate_status_transition (run_status x) (st_status p)")
    case (Transition_Accepted a b)
    then have "run_step (run_status x) (st_status p)"
      by (auto simp: validate_status_transition_def split: if_splits)
    moreover from assms x Transition_Accepted obtain er where "write_event now
           \<lparr>ec_run_id = st_run_id p, ec_event_name = ''teaching_pack.status.changed'',
            ec_visibility = VIS_TEACHER, ec_stage = None,
            ec_payload = Some [(''status'', JStr (run_status_value (st_status p))),
              (''stage'', opt_json (st_stage p)), (''reason'', opt_json (st_reason p))]\<rparr>
           (set_status p db) = Inr (er, db')"
      by (auto simp: transition_status_def ebind_Inr_iff set_status_def)
    ultimately show thesis by (rule that [OF x])
  next
    case Transition_Rejected
    with assms x show thesis by (simp add: transition_status_def)
  qed
qed

lemma transition_status_ok:
  assumes ok: "pack_ok db" and tr: "transition_status now p db = Inr db'"
  shows "pack_ok db'"
  using tr
proof (rule transition_status_cases)
  fix x er
  assume "filter (\<lambda>x. run_id x = st_run_id p) (runs db) = [x]" and "run_step (run_status x) (st_status p)"
  note ok' = set_status_ok [OF ok this]
  assume "write_event now \<lparr>ec_run_id = st_run_id p, ec_event_name = ''teaching_pack.status.changed'',
            ec_visibility = VIS_TEACHER, ec_stage = None,
            ec_payload = Some [(''status'', JStr (run_status_value (st_status p))),
              (''stage'', opt_json (st_stage p)), (''reason'', opt_json (st_reason p))]\<rparr>
           (set_status p db) = Inr (er, db')"
  then show "pack_ok db'" unfolding write_event_insert by (rule insert_event_ok [OF ok'])
qed

lemma stage_events_ok:
  assumes "pack_ok db"
  shows "mark_stage_started now r s db = Inr db' \<Longrightarrow> pack_ok db'"
    and "mark_stage_completed now r s db = Inr db' \<Longrightarrow> pack_ok db'"
    and "write_stage_event now r s name db = Inr db' \<Longrightarrow> pack_ok db'"
  using insert_event_ok [OF assms]
  by (auto simp: mark_stage_started_def mark_stage_completed_def write_stage_event_def
      write_event_insert ebind_Inr_iff)

section \<open>Reachable databases\<close>

text \<open>
  The store's writes as a step relation: whatever interleaving of committed calls produced a
  database, it is reachable. Failed calls roll back and leave the database as it was.
\<close>

inductive pack_step :: "pack_db \<Rightarrow> pack_db \<Rightarrow> bool" where
  create: "create_run p db = Inr db' \<Longrightarrow> pack_step db db'"
| transition: "transition_status now t db = Inr db' \<Longrightarrow> pack_step db db'"
| stage_started: "mark_stage_started now r s db = Inr db' \<Longrightarrow> pack_step db db'"
| stage_completed: "mark_stage_completed now r s db = Inr db' \<Longrightarrow> pack_step db db'"
| stage_event: "write_stage_event now r s name db = Inr db' \<Longrightarrow> pack_step db db'"
| event: "write_event now e db = Inr (er, db') \<Longrightarrow> pack_step db db'"
| observability: "write_observability_event now r ty stg pl vis db = Inr (er, db') \<Longrightarrow> pack_step db db'"
| commit: "pack_step db (snd (notify_after_commit db))"
| rollback: "pack_step db (clear_after_rollback db)"

declare pack_step.intros [step_intros]

lemma pack_ok_pending: "pack_ok (db\<lparr>pending_event_run_ids := x\<rparr>) \<longleftrightarrow> pack_ok db"
  by (simp add: pack_ok_def history_ok_def ledger_ok_def outbox_ok_def event_seqs_def
      statuses_of_def run_exists_def)

lemma pack_step_ok: "pack_step db db' \<Longrightarrow> pack_ok db \<Longrightarrow> pack_ok db'"
  by (induction rule: pack_step.induct)
    (auto intro: create_run_ok transition_status_ok stage_events_ok insert_event_ok
      simp: write_event_insert write_observability_event_def notify_after_commit_def
        clear_after_rollback_def pack_ok_pending)

lemma pack_reachable_ok: "pack_step\<^sup>*\<^sup>* empty_db db \<Longrightarrow> pack_ok db"
  by (induction rule: rtranclp_induct) (auto intro: pack_ok_empty pack_step_ok)

section \<open>Properties\<close>


definition demo_run :: run_create where
  "demo_run = \<lparr>rc_run_id = ''r1'', rc_teacher_id = ''t1'', rc_raw_request = ''fractions'',
     rc_class_info = [], rc_retention_days = None, rc_organization_id = None\<rparr>"

definition demo_db :: pack_db where
  "demo_db = (case create_run demo_run empty_db of Inr db \<Rightarrow> db | Inl _ \<Rightarrow> empty_db)"

lemma demo_db_create: "create_run demo_run empty_db = Inr demo_db"
  by (simp add: demo_db_def create_run_def run_exists_def empty_db_def)

lemma demo_db_reachable: "pack_step\<^sup>*\<^sup>* empty_db demo_db"
  using demo_db_create by (blast intro: pack_step.create)

lemma demo_db_runs: "map run_id (runs demo_db) = [''r1'']" "map run_status (runs demo_db) = [PENDING]"
  by (simp_all add: demo_db_def create_run_def run_exists_def empty_db_def demo_run_def)


text \<open>
  In a reachable database a write to the event ledger of an existing run
  never violates a constraint: it succeeds, numbers the event with one more than the events the
  run already has, and puts exactly one pending row for it in the outbox.
\<close>
lemma write_event_succeeds:
  assumes "pack_step\<^sup>*\<^sup>* empty_db db" and "run_exists db (ec_run_id p)"
  shows "\<exists>er db'. write_event now p db = Inr (er, db')
           \<and> er_sequence er = Suc (length (event_seqs db (ec_run_id p)))
           \<and> (\<exists>b. outbox db' = outbox db @ [b] \<and> ob_run_id b = ec_run_id p
                 \<and> ob_sequence b = er_sequence er \<and> ob_status b = OB_PENDING)"
proof -
  note ok = pack_okD [OF pack_reachable_ok [OF assms(1)]]
  obtain er db' where w: "write_event now p db = Inr (er, db')"
    using insert_event_total [OF ok(4) assms(2)] unfolding write_event_insert by blast
  note eff = insert_event_Inr [OF w [unfolded write_event_insert]]
  have "event_next_sequence db (ec_run_id p) = Suc (length (event_seqs db (ec_run_id p)))"
    using ok(3) by (simp add: event_next_sequence_def next_of_gapless ledger_ok_def)
  with w show ?thesis by (simp add: eff)
qed

lemma write_event_succeeds_witness:
  "\<exists>er db'. write_event 0 \<lparr>ec_run_id = ''r1'', ec_event_name = ''x'', ec_visibility = VIS_ADMIN,
      ec_stage = None, ec_payload = None\<rparr> demo_db = Inr (er, db') \<and> er_sequence er = 1"
proof -
  have "run_exists demo_db ''r1''" by (simp add: run_exists_def demo_db_runs)
  moreover have "event_seqs demo_db ''r1'' = []"
    by (simp add: event_seqs_def demo_db_def create_run_def run_exists_def empty_db_def)
  ultimately show ?thesis
    using write_event_succeeds [OF demo_db_reachable, of "\<lparr>ec_run_id = ''r1'', ec_event_name = ''x'',
      ec_visibility = VIS_ADMIN, ec_stage = None, ec_payload = None\<rparr>" 0] by auto
qed

text \<open>
  Replay. In a reachable database the rows of a run are stored in order of their numbers, so the
  rows after a known number are the list without its first \<open>n\<close> entries.
\<close>

definition events_of :: "pack_db \<Rightarrow> string \<Rightarrow> event_row list" where
  "events_of db r = filter (\<lambda>e. ev_run_id e = r) (run_events db)"

lemma replay_suffix:
  assumes "ledger_ok db"
  shows "run_replay_events db r n = map read_event (drop n (events_of db r))"
proof -
  let ?es = "events_of db r"
  have g: "gapless (map ev_sequence ?es)"
    using assms by (simp add: ledger_ok_def event_seqs_def events_of_def)
  have "filter (\<lambda>e. n < ev_sequence e) ?es = drop n ?es"
    by (rule filter_map_drop [OF refl gapless_after [OF g] gapless_distinct [OF g]])
  moreover have "filter (\<lambda>e. ev_run_id e = r \<and> n < ev_sequence e) (run_events db)
      = filter (\<lambda>e. n < ev_sequence e) ?es"
    unfolding events_of_def filter_filter by (rule arg_cong) auto
  moreover have "sort_key ev_sequence (drop n ?es) = drop n ?es"
    using gapless_sorted [OF g] by (simp add: sort_key_id_if_sorted sorted_wrt_drop drop_map [symmetric])
  ultimately show ?thesis by (simp add: run_replay_events_def)
qed

text \<open>
  A client that has seen the first \<open>n\<close> events of a run and asks for the events
  after sequence \<open>n\<close> gets exactly the remaining ones, in the order they were written, so seen and
  replayed events together are the whole ledger of the run.
\<close>
lemma replay_resumes:
  assumes "pack_step\<^sup>*\<^sup>* empty_db db"
  shows "take n (run_replay_events db r 0) @ run_replay_events db r n = run_replay_events db r 0
         \<and> map er_sequence (run_replay_events db r 0) = [1..<Suc (length (events_of db r))]"
proof -
  have ok: "ledger_ok db" using pack_okD(3) [OF pack_reachable_ok [OF assms]] .
  then have "gapless (map ev_sequence (events_of db r))"
    by (simp add: ledger_ok_def event_seqs_def events_of_def)
  then have "map ev_sequence (events_of db r) = [1..<Suc (length (events_of db r))]"
    by (simp only: gapless_def length_map)
  moreover have "er_sequence \<circ> read_event = ev_sequence"
    by (simp add: fun_eq_iff read_event_def)
  moreover have "take n (map read_event (events_of db r)) @ map read_event (drop n (events_of db r))
      = map read_event (events_of db r)"
    by (metis append_take_drop_id drop_map take_map)
  ultimately show ?thesis using replay_suffix [OF ok] by (simp del: upt_Suc)
qed

lemma replay_resumes_witness:
  "take 1 (run_replay_events demo_db ''r1'' 0) @ run_replay_events demo_db ''r1'' 1
     = run_replay_events demo_db ''r1'' 0"
  using replay_resumes [OF demo_db_reachable, of 1 "''r1''"] by simp

text \<open>
  a teacher reads a run only under their own teacher id: a successful
  \<open>get_run\<close> returns a row of that id and that teacher, and another teacher's run reads as absent.
\<close>
lemma get_run_tenant:
  assumes "distinct (map run_id (runs db))" and "x \<in> set (runs db)"
  shows "get_run db (run_id x) t = Inr (if run_teacher_id x = t then Some (read_run x) else None)"
proof -
  have "filter (\<lambda>y. run_id y = run_id x \<and> run_teacher_id y = t) (runs db)
      = filter (\<lambda>y. run_teacher_id y = t) (filter (\<lambda>y. run_id y = run_id x) (runs db))"
    by (simp add: conj_commute)
  also have "\<dots> = (if run_teacher_id x = t then [x] else [])"
    by (simp add: filter_key_le_one [OF assms])
  finally show ?thesis by (simp add: get_run_def)
qed

lemma get_run_tenant_witness: "get_run demo_db ''r1'' ''someone else'' = Inr None"
proof -
  obtain x where x: "runs demo_db = [x]" "run_id x = ''r1''" "run_teacher_id x = ''t1''"
    by (simp add: demo_db_def create_run_def run_exists_def empty_db_def demo_run_def)
  with get_run_tenant [of demo_db x "''someone else''"] show ?thesis by simp
qed

end
