(* ===== verification/Leased_Table.thy ===== *)
theory Leased_Table
  imports Prelude
begin

text \<open>
  The interface of a table whose rows are claimed under a time-limited lease
  (\<open>SELECT ... FOR UPDATE SKIP LOCKED\<close>, then set owner and expiry). The job queue and the event
  outbox both provide it. What a worker relies on: between a claim and the expiry of its lease no
  other claim takes the same row, unless the holder gave the row up in between.
\<close>

definition lease_over :: "instant \<Rightarrow> instant option \<Rightarrow> bool" where
  "lease_over now l = (case l of None \<Rightarrow> True | Some t \<Rightarrow> t \<le> now)"

locale leased_table =
  fixes ok :: "'r list \<Rightarrow> bool"
    and key :: "'r \<Rightarrow> 'k"
    and holder :: "'r \<Rightarrow> string option"
    and lease_until :: "'r \<Rightarrow> instant option"
    and claim :: "'e \<Rightarrow> string \<Rightarrow> instant \<Rightarrow> int \<Rightarrow> 'r list \<Rightarrow> 'k list \<times> 'r list"
  assumes ok_distinct: "ok rs \<Longrightarrow> distinct (map key rs)"
    and claim_ok: "ok rs \<Longrightarrow> ok (snd (claim e w now secs rs))"
    and claim_keys: "map key (snd (claim e w now secs rs)) = map key rs"
    and claim_free: "ok rs \<Longrightarrow> r \<in> set rs \<Longrightarrow> key r \<in> set (fst (claim e w now secs rs)) \<Longrightarrow>
      lease_over now (lease_until r)"
    and claim_leases: "ok rs \<Longrightarrow> r \<in> set (snd (claim e w now secs rs)) \<Longrightarrow>
      key r \<in> set (fst (claim e w now secs rs)) \<Longrightarrow>
      holder r = Some w \<and> lease_until r = Some (now + seconds secs)"
    and claim_others: "r \<in> set (snd (claim e w now secs rs)) \<Longrightarrow>
      key r \<notin> set (fst (claim e w now secs rs)) \<Longrightarrow> r \<in> set rs"
    and claim_of_table: "set (fst (claim e w now secs rs)) \<subseteq> set (map key rs)"
begin

lemma claimed_row:
  assumes "ok rs" and "k \<in> set (fst (claim e w now secs rs))"
  obtains r where "r \<in> set (snd (claim e w now secs rs))" and "key r = k"
    and "holder r = Some w" and "lease_until r = Some (now + seconds secs)"
proof -
  have "k \<in> set (map key (snd (claim e w now secs rs)))"
    using claim_of_table assms(2) unfolding claim_keys by blast
  then obtain r where "r \<in> set (snd (claim e w now secs rs))" "key r = k" by auto
  with claim_leases [OF assms(1)] assms(2) that show thesis by blast
qed

text \<open>
  Two claims of one row: if the row still carries the first claim's lease when the second claim is
  made, the lease has run out by then.
\<close>

lemma claims_exclusive:
  assumes "ok rs" and "k \<in> set (fst (claim e1 w1 t1 s1 rs))"
    and "ok rs'" and "r' \<in> set rs'" and "key r' = k"
    and "lease_until r' = Some (t1 + seconds s1)"
    and "k \<in> set (fst (claim e2 w2 t2 s2 rs'))"
  shows "t1 + seconds s1 \<le> t2"
  using claim_free [OF assms(3,4)] assms(5-7) by (simp add: lease_over_def)

lemma second_claim_disjoint:
  assumes "ok rs" and "t2 < t1 + seconds s1"
  shows "set (fst (claim e1 w1 t1 s1 rs)) \<inter> set (fst (claim e2 w2 t2 s2 (snd (claim e1 w1 t1 s1 rs)))) = {}"
proof (rule ccontr)
  assume "\<not> ?thesis"
  then obtain k where k: "k \<in> set (fst (claim e1 w1 t1 s1 rs))"
    "k \<in> set (fst (claim e2 w2 t2 s2 (snd (claim e1 w1 t1 s1 rs))))" by blast
  obtain r where r: "r \<in> set (snd (claim e1 w1 t1 s1 rs))" "key r = k"
    "lease_until r = Some (t1 + seconds s1)"
    using claimed_row [OF assms(1) k(1)] by metis
  show False
    using claims_exclusive [OF assms(1) k(1) claim_ok [OF assms(1)] r k(2)] assms(2) by simp
qed

end

end
