(* ===== verification/Outbox.thy ===== *)
theory Outbox
  imports Run_Ledger Leased_Table
begin

text \<open>
  Delivery of run events (\<open>services/gateway/run_event_outbox.py\<close>, with the wake-up counter of
  \<open>teaching_pack_event_bus.py\<close>). Rows are claimed in batches ordered by run and sequence, each
  claimed row wakes the subscribers of its run, and is then marked published, or put back with a
  growing delay when the wake-up raised. Parameters: \<open>collation\<close> is the database's order of run
  ids, \<open>clock i\<close> the time read for the \<open>i\<close>-th item (\<open>clock 0\<close> for the claim), \<open>notify_error\<close> the
  error text of a wake-up that raises.
\<close>

section \<open>Operations\<close>

record claimed_run_event =
  ce_outbox_id :: nat
  ce_run_id :: string
  ce_sequence :: nat
  ce_dedupe_key :: string
  ce_attempts :: nat

definition outbox_claimable :: "instant \<Rightarrow> outbox_row \<Rightarrow> bool" where
  "outbox_claimable now b \<longleftrightarrow>
     (ob_status b = OB_PENDING
      \<or> (ob_status b = OB_PUBLISHING
         \<and> (case ob_lease_expires_at b of None \<Rightarrow> False | Some t \<Rightarrow> t \<le> now)))
     \<and> lease_over now (ob_available_at b)"

definition claim_outbox_row :: "string \<Rightarrow> instant \<Rightarrow> int \<Rightarrow> outbox_row \<Rightarrow> outbox_row" where
  "claim_outbox_row owner now lease_seconds b =
     b\<lparr>ob_status := OB_PUBLISHING, ob_lease_owner := Some owner,
       ob_lease_expires_at := Some (now + seconds lease_seconds),
       ob_attempts := Suc (ob_attempts b)\<rparr>"

definition claimed_event :: "outbox_row \<Rightarrow> claimed_run_event" where
  "claimed_event b = \<lparr>ce_outbox_id = outbox_id b, ce_run_id = ob_run_id b,
     ce_sequence = ob_sequence b, ce_dedupe_key = ob_dedupe_key b, ce_attempts = ob_attempts b\<rparr>"

definition batch_rows ::
  "(string \<Rightarrow> int) \<Rightarrow> nat list \<Rightarrow> nat \<Rightarrow> instant \<Rightarrow> outbox_row list \<Rightarrow> outbox_row list" where
  "batch_rows collation locked limit now bs =
     take limit (sort_key (\<lambda>b. collation (ob_run_id b)) (sort_key ob_sequence
       (filter (\<lambda>b. outbox_claimable now b \<and> outbox_id b \<notin> set locked) bs)))"

definition claim_batch ::
  "(string \<Rightarrow> int) \<Rightarrow> nat list \<Rightarrow> string \<Rightarrow> nat \<Rightarrow> int \<Rightarrow> instant \<Rightarrow> outbox_row list
   \<Rightarrow> claimed_run_event list \<times> outbox_row list" where
  "claim_batch collation locked owner limit lease_seconds now bs =
     (let picked = batch_rows collation locked limit now bs
      in (map (\<lambda>b. claimed_event (claim_outbox_row owner now lease_seconds b)) picked,
          update_where (\<lambda>b. outbox_id b \<in> set (map outbox_id picked))
            (claim_outbox_row owner now lease_seconds) bs))"

definition outbox_guarded ::
  "nat \<Rightarrow> (outbox_row \<Rightarrow> outbox_row) \<Rightarrow> outbox_row list \<Rightarrow> (bool \<times> outbox_row list) result" where
  "outbox_guarded i f bs =
     ebind (scalar_one_or_none (filter (\<lambda>b. outbox_id b = i) bs))
       (\<lambda>x. case x of None \<Rightarrow> Inr (False, bs)
        | Some b \<Rightarrow> if ob_status b \<noteq> OB_PUBLISHING then Inr (False, bs)
                    else Inr (True, update_where (\<lambda>b. outbox_id b = i) f bs))"

definition published_row :: "instant \<Rightarrow> outbox_row \<Rightarrow> outbox_row" where
  "published_row now b = b\<lparr>ob_status := OB_PUBLISHED, ob_published_at := Some now,
     ob_lease_owner := None, ob_lease_expires_at := None, ob_last_error := None\<rparr>"

definition mark_published :: "nat \<Rightarrow> instant \<Rightarrow> outbox_row list \<Rightarrow> (bool \<times> outbox_row list) result" where
  "mark_published i now bs = outbox_guarded i (published_row now) bs"

definition retry_row :: "string \<Rightarrow> instant \<Rightarrow> outbox_row \<Rightarrow> outbox_row" where
  "retry_row error_summary available_at b = b\<lparr>ob_status := OB_PENDING,
     ob_available_at := Some available_at, ob_lease_owner := None, ob_lease_expires_at := None,
     ob_last_error := Some (take 2000 error_summary)\<rparr>"

definition mark_retry ::
  "nat \<Rightarrow> string \<Rightarrow> instant \<Rightarrow> outbox_row list \<Rightarrow> (bool \<times> outbox_row list) result" where
  "mark_retry i error_summary available_at bs = outbox_guarded i (retry_row error_summary available_at) bs"

definition retry_delay :: "nat \<Rightarrow> int" where
  "retry_delay attempts = min 60 (2 ^ min attempts 6)"

definition notify_run_event :: "string \<Rightarrow> (string \<Rightarrow> nat) \<Rightarrow> (string \<Rightarrow> nat)" where
  "notify_run_event r versions = versions(r := Suc (versions r))"

fun publish_items ::
  "(nat \<Rightarrow> instant) \<Rightarrow> (string \<Rightarrow> string option) \<Rightarrow> nat \<Rightarrow> claimed_run_event list
   \<Rightarrow> outbox_row list \<times> (string \<Rightarrow> nat) \<times> nat \<Rightarrow> (outbox_row list \<times> (string \<Rightarrow> nat) \<times> nat) result" where
  "publish_items clock notify_error i [] st = Inr st"
| "publish_items clock notify_error i (c # cs) (bs, bus, published) =
     (case notify_error (ce_run_id c) of
        Some err \<Rightarrow>
          ebind (mark_retry (ce_outbox_id c) err
                   (clock i + seconds (retry_delay (ce_attempts c))) bs)
            (\<lambda>(_, bs'). publish_items clock notify_error (Suc i) cs (bs', bus, published))
      | None \<Rightarrow>
          ebind (mark_published (ce_outbox_id c) (clock i) bs)
            (\<lambda>(done, bs'). publish_items clock notify_error (Suc i) cs
               (bs', notify_run_event (ce_run_id c) bus,
                if done then Suc published else published)))"

definition publish_run_event_outbox ::
  "(string \<Rightarrow> int) \<Rightarrow> nat list \<Rightarrow> (nat \<Rightarrow> instant) \<Rightarrow> (string \<Rightarrow> string option) \<Rightarrow> string \<Rightarrow> nat
   \<Rightarrow> outbox_row list \<times> (string \<Rightarrow> nat) \<Rightarrow> (outbox_row list \<times> (string \<Rightarrow> nat) \<times> nat) result" where
  "publish_run_event_outbox collation locked clock notify_error worker limit st =
     (let (claimed, bs) = claim_batch collation locked worker limit 30 (clock 0) (fst st)
      in publish_items clock notify_error 1 claimed (bs, snd st, 0))"

section \<open>The row invariant\<close>

definition outbox_row_ok :: "outbox_row \<Rightarrow> bool" where
  "outbox_row_ok b \<longleftrightarrow> (ob_status b = OB_PUBLISHING \<longleftrightarrow> ob_lease_owner b \<noteq> None)
     \<and> (ob_lease_owner b = None \<longleftrightarrow> ob_lease_expires_at b = None)
     \<and> (ob_status b = OB_PUBLISHED \<longleftrightarrow> ob_published_at b \<noteq> None)"

definition outbox_rows_ok :: "outbox_row list \<Rightarrow> bool" where
  "outbox_rows_ok bs \<longleftrightarrow> distinct (map outbox_id bs) \<and> (\<forall>b \<in> set bs. outbox_row_ok b)"

lemmas outbox_rewrites = claim_outbox_row_def published_row_def retry_row_def outbox_row_ok_def

lemma batch_rows_D:
  "b \<in> set (batch_rows collation locked limit now bs) \<Longrightarrow>
   b \<in> set bs \<and> outbox_claimable now b \<and> outbox_id b \<notin> set locked"
  by (auto simp: batch_rows_def dest!: in_set_takeD)

lemma batch_rows_key:
  assumes "distinct (map outbox_id bs)" and "b \<in> set bs"
    and "outbox_id b \<in> set (map outbox_id (batch_rows collation locked limit now bs))"
  shows "outbox_claimable now b"
proof -
  from assms(3) obtain c where c: "c \<in> set (batch_rows collation locked limit now bs)"
    "outbox_id c = outbox_id b" by auto
  note bd = batch_rows_D [OF c(1)]
  then have "c = b" using distinct_key_eq [OF assms(1)] assms(2) c(2) by blast
  with bd show ?thesis by simp
qed

lemma claimable_row_ok:
  "outbox_row_ok b \<Longrightarrow> outbox_claimable now b \<Longrightarrow> outbox_row_ok (claim_outbox_row w now secs b)"
  by (auto simp: outbox_rewrites outbox_claimable_def)

lemma claim_batch_ok:
  assumes "outbox_rows_ok bs"
  shows "outbox_rows_ok (snd (claim_batch collation locked w limit secs now bs))"
proof -
  let ?p = "\<lambda>b. outbox_id b \<in> set (map outbox_id (batch_rows collation locked limit now bs))"
  let ?bs = "update_where ?p (claim_outbox_row w now secs) bs"
  have ids: "map outbox_id ?bs = map outbox_id bs"
    by (rule map_update_where) (simp add: claim_outbox_row_def)
  have "outbox_row_ok b" if "b \<in> set ?bs" for b
    using that assms batch_rows_key claimable_row_ok
    by (auto simp: set_update_where outbox_rows_ok_def simp del: set_map)
  with ids assms show ?thesis by (simp add: claim_batch_def Let_def outbox_rows_ok_def del: set_map)
qed

lemma outbox_guarded_cases:
  assumes "outbox_guarded i f bs = Inr (d, bs')"
  shows "(\<not> d \<and> bs' = bs) \<or> (d \<and> bs' = update_where (\<lambda>b. outbox_id b = i) f bs
     \<and> (\<exists>b. filter (\<lambda>b. outbox_id b = i) bs = [b] \<and> ob_status b = OB_PUBLISHING))"
  using assms by (auto simp: outbox_guarded_def ebind_Inr_iff split: option.splits if_splits)

lemma outbox_guarded_ok:
  assumes "outbox_guarded i f bs = Inr (d, bs')" and "outbox_rows_ok bs"
    and "\<And>b. outbox_row_ok b \<Longrightarrow> ob_status b = OB_PUBLISHING \<Longrightarrow> outbox_row_ok (f b)"
    and "\<And>b. outbox_id (f b) = outbox_id b"
  shows "outbox_rows_ok bs'"
  using outbox_guarded_cases [OF assms(1)]
proof (elim disjE conjE exE)
  fix b
  assume bs': "bs' = update_where (\<lambda>b. outbox_id b = i) f bs"
    and one: "filter (\<lambda>b. outbox_id b = i) bs = [b]" and st: "ob_status b = OB_PUBLISHING"
  have "x = b" if "x \<in> set bs" "outbox_id x = i" for x
  proof -
    from that have "x \<in> set (filter (\<lambda>b. outbox_id b = i) bs)" by simp
    with one show ?thesis by simp
  qed
  then have "outbox_row_ok x" if "x \<in> set bs'" for x
    using that assms(2,3) st by (auto simp: bs' set_update_where outbox_rows_ok_def)
  moreover have "map outbox_id bs' = map outbox_id bs"
    unfolding bs' by (rule map_update_where) (rule assms(4))
  ultimately show ?thesis using assms(2) by (simp add: outbox_rows_ok_def)
qed (use assms(2) in simp)

lemma mark_published_ok: "mark_published i now bs = Inr (d, bs') \<Longrightarrow> outbox_rows_ok bs \<Longrightarrow> outbox_rows_ok bs'"
  unfolding mark_published_def by (erule (1) outbox_guarded_ok) (auto simp: outbox_rewrites)

lemma mark_retry_ok: "mark_retry i err t bs = Inr (d, bs') \<Longrightarrow> outbox_rows_ok bs \<Longrightarrow> outbox_rows_ok bs'"
  unfolding mark_retry_def by (erule (1) outbox_guarded_ok) (auto simp: outbox_rewrites)

section \<open>The outbox as a leased table\<close>

definition claim_outbox_ids ::
  "(string \<Rightarrow> int) \<times> nat list \<times> nat \<Rightarrow> string \<Rightarrow> instant \<Rightarrow> int \<Rightarrow> outbox_row list
   \<Rightarrow> nat list \<times> outbox_row list" where
  "claim_outbox_ids e w now secs bs =
     (case e of (collation, locked, limit) \<Rightarrow>
        (case claim_batch collation locked w limit secs now bs of
           (cs, bs') \<Rightarrow> (map ce_outbox_id cs, bs')))"

lemma claim_outbox_ids_eq:
  "claim_outbox_ids (collation, locked, limit) w now secs bs =
     (map outbox_id (batch_rows collation locked limit now bs),
      update_where (\<lambda>b. outbox_id b \<in> set (map outbox_id (batch_rows collation locked limit now bs)))
        (claim_outbox_row w now secs) bs)"
  by (simp add: claim_outbox_ids_def claim_batch_def Let_def comp_def claimed_event_def claim_outbox_row_def)

interpretation outbox_leases: leased_table outbox_rows_ok outbox_id ob_lease_owner ob_lease_expires_at
  claim_outbox_ids
proof (unfold_locales, goal_cases)
  case (1 bs)
  then show ?case by (simp add: outbox_rows_ok_def)
next
  case (2 bs e w now secs)
  obtain c l n where e: "e = (c, l, n)" by (metis prod_cases3)
  show ?case using claim_batch_ok [OF 2, of c l w n secs now]
    by (simp add: e claim_outbox_ids_def case_prod_beta)
next
  case (3 e w now secs bs)
  show ?case by (cases e) (auto simp: claim_outbox_ids_eq claim_outbox_row_def intro!: map_update_where)
next
  case (4 bs b e w now secs)
  obtain c l n where e: "e = (c, l, n)" by (metis prod_cases3)
  have "outbox_claimable now b"
    using 4 batch_rows_key [of bs b c l n now] by (simp add: e claim_outbox_ids_eq outbox_rows_ok_def)
  with 4(1,2) show ?case
    by (auto simp: outbox_claimable_def outbox_rows_ok_def outbox_row_ok_def lease_over_def
        split: option.splits)
next
  case (5 bs b e w now secs)
  obtain c l n where e: "e = (c, l, n)" by (metis prod_cases3)
  show ?case using 5(2,3)
    by (auto simp: e claim_outbox_ids_eq set_update_where claim_outbox_row_def split: if_splits)
next
  case (6 b e w now secs bs)
  obtain c l n where e: "e = (c, l, n)" by (metis prod_cases3)
  show ?case using 6
    by (auto simp: e claim_outbox_ids_eq set_update_where claim_outbox_row_def split: if_splits)
next
  case (7 e w now secs bs)
  show ?case by (cases e) (auto simp: claim_outbox_ids_eq dest: batch_rows_D)
qed

section \<open>One publishing pass\<close>

lemma outbox_guarded_publishing:
  assumes "distinct (map outbox_id bs)" and "b \<in> set bs" and "ob_status b = OB_PUBLISHING"
  shows "outbox_guarded (outbox_id b) f bs
           = Inr (True, update_where (\<lambda>x. outbox_id x = outbox_id b) f bs)"
  using filter_key_le_one [OF assms(1,2)] assms(3) by (simp add: outbox_guarded_def)

text \<open>What a pass leaves behind for one claimed event.\<close>

definition settled :: "(string \<Rightarrow> string option) \<Rightarrow> claimed_run_event \<Rightarrow> outbox_row \<Rightarrow> bool" where
  "settled notify_error c b \<longleftrightarrow> outbox_id b = ce_outbox_id c
     \<and> (case notify_error (ce_run_id c) of
          None \<Rightarrow> ob_status b = OB_PUBLISHED
        | Some err \<Rightarrow> ob_status b = OB_PENDING \<and> ob_last_error b = Some (take 2000 err)
            \<and> ob_available_at b \<noteq> None)"

lemma publish_items_settles:
  assumes "distinct (map outbox_id bs)" and "distinct (map ce_outbox_id cs)"
    and "\<forall>c \<in> set cs. \<exists>b \<in> set bs. outbox_id b = ce_outbox_id c \<and> ob_status b = OB_PUBLISHING"
  shows "\<exists>bs' bus'. publish_items clock err i cs (bs, bus, n)
           = Inr (bs', bus', n + length (filter (\<lambda>c. err (ce_run_id c) = None) cs))
       \<and> (\<forall>b \<in> set bs. outbox_id b \<notin> ce_outbox_id ` set cs \<longrightarrow> b \<in> set bs')
       \<and> (\<forall>c \<in> set cs. \<exists>b \<in> set bs'. settled err c b)
       \<and> (\<forall>r. bus' r = bus r + length (filter (\<lambda>c. ce_run_id c = r \<and> err r = None) cs))"
  using assms
proof (induction cs arbitrary: i bs bus n)
  case Nil
  then show ?case by simp
next
  case (Cons c cs)
  from Cons.prems(3) obtain b where b: "b \<in> set bs" "outbox_id b = ce_outbox_id c"
    "ob_status b = OB_PUBLISHING" by auto
  define f where "f = (case err (ce_run_id c) of None \<Rightarrow> published_row (clock i)
     | Some e \<Rightarrow> retry_row e (clock i + seconds (retry_delay (ce_attempts c))))"
  define bs1 where "bs1 = update_where (\<lambda>x. outbox_id x = ce_outbox_id c) f bs"
  define bus1 where "bus1 = (if err (ce_run_id c) = None then notify_run_event (ce_run_id c) bus else bus)"
  define n1 where "n1 = (if err (ce_run_id c) = None then Suc n else n)"
  have g: "outbox_guarded (ce_outbox_id c) h bs = Inr (True, update_where (\<lambda>x. outbox_id x = ce_outbox_id c) h bs)" for h
    using outbox_guarded_publishing [OF Cons.prems(1) b(1,3)] by (simp add: b(2))
  have step: "publish_items clock err i (c # cs) (bs, bus, n) = publish_items clock err (Suc i) cs (bs1, bus1, n1)"
    by (simp add: f_def bs1_def bus1_def n1_def mark_published_def mark_retry_def g split: option.split)
  have fid: "outbox_id (f x) = outbox_id x" for x
    by (simp add: f_def published_row_def retry_row_def split: option.split)
  have ids: "map outbox_id bs1 = map outbox_id bs"
    unfolding bs1_def by (rule map_update_where) (rule fid)
  have kept: "x \<in> set bs1" if "x \<in> set bs" "outbox_id x \<noteq> ce_outbox_id c" for x
    using that by (force simp: bs1_def set_update_where)
  have fresh: "ce_outbox_id c \<notin> ce_outbox_id ` set cs" using Cons.prems(2) by simp
  have ready: "\<forall>d \<in> set cs. \<exists>b \<in> set bs1. outbox_id b = ce_outbox_id d \<and> ob_status b = OB_PUBLISHING"
  proof
    fix d assume d: "d \<in> set cs"
    then obtain x where x: "x \<in> set bs" "outbox_id x = ce_outbox_id d" "ob_status x = OB_PUBLISHING"
      using Cons.prems(3) by auto
    from d fresh x(2) have "outbox_id x \<noteq> ce_outbox_id c" by (metis imageI)
    with x kept show "\<exists>b \<in> set bs1. outbox_id b = ce_outbox_id d \<and> ob_status b = OB_PUBLISHING" by blast
  qed
  obtain bs' bus' where r: "publish_items clock err (Suc i) cs (bs1, bus1, n1)
      = Inr (bs', bus', n1 + length (filter (\<lambda>c. err (ce_run_id c) = None) cs))"
    and keep: "\<forall>b \<in> set bs1. outbox_id b \<notin> ce_outbox_id ` set cs \<longrightarrow> b \<in> set bs'"
    and done': "\<forall>c \<in> set cs. \<exists>b \<in> set bs'. settled err c b"
    and bus': "\<forall>r. bus' r = bus1 r + length (filter (\<lambda>c. ce_run_id c = r \<and> err r = None) cs)"
    using Cons.IH [of bs1 "Suc i" bus1 n1] Cons.prems ready by (auto simp: ids)
  have fb: "f b \<in> set bs1" using b by (force simp: bs1_def set_update_where)
  then have "f b \<in> set bs'" using keep fresh b(2) by (simp add: fid)
  moreover have "settled err c (f b)"
    using b(2) by (simp add: settled_def fid) (simp add: f_def published_row_def retry_row_def split: option.split)
  ultimately have "\<exists>b \<in> set bs'. settled err c b" by blast
  moreover have "\<forall>x \<in> set bs. outbox_id x \<notin> ce_outbox_id ` set (c # cs) \<longrightarrow> x \<in> set bs'"
    using kept keep by auto
  moreover have "\<forall>r. bus' r = bus r + length (filter (\<lambda>c. ce_run_id c = r \<and> err r = None) (c # cs))"
    using bus' by (auto simp: bus1_def notify_run_event_def)
  moreover have "n1 + length (filter (\<lambda>c. err (ce_run_id c) = None) cs)
      = n + length (filter (\<lambda>c. err (ce_run_id c) = None) (c # cs))"
    by (simp add: n1_def)
  moreover have "\<forall>d \<in> set (c # cs). \<exists>b \<in> set bs'. settled err d b"
    using calculation(1) done' by simp
  ultimately show ?case unfolding step r by metis
qed

text \<open>
  C20: a publishing pass over a consistent outbox never raises and settles
  every row of its batch: rows whose run could be woken are published and counted, the others are
  pending again with an error and a later due time; each run is woken once per published row, and
  rows outside the batch are untouched.
\<close>
theorem publish_settles_batch:
  assumes "outbox_rows_ok bs"
  shows "\<exists>bs' bus' n. publish_run_event_outbox collation locked clock err w limit (bs, bus) = Inr (bs', bus', n)
     \<and> n = length (filter (\<lambda>b. err (ob_run_id b) = None) (batch_rows collation locked limit (clock 0) bs))
     \<and> (\<forall>b \<in> set (batch_rows collation locked limit (clock 0) bs). \<exists>b' \<in> set bs'. outbox_id b' = outbox_id b
          \<and> ob_status b' = (if err (ob_run_id b) = None then OB_PUBLISHED else OB_PENDING))
     \<and> (\<forall>b \<in> set bs. outbox_id b \<notin> outbox_id ` set (batch_rows collation locked limit (clock 0) bs) \<longrightarrow> b \<in> set bs')
     \<and> (\<forall>r. bus' r = bus r + length (filter (\<lambda>b. ob_run_id b = r \<and> err r = None)
            (batch_rows collation locked limit (clock 0) bs)))"
proof -
  define picked where "picked = batch_rows collation locked limit (clock 0) bs"
  let ?claim = "claim_outbox_row w (clock 0) 30"
  define cs where "cs = map (\<lambda>b. claimed_event (?claim b)) picked"
  define bs1 where "bs1 = update_where (\<lambda>b. outbox_id b \<in> set (map outbox_id picked)) ?claim bs"
  have batch: "claim_batch collation locked w limit 30 (clock 0) bs = (cs, bs1)"
    by (simp add: claim_batch_def Let_def cs_def bs1_def picked_def)
  have ids: "map outbox_id bs1 = map outbox_id bs"
    unfolding bs1_def by (rule map_update_where) (simp add: claim_outbox_row_def)
  have d: "distinct (map outbox_id bs)" using assms by (simp add: outbox_rows_ok_def)
  have csid: "map ce_outbox_id cs = map outbox_id picked"
    by (simp add: cs_def claimed_event_def claim_outbox_row_def comp_def)
  have dp: "distinct (map outbox_id picked)"
  proof -
    have "distinct (map outbox_id (filter P bs))" for P using d by (simp add: distinct_map_filter)
    then have "distinct (map outbox_id (sort_key f (sort_key g (filter P bs))))" for P f g
      by (simp add: distinct_map)
    then show ?thesis unfolding picked_def batch_rows_def take_map [symmetric] by (rule distinct_take)
  qed
  have ready: "\<forall>c \<in> set cs. \<exists>b \<in> set bs1. outbox_id b = ce_outbox_id c \<and> ob_status b = OB_PUBLISHING"
  proof
    fix c assume "c \<in> set cs"
    then obtain b where b: "b \<in> set picked" "c = claimed_event (?claim b)" by (auto simp: cs_def)
    then have "b \<in> set bs" by (auto simp: picked_def dest: batch_rows_D)
    with b have "?claim b \<in> set bs1" by (force simp: bs1_def set_update_where)
    with b show "\<exists>b \<in> set bs1. outbox_id b = ce_outbox_id c \<and> ob_status b = OB_PUBLISHING"
      by (intro bexI [of _ "?claim b"]) (simp_all add: claimed_event_def claim_outbox_row_def)
  qed
  obtain bs' bus' where r: "publish_items clock err 1 cs (bs1, bus, 0)
      = Inr (bs', bus', length (filter (\<lambda>c. err (ce_run_id c) = None) cs))"
    and keep: "\<forall>b \<in> set bs1. outbox_id b \<notin> ce_outbox_id ` set cs \<longrightarrow> b \<in> set bs'"
    and done': "\<forall>c \<in> set cs. \<exists>b \<in> set bs'. settled err c b"
    and bus': "\<forall>r. bus' r = bus r + length (filter (\<lambda>c. ce_run_id c = r \<and> err r = None) cs)"
    using publish_items_settles [OF _ _ ready, of clock err 1 bus 0] d dp by (auto simp: ids csid)
  have len: "length (filter (\<lambda>c. P (ce_run_id c)) cs) = length (filter (\<lambda>b. P (ob_run_id b)) picked)" for P
    by (simp add: cs_def filter_map comp_def claimed_event_def claim_outbox_row_def)
  have s: "\<exists>b' \<in> set bs'. outbox_id b' = outbox_id b
          \<and> ob_status b' = (if err (ob_run_id b) = None then OB_PUBLISHED else OB_PENDING)" if "b \<in> set picked" for b
  proof -
    from that have "claimed_event (?claim b) \<in> set cs" by (simp add: cs_def)
    with done' obtain b' where "b' \<in> set bs'" "settled err (claimed_event (?claim b)) b'" by blast
    then show ?thesis
      by (intro bexI [of _ b']) (auto simp: settled_def claimed_event_def claim_outbox_row_def split: option.splits)
  qed
  have k: "b \<in> set bs'" if "b \<in> set bs" "outbox_id b \<notin> outbox_id ` set picked" for b
  proof -
    from that have "b \<in> set bs1" by (force simp: bs1_def set_update_where)
    moreover have "ce_outbox_id ` set cs = outbox_id ` set picked" using csid by (metis set_map)
    ultimately show ?thesis using keep that(2) by simp
  qed
  show ?thesis
    unfolding picked_def [symmetric] using r s k bus' len [of "\<lambda>r. err r = None"]
      len [of "\<lambda>r'. r' = r \<and> err r = None" for r]
    by (simp add: publish_run_event_outbox_def batch)
qed

definition demo_outbox :: "outbox_row list" where
  "demo_outbox = [\<lparr>outbox_id = 1, ob_run_id = ''r1'', ob_sequence = 1, ob_dedupe_key = ''r1:1'',
     ob_status = OB_PENDING, ob_attempts = 0, ob_available_at = None, ob_lease_owner = None,
     ob_lease_expires_at = None, ob_last_error = None, ob_published_at = None\<rparr>]"

theorem publish_settles_batch_witness:
  "\<exists>bs' bus' n. publish_run_event_outbox (\<lambda>r. 0) [] (\<lambda>i. 7) (\<lambda>r. None) ''w'' 100 (demo_outbox, \<lambda>r. 0)
     = Inr (bs', bus', n) \<and> n = 1 \<and> bus' ''r1'' = 1"
proof -
  have "outbox_rows_ok demo_outbox"
    by (simp add: outbox_rows_ok_def outbox_row_ok_def demo_outbox_def)
  moreover have "batch_rows (\<lambda>r. 0) [] 100 7 demo_outbox = demo_outbox"
    by (simp add: batch_rows_def demo_outbox_def outbox_claimable_def lease_over_def)
  ultimately show ?thesis
    using publish_settles_batch [of demo_outbox "\<lambda>r. 0" "[]" "\<lambda>i. 7" "\<lambda>r. None" "''w''" 100 "\<lambda>r. 0"]
    by (auto simp: demo_outbox_def)
qed

text \<open>The delay before a retry doubles with the attempts and is capped at one minute.\<close>

lemma retry_delay_bounds: "1 \<le> retry_delay a \<and> retry_delay a \<le> 60"
  by (auto simp: retry_delay_def one_le_power)

lemma retry_delay_mono: "a \<le> b \<Longrightarrow> retry_delay a \<le> retry_delay b"
  unfolding retry_delay_def by (intro min.mono order_refl power_increasing) auto

end
