(* ===== verification/Job_Store.thy ===== *)
theory Job_Store
  imports Leased_Table
begin

text \<open>
  The teaching-pack job queue (\<open>services/gateway/teaching_pack_job_store.py\<close>, the rows of
  \<open>RunJob\<close> in \<open>teaching_pack_models.py\<close>, the run-level leases of \<open>worker_lease.py\<close> and the
  backlog count of \<open>queue_depth.py\<close>). The state is the table \<open>run_jobs\<close>. Claims take the set of
  rows that other transactions hold locked, which \<open>SKIP LOCKED\<close> passes over; rows with equal
  \<open>created_at\<close> are taken in insertion order.
\<close>

section \<open>Rows\<close>

datatype job_status =
    JOB_PENDING | JOB_QUEUED | JOB_RUNNING | JOB_COMPLETED | JOB_FAILED | JOB_CANCELLED | JOB_DEAD_LETTER

datatype job_kind = START | RESUME

record run_job =
  job_id :: string
  job_run_id :: string
  job_kind :: job_kind
  job_status :: job_status
  job_idempotency_key :: string
  job_payload :: json_object
  job_attempts :: int
  job_eligible_at :: "instant option"
  job_lease_owner :: "string option"
  job_lease_expires_at :: "instant option"
  job_created_at :: instant
  job_last_error :: "string option"
  job_error_classification :: "string option"
  job_dead_lettered_at :: "instant option"

record run_job_create =
  jc_job_id :: string
  jc_run_id :: string
  jc_kind :: job_kind
  jc_idempotency_key :: string
  jc_payload :: json_object
  jc_eligible_at :: "instant option"

record run_job_read =
  jr_job_id :: string
  jr_run_id :: string
  jr_kind :: job_kind
  jr_status :: job_status
  jr_idempotency_key :: string
  jr_payload :: json_object
  jr_attempts :: int
  jr_eligible_at :: "instant option"
  jr_last_error :: "string option"
  jr_error_classification :: "string option"
  jr_dead_lettered_at :: "instant option"

type_synonym jobs = "run_job list"

definition read_job :: "run_job \<Rightarrow> run_job_read" where
  "read_job j = \<lparr>jr_job_id = job_id j, jr_run_id = job_run_id j, jr_kind = job_kind j,
     jr_status = job_status j, jr_idempotency_key = job_idempotency_key j,
     jr_payload = job_payload j, jr_attempts = job_attempts j,
     jr_eligible_at = job_eligible_at j, jr_last_error = job_last_error j,
     jr_error_classification = job_error_classification j,
     jr_dead_lettered_at = job_dead_lettered_at j\<rparr>"

section \<open>Operations\<close>

definition find_by_idempotency_key :: "string \<Rightarrow> jobs \<Rightarrow> run_job_read option result" where
  "find_by_idempotency_key k js =
     ebind (scalar_one_or_none (filter (\<lambda>j. job_idempotency_key j = k) js))
       (\<lambda>x. Inr (map_option read_job x))"

definition get_by_idempotency_key :: "string \<Rightarrow> jobs \<Rightarrow> run_job_read result" where
  "get_by_idempotency_key k js =
     ebind (scalar_one (filter (\<lambda>j. job_idempotency_key j = k) js)) (\<lambda>j. Inr (read_job j))"

text \<open>
  \<open>INSERT ... ON CONFLICT (idempotency_key) DO NOTHING\<close>: only that constraint is forgiven, a
  duplicate primary key or an unknown run (\<open>known_run\<close>) still fails.
\<close>

definition new_job :: "instant \<Rightarrow> run_job_create \<Rightarrow> run_job" where
  "new_job now p =
     \<lparr>job_id = jc_job_id p, job_run_id = jc_run_id p, job_kind = jc_kind p,
      job_status = (if jc_eligible_at p \<noteq> None then JOB_QUEUED else JOB_PENDING),
      job_idempotency_key = jc_idempotency_key p, job_payload = jc_payload p, job_attempts = 0,
      job_eligible_at = jc_eligible_at p, job_lease_owner = None, job_lease_expires_at = None,
      job_created_at = now, job_last_error = None, job_error_classification = None,
      job_dead_lettered_at = None\<rparr>"

definition enqueue ::
  "(string \<Rightarrow> bool) \<Rightarrow> instant \<Rightarrow> run_job_create \<Rightarrow> jobs \<Rightarrow> (run_job_read \<times> jobs) result" where
  "enqueue known_run now p js =
     (let inserted =
        (if jc_idempotency_key p \<in> set (map job_idempotency_key js) then Inr js
         else if jc_job_id p \<in> set (map job_id js) \<or> \<not> known_run (jc_run_id p) then Inl IntegrityError
         else Inr (js @ [new_job now p]))
      in ebind inserted (\<lambda>js'.
           ebind (get_by_idempotency_key (jc_idempotency_key p) js') (\<lambda>r. Inr (r, js'))))"

definition list_pending :: "nat \<Rightarrow> jobs \<Rightarrow> run_job_read list" where
  "list_pending limit js =
     map read_job (take limit (filter (\<lambda>j. job_status j = JOB_PENDING) (sort_key job_created_at js)))"

text \<open>
  \<open>ORDER BY dead_lettered_at DESC\<close>: PostgreSQL sorts a missing value first in descending order.
\<close>

definition dead_letter_key :: "run_job \<Rightarrow> int \<times> int" where
  "dead_letter_key j = (case job_dead_lettered_at j of None \<Rightarrow> (0, 0) | Some t \<Rightarrow> (1, - t))"

fun insert_by :: "('a \<Rightarrow> int \<times> int) \<Rightarrow> 'a \<Rightarrow> 'a list \<Rightarrow> 'a list" where
  "insert_by k x [] = [x]"
| "insert_by k x (y # ys) =
     (if fst (k x) < fst (k y) \<or> (fst (k x) = fst (k y) \<and> snd (k x) \<le> snd (k y)) then x # y # ys
      else y # insert_by k x ys)"

definition list_dead_letter :: "nat \<Rightarrow> jobs \<Rightarrow> run_job_read list" where
  "list_dead_letter limit js =
     map read_job (take limit
       (foldr (insert_by dead_letter_key) (filter (\<lambda>j. job_status j = JOB_DEAD_LETTER) js) []))"

definition due :: "instant \<Rightarrow> instant option \<Rightarrow> bool" where
  "due now t = (case t of None \<Rightarrow> False | Some e \<Rightarrow> e \<le> now)"

definition job_claimable :: "instant \<Rightarrow> run_job \<Rightarrow> bool" where
  "job_claimable now j \<longleftrightarrow>
     (job_status j = JOB_PENDING
      \<or> (job_status j = JOB_QUEUED \<and> due now (job_eligible_at j))
      \<or> job_status j = JOB_RUNNING)
     \<and> lease_over now (job_lease_expires_at j)"

definition set_job :: "string \<Rightarrow> (run_job \<Rightarrow> run_job) \<Rightarrow> jobs \<Rightarrow> jobs" where
  "set_job i f js = update_where (\<lambda>j. job_id j = i) f js"

definition claim_job :: "string \<Rightarrow> instant \<Rightarrow> int \<Rightarrow> run_job \<Rightarrow> run_job" where
  "claim_job owner now lease_seconds j = j\<lparr>job_status := JOB_RUNNING, job_lease_owner := Some owner,
     job_lease_expires_at := Some (now + seconds lease_seconds), job_attempts := job_attempts j + 1\<rparr>"

definition claim_next ::
  "string list \<Rightarrow> string \<Rightarrow> int \<Rightarrow> instant \<Rightarrow> jobs \<Rightarrow> run_job_read option \<times> jobs" where
  "claim_next locked owner lease_seconds now js =
     (case filter (\<lambda>j. job_claimable now j \<and> job_id j \<notin> set locked) (sort_key job_created_at js) of
        [] \<Rightarrow> (None, js)
      | j # _ \<Rightarrow> (Some (read_job (claim_job owner now lease_seconds j)),
                   set_job (job_id j) (claim_job owner now lease_seconds) js))"

definition get_job_for_update :: "string \<Rightarrow> jobs \<Rightarrow> run_job result" where
  "get_job_for_update i js = scalar_one (filter (\<lambda>j. job_id j = i) js)"

text \<open>The guard the mark operations share: read the row, act only in the expected status.\<close>

definition guarded_update ::
  "string \<Rightarrow> job_status \<Rightarrow> (run_job \<Rightarrow> run_job) \<Rightarrow> jobs \<Rightarrow> (bool \<times> jobs) result" where
  "guarded_update i expected f js =
     ebind (get_job_for_update i js)
       (\<lambda>j. if job_status j \<noteq> expected then Inr (False, js) else Inr (True, set_job i f js))"

definition mark_completed :: "string \<Rightarrow> jobs \<Rightarrow> (bool \<times> jobs) result" where
  "mark_completed i js = guarded_update i JOB_RUNNING
     (\<lambda>j. j\<lparr>job_status := JOB_COMPLETED, job_lease_owner := None, job_lease_expires_at := None\<rparr>) js"

definition mark_failed :: "string \<Rightarrow> jobs \<Rightarrow> (bool \<times> jobs) result" where
  "mark_failed i js = guarded_update i JOB_RUNNING
     (\<lambda>j. j\<lparr>job_status := JOB_FAILED, job_lease_owner := None, job_lease_expires_at := None\<rparr>) js"

definition mark_dead_letter ::
  "string \<Rightarrow> string \<Rightarrow> string \<Rightarrow> instant \<Rightarrow> jobs \<Rightarrow> (bool \<times> jobs) result" where
  "mark_dead_letter i error_summary classification now js = guarded_update i JOB_RUNNING
     (\<lambda>j. j\<lparr>job_status := JOB_DEAD_LETTER, job_lease_owner := None, job_lease_expires_at := None,
            job_last_error := Some (take 2000 error_summary),
            job_error_classification := Some classification, job_dead_lettered_at := Some now\<rparr>) js"

definition replay_dead_letter :: "string \<Rightarrow> jobs \<Rightarrow> (bool \<times> jobs) result" where
  "replay_dead_letter i js = guarded_update i JOB_DEAD_LETTER
     (\<lambda>j. j\<lparr>job_status := JOB_PENDING, job_attempts := 0, job_eligible_at := None,
            job_last_error := None, job_error_classification := None,
            job_dead_lettered_at := None\<rparr>) js"

definition requeue_with_backoff :: "string \<Rightarrow> instant \<Rightarrow> jobs \<Rightarrow> (bool \<times> jobs) result" where
  "requeue_with_backoff i eligible_at js = guarded_update i JOB_RUNNING
     (\<lambda>j. j\<lparr>job_status := JOB_QUEUED, job_eligible_at := Some eligible_at,
            job_lease_owner := None, job_lease_expires_at := None\<rparr>) js"

definition refresh_lease ::
  "string \<Rightarrow> string \<Rightarrow> int \<Rightarrow> instant \<Rightarrow> jobs \<Rightarrow> (bool \<times> jobs) result" where
  "refresh_lease i owner lease_seconds now js =
     ebind (scalar_one_or_none (filter (\<lambda>j. job_id j = i \<and> job_status j = JOB_RUNNING
              \<and> job_lease_owner j = Some owner) js))
       (\<lambda>x. case x of None \<Rightarrow> Inr (False, js)
        | Some j \<Rightarrow> Inr (True, set_job i
            (\<lambda>j. j\<lparr>job_lease_expires_at := Some (now + seconds lease_seconds)\<rparr>) js))"

definition active_job :: "run_job \<Rightarrow> bool" where
  "active_job j \<longleftrightarrow> job_status j \<in> {JOB_PENDING, JOB_QUEUED, JOB_RUNNING}"

definition cancel_run_jobs :: "string \<Rightarrow> jobs \<Rightarrow> nat \<times> jobs" where
  "cancel_run_jobs r js =
     (length (filter (\<lambda>j. job_run_id j = r \<and> active_job j) js),
      update_where (\<lambda>j. job_run_id j = r \<and> active_job j)
        (\<lambda>j. j\<lparr>job_status := JOB_CANCELLED, job_lease_owner := None,
               job_lease_expires_at := None\<rparr>) js)"

definition promote_eligible :: "string list \<Rightarrow> nat \<Rightarrow> instant \<Rightarrow> jobs \<Rightarrow> string list \<times> jobs" where
  "promote_eligible locked limit now js =
     (let due_rows = filter (\<lambda>j. job_status j = JOB_QUEUED \<and> due now (job_eligible_at j)
                               \<and> job_id j \<notin> set locked) js;
          picked = map job_id (take limit (sort_key (\<lambda>j. the_default 0 (job_eligible_at j)) due_rows))
      in (picked, update_where (\<lambda>j. job_id j \<in> set picked) (\<lambda>j. j\<lparr>job_status := JOB_PENDING\<rparr>) js))"

definition count_claimable_run_jobs :: "instant \<Rightarrow> jobs \<Rightarrow> nat" where
  "count_claimable_run_jobs now js =
     length (filter (\<lambda>j. job_status j = JOB_PENDING
        \<or> (job_status j = JOB_QUEUED \<and> due now (job_eligible_at j))) js)"

section \<open>The recovery sweep\<close>

text \<open>
  \<open>sweep_stuck_jobs\<close> of \<open>services/gateway/recovery_sweeper.py\<close>: running jobs whose lease is over
  go back to pending with one more attempt, or are dead-lettered once the attempts are used up.
\<close>

definition stuck :: "instant \<Rightarrow> run_job \<Rightarrow> bool" where
  "stuck now j \<longleftrightarrow> job_status j = JOB_RUNNING
     \<and> (case job_lease_expires_at j of None \<Rightarrow> False | Some t \<Rightarrow> t < now)"

definition recover_job :: "instant \<Rightarrow> int \<Rightarrow> run_job \<Rightarrow> run_job" where
  "recover_job now max_attempts j =
     (if job_attempts j < max_attempts
      then j\<lparr>job_status := JOB_PENDING, job_attempts := job_attempts j + 1,
             job_lease_owner := None, job_lease_expires_at := None\<rparr>
      else j\<lparr>job_status := JOB_DEAD_LETTER, job_lease_owner := None, job_lease_expires_at := None,
             job_last_error := Some ''lease expired after exhausting max_attempts (worker crashed or hung repeatedly)'',
             job_error_classification := Some ''transient_exhausted'',
             job_dead_lettered_at := Some now\<rparr>)"

definition sweep_stuck_jobs :: "int \<Rightarrow> instant \<Rightarrow> jobs \<Rightarrow> string list \<times> jobs" where
  "sweep_stuck_jobs max_attempts now js =
     (map job_id (filter (stuck now) (sort_key job_created_at js)),
      update_where (stuck now) (recover_job now max_attempts) js)"

section \<open>Run-level leases\<close>

definition acquire_lease :: "string \<Rightarrow> string \<Rightarrow> int \<Rightarrow> instant \<Rightarrow> jobs \<Rightarrow> bool \<times> jobs" where
  "acquire_lease r worker lease_seconds now js =
     (let p = (\<lambda>j. job_run_id j = r \<and> job_status j \<in> {JOB_PENDING, JOB_RUNNING}
                 \<and> (job_lease_owner j = None
                    \<or> (case job_lease_expires_at j of None \<Rightarrow> False | Some t \<Rightarrow> t < now)))
      in (filter p js \<noteq> [],
          update_where p (\<lambda>j. j\<lparr>job_lease_owner := Some worker,
            job_lease_expires_at := Some (now + seconds lease_seconds),
            job_attempts := job_attempts j + 1, job_status := JOB_RUNNING\<rparr>) js))"

definition renew_lease :: "string \<Rightarrow> string \<Rightarrow> int \<Rightarrow> instant \<Rightarrow> jobs \<Rightarrow> bool \<times> jobs" where
  "renew_lease r worker lease_seconds now js =
     (let p = (\<lambda>j. job_run_id j = r \<and> job_lease_owner j = Some worker \<and> job_status j = JOB_RUNNING)
      in (filter p js \<noteq> [],
          update_where p (\<lambda>j. j\<lparr>job_lease_expires_at := Some (now + seconds lease_seconds)\<rparr>) js))"

definition release_lease :: "string \<Rightarrow> string \<Rightarrow> jobs \<Rightarrow> jobs" where
  "release_lease r worker js =
     update_where (\<lambda>j. job_run_id j = r \<and> job_lease_owner j = Some worker)
       (\<lambda>j. j\<lparr>job_lease_owner := None, job_lease_expires_at := None\<rparr>) js"

end
