(* ===== verification/Job_Queue.thy ===== *)
theory Job_Queue
  imports Job_Store
begin

text \<open>
  What the job queue promises: the row invariant, the abstract status machine that every operation
  refines, the exclusiveness of claims, the order in which jobs are claimed, and idempotent enqueue.
\<close>

section \<open>The row invariant\<close>

definition job_row_ok :: "run_job \<Rightarrow> bool" where
  "job_row_ok j \<longleftrightarrow> (job_lease_owner j = None \<longleftrightarrow> job_lease_expires_at j = None)
     \<and> (job_lease_owner j \<noteq> None \<longrightarrow> job_status j = JOB_RUNNING)
     \<and> (job_status j = JOB_QUEUED \<longrightarrow> job_eligible_at j \<noteq> None)
     \<and> (job_status j = JOB_DEAD_LETTER \<longleftrightarrow> job_dead_lettered_at j \<noteq> None)
     \<and> 0 \<le> job_attempts j"

definition jobs_ok :: "jobs \<Rightarrow> bool" where
  "jobs_ok js \<longleftrightarrow> distinct (map job_id js) \<and> distinct (map job_idempotency_key js)
     \<and> (\<forall>j \<in> set js. job_row_ok j)"

text \<open>
  The abstract machine: the moves a job's status can make, whatever the operation. Completed,
  failed and cancelled have no move but the empty one.
\<close>

fun job_moves :: "job_status \<Rightarrow> job_status list" where
  "job_moves JOB_PENDING = [JOB_RUNNING, JOB_CANCELLED]"
| "job_moves JOB_QUEUED = [JOB_PENDING, JOB_RUNNING, JOB_CANCELLED]"
| "job_moves JOB_RUNNING =
     [JOB_PENDING, JOB_QUEUED, JOB_COMPLETED, JOB_FAILED, JOB_DEAD_LETTER, JOB_CANCELLED]"
| "job_moves JOB_DEAD_LETTER = [JOB_PENDING]"
| "job_moves JOB_COMPLETED = []"
| "job_moves JOB_FAILED = []"
| "job_moves JOB_CANCELLED = []"

definition job_move :: "job_status \<Rightarrow> job_status \<Rightarrow> bool" where
  "job_move a b \<longleftrightarrow> a = b \<or> b \<in> set (job_moves a)"

definition job_final :: "job_status \<Rightarrow> bool" where
  "job_final s \<longleftrightarrow> s \<in> {JOB_COMPLETED, JOB_FAILED, JOB_CANCELLED}"

lemma job_final_move: "job_final a \<Longrightarrow> job_move a b \<Longrightarrow> b = a"
  by (cases a) (simp_all add: job_final_def job_move_def)

definition row_evolves :: "run_job \<Rightarrow> run_job \<Rightarrow> bool" where
  "row_evolves j j' \<longleftrightarrow> job_id j' = job_id j \<and> job_run_id j' = job_run_id j
     \<and> job_kind j' = job_kind j \<and> job_idempotency_key j' = job_idempotency_key j
     \<and> job_payload j' = job_payload j \<and> job_created_at j' = job_created_at j
     \<and> job_move (job_status j) (job_status j') \<and> (job_row_ok j \<longrightarrow> job_row_ok j')"

lemma row_evolves_refl [simp]: "row_evolves j j"
  by (simp add: row_evolves_def job_move_def)

text \<open>A table evolves when its rows do, in place, and rows are only added at the end.\<close>

definition evolves :: "jobs \<Rightarrow> jobs \<Rightarrow> bool" where
  "evolves js js' \<longleftrightarrow> list_all2 row_evolves js js'"

lemma evolves_refl [simp]: "evolves js js"
  by (simp add: evolves_def list_all2_refl)

lemma evolves_update_where:
  "(\<And>j. j \<in> set js \<Longrightarrow> p j \<Longrightarrow> row_evolves j (f j)) \<Longrightarrow> evolves js (update_where p f js)"
  unfolding evolves_def update_where_def by (induction js) auto

lemma evolves_keys:
  assumes "evolves js js'"
  shows "map job_id js' = map job_id js" and "map job_idempotency_key js' = map job_idempotency_key js"
  using assms unfolding evolves_def by (induction rule: list_all2_induct) (simp_all add: row_evolves_def)

lemma evolves_ok: "evolves js js' \<Longrightarrow> jobs_ok js \<Longrightarrow> jobs_ok js'"
proof -
  assume e: "evolves js js'" and ok: "jobs_ok js"
  have "\<forall>j \<in> set js. job_row_ok j \<Longrightarrow> \<forall>j \<in> set js'. job_row_ok j"
    using e unfolding evolves_def
    by (induction rule: list_all2_induct) (auto simp: row_evolves_def)
  with ok show "jobs_ok js'" by (simp add: jobs_ok_def evolves_keys [OF e])
qed

lemma evolves_row:
  assumes "evolves js js'" and "j \<in> set js"
  obtains j' where "j' \<in> set js'" and "row_evolves j j'"
  using assms unfolding evolves_def by (metis in_set_conv_nth list_all2_conv_all_nth)

section \<open>Every operation evolves the table\<close>

lemma guarded_update_cases:
  assumes "guarded_update i expected f js = Inr (b, js')"
  shows "(b \<and> js' = set_job i f js
            \<and> (\<exists>j. filter (\<lambda>j. job_id j = i) js = [j] \<and> job_status j = expected))
         \<or> (\<not> b \<and> js' = js)"
  using assms by (auto simp: guarded_update_def get_job_for_update_def ebind_Inr_iff split: if_splits)

lemma guarded_update_evolves:
  assumes "guarded_update i expected f js = Inr (b, js')"
    and "\<And>j. job_status j = expected \<Longrightarrow> row_evolves j (f j)"
  shows "evolves js js'"
  using guarded_update_cases [OF assms(1)]
proof (elim disjE conjE exE)
  fix j
  assume js': "js' = set_job i f js" and one: "filter (\<lambda>j. job_id j = i) js = [j]"
    and st: "job_status j = expected"
  have "row_evolves x (f x)" if "x \<in> set js" "job_id x = i" for x
  proof -
    from that have "x \<in> set (filter (\<lambda>j. job_id j = i) js)" by simp
    with one have "x = j" by simp
    with st assms(2) show ?thesis by simp
  qed
  then show ?thesis unfolding js' set_job_def by (intro evolves_update_where) simp
qed simp

lemmas row_evolution = row_evolves_def job_row_ok_def job_move_def

lemma marks_evolve:
  shows "mark_completed i js = Inr (b, js') \<Longrightarrow> evolves js js'"
    and "mark_failed i js = Inr (b, js') \<Longrightarrow> evolves js js'"
    and "mark_dead_letter i err cls now js = Inr (b, js') \<Longrightarrow> evolves js js'"
    and "replay_dead_letter i js = Inr (b, js') \<Longrightarrow> evolves js js'"
    and "requeue_with_backoff i t js = Inr (b, js') \<Longrightarrow> evolves js js'"
  unfolding mark_completed_def mark_failed_def mark_dead_letter_def replay_dead_letter_def
    requeue_with_backoff_def
  by (erule guarded_update_evolves, force simp: row_evolution)+

lemma claim_job_evolves: "job_claimable now j \<Longrightarrow> row_evolves j (claim_job w t secs j)"
  by (auto simp: row_evolution claim_job_def job_claimable_def)

lemma claim_next_cases:
  assumes "claim_next locked w secs now js = (r, js')"
  shows "(r = None \<and> js' = js \<and> (\<forall>j \<in> set js. job_claimable now j \<longrightarrow> job_id j \<in> set locked))
    \<or> (\<exists>j \<in> set js. r = Some (read_job (claim_job w now secs j)) \<and> job_claimable now j
         \<and> job_id j \<notin> set locked \<and> js' = set_job (job_id j) (claim_job w now secs) js
         \<and> (\<forall>k \<in> set js. job_claimable now k \<and> job_id k \<notin> set locked
               \<longrightarrow> job_created_at j \<le> job_created_at k))"
proof (cases "filter (\<lambda>j. job_claimable now j \<and> job_id j \<notin> set locked) (sort_key job_created_at js)")
  case Nil
  then have "\<forall>j \<in> set js. job_claimable now j \<longrightarrow> job_id j \<in> set locked"
    by (auto simp: filter_empty_conv)
  with Nil assms show ?thesis by (simp add: claim_next_def)
next
  case (Cons j rest)
  with sort_key_filter_hdD [OF Cons] assms show ?thesis by (auto simp: claim_next_def)
qed

lemma claim_next_evolves:
  assumes "jobs_ok js" and "claim_next locked w secs now js = (r, js')"
  shows "evolves js js'"
  using claim_next_cases [OF assms(2)]
proof (elim disjE conjE bexE)
  fix j
  assume j: "j \<in> set js" "job_claimable now j" and js': "js' = set_job (job_id j) (claim_job w now secs) js"
  have "row_evolves x (claim_job w now secs x)" if "x \<in> set js" "job_id x = job_id j" for x
    using distinct_key_eq [of job_id js x j] that j assms(1) claim_job_evolves by (simp add: jobs_ok_def)
  then show ?thesis unfolding js' set_job_def by (intro evolves_update_where) simp
qed simp

lemma refresh_lease_evolves:
  assumes "jobs_ok js" and "refresh_lease i w secs now js = Inr (b, js')"
  shows "evolves js js'"
proof (cases "filter (\<lambda>j. job_id j = i \<and> job_status j = JOB_RUNNING \<and> job_lease_owner j = Some w) js")
  case Nil
  with assms(2) show ?thesis by (simp add: refresh_lease_def)
next
  case (Cons j rest)
  with assms(2) have one: "rest = []" and js': "js' = set_job i
      (\<lambda>j. j\<lparr>job_lease_expires_at := Some (now + seconds secs)\<rparr>) js"
    by (cases rest; simp add: refresh_lease_def)+
  from Cons have "j \<in> set (filter (\<lambda>j. job_id j = i \<and> job_status j = JOB_RUNNING
      \<and> job_lease_owner j = Some w) js)" by simp
  then have j: "j \<in> set js" "job_id j = i" "job_status j = JOB_RUNNING" "job_lease_owner j = Some w"
    by simp_all
  have "row_evolves x (x\<lparr>job_lease_expires_at := Some (now + seconds secs)\<rparr>)"
    if "x \<in> set js" "job_id x = i" for x
    using distinct_key_eq [of job_id js x j] that j assms(1) by (simp add: jobs_ok_def row_evolution)
  then show ?thesis unfolding js' set_job_def by (intro evolves_update_where) simp
qed

lemma cancel_evolves: "evolves js (snd (cancel_run_jobs r js))"
  unfolding cancel_run_jobs_def snd_conv
  by (rule evolves_update_where) (auto simp: active_job_def row_evolution)

lemma promote_evolves:
  assumes "jobs_ok js"
  shows "evolves js (snd (promote_eligible locked limit now js))"
  unfolding promote_eligible_def Let_def snd_conv
proof (rule evolves_update_where)
  fix j
  assume j: "j \<in> set js"
    and "job_id j \<in> set (map job_id (take limit (sort_key (\<lambda>j. the_default 0 (job_eligible_at j))
      (filter (\<lambda>j. job_status j = JOB_QUEUED \<and> due now (job_eligible_at j) \<and> job_id j \<notin> set locked) js))))"
  then obtain k where "job_id k = job_id j" and "k \<in> set js" and "job_status k = JOB_QUEUED"
    by (auto dest!: in_set_takeD)
  with j assms have "job_status j = JOB_QUEUED"
    using distinct_key_eq [of job_id js k j] by (simp add: jobs_ok_def)
  then show "row_evolves j (j\<lparr>job_status := JOB_PENDING\<rparr>)" by (auto simp: row_evolution)
qed

lemma run_leases_evolve:
  shows "evolves js (snd (acquire_lease r w secs now js))"
    and "jobs_ok js \<Longrightarrow> evolves js (snd (renew_lease r w secs now js))"
    and "evolves js (release_lease r w js)"
  unfolding acquire_lease_def renew_lease_def release_lease_def Let_def snd_conv
  by (rule evolves_update_where; auto simp: row_evolution)+

lemma sweep_evolves: "evolves js (snd (sweep_stuck_jobs m now js))"
  unfolding sweep_stuck_jobs_def snd_conv
  by (rule evolves_update_where) (auto simp: stuck_def recover_job_def row_evolution)

lemma enqueue_cases:
  assumes "enqueue known now p js = Inr (r, js')"
  shows "(jc_idempotency_key p \<in> set (map job_idempotency_key js) \<and> js' = js)
    \<or> (jc_idempotency_key p \<notin> set (map job_idempotency_key js)
       \<and> jc_job_id p \<notin> set (map job_id js) \<and> known (jc_run_id p) \<and> js' = js @ [new_job now p])"
  using assms by (auto simp: enqueue_def Let_def ebind_Inr_iff split: if_splits)

lemma new_job_ok: "job_row_ok (new_job now p)"
  by (simp add: job_row_ok_def new_job_def)

lemma enqueue_ok:
  assumes "enqueue known now p js = Inr (r, js')" and "jobs_ok js"
  shows "jobs_ok js'"
  using enqueue_cases [OF assms(1)] assms(2) new_job_ok [of now p]
  by (auto simp: jobs_ok_def new_job_def)

section \<open>Reachable tables\<close>

inductive job_step :: "jobs \<Rightarrow> jobs \<Rightarrow> bool" where
  enqueue: "enqueue known now p js = Inr (r, js') \<Longrightarrow> job_step js js'"
| claim: "claim_next locked w secs now js = (r, js') \<Longrightarrow> job_step js js'"
| completed: "mark_completed i js = Inr (b, js') \<Longrightarrow> job_step js js'"
| failed: "mark_failed i js = Inr (b, js') \<Longrightarrow> job_step js js'"
| dead_letter: "mark_dead_letter i err cls now js = Inr (b, js') \<Longrightarrow> job_step js js'"
| replay: "replay_dead_letter i js = Inr (b, js') \<Longrightarrow> job_step js js'"
| requeue: "requeue_with_backoff i t js = Inr (b, js') \<Longrightarrow> job_step js js'"
| refresh: "refresh_lease i w secs now js = Inr (b, js') \<Longrightarrow> job_step js js'"
| cancel: "job_step js (snd (cancel_run_jobs r js))"
| promote: "job_step js (snd (promote_eligible locked limit now js))"
| sweep: "job_step js (snd (sweep_stuck_jobs m now js))"
| acquire: "job_step js (snd (acquire_lease r w secs now js))"
| renew: "job_step js (snd (renew_lease r w secs now js))"
| release: "job_step js (release_lease r w js)"

declare job_step.intros [step_intros]

lemma job_step_cases:
  assumes "job_step js js'" and "jobs_ok js"
  shows "evolves js js' \<or> (\<exists>known now p r. enqueue known now p js = Inr (r, js'))"
  using assms
proof (induction rule: job_step.induct)
  case (enqueue known now p js r js')
  then show ?case by blast
qed (auto intro: marks_evolve claim_next_evolves refresh_lease_evolves cancel_evolves
      promote_evolves sweep_evolves run_leases_evolve)

lemma job_step_rows:
  assumes "job_step js js'" and "jobs_ok js"
  shows "evolves js js' \<or> (\<exists>j. js' = js @ [j])"
  using job_step_cases [OF assms] enqueue_cases evolves_refl by metis

lemma job_step_ok: "job_step js js' \<Longrightarrow> jobs_ok js \<Longrightarrow> jobs_ok js'"
  using job_step_cases evolves_ok enqueue_ok by metis

lemma job_steps_ok: "job_step\<^sup>*\<^sup>* js js' \<Longrightarrow> jobs_ok js \<Longrightarrow> jobs_ok js'"
  by (induction rule: rtranclp_induct) (auto intro: job_step_ok)

lemma jobs_ok_Nil: "jobs_ok []"
  by (simp add: jobs_ok_def)

section \<open>The queue as a leased table\<close>

definition claim_one :: "string list \<Rightarrow> string \<Rightarrow> instant \<Rightarrow> int \<Rightarrow> jobs \<Rightarrow> string list \<times> jobs" where
  "claim_one locked w now secs js =
     (case claim_next locked w secs now js of
        (None, js') \<Rightarrow> ([], js') | (Some r, js') \<Rightarrow> ([jr_job_id r], js'))"

lemma claim_one_cases:
  "(claim_one locked w now secs js = ([], js))
   \<or> (\<exists>j \<in> set js. job_claimable now j \<and>
        claim_one locked w now secs js = ([job_id j], set_job (job_id j) (claim_job w now secs) js))"
proof -
  obtain r js' where c: "claim_next locked w secs now js = (r, js')" by fastforce
  from claim_next_cases [OF c] c show ?thesis
    by (auto simp: claim_one_def read_job_def claim_job_def)
qed

interpretation job_leases: leased_table jobs_ok job_id job_lease_owner job_lease_expires_at
  claim_one
proof (unfold_locales, goal_cases)
  case (1 js)
  then show ?case by (simp add: jobs_ok_def)
next
  case (2 js locked w now secs)
  obtain r js' where c: "claim_next locked w secs now js = (r, js')" by fastforce
  then have "snd (claim_one locked w now secs js) = js'"
    by (simp add: claim_one_def split: option.split)
  then show ?case using evolves_ok [OF claim_next_evolves [OF 2 c] 2] by simp
next
  case (3 locked w now secs js)
  show ?case using claim_one_cases [of locked w now secs js]
    by (auto simp: set_job_def claim_job_def intro!: map_update_where)
next
  case (4 js j locked w now secs)
  show ?case using claim_one_cases [of locked w now secs js]
  proof (elim disjE bexE conjE)
    fix k
    assume k: "k \<in> set js" "job_claimable now k"
      and c: "claim_one locked w now secs js = ([job_id k], set_job (job_id k) (claim_job w now secs) js)"
    from c 4(3) have "job_id j = job_id k" by simp
    with distinct_key_eq [of job_id js j k] 4(1,2) k have "j = k" by (simp add: jobs_ok_def)
    with k(2) show ?thesis by (simp add: job_claimable_def)
  qed (use 4(3) in simp)
next
  case (5 js j locked w now secs)
  show ?case using claim_one_cases [of locked w now secs js] 5
    by (auto simp: set_job_def set_update_where claim_job_def split: if_splits)
next
  case (6 j locked w now secs js)
  show ?case using claim_one_cases [of locked w now secs js] 6
    by (auto simp: set_job_def set_update_where claim_job_def split: if_splits)
next
  case (7 locked w now secs js)
  show ?case using claim_one_cases [of locked w now secs js] by auto
qed

section \<open>Properties\<close>

definition demo_job :: run_job_create where
  "demo_job = \<lparr>jc_job_id = ''j1'', jc_run_id = ''r1'', jc_kind = START,
     jc_idempotency_key = ''k1'', jc_payload = [], jc_eligible_at = None\<rparr>"

definition demo_jobs :: jobs where
  "demo_jobs = [new_job 5 demo_job]"

lemma demo_enqueue:
  "enqueue (\<lambda>r. True) 5 demo_job [] = Inr (read_job (new_job 5 demo_job), demo_jobs)"
  by (simp add: enqueue_def get_by_idempotency_key_def demo_jobs_def new_job_def demo_job_def)

lemma demo_jobs_reachable: "job_step\<^sup>*\<^sup>* [] demo_jobs"
  using demo_enqueue by (blast intro: job_step.enqueue)

lemma demo_jobs_ok: "jobs_ok demo_jobs"
  using job_steps_ok [OF demo_jobs_reachable jobs_ok_Nil] .

text \<open>
  In every table reached from the empty one by queue operations in any
  order and from any workers, ids and idempotency keys are unique, only a running job carries a
  lease, owner and expiry come and go together, a queued job has a due time and exactly the
  dead-lettered jobs carry a dead-letter time.
\<close>
lemma job_rows_consistent:
  assumes "job_step\<^sup>*\<^sup>* [] js"
  shows "distinct (map job_id js) \<and> distinct (map job_idempotency_key js)
     \<and> (\<forall>j \<in> set js. (job_lease_owner j = None \<longleftrightarrow> job_lease_expires_at j = None)
         \<and> (job_lease_owner j \<noteq> None \<longrightarrow> job_status j = JOB_RUNNING)
         \<and> (job_status j = JOB_QUEUED \<longrightarrow> job_eligible_at j \<noteq> None)
         \<and> (job_status j = JOB_DEAD_LETTER \<longleftrightarrow> job_dead_lettered_at j \<noteq> None))"
  using job_steps_ok [OF assms jobs_ok_Nil] by (auto simp: jobs_ok_def job_row_ok_def)

lemma job_rows_consistent_witness: "distinct (map job_id demo_jobs)"
  using job_rows_consistent [OF demo_jobs_reachable] by simp

text \<open>
  C11: while a claim's lease runs, no second claim of the same table, by any
  worker and with any set of locked rows, returns the same job.
\<close>
theorem job_claim_exclusive:
  assumes "job_step\<^sup>*\<^sup>* [] js" and "claim_next l1 w1 secs t1 js = (Some r1, js1)"
    and "claim_next l2 w2 secs' t2 js1 = (Some r2, js2)" and "t2 < t1 + seconds secs"
  shows "jr_job_id r1 \<noteq> jr_job_id r2"
proof -
  have "jobs_ok js" by (rule job_steps_ok [OF assms(1) jobs_ok_Nil])
  from job_leases.second_claim_disjoint [OF this assms(4), of l1 w1 l2 w2 secs']
  show ?thesis using assms(2,3) by (simp add: claim_one_def)
qed

definition demo_jobs2 :: jobs where
  "demo_jobs2 = demo_jobs @ [new_job 6 (demo_job\<lparr>jc_job_id := ''j2'', jc_idempotency_key := ''k2''\<rparr>)]"

lemma demo_jobs2_reachable: "job_step\<^sup>*\<^sup>* [] demo_jobs2"
proof -
  have "enqueue (\<lambda>r. True) 6 (demo_job\<lparr>jc_job_id := ''j2'', jc_idempotency_key := ''k2''\<rparr>) demo_jobs
      = Inr (read_job (new_job 6 (demo_job\<lparr>jc_job_id := ''j2'', jc_idempotency_key := ''k2''\<rparr>)), demo_jobs2)"
    by (simp add: enqueue_def get_by_idempotency_key_def demo_jobs_def demo_jobs2_def new_job_def demo_job_def)
  then show ?thesis using demo_jobs_reachable by (blast intro: job_step.enqueue rtranclp.rtrancl_into_rtrancl)
qed

theorem job_claim_exclusive_witness:
  "\<exists>r1 js1 r2 js2. claim_next [] ''w1'' 10 10 demo_jobs2 = (Some r1, js1)
     \<and> claim_next [] ''w2'' 10 11 js1 = (Some r2, js2) \<and> jr_job_id r1 \<noteq> jr_job_id r2"
proof -
  obtain r1 js1 where c1: "claim_next [] ''w1'' 10 10 demo_jobs2 = (Some r1, js1)"
    and "\<exists>r2 js2. claim_next [] ''w2'' 10 11 js1 = (Some r2, js2)"
    by (simp add: claim_next_def demo_jobs2_def demo_jobs_def new_job_def demo_job_def job_claimable_def
        lease_over_def set_job_def update_where_def claim_job_def seconds_def)
  then obtain r2 js2 where c2: "claim_next [] ''w2'' 10 11 js1 = (Some r2, js2)" by blast
  have "(11::int) < 10 + seconds 10" by (simp add: seconds_def)
  from job_claim_exclusive [OF demo_jobs2_reachable c1 c2 this] c1 c2 show ?thesis by blast
qed

text \<open>
  The abstract queue: which status each known job has. An abstract step lets every known job make
  one move of the status machine and may make one new job known, pending or queued.
\<close>

definition status_map :: "jobs \<Rightarrow> string \<rightharpoonup> job_status" where
  "status_map js = map_of (map (\<lambda>j. (job_id j, job_status j)) js)"

definition queue_step :: "(string \<rightharpoonup> job_status) \<Rightarrow> (string \<rightharpoonup> job_status) \<Rightarrow> bool" where
  "queue_step m m' \<longleftrightarrow>
     (dom m' = dom m \<or> (\<exists>i. i \<notin> dom m \<and> dom m' = insert i (dom m) \<and> m' i \<in> {Some JOB_PENDING, Some JOB_QUEUED}))
     \<and> (\<forall>i a. m i = Some a \<longrightarrow> (\<exists>b. m' i = Some b \<and> job_move a b))"

lemma status_map_Some:
  "distinct (map job_id js) \<Longrightarrow> status_map js i = Some a \<longleftrightarrow> (\<exists>j \<in> set js. job_id j = i \<and> job_status j = a)"
  by (auto simp: status_map_def map_of_eq_Some_iff comp_def)

lemma dom_status_map: "dom (status_map js) = set (map job_id js)"
  by (simp add: status_map_def dom_map_of_conv_image_fst image_image)

lemma evolves_queue_step:
  assumes e: "evolves js js'" and ok: "jobs_ok js"
  shows "queue_step (status_map js) (status_map js')"
proof -
  have "\<exists>b. status_map js' i = Some b \<and> job_move a b" if m: "status_map js i = Some a" for i a
  proof -
    from m ok obtain j where j: "j \<in> set js" "job_id j = i" "job_status j = a"
      by (auto simp: status_map_Some jobs_ok_def)
    obtain j' where "j' \<in> set js'" "row_evolves j j'" by (rule evolves_row [OF e j(1)])
    with j evolves_ok [OF e ok] show ?thesis
      by (auto simp: status_map_Some jobs_ok_def row_evolves_def)
  qed
  then show ?thesis
    by (simp add: queue_step_def dom_status_map evolves_keys [OF e] del: set_map)
qed

lemma enqueue_queue_step:
  assumes "enqueue known now p js = Inr (r, js')" and ok: "jobs_ok js"
  shows "queue_step (status_map js) (status_map js')"
  using enqueue_cases [OF assms(1)]
proof (elim disjE conjE)
  assume "js' = js"
  then show ?thesis using evolves_queue_step [OF evolves_refl ok] by simp
next
  assume fresh: "jc_job_id p \<notin> set (map job_id js)" and js': "js' = js @ [new_job now p]"
  let ?n = "new_job now p"
  have id: "job_id ?n = jc_job_id p" by (simp add: new_job_def)
  have m: "status_map js' = status_map js ++ [jc_job_id p \<mapsto> job_status ?n]" if "True"
  proof
    fix i
    have "status_map js (jc_job_id p) = None"
      using fresh dom_status_map [of js] by (metis domIff)
    then show "status_map js' i = (status_map js ++ [jc_job_id p \<mapsto> job_status ?n]) i"
      by (auto simp: js' status_map_def map_add_def id split: option.splits)
  qed
  have "status_map js (jc_job_id p) = None" using fresh dom_status_map [of js] by (metis domIff)
  then show ?thesis
    unfolding queue_step_def m [OF TrueI] by (auto simp: new_job_def job_move_def)
qed

text \<open>
  C12: the detailed queue implements the abstract one: every queue operation on a
  reachable table is one abstract step on the statuses of the jobs.
\<close>
theorem job_queue_refines:
  assumes "job_step\<^sup>*\<^sup>* [] js" and "job_step js js'"
  shows "queue_step (status_map js) (status_map js')"
  using job_step_cases [OF assms(2) job_steps_ok [OF assms(1) jobs_ok_Nil]]
    evolves_queue_step enqueue_queue_step job_steps_ok [OF assms(1) jobs_ok_Nil] by metis

theorem job_queue_refines_witness:
  "queue_step (status_map []) (status_map demo_jobs)"
  using job_queue_refines [of "[]" demo_jobs] demo_enqueue by (blast intro: job_step.enqueue)

text \<open>
  A job that is completed, failed or cancelled keeps that status for good,
  whatever operations any workers perform afterwards.
\<close>
lemma finished_job_stays:
  assumes "job_step\<^sup>*\<^sup>* [] js" and "job_step\<^sup>*\<^sup>* js js'" and "j \<in> set js" and "job_final (job_status j)"
  shows "\<exists>j' \<in> set js'. job_id j' = job_id j \<and> job_status j' = job_status j"
  using assms(2)
proof (induction rule: rtranclp_induct)
  case base
  then show ?case using assms(3) by blast
next
  case (step y z)
  then obtain k where k: "k \<in> set y" "job_id k = job_id j" "job_status k = job_status j" by blast
  have "jobs_ok y" using job_steps_ok [OF step.hyps(1)] job_steps_ok [OF assms(1) jobs_ok_Nil] by simp
  from job_step_rows [OF step.hyps(2) this] show ?case
  proof (elim disjE exE)
    assume "evolves y z"
    then obtain k' where k': "k' \<in> set z" "row_evolves k k'" using k(1) by (rule evolves_row)
    have "job_status k' = job_status k"
      by (rule job_final_move) (use k' k assms(4) in \<open>auto simp: row_evolves_def\<close>)
    with k k' show ?case by (auto simp: row_evolves_def)
  next
    fix n assume "z = y @ [n]"
    with k show ?case by auto
  qed
qed

definition demo_done :: jobs where
  "demo_done = snd (cancel_run_jobs ''r1'' demo_jobs)"

lemma finished_job_stays_witness:
  "\<exists>j \<in> set demo_done. \<exists>j' \<in> set (snd (promote_eligible [] 5 9 demo_done)).
     job_id j' = job_id j \<and> job_status j' = JOB_CANCELLED"
proof -
  have r: "job_step\<^sup>*\<^sup>* [] demo_done"
    unfolding demo_done_def by (rule rtranclp.rtrancl_into_rtrancl [OF demo_jobs_reachable job_step.cancel])
  obtain j where j: "j \<in> set demo_done" "job_status j = JOB_CANCELLED"
    by (simp add: demo_done_def cancel_run_jobs_def demo_jobs_def new_job_def demo_job_def
        active_job_def update_where_def)
  have s: "job_step\<^sup>*\<^sup>* demo_done (snd (promote_eligible [] 5 9 demo_done))" by (blast intro: job_step.promote)
  from finished_job_stays [OF r s j(1)] j show ?thesis by (auto simp: job_final_def)
qed

text \<open>
  Enqueueing under a key that is already in the table changes nothing and
  returns the job first enqueued under that key, whatever the second request says.
\<close>
lemma enqueue_idempotent:
  assumes "jobs_ok js" and "enqueue known now p js = Inr (r, js1)"
    and "jc_idempotency_key q = jc_idempotency_key p"
  shows "enqueue known' now' q js1 = Inr (r, js1)"
proof -
  have get: "get_by_idempotency_key (jc_idempotency_key p) js1 = Inr r"
    using assms(2) by (auto simp: enqueue_def Let_def ebind_Inr_iff split: if_splits)
  then have "jc_idempotency_key p \<in> set (map job_idempotency_key js1)"
    unfolding get_by_idempotency_key_def ebind_Inr_iff scalar_one_Inr set_map
    by (metis (mono_tags, lifting) filter_singletonD imageI)
  with get show ?thesis by (simp add: enqueue_def assms(3) del: set_map)
qed

lemma enqueue_idempotent_witness:
  "enqueue (\<lambda>r. False) 99 (demo_job\<lparr>jc_job_id := ''other'', jc_run_id := ''r9''\<rparr>) demo_jobs
     = Inr (read_job (new_job 5 demo_job), demo_jobs)"
  using enqueue_idempotent [OF jobs_ok_Nil demo_enqueue, of "demo_job\<lparr>jc_job_id := ''other'', jc_run_id := ''r9''\<rparr>"]
  by simp

text \<open>
  A claim answers with nothing exactly when no claimable row is unlocked;
  otherwise it returns an unlocked claimable row that no other such row predates, running, leased
  to the caller, with one more attempt, and it changes no other row.
\<close>
lemma claim_next_oldest:
  "case claim_next locked w secs now js of
     (None, js') \<Rightarrow> js' = js \<and> (\<forall>j \<in> set js. job_claimable now j \<longrightarrow> job_id j \<in> set locked)
   | (Some r, js') \<Rightarrow> \<exists>j \<in> set js. job_claimable now j \<and> job_id j \<notin> set locked
        \<and> (\<forall>k \<in> set js. job_claimable now k \<and> job_id k \<notin> set locked
               \<longrightarrow> job_created_at j \<le> job_created_at k)
        \<and> r = read_job (claim_job w now secs j)
        \<and> js' = update_where (\<lambda>k. job_id k = job_id j) (claim_job w now secs) js"
proof -
  obtain x js' where c: "claim_next locked w secs now js = (x, js')" by fastforce
  show ?thesis using claim_next_cases [OF c] by (auto simp: c set_job_def)
qed

lemma claim_next_oldest_witness:
  "\<exists>j \<in> set demo_jobs2. read_job (claim_job ''w'' 10 60 j)
     = the (fst (claim_next [''j1''] ''w'' 60 10 demo_jobs2)) \<and> job_id j \<notin> set [''j1'']"
proof -
  obtain r js' where "claim_next [''j1''] ''w'' 60 10 demo_jobs2 = (Some r, js')"
    by (simp add: claim_next_def demo_jobs2_def demo_jobs_def new_job_def demo_job_def
        job_claimable_def lease_over_def)
  with claim_next_oldest [where locked = "[''j1'']" and w = "''w''" and secs = 60 and now = 10 and js = demo_jobs2] show ?thesis by auto
qed

text \<open>
  In a reachable table the backlog the autoscaler counts is real: when
  the count is positive and no row is locked, a claim at the same instant returns a job.
\<close>
lemma backlog_is_claimable:
  assumes "job_step\<^sup>*\<^sup>* [] js" and "0 < count_claimable_run_jobs now js"
  shows "fst (claim_next [] w secs now js) \<noteq> None"
proof -
  from assms(2) obtain j where j: "j \<in> set js"
    "job_status j = JOB_PENDING \<or> (job_status j = JOB_QUEUED \<and> due now (job_eligible_at j))"
    by (auto simp: count_claimable_run_jobs_def filter_empty_conv)
  have "job_row_ok j" using job_steps_ok [OF assms(1) jobs_ok_Nil] j(1) by (simp add: jobs_ok_def)
  with j(2) have "job_claimable now j" by (auto simp: job_claimable_def job_row_ok_def lease_over_def)
  moreover obtain r js' where c: "claim_next [] w secs now js = (r, js')" by fastforce
  ultimately show ?thesis using claim_next_cases [OF c] j(1) by auto
qed

lemma backlog_is_claimable_witness: "fst (claim_next [] ''w'' 60 7 demo_jobs) \<noteq> None"
  by (rule backlog_is_claimable [OF demo_jobs_reachable])
    (simp add: count_claimable_run_jobs_def demo_jobs_def new_job_def demo_job_def)

text \<open>
  Completion is not fenced by the lease. Worker \<open>w1\<close> lets its lease run
  out, \<open>w2\<close> claims the job again, and the late \<open>mark_completed\<close> of \<open>w1\<close> still succeeds and takes
  the job, lease and all, away from \<open>w2\<close>, whose own completion is then refused.
\<close>
lemma late_worker_completes:
  "let js1 = snd (claim_next [] ''w1'' 10 100 demo_jobs);
       js2 = snd (claim_next [] ''w2'' 10 (100 + seconds 10) js1)
   in map job_lease_owner js2 = [Some ''w2'']
      \<and> (\<exists>js3. mark_completed ''j1'' js2 = Inr (True, js3) \<and> map job_lease_owner js3 = [None]
            \<and> mark_completed ''j1'' js3 = Inr (False, js3))"
  by (simp add: claim_next_def demo_jobs_def new_job_def demo_job_def job_claimable_def lease_over_def
      set_job_def update_where_def claim_job_def mark_completed_def guarded_update_def
      get_job_for_update_def)

text \<open>Dead-lettered jobs are out of reach of claims until an operator replays them.\<close>

lemma dead_letter_not_claimable: "job_status j = JOB_DEAD_LETTER \<Longrightarrow> \<not> job_claimable now j"
  by (simp add: job_claimable_def)

text \<open>
  A worker that crashes on every execution: each round claims the job, lets the lease run out and
  is cleaned up by the sweep.
\<close>

definition crash_round :: "int \<Rightarrow> run_job \<Rightarrow> run_job" where
  "crash_round m j =
     (if job_status j = JOB_PENDING then recover_job 1 m (claim_job ''w'' 0 0 j) else j)"

lemma crash_rounds_pending:
  "job_status j = JOB_PENDING \<Longrightarrow> job_attempts j = 0 \<Longrightarrow> 2 * n \<le> m \<Longrightarrow>
   job_status ((crash_round (int m) ^^ n) j) = JOB_PENDING
   \<and> job_attempts ((crash_round (int m) ^^ n) j) = 2 * int n"
  by (induction n) (simp_all add: crash_round_def recover_job_def claim_job_def)



end
