(* ===== verification/Control_Store.thy ===== *)
theory Control_Store
  imports Prelude
begin

text \<open>
  The control store (\<open>services/gateway/teaching_pack_control_store.py\<close>, rows from
  \<open>teaching_pack_models.py\<close> and \<open>teaching_pack_artifact_models.py\<close>, the editable fields of
  \<open>teaching_pack_contract_edits.py\<close>, the gate sweep of \<open>recovery_sweeper.py\<close>): run contracts with
  their revisions, teacher gates with their responses, artifact workflow rows. Constraints of the
  tables are modelled: primary keys, the one-contract-per-run key, the (contract, revision) key, the
  one-response-per-gate key and the partial key "one active gate per run and name". A row that
  references an unknown run fails; \<open>known_run\<close> is the set of runs of the run store.
\<close>

section \<open>Rows\<close>

datatype gate_status = GATE_ACTIVE | GATE_RESPONDED | GATE_EXPIRED | GATE_CANCELLED

record contract_row =
  contract_id :: string
  contract_run_id :: string
  contract_teacher_id :: string
  contract_json :: json_object
  current_revision :: nat

record revision_row =
  rev_contract_id :: string
  rev_run_id :: string
  rev_revision :: nat
  rev_contract_json :: json_object

record gate_row =
  gate_id :: string
  gate_run_id :: string
  gate_name :: string
  gate_status :: gate_status
  gate_payload :: json_object
  gate_created_at :: instant

record response_row =
  response_id :: string
  resp_gate_id :: string
  resp_run_id :: string
  resp_teacher_id :: string
  response_json :: json_object

datatype workflow_status =
    WF_QUEUED | WF_RUNNING | WF_VALIDATING | WF_HEALING | WF_PASSED | WF_FAILED | WF_SKIPPED | WF_ESCALATED

datatype check_status = CHECK_PENDING | CHECK_PASSED | CHECK_FAILED | CHECK_SKIPPED

record workflow_state =
  ws_workflow_id :: string
  ws_run_id :: string
  ws_artifact_id :: string
  ws_artifact_type :: string
  ws_status :: workflow_status
  ws_attempts :: nat
  ws_contract_revision_id :: nat
  ws_research_guidance_id :: string
  ws_validation_status :: check_status
  ws_judge_status :: check_status
  ws_snapshot_refs :: "string list"
  ws_last_error :: "string option"

record workflow_row =
  wf_state :: workflow_state
  wf_snapshot_id :: "string option"

record control_db =
  contracts :: "contract_row list"
  contract_revisions :: "revision_row list"
  gates :: "gate_row list"
  gate_responses :: "response_row list"
  workflows :: "workflow_row list"

section \<open>Payload records\<close>

record gate_interrupt_create =
  gc_gate_id :: string
  gc_run_id :: string
  gc_gate_name :: string
  gc_payload :: json_object

record gate_response_create =
  grc_response_id :: string
  grc_gate_id :: string
  grc_run_id :: string
  grc_teacher_id :: string
  grc_response_json :: json_object

record artifact_workflow_create =
  awc_workflow_id :: string
  awc_run_id :: string
  awc_artifact_id :: string
  awc_artifact_type :: string
  awc_contract_revision_id :: nat
  awc_research_guidance_id :: string

record run_contract_create =
  rcc_contract_id :: string
  rcc_run_id :: string
  rcc_teacher_id :: string
  rcc_contract_json :: json_object

record contract_revision_create =
  crc_contract_id :: string
  crc_run_id :: string
  crc_revision :: nat
  crc_contract_json :: json_object

section \<open>Contracts\<close>

definition add_revision :: "contract_revision_create \<Rightarrow> control_db \<Rightarrow> control_db result" where
  "add_revision p db =
     (if \<exists>v \<in> set (contract_revisions db).
           rev_contract_id v = crc_contract_id p \<and> rev_revision v = crc_revision p
      then Inl IntegrityError
      else Inr (db\<lparr>contract_revisions := contract_revisions db @
             [\<lparr>rev_contract_id = crc_contract_id p, rev_run_id = crc_run_id p,
               rev_revision = crc_revision p, rev_contract_json = crc_contract_json p\<rparr>]\<rparr>))"

definition create_contract ::
  "(string \<Rightarrow> bool) \<Rightarrow> run_contract_create \<Rightarrow> control_db \<Rightarrow> control_db result" where
  "create_contract known_run p db =
     (if rcc_contract_id p \<in> set (map contract_id (contracts db))
         \<or> rcc_run_id p \<in> set (map contract_run_id (contracts db)) \<or> \<not> known_run (rcc_run_id p)
      then Inl IntegrityError
      else add_revision
             \<lparr>crc_contract_id = rcc_contract_id p, crc_run_id = rcc_run_id p, crc_revision = 1,
              crc_contract_json = rcc_contract_json p\<rparr>
             (db\<lparr>contracts := contracts db @
               [\<lparr>contract_id = rcc_contract_id p, contract_run_id = rcc_run_id p,
                 contract_teacher_id = rcc_teacher_id p, contract_json = rcc_contract_json p,
                 current_revision = 1\<rparr>]\<rparr>))"

definition revise_contract :: "contract_revision_create \<Rightarrow> control_db \<Rightarrow> control_db result" where
  "revise_contract p db =
     ebind (scalar_one (filter (\<lambda>c. contract_id c = crc_contract_id p
                                   \<and> contract_run_id c = crc_run_id p) (contracts db)))
       (\<lambda>_. add_revision p
          (db\<lparr>contracts := update_where
             (\<lambda>c. contract_id c = crc_contract_id p \<and> contract_run_id c = crc_run_id p)
             (\<lambda>c. c\<lparr>contract_json := crc_contract_json p, current_revision := crc_revision p\<rparr>)
             (contracts db)\<rparr>))"

definition EDITABLE_CONTRACT_FIELDS :: "string list" where
  "EDITABLE_CONTRACT_FIELDS =
     [''artifact_types'', ''citation_locale'', ''curriculum'', ''export_formats'', ''grade_band'',
      ''instruction_language'', ''locale'', ''mode'', ''decomposition_intent'', ''research_policy'',
      ''subject'', ''topic'']"

definition apply_contract_edits ::
  "string \<Rightarrow> json_object \<Rightarrow> control_db \<Rightarrow> (nat \<times> control_db) result" where
  "apply_contract_edits r edits db =
     ebind (scalar_one (filter (\<lambda>c. contract_run_id c = r) (contracts db)))
       (\<lambda>c. let next_revision = current_revision c + 1;
                editable_edits = filter (\<lambda>(k, v). k \<in> set EDITABLE_CONTRACT_FIELDS) edits
            in ebind (revise_contract
                  \<lparr>crc_contract_id = contract_id c, crc_run_id = r, crc_revision = next_revision,
                   crc_contract_json = dict_merge (contract_json c) editable_edits\<rparr> db)
                 (\<lambda>db'. Inr (next_revision, db')))"

definition get_contract_json :: "string \<Rightarrow> control_db \<Rightarrow> json_object result" where
  "get_contract_json r db =
     ebind (scalar_one (filter (\<lambda>c. contract_run_id c = r) (contracts db))) (\<lambda>c. Inr (contract_json c))"

section \<open>Gates\<close>

definition open_gate ::
  "(string \<Rightarrow> bool) \<Rightarrow> instant \<Rightarrow> gate_interrupt_create \<Rightarrow> control_db \<Rightarrow> control_db result" where
  "open_gate known_run now p db =
     (if gc_gate_id p \<in> set (map gate_id (gates db)) \<or> \<not> known_run (gc_run_id p)
         \<or> (\<exists>g \<in> set (gates db). gate_status g = GATE_ACTIVE \<and> gate_run_id g = gc_run_id p
                               \<and> gate_name g = gc_gate_name p)
      then Inl IntegrityError
      else Inr (db\<lparr>gates := gates db @
             [\<lparr>gate_id = gc_gate_id p, gate_run_id = gc_run_id p, gate_name = gc_gate_name p,
               gate_status = GATE_ACTIVE, gate_payload = gc_payload p, gate_created_at = now\<rparr>]\<rparr>))"

definition list_active_gates :: "string \<Rightarrow> control_db \<Rightarrow> gate_row list" where
  "list_active_gates r db =
     sort_key gate_created_at (filter (\<lambda>g. gate_run_id g = r \<and> gate_status g = GATE_ACTIVE) (gates db))"

definition set_gates :: "(gate_row \<Rightarrow> bool) \<Rightarrow> gate_status \<Rightarrow> control_db \<Rightarrow> control_db" where
  "set_gates p s db = db\<lparr>gates := update_where p (\<lambda>g. g\<lparr>gate_status := s\<rparr>) (gates db)\<rparr>"

definition cancel_active_gates :: "string \<Rightarrow> control_db \<Rightarrow> nat \<times> control_db" where
  "cancel_active_gates r db =
     (let gs = list_active_gates r db
      in (length gs, set_gates (\<lambda>g. gate_id g \<in> set (map gate_id gs)) GATE_CANCELLED db))"

definition respond_to_gate :: "gate_response_create \<Rightarrow> control_db \<Rightarrow> control_db result" where
  "respond_to_gate p db =
     ebind (scalar_one (filter (\<lambda>g. gate_id g = grc_gate_id p \<and> gate_run_id g = grc_run_id p) (gates db)))
       (\<lambda>g. if gate_status g \<noteq> GATE_ACTIVE then Inl (StaleGateResponseError (grc_gate_id p))
            else if grc_response_id p \<in> set (map response_id (gate_responses db))
                    \<or> grc_gate_id p \<in> set (map resp_gate_id (gate_responses db))
            then Inl IntegrityError
            else Inr ((set_gates (\<lambda>x. gate_id x = gate_id g) GATE_RESPONDED db)
                   \<lparr>gate_responses := gate_responses db @
                      [\<lparr>response_id = grc_response_id p, resp_gate_id = grc_gate_id p,
                        resp_run_id = grc_run_id p, resp_teacher_id = grc_teacher_id p,
                        response_json = grc_response_json p\<rparr>]\<rparr>))"

text \<open>\<open>sweep_escalated_gates\<close>: gates open for longer than the timeout expire.\<close>

definition hours :: "int \<Rightarrow> int" where
  "hours n = n * 3600 * 1000000"

definition sweep_escalated_gates :: "int \<Rightarrow> instant \<Rightarrow> control_db \<Rightarrow> string list \<times> control_db" where
  "sweep_escalated_gates timeout_hours now db =
     (let cutoff = now - hours timeout_hours;
          stale = sort_key gate_created_at
            (filter (\<lambda>g. gate_status g = GATE_ACTIVE \<and> gate_created_at g < cutoff) (gates db))
      in (map gate_id stale, set_gates (\<lambda>g. gate_id g \<in> set (map gate_id stale)) GATE_EXPIRED db))"

section \<open>Artifact workflows\<close>

definition last_snapshot :: "string list \<Rightarrow> string option" where
  "last_snapshot refs = (if refs = [] then None else Some (last refs))"

definition workflow_insert ::
  "(string \<Rightarrow> bool) \<Rightarrow> workflow_state \<Rightarrow> control_db \<Rightarrow> control_db result" where
  "workflow_insert known_run s db =
     (if (\<exists>w \<in> set (workflows db). ws_workflow_id (wf_state w) = ws_workflow_id s
            \<or> (ws_run_id (wf_state w) = ws_run_id s \<and> ws_artifact_id (wf_state w) = ws_artifact_id s))
         \<or> \<not> known_run (ws_run_id s)
      then Inl IntegrityError
      else Inr (db\<lparr>workflows := workflows db @
             [\<lparr>wf_state = s, wf_snapshot_id = last_snapshot (ws_snapshot_refs s)\<rparr>]\<rparr>))"

definition create_artifact_workflow ::
  "(string \<Rightarrow> bool) \<Rightarrow> artifact_workflow_create \<Rightarrow> control_db \<Rightarrow> control_db result" where
  "create_artifact_workflow known_run p db =
     workflow_insert known_run
       \<lparr>ws_workflow_id = awc_workflow_id p, ws_run_id = awc_run_id p, ws_artifact_id = awc_artifact_id p,
        ws_artifact_type = awc_artifact_type p, ws_status = WF_QUEUED, ws_attempts = 0,
        ws_contract_revision_id = awc_contract_revision_id p,
        ws_research_guidance_id = awc_research_guidance_id p, ws_validation_status = CHECK_PENDING,
        ws_judge_status = CHECK_PENDING, ws_snapshot_refs = [], ws_last_error = None\<rparr> db"

definition workflow_is :: "string \<Rightarrow> string \<Rightarrow> workflow_row \<Rightarrow> bool" where
  "workflow_is r a w \<longleftrightarrow> ws_run_id (wf_state w) = r \<and> ws_artifact_id (wf_state w) = a"

text \<open>
  The update branch keeps the row's workflow id, run, artifact id and artifact type and takes the
  rest from the new state.
\<close>

definition upsert_artifact_workflow_state ::
  "(string \<Rightarrow> bool) \<Rightarrow> workflow_state \<Rightarrow> control_db \<Rightarrow> control_db result" where
  "upsert_artifact_workflow_state known_run s db =
     ebind (scalar_one_or_none (filter (workflow_is (ws_run_id s) (ws_artifact_id s)) (workflows db)))
       (\<lambda>x. case x of
          None \<Rightarrow> workflow_insert known_run s db
        | Some w \<Rightarrow> Inr (db\<lparr>workflows := update_where (workflow_is (ws_run_id s) (ws_artifact_id s))
            (\<lambda>w. \<lparr>wf_state = (wf_state w)\<lparr>ws_status := ws_status s, ws_attempts := ws_attempts s,
                   ws_contract_revision_id := ws_contract_revision_id s,
                   ws_research_guidance_id := ws_research_guidance_id s,
                   ws_validation_status := ws_validation_status s,
                   ws_judge_status := ws_judge_status s, ws_snapshot_refs := ws_snapshot_refs s,
                   ws_last_error := ws_last_error s\<rparr>,
                 wf_snapshot_id = last_snapshot (ws_snapshot_refs s)\<rparr>) (workflows db)\<rparr>))"

definition get_artifact_workflow_state ::
  "string \<Rightarrow> string \<Rightarrow> control_db \<Rightarrow> workflow_state option result" where
  "get_artifact_workflow_state r a db =
     ebind (scalar_one_or_none (filter (workflow_is r a) (workflows db)))
       (\<lambda>x. Inr (map_option wf_state x))"

definition set_artifact_status ::
  "string \<Rightarrow> string \<Rightarrow> workflow_status \<Rightarrow> control_db \<Rightarrow> control_db result" where
  "set_artifact_status r a s db =
     ebind (scalar_one (filter (workflow_is r a) (workflows db)))
       (\<lambda>_. Inr (db\<lparr>workflows := update_where (workflow_is r a)
          (\<lambda>w. w\<lparr>wf_state := (wf_state w)\<lparr>ws_status := s\<rparr>\<rparr>) (workflows db)\<rparr>))"

end
