(* ===== verification/Control_Laws.thy ===== *)
theory Control_Laws
  imports Control_Store
begin

text \<open>
  What the control store promises: a gate is answered at most once and the first answer is final,
  contract revisions are numbered without gaps and only touch the editable fields.
\<close>

section \<open>Gates\<close>

definition gates_ok :: "control_db \<Rightarrow> bool" where
  "gates_ok db \<longleftrightarrow>
     distinct (map gate_id (gates db)) \<and> distinct (map resp_gate_id (gate_responses db))
     \<and> (\<forall>x \<in> set (gate_responses db). \<exists>g \<in> set (gates db).
          gate_id g = resp_gate_id x \<and> gate_status g = GATE_RESPONDED)
     \<and> (\<forall>g \<in> set (gates db). gate_status g = GATE_RESPONDED \<longrightarrow>
          gate_id g \<in> resp_gate_id ` set (gate_responses db))
     \<and> (\<forall>g \<in> set (gates db). \<forall>h \<in> set (gates db).
          gate_status g = GATE_ACTIVE \<and> gate_status h = GATE_ACTIVE \<and> gate_run_id g = gate_run_id h
          \<and> gate_name g = gate_name h \<longrightarrow> g = h)"

lemma gates_okD:
  assumes "gates_ok db"
  shows "distinct (map gate_id (gates db))" and "distinct (map resp_gate_id (gate_responses db))"
    and "x \<in> set (gate_responses db) \<Longrightarrow>
      \<exists>g \<in> set (gates db). gate_id g = resp_gate_id x \<and> gate_status g = GATE_RESPONDED"
    and "g \<in> set (gates db) \<Longrightarrow> gate_status g = GATE_RESPONDED \<Longrightarrow>
      gate_id g \<in> resp_gate_id ` set (gate_responses db)"
    and "g \<in> set (gates db) \<Longrightarrow> h \<in> set (gates db) \<Longrightarrow> gate_status g = GATE_ACTIVE \<Longrightarrow>
      gate_status h = GATE_ACTIVE \<Longrightarrow> gate_run_id g = gate_run_id h \<Longrightarrow> gate_name g = gate_name h \<Longrightarrow>
      g = h"
  using assms unfolding gates_ok_def by blast+

lemma set_gates_simps [simp]:
  "gate_responses (set_gates p s db) = gate_responses db"
  "contracts (set_gates p s db) = contracts db"
  "contract_revisions (set_gates p s db) = contract_revisions db"
  "workflows (set_gates p s db) = workflows db"
  by (simp_all add: set_gates_def)

lemma gates_set_gates:
  "set (gates (set_gates p s db)) = (\<lambda>g. if p g then g\<lparr>gate_status := s\<rparr> else g) ` set (gates db)"
  by (simp add: set_gates_def set_update_where)

lemma set_gates_keeps: "g \<in> set (gates db) \<Longrightarrow> \<not> p g \<Longrightarrow> g \<in> set (gates (set_gates p s db))"
  by (auto simp: gates_set_gates intro!: image_eqI [of _ _ g])

lemma set_gates_ids [simp]: "map gate_id (gates (set_gates p s db)) = map gate_id (gates db)"
  by (simp add: set_gates_def map_update_where)

text \<open>Closing active gates without an answer keeps the invariant.\<close>

lemma set_gates_close:
  assumes ok: "gates_ok db" and act: "\<And>g. g \<in> set (gates db) \<Longrightarrow> p g \<Longrightarrow> gate_status g = GATE_ACTIVE"
    and s: "s = GATE_EXPIRED \<or> s = GATE_CANCELLED"
  shows "gates_ok (set_gates p s db)"
proof -
  let ?db = "set_gates p s db"
  have "\<exists>g \<in> set (gates ?db). gate_id g = resp_gate_id x \<and> gate_status g = GATE_RESPONDED"
    if "x \<in> set (gate_responses db)" for x
    using gates_okD(3) [OF ok that] act by (force simp: gates_set_gates)
  moreover have "gate_id g \<in> resp_gate_id ` set (gate_responses db)"
    if "g \<in> set (gates ?db)" "gate_status g = GATE_RESPONDED" for g
    using that s gates_okD(4) [OF ok] by (auto simp: gates_set_gates split: if_splits)
  moreover have "g = h" if "g \<in> set (gates ?db)" "h \<in> set (gates ?db)" "gate_status g = GATE_ACTIVE"
    "gate_status h = GATE_ACTIVE" "gate_run_id g = gate_run_id h" "gate_name g = gate_name h" for g h
    using that s gates_okD(5) [OF ok] by (auto simp: gates_set_gates split: if_splits)
  ultimately show ?thesis using gates_okD(1,2) [OF ok] unfolding gates_ok_def by simp
qed

lemma selected_gate_active:
  assumes "distinct (map gate_id (gates db))" and "g \<in> set (gates db)"
    and "gate_id g \<in> set (map gate_id gs)" and "set gs \<subseteq> {g \<in> set (gates db). gate_status g = GATE_ACTIVE}"
  shows "gate_status g = GATE_ACTIVE"
  using distinct_key_eq [OF assms(1,2)] assms(3,4) by auto

lemma cancel_active_gates_ok: "gates_ok db \<Longrightarrow> gates_ok (snd (cancel_active_gates r db))"
  unfolding cancel_active_gates_def Let_def snd_conv
  by (rule set_gates_close, assumption, rule selected_gate_active [where gs = "list_active_gates r db"])
    (auto simp: list_active_gates_def dest: gates_okD(1))

lemma sweep_escalated_gates_ok:
  assumes "gates_ok db"
  shows "gates_ok (snd (sweep_escalated_gates h now db))"
proof -
  let ?gs = "sort_key gate_created_at
    (filter (\<lambda>g. gate_status g = GATE_ACTIVE \<and> gate_created_at g < now - hours h) (gates db))"
  have "gates_ok (set_gates (\<lambda>g. gate_id g \<in> set (map gate_id ?gs)) GATE_EXPIRED db)"
    by (rule set_gates_close [OF assms selected_gate_active [OF gates_okD(1) [OF assms], where gs = ?gs]]) auto
  then show ?thesis by (simp only: sweep_escalated_gates_def Let_def snd_conv)
qed

lemma open_gate_ok:
  assumes ok: "gates_ok db" and op: "open_gate known now p db = Inr db'"
  shows "gates_ok db'"
proof -
  from op have new: "gc_gate_id p \<notin> set (map gate_id (gates db))"
    "\<forall>g \<in> set (gates db). gate_status g = GATE_ACTIVE \<and> gate_run_id g = gc_run_id p \<longrightarrow>
       gate_name g \<noteq> gc_gate_name p"
    and db': "gates db' = gates db @ [\<lparr>gate_id = gc_gate_id p, gate_run_id = gc_run_id p,
       gate_name = gc_gate_name p, gate_status = GATE_ACTIVE, gate_payload = gc_payload p,
       gate_created_at = now\<rparr>]" "gate_responses db' = gate_responses db"
    by (auto simp: open_gate_def split: if_splits)
  show ?thesis using gates_okD [OF ok] new
    unfolding gates_ok_def db' by (simp, metis)
qed

lemma respond_to_gate_Inr:
  assumes "respond_to_gate p db = Inr db'"
  obtains g where "filter (\<lambda>g. gate_id g = grc_gate_id p \<and> gate_run_id g = grc_run_id p) (gates db) = [g]"
    and "gate_status g = GATE_ACTIVE"
    and "grc_gate_id p \<notin> set (map resp_gate_id (gate_responses db))"
    and "db' = (set_gates (\<lambda>x. gate_id x = gate_id g) GATE_RESPONDED db)
       \<lparr>gate_responses := gate_responses db @
          [\<lparr>response_id = grc_response_id p, resp_gate_id = grc_gate_id p, resp_run_id = grc_run_id p,
            resp_teacher_id = grc_teacher_id p, response_json = grc_response_json p\<rparr>]\<rparr>"
  using assms by (auto simp: respond_to_gate_def ebind_Inr_iff split: if_splits)

lemma respond_to_gate_ok:
  assumes ok: "gates_ok db" and rsp: "respond_to_gate p db = Inr db'"
  shows "gates_ok db'"
  using rsp
proof (rule respond_to_gate_Inr)
  fix g
  assume "filter (\<lambda>g. gate_id g = grc_gate_id p \<and> gate_run_id g = grc_run_id p) (gates db) = [g]"
  then have g: "g \<in> set (gates db)" "gate_id g = grc_gate_id p" by (auto dest: filter_singletonD)
  assume act: "gate_status g = GATE_ACTIVE" and new: "grc_gate_id p \<notin> set (map resp_gate_id (gate_responses db))"
    and db': "db' = (set_gates (\<lambda>x. gate_id x = gate_id g) GATE_RESPONDED db)
       \<lparr>gate_responses := gate_responses db @
          [\<lparr>response_id = grc_response_id p, resp_gate_id = grc_gate_id p, resp_run_id = grc_run_id p,
            resp_teacher_id = grc_teacher_id p, response_json = grc_response_json p\<rparr>]\<rparr>"
  have gs: "set (gates db') = (\<lambda>x. if gate_id x = gate_id g then x\<lparr>gate_status := GATE_RESPONDED\<rparr> else x) ` set (gates db)"
    by (simp add: db' set_gates_def set_update_where)
  have rs: "gate_responses db' = gate_responses db @ [\<lparr>response_id = grc_response_id p,
      resp_gate_id = grc_gate_id p, resp_run_id = grc_run_id p, resp_teacher_id = grc_teacher_id p,
      response_json = grc_response_json p\<rparr>]" by (simp add: db')
  have ids: "map gate_id (gates db') = map gate_id (gates db)"
    unfolding db' by (simp add: set_gates_def map_update_where)
  have "\<exists>x \<in> set (gates db'). gate_id x = resp_gate_id y \<and> gate_status x = GATE_RESPONDED"
    if "y \<in> set (gate_responses db')" for y
  proof (cases "y \<in> set (gate_responses db)")
    case True
    with gates_okD(3) [OF ok] obtain x where "x \<in> set (gates db)" "gate_id x = resp_gate_id y"
      "gate_status x = GATE_RESPONDED" by blast
    then show ?thesis unfolding gs by (intro bexI [of _ x] image_eqI [of _ _ x]) auto
  next
    case False
    with that have "resp_gate_id y = gate_id g" by (auto simp: rs g(2))
    with g(1) show ?thesis unfolding gs
      by (intro bexI [of _ "g\<lparr>gate_status := GATE_RESPONDED\<rparr>"] image_eqI [of _ _ g]) auto
  qed
  moreover have "gate_id x \<in> resp_gate_id ` set (gate_responses db')"
    if "x \<in> set (gates db')" "gate_status x = GATE_RESPONDED" for x
    using that gates_okD(4) [OF ok] g(2) by (auto simp: gs rs split: if_splits)
  moreover have "x = y" if "x \<in> set (gates db')" "y \<in> set (gates db')" "gate_status x = GATE_ACTIVE"
    "gate_status y = GATE_ACTIVE" "gate_run_id x = gate_run_id y" "gate_name x = gate_name y" for x y
    using that gates_okD(5) [OF ok] by (auto simp: gs split: if_splits)
  moreover have "distinct (map resp_gate_id (gate_responses db'))"
    using gates_okD(2) [OF ok] new by (simp add: rs)
  ultimately show ?thesis using gates_okD(1) [OF ok] unfolding gates_ok_def ids by simp
qed

lemma respond_marks:
  assumes "gates_ok db" and "respond_to_gate p db = Inr db'"
  shows "\<exists>g \<in> set (gates db'). gate_id g = grc_gate_id p \<and> gate_run_id g = grc_run_id p
           \<and> gate_status g = GATE_RESPONDED"
  using assms(2)
proof (rule respond_to_gate_Inr)
  fix g
  assume "filter (\<lambda>g. gate_id g = grc_gate_id p \<and> gate_run_id g = grc_run_id p) (gates db) = [g]"
  then have "g \<in> set (gates db)" "gate_id g = grc_gate_id p" "gate_run_id g = grc_run_id p"
    by (auto dest: filter_singletonD)
  moreover assume "db' = (set_gates (\<lambda>x. gate_id x = gate_id g) GATE_RESPONDED db)
       \<lparr>gate_responses := gate_responses db @
          [\<lparr>response_id = grc_response_id p, resp_gate_id = grc_gate_id p, resp_run_id = grc_run_id p,
            resp_teacher_id = grc_teacher_id p, response_json = grc_response_json p\<rparr>]\<rparr>"
  ultimately show ?thesis
    by (intro bexI [of _ "g\<lparr>gate_status := GATE_RESPONDED\<rparr>"])
      (auto simp: gates_set_gates intro!: image_eqI [of _ _ g])
qed

section \<open>Contracts\<close>

lemma dict_merge_other:
  "k \<notin> fst ` set e \<Longrightarrow> map_of (dict_merge d e) k = map_of d k"
proof (induction e rule: rev_induct)
  case Nil
  then show ?case by (simp add: dict_merge_def)
next
  case (snoc kv e)
  then show ?case by (cases kv) (auto simp: map_of_dict_merge_snoc)
qed

definition same_fixed_fields :: "json_object \<Rightarrow> json_object \<Rightarrow> bool" where
  "same_fixed_fields a b \<longleftrightarrow> (\<forall>k. k \<notin> set EDITABLE_CONTRACT_FIELDS \<longrightarrow> map_of a k = map_of b k)"

lemma same_fixed_fields_refl [simp]: "same_fixed_fields a a"
  by (simp add: same_fixed_fields_def)

lemma same_fixed_fields_merge:
  "same_fixed_fields a b \<Longrightarrow>
   same_fixed_fields a (dict_merge b (filter (\<lambda>(k, v). k \<in> set EDITABLE_CONTRACT_FIELDS) e))"
  by (auto simp: same_fixed_fields_def intro!: dict_merge_other [symmetric])

definition revisions_of :: "control_db \<Rightarrow> string \<Rightarrow> revision_row list" where
  "revisions_of db c = filter (\<lambda>v. rev_contract_id v = c) (contract_revisions db)"

definition contract_ok :: "control_db \<Rightarrow> contract_row \<Rightarrow> bool" where
  "contract_ok db c \<longleftrightarrow> (let vs = revisions_of db (contract_id c) in
     1 \<le> current_revision c \<and> map rev_revision vs = [1..<Suc (current_revision c)]
     \<and> rev_contract_json (last vs) = contract_json c
     \<and> (\<forall>v \<in> set vs. same_fixed_fields (rev_contract_json v) (contract_json c)))"

definition contracts_ok :: "control_db \<Rightarrow> bool" where
  "contracts_ok db \<longleftrightarrow>
     distinct (map contract_id (contracts db)) \<and> distinct (map contract_run_id (contracts db))
     \<and> (\<forall>v \<in> set (contract_revisions db). rev_contract_id v \<in> contract_id ` set (contracts db))
     \<and> (\<forall>c \<in> set (contracts db). contract_ok db c)"

lemma contracts_okD:
  assumes "contracts_ok db"
  shows "distinct (map contract_id (contracts db))" and "distinct (map contract_run_id (contracts db))"
    and "v \<in> set (contract_revisions db) \<Longrightarrow> rev_contract_id v \<in> contract_id ` set (contracts db)"
    and "c \<in> set (contracts db) \<Longrightarrow> contract_ok db c"
  using assms unfolding contracts_ok_def by blast+

lemma contract_ok_other:
  "contract_revisions db' = contract_revisions db @ [v] \<Longrightarrow> rev_contract_id v \<noteq> contract_id c \<Longrightarrow>
   contract_ok db' c \<longleftrightarrow> contract_ok db c"
  by (simp add: contract_ok_def revisions_of_def)

lemma create_contract_ok:
  assumes ok: "contracts_ok db" and cr: "create_contract known p db = Inr db'"
  shows "contracts_ok db'"
proof -
  define c where "c = \<lparr>contract_id = rcc_contract_id p, contract_run_id = rcc_run_id p,
    contract_teacher_id = rcc_teacher_id p, contract_json = rcc_contract_json p, current_revision = 1\<rparr>"
  define v where "v = \<lparr>rev_contract_id = rcc_contract_id p, rev_run_id = rcc_run_id p,
    rev_revision = Suc 0, rev_contract_json = rcc_contract_json p\<rparr>"
  from cr have new: "rcc_contract_id p \<notin> set (map contract_id (contracts db))"
    "rcc_run_id p \<notin> set (map contract_run_id (contracts db))"
    and cs: "contracts db' = contracts db @ [c]"
    and vs: "contract_revisions db' = contract_revisions db @ [v]"
    by (auto simp: create_contract_def add_revision_def c_def v_def split: if_splits)
  have none: "revisions_of db (rcc_contract_id p) = []"
  proof -
    have "rev_contract_id v \<noteq> rcc_contract_id p" if "v \<in> set (contract_revisions db)" for v
      using contracts_okD(3) [OF ok that] new(1) by (metis set_map)
    then show ?thesis by (simp add: revisions_of_def filter_empty_conv)
  qed
  have "revisions_of db' (contract_id c) = [v]"
    using none by (simp add: revisions_of_def vs) (simp add: c_def v_def)
  then have "contract_ok db' c" by (simp add: contract_ok_def) (simp add: c_def v_def)
  moreover have "contract_ok db' x" if "x \<in> set (contracts db)" for x
    using contracts_okD(4) [OF ok that] new(1) that
    by (subst contract_ok_other [OF vs]) (auto simp: v_def)
  ultimately show ?thesis using contracts_okD(1,2,3) [OF ok] new
    by (auto simp: contracts_ok_def cs vs) (auto simp: c_def v_def)
qed

lemma apply_contract_edits_Inr:
  assumes "contracts_ok db" and "apply_contract_edits r edits db = Inr (n, db')"
  obtains c where "c \<in> set (contracts db)" and "contract_run_id c = r" and "n = Suc (current_revision c)"
    and "contracts db' = update_where (\<lambda>x. contract_id x = contract_id c)
      (\<lambda>x. x\<lparr>contract_json := dict_merge (contract_json c)
               (filter (\<lambda>(k, v). k \<in> set EDITABLE_CONTRACT_FIELDS) edits),
             current_revision := n\<rparr>) (contracts db)"
    and "contract_revisions db' = contract_revisions db @
      [\<lparr>rev_contract_id = contract_id c, rev_run_id = r, rev_revision = n,
        rev_contract_json = dict_merge (contract_json c)
          (filter (\<lambda>(k, v). k \<in> set EDITABLE_CONTRACT_FIELDS) edits)\<rparr>]"
proof -
  from assms(2) obtain c where f: "filter (\<lambda>c. contract_run_id c = r) (contracts db) = [c]"
    by (auto simp: apply_contract_edits_def ebind_Inr_iff)
  then have c: "c \<in> set (contracts db)" "contract_run_id c = r" by (auto dest: filter_singletonD)
  have key: "contract_id x = contract_id c \<and> contract_run_id x = r \<longleftrightarrow> contract_id x = contract_id c"
    if "x \<in> set (contracts db)" for x
    using distinct_key_eq [OF contracts_okD(1) [OF assms(1)] that c(1)] c(2) by auto
  have upd: "update_where (\<lambda>x. contract_id x = contract_id c \<and> contract_run_id x = r) f (contracts db)
      = update_where (\<lambda>x. contract_id x = contract_id c) f (contracts db)" for f
    unfolding update_where_def by (rule map_cong [OF refl]) (simp only: key)
  show thesis
    by (rule that [OF c]) (use assms(2) in \<open>auto simp: apply_contract_edits_def f ebind_Inr_iff
      Let_def revise_contract_def add_revision_def upd split: if_splits\<close>)
qed

lemma apply_contract_edits_ok:
  assumes ok: "contracts_ok db" and ap: "apply_contract_edits r edits db = Inr (n, db')"
  shows "contracts_ok db'"
  using apply_contract_edits_Inr [OF ok ap]
proof -
  obtain c where c: "c \<in> set (contracts db)" "contract_run_id c = r" "n = Suc (current_revision c)"
    and cs: "contracts db' = update_where (\<lambda>x. contract_id x = contract_id c)
      (\<lambda>x. x\<lparr>contract_json := dict_merge (contract_json c)
               (filter (\<lambda>(k, v). k \<in> set EDITABLE_CONTRACT_FIELDS) edits),
             current_revision := n\<rparr>) (contracts db)"
    and vs: "contract_revisions db' = contract_revisions db @
      [\<lparr>rev_contract_id = contract_id c, rev_run_id = r, rev_revision = n,
        rev_contract_json = dict_merge (contract_json c)
          (filter (\<lambda>(k, v). k \<in> set EDITABLE_CONTRACT_FIELDS) edits)\<rparr>]"
    using apply_contract_edits_Inr [OF ok ap] by metis
  have keep: "map contract_id (contracts db') = map contract_id (contracts db)"
    "map contract_run_id (contracts db') = map contract_run_id (contracts db)"
    by (simp_all add: cs map_update_where)
  have "contract_ok db' x" if x: "x \<in> set (contracts db')" for x
  proof (cases "contract_id x = contract_id c")
    case True
    from x obtain y where "y \<in> set (contracts db)" "contract_id y = contract_id x"
      "x = y\<lparr>contract_json := dict_merge (contract_json c)
               (filter (\<lambda>(k, v). k \<in> set EDITABLE_CONTRACT_FIELDS) edits), current_revision := n\<rparr>"
      using True by (auto simp: cs set_update_where split: if_splits)
    moreover from this have "y = c" using distinct_key_eq [OF contracts_okD(1) [OF ok] _ c(1)] True by simp
    ultimately show ?thesis using contracts_okD(4) [OF ok c(1)] c(3)
      by (auto simp: contract_ok_def revisions_of_def vs Let_def intro: same_fixed_fields_merge)
  next
    case False
    with x have "x \<in> set (contracts db)" by (auto simp: cs set_update_where split: if_splits)
    with contracts_okD(4) [OF ok] False show ?thesis by (subst contract_ok_other [OF vs]) auto
  qed
  moreover have "rev_contract_id v \<in> contract_id ` set (contracts db')"
    if "v \<in> set (contract_revisions db')" for v
  proof -
    have "contract_id ` set (contracts db') = contract_id ` set (contracts db)"
      by (metis keep(1) set_map)
    then show ?thesis using that contracts_okD(3) [OF ok] c(1) by (auto simp: vs)
  qed
  ultimately show ?thesis using contracts_okD(1,2) [OF ok] by (simp add: contracts_ok_def keep)
qed

section \<open>Reachable control states\<close>

inductive control_step :: "control_db \<Rightarrow> control_db \<Rightarrow> bool" where
  create_contract: "create_contract known pc db = Inr db' \<Longrightarrow> control_step db db'"
| edit_contract: "apply_contract_edits r edits db = Inr (n, db') \<Longrightarrow> control_step db db'"
| open_gate: "open_gate known now pg db = Inr db' \<Longrightarrow> control_step db db'"
| cancel_gates: "cancel_active_gates r db = (n, db') \<Longrightarrow> control_step db db'"
| respond: "respond_to_gate pr db = Inr db' \<Longrightarrow> control_step db db'"
| sweep_gates: "sweep_escalated_gates h now db = (ids, db') \<Longrightarrow> control_step db db'"
| create_workflow: "create_artifact_workflow known pw db = Inr db' \<Longrightarrow> control_step db db'"
| upsert_workflow: "upsert_artifact_workflow_state known s db = Inr db' \<Longrightarrow> control_step db db'"
| set_status: "set_artifact_status r a ws db = Inr db' \<Longrightarrow> control_step db db'"

inductive_cases control_stepE: "control_step db db'"

definition empty_control :: control_db where
  "empty_control = \<lparr>contracts = [], contract_revisions = [], gates = [], gate_responses = [], workflows = []\<rparr>"

lemma gates_ok_cong:
  "gates db' = gates db \<Longrightarrow> gate_responses db' = gate_responses db \<Longrightarrow> gates_ok db' \<longleftrightarrow> gates_ok db"
  by (simp add: gates_ok_def)

lemma contracts_ok_cong:
  "contracts db' = contracts db \<Longrightarrow> contract_revisions db' = contract_revisions db \<Longrightarrow>
   contracts_ok db' \<longleftrightarrow> contracts_ok db"
  by (simp add: contracts_ok_def contract_ok_def revisions_of_def)

text \<open>Which tables an operation leaves alone.\<close>

lemma contract_ops_frame:
  "create_contract known p db = Inr db' \<Longrightarrow> gates db' = gates db \<and> gate_responses db' = gate_responses db"
  "apply_contract_edits r edits db = Inr (n, db') \<Longrightarrow>
     gates db' = gates db \<and> gate_responses db' = gate_responses db"
  by (auto simp: create_contract_def apply_contract_edits_def revise_contract_def add_revision_def
      ebind_Inr_iff Let_def split: if_splits)

lemma gate_ops_frame:
  "open_gate known now p db = Inr db' \<Longrightarrow>
     contracts db' = contracts db \<and> contract_revisions db' = contract_revisions db"
  "respond_to_gate q db = Inr db' \<Longrightarrow>
     contracts db' = contracts db \<and> contract_revisions db' = contract_revisions db"
  by (auto simp: open_gate_def respond_to_gate_def ebind_Inr_iff split: if_splits)

lemma workflow_insert_frame:
  "workflow_insert known s db = Inr db' \<Longrightarrow>
     gates db' = gates db \<and> gate_responses db' = gate_responses db \<and> contracts db' = contracts db
     \<and> contract_revisions db' = contract_revisions db"
  by (auto simp: workflow_insert_def split: if_splits)

lemma workflow_ops_frame:
  "create_artifact_workflow known p db = Inr db' \<or> upsert_artifact_workflow_state known s db = Inr db'
   \<or> set_artifact_status r a st db = Inr db' \<Longrightarrow>
     gates db' = gates db \<and> gate_responses db' = gate_responses db \<and> contracts db' = contracts db
     \<and> contract_revisions db' = contract_revisions db"
  by (auto simp: create_artifact_workflow_def upsert_artifact_workflow_state_def set_artifact_status_def
      ebind_Inr_iff dest: workflow_insert_frame split: option.splits)

lemma control_step_ok:
  "control_step db db' \<Longrightarrow> gates_ok db \<and> contracts_ok db \<Longrightarrow> gates_ok db' \<and> contracts_ok db'"
proof (induction rule: control_step.induct)
  case (create_contract known pc db db')
  then show ?case using create_contract_ok contract_ops_frame(1) gates_ok_cong by metis
next
  case (edit_contract r edits db n db')
  then show ?case using apply_contract_edits_ok contract_ops_frame(2) gates_ok_cong by metis
next
  case (open_gate known now pg db db')
  then show ?case using open_gate_ok gate_ops_frame(1) contracts_ok_cong by metis
next
  case (respond pr db db')
  then show ?case using respond_to_gate_ok gate_ops_frame(2) contracts_ok_cong by metis
next
  case (cancel_gates r db n db')
  then show ?case using cancel_active_gates_ok [of db r] contracts_ok_cong [of db' db]
    by (auto simp: cancel_active_gates_def Let_def)
next
  case (sweep_gates h now db ids db')
  then show ?case using sweep_escalated_gates_ok [of db h now] contracts_ok_cong [of db' db]
    by (auto simp: sweep_escalated_gates_def Let_def)
next
  case (create_workflow known pw db db')
  then show ?case using workflow_ops_frame gates_ok_cong contracts_ok_cong by metis
next
  case (upsert_workflow known s db db')
  then show ?case using workflow_ops_frame gates_ok_cong contracts_ok_cong by metis
next
  case (set_status r a ws db db')
  then show ?case using workflow_ops_frame gates_ok_cong contracts_ok_cong by metis
qed

lemma control_steps_ok:
  "control_step\<^sup>*\<^sup>* db db' \<Longrightarrow> gates_ok db \<and> contracts_ok db \<Longrightarrow> gates_ok db' \<and> contracts_ok db'"
  by (induction rule: rtranclp_induct) (auto dest: control_step_ok)

lemma control_reachable_ok: "control_step\<^sup>*\<^sup>* empty_control db \<Longrightarrow> gates_ok db \<and> contracts_ok db"
  by (rule control_steps_ok [of empty_control])
    (simp_all add: gates_ok_def contracts_ok_def empty_control_def)

section \<open>Properties\<close>

text \<open>
  In every reachable control state a gate has exactly one response if its
  status is responded and none otherwise.
\<close>
lemma gate_answered_once:
  assumes "control_step\<^sup>*\<^sup>* empty_control db" and "g \<in> set (gates db)"
  shows "length (filter (\<lambda>x. resp_gate_id x = gate_id g) (gate_responses db))
         = (if gate_status g = GATE_RESPONDED then 1 else 0)"
proof -
  have ok: "gates_ok db" using control_reachable_ok [OF assms(1)] by simp
  show ?thesis
  proof (cases "gate_status g = GATE_RESPONDED")
    case True
    then obtain x where x: "x \<in> set (gate_responses db)" "resp_gate_id x = gate_id g"
      using gates_okD(4) [OF ok assms(2)] by auto
    have "filter (\<lambda>y. resp_gate_id y = resp_gate_id x) (gate_responses db) = [x]"
      by (rule filter_key_le_one [OF gates_okD(2) [OF ok] x(1)])
    with True x(2) show ?thesis by simp
  next
    case False
    have "resp_gate_id x \<noteq> gate_id g" if "x \<in> set (gate_responses db)" for x
      using gates_okD(3) [OF ok that] distinct_key_eq [OF gates_okD(1) [OF ok] assms(2)] False by force
    then have "filter (\<lambda>x. resp_gate_id x = gate_id g) (gate_responses db) = []"
      by (simp add: filter_empty_conv)
    with False show ?thesis by simp
  qed
qed

text \<open>Once answered a gate stays answered: only an active gate changes status.\<close>

lemma responded_kept:
  "control_step db db' \<Longrightarrow> gates_ok db \<Longrightarrow>
   \<exists>g \<in> set (gates db). gate_id g = i \<and> gate_run_id g = r \<and> gate_status g = GATE_RESPONDED \<Longrightarrow>
   \<exists>g \<in> set (gates db'). gate_id g = i \<and> gate_run_id g = r \<and> gate_status g = GATE_RESPONDED"
proof (induction rule: control_step.induct)
  case (cancel_gates r' db n db')
  then obtain g where g: "g \<in> set (gates db)" "gate_id g = i" "gate_run_id g = r" "gate_status g = GATE_RESPONDED"
    by blast
  have "gate_id g \<notin> set (map gate_id (list_active_gates r' db))"
    using selected_gate_active [OF gates_okD(1) [OF cancel_gates(2)] g(1), of "list_active_gates r' db"] g(4)
    by (auto simp: list_active_gates_def)
  from set_gates_keeps [of g db "\<lambda>g. gate_id g \<in> set (map gate_id (list_active_gates r' db))", OF g(1) this]
  have "g \<in> set (gates db')" using cancel_gates(1)
    by (auto simp: cancel_active_gates_def Let_def)
  with g show ?case by blast
next
  case (sweep_gates h now db ids db')
  then obtain g where g: "g \<in> set (gates db)" "gate_id g = i" "gate_run_id g = r" "gate_status g = GATE_RESPONDED"
    by blast
  let ?gs = "filter (\<lambda>g. gate_status g = GATE_ACTIVE \<and> gate_created_at g < now - hours h) (gates db)"
  have "gate_id g \<notin> set (map gate_id ?gs)"
    using selected_gate_active [OF gates_okD(1) [OF sweep_gates(2)] g(1), of ?gs] g(4) by auto
  from set_gates_keeps [of g db "\<lambda>g. gate_id g \<in> set (map gate_id ?gs)", OF g(1) this]
  have "g \<in> set (gates db')" using sweep_gates(1)
    by (auto simp: sweep_escalated_gates_def Let_def)
  with g show ?case by blast
next
  case (respond pr db db')
  then obtain g where g: "g \<in> set (gates db)" "gate_id g = i" "gate_run_id g = r" "gate_status g = GATE_RESPONDED"
    by blast
  from respond(1) show ?case
  proof (rule respond_to_gate_Inr)
    fix x
    assume "db' = (set_gates (\<lambda>y. gate_id y = gate_id x) GATE_RESPONDED db)
       \<lparr>gate_responses := gate_responses db @
          [\<lparr>response_id = grc_response_id pr, resp_gate_id = grc_gate_id pr, resp_run_id = grc_run_id pr,
            resp_teacher_id = grc_teacher_id pr, response_json = grc_response_json pr\<rparr>]\<rparr>"
    then have "g \<in> set (gates db')" using g(1,4)
      by (auto simp: gates_set_gates intro!: image_eqI [of _ _ g])
    with g show ?thesis by blast
  qed
next
  case (open_gate known now pg db db')
  then show ?case by (auto simp: open_gate_def split: if_splits)
next
  case (create_contract known pc db db')
  then show ?case using contract_ops_frame(1) by metis
next
  case (edit_contract r edits db n db')
  then show ?case using contract_ops_frame(2) by metis
next
  case (create_workflow known pw db db')
  then show ?case using workflow_ops_frame by metis
next
  case (upsert_workflow known s db db')
  then show ?case using workflow_ops_frame by metis
next
  case (set_status r a ws db db')
  then show ?case using workflow_ops_frame by metis
qed

lemma responded_kept_steps:
  assumes "control_step\<^sup>*\<^sup>* db db'" and "gates_ok db \<and> contracts_ok db"
    and "\<exists>g \<in> set (gates db). gate_id g = i \<and> gate_run_id g = r \<and> gate_status g = GATE_RESPONDED"
  shows "\<exists>g \<in> set (gates db'). gate_id g = i \<and> gate_run_id g = r \<and> gate_status g = GATE_RESPONDED"
  using assms(1)
proof (induction rule: rtranclp_induct)
  case base
  then show ?case by (rule assms(3))
next
  case (step y z)
  then show ?case using responded_kept control_steps_ok [OF _ assms(2)] by metis
qed


text \<open>
  C25: in every reachable control state the revisions of a contract are numbered
  1, 2, ..., up to its current revision, the last one holds the current contract, and all of them
  agree with it on every field outside the editable ones.
\<close>
theorem contract_history:
  assumes "control_step\<^sup>*\<^sup>* empty_control db" and "c \<in> set (contracts db)"
    and "vs = filter (\<lambda>v. rev_contract_id v = contract_id c) (contract_revisions db)"
  shows "map rev_revision vs = [1..<Suc (current_revision c)]
         \<and> vs \<noteq> [] \<and> rev_contract_json (last vs) = contract_json c
         \<and> (\<forall>v \<in> set vs. \<forall>k. k \<notin> set EDITABLE_CONTRACT_FIELDS \<longrightarrow>
              map_of (rev_contract_json v) k = map_of (contract_json c) k)"
proof -
  have "contract_ok db c" using control_reachable_ok [OF assms(1)] contracts_okD(4) assms(2) by blast
  then have "1 \<le> current_revision c" and m: "map rev_revision vs = [1..<Suc (current_revision c)]"
    and "rev_contract_json (last vs) = contract_json c"
    and "\<forall>v \<in> set vs. same_fixed_fields (rev_contract_json v) (contract_json c)"
    by (auto simp: contract_ok_def revisions_of_def Let_def assms(3) simp del: upt_Suc)
  moreover from this have "vs \<noteq> []" by auto
  ultimately show ?thesis by (simp add: same_fixed_fields_def del: upt_Suc)
qed

text \<open>A small state for the witnesses: one run, one contract edited once, one gate answered.\<close>

definition demo_gate :: gate_interrupt_create where
  "demo_gate = \<lparr>gc_gate_id = ''g1'', gc_run_id = ''r1'', gc_gate_name = ''content_approval'', gc_payload = []\<rparr>"

definition demo_answer :: "string \<Rightarrow> gate_response_create" where
  "demo_answer i = \<lparr>grc_response_id = i, grc_gate_id = ''g1'', grc_run_id = ''r1'',
     grc_teacher_id = ''t1'', grc_response_json = []\<rparr>"

definition demo_contract :: run_contract_create where
  "demo_contract = \<lparr>rcc_contract_id = ''c1'', rcc_run_id = ''r1'', rcc_teacher_id = ''t1'',
     rcc_contract_json = [(''topic'', JStr ''fractions''), (''teacher_id'', JStr ''t1'')]\<rparr>"

definition demo_control :: control_db where
  "demo_control =
     \<lparr>contracts = [\<lparr>contract_id = ''c1'', contract_run_id = ''r1'', contract_teacher_id = ''t1'',
        contract_json = [(''topic'', JStr ''fractions''), (''teacher_id'', JStr ''t1'')],
        current_revision = 1\<rparr>],
      contract_revisions = [\<lparr>rev_contract_id = ''c1'', rev_run_id = ''r1'', rev_revision = 1,
        rev_contract_json = [(''topic'', JStr ''fractions''), (''teacher_id'', JStr ''t1'')]\<rparr>],
      gates = [\<lparr>gate_id = ''g1'', gate_run_id = ''r1'', gate_name = ''content_approval'',
        gate_status = GATE_ACTIVE, gate_payload = [], gate_created_at = 5\<rparr>],
      gate_responses = [], workflows = []\<rparr>"

lemma demo_control_reachable: "control_step\<^sup>*\<^sup>* empty_control demo_control"
proof -
  have "create_contract (\<lambda>r. r = ''r1'') demo_contract empty_control
      = Inr (demo_control\<lparr>gates := []\<rparr>)"
    by (simp add: create_contract_def add_revision_def demo_contract_def empty_control_def demo_control_def)
  moreover have "open_gate (\<lambda>r. r = ''r1'') 5 demo_gate (demo_control\<lparr>gates := []\<rparr>) = Inr demo_control"
    by (simp add: open_gate_def demo_gate_def demo_control_def)
  ultimately show ?thesis
    using control_step.create_contract control_step.open_gate
    by (meson rtranclp.rtrancl_into_rtrancl rtranclp.rtrancl_refl)
qed

lemma gate_answered_once_witness:
  "length (filter (\<lambda>x. resp_gate_id x = ''g1'') (gate_responses demo_control)) = 0"
  using gate_answered_once [OF demo_control_reachable, of "hd (gates demo_control)"]
  by (simp add: demo_control_def)


theorem contract_history_witness:
  "map rev_revision (filter (\<lambda>v. rev_contract_id v = ''c1'') (contract_revisions demo_control)) = [1]"
proof -
  have c: "hd (contracts demo_control) \<in> set (contracts demo_control)"
    "contract_id (hd (contracts demo_control)) = ''c1''" "current_revision (hd (contracts demo_control)) = 1"
    by (simp_all add: demo_control_def)
  from contract_history [OF demo_control_reachable c(1) refl] show ?thesis
    unfolding c(2,3) by (simp add: upt_rec)
qed

end
