(* ===== verification/Snapshot_Store.thy ===== *)
theory Snapshot_Store
  imports Prelude
begin

text \<open>
  Artifact snapshots and export records (\<open>services/gateway/teaching_pack_snapshot_store.py\<close>,
  \<open>teaching_pack_snapshot_validators.py\<close>, \<open>teaching_pack_export_store.py\<close> and their row classes).
  The digest of content and HTML, the HTML checks (regular expressions and an HTML parser) and the
  resolver of slide-deck display preferences are parameters, collected in \<open>snapshot_env\<close>. Rows with
  equal \<open>created_at\<close> are taken newest insertion first.
\<close>

section \<open>Rows\<close>

record snapshot_row =
  snap_id :: string
  snap_run_id :: string
  snap_artifact_id :: string
  snap_artifact_type :: string
  snap_content_hash :: string
  snap_html_hash :: string
  snap_content :: json_object
  snap_html :: string
  snap_student_html :: string
  snap_renderer_version :: string
  snap_template_version :: string
  snap_theme_version :: string
  snap_standalone :: bool
  snap_approved_at :: "instant option"
  snap_created_at :: instant

type_synonym snapshots = "snapshot_row list"

datatype mismatch_policy = POLICY_BLOCK | POLICY_WARN

record snapshot_create =
  sc_snapshot_id :: string
  sc_run_id :: string
  sc_artifact_id :: string
  sc_artifact_type :: string
  sc_content :: json_object
  sc_html :: string
  sc_renderer_version :: string
  sc_template_version :: string
  sc_theme_version :: string
  sc_student_html :: "string option"
  sc_mismatch_policy :: mismatch_policy

record snapshot_env =
  content_digest :: "json_object \<Rightarrow> string \<Rightarrow> string"
  html_digest :: "string \<Rightarrow> string"
  strip_answer_keys :: "string \<Rightarrow> string"
  isolation_issues :: "string \<Rightarrow> string list"
  standalone_html :: "string \<Rightarrow> bool"
  resolve_preferences :: "json_object option \<Rightarrow> json_object"

section \<open>Validators\<close>

definition TEACHER_ONLY_KEYS :: "string list" where
  "TEACHER_ONLY_KEYS =
     [''answer'', ''answer_set'', ''accepted_answers'', ''correct_option_ids'', ''explain'',
      ''rationale'', ''wrong_reasons'', ''rubric_solution'']"

fun teacher_only_paths :: "json \<Rightarrow> string \<Rightarrow> string list"
  and teacher_only_items :: "json list \<Rightarrow> nat \<Rightarrow> string \<Rightarrow> string list"
  and teacher_only_fields :: "(string \<times> json) list \<Rightarrow> string \<Rightarrow> string list" where
  "teacher_only_paths (JList xs) path = teacher_only_items xs 0 path"
| "teacher_only_paths (JObj kvs) path = teacher_only_fields kvs path"
| "teacher_only_paths JNull path = []"
| "teacher_only_paths (JBool b) path = []"
| "teacher_only_paths (JInt i) path = []"
| "teacher_only_paths (JStr s) path = []"
| "teacher_only_items [] i path = []"
| "teacher_only_items (x # xs) i path =
     teacher_only_paths x (path @ ''['' @ show_nat i @ '']'') @ teacher_only_items xs (Suc i) path"
| "teacher_only_fields [] path = []"
| "teacher_only_fields ((k, v) # kvs) path =
     (if k \<in> set TEACHER_ONLY_KEYS then [path @ ''.'' @ k] else [])
     @ teacher_only_paths v (path @ ''.'' @ k) @ teacher_only_fields kvs path"

definition teacher_only_value_paths :: "json_object \<Rightarrow> string list" where
  "teacher_only_value_paths c = teacher_only_paths (JObj c) ''content_json''"

definition as_object :: "json \<Rightarrow> json_object option" where
  "as_object v = (case v of JObj kvs \<Rightarrow> Some kvs | _ \<Rightarrow> None)"

definition bake_display_preferences ::
  "(json_object option \<Rightarrow> json_object) \<Rightarrow> string \<Rightarrow> json_object \<Rightarrow> json_object" where
  "bake_display_preferences resolve artifact_type content =
     (if artifact_type \<noteq> ''slide_deck'' then content
      else case as_object (dict_get content ''metadata'') of
        None \<Rightarrow> content
      | Some metadata \<Rightarrow>
          (case as_object (dict_get metadata ''slide_deck_data'') of
             None \<Rightarrow> content
           | Some deck \<Rightarrow>
               let effective = resolve (as_object (dict_get deck ''display_preferences''));
                   deck' = AList.update ''display_preferences'' (JObj effective) deck;
                   metadata' = AList.update ''slide_deck_data'' (JObj deck') metadata
               in AList.update ''metadata'' (JObj metadata') content))"

definition validate_snapshot_versions :: "snapshot_create \<Rightarrow> snapshot_row \<Rightarrow> unit result" where
  "validate_snapshot_versions p r =
     (if sc_mismatch_policy p = POLICY_WARN then Inr ()
      else if snap_renderer_version r \<noteq> sc_renderer_version p
              \<or> snap_template_version r \<noteq> sc_template_version p
              \<or> snap_theme_version r \<noteq> sc_theme_version p
      then Inl (SnapshotVersionMismatchError (snap_id r))
      else Inr ())"

section \<open>Snapshot operations\<close>

definition has_snapshot :: "string \<Rightarrow> snapshots \<Rightarrow> bool result" where
  "has_snapshot h rs =
     ebind (scalar_one_or_none (filter (\<lambda>r. snap_content_hash r = h) rs)) (\<lambda>x. Inr (x \<noteq> None))"

definition get_snapshot :: "string \<Rightarrow> string \<Rightarrow> snapshots \<Rightarrow> snapshot_row option result" where
  "get_snapshot run i rs = scalar_one_or_none (filter (\<lambda>r. snap_run_id r = run \<and> snap_id r = i) rs)"

definition get_by_run_content_hash :: "string \<Rightarrow> string \<Rightarrow> snapshots \<Rightarrow> snapshot_row option result" where
  "get_by_run_content_hash run h rs =
     scalar_one_or_none (filter (\<lambda>r. snap_run_id r = run \<and> snap_content_hash r = h) rs)"

definition list_run_snapshots :: "string \<Rightarrow> snapshots \<Rightarrow> snapshots" where
  "list_run_snapshots run rs = filter (\<lambda>r. snap_run_id r = run) rs"

definition new_snapshot :: "snapshot_env \<Rightarrow> instant \<Rightarrow> snapshot_create \<Rightarrow> snapshot_row" where
  "new_snapshot env now p =
     (let content = bake_display_preferences (resolve_preferences env) (sc_artifact_type p) (sc_content p);
          student = (case sc_student_html p of Some (c # cs) \<Rightarrow> c # cs | _ \<Rightarrow> sc_html p)
      in \<lparr>snap_id = sc_snapshot_id p, snap_run_id = sc_run_id p, snap_artifact_id = sc_artifact_id p,
          snap_artifact_type = sc_artifact_type p,
          snap_content_hash = content_digest env content (sc_html p),
          snap_html_hash = html_digest env (sc_html p), snap_content = content, snap_html = sc_html p,
          snap_student_html = strip_answer_keys env student,
          snap_renderer_version = sc_renderer_version p, snap_template_version = sc_template_version p,
          snap_theme_version = sc_theme_version p, snap_standalone = standalone_html env (sc_html p),
          snap_approved_at = None, snap_created_at = now\<rparr>)"

text \<open>\<open>INSERT ... ON CONFLICT (content_hash) DO NOTHING\<close>.\<close>

definition insert_snapshot :: "(string \<Rightarrow> bool) \<Rightarrow> snapshot_row \<Rightarrow> snapshots \<Rightarrow> snapshots result" where
  "insert_snapshot known_run row rs =
     (if snap_content_hash row \<in> set (map snap_content_hash rs) then Inr rs
      else if snap_id row \<in> set (map snap_id rs) \<or> \<not> known_run (snap_run_id row) then Inl IntegrityError
      else Inr (rs @ [row]))"

definition create_snapshot ::
  "snapshot_env \<Rightarrow> (string \<Rightarrow> bool) \<Rightarrow> instant \<Rightarrow> snapshot_create \<Rightarrow> snapshots
   \<Rightarrow> (snapshot_row \<times> snapshots) result" where
  "create_snapshot env known_run now p rs =
     (let row = new_snapshot env now p
      in if teacher_only_value_paths (snap_content row) \<noteq> []
         then Inl (AnswerKeyLeakageError (sc_snapshot_id p) (teacher_only_value_paths (snap_content row)))
         else if isolation_issues env (sc_html p) \<noteq> []
         then Inl (AnswerKeyLeakageError (sc_snapshot_id p) (isolation_issues env (sc_html p)))
         else ebind (insert_snapshot known_run row rs) (\<lambda>rs'.
           ebind (scalar_one_or_none (filter (\<lambda>r. snap_content_hash r = snap_content_hash row) rs')) (\<lambda>existing.
           ebind (case existing of None \<Rightarrow> Inr () | Some r \<Rightarrow> validate_snapshot_versions p r) (\<lambda>_.
           ebind (get_snapshot (sc_run_id p) (sc_snapshot_id p) rs') (\<lambda>mine.
             case mine of
               Some r \<Rightarrow> Inr (r, rs')
             | None \<Rightarrow>
                 ebind (get_by_run_content_hash (sc_run_id p) (snap_content_hash row) rs') (\<lambda>same.
                   case same of
                     Some r \<Rightarrow> Inr (r, rs')
                   | None \<Rightarrow> Inl (SnapshotPersistenceError (sc_snapshot_id p))))))))"

text \<open>\<open>ORDER BY created_at DESC LIMIT 1\<close>.\<close>

definition newest_first :: "('r \<Rightarrow> instant) \<Rightarrow> 'r list \<Rightarrow> 'r list" where
  "newest_first t rs = rev (sort_key t rs)"

definition get_latest_snapshot :: "string \<Rightarrow> string \<Rightarrow> snapshots \<Rightarrow> snapshot_row option" where
  "get_latest_snapshot run a rs =
     (case newest_first snap_created_at (filter (\<lambda>r. snap_run_id r = run \<and> snap_artifact_id r = a) rs) of
        [] \<Rightarrow> None | r # _ \<Rightarrow> Some r)"

definition create_scoped_edit_snapshot ::
  "snapshot_env \<Rightarrow> (string \<Rightarrow> bool) \<Rightarrow> instant \<Rightarrow> string \<Rightarrow> string \<Rightarrow> string \<Rightarrow> snapshot_create
   \<Rightarrow> snapshots \<Rightarrow> (snapshot_row \<times> snapshots) result" where
  "create_scoped_edit_snapshot env known_run now run a base p rs =
     (let head_id = map_option snap_id (get_latest_snapshot run a rs)
      in if head_id \<noteq> Some base then Inl (SnapshotBaseVersionConflictError base head_id)
         else create_snapshot env known_run now p rs)"

text \<open>
  \<open>approve_snapshots\<close>: the loop stops at the first snapshot that is not standalone, and the caller
  rolls the transaction back.
\<close>

definition approve_snapshots :: "instant \<Rightarrow> string \<Rightarrow> string list \<Rightarrow> snapshots \<Rightarrow> (nat \<times> snapshots) result" where
  "approve_snapshots now run ids rs =
     (let picked = filter (\<lambda>r. snap_run_id r = run \<and> snap_id r \<in> set ids) rs
      in case filter (\<lambda>r. \<not> snap_standalone r) picked of
           r # _ \<Rightarrow> Inl (NonStandaloneSnapshotApprovalError (snap_id r))
         | [] \<Rightarrow> Inr (length picked,
             update_where (\<lambda>r. snap_run_id r = run \<and> snap_id r \<in> set ids)
               (\<lambda>r. r\<lparr>snap_approved_at := Some now\<rparr>) rs))"

section \<open>Export records\<close>

record export_row =
  exp_id :: string
  exp_run_id :: string
  exp_artifact_id :: string
  exp_snapshot_id :: string
  exp_format :: string
  exp_storage_path :: string
  exp_capability_version :: "string option"
  exp_created_at :: instant

type_synonym exports = "export_row list"

record export_create =
  xc_export_id :: string
  xc_run_id :: string
  xc_artifact_id :: string
  xc_snapshot_id :: string
  xc_format :: string
  xc_storage_path :: string
  xc_capability_version :: "string option"

definition new_export :: "instant \<Rightarrow> export_create \<Rightarrow> export_row" where
  "new_export now p =
     \<lparr>exp_id = xc_export_id p, exp_run_id = xc_run_id p, exp_artifact_id = xc_artifact_id p,
      exp_snapshot_id = xc_snapshot_id p, exp_format = xc_format p,
      exp_storage_path = xc_storage_path p, exp_capability_version = xc_capability_version p,
      exp_created_at = now\<rparr>"

text \<open>
  \<open>INSERT ... ON CONFLICT (snapshot_id, format) DO NOTHING\<close>, then read the row of that key.
  \<open>known_ref\<close> says which (run, snapshot) pairs the foreign keys accept.
\<close>

definition create_export_record ::
  "(string \<Rightarrow> string \<Rightarrow> bool) \<Rightarrow> instant \<Rightarrow> export_create \<Rightarrow> exports \<Rightarrow> (export_row \<times> exports) result" where
  "create_export_record known_ref now p xs =
     (let inserted =
        (if \<exists>x \<in> set xs. exp_snapshot_id x = xc_snapshot_id p \<and> exp_format x = xc_format p then Inr xs
         else if xc_export_id p \<in> set (map exp_id xs) \<or> \<not> known_ref (xc_run_id p) (xc_snapshot_id p)
         then Inl IntegrityError
         else Inr (xs @ [new_export now p]))
      in ebind inserted (\<lambda>xs'.
           ebind (scalar_one (filter (\<lambda>x. exp_snapshot_id x = xc_snapshot_id p \<and> exp_format x = xc_format p) xs'))
             (\<lambda>x. Inr (x, xs'))))"

definition list_exports :: "string \<Rightarrow> string option \<Rightarrow> exports \<Rightarrow> exports" where
  "list_exports run a xs =
     newest_first exp_created_at
       (filter (\<lambda>x. exp_run_id x = run \<and> (a = None \<or> Some (exp_artifact_id x) = a)) xs)"

definition get_latest_export :: "string \<Rightarrow> string \<Rightarrow> exports \<Rightarrow> export_row option" where
  "get_latest_export run a xs =
     (case newest_first exp_created_at (filter (\<lambda>x. exp_run_id x = run \<and> exp_artifact_id x = a) xs) of
        [] \<Rightarrow> None | x # _ \<Rightarrow> Some x)"

definition export_is_stale :: "string \<Rightarrow> string \<Rightarrow> string option \<Rightarrow> exports \<Rightarrow> bool" where
  "export_is_stale run a current xs =
     (case current of None \<Rightarrow> False
      | Some c \<Rightarrow> (case get_latest_export run a xs of None \<Rightarrow> False | Some x \<Rightarrow> exp_snapshot_id x \<noteq> c))"

definition get_latest_export_for_format :: "string \<Rightarrow> string \<Rightarrow> string \<Rightarrow> exports \<Rightarrow> export_row option" where
  "get_latest_export_for_format run a f xs =
     (case newest_first exp_created_at
        (filter (\<lambda>x. exp_run_id x = run \<and> exp_artifact_id x = a \<and> exp_format x = f) xs) of
        [] \<Rightarrow> None | x # _ \<Rightarrow> Some x)"

definition stale_formats ::
  "string \<Rightarrow> string \<Rightarrow> string option \<Rightarrow> string list \<Rightarrow> exports \<Rightarrow> string list" where
  "stale_formats run a current formats xs =
     (case current of None \<Rightarrow> []
      | Some c \<Rightarrow> filter (\<lambda>f. case get_latest_export_for_format run a f xs of
                          None \<Rightarrow> False | Some x \<Rightarrow> exp_snapshot_id x \<noteq> c) formats)"

end
