(* ===== verification/Snapshot_Laws.thy ===== *)
theory Snapshot_Laws
  imports Snapshot_Store
begin

text \<open>
  What the snapshot and export stores promise: no stored snapshot carries teacher-only material,
  only standalone snapshots are approved, edits of one artifact are serialised by the head check,
  and a (snapshot, format) pair is exported at most once.
\<close>

section \<open>Invariant\<close>

definition snapshot_row_ok :: "snapshot_env \<Rightarrow> snapshot_row \<Rightarrow> bool" where
  "snapshot_row_ok env r \<longleftrightarrow>
     teacher_only_value_paths (snap_content r) = [] \<and> isolation_issues env (snap_html r) = []
     \<and> snap_content_hash r = content_digest env (snap_content r) (snap_html r)
     \<and> snap_standalone r = standalone_html env (snap_html r)
     \<and> (snap_approved_at r \<noteq> None \<longrightarrow> snap_standalone r)"

definition snapshots_ok :: "snapshot_env \<Rightarrow> snapshots \<Rightarrow> bool" where
  "snapshots_ok env rs \<longleftrightarrow>
     distinct (map snap_id rs) \<and> distinct (map snap_content_hash rs) \<and> (\<forall>r \<in> set rs. snapshot_row_ok env r)"

lemma new_snapshot_simps [simp]:
  "snap_id (new_snapshot env now p) = sc_snapshot_id p"
  "snap_run_id (new_snapshot env now p) = sc_run_id p"
  "snap_artifact_id (new_snapshot env now p) = sc_artifact_id p"
  "snap_html (new_snapshot env now p) = sc_html p"
  "snap_approved_at (new_snapshot env now p) = None"
  "snap_created_at (new_snapshot env now p) = now"
  by (simp_all add: new_snapshot_def Let_def)

lemma create_snapshot_Inr:
  assumes "create_snapshot env known now p rs = Inr (r, rs')"
  shows "teacher_only_value_paths (snap_content (new_snapshot env now p)) = []"
    and "isolation_issues env (sc_html p) = []"
    and "rs' = rs \<or> (rs' = rs @ [new_snapshot env now p] \<and> sc_snapshot_id p \<notin> set (map snap_id rs)
           \<and> snap_content_hash (new_snapshot env now p) \<notin> set (map snap_content_hash rs))"
    and "r \<in> set rs' \<and> snap_run_id r = sc_run_id p"
  using assms
  by (auto simp: create_snapshot_def Let_def insert_snapshot_def get_snapshot_def
      get_by_run_content_hash_def ebind_Inr_iff
      split: if_splits option.splits dest!: filter_singletonD)

lemma create_snapshot_ok:
  assumes "snapshots_ok env rs" and "create_snapshot env known now p rs = Inr (r, rs')"
  shows "snapshots_ok env rs'"
proof -
  note cr = create_snapshot_Inr [OF assms(2)]
  have "snapshot_row_ok env (new_snapshot env now p)"
    using cr(1,2) by (simp add: snapshot_row_ok_def) (simp add: new_snapshot_def Let_def)
  with cr(3) assms(1) show ?thesis by (auto simp: snapshots_ok_def)
qed

lemma approve_snapshots_ok:
  assumes ok: "snapshots_ok env rs" and ap: "approve_snapshots now run ids rs = Inr (n, rs')"
  shows "snapshots_ok env rs'"
proof -
  from ap have st: "\<And>r. r \<in> set rs \<Longrightarrow> snap_run_id r = run \<Longrightarrow> snap_id r \<in> set ids \<Longrightarrow> snap_standalone r"
    and rs': "rs' = update_where (\<lambda>r. snap_run_id r = run \<and> snap_id r \<in> set ids)
        (\<lambda>r. r\<lparr>snap_approved_at := Some now\<rparr>) rs"
    by (auto simp: approve_snapshots_def Let_def filter_empty_conv split: list.splits)
  have "snapshot_row_ok env r" if "r \<in> set rs'" for r
    using that ok st by (auto simp: rs' set_update_where snapshots_ok_def snapshot_row_ok_def split: if_splits)
  moreover have "map snap_id rs' = map snap_id rs" "map snap_content_hash rs' = map snap_content_hash rs"
    by (simp_all add: rs' map_update_where)
  ultimately show ?thesis using ok by (simp add: snapshots_ok_def)
qed

inductive snapshot_step :: "snapshot_env \<Rightarrow> snapshots \<Rightarrow> snapshots \<Rightarrow> bool" for env where
  create: "create_snapshot env known now p rs = Inr (r, rs') \<Longrightarrow> snapshot_step env rs rs'"
| scoped_edit: "create_scoped_edit_snapshot env known now run a base p rs = Inr (r, rs') \<Longrightarrow>
    snapshot_step env rs rs'"
| approve: "approve_snapshots now run ids rs = Inr (n, rs') \<Longrightarrow> snapshot_step env rs rs'"

lemma snapshot_step_ok: "snapshot_step env rs rs' \<Longrightarrow> snapshots_ok env rs \<Longrightarrow> snapshots_ok env rs'"
  by (induction rule: snapshot_step.induct)
    (auto intro: create_snapshot_ok approve_snapshots_ok
      simp: create_scoped_edit_snapshot_def Let_def split: if_splits)

lemma snapshots_reachable_ok: "(snapshot_step env)\<^sup>*\<^sup>* [] rs \<Longrightarrow> snapshots_ok env rs"
  by (induction rule: rtranclp_induct) (simp add: snapshots_ok_def, rule snapshot_step_ok)

section \<open>The head of an artifact\<close>

lemma newest_first_hd:
  assumes "newest_first t rs = r # rest"
  shows "r \<in> set rs" and "x \<in> set rs \<Longrightarrow> t x \<le> t r"
proof -
  from assms have eq: "sort_key t rs = rev rest @ [r]"
    by (metis newest_first_def rev.simps(2) rev_rev_ident)
  have s: "set rs = set (sort_key t rs)" by simp
  show "r \<in> set rs" unfolding s eq by simp
  have "sorted (map t (rev rest @ [r]))" by (metis eq sorted_sort_key)
  then have "\<forall>x \<in> set (rev rest). t x \<le> t r" by (simp add: sorted_append)
  then show "x \<in> set rs \<Longrightarrow> t x \<le> t r" unfolding s eq by auto
qed

lemma latest_is_newest:
  assumes "x \<in> set rs" and "snap_run_id x = run" and "snap_artifact_id x = a"
    and "\<And>y. y \<in> set rs \<Longrightarrow> y \<noteq> x \<Longrightarrow> snap_created_at y < snap_created_at x"
  shows "get_latest_snapshot run a rs = Some x"
proof -
  let ?rs = "filter (\<lambda>r. snap_run_id r = run \<and> snap_artifact_id r = a) rs"
  have x: "x \<in> set ?rs" using assms(1-3) by simp
  then have "newest_first snap_created_at ?rs \<noteq> []"
    by (metis empty_iff list.set(1) newest_first_def set_rev set_sort)
  then obtain r rest where n: "newest_first snap_created_at ?rs = r # rest" by (cases "newest_first snap_created_at ?rs") auto
  have "r = x" using newest_first_hd [OF n] x assms(4) by fastforce
  with n show ?thesis by (simp add: get_latest_snapshot_def)
qed

section \<open>Properties\<close>


text \<open>
  Two edits made on the same head cannot both land. After an edit that stored a
  new version, later in time than every other row, a second edit with the same base is refused and
  told the new head.
\<close>
lemma one_edit_per_head:
  assumes "(snapshot_step env)\<^sup>*\<^sup>* [] rs" and "\<forall>r \<in> set rs. snap_created_at r < now"
    and "create_scoped_edit_snapshot env known now (sc_run_id p) (sc_artifact_id p) base p rs = Inr (r, rs')"
    and "rs' \<noteq> rs"
  shows "create_scoped_edit_snapshot env known' now' (sc_run_id p) (sc_artifact_id p) base q rs'
         = Inl (SnapshotBaseVersionConflictError base (Some (sc_snapshot_id p)))"
proof -
  let ?n = "new_snapshot env now p"
  from assms(3) have head: "map_option snap_id (get_latest_snapshot (sc_run_id p) (sc_artifact_id p) rs) = Some base"
    and cr: "create_snapshot env known now p rs = Inr (r, rs')"
    by (auto simp: create_scoped_edit_snapshot_def Let_def split: if_splits)
  from create_snapshot_Inr(3) [OF cr] assms(4)
  have rs': "rs' = rs @ [?n]" and new: "sc_snapshot_id p \<notin> set (map snap_id rs)" by auto
  have "base \<in> set (map snap_id rs)"
  proof -
    from head obtain h where "get_latest_snapshot (sc_run_id p) (sc_artifact_id p) rs = Some h" "snap_id h = base" by auto
    then show ?thesis using newest_first_hd(1)
      by (fastforce simp: get_latest_snapshot_def split: list.splits)
  qed
  with new have ne: "sc_snapshot_id p \<noteq> base" by auto
  have "get_latest_snapshot (sc_run_id p) (sc_artifact_id p) rs' = Some ?n"
    by (rule latest_is_newest) (use assms(2) in \<open>auto simp: rs'\<close>)
  with ne show ?thesis by (simp add: create_scoped_edit_snapshot_def Let_def)
qed

text \<open>
  An edit that restores content an earlier version of the run already had
  is not recorded. The call succeeds and answers with the old version, but the table, and with it
  the head of the artifact, is unchanged.
\<close>
lemma reverting_edit_is_lost:
  assumes "snapshots_ok env rs" and "old \<in> set rs" and "snap_run_id old = sc_run_id p"
    and "snap_content_hash old = snap_content_hash (new_snapshot env now p)"
    and "teacher_only_value_paths (snap_content (new_snapshot env now p)) = []"
    and "isolation_issues env (sc_html p) = []"
    and "validate_snapshot_versions p old = Inr ()" and "sc_snapshot_id p \<notin> set (map snap_id rs)"
    and "map_option snap_id (get_latest_snapshot run a rs) = Some base"
  shows "create_scoped_edit_snapshot env known now run a base p rs = Inr (old, rs)"
proof -
  have f: "filter (\<lambda>r. snap_content_hash r = snap_content_hash (new_snapshot env now p)) rs = [old]"
    using filter_key_le_one [of snap_content_hash rs old] assms(1,2,4) by (simp add: snapshots_ok_def)
  then have g: "filter (\<lambda>r. snap_run_id r = sc_run_id p \<and>
      snap_content_hash r = snap_content_hash (new_snapshot env now p)) rs = [old]"
    using assms(3) by (simp only: filter_and) simp
  have "snap_content_hash (new_snapshot env now p) \<in> set (map snap_content_hash rs)"
    unfolding assms(4) [symmetric] using assms(2) by simp
  moreover have n: "filter (\<lambda>r. snap_run_id r = sc_run_id p \<and> snap_id r = sc_snapshot_id p) rs = []"
    by (rule filter_absent_key [OF assms(8)])
  ultimately show ?thesis using assms(5-7,9)
    by (simp add: create_scoped_edit_snapshot_def create_snapshot_def insert_snapshot_def f g n
        get_snapshot_def get_by_run_content_hash_def)
qed

text \<open>The digest is unique across runs: identical content in another run cannot be stored at all.\<close>

lemma cross_run_duplicate_fails:
  assumes "snapshots_ok env rs" and "old \<in> set rs" and "snap_run_id old \<noteq> sc_run_id p"
    and "snap_content_hash old = snap_content_hash (new_snapshot env now p)"
    and "teacher_only_value_paths (snap_content (new_snapshot env now p)) = []"
    and "isolation_issues env (sc_html p) = []"
    and "validate_snapshot_versions p old = Inr ()" and "sc_snapshot_id p \<notin> set (map snap_id rs)"
  shows "create_snapshot env known now p rs = Inl (SnapshotPersistenceError (sc_snapshot_id p))"
proof -
  have f: "filter (\<lambda>r. snap_content_hash r = snap_content_hash (new_snapshot env now p)) rs = [old]"
    using filter_key_le_one [of snap_content_hash rs old] assms(1,2,4) by (simp add: snapshots_ok_def)
  then have g: "filter (\<lambda>r. snap_run_id r = sc_run_id p \<and>
      snap_content_hash r = snap_content_hash (new_snapshot env now p)) rs = []"
    using assms(3) by (simp only: filter_and) simp
  have "snap_content_hash (new_snapshot env now p) \<in> set (map snap_content_hash rs)"
    unfolding assms(4) [symmetric] using assms(2) by simp
  moreover have n: "filter (\<lambda>r. snap_run_id r = sc_run_id p \<and> snap_id r = sc_snapshot_id p) rs = []"
    by (rule filter_absent_key [OF assms(8)])
  ultimately show ?thesis using assms(5-7)
    by (simp add: create_snapshot_def insert_snapshot_def f g n get_snapshot_def
        get_by_run_content_hash_def)
qed

section \<open>Exports\<close>

definition export_key :: "export_row \<Rightarrow> string \<times> string" where
  "export_key x = (exp_snapshot_id x, exp_format x)"

lemma create_export_total:
  assumes "distinct (map export_key xs)" and "create_export_record known now p xs = Inr (x, xs')"
  shows "distinct (map export_key xs') \<and> x \<in> set xs' \<and> export_key x = (xc_snapshot_id p, xc_format p)
         \<and> (xs' = xs \<or> xs' = xs @ [new_export now p])"
proof -
  from assms(2) have f: "filter (\<lambda>x. exp_snapshot_id x = xc_snapshot_id p \<and> exp_format x = xc_format p) xs' = [x]"
    and c: "xs' = xs \<or> xs' = xs @ [new_export now p]
      \<and> \<not> (\<exists>x \<in> set xs. exp_snapshot_id x = xc_snapshot_id p \<and> exp_format x = xc_format p)"
    by (auto simp: create_export_record_def Let_def ebind_Inr_iff split: if_splits)
  have "export_key (new_export now p) = (xc_snapshot_id p, xc_format p)"
    by (simp add: export_key_def new_export_def)
  with c assms(1) have "distinct (map export_key xs')"
    by (elim disjE conjE) (simp_all, auto simp: export_key_def)
  with c filter_singletonD [OF f] show ?thesis by (auto simp: export_key_def)
qed

text \<open>
  Recording an export of a snapshot and format a second time, with whatever
  new id, path and time, adds nothing and answers with the row of the first time.
\<close>
lemma export_exactly_once:
  assumes "distinct (map export_key xs)" and "create_export_record known now p xs = Inr (x, xs')"
    and "xc_snapshot_id q = xc_snapshot_id p" and "xc_format q = xc_format p"
  shows "create_export_record known' now' q xs' = Inr (x, xs')"
proof -
  from create_export_total [OF assms(1,2)] have d: "distinct (map export_key xs')" "x \<in> set xs'"
    and k: "export_key x = (xc_snapshot_id p, xc_format p)" by auto
  have "filter (\<lambda>y. exp_snapshot_id y = xc_snapshot_id q \<and> exp_format y = xc_format q) xs' = [x]"
    using filter_key_le_one [OF d] k assms(3,4) by (simp add: export_key_def)
  moreover have "\<exists>y \<in> set xs'. exp_snapshot_id y = xc_snapshot_id q \<and> exp_format y = xc_format q"
    using d(2) k assms(3,4) by (auto simp: export_key_def)
  ultimately show ?thesis by (simp add: create_export_record_def)
qed

section \<open>Witnesses\<close>

text \<open>A small environment: the digest is the HTML, nothing is filtered.\<close>

definition demo_env :: snapshot_env where
  "demo_env = \<lparr>content_digest = (\<lambda>c h. h), html_digest = (\<lambda>h. h), strip_answer_keys = (\<lambda>h. h),
     isolation_issues = (\<lambda>h. []), standalone_html = (\<lambda>h. True), resolve_preferences = (\<lambda>x. [])\<rparr>"

definition demo_snapshot :: "string \<Rightarrow> string \<Rightarrow> snapshot_create" where
  "demo_snapshot i html = \<lparr>sc_snapshot_id = i, sc_run_id = ''r1'', sc_artifact_id = ''a1'',
     sc_artifact_type = ''quiz'', sc_content = [(''title'', JStr ''Fractions'')], sc_html = html,
     sc_renderer_version = ''v1'', sc_template_version = ''v1'', sc_theme_version = ''v1'',
     sc_student_html = None, sc_mismatch_policy = POLICY_BLOCK\<rparr>"

lemmas demo_snapshot_defs = demo_env_def demo_snapshot_def new_snapshot_def bake_display_preferences_def
  teacher_only_value_paths_def TEACHER_ONLY_KEYS_def validate_snapshot_versions_def

definition demo_rows :: snapshots where
  "demo_rows = [new_snapshot demo_env 1 (demo_snapshot ''s1'' ''first''),
     new_snapshot demo_env 2 (demo_snapshot ''s2'' ''second'')]"

lemma demo_rows_reachable: "(snapshot_step demo_env)\<^sup>*\<^sup>* [] demo_rows"
proof -
  have "create_snapshot demo_env (\<lambda>r. True) 1 (demo_snapshot ''s1'' ''first'') []
      = Inr (hd demo_rows, [hd demo_rows])"
    by (simp add: create_snapshot_def insert_snapshot_def get_snapshot_def demo_rows_def demo_snapshot_defs Let_def)
  moreover have "create_snapshot demo_env (\<lambda>r. True) 2 (demo_snapshot ''s2'' ''second'') [hd demo_rows]
      = Inr (last demo_rows, demo_rows)"
    by (simp add: create_snapshot_def insert_snapshot_def get_snapshot_def demo_rows_def demo_snapshot_defs Let_def)
  ultimately show ?thesis using snapshot_step.create
    by (meson rtranclp.rtrancl_into_rtrancl rtranclp.rtrancl_refl)
qed

lemma demo_head: "map_option snap_id (get_latest_snapshot ''r1'' ''a1'' demo_rows) = Some ''s2''"
  by (simp add: get_latest_snapshot_def newest_first_def demo_rows_def demo_snapshot_defs Let_def)


lemma one_edit_per_head_witness:
  "\<exists>r rs'. create_scoped_edit_snapshot demo_env (\<lambda>r. True) 3 ''r1'' ''a1'' ''s2'' (demo_snapshot ''s3'' ''third'')
      demo_rows = Inr (r, rs')
    \<and> create_scoped_edit_snapshot demo_env (\<lambda>r. True) 4 ''r1'' ''a1'' ''s2'' (demo_snapshot ''s4'' ''fourth'') rs'
      = Inl (SnapshotBaseVersionConflictError ''s2'' (Some ''s3''))"
proof -
  let ?p = "demo_snapshot ''s3'' ''third''"
  have ids: "sc_run_id ?p = ''r1''" "sc_artifact_id ?p = ''a1''" "sc_snapshot_id ?p = ''s3''"
    by (simp_all add: demo_snapshot_def)
  have e: "create_scoped_edit_snapshot demo_env (\<lambda>r. True) 3 ''r1'' ''a1'' ''s2'' ?p demo_rows
      = Inr (new_snapshot demo_env 3 ?p, demo_rows @ [new_snapshot demo_env 3 ?p])"
    by (simp add: create_scoped_edit_snapshot_def demo_head)
      (simp add: create_snapshot_def insert_snapshot_def get_snapshot_def demo_rows_def demo_snapshot_defs Let_def)
  have t: "\<forall>r \<in> set demo_rows. snap_created_at r < 3" by (simp add: demo_rows_def)
  from one_edit_per_head [OF demo_rows_reachable t, of "\<lambda>r. True" ?p "''s2''", unfolded ids, OF e] e
  show ?thesis by simp
qed

lemma reverting_edit_is_lost_witness:
  "create_scoped_edit_snapshot demo_env (\<lambda>r. True) 3 ''r1'' ''a1'' ''s2'' (demo_snapshot ''s3'' ''first'') demo_rows
   = Inr (hd demo_rows, demo_rows)"
  by (rule reverting_edit_is_lost [OF snapshots_reachable_ok [OF demo_rows_reachable]])
    (simp_all add: demo_head, simp_all add: demo_rows_def demo_snapshot_defs Let_def)

definition demo_export :: "string \<Rightarrow> export_create" where
  "demo_export i = \<lparr>xc_export_id = i, xc_run_id = ''r1'', xc_artifact_id = ''a1'', xc_snapshot_id = ''s1'',
     xc_format = ''html'', xc_storage_path = i, xc_capability_version = None\<rparr>"

lemma export_exactly_once_witness:
  "create_export_record (\<lambda>r s. True) 9 (demo_export ''e2'') [new_export 5 (demo_export ''e1'')]
   = Inr (new_export 5 (demo_export ''e1''), [new_export 5 (demo_export ''e1'')])"
  by (rule export_exactly_once [where xs = "[]" and known = "\<lambda>r s. True" and now = 5 and p = "demo_export ''e1''"])
    (simp_all add: create_export_record_def demo_export_def new_export_def)

end
