(* ===== verification/Gateway_Db.thy ===== *)
theory Gateway_Db
  imports Outbox Job_Store Control_Store Snapshot_Store
begin

text \<open>
  The gateway's tables together, and the effects of code that runs in one database session. A
  session keeps what was written before an exception until its owner commits or rolls back, and the
  worker catches exceptions and commits, so an action returns the state with either outcome. A store
  call that fails by itself leaves the tables as they were: its checks precede its writes. (The
  exception is a violated constraint, which dooms the transaction; the invariants of the stores
  exclude it for the calls made here.)
\<close>

section \<open>State\<close>

record notice =
  notice_run_id :: string
  notice_teacher_id :: string
  notice_kind :: string
  notice_text :: string

record gateway_db =
  g_pack :: pack_db
  g_jobs :: jobs
  g_control :: control_db
  g_snapshots :: snapshots
  g_exports :: exports
  g_notices :: "notice list"
  g_bus :: "string \<Rightarrow> nat"

section \<open>Exceptions of a session\<close>

datatype exc =
    Py_Exc py_error
  | Transient_Provider_Error int string
  | Empty_Input_Error string
  | Outcome_Delivery_Write_Error string
  | Timeout_Error
  | Other_Exc string string
  | Exception_Group "exc list"

type_synonym 'a action = "gateway_db \<Rightarrow> gateway_db \<times> (exc + 'a)"

definition act_return :: "'a \<Rightarrow> 'a action" where
  "act_return x db = (db, Inr x)"

definition act_raise :: "exc \<Rightarrow> 'a action" where
  "act_raise e db = (db, Inl e)"

definition act_bind :: "'a action \<Rightarrow> ('a \<Rightarrow> 'b action) \<Rightarrow> 'b action" where
  "act_bind m f db = (case m db of (db', Inl e) \<Rightarrow> (db', Inl e) | (db', Inr x) \<Rightarrow> f x db')"

text \<open>\<open>try: m except e: h e\<close>.\<close>

definition act_catch :: "'a action \<Rightarrow> (exc \<Rightarrow> 'a action) \<Rightarrow> 'a action" where
  "act_catch m h db = (case m db of (db', Inl e) \<Rightarrow> h e db' | (db', Inr x) \<Rightarrow> (db', Inr x))"

definition act_pure :: "(exc + 'a) \<Rightarrow> 'a action" where
  "act_pure r db = (db, r)"

definition act_get :: "(gateway_db \<Rightarrow> 'a result) \<Rightarrow> 'a action" where
  "act_get f db = (db, (case f db of Inl e \<Rightarrow> Inl (Py_Exc e) | Inr x \<Rightarrow> Inr x))"

fun act_each :: "('x \<Rightarrow> unit action) \<Rightarrow> 'x list \<Rightarrow> unit action" where
  "act_each f [] = act_return ()"
| "act_each f (x # xs) = act_bind (f x) (\<lambda>_. act_each f xs)"

definition on_pack :: "(pack_db \<Rightarrow> ('a \<times> pack_db) result) \<Rightarrow> 'a action" where
  "on_pack f db = (case f (g_pack db) of Inl e \<Rightarrow> (db, Inl (Py_Exc e))
                   | Inr (x, p) \<Rightarrow> (db\<lparr>g_pack := p\<rparr>, Inr x))"

definition on_jobs :: "(jobs \<Rightarrow> ('a \<times> jobs) result) \<Rightarrow> 'a action" where
  "on_jobs f db = (case f (g_jobs db) of Inl e \<Rightarrow> (db, Inl (Py_Exc e))
                   | Inr (x, j) \<Rightarrow> (db\<lparr>g_jobs := j\<rparr>, Inr x))"

definition on_control :: "(control_db \<Rightarrow> ('a \<times> control_db) result) \<Rightarrow> 'a action" where
  "on_control f db = (case f (g_control db) of Inl e \<Rightarrow> (db, Inl (Py_Exc e))
                      | Inr (x, c) \<Rightarrow> (db\<lparr>g_control := c\<rparr>, Inr x))"

definition on_snapshots :: "(snapshots \<Rightarrow> ('a \<times> snapshots) result) \<Rightarrow> 'a action" where
  "on_snapshots f db = (case f (g_snapshots db) of Inl e \<Rightarrow> (db, Inl (Py_Exc e))
                        | Inr (x, s) \<Rightarrow> (db\<lparr>g_snapshots := s\<rparr>, Inr x))"

definition on_exports :: "(exports \<Rightarrow> ('a \<times> exports) result) \<Rightarrow> 'a action" where
  "on_exports f db = (case f (g_exports db) of Inl e \<Rightarrow> (db, Inl (Py_Exc e))
                      | Inr (x, s) \<Rightarrow> (db\<lparr>g_exports := s\<rparr>, Inr x))"

definition unit_result :: "'s result \<Rightarrow> (unit \<times> 's) result" where
  "unit_result r = ebind r (\<lambda>s. Inr ((), s))"

definition add_notice :: "notice \<Rightarrow> unit action" where
  "add_notice n db = (db\<lparr>g_notices := g_notices db @ [n]\<rparr>, Inr ())"

section \<open>Laws of actions\<close>

lemma act_bind_Inr:
  "act_bind m f db = (db2, Inr y) \<longleftrightarrow> (\<exists>db1 x. m db = (db1, Inr x) \<and> f x db1 = (db2, Inr y))"
  by (auto simp: act_bind_def split: prod.splits sum.splits)

lemma act_bind_Inl:
  "act_bind m f db = (db2, Inl e) \<longleftrightarrow>
     m db = (db2, Inl e) \<or> (\<exists>db1 x. m db = (db1, Inr x) \<and> f x db1 = (db2, Inl e))"
  by (auto simp: act_bind_def split: prod.splits sum.splits)

lemma act_bind_step: "m db = (db1, Inr x) \<Longrightarrow> act_bind m f db = f x db1"
  by (simp add: act_bind_def)

lemma act_bind_stop: "m db = (db1, Inl e) \<Longrightarrow> act_bind m f db = (db1, Inl e)"
  by (simp add: act_bind_def)

lemma act_return_simp [simp]: "act_return x db = (db, Inr x)"
  by (simp add: act_return_def)

lemma act_raise_simp [simp]: "act_raise e db = (db, Inl e)"
  by (simp add: act_raise_def)

lemma act_pure_simp [simp]: "act_pure r db = (db, r)"
  by (simp add: act_pure_def)

text \<open>
  A property of the state that every primitive keeps is kept by their composition.
\<close>

definition keeps :: "(gateway_db \<Rightarrow> bool) \<Rightarrow> 'a action \<Rightarrow> bool" where
  "keeps P m \<longleftrightarrow> (\<forall>db. P db \<longrightarrow> P (fst (m db)))"

lemma keepsI: "(\<And>db. P db \<Longrightarrow> P (fst (m db))) \<Longrightarrow> keeps P m"
  by (simp add: keeps_def)

lemma keepsD: "keeps P m \<Longrightarrow> P db \<Longrightarrow> m db = (db', r) \<Longrightarrow> P db'"
  unfolding keeps_def by (metis fst_conv)

lemma keeps_return [keeps_intros]: "keeps P (act_return x)"
  by (simp add: keeps_def)

lemma keeps_raise [keeps_intros]: "keeps P (act_raise e)"
  by (simp add: keeps_def)

lemma keeps_pure [keeps_intros]: "keeps P (act_pure r)"
  by (simp add: keeps_def)

lemma keeps_id [keeps_intros]: "keeps P (\<lambda>db. (db, r))"
  by (simp add: keeps_def)

lemma keeps_get [keeps_intros]: "keeps P (act_get f)"
  by (simp add: keeps_def act_get_def)

lemma keeps_bind [keeps_intros]:
  assumes "keeps P m" and "\<And>x. keeps P (f x)"
  shows "keeps P (act_bind m f)"
proof (rule keepsI)
  fix db
  assume "P db"
  then have "P (fst (m db))" using assms(1) by (simp add: keeps_def)
  then show "P (fst (act_bind m f db))" using assms(2)
    by (auto simp: act_bind_def keeps_def split: prod.splits sum.splits)
qed

lemma keeps_catch [keeps_intros]:
  assumes "keeps P m" and "\<And>e. keeps P (h e)"
  shows "keeps P (act_catch m h)"
proof (rule keepsI)
  fix db
  assume "P db"
  then have "P (fst (m db))" using assms(1) by (simp add: keeps_def)
  then show "P (fst (act_catch m h db))" using assms(2)
    by (auto simp: act_catch_def keeps_def split: prod.splits sum.splits)
qed

lemma keeps_each [keeps_intros]: "(\<And>x. keeps P (f x)) \<Longrightarrow> keeps P (act_each f xs)"
  by (induction xs) (simp_all add: keeps_return keeps_bind)

lemma keeps_if [keeps_intros]: "(b \<Longrightarrow> keeps P m) \<Longrightarrow> (\<not> b \<Longrightarrow> keeps P n) \<Longrightarrow> keeps P (if b then m else n)"
  by simp

lemma keeps_option [keeps_intros]:
  "keeps P m \<Longrightarrow> (\<And>x. keeps P (f x)) \<Longrightarrow> keeps P (case v of None \<Rightarrow> m | Some x \<Rightarrow> f x)"
  by (cases v) auto

lemma keeps_on_pack:
  "(\<And>db x p. P db \<Longrightarrow> f (g_pack db) = Inr (x, p) \<Longrightarrow> P (db\<lparr>g_pack := p\<rparr>)) \<Longrightarrow> keeps P (on_pack f)"
  by (auto simp: keeps_def on_pack_def split: sum.splits prod.splits)

lemma keeps_on_jobs:
  "(\<And>db x p. P db \<Longrightarrow> f (g_jobs db) = Inr (x, p) \<Longrightarrow> P (db\<lparr>g_jobs := p\<rparr>)) \<Longrightarrow> keeps P (on_jobs f)"
  by (auto simp: keeps_def on_jobs_def split: sum.splits prod.splits)

lemma keeps_on_control:
  "(\<And>db x p. P db \<Longrightarrow> f (g_control db) = Inr (x, p) \<Longrightarrow> P (db\<lparr>g_control := p\<rparr>)) \<Longrightarrow> keeps P (on_control f)"
  by (auto simp: keeps_def on_control_def split: sum.splits prod.splits)

lemma keeps_on_snapshots:
  "(\<And>db x p. P db \<Longrightarrow> f (g_snapshots db) = Inr (x, p) \<Longrightarrow> P (db\<lparr>g_snapshots := p\<rparr>)) \<Longrightarrow> keeps P (on_snapshots f)"
  by (auto simp: keeps_def on_snapshots_def split: sum.splits prod.splits)

lemma keeps_on_exports:
  "(\<And>db x p. P db \<Longrightarrow> f (g_exports db) = Inr (x, p) \<Longrightarrow> P (db\<lparr>g_exports := p\<rparr>)) \<Longrightarrow> keeps P (on_exports f)"
  by (auto simp: keeps_def on_exports_def split: sum.splits prod.splits)

lemma keeps_add_notice: "(\<And>db. P db \<Longrightarrow> P (db\<lparr>g_notices := g_notices db @ [n]\<rparr>)) \<Longrightarrow> keeps P (add_notice n)"
  by (simp add: keeps_def add_notice_def)

end
