(* ===== verification/Completion.thy ===== *)
theory Completion
  imports Gateway_Db
begin

text \<open>
  The completion recorder (\<open>services/gateway/teaching_pack_completion.py\<close>, with the selection of
  approved snapshots of \<open>teaching_pack_export_writer.py\<close> and the sinks of
  \<open>teaching_pack_executor_types.py\<close>): what a finished graph invocation writes. Parameters, in
  \<open>completion_env\<close>: the renderer, the export writer, the content store, the outcome delivery, fresh
  ids and the text Python gives a list or dictionary. An \<open>Interrupt\<close> object of the graph library is
  the JSON object with its \<open>value\<close> field.
\<close>

record completion_env =
  ce_render :: "json_object \<Rightarrow> exc + string"
  ce_write_exports :: "string \<Rightarrow> json_object \<Rightarrow> exc + string list"
  ce_export_store :: bool
  ce_content_store :: "(string \<Rightarrow> exc + json_object) option"
  ce_notifications :: bool
  ce_outcome_delivery :: "(string \<Rightarrow> string \<Rightarrow> json_object \<Rightarrow> exc + unit) option"
  ce_container_text :: "json \<Rightarrow> string"
  ce_snapshot_env :: snapshot_env
  ce_gate_uuid :: string
  ce_export_uuid :: "nat \<Rightarrow> string"

section \<open>Reading the graph state\<close>

definition json_object_of :: "json \<Rightarrow> json_object" where
  "json_object_of v = (case v of JObj kvs \<Rightarrow> kvs | _ \<Rightarrow> [])"

definition dict_get_or :: "json_object \<Rightarrow> string \<Rightarrow> json \<Rightarrow> json" where
  "dict_get_or d k v = (case map_of d k of None \<Rightarrow> v | Some x \<Rightarrow> x)"

definition dict_item :: "json_object \<Rightarrow> string \<Rightarrow> exc + json" where
  "dict_item d k = (case map_of d k of None \<Rightarrow> Inl (Py_Exc (KeyError k)) | Some x \<Rightarrow> Inr x)"

fun json_text :: "(json \<Rightarrow> string) \<Rightarrow> json \<Rightarrow> string" where
  "json_text f JNull = ''None''"
| "json_text f (JBool b) = (if b then ''True'' else ''False'')"
| "json_text f (JInt i) = show_int i"
| "json_text f (JStr s) = s"
| "json_text f (JList xs) = f (JList xs)"
| "json_text f (JObj kvs) = f (JObj kvs)"

definition has_export_evidence :: "json_object \<Rightarrow> bool" where
  "has_export_evidence state =
     (case dict_get state ''exported_files'' of JList xs \<Rightarrow> xs \<noteq> [] | _ \<Rightarrow> False)"

definition auto_approval_payload :: "(json \<Rightarrow> string) \<Rightarrow> json_object \<Rightarrow> json_object option" where
  "auto_approval_payload txt state =
     (case dict_get state ''approval_gate'' of
        JObj gate \<Rightarrow>
          (if dict_get gate ''auto_approved'' \<noteq> JBool True then None
           else Some
             [(''gate_name'', JStr (json_text txt (dict_get_or gate ''gate_name'' (JStr ''content_approval'')))),
              (''snapshot_ids'', JList (case dict_get gate ''snapshot_ids'' of
                 JList ids \<Rightarrow> map (\<lambda>i. JStr (json_text txt i)) ids | _ \<Rightarrow> []))])
      | _ \<Rightarrow> None)"

definition quality_recovery_route :: "json_object \<Rightarrow> string option" where
  "quality_recovery_route state =
     (case dict_get state ''quality_recovery_route'' of JStr (c # cs) \<Rightarrow> Some (c # cs) | _ \<Rightarrow> None)"

definition quality_issues :: "(json \<Rightarrow> string) \<Rightarrow> json_object \<Rightarrow> json list" where
  "quality_issues txt state =
     (case dict_get state ''quality_issues'' of
        JList vs \<Rightarrow> map (\<lambda>v. JStr (json_text txt v)) vs | _ \<Rightarrow> [])"

definition recovery_status :: "string \<Rightarrow> run_status" where
  "recovery_status route = PLANNING"

definition interrupt_value :: "json \<Rightarrow> json_object" where
  "interrupt_value d =
     (case d of JObj kvs \<Rightarrow> json_object_of (dict_get_or kvs ''value'' (JObj kvs)) | _ \<Rightarrow> [])"

definition content_gate_payload :: "json_object \<Rightarrow> json_object option" where
  "content_gate_payload state =
     (case dict_get state ''__interrupt__'' of
        JList (i # is) \<Rightarrow>
          (if dict_get (interrupt_value i) ''gate'' = JStr ''content_approval''
           then Some (interrupt_value i) else None)
      | _ \<Rightarrow> None)"

definition content_update_event :: "json_object \<Rightarrow> json_object option" where
  "content_update_event state =
     (case dict_get state ''content_update_event'' of JObj kvs \<Rightarrow> Some kvs | _ \<Rightarrow> None)"

definition rendered_snapshots :: "json_object \<Rightarrow> json_object list" where
  "rendered_snapshots payload =
     (case dict_get payload ''rendered_snapshots'' of
        JList vs \<Rightarrow> map json_object_of (filter (\<lambda>v. case v of JObj _ \<Rightarrow> True | _ \<Rightarrow> False) vs)
      | _ \<Rightarrow> [])"

definition snapshot_content :: "json_object \<Rightarrow> json_object" where
  "snapshot_content snapshot =
     (let content = json_object_of (dict_get snapshot ''content_json'')
      in if ''artifact_type'' \<in> set (map fst content) then content
         else case dict_get snapshot ''artifact_type'' of
           JStr (c # cs) \<Rightarrow> dict_merge content [(''artifact_type'', JStr (c # cs))]
         | _ \<Rightarrow> content)"

definition snapshot_content_from_store ::
  "(string \<Rightarrow> exc + json_object) option \<Rightarrow> json_object \<Rightarrow> exc + json_object" where
  "snapshot_content_from_store store snapshot =
     (case store of
        None \<Rightarrow> Inr (snapshot_content snapshot)
      | Some read_projection \<Rightarrow>
          if ''content_json'' \<in> set (map fst snapshot) then Inr (snapshot_content snapshot)
          else case dict_get snapshot ''document_id'' of
            JStr (c # cs) \<Rightarrow>
              (case read_projection (c # cs) of
                 Inl e \<Rightarrow> Inl e
               | Inr content \<Rightarrow>
                   Inr (if ''artifact_type'' \<in> set (map fst content) then content
                        else snapshot_content (dict_merge snapshot [(''content_json'', JObj content)])))
          | _ \<Rightarrow> Inr (snapshot_content snapshot))"

fun exc_map :: "('a \<Rightarrow> exc + 'b) \<Rightarrow> 'a list \<Rightarrow> exc + 'b list" where
  "exc_map f [] = Inr []"
| "exc_map f (x # xs) =
     (case f x of Inl e \<Rightarrow> Inl e
      | Inr y \<Rightarrow> (case exc_map f xs of Inl e \<Rightarrow> Inl e | Inr ys \<Rightarrow> Inr (y # ys)))"

definition hydrate_state_snapshots ::
  "(string \<Rightarrow> exc + json_object) option \<Rightarrow> json_object \<Rightarrow> exc + json_object" where
  "hydrate_state_snapshots store state =
     (let approval_gate = json_object_of (dict_get state ''approval_gate'');
          snapshots = (if rendered_snapshots state \<noteq> [] then rendered_snapshots state
                       else rendered_snapshots approval_gate)
      in case exc_map (\<lambda>s. case snapshot_content_from_store store s of Inl e \<Rightarrow> Inl e
                          | Inr c \<Rightarrow> Inr (JObj (dict_merge s [(''content_json'', JObj c)]))) snapshots of
           Inl e \<Rightarrow> Inl e
         | Inr hydrated \<Rightarrow>
             Inr (if approval_gate \<noteq> [] \<and> ''rendered_snapshots'' \<notin> set (map fst state)
                  then dict_merge state [(''approval_gate'',
                         JObj (dict_merge approval_gate [(''rendered_snapshots'', JList hydrated)]))]
                  else dict_merge state [(''rendered_snapshots'', JList hydrated)]))"

section \<open>Approved snapshots and export records\<close>

definition export_rendered_snapshots :: "json_object \<Rightarrow> json_object list" where
  "export_rendered_snapshots state =
     (let values = (case dict_get state ''rendered_snapshots'' of
            JList vs \<Rightarrow> JList vs
          | _ \<Rightarrow> dict_get (json_object_of (dict_get state ''approval_gate'')) ''rendered_snapshots'')
      in case values of
           JList vs \<Rightarrow> map json_object_of (filter (\<lambda>v. case v of JObj _ \<Rightarrow> True | _ \<Rightarrow> False) vs)
         | _ \<Rightarrow> [])"

definition approved_snapshot_ids :: "(json \<Rightarrow> string) \<Rightarrow> json_object \<Rightarrow> string list" where
  "approved_snapshot_ids txt state =
     (case dict_get_or state ''approved_snapshot_ids'' (JList []) of
        JList vs \<Rightarrow> map (json_text txt) vs | _ \<Rightarrow> [])"

definition approved_snapshots_for_export :: "(json \<Rightarrow> string) \<Rightarrow> json_object \<Rightarrow> json_object list" where
  "approved_snapshots_for_export txt state =
     filter (\<lambda>s. json_text txt (dict_get_or s ''snapshot_id'' (JStr []))
                 \<in> set (approved_snapshot_ids txt state)) (export_rendered_snapshots state)"

definition path_name :: "string \<Rightarrow> string" where
  "path_name s = rev (takeWhile (\<lambda>c. c \<noteq> CHR ''/'') (rev s))"

definition path_suffix :: "string \<Rightarrow> string" where
  "path_suffix s =
     (let name = path_name s; tail = rev (takeWhile (\<lambda>c. c \<noteq> CHR ''.'') (rev name))
      in if CHR ''.'' \<in> set name \<and> tail \<noteq> [] \<and> Suc (length tail) < length name then CHR ''.'' # tail
         else [])"

definition path_stem :: "string \<Rightarrow> string" where
  "path_stem s = take (length (path_name s) - length (path_suffix s)) (path_name s)"

definition export_records_for_file ::
  "(json \<Rightarrow> string) \<Rightarrow> string \<Rightarrow> json_object list \<Rightarrow> string \<Rightarrow> (json_object \<times> string \<times> string) list" where
  "export_records_for_file txt r approved file =
     (let id_of = (\<lambda>s. json_text txt (dict_get_or s ''snapshot_id'' (JStr [])));
          ext = dropWhile (\<lambda>c. c = CHR ''.'') (path_suffix file);
          export_format = (if ext = [] then ''unknown'' else ext);
          targets = (case map_of (rev (map (\<lambda>s. (id_of s, s)) approved)) (path_stem file) of
                       Some s \<Rightarrow> [s] | None \<Rightarrow> approved)
      in map (\<lambda>s. (s, export_format, file)) targets)"

definition export_records_from_files ::
  "(nat \<Rightarrow> string) \<Rightarrow> (json \<Rightarrow> string) \<Rightarrow> string \<Rightarrow> string list \<Rightarrow> json_object list \<Rightarrow> export_create list" where
  "export_records_from_files uuid txt r files approved =
     map (\<lambda>(i, s, fmt, path).
         \<lparr>xc_export_id = uuid i, xc_run_id = r,
          xc_artifact_id = json_text txt (dict_get_or s ''artifact_id'' (JStr [])),
          xc_snapshot_id = json_text txt (dict_get_or s ''snapshot_id'' (JStr [])),
          xc_format = fmt, xc_storage_path = path, xc_capability_version = None\<rparr>)
       (enumerate 0 (concat (map (export_records_for_file txt r approved) files)))"

section \<open>Store calls as actions\<close>

definition do_write_event :: "instant \<Rightarrow> string \<Rightarrow> string \<Rightarrow> visibility \<Rightarrow> json_object \<Rightarrow> unit action" where
  "do_write_event now r name vis payload =
     on_pack (\<lambda>p. ebind (write_event now \<lparr>ec_run_id = r, ec_event_name = name, ec_visibility = vis,
                           ec_stage = None, ec_payload = Some payload\<rparr> p) (\<lambda>(_, p'). Inr ((), p')))"

definition do_transition ::
  "instant \<Rightarrow> string \<Rightarrow> run_status \<Rightarrow> string option \<Rightarrow> string option \<Rightarrow> unit action" where
  "do_transition now r s stg reason =
     on_pack (\<lambda>p. unit_result (transition_status now
       \<lparr>st_run_id = r, st_status = s, st_stage = stg, st_reason = reason\<rparr> p))"

definition do_get_run :: "string \<Rightarrow> run_read option action" where
  "do_get_run r = act_get (\<lambda>db. get_run_by_id (g_pack db) r)"

definition do_create_snapshot :: "snapshot_env \<Rightarrow> instant \<Rightarrow> snapshot_create \<Rightarrow> unit action" where
  "do_create_snapshot env now p db =
     on_snapshots (\<lambda>rs. ebind (create_snapshot env (run_exists (g_pack db)) now p rs)
       (\<lambda>(_, rs'). Inr ((), rs'))) db"

definition do_open_gate :: "instant \<Rightarrow> gate_interrupt_create \<Rightarrow> unit action" where
  "do_open_gate now p db =
     on_control (\<lambda>c. unit_result (open_gate (run_exists (g_pack db)) now p c)) db"

definition do_create_export :: "instant \<Rightarrow> export_create \<Rightarrow> unit action" where
  "do_create_export now p db =
     on_exports (\<lambda>xs. ebind (create_export_record
         (\<lambda>r s. run_exists (g_pack db) r \<and> s \<in> set (map snap_id (g_snapshots db))) now p xs)
       (\<lambda>(_, xs'). Inr ((), xs'))) db"

section \<open>Recording a completion\<close>

definition persist_gate_snapshot ::
  "completion_env \<Rightarrow> instant \<Rightarrow> string \<Rightarrow> json_object \<Rightarrow> unit action" where
  "persist_gate_snapshot env now r snapshot =
     (let txt = json_text (ce_container_text env);
          version = (\<lambda>k d. txt (dict_get_or snapshot k (JStr d)))
      in act_bind (act_pure (snapshot_content_from_store (ce_content_store env) snapshot)) (\<lambda>content.
         act_bind (act_pure (ce_render env content)) (\<lambda>html.
         act_bind (act_pure (dict_item snapshot ''snapshot_id'')) (\<lambda>sid.
         act_bind (act_pure (dict_item snapshot ''artifact_id'')) (\<lambda>aid.
         act_bind (act_pure (dict_item snapshot ''artifact_type'')) (\<lambda>aty.
         do_create_snapshot (ce_snapshot_env env) now
           \<lparr>sc_snapshot_id = txt sid, sc_run_id = r, sc_artifact_id = txt aid, sc_artifact_type = txt aty,
            sc_content = content, sc_html = html,
            sc_renderer_version = version ''renderer_version'' ''renderer-adapter'',
            sc_template_version = version ''template_version'' ''eta-agent-renderer'',
            sc_theme_version = version ''theme_version'' ''default'',
            sc_student_html = None, sc_mismatch_policy = POLICY_BLOCK\<rparr>))))))"

definition persist_content_gate ::
  "completion_env \<Rightarrow> instant \<Rightarrow> string \<Rightarrow> json_object \<Rightarrow> unit action" where
  "persist_content_gate env now r payload =
     (let gid = ''gate-'' @ ce_gate_uuid env
      in act_bind (act_each (persist_gate_snapshot env now r) (rendered_snapshots payload)) (\<lambda>_.
         act_bind (do_open_gate now
           \<lparr>gc_gate_id = gid, gc_run_id = r, gc_gate_name = ''content_approval'',
            gc_payload = dict_merge [(''gate_id'', JStr gid)] payload\<rparr>) (\<lambda>_.
         act_bind (do_transition now r AWAITING_APPROVAL (Some ''content_approval'') (Some ''content_approval'')) (\<lambda>_.
         do_write_event now r ''teaching_pack.content_approval.opened'' VIS_TEACHER
           [(''gate_id'', JStr gid),
            (''snapshot_ids'', dict_get_or payload ''snapshot_ids'' (JList [])),
            (''artifact_statuses'', dict_get_or payload ''artifact_statuses'' (JList [])),
            (''content_artifacts'', dict_get_or payload ''content_artifacts'' (JList [])),
            (''quality_scores'', dict_get_or payload ''quality_scores'' (JObj []))]))))"

definition persist_quality_recovery ::
  "completion_env \<Rightarrow> instant \<Rightarrow> string \<Rightarrow> string \<Rightarrow> json_object \<Rightarrow> unit action" where
  "persist_quality_recovery env now r route state =
     act_bind (do_transition now r (recovery_status route) (Some route) (Some (''quality_recovery:'' @ route))) (\<lambda>_.
       do_write_event now r ''teaching_pack.quality_recovery.started'' VIS_INTERNAL
         [(''route'', JStr route), (''issues'', JList (quality_issues (ce_container_text env) state))])"

definition deliver_outcome ::
  "completion_env \<Rightarrow> instant \<Rightarrow> string \<Rightarrow> run_read option \<Rightarrow> json_object \<Rightarrow> unit action" where
  "deliver_outcome env now r run state =
     (case (ce_outcome_delivery env, run) of
        (Some record_delivery, Some x) \<Rightarrow>
          act_catch (act_pure (record_delivery r (rr_teacher_id x) state))
            (\<lambda>e. case e of
               Outcome_Delivery_Write_Error _ \<Rightarrow>
                 do_write_event now r ''teaching_pack.outcome_delivery.failed'' VIS_INTERNAL
                   [(''reason'', JStr ''outcome_delivery_write_failed'')]
             | Timeout_Error \<Rightarrow>
                 do_write_event now r ''teaching_pack.outcome_delivery.failed'' VIS_INTERNAL
                   [(''reason'', JStr ''outcome_delivery_write_failed'')]
             | _ \<Rightarrow> act_raise e)
      | _ \<Rightarrow> act_return ())"

definition notify_completed :: "completion_env \<Rightarrow> string \<Rightarrow> run_read option \<Rightarrow> unit action" where
  "notify_completed env r run =
     (case run of
        Some x \<Rightarrow> if ce_notifications env
          then add_notice \<lparr>notice_run_id = r, notice_teacher_id = rr_teacher_id x,
                           notice_kind = ''completed'', notice_text = []\<rparr>
          else act_return ()
      | None \<Rightarrow> act_return ())"

text \<open>What follows the \<open>COMPLETED\<close> transition: events, notification, outcome delivery.\<close>

definition announce_completion ::
  "completion_env \<Rightarrow> instant \<Rightarrow> string \<Rightarrow> json_object \<Rightarrow> run_read option \<Rightarrow> string list \<Rightarrow> unit action" where
  "announce_completion env now r state run files =
     act_bind (case auto_approval_payload (ce_container_text env) state of
                 None \<Rightarrow> act_return ()
               | Some p \<Rightarrow> do_write_event now r ''teaching_pack.content_approval.auto_approved'' VIS_TEACHER p) (\<lambda>_.
     act_bind (do_write_event now r ''teaching_pack.run.completed'' VIS_TEACHER
                 [(''exported_files'', JList (map JStr files))]) (\<lambda>_.
     act_bind (notify_completed env r run) (\<lambda>_.
     deliver_outcome env now r run state)))"

definition record_exports ::
  "completion_env \<Rightarrow> instant \<Rightarrow> string \<Rightarrow> json_object \<Rightarrow> string list \<Rightarrow> unit action" where
  "record_exports env now r state files =
     (if ce_export_store env
      then act_each (do_create_export now)
        (export_records_from_files (ce_export_uuid env) (ce_container_text env) r files
          (approved_snapshots_for_export (ce_container_text env) state))
      else act_return ())"

definition persist_export ::
  "completion_env \<Rightarrow> instant \<Rightarrow> string \<Rightarrow> json_object \<Rightarrow> unit action" where
  "persist_export env now r state =
     act_bind (do_get_run r) (\<lambda>run.
       if map_option rr_status run = Some COMPLETED then act_return ()
       else
         act_bind (act_pure (hydrate_state_snapshots (ce_content_store env) state)) (\<lambda>export_state.
         act_bind (act_pure (ce_write_exports env r export_state)) (\<lambda>files.
         act_bind (record_exports env now r state files) (\<lambda>_.
         act_bind (do_transition now r EXPORTING (Some ''export_finalize'') (Some ''export_started'')) (\<lambda>_.
         act_bind (do_transition now r COMPLETED None (Some ''completed'')) (\<lambda>_.
         announce_completion env now r state run files))))))"

definition persist_missing_evidence :: "instant \<Rightarrow> string \<Rightarrow> unit action" where
  "persist_missing_evidence now r =
     act_bind (do_transition now r FAILED None (Some ''missing_export_evidence'')) (\<lambda>_.
       do_write_event now r ''teaching_pack.run.failed'' VIS_TEACHER
         [(''error'', JStr ''V2 graph completed without export evidence'')])"

definition persist_completion :: "completion_env \<Rightarrow> instant \<Rightarrow> string \<Rightarrow> json_object \<Rightarrow> unit action" where
  "persist_completion env now r state =
     act_bind (case content_update_event state of
                 None \<Rightarrow> act_return ()
               | Some ev \<Rightarrow> do_write_event now r
                   (json_text (ce_container_text env)
                     (dict_get_or ev ''event_name'' (JStr ''teaching_pack.content_version.created'')))
                   VIS_TEACHER (json_object_of (dict_get ev ''payload''))) (\<lambda>_.
       case content_gate_payload state of
         Some payload \<Rightarrow> persist_content_gate env now r payload
       | None \<Rightarrow>
           (case quality_recovery_route state of
              Some route \<Rightarrow> persist_quality_recovery env now r route state
            | None \<Rightarrow> if has_export_evidence state then persist_export env now r state
                      else persist_missing_evidence now r))"

end
