(* ===== verification/Worker.thy ===== *)
theory Worker
  imports Completion Complex_Main
begin

text \<open>
  The executor and the worker (\<open>services/gateway/teaching_pack_executor.py\<close>,
  \<open>services/gateway/teaching_pack_worker.py\<close>). The compiled graph is the parameter
  \<open>w_ainvoke\<close>; it answers with a final state or raises. A task group wraps an exception that leaves
  its body in an exception group. Heartbeats run in their own sessions while the graph works; the
  instants at which they fire are the parameter \<open>beats\<close>. The error texts Python would produce are
  parameters.
\<close>

section \<open>Executor\<close>

datatype graph_input = Graph_Start json_object | Graph_Resume json_object

record worker_config =
  wc_worker_id :: string
  wc_lease_seconds :: int
  wc_promote_batch_size :: nat
  wc_worker_concurrency :: nat
  wc_heartbeat_interval :: "rat option"
  wc_max_transient_attempts :: int

record obs_event =
  obs_run_id :: string
  obs_type :: string
  obs_stage :: "string option"
  obs_payload :: json_object

record worker_env =
  w_completion :: completion_env
  w_failure_sink :: bool
  w_completion_sink :: bool
  w_ainvoke :: "string \<Rightarrow> graph_input \<Rightarrow> exc + json_object"
  w_error_summary :: "exc \<Rightarrow> string"
  w_error_text :: "exc \<Rightarrow> string"
  w_collation :: "string \<Rightarrow> int"
  w_notify_error :: "string \<Rightarrow> string option"
  w_locked_outbox :: "nat list"
  w_locked_jobs :: "string list"

definition persist_failure :: "worker_env \<Rightarrow> instant \<Rightarrow> string \<Rightarrow> string \<Rightarrow> unit action" where
  "persist_failure env now r summary =
     act_bind (do_get_run r) (\<lambda>run.
     act_bind (do_transition now r FAILED None (Some summary)) (\<lambda>_.
     act_bind (do_write_event now r ''teaching_pack.run.failed'' VIS_TEACHER [(''error'', JStr summary)]) (\<lambda>_.
       case run of
         Some x \<Rightarrow> if ce_notifications (w_completion env)
           then add_notice \<lparr>notice_run_id = r, notice_teacher_id = rr_teacher_id x,
                            notice_kind = ''failed'', notice_text = summary\<rparr>
           else act_return ()
       | None \<Rightarrow> act_return ())))"

definition sink_failure :: "worker_env \<Rightarrow> instant \<Rightarrow> string \<Rightarrow> exc \<Rightarrow> unit action" where
  "sink_failure env now r e =
     (if w_failure_sink env then persist_failure env now r (w_error_summary env e) else act_return ())"

definition sink_completion :: "worker_env \<Rightarrow> instant \<Rightarrow> string \<Rightarrow> json_object \<Rightarrow> unit action" where
  "sink_completion env now r state =
     (if w_completion_sink env then persist_completion (w_completion env) now r state else act_return ())"

definition run_start_job :: "worker_env \<Rightarrow> instant \<Rightarrow> string \<Rightarrow> json_object \<Rightarrow> unit action" where
  "run_start_job env now r initial =
     act_catch
       (act_bind (act_pure (w_ainvoke env r (Graph_Start initial))) (\<lambda>state. sink_completion env now r state))
       (\<lambda>e. act_bind (sink_failure env now r e) (\<lambda>_. act_raise e))"

definition run_resume_job :: "worker_env \<Rightarrow> instant \<Rightarrow> string \<Rightarrow> json_object \<Rightarrow> unit action" where
  "run_resume_job env now r resume =
     act_catch
       (act_bind (act_pure (w_ainvoke env r (Graph_Resume resume))) (\<lambda>state. sink_completion env now r state))
       (\<lambda>e. act_bind (sink_failure env now r
               (case e of
                  Empty_Input_Error _ \<Rightarrow> Empty_Input_Error
                    ''LangGraph checkpoint lost (process restart). Re-start the run to regenerate.''
                | _ \<Rightarrow> e)) (\<lambda>_. act_raise e))"

section \<open>Executing a claimed job\<close>

definition initial_state :: "run_job_read \<Rightarrow> json_object" where
  "initial_state j =
     (case dict_get (jr_payload j) ''initial_state'' of
        JObj kvs \<Rightarrow> kvs
      | _ \<Rightarrow>
          (case dict_get (jr_payload j) ''contract'' of
             JObj contract \<Rightarrow>
               (let raw = dict_get (jr_payload j) ''raw_request''
                in [(''run_id'', JStr (jr_run_id j)), (''contract'', JObj contract),
                    (''raw_request'', if truthy raw then raw else dict_get_or contract ''topic'' (JStr []))])
           | _ \<Rightarrow> [(''run_id'', JStr (jr_run_id j))]))"

definition resume_payload :: "run_job_read \<Rightarrow> json_object" where
  "resume_payload j =
     (case dict_get (jr_payload j) ''resume_payload'' of
        JObj kvs \<Rightarrow> kvs
      | _ \<Rightarrow> [(''response_id'', dict_get_or (jr_payload j) ''response_id'' (JStr []))])"

definition execute :: "worker_env \<Rightarrow> instant \<Rightarrow> run_job_read \<Rightarrow> unit action" where
  "execute env now j =
     (case jr_kind j of
        START \<Rightarrow> run_start_job env now (jr_run_id j) (initial_state j)
      | RESUME \<Rightarrow> run_resume_job env now (jr_run_id j) (resume_payload j))"

definition heartbeat_interval :: "worker_config \<Rightarrow> rat" where
  "heartbeat_interval cfg =
     (case wc_heartbeat_interval cfg of
        Some i \<Rightarrow> i | None \<Rightarrow> max (rat_of_int (wc_lease_seconds cfg) / 3) 1)"

text \<open>The heartbeat loop ends at the first refresh that finds the lease lost.\<close>

fun heartbeat :: "worker_config \<Rightarrow> string \<Rightarrow> instant list \<Rightarrow> unit action" where
  "heartbeat cfg i [] = act_return ()"
| "heartbeat cfg i (t # ts) =
     act_bind (on_jobs (refresh_lease i (wc_worker_id cfg) (wc_lease_seconds cfg) t))
       (\<lambda>refreshed. if refreshed then heartbeat cfg i ts else act_return ())"

text \<open>
  The body and the heartbeat share a task group: what the body raises leaves it in a group, and so
  does what a heartbeat raises (the body is then cancelled before it writes).
\<close>

definition execute_with_heartbeat ::
  "worker_env \<Rightarrow> worker_config \<Rightarrow> instant list \<Rightarrow> instant \<Rightarrow> run_job_read \<Rightarrow> unit action" where
  "execute_with_heartbeat env cfg beats now j =
     act_catch
       (act_bind (heartbeat cfg (jr_job_id j) beats) (\<lambda>_. execute env now j))
       (\<lambda>e. act_raise (Exception_Group [e]))"

section \<open>Error classification\<close>

definition unwrap_group :: "exc \<Rightarrow> exc" where
  "unwrap_group e = (case e of Exception_Group [x] \<Rightarrow> x | _ \<Rightarrow> e)"

definition is_invalid_transition :: "exc \<Rightarrow> bool" where
  "is_invalid_transition e = (case e of Py_Exc (InvalidRunStatusTransitionError _) \<Rightarrow> True | _ \<Rightarrow> False)"

definition surface_dead_letter ::
  "instant \<Rightarrow> run_job_read \<Rightarrow> string \<Rightarrow> string \<Rightarrow> unit action" where
  "surface_dead_letter now j summary classification =
     act_bind (do_get_run (jr_run_id j)) (\<lambda>run.
       case run of
         None \<Rightarrow> act_return ()
       | Some _ \<Rightarrow>
           act_bind
             (act_catch (do_transition now (jr_run_id j) FAILED None (Some (''dead_letter:'' @ classification)))
                (\<lambda>e. if is_invalid_transition e then act_return () else act_raise e)) (\<lambda>_.
             do_write_event now (jr_run_id j) ''teaching_pack.run.dead_letter'' VIS_TEACHER
               [(''message'', JStr ''failed - needs attention''), (''job_id'', JStr (jr_job_id j)),
                (''classification'', JStr classification), (''error_summary'', JStr summary)]))"

definition dead_letter_job ::
  "worker_env \<Rightarrow> instant \<Rightarrow> run_job_read \<Rightarrow> exc \<Rightarrow> string \<Rightarrow> unit action" where
  "dead_letter_job env now j cause classification =
     act_bind (on_jobs (mark_dead_letter (jr_job_id j) (take 2000 (w_error_text env cause)) classification now))
       (\<lambda>marked. if marked
          then surface_dead_letter now j (take 2000 (w_error_text env cause)) classification
          else act_return ())"

definition handle_job_error ::
  "worker_env \<Rightarrow> worker_config \<Rightarrow> instant \<Rightarrow> run_job_read \<Rightarrow> exc \<Rightarrow> unit action" where
  "handle_job_error env cfg now j e =
     (case unwrap_group e of
        Transient_Provider_Error retry_after msg \<Rightarrow>
          (if jr_attempts j < wc_max_transient_attempts cfg
           then act_bind (on_jobs (requeue_with_backoff (jr_job_id j) (now + seconds retry_after)))
                  (\<lambda>_. act_return ())
           else dead_letter_job env now j (unwrap_group e) ''transient_exhausted'')
      | _ \<Rightarrow> dead_letter_job env now j (unwrap_group e) ''permanent'')"

section \<open>The worker\<close>

definition teacher_visible_types :: "string list" where
  "teacher_visible_types =
     [''stage_transition'', ''gate_decision'', ''healing_decision'', ''escalate'', ''breaker_tripped'']"

definition persist_observability :: "instant \<Rightarrow> obs_event list \<Rightarrow> unit action" where
  "persist_observability now drained =
     act_each (\<lambda>e. on_pack (\<lambda>p. ebind (write_observability_event now (obs_run_id e) (obs_type e) (obs_stage e)
            (obs_payload e)
            (if obs_type e \<in> set teacher_visible_types then VIS_TEACHER else VIS_INTERNAL) p)
          (\<lambda>(_, p'). Inr ((), p')))) drained"

definition publish_outbox :: "worker_env \<Rightarrow> (nat \<Rightarrow> instant) \<Rightarrow> string \<Rightarrow> nat action" where
  "publish_outbox env clock worker db =
     (case publish_run_event_outbox (w_collation env) (w_locked_outbox env) clock (w_notify_error env)
             (worker @ '':outbox'') 100 (outbox (g_pack db), g_bus db) of
        Inl e \<Rightarrow> (db, Inl (Py_Exc e))
      | Inr (bs, bus, n) \<Rightarrow> (db\<lparr>g_pack := (g_pack db)\<lparr>outbox := bs\<rparr>, g_bus := bus\<rparr>, Inr n))"

definition settle_job ::
  "worker_env \<Rightarrow> worker_config \<Rightarrow> instant list \<Rightarrow> instant \<Rightarrow> run_job_read \<Rightarrow> unit action" where
  "settle_job env cfg beats now j db =
     (case execute_with_heartbeat env cfg beats now j db of
        (db', Inl e) \<Rightarrow> handle_job_error env cfg now j e db'
      | (db', Inr _) \<Rightarrow> act_bind (on_jobs (mark_completed (jr_job_id j))) (\<lambda>_. act_return ()) db')"

definition run_claimed ::
  "worker_env \<Rightarrow> worker_config \<Rightarrow> instant list \<Rightarrow> instant \<Rightarrow> obs_event list \<Rightarrow> run_job_read \<Rightarrow> unit action" where
  "run_claimed env cfg beats now drained j =
     act_bind (settle_job env cfg beats now j) (\<lambda>_.
     act_bind (persist_observability now drained) (\<lambda>_.
     act_bind (publish_outbox env (\<lambda>_. now) (wc_worker_id cfg)) (\<lambda>_. act_return ())))"

definition claim_action :: "worker_env \<Rightarrow> worker_config \<Rightarrow> instant \<Rightarrow> run_job_read option action" where
  "claim_action env cfg now =
     on_jobs (\<lambda>js. Inr (claim_next (w_locked_jobs env) (wc_worker_id cfg) (wc_lease_seconds cfg) now js))"

definition promote_action :: "worker_env \<Rightarrow> worker_config \<Rightarrow> instant \<Rightarrow> unit action" where
  "promote_action env cfg now =
     on_jobs (\<lambda>js. Inr ((), snd (promote_eligible (w_locked_jobs env) (wc_promote_batch_size cfg) now js)))"

definition run_one ::
  "worker_env \<Rightarrow> worker_config \<Rightarrow> instant list \<Rightarrow> instant \<Rightarrow> (string \<Rightarrow> obs_event list) \<Rightarrow> bool action" where
  "run_one env cfg beats now drained =
     act_bind (publish_outbox env (\<lambda>_. now) (wc_worker_id cfg)) (\<lambda>published.
     act_bind (claim_action env cfg now) (\<lambda>claimed.
       case claimed of
         None \<Rightarrow> act_return (0 < published)
       | Some j \<Rightarrow>
           act_bind (run_claimed env cfg beats now (drained (jr_run_id j)) j) (\<lambda>_.
           act_bind (promote_action env cfg now) (\<lambda>_. act_return True))))"

text \<open>
  \<open>run_loop max_iterations\<close>: with a bound the loop returns at the first idle pass. Each pass has its
  own instants.
\<close>

fun run_loop ::
  "worker_env \<Rightarrow> worker_config \<Rightarrow> (string \<Rightarrow> obs_event list) \<Rightarrow> (instant list \<times> instant) list \<Rightarrow> nat \<Rightarrow> nat action" where
  "run_loop env cfg drained [] completed = act_return completed"
| "run_loop env cfg drained ((beats, now) # passes) completed =
     act_bind (run_one env cfg beats now drained) (\<lambda>did_work.
       if did_work then run_loop env cfg drained passes (Suc completed) else act_return completed)"

text \<open>
  \<open>run_worker_batch\<close>: publish the outbox, then claim up to \<open>worker_concurrency\<close> jobs, each claim
  committed in a session of its own. The claimed jobs run as tasks of one group, each in its own
  session, committed at its end; a task that raises rolls its session back, keeping what its
  heartbeats committed. The tasks are run here one after the other in claim order.
\<close>

fun claim_batch_jobs ::
  "worker_env \<Rightarrow> worker_config \<Rightarrow> instant \<Rightarrow> nat \<Rightarrow> run_job_read list action" where
  "claim_batch_jobs env cfg now 0 = act_return []"
| "claim_batch_jobs env cfg now (Suc n) =
     act_bind (claim_action env cfg now) (\<lambda>claimed.
     act_bind (claim_batch_jobs env cfg now n) (\<lambda>rest.
       act_return (case claimed of None \<Rightarrow> rest | Some j \<Rightarrow> j # rest)))"

definition run_claimed_job ::
  "worker_env \<Rightarrow> worker_config \<Rightarrow> instant list \<Rightarrow> instant \<Rightarrow> obs_event list \<Rightarrow> run_job_read \<Rightarrow> unit action" where
  "run_claimed_job env cfg beats now drained j db =
     (case run_claimed env cfg beats now drained j db of
        (db', Inr _) \<Rightarrow> (db', Inr ())
      | (_, Inl e) \<Rightarrow> (fst (heartbeat cfg (jr_job_id j) beats db), Inl e))"

definition run_worker_batch ::
  "worker_env \<Rightarrow> worker_config \<Rightarrow> instant list \<Rightarrow> instant \<Rightarrow> (string \<Rightarrow> obs_event list) \<Rightarrow> nat action" where
  "run_worker_batch env cfg beats now drained =
     act_bind (publish_outbox env (\<lambda>_. now) (wc_worker_id cfg)) (\<lambda>_.
     act_bind (claim_batch_jobs env cfg now (wc_worker_concurrency cfg)) (\<lambda>js.
     act_bind (act_each (\<lambda>j. run_claimed_job env cfg beats now (drained (jr_run_id j)) j) js) (\<lambda>_.
       act_return (length js))))"

end
