(* ===== verification/Session_Invariant.thy ===== *)
theory Session_Invariant
  imports Worker Job_Queue Control_Laws Snapshot_Laws
begin

text \<open>
  The interface between the stores and the code that composes them. A property of the gateway's
  tables that survives every step of every store survives the executor, the completion recorder and
  the worker, whatever they call and wherever they raise. The locale collects the steps; the
  interpretations below it are the joint invariant of the stores and the finality of a run's status.
\<close>

locale session_invariant =
  fixes senv :: snapshot_env
    and P :: "gateway_db \<Rightarrow> bool"
  assumes pack: "P db \<Longrightarrow> pack_step (g_pack db) p \<Longrightarrow> P (db\<lparr>g_pack := p\<rparr>)"
    and jobs: "P db \<Longrightarrow> job_step (g_jobs db) js \<Longrightarrow> P (db\<lparr>g_jobs := js\<rparr>)"
    and control: "P db \<Longrightarrow> control_step (g_control db) c \<Longrightarrow> P (db\<lparr>g_control := c\<rparr>)"
    and snaps: "P db \<Longrightarrow> snapshot_step senv (g_snapshots db) s \<Longrightarrow> P (db\<lparr>g_snapshots := s\<rparr>)"
    and exports: "P db \<Longrightarrow> create_export_record known now x (g_exports db) = Inr (y, xs) \<Longrightarrow>
      P (db\<lparr>g_exports := xs\<rparr>)"
    and notices: "P db \<Longrightarrow> P (db\<lparr>g_notices := ns\<rparr>)"
    and published: "P db \<Longrightarrow>
      publish_run_event_outbox col locked clock err w limit (outbox (g_pack db), g_bus db) = Inr (bs, bus, n) \<Longrightarrow>
      P (db\<lparr>g_pack := (g_pack db)\<lparr>outbox := bs\<rparr>, g_bus := bus\<rparr>)"
begin

lemma on_pack_keeps:
  "(\<And>p x p'. f p = Inr (x, p') \<Longrightarrow> pack_step p p') \<Longrightarrow> keeps P (on_pack f)"
  by (rule keeps_on_pack) (rule pack)

lemma on_jobs_keeps:
  "(\<And>p x p'. f p = Inr (x, p') \<Longrightarrow> job_step p p') \<Longrightarrow> keeps P (on_jobs f)"
  by (rule keeps_on_jobs) (rule jobs)

lemma write_event_keeps: "keeps P (do_write_event now r name vis payload)"
  unfolding do_write_event_def
  by (rule on_pack_keeps) (auto simp: ebind_Inr_iff intro: pack_step.event)

lemma transition_keeps: "keeps P (do_transition now r s stg reason)"
  unfolding do_transition_def
  by (rule on_pack_keeps) (auto simp: unit_result_def ebind_Inr_iff intro: pack_step.transition)

lemma get_run_keeps: "keeps P (do_get_run r)"
  by (simp add: do_get_run_def keeps_get)

lemma create_snapshot_keeps: "e = senv \<Longrightarrow> keeps P (do_create_snapshot e now p)"
  by (auto simp: keeps_def do_create_snapshot_def on_snapshots_def ebind_Inr_iff
      split: sum.splits intro!: snaps snapshot_step.create)

lemma open_gate_keeps: "keeps P (do_open_gate now p)"
  by (auto simp: keeps_def do_open_gate_def on_control_def unit_result_def ebind_Inr_iff
      split: sum.splits intro!: control control_step.open_gate)

lemma create_export_keeps: "keeps P (do_create_export now p)"
  by (auto simp: keeps_def do_create_export_def on_exports_def ebind_Inr_iff
      split: sum.splits intro!: exports)

lemma notice_keeps: "keeps P (add_notice n)"
  by (rule keeps_add_notice) (rule notices)

lemma publish_keeps: "keeps P (publish_outbox env clock w)"
  by (auto simp: keeps_def publish_outbox_def split: sum.splits intro: published)

lemmas store_keeps = write_event_keeps transition_keeps get_run_keeps create_snapshot_keeps
  open_gate_keeps create_export_keeps notice_keeps publish_keeps

lemmas composed = store_keeps keeps_intros

lemma persist_gate_snapshot_keeps:
  "ce_snapshot_env env = senv \<Longrightarrow> keeps P (persist_gate_snapshot env now r s)"
  by (auto simp: persist_gate_snapshot_def Let_def intro!: composed)

lemma persist_content_gate_keeps:
  "ce_snapshot_env env = senv \<Longrightarrow> keeps P (persist_content_gate env now r payload)"
  by (auto simp: persist_content_gate_def Let_def intro!: composed persist_gate_snapshot_keeps)

lemma persist_quality_recovery_keeps: "keeps P (persist_quality_recovery env now r route state)"
  by (auto simp: persist_quality_recovery_def intro!: composed)

lemma deliver_outcome_keeps: "keeps P (deliver_outcome env now r run state)"
  by (auto simp: deliver_outcome_def intro!: composed split: option.split exc.split)

lemma notify_completed_keeps: "keeps P (notify_completed env r run)"
  by (auto simp: notify_completed_def intro!: composed)

lemma announce_completion_keeps: "keeps P (announce_completion env now r state run files)"
  by (auto simp: announce_completion_def intro!: composed notify_completed_keeps deliver_outcome_keeps)

lemma record_exports_keeps: "keeps P (record_exports env now r state files)"
  by (auto simp: record_exports_def intro!: composed)

lemma persist_export_keeps: "keeps P (persist_export env now r state)"
  by (auto simp: persist_export_def intro!: composed announce_completion_keeps record_exports_keeps)

lemma persist_missing_evidence_keeps: "keeps P (persist_missing_evidence now r)"
  by (auto simp: persist_missing_evidence_def intro!: composed)

lemma persist_completion_keeps:
  "ce_snapshot_env env = senv \<Longrightarrow> keeps P (persist_completion env now r state)"
  by (auto simp: persist_completion_def intro!: composed persist_content_gate_keeps
      persist_quality_recovery_keeps persist_export_keeps persist_missing_evidence_keeps)

lemma sink_failure_keeps: "keeps P (sink_failure env now r e)"
  by (auto simp: sink_failure_def persist_failure_def intro!: composed)

lemma sink_completion_keeps:
  "ce_snapshot_env (w_completion env) = senv \<Longrightarrow> keeps P (sink_completion env now r state)"
  by (auto simp: sink_completion_def intro!: composed persist_completion_keeps)

lemma execute_keeps: "ce_snapshot_env (w_completion env) = senv \<Longrightarrow> keeps P (execute env now j)"
  by (auto simp: execute_def run_start_job_def run_resume_job_def
      intro!: composed sink_completion_keeps sink_failure_keeps split: job_kind.split)

lemma heartbeat_keeps: "keeps P (heartbeat cfg i ts)"
  by (induction ts)
    (auto intro!: composed on_jobs_keeps job_step.refresh)

lemma execute_with_heartbeat_keeps:
  "ce_snapshot_env (w_completion env) = senv \<Longrightarrow> keeps P (execute_with_heartbeat env cfg beats now j)"
  by (auto simp: execute_with_heartbeat_def intro!: composed heartbeat_keeps execute_keeps)

lemma surface_dead_letter_keeps: "keeps P (surface_dead_letter now j summary cls)"
  by (auto simp: surface_dead_letter_def intro!: composed)

lemma dead_letter_job_keeps: "keeps P (dead_letter_job env now j e cls)"
  by (auto simp: dead_letter_job_def intro!: composed surface_dead_letter_keeps on_jobs_keeps
      job_step.dead_letter)

lemma handle_job_error_keeps: "keeps P (handle_job_error env cfg now j e)"
  by (auto simp: handle_job_error_def intro!: composed dead_letter_job_keeps on_jobs_keeps
      job_step.requeue split: exc.split)

lemma settle_job_keeps:
  assumes "ce_snapshot_env (w_completion env) = senv"
  shows "keeps P (settle_job env cfg beats now j)"
proof (rule keepsI)
  fix db
  assume "P db"
  then have "P (fst (execute_with_heartbeat env cfg beats now j db))"
    using execute_with_heartbeat_keeps [OF assms] by (simp add: keeps_def)
  moreover have "keeps P (act_bind (on_jobs (mark_completed (jr_job_id j))) (\<lambda>_. act_return ()))"
    by (auto intro!: composed on_jobs_keeps job_step.completed)
  ultimately show "P (fst (settle_job env cfg beats now j db))"
    using handle_job_error_keeps [of env cfg now j]
    by (auto simp: settle_job_def keeps_def split: prod.splits sum.splits)
qed

lemma persist_observability_keeps: "keeps P (persist_observability now drained)"
  unfolding persist_observability_def
  by (rule keeps_each, rule on_pack_keeps) (auto simp: ebind_Inr_iff intro: pack_step.observability)

lemma run_claimed_keeps:
  "ce_snapshot_env (w_completion env) = senv \<Longrightarrow> keeps P (run_claimed env cfg beats now drained j)"
  by (auto simp: run_claimed_def intro!: composed settle_job_keeps persist_observability_keeps)

lemma claim_action_keeps: "keeps P (claim_action env cfg now)"
  unfolding claim_action_def
  by (rule on_jobs_keeps) (auto intro: job_step.claim)

lemma promote_action_keeps: "keeps P (promote_action env cfg now)"
  unfolding promote_action_def
  by (rule on_jobs_keeps) (auto intro: job_step.promote)

lemma run_one_keeps:
  "ce_snapshot_env (w_completion env) = senv \<Longrightarrow> keeps P (run_one env cfg beats now drained)"
  by (auto simp: run_one_def intro!: composed claim_action_keeps run_claimed_keeps promote_action_keeps)

lemma run_loop_keeps:
  assumes "ce_snapshot_env (w_completion env) = senv"
  shows "keeps P (run_loop env cfg drained passes n)"
  by (induction passes arbitrary: n rule: list.induct)
    (auto intro!: composed run_one_keeps [OF assms])

lemma run_claimed_job_keeps:
  assumes "ce_snapshot_env (w_completion env) = senv"
  shows "keeps P (run_claimed_job env cfg beats now drained j)"
  using run_claimed_keeps [OF assms, of cfg beats now drained j] heartbeat_keeps [of cfg "jr_job_id j" beats]
  by (auto simp: keeps_def run_claimed_job_def split: prod.splits sum.splits)

lemma claim_batch_jobs_keeps: "keeps P (claim_batch_jobs env cfg now n)"
  by (induction n) (auto intro!: composed claim_action_keeps)

lemma run_worker_batch_keeps:
  "ce_snapshot_env (w_completion env) = senv \<Longrightarrow> keeps P (run_worker_batch env cfg beats now drained)"
  by (auto simp: run_worker_batch_def intro!: composed claim_batch_jobs_keeps run_claimed_job_keeps)

end

section \<open>The joint invariant of the stores\<close>

definition gateway_ok :: "snapshot_env \<Rightarrow> gateway_db \<Rightarrow> bool" where
  "gateway_ok senv db \<longleftrightarrow>
     pack_ok (g_pack db) \<and> outbox_rows_ok (outbox (g_pack db)) \<and> jobs_ok (g_jobs db)
     \<and> gates_ok (g_control db) \<and> contracts_ok (g_control db) \<and> snapshots_ok senv (g_snapshots db)
     \<and> distinct (map export_key (g_exports db))"

lemma insert_event_outbox_rows:
  assumes "insert_event now r name stg vis pl db = Inr (er, db')" and "pack_ok db"
    and "outbox_rows_ok (outbox db)"
  shows "outbox_rows_ok (outbox db')"
  using pack_okD(4) [OF assms(2)] assms(3)
  by (auto simp: insert_event_Inr(4) [OF assms(1)] outbox_rows_ok_def outbox_row_ok_def outbox_ok_def)

lemma pack_step_outbox_rows:
  "pack_step db db' \<Longrightarrow> pack_ok db \<Longrightarrow> outbox_rows_ok (outbox db) \<Longrightarrow> outbox_rows_ok (outbox db')"
proof (induction rule: pack_step.induct)
  case (create p db db')
  then show ?case by (auto simp: create_run_def split: if_splits)
next
  case (transition now t db db')
  from transition(1) show ?case
  proof (rule transition_status_cases)
    fix x er
    assume f: "filter (\<lambda>x. run_id x = st_run_id t) (runs db) = [x]" "run_step (run_status x) (st_status t)"
      and w: "write_event now \<lparr>ec_run_id = st_run_id t, ec_event_name = ''teaching_pack.status.changed'',
            ec_visibility = VIS_TEACHER, ec_stage = None,
            ec_payload = Some [(''status'', JStr (run_status_value (st_status t))),
              (''stage'', opt_json (st_stage t)), (''reason'', opt_json (st_reason t))]\<rparr>
           (set_status t db) = Inr (er, db')"
    have "outbox_rows_ok (outbox (set_status t db))" using transition(3) by (simp add: set_status_def)
    with insert_event_outbox_rows [OF w [unfolded write_event_insert] set_status_ok [OF transition(2) f]]
    show ?thesis .
  qed
next
  case (event now e db er db')
  then show ?case using insert_event_outbox_rows unfolding write_event_insert by blast
next
  case (observability now r ty stg pl vis db er db')
  then show ?case using insert_event_outbox_rows unfolding write_observability_event_def by blast
qed (auto simp: mark_stage_started_def mark_stage_completed_def write_stage_event_def ebind_Inr_iff
    write_event_insert notify_after_commit_def clear_after_rollback_def
    dest: insert_event_outbox_rows)

text \<open>Publishing rewrites delivery fields only: the ledger's image in the outbox stays.\<close>

definition outbox_image :: "outbox_row \<Rightarrow> nat \<times> string \<times> nat \<times> string" where
  "outbox_image b = (outbox_id b, ob_run_id b, ob_sequence b, ob_dedupe_key b)"

lemma outbox_guarded_image:
  assumes "outbox_guarded i f bs = Inr (d, bs')" and "\<And>b. outbox_image (f b) = outbox_image b"
  shows "map outbox_image bs' = map outbox_image bs"
  using outbox_guarded_cases [OF assms(1)] map_update_where [of "\<lambda>b. outbox_id b = i" outbox_image f bs] assms(2)
  by auto

lemma publish_items_keep:
  "publish_items clock err i cs (bs, bus, n) = Inr (bs', bus', n') \<Longrightarrow>
   map outbox_image bs' = map outbox_image bs \<and> (outbox_rows_ok bs \<longrightarrow> outbox_rows_ok bs')"
proof (induction cs arbitrary: i bs bus n)
  case Nil
  then show ?case by simp
next
  case (Cons c cs)
  have img: "outbox_image (published_row t b) = outbox_image b"
    "outbox_image (retry_row e t b) = outbox_image b" for t e b
    by (simp_all add: outbox_image_def published_row_def retry_row_def)
  show ?case
  proof (cases "err (ce_run_id c)")
    case None
    with Cons.prems obtain d bs1 where m: "mark_published (ce_outbox_id c) (clock i) bs = Inr (d, bs1)"
      and rest: "publish_items clock err (Suc i) cs (bs1, notify_run_event (ce_run_id c) bus, if d then Suc n else n)
        = Inr (bs', bus', n')"
      by (auto simp: ebind_Inr_iff)
    from Cons.IH [OF rest] mark_published_ok [OF m] outbox_guarded_image [OF m [unfolded mark_published_def] img(1)]
    show ?thesis by simp
  next
    case (Some e)
    with Cons.prems obtain d bs1 where m: "mark_retry (ce_outbox_id c) e
        (clock i + seconds (retry_delay (ce_attempts c))) bs = Inr (d, bs1)"
      and rest: "publish_items clock err (Suc i) cs (bs1, bus, n) = Inr (bs', bus', n')"
      by (auto simp: ebind_Inr_iff)
    from Cons.IH [OF rest] mark_retry_ok [OF m] outbox_guarded_image [OF m [unfolded mark_retry_def] img(2)]
    show ?thesis by simp
  qed
qed

lemma publish_keeps_rows:
  assumes "publish_run_event_outbox col locked clock err w limit (bs, bus) = Inr (bs', bus', n)"
  shows "map outbox_image bs' = map outbox_image bs" and "outbox_rows_ok bs \<Longrightarrow> outbox_rows_ok bs'"
proof -
  obtain cs bs1 where c: "claim_batch col locked w limit 30 (clock 0) bs = (cs, bs1)" by fastforce
  with assms have p: "publish_items clock err 1 cs (bs1, bus, 0) = Inr (bs', bus', n)"
    by (simp add: publish_run_event_outbox_def)
  have "map outbox_image bs1 = map outbox_image bs"
    using c by (auto simp: claim_batch_def Let_def intro!: map_update_where)
      (simp add: outbox_image_def claim_outbox_row_def)
  then show "map outbox_image bs' = map outbox_image bs" using publish_items_keep [OF p] by simp
  show "outbox_rows_ok bs \<Longrightarrow> outbox_rows_ok bs'"
    using publish_items_keep [OF p] claim_batch_ok [of bs col locked w limit 30 "clock 0"] c by simp
qed

lemma outbox_ok_image:
  assumes "map outbox_image bs = map outbox_image (outbox db)" and "outbox_ok db"
  shows "outbox_ok (db\<lparr>outbox := bs\<rparr>)"
proof -
  have proj: "map (f \<circ> outbox_image) bs = map (f \<circ> outbox_image) (outbox db)" for f :: "_ \<Rightarrow> 'b"
    using assms(1) by (metis map_map)
  have im: "outbox_image ` set bs = outbox_image ` set (outbox db)"
    using assms(1) by (metis set_map)
  have "map (\<lambda>b. (ob_run_id b, ob_sequence b)) bs = map (\<lambda>b. (ob_run_id b, ob_sequence b)) (outbox db)"
    using proj [of "\<lambda>(i, r, n, k). (r, n)"] by (simp add: comp_def outbox_image_def)
  moreover have "map outbox_id bs = map outbox_id (outbox db)"
    using proj [of "\<lambda>(i, r, n, k). i"] by (simp add: comp_def outbox_image_def)
  moreover have "ob_dedupe_key b = dedupe_key (ob_run_id b) (ob_sequence b) \<and> outbox_id b < next_outbox_id db"
    if "b \<in> set bs" for b
  proof -
    from that im obtain c where "c \<in> set (outbox db)" "outbox_image c = outbox_image b"
      by (metis imageE imageI)
    with assms(2) show ?thesis by (auto simp: outbox_ok_def outbox_image_def)
  qed
  ultimately show ?thesis using assms(2) by (simp add: outbox_ok_def)
qed

lemma pack_ok_publish:
  assumes "pack_ok db" and "map outbox_image bs = map outbox_image (outbox db)"
  shows "pack_ok (db\<lparr>outbox := bs\<rparr>)"
  using pack_okD [OF assms(1)] outbox_ok_image [OF assms(2)]
  by (simp add: pack_ok_def history_ok_def ledger_ok_def statuses_of_def event_seqs_def run_exists_def)

interpretation store_invariant: session_invariant senv "gateway_ok senv" for senv
proof unfold_locales
  fix db p
  assume "gateway_ok senv db" and "pack_step (g_pack db) p"
  then show "gateway_ok senv (db\<lparr>g_pack := p\<rparr>)"
    using pack_step_ok pack_step_outbox_rows unfolding gateway_ok_def by auto
next
  fix db js
  assume "gateway_ok senv db" and "job_step (g_jobs db) js"
  then show "gateway_ok senv (db\<lparr>g_jobs := js\<rparr>)"
    using job_step_ok unfolding gateway_ok_def by auto
next
  fix db c
  assume "gateway_ok senv db" and "control_step (g_control db) c"
  then show "gateway_ok senv (db\<lparr>g_control := c\<rparr>)"
    using control_step_ok unfolding gateway_ok_def by auto
next
  fix db s
  assume "gateway_ok senv db" and "snapshot_step senv (g_snapshots db) s"
  then show "gateway_ok senv (db\<lparr>g_snapshots := s\<rparr>)"
    using snapshot_step_ok unfolding gateway_ok_def by auto
next
  fix db known now x y xs
  assume "gateway_ok senv db" and "create_export_record known now x (g_exports db) = Inr (y, xs)"
  then show "gateway_ok senv (db\<lparr>g_exports := xs\<rparr>)"
    using create_export_total unfolding gateway_ok_def by fastforce
next
  fix db ns
  assume "gateway_ok senv db"
  then show "gateway_ok senv (db\<lparr>g_notices := ns\<rparr>)" by (simp add: gateway_ok_def)
next
  fix db col locked clock err w limit bs bus n
  assume "gateway_ok senv db" and "publish_run_event_outbox col locked clock err w limit
    (outbox (g_pack db), g_bus db) = Inr (bs, bus, n)"
  then show "gateway_ok senv (db\<lparr>g_pack := (g_pack db)\<lparr>outbox := bs\<rparr>, g_bus := bus\<rparr>)"
    using publish_keeps_rows pack_ok_publish unfolding gateway_ok_def by auto
qed

section \<open>A final status stays\<close>

definition status_is :: "string \<Rightarrow> run_status \<Rightarrow> gateway_db \<Rightarrow> bool" where
  "status_is r s db \<longleftrightarrow> map run_status (filter (\<lambda>x. run_id x = r) (runs (g_pack db))) = [s]"

lemma transition_runs:
  "transition_status now t p = Inr p' \<Longrightarrow>
   runs p' = update_where (\<lambda>x. run_id x = st_run_id t) (\<lambda>x. x\<lparr>run_status := st_status t\<rparr>) (runs p)"
  by (erule transition_status_cases, unfold write_event_insert, drule insert_event_Inr(6))
    (simp add: set_status_def)

lemma filter_update_status:
  "map run_status (filter (\<lambda>x. run_id x = r)
     (update_where (\<lambda>x. run_id x = q) (\<lambda>x. x\<lparr>run_status := s\<rparr>) xs))
   = (if r = q then map (\<lambda>_. s) (filter (\<lambda>x. run_id x = r) xs)
      else map run_status (filter (\<lambda>x. run_id x = r) xs))"
  by (induction xs) (auto simp: table_simps)

lemma pack_step_runs:
  "pack_step p p' \<Longrightarrow>
     runs p' = runs p \<or> (\<exists>x. runs p' = runs p @ [x] \<and> \<not> run_exists p (run_id x))
     \<or> (\<exists>(t :: status_transition) y. filter (\<lambda>x. run_id x = st_run_id t) (runs p) = [y] \<and> run_step (run_status y) (st_status t)
          \<and> runs p' = update_where (\<lambda>x. run_id x = st_run_id t) (\<lambda>x. x\<lparr>run_status := st_status t\<rparr>) (runs p))"
proof (induction rule: pack_step.induct)
  case (create q db db')
  then show ?case by (auto simp: create_run_def split: if_splits)
next
  case (transition now t db db')
  obtain x where "filter (\<lambda>x. run_id x = st_run_id t) (runs db) = [x]"
    and "run_step (run_status x) (st_status t)"
    using transition_status_cases [OF transition] by metis
  with transition_runs [OF transition] show ?case
    by blast
qed (auto simp: mark_stage_started_def mark_stage_completed_def write_stage_event_def ebind_Inr_iff
    write_event_insert write_observability_event_def notify_after_commit_def clear_after_rollback_def
    dest: insert_event_Inr(6))

lemma final_status_kept:
  assumes "run_terminal s" and "map run_status (filter (\<lambda>x. run_id x = r) (runs p)) = [s]" and "pack_step p p'"
  shows "map run_status (filter (\<lambda>x. run_id x = r) (runs p')) = [s]"
  using pack_step_runs [OF assms(3)]
proof (elim disjE exE conjE)
  fix x
  assume "runs p' = runs p @ [x]" and "\<not> run_exists p (run_id x)"
  moreover have "run_exists p r" using assms(2) by (auto simp: run_exists_def map_eq_Cons_conv dest!: filter_singletonD)
  ultimately show ?thesis using assms(2) by auto
next
  fix t y
  assume y: "filter (\<lambda>x. run_id x = st_run_id t) (runs p) = [y]" "run_step (run_status y) (st_status t)"
    and p': "runs p' = update_where (\<lambda>x. run_id x = st_run_id t) (\<lambda>x. x\<lparr>run_status := st_status t\<rparr>) (runs p)"
  show ?thesis
  proof (cases "r = st_run_id t")
    case True
    with assms(2) y(1) have "run_status y = s" by simp
    with y(2) assms(1) have "st_status t = s"
      using run_machine.terminal_final [of s "st_status t"] by (auto simp: run_terminal_iff)
    with True y(1) show ?thesis by (simp add: p' filter_update_status)
  next
    case False
    with assms(2) show ?thesis by (simp add: p' filter_update_status)
  qed
qed (use assms(2) in simp)

interpretation final_status: session_invariant senv "\<lambda>db. run_terminal s \<and> status_is r s db" for senv s r
proof unfold_locales
  fix db p
  assume a: "run_terminal s \<and> status_is r s db" and st: "pack_step (g_pack db) p"
  have "map run_status (filter (\<lambda>x. run_id x = r) (runs p)) = [s]"
    by (rule final_status_kept [OF conjunct1 [OF a] conjunct2 [OF a, unfolded status_is_def] st])
  with a show "run_terminal s \<and> status_is r s (db\<lparr>g_pack := p\<rparr>)"
    unfolding status_is_def by simp
qed (simp_all add: status_is_def)

end
