(* ===== verification/Worker_Laws.thy ===== *)
theory Worker_Laws
  imports Session_Invariant
begin

text \<open>
  What the worker, the executor and the completion recorder promise: they keep the joint invariant of
  the stores, a job that fails for good is dead-lettered and its run shown as failed, a completion
  that is recorded twice has its effects once; and where they fall short: a transient failure ends the
  run although its job is retried, and a completion that is refused leaves its export records behind.
\<close>

section \<open>Store calls that succeed\<close>

lemma status_is_D:
  assumes "status_is r s db"
  obtains x where "filter (\<lambda>x. run_id x = r) (runs (g_pack db)) = [x]" and "run_status x = s" and "run_id x = r"
  using assms unfolding status_is_def by (auto simp: map_eq_Cons_conv dest: filter_singletonD)

lemma status_is_exists: "status_is r s db \<Longrightarrow> run_exists (g_pack db) r"
  by (erule status_is_D) (auto simp: run_exists_def dest!: filter_singletonD)

lemma status_is_pack [simp]:
  "status_is r s (db\<lparr>g_pack := p\<rparr>) \<longleftrightarrow> map run_status (filter (\<lambda>x. run_id x = r) (runs p)) = [s]"
  "status_is r s (db\<lparr>g_jobs := js\<rparr>) \<longleftrightarrow> status_is r s db"
  "status_is r s (db\<lparr>g_exports := xs\<rparr>) \<longleftrightarrow> status_is r s db"
  "status_is r s (db\<lparr>g_notices := ns\<rparr>) \<longleftrightarrow> status_is r s db"
  by (simp_all add: status_is_def)

lemma do_get_run_some:
  assumes "status_is r s db"
  shows "\<exists>x. do_get_run r db = (db, Inr (Some x)) \<and> rr_status x = s"
  using assms by (rule status_is_D)
    (simp add: do_get_run_def act_get_def get_run_by_id_def read_run_def)

lemma do_write_event_total:
  assumes "pack_ok (g_pack db)" and "run_exists (g_pack db) r"
  shows "\<exists>p. do_write_event now r name vis payload db = (db\<lparr>g_pack := p\<rparr>, Inr ())
           \<and> pack_ok p \<and> runs p = runs (g_pack db)"
proof -
  obtain er p where w: "insert_event now r name None vis (Some payload) (g_pack db) = Inr (er, p)"
    using insert_event_total [OF pack_okD(4) [OF assms(1)] assms(2)] by blast
  then show ?thesis using insert_event_ok [OF assms(1) w] insert_event_Inr(6) [OF w]
    by (intro exI [of _ p]) (simp add: do_write_event_def on_pack_def write_event_def)
qed

lemma do_transition_total:
  assumes ok: "pack_ok (g_pack db)" and st: "status_is r a db" and step: "run_step a s"
  shows "\<exists>p. do_transition now r s stg why db = (db\<lparr>g_pack := p\<rparr>, Inr ())
           \<and> pack_ok p \<and> map run_status (filter (\<lambda>x. run_id x = r) (runs p)) = [s]"
proof -
  let ?t = "\<lparr>st_run_id = r, st_status = s, st_stage = stg, st_reason = why\<rparr>"
  obtain x where x: "filter (\<lambda>x. run_id x = r) (runs (g_pack db)) = [x]" "run_status x = a"
    using st by (rule status_is_D)
  have f: "filter (\<lambda>x. run_id x = st_run_id ?t) (runs (g_pack db)) = [x]" using x by simp
  have step': "run_step (run_status x) (st_status ?t)" using step x(2) by simp
  have ok': "pack_ok (set_status ?t (g_pack db))" by (rule set_status_ok [OF ok f step'])
  have ids: "map run_id (runs (set_status ?t (g_pack db))) = map run_id (runs (g_pack db))"
    by (simp add: set_status_def map_update_where)
  have "run_exists (set_status ?t (g_pack db)) r"
    unfolding run_exists_def ids using status_is_exists [OF st] by (simp add: run_exists_def)
  from insert_event_total [OF pack_okD(4) [OF ok'] this]
  obtain er p where w: "insert_event now r ''teaching_pack.status.changed'' None VIS_TEACHER
      (Some [(''status'', JStr (run_status_value s)), (''stage'', opt_json stg), (''reason'', opt_json why)])
      (set_status ?t (g_pack db)) = Inr (er, p)" by blast
  have tr: "transition_status now ?t (g_pack db) = Inr p"
    using f step' w by (simp add: transition_status_def set_status_def write_event_def)
  have "map run_status (filter (\<lambda>x. run_id x = r) (runs p)) = [s]"
    using transition_runs [OF tr] x(1) by (simp add: filter_update_status)
  moreover have "pack_ok p" by (rule transition_status_ok [OF ok tr])
  ultimately show ?thesis using tr
    by (intro exI [of _ p]) (simp add: do_transition_def on_pack_def unit_result_def)
qed

lemma do_transition_refused:
  assumes "status_is r a db" and "\<not> run_step a s"
  shows "do_transition now r s stg why db
         = (db, Inl (Py_Exc (InvalidRunStatusTransitionError ''transition_not_allowed'')))"
proof -
  obtain x where x: "filter (\<lambda>x. run_id x = r) (runs (g_pack db)) = [x]" "run_status x = a"
    using assms(1) by (rule status_is_D)
  have "validate_status_transition a s = Transition_Rejected a s ''transition_not_allowed''"
    using assms(2) by (auto simp: validate_status_transition_def split: if_splits)
  then show ?thesis using x
    by (simp add: do_transition_def on_pack_def unit_result_def transition_status_def)
qed

definition job_in :: "string \<Rightarrow> job_status \<Rightarrow> gateway_db \<Rightarrow> bool" where
  "job_in i s db \<longleftrightarrow> (\<exists>j \<in> set (g_jobs db). job_id j = i \<and> job_status j = s)"

lemma job_in_pack [simp]:
  "job_in i s (db\<lparr>g_pack := p\<rparr>) \<longleftrightarrow> job_in i s db"
  "job_in i s (db\<lparr>g_notices := ns\<rparr>) \<longleftrightarrow> job_in i s db"
  by (simp_all add: job_in_def)

lemma guarded_update_total:
  assumes "jobs_ok js" and "j \<in> set js" and "job_status j = s"
  shows "guarded_update (job_id j) s f js = Inr (True, set_job (job_id j) f js)"
proof -
  have "distinct (map job_id js)" using assms(1) by (simp add: jobs_ok_def)
  from filter_key_le_one [OF this assms(2)] assms(3) show ?thesis
    by (simp add: guarded_update_def get_job_for_update_def)
qed

lemma set_job_row: "j \<in> set js \<Longrightarrow> f j \<in> set (set_job (job_id j) f js)"
  by (auto simp: set_job_def set_update_where)

lemma heartbeat_total:
  assumes "jobs_ok (g_jobs db)" and "job_in i JOB_RUNNING db"
  shows "\<exists>js. heartbeat cfg i ts db = (db\<lparr>g_jobs := js\<rparr>, Inr ()) \<and> jobs_ok js
           \<and> job_in i JOB_RUNNING (db\<lparr>g_jobs := js\<rparr>)"
  using assms
proof (induction ts arbitrary: db)
  case Nil
  then show ?case by (intro exI [of _ "g_jobs db"]) simp
next
  case (Cons t ts)
  then obtain j where j: "j \<in> set (g_jobs db)" "job_id j = i" "job_status j = JOB_RUNNING"
    by (auto simp: job_in_def)
  have "distinct (map job_id (g_jobs db))" using Cons.prems(1) by (simp add: jobs_ok_def)
  from filter_key_le_one [OF this j(1)]
  have f: "filter (\<lambda>j. job_id j = i \<and> job_status j = JOB_RUNNING \<and> job_lease_owner j = Some w) (g_jobs db)
      = (if job_lease_owner j = Some w then [j] else [])" for w
    using filter_and [of "\<lambda>j. job_status j = JOB_RUNNING \<and> job_lease_owner j = Some w" "\<lambda>j. job_id j = i" "g_jobs db"] j(2,3)
    by (simp add: conj_ac)
  show ?case
  proof (cases "job_lease_owner j = Some (wc_worker_id cfg)")
    case False
    with f [of "wc_worker_id cfg"] Cons.prems show ?thesis
      by (intro exI [of _ "g_jobs db"]) (simp add: act_bind_def on_jobs_def refresh_lease_def)
  next
    case True
    let ?js = "set_job i (\<lambda>j. j\<lparr>job_lease_expires_at := Some (t + seconds (wc_lease_seconds cfg))\<rparr>) (g_jobs db)"
    have r: "refresh_lease i (wc_worker_id cfg) (wc_lease_seconds cfg) t (g_jobs db) = Inr (True, ?js)"
      using f [of "wc_worker_id cfg"] True by (simp add: refresh_lease_def)
    then have "jobs_ok ?js" using job_step_ok [OF job_step.refresh Cons.prems(1)] by blast
    moreover have "job_in i JOB_RUNNING (db\<lparr>g_jobs := ?js\<rparr>)"
      using set_job_row [OF j(1), of "\<lambda>j. j\<lparr>job_lease_expires_at := Some (t + seconds (wc_lease_seconds cfg))\<rparr>"] j(2,3)
      unfolding job_in_def
      by (intro bexI [of _ "j\<lparr>job_lease_expires_at := Some (t + seconds (wc_lease_seconds cfg))\<rparr>"]) auto
    ultimately show ?thesis using Cons.IH [of "db\<lparr>g_jobs := ?js\<rparr>"] r
      by (simp add: act_bind_def on_jobs_def)
  qed
qed

section \<open>Recording a failure\<close>

lemma persist_failure_total:
  assumes ok: "pack_ok (g_pack db)" and st: "status_is r s db" and nt: "\<not> run_terminal s"
  shows "\<exists>db'. persist_failure env now r why db = (db', Inr ()) \<and> pack_ok (g_pack db')
           \<and> status_is r FAILED db' \<and> g_jobs db' = g_jobs db"
proof -
  obtain x where x: "do_get_run r db = (db, Inr (Some x))" using do_get_run_some [OF st] by blast
  obtain p where t: "do_transition now r FAILED None (Some why) db = (db\<lparr>g_pack := p\<rparr>, Inr ())"
    "pack_ok p" "map run_status (filter (\<lambda>x. run_id x = r) (runs p)) = [FAILED]"
    using do_transition_total [OF ok st conjunct1 [OF run_can_abort [OF nt]], of now None "Some why"] by metis
  then have "status_is r FAILED (db\<lparr>g_pack := p\<rparr>)" by simp
  from status_is_exists [OF this] t(2)
  obtain q where w: "do_write_event now r ''teaching_pack.run.failed'' VIS_TEACHER [(''error'', JStr why)]
      (db\<lparr>g_pack := p\<rparr>) = (db\<lparr>g_pack := q\<rparr>, Inr ())" "pack_ok q" "runs q = runs p"
    using do_write_event_total [of "db\<lparr>g_pack := p\<rparr>" r] by fastforce
  have "persist_failure env now r why db =
      (if ce_notifications (w_completion env)
       then add_notice \<lparr>notice_run_id = r, notice_teacher_id = rr_teacher_id x,
              notice_kind = ''failed'', notice_text = why\<rparr> (db\<lparr>g_pack := q\<rparr>)
       else (db\<lparr>g_pack := q\<rparr>, Inr ()))"
    by (simp add: persist_failure_def act_bind_def x t(1) w(1))
  then show ?thesis using w t(3) by (simp add: add_notice_def status_is_def)
qed

lemma run_start_job_raises:
  assumes ok: "pack_ok (g_pack db)" and st: "status_is r s db" and nt: "\<not> run_terminal s"
    and sink: "w_failure_sink env" and raises: "w_ainvoke env r (Graph_Start initial) = Inl e"
  shows "\<exists>db'. run_start_job env now r initial db = (db', Inl e) \<and> pack_ok (g_pack db')
           \<and> status_is r FAILED db' \<and> g_jobs db' = g_jobs db"
proof -
  obtain db' where "persist_failure env now r (w_error_summary env e) db = (db', Inr ())"
    "pack_ok (g_pack db')" "status_is r FAILED db'" "g_jobs db' = g_jobs db"
    using persist_failure_total [OF ok st nt] by blast
  then show ?thesis
    by (simp add: run_start_job_def act_catch_def act_bind_def raises sink_failure_def sink)
qed

section \<open>The joint invariant\<close>

text \<open>
  C2: a pass of the worker, and a batch of concurrent jobs, keep every store
  consistent: the run ledger and its outbox, the job table, the gates and contracts, the snapshots and
  the exports, whatever the graph answers or raises and wherever the code raises in between.
\<close>
theorem worker_keeps_invariants:
  assumes "gateway_ok (ce_snapshot_env (w_completion env)) db"
  shows "gateway_ok (ce_snapshot_env (w_completion env)) (fst (run_one env cfg beats now drained db))
         \<and> gateway_ok (ce_snapshot_env (w_completion env)) (fst (run_worker_batch env cfg beats now drained db))"
  using store_invariant.run_one_keeps [OF refl] store_invariant.run_worker_batch_keeps [OF refl] assms
  unfolding keeps_def by blast

section \<open>Failing jobs\<close>

lemma mark_dead_letter_total:
  assumes "jobs_ok (g_jobs db)" and "job_in i JOB_RUNNING db"
  shows "\<exists>js. on_jobs (mark_dead_letter i err cls now) db = (db\<lparr>g_jobs := js\<rparr>, Inr True)
           \<and> (\<exists>j \<in> set js. job_id j = i \<and> job_status j = JOB_DEAD_LETTER \<and> job_error_classification j = Some cls)"
proof -
  obtain j where j: "j \<in> set (g_jobs db)" "job_id j = i" "job_status j = JOB_RUNNING"
    using assms(2) by (auto simp: job_in_def)
  define f where "f = (\<lambda>j :: run_job. j\<lparr>job_status := JOB_DEAD_LETTER, job_lease_owner := None,
      job_lease_expires_at := None, job_last_error := Some (take 2000 err),
      job_error_classification := Some cls, job_dead_lettered_at := Some now\<rparr>)"
  have "mark_dead_letter i err cls now (g_jobs db) = Inr (True, set_job i f (g_jobs db))"
    using guarded_update_total [OF assms(1) j(1,3)] j(2) by (simp add: mark_dead_letter_def f_def)
  moreover have "f j \<in> set (set_job i f (g_jobs db))" using set_job_row [OF j(1), of f] j(2) by simp
  moreover have "job_id (f j) = i" "job_status (f j) = JOB_DEAD_LETTER" "job_error_classification (f j) = Some cls"
    using j(2) by (simp_all add: f_def)
  ultimately show ?thesis
    by (intro exI [of _ "set_job i f (g_jobs db)"]) (auto simp: on_jobs_def)
qed

lemma surface_dead_letter_total:
  assumes ok: "pack_ok (g_pack db)" and st: "status_is (jr_run_id j) s db"
  shows "\<exists>p. surface_dead_letter now j summary cls db = (db\<lparr>g_pack := p\<rparr>, Inr ())
           \<and> status_is (jr_run_id j) (if run_terminal s then s else FAILED) (db\<lparr>g_pack := p\<rparr>)"
proof -
  let ?r = "jr_run_id j" and ?final = "if run_terminal s then s else FAILED"
  let ?t = "act_catch (do_transition now ?r FAILED None (Some (''dead_letter:'' @ cls)))
      (\<lambda>e. if is_invalid_transition e then act_return () else act_raise e)"
  obtain x where x: "do_get_run ?r db = (db, Inr (Some x))" using do_get_run_some [OF st] by blast
  have "\<exists>p. ?t db = (db\<lparr>g_pack := p\<rparr>, Inr ()) \<and> pack_ok p \<and> status_is ?r ?final (db\<lparr>g_pack := p\<rparr>)"
  proof (cases "run_step s FAILED")
    case True
    then have e: "?final = FAILED" by (cases s) (simp_all add: run_machine.accepted_iff run_terminal_def)
    from do_transition_total [OF ok st True, of now None "Some (''dead_letter:'' @ cls)"]
    obtain p where "do_transition now ?r FAILED None (Some (''dead_letter:'' @ cls)) db = (db\<lparr>g_pack := p\<rparr>, Inr ())"
      "pack_ok p" "map run_status (filter (\<lambda>x. run_id x = ?r) (runs p)) = [FAILED]" by metis
    then show ?thesis unfolding e by (intro exI [of _ p]) (simp add: act_catch_def)
  next
    case False
    then have e: "?final = s" using run_can_abort by auto
    show ?thesis unfolding e
      by (intro exI [of _ "g_pack db"])
        (use do_transition_refused [OF st False] ok st in \<open>simp add: act_catch_def is_invalid_transition_def\<close>)
  qed
  then obtain p where p: "?t db = (db\<lparr>g_pack := p\<rparr>, Inr ())" "pack_ok p" "status_is ?r ?final (db\<lparr>g_pack := p\<rparr>)"
    by blast
  obtain q where q: "do_write_event now ?r ''teaching_pack.run.dead_letter'' VIS_TEACHER
      [(''message'', JStr ''failed - needs attention''), (''job_id'', JStr (jr_job_id j)),
       (''classification'', JStr cls), (''error_summary'', JStr summary)] (db\<lparr>g_pack := p\<rparr>)
      = (db\<lparr>g_pack := q\<rparr>, Inr ())" "runs q = runs p"
    using do_write_event_total [of "db\<lparr>g_pack := p\<rparr>" ?r] p(2) status_is_exists [OF p(3)] by fastforce
  have "surface_dead_letter now j summary cls db = (db\<lparr>g_pack := q\<rparr>, Inr ())"
    by (simp only: surface_dead_letter_def act_bind_def x p(1) q(1) prod.case sum.case option.case)
  moreover have "status_is ?r ?final (db\<lparr>g_pack := q\<rparr>)" using p(3) q(2) by (simp add: status_is_def)
  ultimately show ?thesis by blast
qed

definition retryable :: "worker_config \<Rightarrow> run_job_read \<Rightarrow> exc \<Rightarrow> bool" where
  "retryable cfg j e \<longleftrightarrow> (\<exists>t m. unwrap_group e = Transient_Provider_Error t m)
     \<and> jr_attempts j < wc_max_transient_attempts cfg"

lemma handle_job_error_permanent:
  assumes "\<not> retryable cfg j e"
  shows "\<exists>cls. handle_job_error env cfg now j e = dead_letter_job env now j (unwrap_group e) cls
           \<and> cls \<in> {''transient_exhausted'', ''permanent''}"
  using assms by (cases "unwrap_group e") (auto simp: handle_job_error_def retryable_def)

text \<open>
  C3: an error that may not be retried dead-letters the job and shows at the run:
  handling it never raises, the job ends dead-lettered with its classification, and the run is failed
  unless it had already ended otherwise.
\<close>
theorem failed_job_surfaces:
  assumes "gateway_ok senv db" and "job_in (jr_job_id j) JOB_RUNNING db"
    and "status_is (jr_run_id j) s db" and "\<not> retryable cfg j e"
  shows "\<exists>db'. handle_job_error env cfg now j e db = (db', Inr ())
           \<and> (\<exists>x \<in> set (g_jobs db'). job_id x = jr_job_id j \<and> job_status x = JOB_DEAD_LETTER
                \<and> job_error_classification x \<in> {Some ''transient_exhausted'', Some ''permanent''})
           \<and> status_is (jr_run_id j) (if run_terminal s then s else FAILED) db'"
proof -
  have ok: "pack_ok (g_pack db)" "jobs_ok (g_jobs db)" using assms(1) by (simp_all add: gateway_ok_def)
  obtain cls where h: "handle_job_error env cfg now j e = dead_letter_job env now j (unwrap_group e) cls"
    and cls: "cls \<in> {''transient_exhausted'', ''permanent''}"
    using handle_job_error_permanent [OF assms(4)] by blast
  let ?err = "take 2000 (w_error_text env (unwrap_group e))"
  obtain js where m: "on_jobs (mark_dead_letter (jr_job_id j) ?err cls now) db = (db\<lparr>g_jobs := js\<rparr>, Inr True)"
    and row: "\<exists>x \<in> set js. job_id x = jr_job_id j \<and> job_status x = JOB_DEAD_LETTER
      \<and> job_error_classification x = Some cls"
    using mark_dead_letter_total [OF ok(2) assms(2)] by metis
  obtain p where s: "surface_dead_letter now j ?err cls (db\<lparr>g_jobs := js\<rparr>)
      = (db\<lparr>g_jobs := js, g_pack := p\<rparr>, Inr ())"
    and st: "status_is (jr_run_id j) (if run_terminal s then s else FAILED) (db\<lparr>g_jobs := js, g_pack := p\<rparr>)"
    using surface_dead_letter_total [of "db\<lparr>g_jobs := js\<rparr>" j s now ?err cls] ok(1) assms(3) by auto
  have "handle_job_error env cfg now j e db = (db\<lparr>g_jobs := js, g_pack := p\<rparr>, Inr ())"
    by (simp add: h dead_letter_job_def act_bind_def m s)
  moreover have "\<exists>x \<in> set (g_jobs (db\<lparr>g_jobs := js, g_pack := p\<rparr>)). job_id x = jr_job_id j
      \<and> job_status x = JOB_DEAD_LETTER
      \<and> job_error_classification x \<in> {Some ''transient_exhausted'', Some ''permanent''}"
    using row cls by auto
  ultimately show ?thesis using st by blast
qed

text \<open>
  C10: a transient provider error of a start job is retried in vain. The
  executor records the failure before the worker requeues the job, so the job waits for its next
  attempt while its run already is failed; a failed run is final, and no later worker pass, whatever
  the graph then answers, completes it.
\<close>
theorem transient_retry_dooms_run:
  assumes "gateway_ok senv db" and "job_in (jr_job_id j) JOB_RUNNING db"
    and "status_is (jr_run_id j) s db" and "\<not> run_terminal s"
    and "jr_kind j = START" and "w_failure_sink env" and "jr_attempts j < wc_max_transient_attempts cfg"
    and "w_ainvoke env (jr_run_id j) (Graph_Start (initial_state j)) = Inl (Transient_Provider_Error t msg)"
  shows "\<exists>db'. settle_job env cfg beats now j db = (db', Inr ())
           \<and> (\<exists>x \<in> set (g_jobs db'). job_id x = jr_job_id j \<and> job_status x = JOB_QUEUED
                \<and> job_eligible_at x = Some (now + seconds t))
           \<and> (\<forall>env' cfg' drained passes.
                status_is (jr_run_id j) FAILED (fst (run_loop env' cfg' drained passes n db')))"
proof -
  have ok: "pack_ok (g_pack db)" "jobs_ok (g_jobs db)" using assms(1) by (simp_all add: gateway_ok_def)
  obtain js where hb: "heartbeat cfg (jr_job_id j) beats db = (db\<lparr>g_jobs := js\<rparr>, Inr ())" "jobs_ok js"
    "job_in (jr_job_id j) JOB_RUNNING (db\<lparr>g_jobs := js\<rparr>)"
    using heartbeat_total [OF ok(2) assms(2)] by blast
  from run_start_job_raises [of "db\<lparr>g_jobs := js\<rparr>" "jr_run_id j" s env "initial_state j"]
  obtain db1 where r: "run_start_job env now (jr_run_id j) (initial_state j) (db\<lparr>g_jobs := js\<rparr>)
      = (db1, Inl (Transient_Provider_Error t msg))"
    and db1: "status_is (jr_run_id j) FAILED db1" "g_jobs db1 = js"
    using ok(1) assms(3,4,6,8) by auto
  have ex: "execute_with_heartbeat env cfg beats now j db
      = (db1, Inl (Exception_Group [Transient_Provider_Error t msg]))"
    by (simp add: execute_with_heartbeat_def act_catch_def act_bind_def hb(1) execute_def assms(5) r)
  obtain x where x: "x \<in> set js" "job_id x = jr_job_id j" "job_status x = JOB_RUNNING"
    using hb(3) by (auto simp: job_in_def)
  define f where "f = (\<lambda>x :: run_job. x\<lparr>job_status := JOB_QUEUED, job_eligible_at := Some (now + seconds t),
    job_lease_owner := None, job_lease_expires_at := None\<rparr>)"
  have q: "requeue_with_backoff (jr_job_id j) (now + seconds t) js = Inr (True, set_job (jr_job_id j) f js)"
    using guarded_update_total [OF hb(2) x(1,3)] x(2) by (simp add: requeue_with_backoff_def f_def)
  let ?db' = "db1\<lparr>g_jobs := set_job (jr_job_id j) f js\<rparr>"
  have "settle_job env cfg beats now j db = (?db', Inr ())"
    using assms(7) by (simp add: settle_job_def ex handle_job_error_def unwrap_group_def act_bind_def
        on_jobs_def db1(2) q)
  moreover have "\<exists>y \<in> set (g_jobs ?db'). job_id y = jr_job_id j \<and> job_status y = JOB_QUEUED
      \<and> job_eligible_at y = Some (now + seconds t)"
    using set_job_row [OF x(1), of f] x(2) by (intro bexI [of _ "f x"]) (simp_all add: f_def)
  moreover have "status_is (jr_run_id j) FAILED (fst (run_loop env' cfg' drained passes n ?db'))"
    for env' cfg' drained passes
    using final_status.run_loop_keeps [OF refl, of FAILED "jr_run_id j" env' cfg' drained passes n] db1(1)
    by (simp add: keeps_def run_terminal_def)
  ultimately show ?thesis by blast
qed

section \<open>Completions\<close>

definition plain_export :: "json_object \<Rightarrow> bool" where
  "plain_export state \<longleftrightarrow> content_update_event state = None \<and> content_gate_payload state = None
     \<and> quality_recovery_route state = None \<and> has_export_evidence state"

lemma persist_completion_plain:
  "plain_export state \<Longrightarrow> persist_completion env now r state = persist_export env now r state"
  by (simp add: plain_export_def persist_completion_def act_bind_def fun_eq_iff)

lemma do_transition_Inr:
  assumes "do_transition now r s stg why db = (db', Inr ())"
  shows "status_is r s db'"
proof -
  let ?t = "\<lparr>st_run_id = r, st_status = s, st_stage = stg, st_reason = why\<rparr>"
  obtain p where p: "transition_status now ?t (g_pack db) = Inr p" "db' = db\<lparr>g_pack := p\<rparr>"
    using assms by (auto simp: do_transition_def on_pack_def unit_result_def ebind_Inr_iff
        split: sum.splits)
  obtain x where "filter (\<lambda>x. run_id x = r) (runs (g_pack db)) = [x]"
    using transition_status_cases [OF p(1)] by (metis status_transition.select_convs(1))
  then show ?thesis using transition_runs [OF p(1)] by (simp add: p(2) filter_update_status)
qed

lemma do_get_run_Inr:
  assumes "do_get_run r db = (db', Inr run)" and "map_option rr_status run = Some s"
  shows "db' = db \<and> status_is r s db"
  using assms
  by (auto simp: do_get_run_def act_get_def get_run_by_id_def read_run_def ebind_Inr_iff status_is_def
      split: sum.splits)

lemma persist_export_completes:
  assumes "persist_export env now r state db = (db', Inr ())"
  shows "status_is r COMPLETED db'"
proof -
  from assms obtain db1 run where g: "do_get_run r db = (db1, Inr run)"
    by (auto simp: persist_export_def act_bind_Inr)
  show ?thesis
  proof (cases "map_option rr_status run = Some COMPLETED")
    case True
    with assms g do_get_run_Inr [OF g] show ?thesis by (auto simp: persist_export_def act_bind_def)
  next
    case False
    with assms g obtain d1 d2 files where
      t: "do_transition now r COMPLETED None (Some ''completed'') d1 = (d2, Inr ())"
      and a: "announce_completion env now r state run files d2 = (db', Inr ())"
      by (auto simp: persist_export_def act_bind_Inr split: if_splits)
    from keepsD [OF final_status.announce_completion_keeps [of COMPLETED r] _ a] do_transition_Inr [OF t]
    show ?thesis by (simp add: run_terminal_def)
  qed
qed

text \<open>A completion of a run that can be exported is recorded.\<close>

lemma record_exports_pack:
  assumes "record_exports env now r state files db = (db1, Inr ())"
  shows "g_pack db1 = g_pack db"
proof -
  have "keeps (\<lambda>d. g_pack d = g_pack db) (do_create_export now x)" for x
    by (auto simp: keeps_def do_create_export_def on_exports_def split: sum.splits)
  then have "keeps (\<lambda>d. g_pack d = g_pack db) (record_exports env now r state files)"
    by (auto simp: record_exports_def intro!: keeps_intros)
  from keepsD [OF this refl assms] show ?thesis .
qed

lemma announce_completion_total:
  assumes "pack_ok (g_pack db)" and "run_exists (g_pack db) r" and "ce_outcome_delivery env = None"
  shows "\<exists>db'. announce_completion env now r state run files db = (db', Inr ())"
proof -
  have "\<exists>db1. (case auto_approval_payload (ce_container_text env) state of
                 None \<Rightarrow> act_return ()
               | Some p \<Rightarrow> do_write_event now r ''teaching_pack.content_approval.auto_approved'' VIS_TEACHER p) db
        = (db1, Inr ()) \<and> pack_ok (g_pack db1) \<and> run_exists (g_pack db1) r"
  proof (cases "auto_approval_payload (ce_container_text env) state")
    case (Some p)
    obtain q where "do_write_event now r ''teaching_pack.content_approval.auto_approved'' VIS_TEACHER p db
      = (db\<lparr>g_pack := q\<rparr>, Inr ())" "pack_ok q" "runs q = runs (g_pack db)"
      using do_write_event_total [OF assms(1,2)] by blast
    with Some assms(2) show ?thesis by (simp add: run_exists_def)
  qed (use assms in simp)
  then obtain db1 where a: "(case auto_approval_payload (ce_container_text env) state of
                 None \<Rightarrow> act_return ()
               | Some p \<Rightarrow> do_write_event now r ''teaching_pack.content_approval.auto_approved'' VIS_TEACHER p) db
        = (db1, Inr ())" "pack_ok (g_pack db1)" "run_exists (g_pack db1) r" by blast
  obtain q where b: "do_write_event now r ''teaching_pack.run.completed'' VIS_TEACHER
      [(''exported_files'', JList (map JStr files))] db1 = (db1\<lparr>g_pack := q\<rparr>, Inr ())"
    using do_write_event_total [OF a(2,3)] by blast
  show ?thesis
    by (cases run; cases "ce_notifications env")
      (simp_all add: announce_completion_def act_bind_def a(1) b notify_completed_def deliver_outcome_def
        assms(3) add_notice_def)
qed

lemma persist_export_total:
  assumes ok: "pack_ok (g_pack db)" and st: "status_is r s db" and s: "run_step s EXPORTING"
    and h: "hydrate_state_snapshots (ce_content_store env) state = Inr est"
    and w: "ce_write_exports env r est = Inr files"
    and x: "record_exports env now r state files db = (db1, Inr ())" and d: "ce_outcome_delivery env = None"
  shows "\<exists>db'. persist_export env now r state db = (db', Inr ())"
proof -
  obtain run where g: "do_get_run r db = (db, Inr (Some run))" "rr_status run = s"
    using do_get_run_some [OF st] by blast
  have "s \<noteq> COMPLETED" using s by (auto simp: run_machine.accepted_iff)
  have p1: "pack_ok (g_pack db1)" "status_is r s db1"
    using ok st record_exports_pack [OF x] by (simp_all add: status_is_def)
  obtain p where t1: "do_transition now r EXPORTING (Some ''export_finalize'') (Some ''export_started'') db1
      = (db1\<lparr>g_pack := p\<rparr>, Inr ())" "pack_ok p"
    "map run_status (filter (\<lambda>x. run_id x = r) (runs p)) = [EXPORTING]"
    using do_transition_total [OF p1 s, of now "Some ''export_finalize''" "Some ''export_started''"] by metis
  have "run_step EXPORTING COMPLETED" by (simp add: run_machine.accepted_iff)
  with t1 obtain q where t2: "do_transition now r COMPLETED None (Some ''completed'') (db1\<lparr>g_pack := p\<rparr>)
      = (db1\<lparr>g_pack := q\<rparr>, Inr ())" "pack_ok q"
    "map run_status (filter (\<lambda>x. run_id x = r) (runs q)) = [COMPLETED]"
    using do_transition_total [of "db1\<lparr>g_pack := p\<rparr>" r EXPORTING COMPLETED now None "Some ''completed''"] by auto
  have "status_is r COMPLETED (db1\<lparr>g_pack := q\<rparr>)" using t2(3) by simp
  from announce_completion_total [of "db1\<lparr>g_pack := q\<rparr>" r env now state "Some run" files]
    t2(2) status_is_exists [OF this] d
  obtain db' where "announce_completion env now r state (Some run) files (db1\<lparr>g_pack := q\<rparr>) = (db', Inr ())"
    by auto
  then show ?thesis using g \<open>s \<noteq> COMPLETED\<close>
    by (simp add: persist_export_def act_bind_def h w x t1(1) t2(1))
qed

text \<open>
  A worker that is killed after a completion was committed and whose job is
  run again records nothing twice: repeating a recorded completion, at any later time and with any
  fresh ids, returns at once and leaves every table as it is.
\<close>
lemma completion_rerun_noop:
  assumes "plain_export state" and "persist_completion env now r state db = (db', Inr ())"
  shows "persist_completion env' now' r state db' = (db', Inr ())"
proof -
  have "status_is r COMPLETED db'"
    using persist_export_completes assms(2) unfolding persist_completion_plain [OF assms(1)] .
  then obtain x where "do_get_run r db' = (db', Inr (Some x))" "rr_status x = COMPLETED"
    using do_get_run_some by blast
  then show ?thesis
    by (simp add: persist_completion_plain [OF assms(1)] persist_export_def act_bind_def)
qed

text \<open>
  The completion recorder writes the export records before it asks
  for the status transition. For a run that was cancelled or failed while the graph was working the
  transition is refused, and the refusal leaves the records of the export in the session that the
  worker goes on to commit.
\<close>
lemma refused_completion_keeps_exports:
  assumes "plain_export state" and "status_is r s db" and "s = CANCELLED \<or> s = FAILED"
    and "hydrate_state_snapshots (ce_content_store env) state = Inr est"
    and "ce_write_exports env r est = Inr files" and "ce_export_store env"
    and "act_each (do_create_export now)
           (export_records_from_files (ce_export_uuid env) (ce_container_text env) r files
             (approved_snapshots_for_export (ce_container_text env) state)) db = (db1, Inr ())"
  shows "persist_completion env now r state db
         = (db1, Inl (Py_Exc (InvalidRunStatusTransitionError ''transition_not_allowed'')))"
proof -
  obtain x where x: "do_get_run r db = (db, Inr (Some x))" "rr_status x = s"
    using do_get_run_some [OF assms(2)] by blast
  have t: "run_terminal s" using assms(3) by (auto simp: run_terminal_def)
  have "keeps (\<lambda>db. run_terminal s \<and> status_is r s db) (act_each (do_create_export now) xs)" for xs
    by (intro keeps_each final_status.create_export_keeps)
  from keepsD [OF this _ assms(7)] have "status_is r s db1" using assms(2) t by simp
  moreover have "\<not> run_step s EXPORTING" using assms(3) by (auto simp: run_machine.accepted_iff)
  ultimately have "do_transition now r EXPORTING (Some ''export_finalize'') (Some ''export_started'') db1
      = (db1, Inl (Py_Exc (InvalidRunStatusTransitionError ''transition_not_allowed'')))"
    by (rule do_transition_refused)
  then show ?thesis using assms(3-7) x
    by (auto simp: persist_completion_plain [OF assms(1)] persist_export_def record_exports_def act_bind_def)
qed

section \<open>Witnesses\<close>

text \<open>
  A gateway with one pending run and its claimed start job, and a worker whose graph finds the
  provider rate-limited; a gateway with a snapshot whose run was cancelled, and an export state.
\<close>

definition demo_state :: json_object where
  "demo_state = [(''exported_files'', JList [JStr ''x'']), (''approved_snapshot_ids'', JList [JStr ''s1'']),
     (''rendered_snapshots'', JList [JObj [(''snapshot_id'', JStr ''s1''), (''artifact_id'', JStr ''a1''),
        (''content_json'', JObj [(''artifact_type'', JStr ''quiz'')])]])]"

definition demo_completion :: completion_env where
  "demo_completion = \<lparr>ce_render = (\<lambda>c. Inr ''html''), ce_write_exports = (\<lambda>r s. Inr [''out/s1.html'']),
     ce_export_store = True, ce_content_store = None, ce_notifications = True, ce_outcome_delivery = None,
     ce_container_text = (\<lambda>v. ''{}''), ce_snapshot_env = demo_env, ce_gate_uuid = ''1'',
     ce_export_uuid = (\<lambda>i. ''e'' @ show_nat i)\<rparr>"

definition demo_worker :: worker_env where
  "demo_worker = \<lparr>w_completion = demo_completion, w_failure_sink = True, w_completion_sink = True,
     w_ainvoke = (\<lambda>r g. Inl (Transient_Provider_Error 60 ''rate limited'')),
     w_error_summary = (\<lambda>e. ''error''), w_error_text = (\<lambda>e. ''error''), w_collation = (\<lambda>r. 0),
     w_notify_error = (\<lambda>r. None), w_locked_outbox = [], w_locked_jobs = []\<rparr>"

definition demo_config :: worker_config where
  "demo_config = \<lparr>wc_worker_id = ''w'', wc_lease_seconds = 60, wc_promote_batch_size = 5,
     wc_worker_concurrency = 1, wc_heartbeat_interval = None, wc_max_transient_attempts = 3\<rparr>"

definition demo_gateway :: gateway_db where
  "demo_gateway = \<lparr>g_pack = demo_db, g_jobs = snd (claim_next [] ''w'' 60 10 demo_jobs),
     g_control = demo_control, g_snapshots = demo_rows, g_exports = [], g_notices = [], g_bus = (\<lambda>r. 0)\<rparr>"

definition demo_read :: run_job_read where
  "demo_read = read_job (claim_job ''w'' 10 60 (new_job 5 demo_job))"

lemma demo_gateway_ok: "gateway_ok demo_env demo_gateway"
proof -
  have "pack_ok demo_db" by (rule pack_reachable_ok [OF demo_db_reachable])
  moreover have "outbox_rows_ok (outbox demo_db)"
    by (simp add: demo_db_def create_run_def run_exists_def empty_db_def outbox_rows_ok_def)
  moreover have "jobs_ok (snd (claim_next [] ''w'' 60 10 demo_jobs))"
    by (rule job_step_ok [OF job_step.claim demo_jobs_ok]) (rule prod.collapse [symmetric])
  ultimately show ?thesis using control_reachable_ok [OF demo_control_reachable]
      snapshots_reachable_ok [OF demo_rows_reachable]
    by (simp add: gateway_ok_def demo_gateway_def)
qed

lemma demo_running: "job_in (jr_job_id demo_read) JOB_RUNNING demo_gateway"
  by (simp add: job_in_def demo_gateway_def demo_read_def claim_next_def demo_jobs_def new_job_def
      demo_job_def job_claimable_def lease_over_def set_job_def update_where_def claim_job_def read_job_def)

lemma demo_pending: "status_is (jr_run_id demo_read) PENDING demo_gateway"
  by (simp add: status_is_def demo_gateway_def demo_read_def read_job_def claim_job_def new_job_def demo_job_def
      demo_db_def create_run_def run_exists_def empty_db_def demo_run_def)

lemma demo_worker_env: "ce_snapshot_env (w_completion demo_worker) = demo_env"
  by (simp add: demo_worker_def demo_completion_def)

theorem worker_keeps_invariants_witness:
  "gateway_ok demo_env (fst (run_one demo_worker demo_config [] 20 (\<lambda>r. []) demo_gateway))"
  using worker_keeps_invariants [of demo_worker demo_gateway demo_config "[]" 20 "\<lambda>r. []"] demo_gateway_ok
  unfolding demo_worker_env by blast

theorem failed_job_surfaces_witness:
  "\<exists>db'. handle_job_error demo_worker demo_config 20 demo_read (Other_Exc ''ValueError'' ''bad'') demo_gateway
           = (db', Inr ()) \<and> status_is ''r1'' FAILED db'"
proof -
  have n: "\<not> retryable demo_config demo_read (Other_Exc ''ValueError'' ''bad'')"
    by (simp add: retryable_def unwrap_group_def)
  have r: "jr_run_id demo_read = ''r1''"
    by (simp add: demo_read_def read_job_def claim_job_def new_job_def demo_job_def)
  show ?thesis
    using failed_job_surfaces [OF demo_gateway_ok demo_running demo_pending n, of demo_worker 20]
    unfolding r by (auto simp: run_terminal_def)
qed

theorem transient_retry_dooms_run_witness:
  "\<exists>db'. settle_job demo_worker demo_config [] 20 demo_read demo_gateway = (db', Inr ())
     \<and> (\<exists>x \<in> set (g_jobs db'). job_status x = JOB_QUEUED)
     \<and> status_is (jr_run_id demo_read) FAILED (fst (run_loop demo_worker demo_config (\<lambda>r. []) [] 0 db'))"
proof -
  have j: "jr_kind demo_read = START" "jr_attempts demo_read < wc_max_transient_attempts demo_config"
    by (simp_all add: demo_read_def read_job_def claim_job_def new_job_def demo_job_def demo_config_def)
  have w: "w_failure_sink demo_worker" "w_ainvoke demo_worker (jr_run_id demo_read)
      (Graph_Start (initial_state demo_read)) = Inl (Transient_Provider_Error 60 ''rate limited'')"
    by (simp_all add: demo_worker_def)
  have "\<not> run_terminal PENDING" by (simp add: run_terminal_def)
  from transient_retry_dooms_run [OF demo_gateway_ok demo_running demo_pending this j(1) w(1) j(2) w(2),
      of "[]" 20 0] show ?thesis by blast
qed

lemma demo_plain: "plain_export demo_state"
  by (simp add: plain_export_def demo_state_def content_update_event_def content_gate_payload_def
      quality_recovery_route_def has_export_evidence_def dict_get_def)

text \<open>A run under review and a cancelled run, with a snapshot each can export.\<close>

definition demo_pack :: "run_status \<Rightarrow> pack_db" where
  "demo_pack s = demo_db\<lparr>runs := update_where (\<lambda>x. True) (\<lambda>x. x\<lparr>run_status := s\<rparr>) (runs demo_db)\<rparr>"

definition demo_ready :: "run_status \<Rightarrow> gateway_db" where
  "demo_ready s = demo_gateway\<lparr>g_pack := demo_pack s\<rparr>"

lemma demo_ready_runs: "map run_id (runs (demo_pack s)) = [''r1'']" "map run_status (runs (demo_pack s)) = [s]"
  by (simp_all add: demo_pack_def demo_db_def create_run_def run_exists_def empty_db_def demo_run_def
      update_where_def)

lemma demo_ready_status: "status_is ''r1'' s (demo_ready s)"
proof -
  obtain x where "runs (demo_pack s) = [x]" "run_id x = ''r1''" "run_status x = s"
    using demo_ready_runs [of s] by (auto simp: map_eq_Cons_conv)
  then show ?thesis by (simp add: status_is_def demo_ready_def)
qed

definition demo_record :: export_create where
  "demo_record = \<lparr>xc_export_id = ''e0'', xc_run_id = ''r1'', xc_artifact_id = ''a1'', xc_snapshot_id = ''s1'',
     xc_format = ''html'', xc_storage_path = ''out/s1.html'', xc_capability_version = None\<rparr>"

lemma demo_records:
  "export_records_from_files (ce_export_uuid demo_completion) (ce_container_text demo_completion) ''r1''
     [''out/s1.html''] (approved_snapshots_for_export (ce_container_text demo_completion) demo_state)
   = [demo_record]"
  by (simp add: export_records_from_files_def export_records_for_file_def approved_snapshots_for_export_def
      export_rendered_snapshots_def approved_snapshot_ids_def demo_state_def demo_completion_def dict_get_def
      dict_get_or_def json_object_of_def path_stem_def path_suffix_def path_name_def demo_record_def show_nat.simps [of 0] Let_def char_of_def bit_Suc_0_iff)

lemma demo_exported:
  "act_each (do_create_export 50) [demo_record] (demo_ready s)
   = ((demo_ready s)\<lparr>g_exports := [new_export 50 demo_record]\<rparr>, Inr ())"
proof -
  have "run_exists (g_pack (demo_ready s)) ''r1''" by (rule status_is_exists [OF demo_ready_status])
  moreover have "''s1'' \<in> set (map snap_id (g_snapshots (demo_ready s)))"
    by (simp add: demo_ready_def demo_gateway_def demo_rows_def demo_snapshot_def)
  moreover have "g_exports (demo_ready s) = []" by (simp add: demo_ready_def demo_gateway_def)
  ultimately show ?thesis
    by (simp add: act_bind_def do_create_export_def on_exports_def create_export_record_def demo_record_def
        new_export_def)
qed

lemma refused_completion_keeps_exports_witness:
  "persist_completion demo_completion 50 ''r1'' demo_state (demo_ready CANCELLED)
   = ((demo_ready CANCELLED)\<lparr>g_exports := [new_export 50 demo_record]\<rparr>,
      Inl (Py_Exc (InvalidRunStatusTransitionError ''transition_not_allowed'')))"
proof -
  have e: "ce_write_exports demo_completion ''r1'' est = Inr [''out/s1.html'']" "ce_export_store demo_completion" for est
    by (simp_all add: demo_completion_def)
  obtain est where h: "hydrate_state_snapshots (ce_content_store demo_completion) demo_state = Inr est"
    by (simp add: demo_completion_def hydrate_state_snapshots_def snapshot_content_from_store_def demo_state_def
        rendered_snapshots_def dict_get_def json_object_of_def)
  show ?thesis
    by (rule refused_completion_keeps_exports [OF demo_plain demo_ready_status disjI1 [OF refl] h e(1,2)])
      (simp only: demo_records demo_exported)
qed

text \<open>A first completion of a run under approval, and its repetition.\<close>

lemma completion_rerun_noop_witness:
  "\<exists>db db'. status_is ''r1'' AWAITING_APPROVAL db
     \<and> persist_completion demo_completion 50 ''r1'' demo_state db = (db', Inr ())
     \<and> persist_completion demo_completion 60 ''r1'' demo_state db' = (db', Inr ())"
proof -
  have ok: "pack_ok (g_pack demo_gateway)" using demo_gateway_ok by (simp add: gateway_ok_def)
  have r: "jr_run_id demo_read = ''r1''"
    by (simp add: demo_read_def read_job_def claim_job_def new_job_def demo_job_def)
  have "run_step PENDING AWAITING_APPROVAL" by (simp add: run_machine.accepted_iff)
  from do_transition_total [OF ok demo_pending [unfolded r] this, of 40 None None]
  obtain p where p: "pack_ok p" "map run_status (filter (\<lambda>x. run_id x = ''r1'') (runs p)) = [AWAITING_APPROVAL]" by metis
  let ?db = "demo_gateway\<lparr>g_pack := p\<rparr>"
  have st: "status_is ''r1'' AWAITING_APPROVAL ?db" using p(2) by simp
  have x: "record_exports demo_completion 50 ''r1'' demo_state [''out/s1.html''] ?db
      = (?db\<lparr>g_exports := [new_export 50 demo_record]\<rparr>, Inr ())"
  proof -
    have "run_exists (g_pack ?db) ''r1''" by (rule status_is_exists [OF st])
    moreover have "''s1'' \<in> set (map snap_id (g_snapshots ?db))"
      by (simp add: demo_gateway_def demo_rows_def demo_snapshot_def)
    moreover have "g_exports ?db = []" by (simp add: demo_gateway_def)
    ultimately have "act_each (do_create_export 50) [demo_record] ?db
        = (?db\<lparr>g_exports := [new_export 50 demo_record]\<rparr>, Inr ())"
      by (simp add: act_bind_def do_create_export_def on_exports_def create_export_record_def demo_record_def
          new_export_def)
    moreover have "ce_export_store demo_completion" by (simp add: demo_completion_def)
    ultimately show ?thesis by (simp only: record_exports_def demo_records if_True)
  qed
  have e: "ce_write_exports demo_completion ''r1'' est = Inr [''out/s1.html'']" "ce_outcome_delivery demo_completion = None" for est
    by (simp_all add: demo_completion_def)
  obtain est where h: "hydrate_state_snapshots (ce_content_store demo_completion) demo_state = Inr est"
    by (simp add: demo_completion_def hydrate_state_snapshots_def snapshot_content_from_store_def demo_state_def
        rendered_snapshots_def dict_get_def json_object_of_def)
  have "run_step AWAITING_APPROVAL EXPORTING" by (simp add: run_machine.accepted_iff)
  from persist_export_total [OF _ st this h e(1) x e(2)] p(1)
  obtain db' where "persist_completion demo_completion 50 ''r1'' demo_state ?db = (db', Inr ())"
    by (auto simp: persist_completion_plain [OF demo_plain])
  with completion_rerun_noop [OF demo_plain this] st show ?thesis by blast
qed

end
