(* ===== verification/Admin_Recovery.thy ===== *)
theory Admin_Recovery
  imports Worker_Laws
begin

text \<open>
  An administrator's recovery actions on one run (\<open>services/gateway/admin_recovery.py\<close>): the six
  actions, each followed by an audit event in the run's ledger, all in one transaction. What they
  do to the rules the stores keep is proved below: a reopened gate that was answered cannot be
  answered again, and cancelling a run bypasses its status history.

  An exception leaves the transaction to its caller, so the model returns it without a state.
\<close>

datatype safe_recovery_action =
    RETRY_STUCK_JOB | RETRY_FAILED_ARTIFACT | RETRY_NOTIFICATION | CANCEL_RUN | REOPEN_GATE
  | MARK_ESCALATED

fun recovery_action_value :: "safe_recovery_action \<Rightarrow> string" where
  "recovery_action_value RETRY_STUCK_JOB = ''retry_stuck_job''"
| "recovery_action_value RETRY_FAILED_ARTIFACT = ''retry_failed_artifact''"
| "recovery_action_value RETRY_NOTIFICATION = ''retry_notification''"
| "recovery_action_value CANCEL_RUN = ''cancel_run''"
| "recovery_action_value REOPEN_GATE = ''reopen_gate''"
| "recovery_action_value MARK_ESCALATED = ''mark_escalated''"

record recovery_request =
  rreq_run_id :: string
  rreq_action :: safe_recovery_action
  rreq_reason :: string
  rreq_admin_id :: string

record recovery_result =
  rres_success :: bool
  rres_message :: string
  rres_action :: safe_recovery_action

text \<open>A delivery of a notification, joined with the run of its notification.\<close>

record delivery_row =
  dlv_id :: string
  dlv_run_id :: string
  dlv_channel :: string
  dlv_status :: string
  dlv_delivered_at :: "instant option"
  dlv_created_at :: instant

record admin_db =
  ad_gateway :: gateway_db
  ad_deliveries :: "delivery_row list"

text \<open>\<open>ORDER BY created_at DESC LIMIT 1\<close>; of rows of one instant the one inserted last.\<close>

definition newest_by :: "('a \<Rightarrow> instant) \<Rightarrow> 'a list \<Rightarrow> 'a option" where
  "newest_by created xs = (case rev (sort_key created xs) of [] \<Rightarrow> None | x # _ \<Rightarrow> Some x)"

lemma newest_by_mem: "newest_by f xs = Some x \<Longrightarrow> x \<in> set xs"
  unfolding newest_by_def
  by (metis list.case_eq_if list.set_sel(1) option.distinct(1) option.inject set_rev set_sort)

lemma newest_by_None: "newest_by f xs = None \<longleftrightarrow> xs = []"
proof
  assume "newest_by f xs = None"
  then have "rev (sort_key f xs) = []" by (cases "rev (sort_key f xs)") (simp_all add: newest_by_def)
  then have "length (sort_key f xs) = 0" by simp
  then show "xs = []" by (simp only: length_sort length_0_conv)
qed (simp add: newest_by_def)

definition outcome :: "recovery_request \<Rightarrow> bool \<Rightarrow> string \<Rightarrow> recovery_result" where
  "outcome rq ok msg = \<lparr>rres_success = ok, rres_message = msg, rres_action = rreq_action rq\<rparr>"

section \<open>The actions\<close>

text \<open>A job goes back to pending; its lease is dropped whether or not it still runs.\<close>

definition release_job :: "string \<Rightarrow> jobs \<Rightarrow> jobs" where
  "release_job jid js = update_where (\<lambda>j. job_id j = jid)
     (\<lambda>j. j\<lparr>job_status := JOB_PENDING, job_lease_owner := None, job_lease_expires_at := None\<rparr>) js"

definition retry_stuck_job :: "recovery_request \<Rightarrow> gateway_db \<Rightarrow> gateway_db \<times> recovery_result" where
  "retry_stuck_job rq db =
     (case newest_by job_created_at
             (filter (\<lambda>j. job_run_id j = rreq_run_id rq \<and> job_status j = JOB_RUNNING) (g_jobs db)) of
        None \<Rightarrow> (db, outcome rq False ''No stuck (running) job found for this run'')
      | Some j \<Rightarrow> (db\<lparr>g_jobs := release_job (job_id j) (g_jobs db)\<rparr>,
                   outcome rq True (''Job '' @ job_id j @ '' reset to pending'')))"

definition retry_failed_artifact :: "recovery_request \<Rightarrow> gateway_db \<Rightarrow> gateway_db \<times> recovery_result" where
  "retry_failed_artifact rq db =
     (case newest_by job_created_at
             (filter (\<lambda>j. job_run_id j = rreq_run_id rq \<and> job_status j = JOB_FAILED) (g_jobs db)) of
        None \<Rightarrow> (db, outcome rq False ''No failed job found for this run'')
      | Some j \<Rightarrow> (db\<lparr>g_jobs := release_job (job_id j) (g_jobs db)\<rparr>,
                   outcome rq True (''Job '' @ job_id j @ '' reset to pending for retry'')))"

definition admin_cancel_run :: "recovery_request \<Rightarrow> gateway_db \<Rightarrow> (gateway_db \<times> recovery_result) result" where
  "admin_cancel_run rq db =
     ebind (scalar_one_or_none (filter (\<lambda>r. run_id r = rreq_run_id rq) (runs (g_pack db))))
       (\<lambda>found. case found of
           None \<Rightarrow> Inr (db, outcome rq False (''Run '' @ rreq_run_id rq @ '' not found''))
         | Some run \<Rightarrow>
             (if run_status run \<in> {COMPLETED, CANCELLED}
              then Inr (db, outcome rq False (''Run is already '' @ run_status_value (run_status run)))
              else Inr (db\<lparr>g_pack := (g_pack db)\<lparr>runs :=
                          update_where (\<lambda>r. run_id r = rreq_run_id rq) (\<lambda>r. r\<lparr>run_status := CANCELLED\<rparr>)
                            (runs (g_pack db))\<rparr>\<rparr>,
                        outcome rq True (''Run '' @ rreq_run_id rq @ '' cancelled''))))"

definition retry_notification ::
    "instant \<Rightarrow> recovery_request \<Rightarrow> delivery_row list \<Rightarrow> delivery_row list \<times> recovery_result" where
  "retry_notification now rq ds =
     (case newest_by dlv_created_at
             (filter (\<lambda>d. dlv_run_id d = rreq_run_id rq \<and> dlv_status d \<in> {''failed'', ''pending''}) ds) of
        None \<Rightarrow> (ds, outcome rq False ''No failed or pending notification delivery found for this run'')
      | Some d \<Rightarrow> (update_where (\<lambda>x. dlv_id x = dlv_id d)
                     (\<lambda>x. x\<lparr>dlv_status := ''delivered'', dlv_delivered_at := Some now\<rparr>) ds,
                   outcome rq True (''Notification delivery '' @ dlv_id d @ '' marked delivered'')))"

text \<open>A unique index admits one active gate per run and name.\<close>

definition reopen_gate :: "recovery_request \<Rightarrow> gateway_db \<Rightarrow> (gateway_db \<times> recovery_result) result" where
  "reopen_gate rq db =
     (case newest_by gate_created_at
             (filter (\<lambda>g. gate_run_id g = rreq_run_id rq \<and> gate_status g \<in> {GATE_RESPONDED, GATE_EXPIRED})
                (gates (g_control db))) of
        None \<Rightarrow> Inr (db, outcome rq False ''No responded/expired gate found for this run'')
      | Some g \<Rightarrow>
          (if \<exists>h \<in> set (gates (g_control db)). gate_status h = GATE_ACTIVE \<and>
                gate_run_id h = gate_run_id g \<and> gate_name h = gate_name g
           then Inl IntegrityError
           else Inr (db\<lparr>g_control := set_gates (\<lambda>x. gate_id x = gate_id g) GATE_ACTIVE (g_control db)\<rparr>,
                     outcome rq True (''Gate '' @ gate_id g @ '' reopened to active''))))"

definition mark_escalated :: "recovery_request \<Rightarrow> gateway_db \<Rightarrow> gateway_db \<times> recovery_result" where
  "mark_escalated rq db =
     (case newest_by gate_created_at
             (filter (\<lambda>g. gate_run_id g = rreq_run_id rq \<and> gate_status g = GATE_ACTIVE)
                (gates (g_control db))) of
        None \<Rightarrow> (db, outcome rq False ''No active gate found for this run'')
      | Some g \<Rightarrow> (db\<lparr>g_control := set_gates (\<lambda>x. gate_id x = gate_id g) GATE_EXPIRED (g_control db)\<rparr>,
                   outcome rq True (''Gate '' @ gate_id g @ '' marked as escalated'')))"

definition perform_recovery ::
    "instant \<Rightarrow> recovery_request \<Rightarrow> admin_db \<Rightarrow> (admin_db \<times> recovery_result) result" where
  "perform_recovery now rq ad =
     (let on = (\<lambda>(db, res). (ad\<lparr>ad_gateway := db\<rparr>, res)) in
      case rreq_action rq of
        RETRY_STUCK_JOB \<Rightarrow> Inr (on (retry_stuck_job rq (ad_gateway ad)))
      | RETRY_FAILED_ARTIFACT \<Rightarrow> Inr (on (retry_failed_artifact rq (ad_gateway ad)))
      | RETRY_NOTIFICATION \<Rightarrow>
          (let (ds, res) = retry_notification now rq (ad_deliveries ad)
           in Inr (ad\<lparr>ad_deliveries := ds\<rparr>, res))
      | CANCEL_RUN \<Rightarrow> ebind (admin_cancel_run rq (ad_gateway ad)) (\<lambda>x. Inr (on x))
      | REOPEN_GATE \<Rightarrow> ebind (reopen_gate rq (ad_gateway ad)) (\<lambda>x. Inr (on x))
      | MARK_ESCALATED \<Rightarrow> Inr (on (mark_escalated rq (ad_gateway ad))))"

definition audit_event :: "recovery_request \<Rightarrow> recovery_result \<Rightarrow> event_create" where
  "audit_event rq res =
     \<lparr>ec_run_id = rreq_run_id rq,
      ec_event_name = ''admin.recovery.'' @ recovery_action_value (rreq_action rq),
      ec_visibility = VIS_ADMIN, ec_stage = None,
      ec_payload = Some [(''admin_id'', JStr (rreq_admin_id rq)), (''reason'', JStr (rreq_reason rq)),
        (''success'', JBool (rres_success res)), (''message'', JStr (rres_message res)),
        (''action'', JStr (recovery_action_value (rreq_action rq)))]\<rparr>"

definition emit_audit_event ::
    "instant \<Rightarrow> recovery_request \<Rightarrow> recovery_result \<Rightarrow> pack_db \<Rightarrow> pack_db result" where
  "emit_audit_event now rq res p = ebind (write_event now (audit_event rq res) p) (\<lambda>(_, p'). Inr p')"

definition execute_recovery ::
    "instant \<Rightarrow> recovery_request \<Rightarrow> admin_db \<Rightarrow> (admin_db \<times> recovery_result) result" where
  "execute_recovery now rq ad =
     ebind (perform_recovery now rq ad) (\<lambda>(ad1, res).
     ebind (emit_audit_event now rq res (g_pack (ad_gateway ad1))) (\<lambda>p.
       Inr (ad1\<lparr>ad_gateway := (ad_gateway ad1)\<lparr>g_pack := p\<rparr>\<rparr>, res)))"

section \<open>What the actions leave alone\<close>

lemma audit_Inr:
  "emit_audit_event now rq res p = Inr p' \<Longrightarrow>
   runs p' = runs p \<and> run_history p' = run_history p \<and> run_exists p (rreq_run_id rq)"
  unfolding emit_audit_event_def write_event_def
  by (auto simp: ebind_Inr_iff audit_event_def dest: insert_event_Inr(1,6,7))

lemma audit_total:
  assumes "outbox_ok p" and "run_exists p (rreq_run_id rq)"
  shows "\<exists>p'. emit_audit_event now rq res p = Inr p'"
proof -
  have "ec_run_id (audit_event rq res) = rreq_run_id rq" by (simp add: audit_event_def)
  with insert_event_total [OF assms] show ?thesis
    by (fastforce simp: emit_audit_event_def write_event_def ebind_Inr_iff)
qed

lemma perform_runs:
  assumes "perform_recovery now rq ad = Inr (ad1, res)"
  shows "run_exists (g_pack (ad_gateway ad1)) r = run_exists (g_pack (ad_gateway ad)) r"
proof -
  have "map run_id (runs (g_pack (ad_gateway ad1))) = map run_id (runs (g_pack (ad_gateway ad)))"
    using assms
    by (auto simp: perform_recovery_def Let_def retry_stuck_job_def retry_failed_artifact_def
        reopen_gate_def mark_escalated_def admin_cancel_run_def ebind_Inr_iff map_update_where
        split: safe_recovery_action.splits prod.splits option.splits if_splits)
  then show ?thesis by (simp add: run_exists_def)
qed

text \<open>
  The audit event needs the run: for a run that does not exist every action raises, so the
  "not found" results for it can never be returned.
\<close>

lemma recovery_of_unknown_run:
  "\<not> run_exists (g_pack (ad_gateway ad)) (rreq_run_id rq) \<Longrightarrow>
   execute_recovery now rq ad \<noteq> Inr (ad', res)"
  using perform_runs audit_Inr by (fastforce simp: execute_recovery_def ebind_Inr_iff)

section \<open>Properties\<close>

lemma set_gates_member:
  "g \<in> set (gates db) \<Longrightarrow> p g \<Longrightarrow> g\<lparr>gate_status := s\<rparr> \<in> set (gates (set_gates p s db))"
  by (auto simp: set_gates_def set_update_where image_iff)

text \<open>
  C31: reopening the latest answered gate of a run succeeds (when no
  other gate of its name is active) and makes it active again, yet every answer to it fails: the
  recorded answer is still there and a gate admits only one.
\<close>
theorem reopened_gate_unanswerable:
  assumes "gates_ok (g_control (ad_gateway ad))" and "outbox_ok (g_pack (ad_gateway ad))"
    and "run_exists (g_pack (ad_gateway ad)) (rreq_run_id rq)" and "rreq_action rq = REOPEN_GATE"
    and "newest_by gate_created_at (filter (\<lambda>g. gate_run_id g = rreq_run_id rq \<and>
      gate_status g \<in> {GATE_RESPONDED, GATE_EXPIRED}) (gates (g_control (ad_gateway ad)))) = Some g"
    and "gate_status g = GATE_RESPONDED"
    and "\<forall>h \<in> set (gates (g_control (ad_gateway ad))). gate_status h = GATE_ACTIVE \<longrightarrow>
      gate_run_id h = gate_run_id g \<longrightarrow> gate_name h \<noteq> gate_name g"
  shows "\<exists>ad' res. execute_recovery now rq ad = Inr (ad', res) \<and> rres_success res \<and>
    (\<exists>h \<in> set (gates (g_control (ad_gateway ad'))). gate_id h = gate_id g \<and> gate_status h = GATE_ACTIVE) \<and>
    (\<forall>answer c. grc_gate_id answer = gate_id g \<longrightarrow>
      respond_to_gate answer (g_control (ad_gateway ad')) \<noteq> Inr c)"
proof -
  let ?c = "g_control (ad_gateway ad)"
  let ?c1 = "set_gates (\<lambda>x. gate_id x = gate_id g) GATE_ACTIVE ?c"
  define res where "res = outcome rq True (''Gate '' @ gate_id g @ '' reopened to active'')"
  have g: "g \<in> set (gates ?c)" using newest_by_mem [OF assms(5)] by simp
  obtain p where p: "emit_audit_event now rq res (g_pack (ad_gateway ad)) = Inr p"
    using audit_total [OF assms(2,3)] by blast
  let ?ad' = "ad\<lparr>ad_gateway := (ad_gateway ad)\<lparr>g_control := ?c1, g_pack := p\<rparr>\<rparr>"
  have "reopen_gate rq (ad_gateway ad) = Inr ((ad_gateway ad)\<lparr>g_control := ?c1\<rparr>, res)"
    using assms(5,7) by (auto simp: reopen_gate_def res_def)
  then have run: "execute_recovery now rq ad = Inr (?ad', res)"
    using assms(4) p by (simp add: execute_recovery_def perform_recovery_def)
  have "gate_id g \<in> set (map resp_gate_id (gate_responses ?c1))"
    using gates_okD(4) [OF assms(1) g assms(6)] by (simp add: set_gates_def)
  then have unanswerable: "respond_to_gate answer ?c1 \<noteq> Inr c" if "grc_gate_id answer = gate_id g"
    for answer c using that by (auto simp: respond_to_gate_def ebind_Inr_iff)
  have "g\<lparr>gate_status := GATE_ACTIVE\<rparr> \<in> set (gates ?c1)" by (rule set_gates_member [OF g]) simp
  then have active: "\<exists>h \<in> set (gates ?c1). gate_id h = gate_id g \<and> gate_status h = GATE_ACTIVE"
    by (rule rev_bexI) simp
  show ?thesis
    by (rule exI [of _ ?ad'], rule exI [of _ res])
      (use run active unanswerable in \<open>simp add: res_def outcome_def\<close>)
qed

definition demo_admin :: admin_db where
  "demo_admin = \<lparr>ad_gateway = demo_gateway\<lparr>g_control :=
       (case respond_to_gate (demo_answer ''a1'') demo_control of Inr c \<Rightarrow> c | Inl _ \<Rightarrow> demo_control)\<rparr>,
     ad_deliveries = []\<rparr>"

definition demo_recovery :: "safe_recovery_action \<Rightarrow> recovery_request" where
  "demo_recovery a = \<lparr>rreq_run_id = ''r1'', rreq_action = a, rreq_reason = ''stuck'',
     rreq_admin_id = ''admin''\<rparr>"

lemma demo_admin_ok:
  "gates_ok (g_control (ad_gateway demo_admin))" "pack_ok (g_pack (ad_gateway demo_admin))"
  "run_exists (g_pack (ad_gateway demo_admin)) ''r1''"
proof -
  obtain c where c: "respond_to_gate (demo_answer ''a1'') demo_control = Inr c"
    by (simp add: respond_to_gate_def demo_answer_def demo_control_def)
  have "gates_ok demo_control" using control_reachable_ok [OF demo_control_reachable] by blast
  from respond_to_gate_ok [OF this c] c show "gates_ok (g_control (ad_gateway demo_admin))"
    by (simp add: demo_admin_def)
  show "pack_ok (g_pack (ad_gateway demo_admin))"
    using pack_reachable_ok [OF demo_db_reachable] by (simp add: demo_admin_def demo_gateway_def)
  show "run_exists (g_pack (ad_gateway demo_admin)) ''r1''"
    using demo_db_runs(1) by (simp add: demo_admin_def demo_gateway_def run_exists_def)
qed

theorem reopened_gate_unanswerable_witness:
  "\<exists>ad' res. execute_recovery 9 (demo_recovery REOPEN_GATE) demo_admin = Inr (ad', res) \<and>
     rres_success res \<and> (\<forall>c. respond_to_gate (demo_answer ''a2'') (g_control (ad_gateway ad')) \<noteq> Inr c)"
proof -
  have gates: "gates (g_control (ad_gateway demo_admin)) = [\<lparr>gate_id = ''g1'', gate_run_id = ''r1'',
      gate_name = ''content_approval'', gate_status = GATE_RESPONDED, gate_payload = [],
      gate_created_at = 5\<rparr>]"
    by (simp add: demo_admin_def respond_to_gate_def demo_answer_def demo_control_def set_gates_def
        update_where_def)
  have "outbox_ok (g_pack (ad_gateway demo_admin))" using pack_okD(4) [OF demo_admin_ok(2)] .
  moreover have "run_exists (g_pack (ad_gateway demo_admin)) (rreq_run_id (demo_recovery REOPEN_GATE))"
    using demo_admin_ok(3) by (simp add: demo_recovery_def)
  ultimately show ?thesis
    using reopened_gate_unanswerable [OF demo_admin_ok(1), of "demo_recovery REOPEN_GATE"
        "hd (gates (g_control (ad_gateway demo_admin)))" 9]
    by (force simp: gates newest_by_def demo_recovery_def demo_answer_def)
qed

text \<open>
  Cancelling a run that is neither completed nor cancelled succeeds
  without asking the status table, so even a failed run, whose status is final, becomes
  cancelled; nothing is added to its status history, which no longer ends in its status.
\<close>
lemma admin_cancel_breaks_history:
  assumes "pack_ok (g_pack (ad_gateway ad))" and "rreq_action rq = CANCEL_RUN"
    and "run \<in> set (runs (g_pack (ad_gateway ad)))" and "run_id run = rreq_run_id rq"
    and "run_status run \<notin> {COMPLETED, CANCELLED}"
  shows "\<exists>ad' res. execute_recovery now rq ad = Inr (ad', res) \<and> rres_success res \<and>
    run\<lparr>run_status := CANCELLED\<rparr> \<in> set (runs (g_pack (ad_gateway ad'))) \<and>
    run_history (g_pack (ad_gateway ad')) = run_history (g_pack (ad_gateway ad)) \<and>
    \<not> history_ok (g_pack (ad_gateway ad'))"
proof -
  let ?p = "g_pack (ad_gateway ad)" and ?r = "rreq_run_id rq"
  let ?p1 = "?p\<lparr>runs := update_where (\<lambda>r. run_id r = ?r) (\<lambda>r. r\<lparr>run_status := CANCELLED\<rparr>) (runs ?p)\<rparr>"
  note okD = pack_okD [OF assms(1)]
  have found: "filter (\<lambda>r. run_id r = ?r) (runs ?p) = [run]"
    using filter_key_le_one [OF okD(1) assms(3)] assms(4) by simp
  have exists: "run_exists ?p1 ?r"
    using assms(3,4) by (force simp: run_exists_def map_update_where)
  have ob: "outbox_ok ?p1" using okD(4) by (simp add: outbox_ok_def)
  define res where "res = outcome rq True (''Run '' @ ?r @ '' cancelled'')"
  obtain p2 where p2: "emit_audit_event now rq res ?p1 = Inr p2"
    using audit_total [OF ob exists] by blast
  note same = audit_Inr [OF p2]
  let ?ad' = "ad\<lparr>ad_gateway := (ad_gateway ad)\<lparr>g_pack := p2\<rparr>\<rparr>"
  have "execute_recovery now rq ad = Inr (?ad', res)"
    using assms(2,5) found p2
    by (simp add: execute_recovery_def perform_recovery_def admin_cancel_run_def res_def)
  moreover have mem: "run\<lparr>run_status := CANCELLED\<rparr> \<in> set (runs p2)"
    using assms(3,4) same by (auto simp: set_update_where image_iff intro!: bexI [of _ run])
  moreover have "\<not> history_ok p2"
  proof
    assume h: "history_ok p2"
    have "statuses_of p2 = statuses_of ?p" using same by (simp add: statuses_of_def fun_eq_iff)
    with h mem obtain ss where "statuses_of ?p (run_id run) = PENDING # ss"
      "last (PENDING # ss) = CANCELLED" by (fastforce simp: history_ok_def)
    moreover obtain ss' where "statuses_of ?p (run_id run) = PENDING # ss'"
      "last (PENDING # ss') = run_status run"
      using okD(2) assms(3) by (fastforce simp: history_ok_def)
    ultimately show False using assms(5) by simp
  qed
  moreover have "run_history p2 = run_history ?p" using same by simp
  moreover have "rres_success res" by (simp add: res_def outcome_def)
  ultimately show ?thesis by fastforce
qed

lemma admin_cancel_breaks_history_witness:
  "\<exists>ad' res. execute_recovery 9 (demo_recovery CANCEL_RUN) demo_admin = Inr (ad', res) \<and>
     \<not> history_ok (g_pack (ad_gateway ad'))"
proof -
  obtain run where run: "run \<in> set (runs demo_db)" "run_id run = ''r1''" "run_status run = PENDING"
    using demo_db_runs by (cases "runs demo_db") auto
  with admin_cancel_breaks_history [OF demo_admin_ok(2), of "demo_recovery CANCEL_RUN" run 9]
  show ?thesis by (auto simp: demo_recovery_def demo_admin_def demo_gateway_def)
qed

end
