(* ===== verification/Kpi_Rollup.thy ===== *)
theory Kpi_Rollup
  imports Run_Ledger
begin

text \<open>
  The daily rollup of the run-event ledger (\<open>services/gateway/run_event_rollup.py\<close>, the percentile
  of \<open>services/gateway/slo_metrics.py\<close>). A day is counted in UTC from the epoch. The rollup reads
  the events of a day and the runs that ended on it, whose creation and update times are arguments;
  latencies are kept in microseconds instead of floating seconds, and the rank of the percentile,
  which the code rounds in floating point, is rounded exactly (half to even, as \<open>round\<close> does).
\<close>

section \<open>Days and the percentile\<close>

definition day_of :: "instant \<Rightarrow> int" where
  "day_of t = t div days 1"

definition p95_rank :: "nat \<Rightarrow> nat" where
  "p95_rank n =
     (let q = (19 * n + 10) div 20; r = (19 * n + 10) mod 20
      in if r < 10 then q else if 10 < r then q + 1 else if even q then q else q + 1)"

definition p95 :: "int list \<Rightarrow> int option" where
  "p95 values =
     (if values = [] then None
      else Some (sort values ! min (p95_rank (length values) - 1) (length values - 1)))"

section \<open>The rollup of a day\<close>

record kpi_rollup =
  kpi_event_count :: nat
  kpi_success_count :: nat
  kpi_fail_count :: nat
  kpi_escalate_count :: nat
  kpi_breaker_trip_count :: nat
  kpi_healing_distribution :: "(string \<times> nat) list"
  kpi_tokens_used :: int
  kpi_latency_p95 :: "int option"

record kpi_row =
  kpr_day :: int
  kpr_rollup :: kpi_rollup
  kpr_computed_at :: instant

text \<open>
  Payloads of agent observability events are nested one level deeper; a payload that is no
  dictionary counts as an empty one.
\<close>

definition inner_payload :: "json_object option \<Rightarrow> json_object" where
  "inner_payload payload =
     (case payload of
        None \<Rightarrow> []
      | Some p \<Rightarrow>
          if ''observability_event_type'' \<in> set (map fst p)
          then (case dict_get p ''payload'' of JObj inner \<Rightarrow> inner | _ \<Rightarrow> [])
          else p)"

definition empty_kpi :: kpi_rollup where
  "empty_kpi = \<lparr>kpi_event_count = 0, kpi_success_count = 0, kpi_fail_count = 0,
     kpi_escalate_count = 0, kpi_breaker_trip_count = 0, kpi_healing_distribution = [],
     kpi_tokens_used = 0, kpi_latency_p95 = None\<rparr>"

definition healing_strategy :: "(json \<Rightarrow> string) \<Rightarrow> json_object \<Rightarrow> string" where
  "healing_strategy py_str inner =
     (case map_of inner ''healing_strategy'' of
        None \<Rightarrow> ''unknown'' | Some v \<Rightarrow> json_str py_str v)"

definition count_event ::
  "(json \<Rightarrow> string) \<Rightarrow> string \<Rightarrow> json_object option \<Rightarrow> kpi_rollup \<Rightarrow> kpi_rollup result" where
  "count_event py_str name payload k =
     (if name = ''teaching_pack.run.completed''
      then Inr (k\<lparr>kpi_success_count := kpi_success_count k + 1\<rparr>)
      else if name = ''teaching_pack.run.failed''
      then Inr (k\<lparr>kpi_fail_count := kpi_fail_count k + 1\<rparr>)
      else if name = ''escalate'' then Inr (k\<lparr>kpi_escalate_count := kpi_escalate_count k + 1\<rparr>)
      else if name = ''breaker_tripped''
      then Inr (k\<lparr>kpi_breaker_trip_count := kpi_breaker_trip_count k + 1\<rparr>)
      else if name = ''healing_decision''
      then let s = healing_strategy py_str (inner_payload payload);
               d = kpi_healing_distribution k
           in Inr (k\<lparr>kpi_healing_distribution :=
                AList.update s (the_default 0 (map_of d s) + 1) d\<rparr>)
      else if name = ''cost_accrued''
      then let inner = inner_payload payload
           in ebind (int_or_0 (dict_get inner ''prompt_tokens''))
                (\<lambda>p. ebind (int_or_0 (dict_get inner ''completion_tokens''))
                  (\<lambda>c. Inr (k\<lparr>kpi_tokens_used := kpi_tokens_used k + (p + c)\<rparr>)))
      else Inr k)"

fun count_events ::
  "(json \<Rightarrow> string) \<Rightarrow> event_row list \<Rightarrow> kpi_rollup \<Rightarrow> kpi_rollup result" where
  "count_events py_str [] k = Inr k"
| "count_events py_str (e # es) k =
     ebind (count_event py_str (ev_name e) (ev_payload e) k) (count_events py_str es)"

definition TERMINAL_STATUSES :: "run_status list" where
  "TERMINAL_STATUSES = [COMPLETED, FAILED, CANCELLED]"

definition events_of_day :: "int \<Rightarrow> pack_db \<Rightarrow> event_row list" where
  "events_of_day d db =
     filter (\<lambda>e. days d \<le> ev_created_at e \<and> ev_created_at e < days d + days 1) (run_events db)"

definition compute_daily_kpi_rollup ::
  "(json \<Rightarrow> string) \<Rightarrow> (string \<Rightarrow> instant) \<Rightarrow> (string \<Rightarrow> instant) \<Rightarrow> int \<Rightarrow> pack_db \<Rightarrow> kpi_rollup result" where
  "compute_daily_kpi_rollup py_str created updated d db =
     (let rows = events_of_day d db;
          latencies = map (\<lambda>r. updated (run_id r) - created (run_id r))
            (filter (\<lambda>r. days d \<le> updated (run_id r) \<and> updated (run_id r) < days d + days 1
               \<and> run_status r \<in> set TERMINAL_STATUSES) (runs db))
      in ebind (count_events py_str rows empty_kpi)
           (\<lambda>k. Inr (k\<lparr>kpi_event_count := length rows, kpi_latency_p95 := p95 latencies\<rparr>)))"

text \<open>\<open>INSERT ... ON CONFLICT (day) DO UPDATE\<close>: the row of the day is inserted or overwritten.\<close>

definition upsert_rollup :: "kpi_row \<Rightarrow> kpi_row list \<Rightarrow> kpi_row list" where
  "upsert_rollup row rows =
     (if kpr_day row \<in> set (map kpr_day rows)
      then update_where (\<lambda>r. kpr_day r = kpr_day row) (\<lambda>_. row) rows
      else rows @ [row])"

definition ensure_kpi_rollup_for_day ::
  "(json \<Rightarrow> string) \<Rightarrow> (string \<Rightarrow> instant) \<Rightarrow> (string \<Rightarrow> instant) \<Rightarrow> instant \<Rightarrow> int \<Rightarrow> pack_db
   \<Rightarrow> kpi_row list \<Rightarrow> kpi_row list result" where
  "ensure_kpi_rollup_for_day py_str created updated now d db rows =
     ebind (compute_daily_kpi_rollup py_str created updated d db)
       (\<lambda>k. Inr (upsert_rollup \<lparr>kpr_day = d, kpr_rollup = k, kpr_computed_at = now\<rparr> rows))"

definition days_needing_rollup_before_purge :: "instant \<Rightarrow> int \<Rightarrow> pack_db \<Rightarrow> int list" where
  "days_needing_rollup_before_purge now retention db =
     sort (remdups (map (\<lambda>e. day_of (ev_created_at e))
       (filter (\<lambda>e. ev_created_at e < now - days retention) (run_events db))))"

section \<open>Laws\<close>

lemma in_day_iff: "days d \<le> t \<and> t < days d + days 1 \<longleftrightarrow> day_of t = d"
proof -
  have "day_of t = d \<longleftrightarrow> d * 86400000000 \<le> t \<and> t < d * 86400000000 + 86400000000"
    unfolding day_of_def days_def by auto
  then show ?thesis by (auto simp: days_def)
qed

lemma events_of_day_eq: "events_of_day d db = filter (\<lambda>e. day_of (ev_created_at e) = d) (run_events db)"
  by (simp add: events_of_day_def in_day_iff)

lemma days_needing_iff:
  "d \<in> set (days_needing_rollup_before_purge now n db) \<longleftrightarrow>
     (\<exists>e \<in> set (run_events db). ev_created_at e < now - days n \<and> day_of (ev_created_at e) = d)"
  by (auto simp: days_needing_rollup_before_purge_def)

lemma compute_event_count:
  "compute_daily_kpi_rollup py_str created updated d db = Inr k \<Longrightarrow>
     kpi_event_count k = length (events_of_day d db)"
  by (auto simp: compute_daily_kpi_rollup_def Let_def ebind_Inr_iff)

lemma map_of_overwrite:
  "map_of (map (\<lambda>r. (kpr_day r, kpr_rollup r)) (update_where (\<lambda>r. kpr_day r = kpr_day row) (\<lambda>_. row) rows)) d
     = (if d = kpr_day row \<and> d \<in> set (map kpr_day rows) then Some (kpr_rollup row)
        else map_of (map (\<lambda>r. (kpr_day r, kpr_rollup r)) rows) d)"
  by (induction rows) (auto simp: update_where_def)

lemma upsert_rollup_lookup:
  "map_of (map (\<lambda>r. (kpr_day r, kpr_rollup r)) (upsert_rollup row rows)) =
     (map_of (map (\<lambda>r. (kpr_day r, kpr_rollup r)) rows))(kpr_day row \<mapsto> kpr_rollup row)"
proof (cases "kpr_day row \<in> set (map kpr_day rows)")
  case True
  then show ?thesis by (simp add: upsert_rollup_def fun_eq_iff map_of_overwrite)
next
  case False
  then have "map_of (map (\<lambda>r. (kpr_day r, kpr_rollup r)) rows) (kpr_day row) = None"
    by (auto simp: map_of_eq_None_iff)
  with False show ?thesis
    by (auto simp: upsert_rollup_def fun_eq_iff map_add_def split: option.splits)
qed

end
