(* ===== verification/Retention.thy ===== *)
theory Retention
  imports Kpi_Rollup Gateway_Db
begin

text \<open>
  Retention periods, the prune policy and soft deletion of runs
  (\<open>services/gateway/retention.py\<close>, \<open>prune_policy.py\<close>, \<open>soft_delete.py\<close>). The state adds to the
  gateway's tables the columns and tables that only these modules use: creation and update times of
  runs, artifacts, class profiles and KPI rollups. Every instant is in UTC, so the normalisation of
  naive datetimes is the identity; the clock is read once per pass.
\<close>

section \<open>Retention periods\<close>

definition DEFAULT_RETENTION :: "(string \<times> int) list" where
  "DEFAULT_RETENTION =
     [(''run_metadata'', 365), (''student_evidence'', 30), (''artifacts'', 180), (''events'', 90),
      (''snapshots'', 180), (''class_profiles'', 365)]"

definition get_retention_days :: "string \<Rightarrow> int result" where
  "get_retention_days data_class =
     (case map_of DEFAULT_RETENTION data_class of
        None \<Rightarrow> Inl (KeyError data_class) | Some n \<Rightarrow> Inr n)"

record retention_config =
  rc_run_metadata :: int
  rc_student_evidence :: int
  rc_artifacts :: int
  rc_events :: int
  rc_snapshots :: int
  rc_class_profiles :: int

definition default_config :: retention_config where
  "default_config = \<lparr>rc_run_metadata = 365, rc_student_evidence = 30, rc_artifacts = 180,
     rc_events = 90, rc_snapshots = 180, rc_class_profiles = 365\<rparr>"

definition retention_as_dict :: "retention_config \<Rightarrow> (string \<times> int) list" where
  "retention_as_dict c =
     [(''run_metadata'', rc_run_metadata c), (''student_evidence'', rc_student_evidence c),
      (''artifacts'', rc_artifacts c), (''events'', rc_events c), (''snapshots'', rc_snapshots c),
      (''class_profiles'', rc_class_profiles c)]"

lemma default_config_dict: "retention_as_dict default_config = DEFAULT_RETENTION"
  by (simp add: retention_as_dict_def default_config_def DEFAULT_RETENTION_def)

definition retention_days_for_class_info :: "json_object \<Rightarrow> int" where
  "retention_days_for_class_info class_info =
     (case dict_get class_info ''student_evidence'' of
        JObj _ \<Rightarrow> min (rc_run_metadata default_config) (rc_student_evidence default_config)
      | _ \<Rightarrow> rc_run_metadata default_config)"

definition is_expired :: "instant \<Rightarrow> instant option \<Rightarrow> int \<Rightarrow> bool" where
  "is_expired clock deleted_at retention =
     (case deleted_at of None \<Rightarrow> False | Some t \<Rightarrow> t + days retention < clock)"

section \<open>State\<close>

record artifact_row =
  art_id :: string
  art_run_id :: string

record class_profile_row =
  cp_id :: string
  cp_teacher_id :: string
  cp_deleted_at :: "instant option"
  cp_retention_days :: "int option"

record lifecycle_db =
  lc_gateway :: gateway_db
  lc_created_at :: "string \<Rightarrow> instant"
  lc_updated_at :: "string \<Rightarrow> instant"
  lc_artifacts :: "artifact_row list"
  lc_profiles :: "class_profile_row list"
  lc_rollups :: "kpi_row list"

abbreviation lc_pack :: "lifecycle_db \<Rightarrow> pack_db" where
  "lc_pack db \<equiv> g_pack (lc_gateway db)"

definition set_pack :: "pack_db \<Rightarrow> lifecycle_db \<Rightarrow> lifecycle_db" where
  "set_pack p db = db\<lparr>lc_gateway := (lc_gateway db)\<lparr>g_pack := p\<rparr>\<rparr>"

lemma set_pack_simps [simp]:
  "lc_pack (set_pack p db) = p" "lc_rollups (set_pack p db) = lc_rollups db"
  "g_control (lc_gateway (set_pack p db)) = g_control (lc_gateway db)"
  "lc_created_at (set_pack p db) = lc_created_at db"
  by (simp_all add: set_pack_def)

section \<open>Prune policy\<close>

record prune_context =
  pc_run_id :: string
  pc_status :: run_status
  pc_deleted_at :: "instant option"
  pc_has_open_gate :: bool
  pc_fast_lane_approved_at :: "instant option"
  pc_export_finalized :: bool

definition FAST_LANE_REVERT_WINDOW_SECONDS :: int where
  "FAST_LANE_REVERT_WINDOW_SECONDS = 900"

text \<open>
  \<open>clock\<close> is the instant \<open>is_expired\<close> reads for itself, \<open>now\<close> the optional argument, which falls
  back to the clock.
\<close>

definition is_prunable :: "instant \<Rightarrow> instant option \<Rightarrow> prune_context \<Rightarrow> int \<Rightarrow> bool" where
  "is_prunable clock now ctx retention =
     (let n = the_default clock now
      in if pc_status ctx \<notin> set TERMINAL_STATUSES then False
         else if pc_has_open_gate ctx then False
         else if \<not> is_expired clock (pc_deleted_at ctx) retention then False
         else case pc_fast_lane_approved_at ctx of
             None \<Rightarrow> True
           | Some t \<Rightarrow>
               if \<not> pc_export_finalized ctx then False
               else \<not> n < t + seconds FAST_LANE_REVERT_WINDOW_SECONDS)"

definition auto_approved_times :: "string \<Rightarrow> pack_db \<Rightarrow> instant list" where
  "auto_approved_times r p =
     map ev_created_at (filter (\<lambda>e. ev_run_id e = r \<and>
       ev_name e = ''teaching_pack.content_approval.auto_approved'') (run_events p))"

definition build_run_prune_context :: "lifecycle_db \<Rightarrow> run_row \<Rightarrow> prune_context" where
  "build_run_prune_context db run =
     \<lparr>pc_run_id = run_id run, pc_status = run_status run, pc_deleted_at = run_deleted_at run,
      pc_has_open_gate = (\<exists>g \<in> set (gates (g_control (lc_gateway db))).
        gate_run_id g = run_id run \<and> gate_status g \<in> {GATE_ACTIVE, GATE_EXPIRED}),
      pc_fast_lane_approved_at =
        (case rev (sort (auto_approved_times (run_id run) (lc_pack db))) of
           [] \<Rightarrow> None | t # _ \<Rightarrow> Some t),
      pc_export_finalized = (\<exists>h \<in> set (run_history (lc_pack db)).
        hist_run_id h = run_id run \<and> hist_stage h = Some ''export_finalize'')\<rparr>"

section \<open>Soft deletion\<close>

text \<open>The row update stamps \<open>updated_at\<close>, as its column's \<open>onupdate\<close> says.\<close>

definition touch_run :: "instant \<Rightarrow> string \<Rightarrow> (run_row \<Rightarrow> run_row) \<Rightarrow> lifecycle_db \<Rightarrow> lifecycle_db" where
  "touch_run now r f db =
     (set_pack ((lc_pack db)\<lparr>runs := update_where (\<lambda>x. run_id x = r) f (runs (lc_pack db))\<rparr>) db)
       \<lparr>lc_updated_at := (lc_updated_at db)(r := now)\<rparr>"

definition write_lifecycle_event ::
  "instant \<Rightarrow> string \<Rightarrow> string \<Rightarrow> json_object \<Rightarrow> lifecycle_db \<Rightarrow> lifecycle_db result" where
  "write_lifecycle_event now r name payload db =
     ebind (write_event now \<lparr>ec_run_id = r, ec_event_name = name, ec_visibility = VIS_ADMIN,
              ec_stage = None, ec_payload = Some payload\<rparr> (lc_pack db))
       (\<lambda>(_, p). Inr (set_pack p db))"

definition find_run :: "string \<Rightarrow> lifecycle_db \<Rightarrow> run_row option result" where
  "find_run r db = scalar_one_or_none (filter (\<lambda>x. run_id x = r) (runs (lc_pack db)))"

definition soft_delete_run :: "instant \<Rightarrow> string \<Rightarrow> string \<Rightarrow> lifecycle_db \<Rightarrow> lifecycle_db result" where
  "soft_delete_run now r deleted_by db =
     ebind (find_run r db)
       (\<lambda>found. case found of
          None \<Rightarrow> Inr db
        | Some _ \<Rightarrow>
            write_lifecycle_event now r ''run.soft_deleted'' [(''deleted_by'', JStr deleted_by)]
              (touch_run now r (\<lambda>x. x\<lparr>run_deleted_at := Some now, run_deleted_by := Some deleted_by\<rparr>) db))"

definition restore_run :: "instant \<Rightarrow> string \<Rightarrow> string \<Rightarrow> lifecycle_db \<Rightarrow> lifecycle_db result" where
  "restore_run now r restored_by db =
     ebind (find_run r db)
       (\<lambda>found. case found of
          None \<Rightarrow> Inr db
        | Some _ \<Rightarrow>
            write_lifecycle_event now r ''run.restored'' [(''restored_by'', JStr restored_by)]
              (touch_run now r (\<lambda>x. x\<lparr>run_deleted_at := None, run_deleted_by := None\<rparr>) db))"

definition is_run_deleted :: "string \<Rightarrow> lifecycle_db \<Rightarrow> bool result" where
  "is_run_deleted r db =
     ebind (find_run r db)
       (\<lambda>found. Inr (case found of None \<Rightarrow> False | Some x \<Rightarrow> run_deleted_at x \<noteq> None))"

section \<open>Laws of the prune policy\<close>

text \<open>
  A run is protected when no retention period, however short, lets it be pruned: the reasons are
  those of the policy and do not mention a period.
\<close>

definition prune_protected :: "instant \<Rightarrow> lifecycle_db \<Rightarrow> run_row \<Rightarrow> bool" where
  "prune_protected now db run \<longleftrightarrow>
     (let ctx = build_run_prune_context db run
      in run_status run \<notin> {COMPLETED, FAILED, CANCELLED} \<or> pc_has_open_gate ctx
         \<or> run_deleted_at run = None
         \<or> (\<exists>t. pc_fast_lane_approved_at ctx = Some t \<and>
              (\<not> pc_export_finalized ctx \<or> now < t + seconds 900)))"

lemma is_prunable_iff:
  "is_prunable now None ctx n \<longleftrightarrow>
     pc_status ctx \<in> {COMPLETED, FAILED, CANCELLED} \<and> \<not> pc_has_open_gate ctx
     \<and> (\<exists>t. pc_deleted_at ctx = Some t \<and> t + days n < now)
     \<and> (\<forall>t. pc_fast_lane_approved_at ctx = Some t \<longrightarrow>
          pc_export_finalized ctx \<and> t + seconds 900 \<le> now)"
  by (auto simp: is_prunable_def Let_def is_expired_def TERMINAL_STATUSES_def
      FAST_LANE_REVERT_WINDOW_SECONDS_def split: option.splits)

lemma protected_iff:
  "prune_protected now db run \<longleftrightarrow> (\<forall>n. \<not> is_prunable now None (build_run_prune_context db run) n)"
proof
  show "prune_protected now db run \<Longrightarrow> \<forall>n. \<not> is_prunable now None (build_run_prune_context db run) n"
    unfolding prune_protected_def Let_def is_prunable_iff
    by (auto simp: build_run_prune_context_def)
next
  assume never: "\<forall>n. \<not> is_prunable now None (build_run_prune_context db run) n"
  show "prune_protected now db run"
  proof (cases "run_deleted_at run")
    case None
    then show ?thesis by (simp add: prune_protected_def)
  next
    case (Some t)
    define n where "n = - (\<bar>t\<bar> + \<bar>now\<bar> + 1)"
    define k where "k = \<bar>t\<bar> + \<bar>now\<bar> + 1"
    have "days n = - (86400000000 * k)" by (simp add: n_def k_def days_def)
    moreover have "0 < k" and "t - k < now" by (simp_all add: k_def)
    ultimately have "t + days n < now" by linarith
    with never [THEN spec, of n] Some show ?thesis
      unfolding is_prunable_iff prune_protected_def Let_def
      by (auto simp: build_run_prune_context_def not_le)
  qed
qed

lemma prunable_needs_deletion:
  "is_prunable now None (build_run_prune_context db run) n \<Longrightarrow> run_deleted_at run \<noteq> None"
  by (auto simp: is_prunable_iff build_run_prune_context_def)

end
