(* ===== verification/Purge.thy ===== *)
theory Purge
  imports Retention
begin

text \<open>
  The hard purge and the daily cleanup (\<open>services/gateway/purge.py\<close>,
  \<open>data_lifecycle_cleanup.py\<close>). Deleting a run row cascades in the database as the foreign keys say:
  to its status history, events, outbox, jobs, contracts, gates, workflows, snapshots, exports and
  notifications, and, by \<open>parent_run_id\<close>, to the runs whose parent it is. Session deletes are
  flushed before the next statement, so a loop's later iterations see the cascade of the earlier ones.
\<close>

section \<open>The cascade of a deleted run\<close>

definition doomed :: "string list \<Rightarrow> run_row list \<Rightarrow> run_row list" where
  "doomed gone rs = filter (\<lambda>x. run_id x \<in> set gone
     \<or> (case run_parent_run_id x of None \<Rightarrow> False | Some p \<Rightarrow> p \<in> set gone)) rs"

lemma doomed_mem:
  "x \<in> set (doomed gone rs) \<longleftrightarrow> x \<in> set rs \<and>
     (run_id x \<in> set gone \<or> (\<exists>p \<in> set gone. run_parent_run_id x = Some p))"
  by (auto simp: doomed_def split: option.splits)

function cascade :: "string list \<Rightarrow> run_row list \<Rightarrow> run_row list" where
  "cascade gone rs =
     (if doomed gone rs = [] then rs
      else cascade (map run_id (doomed gone rs)) (filter (\<lambda>x. x \<notin> set (doomed gone rs)) rs))"
  by auto

termination
proof (relation "measure (\<lambda>(gone, rs). length rs)", rule wf_measure)
  fix gone :: "string list" and rs :: "run_row list"
  assume "doomed gone rs \<noteq> []"
  then obtain x where "x \<in> set (doomed gone rs)" by (cases "doomed gone rs") auto
  then have "x \<in> set rs" and "\<not> x \<notin> set (doomed gone rs)" by (simp_all add: doomed_mem)
  then show "((map run_id (doomed gone rs), filter (\<lambda>x. x \<notin> set (doomed gone rs)) rs), (gone, rs))
     \<in> measure (\<lambda>(gone, rs). length rs)"
    by (simp add: length_filter_less)
qed

declare cascade.simps [simp del]

definition gone_from :: "run_row list \<Rightarrow> run_row list \<Rightarrow> string \<Rightarrow> bool" where
  "gone_from rs kept i \<longleftrightarrow> i \<in> set (map run_id rs) \<and> i \<notin> set (map run_id kept)"

definition delete_run_row :: "string \<Rightarrow> lifecycle_db \<Rightarrow> lifecycle_db" where
  "delete_run_row r db =
     (if r \<notin> set (map run_id (runs (lc_pack db))) then db else
      let g = lc_gateway db; p = g_pack g; c = g_control g;
          kept = cascade [r] (runs p);
          gone = gone_from (runs p) kept;
          snaps = filter (\<lambda>s. \<not> gone (snap_run_id s)) (g_snapshots g);
          gs = filter (\<lambda>x. \<not> gone (gate_run_id x)) (gates c);
          cs = filter (\<lambda>x. \<not> gone (contract_run_id x)) (contracts c)
      in db\<lparr>lc_gateway := g\<lparr>
          g_pack := p\<lparr>runs := kept,
            run_history := filter (\<lambda>x. \<not> gone (hist_run_id x)) (run_history p),
            run_events := filter (\<lambda>x. \<not> gone (ev_run_id x)) (run_events p),
            outbox := filter (\<lambda>x. \<not> gone (ob_run_id x)) (outbox p)\<rparr>,
          g_jobs := filter (\<lambda>x. \<not> gone (job_run_id x)) (g_jobs g),
          g_control := c\<lparr>contracts := cs,
            contract_revisions := filter (\<lambda>x. \<not> gone (rev_run_id x)
              \<and> rev_contract_id x \<in> set (map contract_id cs)) (contract_revisions c),
            gates := gs,
            gate_responses := filter (\<lambda>x. \<not> gone (resp_run_id x)
              \<and> resp_gate_id x \<in> set (map gate_id gs)) (gate_responses c),
            workflows := filter (\<lambda>x. \<not> gone (ws_run_id (wf_state x))) (workflows c)\<rparr>,
          g_snapshots := snaps,
          g_exports := filter (\<lambda>x. \<not> gone (exp_run_id x)
            \<and> exp_snapshot_id x \<in> set (map snap_id snaps)) (g_exports g),
          g_notices := filter (\<lambda>x. \<not> gone (notice_run_id x)) (g_notices g)\<rparr>\<rparr>)"

section \<open>Bulk deletes\<close>

definition delete_events :: "string \<Rightarrow> lifecycle_db \<Rightarrow> nat \<times> lifecycle_db" where
  "delete_events r db =
     (let es = run_events (lc_pack db)
      in (length (filter (\<lambda>e. ev_run_id e = r) es),
          set_pack ((lc_pack db)\<lparr>run_events := filter (\<lambda>e. ev_run_id e \<noteq> r) es\<rparr>) db))"

text \<open>Export records reference their snapshot and go with it.\<close>

definition delete_snapshots :: "string \<Rightarrow> lifecycle_db \<Rightarrow> nat \<times> lifecycle_db" where
  "delete_snapshots r db =
     (let g = lc_gateway db; kept = filter (\<lambda>s. snap_run_id s \<noteq> r) (g_snapshots g)
      in (length (filter (\<lambda>s. snap_run_id s = r) (g_snapshots g)),
          db\<lparr>lc_gateway := g\<lparr>g_snapshots := kept,
            g_exports := filter (\<lambda>x. exp_snapshot_id x \<in> set (map snap_id kept)) (g_exports g)\<rparr>\<rparr>))"

definition delete_artifacts :: "string \<Rightarrow> lifecycle_db \<Rightarrow> nat \<times> lifecycle_db" where
  "delete_artifacts r db =
     (length (filter (\<lambda>a. art_run_id a = r) (lc_artifacts db)),
      db\<lparr>lc_artifacts := filter (\<lambda>a. art_run_id a \<noteq> r) (lc_artifacts db)\<rparr>)"

definition delete_workflows :: "string \<Rightarrow> lifecycle_db \<Rightarrow> lifecycle_db" where
  "delete_workflows r db =
     (let g = lc_gateway db; c = g_control g
      in db\<lparr>lc_gateway := g\<lparr>g_control :=
           c\<lparr>workflows := filter (\<lambda>x. ws_run_id (wf_state x) \<noteq> r) (workflows c)\<rparr>\<rparr>\<rparr>)"

section \<open>The purge of each data class\<close>

definition deleted_runs :: "lifecycle_db \<Rightarrow> run_row list" where
  "deleted_runs db = filter (\<lambda>x. run_deleted_at x \<noteq> None) (runs (lc_pack db))"

definition prunable_deleted_runs :: "instant \<Rightarrow> int \<Rightarrow> lifecycle_db \<Rightarrow> run_row list" where
  "prunable_deleted_runs now retention db =
     filter (\<lambda>x. is_prunable now None (build_run_prune_context db x) retention) (deleted_runs db)"

text \<open>\<open>for run in eligible: deleted += await db.execute(delete ...).rowcount\<close>.\<close>

fun delete_each ::
  "(string \<Rightarrow> lifecycle_db \<Rightarrow> nat \<times> lifecycle_db) \<Rightarrow> run_row list \<Rightarrow> nat \<Rightarrow> lifecycle_db \<Rightarrow> nat \<times> lifecycle_db"
where
  "delete_each del [] n db = (n, db)"
| "delete_each del (x # xs) n db =
     (let (k, db') = del (run_id x) db in delete_each del xs (n + k) db')"

definition purge_expired_run_events :: "instant \<Rightarrow> lifecycle_db \<Rightarrow> nat \<times> lifecycle_db" where
  "purge_expired_run_events now db =
     delete_each delete_events (prunable_deleted_runs now (rc_events default_config) db) 0 db"

definition purge_expired_snapshots :: "instant \<Rightarrow> lifecycle_db \<Rightarrow> nat \<times> lifecycle_db" where
  "purge_expired_snapshots now db =
     delete_each delete_snapshots (prunable_deleted_runs now (rc_snapshots default_config) db) 0 db"

definition purge_expired_artifacts :: "instant \<Rightarrow> lifecycle_db \<Rightarrow> nat \<times> lifecycle_db" where
  "purge_expired_artifacts now db =
     delete_each (\<lambda>r db. let (k, db') = delete_artifacts r db in (k, delete_workflows r db'))
       (prunable_deleted_runs now (rc_artifacts default_config) db) 0 db"

definition run_retention :: "run_row \<Rightarrow> int" where
  "run_retention x = the_default (rc_run_metadata default_config) (run_retention_days x)"

definition purge_run :: "string \<Rightarrow> lifecycle_db \<Rightarrow> lifecycle_db" where
  "purge_run r db =
     delete_run_row r (delete_workflows r (snd (delete_artifacts r (snd (delete_snapshots r
       (snd (delete_events r db)))))))"

fun purge_runs :: "instant \<Rightarrow> run_row list \<Rightarrow> string list \<Rightarrow> lifecycle_db \<Rightarrow> string list \<times> lifecycle_db" where
  "purge_runs now [] purged db = (purged, db)"
| "purge_runs now (x # xs) purged db =
     (if \<not> is_prunable now None (build_run_prune_context db x) (run_retention x)
      then purge_runs now xs purged db
      else purge_runs now xs (purged @ [run_id x]) (purge_run (run_id x) db))"

definition purge_expired_runs :: "instant \<Rightarrow> lifecycle_db \<Rightarrow> string list \<times> lifecycle_db" where
  "purge_expired_runs now db = purge_runs now (deleted_runs db) [] db"

section \<open>Student evidence and class profiles\<close>

definition STUDENT_EVIDENCE_PII_KEYS :: "string list" where
  "STUDENT_EVIDENCE_PII_KEYS =
     [''name'', ''student_name'', ''email'', ''score'', ''class_id'', ''student_id'']"

text \<open>What a run's \<open>class_info\<close> becomes, when there is something to redact.\<close>

definition redacted_class_info :: "json_object \<Rightarrow> json_object option" where
  "redacted_class_info info =
     (case dict_get info ''student_evidence'' of
        JObj evidence \<Rightarrow>
          (let cleaned = filter (\<lambda>(k, v). k \<notin> set STUDENT_EVIDENCE_PII_KEYS) evidence
           in if cleaned = evidence then None
              else Some (dict_merge info [(''student_evidence'', JObj cleaned)]))
      | _ \<Rightarrow> None)"

definition redact_run :: "instant \<Rightarrow> run_row \<Rightarrow> nat \<times> lifecycle_db \<Rightarrow> nat \<times> lifecycle_db" where
  "redact_run now x = (\<lambda>(n, db).
     case redacted_class_info (run_class_info x) of
       None \<Rightarrow> (n, db)
     | Some info \<Rightarrow> (n + 1, touch_run now (run_id x) (\<lambda>y. y\<lparr>run_class_info := info\<rparr>) db))"

definition purge_student_evidence :: "instant \<Rightarrow> lifecycle_db \<Rightarrow> nat \<times> lifecycle_db" where
  "purge_student_evidence now db =
     fold (redact_run now)
       (filter (\<lambda>x. lc_created_at db (run_id x) < now - days (rc_student_evidence default_config))
         (runs (lc_pack db))) (0, db)"

text \<open>\<open>retention_days or default\<close>: a period of zero days means the default.\<close>

definition profile_expired :: "instant \<Rightarrow> class_profile_row \<Rightarrow> bool" where
  "profile_expired now cp =
     (case cp_deleted_at cp of
        None \<Rightarrow> False
      | Some t \<Rightarrow>
          (let retention = (case cp_retention_days cp of
                 None \<Rightarrow> rc_class_profiles default_config
               | Some n \<Rightarrow> if n = 0 then rc_class_profiles default_config else n)
           in \<not> now \<le> t + days retention))"

definition purge_expired_class_profiles :: "instant \<Rightarrow> lifecycle_db \<Rightarrow> string list \<times> lifecycle_db" where
  "purge_expired_class_profiles now db =
     (map cp_id (filter (profile_expired now) (lc_profiles db)),
      db\<lparr>lc_profiles := filter (\<lambda>cp. \<not> profile_expired now cp) (lc_profiles db)\<rparr>)"

section \<open>The daily cleanup\<close>

record cleanup_result =
  cr_dry_run :: bool
  cr_rolled_up_days :: nat
  cr_purged_events :: nat
  cr_purged_snapshots :: nat
  cr_purged_artifacts :: nat
  cr_purged_runs :: "string list"
  cr_purged_class_profiles :: "string list"
  cr_redacted_student_evidence :: nat

fun roll_up_days ::
  "(json \<Rightarrow> string) \<Rightarrow> instant \<Rightarrow> int list \<Rightarrow> lifecycle_db \<Rightarrow> lifecycle_db result" where
  "roll_up_days py_str now [] db = Inr db"
| "roll_up_days py_str now (d # ds) db =
     ebind (ensure_kpi_rollup_for_day py_str (lc_created_at db) (lc_updated_at db) now d (lc_pack db)
         (lc_rollups db))
       (\<lambda>rows. roll_up_days py_str now ds (db\<lparr>lc_rollups := rows\<rparr>))"

definition purge_pass ::
  "(json \<Rightarrow> string) \<Rightarrow> instant \<Rightarrow> lifecycle_db \<Rightarrow> (cleanup_result \<times> lifecycle_db) result" where
  "purge_pass py_str now db =
     (let ds = days_needing_rollup_before_purge now (rc_events default_config) (lc_pack db)
      in ebind (roll_up_days py_str now ds db)
        (\<lambda>db0. let (redacted, db1) = purge_student_evidence now db0;
                    (evs, db2) = purge_expired_run_events now db1;
                    (snaps, db3) = purge_expired_snapshots now db2;
                    (arts, db4) = purge_expired_artifacts now db3;
                    (rids, db5) = purge_expired_runs now db4;
                    (profs, db6) = purge_expired_class_profiles now db5
         in Inr (\<lparr>cr_dry_run = False, cr_rolled_up_days = length ds, cr_purged_events = evs,
                   cr_purged_snapshots = snaps, cr_purged_artifacts = arts, cr_purged_runs = rids,
                   cr_purged_class_profiles = profs, cr_redacted_student_evidence = redacted\<rparr>, db6)))"

text \<open>A dry run does all of it and rolls back.\<close>

definition run_data_lifecycle_cleanup ::
  "(json \<Rightarrow> string) \<Rightarrow> instant \<Rightarrow> bool \<Rightarrow> lifecycle_db \<Rightarrow> (cleanup_result \<times> lifecycle_db) result" where
  "run_data_lifecycle_cleanup py_str now dry_run db =
     ebind (purge_pass py_str now db)
       (\<lambda>(res, db'). Inr (res\<lparr>cr_dry_run := dry_run\<rparr>, if dry_run then db else db'))"

text \<open>The gateway's loop (\<open>main.py\<close>) runs it dry unless it serves staging or production.\<close>

definition cleanup_dry_run :: "string option \<Rightarrow> bool" where
  "cleanup_dry_run environment =
     (the_default ''development'' environment \<notin> set [''staging'', ''production''])"

end
