(* ===== verification/Purge_Laws.thy ===== *)
theory Purge_Laws
  imports Purge
begin

text \<open>
  What the daily cleanup keeps and what it loses. The cascade of a deleted run is its family of
  descendants; a run all of whose ancestors are protected keeps its row and its data through a whole
  pass; the KPI rollups do not survive a second pass, nor do they cover every purged event.
\<close>

section \<open>The cascade removes exactly the descendants\<close>

definition links :: "run_row list \<Rightarrow> (string \<times> string option) set" where
  "links rs = (\<lambda>x. (run_id x, run_parent_run_id x)) ` set rs"

inductive descends :: "(string \<times> string option) set \<Rightarrow> string \<Rightarrow> string \<Rightarrow> bool" for L a where
  descends_self: "descends L a a"
| descends_child: "descends L a p \<Longrightarrow> (c, Some p) \<in> L \<Longrightarrow> descends L a c"

lemma descends_mono: "descends L a b \<Longrightarrow> L \<subseteq> M \<Longrightarrow> descends M a b"
  by (induction rule: descends.induct) (auto intro: descends.intros)

lemma descends_trans: "descends L b c \<Longrightarrow> descends L a b \<Longrightarrow> descends L a c"
  by (induction rule: descends.induct) (auto intro: descends.intros)

lemma cascade_is_filter: "\<exists>q. cascade gone rs = filter q rs"
proof (induction gone rs rule: cascade.induct)
  case (1 gone rs)
  show ?case
  proof (cases "doomed gone rs = []")
    case True
    then have "cascade gone rs = filter (\<lambda>_. True) rs" by (subst cascade.simps) simp
    then show ?thesis by blast
  next
    case False
    with "1.IH" obtain q where
      "cascade (map run_id (doomed gone rs)) (filter (\<lambda>x. x \<notin> set (doomed gone rs)) rs)
         = filter q (filter (\<lambda>x. x \<notin> set (doomed gone rs)) rs)" by blast
    with False have "cascade gone rs = filter (\<lambda>x. x \<notin> set (doomed gone rs) \<and> q x) rs"
      by (subst cascade.simps) simp
    then show ?thesis by blast
  qed
qed

lemma cascade_subset: "x \<in> set (cascade gone rs) \<Longrightarrow> x \<in> set rs"
  using cascade_is_filter [of gone rs] by auto

lemma cascade_keeps:
  "y \<in> set rs \<Longrightarrow> \<forall>g \<in> set gone. \<not> descends (links rs) g (run_id y) \<Longrightarrow> y \<in> set (cascade gone rs)"
proof (induction gone rs rule: cascade.induct)
  case (1 gone rs)
  let ?d = "doomed gone rs"
  let ?rs = "filter (\<lambda>x. x \<notin> set ?d) rs"
  have reach: "\<exists>g \<in> set gone. descends (links rs) g (run_id x)" if "x \<in> set ?d" for x
    using that by (force simp: doomed_mem links_def image_iff intro: descends.intros)
  then have y: "y \<in> set ?rs" using "1.prems" by auto
  show ?case
  proof (cases "?d = []")
    case True
    then show ?thesis using "1.prems"(1) by (subst cascade.simps) simp
  next
    case False
    have "\<forall>g \<in> set (map run_id ?d). \<not> descends (links ?rs) g (run_id y)"
    proof (intro ballI notI)
      fix g assume "g \<in> set (map run_id ?d)" and d: "descends (links ?rs) g (run_id y)"
      then obtain x where "x \<in> set ?d" "g = run_id x" by auto
      moreover have "descends (links rs) g (run_id y)"
        by (rule descends_mono [OF d]) (auto simp: links_def)
      ultimately show False using reach descends_trans "1.prems"(2) by blast
    qed
    with "1.IH" [OF False y] False show ?thesis by (subst cascade.simps) simp
  qed
qed

lemma cascade_drops:
  "x \<in> set (cascade gone rs) \<Longrightarrow> g \<in> set gone \<Longrightarrow> \<not> descends (links rs) g (run_id x)"
proof (induction gone rs arbitrary: g rule: cascade.induct)
  case (1 gone rs)
  let ?d = "doomed gone rs"
  let ?rs = "filter (\<lambda>x. x \<notin> set ?d) rs"
  have "x \<in> set rs" by (rule cascade_subset [OF "1.prems"(1)])
  show ?case
  proof
    assume d: "descends (links rs) g (run_id x)"
    have split: "z \<in> set gone \<or> (\<exists>c \<in> set ?d. descends (links ?rs) (run_id c) z)"
      if "descends (links rs) g z" for z
      using that
    proof (induction rule: descends.induct)
      case descends_self
      then show ?case using "1.prems"(2) by blast
    next
      case (descends_child p c)
      then obtain y where y: "y \<in> set rs" "run_id y = c" "run_parent_run_id y = Some p"
        by (auto simp: links_def)
      show ?case
      proof (cases "y \<in> set ?d")
        case True
        then show ?thesis using y(2) descends_self by blast
      next
        case False
        then have "p \<notin> set gone" using y by (auto simp: doomed_mem)
        with descends_child.IH obtain a where "a \<in> set ?d" "descends (links ?rs) (run_id a) p" by blast
        moreover have "(c, Some p) \<in> links ?rs" using y False by (force simp: links_def)
        ultimately show ?thesis using descends.descends_child by blast
      qed
    qed
    have nd: "x \<notin> set ?d" if "?d \<noteq> []"
    proof -
      have "x \<in> set (cascade (map run_id ?d) ?rs)"
        using "1.prems"(1) that by (subst (asm) cascade.simps) simp
      then show ?thesis using cascade_subset by fastforce
    qed
    then have "x \<notin> set ?d" by (cases "?d = []") simp_all
    with \<open>x \<in> set rs\<close> have "run_id x \<notin> set gone" by (simp add: doomed_mem)
    with split [OF d] obtain c where c: "c \<in> set ?d" "descends (links ?rs) (run_id c) (run_id x)"
      by blast
    then have ne: "?d \<noteq> []" by auto
    then have "x \<in> set (cascade (map run_id ?d) ?rs)"
      using "1.prems"(1) by (subst (asm) cascade.simps) simp
    with "1.IH" [OF ne] c show False by force
  qed
qed

lemma cascade_exact:
  "cascade gone rs = filter (\<lambda>x. \<forall>g \<in> set gone. \<not> descends (links rs) g (run_id x)) rs"
proof -
  obtain q where q: "cascade gone rs = filter q rs" using cascade_is_filter by blast
  then have "x \<in> set rs \<Longrightarrow> q x \<longleftrightarrow> (\<forall>g \<in> set gone. \<not> descends (links rs) g (run_id x))" for x
    using cascade_keeps [of x rs gone] cascade_drops [of x gone rs] by auto
  then show ?thesis unfolding q by (intro filter_cong) auto
qed

section \<open>The data of a run, and what leaves it alone\<close>

definition run_core :: "run_row \<Rightarrow> run_row" where
  "run_core x = x\<lparr>run_class_info := []\<rparr>"

lemma run_core_eqD:
  assumes "run_core x = run_core y"
  shows "run_id x = run_id y" and "run_parent_run_id x = run_parent_run_id y"
    and "run_status x = run_status y" and "run_deleted_at x = run_deleted_at y"
    and "run_retention_days x = run_retention_days y"
  using arg_cong [OF assms, of run_id] arg_cong [OF assms, of run_parent_run_id]
    arg_cong [OF assms, of run_status] arg_cong [OF assms, of run_deleted_at]
    arg_cong [OF assms, of run_retention_days]
  by (simp_all add: run_core_def)

record run_data =
  rd_history :: "history_row list"
  rd_events :: "event_row list"
  rd_outbox :: "outbox_row list"
  rd_jobs :: "run_job list"
  rd_contracts :: "contract_row list"
  rd_gates :: "gate_row list"
  rd_workflows :: "workflow_row list"
  rd_snapshots :: "snapshot_row list"
  rd_artifacts :: "artifact_row list"

definition data_of :: "string \<Rightarrow> lifecycle_db \<Rightarrow> run_data" where
  "data_of r db = (let g = lc_gateway db; p = g_pack g; c = g_control g in
     \<lparr>rd_history = filter (\<lambda>x. hist_run_id x = r) (run_history p),
      rd_events = filter (\<lambda>x. ev_run_id x = r) (run_events p),
      rd_outbox = filter (\<lambda>x. ob_run_id x = r) (outbox p),
      rd_jobs = filter (\<lambda>x. job_run_id x = r) (g_jobs g),
      rd_contracts = filter (\<lambda>x. contract_run_id x = r) (contracts c),
      rd_gates = filter (\<lambda>x. gate_run_id x = r) (gates c),
      rd_workflows = filter (\<lambda>x. ws_run_id (wf_state x) = r) (workflows c),
      rd_snapshots = filter (\<lambda>x. snap_run_id x = r) (g_snapshots g),
      rd_artifacts = filter (\<lambda>x. art_run_id x = r) (lc_artifacts db)\<rparr>)"

text \<open>The policy decides on the run's row and data alone.\<close>

definition context_of :: "run_row \<Rightarrow> run_data \<Rightarrow> prune_context" where
  "context_of run d =
     \<lparr>pc_run_id = run_id run, pc_status = run_status run, pc_deleted_at = run_deleted_at run,
      pc_has_open_gate = (\<exists>g \<in> set (rd_gates d). gate_status g \<in> {GATE_ACTIVE, GATE_EXPIRED}),
      pc_fast_lane_approved_at =
        (case rev (sort (map ev_created_at (filter (\<lambda>e.
             ev_name e = ''teaching_pack.content_approval.auto_approved'') (rd_events d)))) of
           [] \<Rightarrow> None | t # _ \<Rightarrow> Some t),
      pc_export_finalized = (\<exists>h \<in> set (rd_history d). hist_stage h = Some ''export_finalize'')\<rparr>"

lemma bex_filter: "(\<exists>x \<in> set xs. p x \<and> q x) \<longleftrightarrow> (\<exists>x \<in> set (filter p xs). q x)"
  by auto

lemma context_of_data: "build_run_prune_context db run = context_of run (data_of (run_id run) db)"
  unfolding build_run_prune_context_def context_of_def data_of_def Let_def auto_approved_times_def bex_filter
  by (simp only: run_data.simps filter_filter)

lemma context_core:
  "run_core x = run_core y \<Longrightarrow> data_of (run_id x) db = data_of (run_id x) db' \<Longrightarrow>
     build_run_prune_context db x = build_run_prune_context db' y"
  using run_core_eqD [of x y] unfolding context_of_data context_of_def by simp

lemma links_core: "links rs = (\<lambda>x. (run_id x, run_parent_run_id x)) ` run_core ` set rs"
  by (simp add: links_def run_core_def image_image)

text \<open>Bulk deletes touch the rows of their run only.\<close>

definition local_delete :: "(string \<Rightarrow> lifecycle_db \<Rightarrow> nat \<times> lifecycle_db) \<Rightarrow> bool" where
  "local_delete del \<longleftrightarrow> (\<forall>r db. runs (lc_pack (snd (del r db))) = runs (lc_pack db) \<and>
     (\<forall>r'. r' \<noteq> r \<longrightarrow> data_of r' (snd (del r db)) = data_of r' db))"

lemma local_deleteD:
  assumes "local_delete del"
  shows "runs (lc_pack (snd (del r db))) = runs (lc_pack db)"
    and "r' \<noteq> r \<Longrightarrow> data_of r' (snd (del r db)) = data_of r' db"
  using assms by (simp_all add: local_delete_def)

lemma filter_kept:
  "\<not> gone r \<Longrightarrow> filter (\<lambda>x. \<not> gone (key x) \<and> key x = r) xs = filter (\<lambda>x. key x = r) xs"
  by (rule filter_cong) auto

lemma filter_other:
  "r' \<noteq> r \<Longrightarrow> filter (\<lambda>x. key x \<noteq> r \<and> key x = r') xs = filter (\<lambda>x. key x = r') xs"
  by (rule filter_cong) auto

lemmas filter_others = filter_other filter_other [of _ _ "\<lambda>x. ws_run_id (wf_state x)"]

lemma local_events: "local_delete delete_events"
  by (simp add: local_delete_def delete_events_def data_of_def Let_def set_pack_def filter_others)

lemma local_snapshots: "local_delete delete_snapshots"
  by (simp add: local_delete_def delete_snapshots_def data_of_def Let_def filter_others)

lemma local_artifacts: "local_delete delete_artifacts"
  by (simp add: local_delete_def delete_artifacts_def data_of_def Let_def filter_others)

lemma delete_workflows_local:
  "runs (lc_pack (delete_workflows r db)) = runs (lc_pack db)"
  "r' \<noteq> r \<Longrightarrow> data_of r' (delete_workflows r db) = data_of r' db"
  by (simp_all add: delete_workflows_def data_of_def Let_def filter_others)

lemma local_artifacts_workflows:
  "local_delete (\<lambda>r db. let (k, db') = delete_artifacts r db in (k, delete_workflows r db'))"
  using local_artifacts by (simp add: local_delete_def split_beta delete_workflows_local)

lemma delete_run_row_keeps:
  assumes "x \<in> set (runs (lc_pack db))" and "\<not> descends (links (runs (lc_pack db))) r (run_id x)"
  shows "x \<in> set (runs (lc_pack (delete_run_row r db)))"
    and "data_of (run_id x) (delete_run_row r db) = data_of (run_id x) db"
proof -
  have kept: "x \<in> set (cascade [r] (runs (lc_pack db)))"
    using assms by (simp add: cascade_exact)
  then have id: "run_id x \<in> run_id ` set (cascade [r] (runs (lc_pack db)))" by blast
  show "x \<in> set (runs (lc_pack (delete_run_row r db)))"
    using kept assms(1) by (simp add: delete_run_row_def Let_def)
  have "\<not> gone_from (runs (lc_pack db)) (cascade [r] (runs (lc_pack db))) (run_id x)"
    using id by (simp add: gone_from_def)
  note kept_rows = filter_kept [where gone = "gone_from (runs (lc_pack db)) (cascade [r] (runs (lc_pack db)))"
      and r = "run_id x", OF this]
  show "data_of (run_id x) (delete_run_row r db) = data_of (run_id x) db"
    unfolding delete_run_row_def data_of_def Let_def
    by (simp add: kept_rows kept_rows [of "\<lambda>x. ws_run_id (wf_state x)"])
qed

lemma runs_delete_run_row:
  "runs (lc_pack (delete_run_row r db)) =
     (if r \<in> set (map run_id (runs (lc_pack db))) then cascade [r] (runs (lc_pack db))
      else runs (lc_pack db))"
  by (simp add: delete_run_row_def Let_def)

lemma purge_run_before:
  obtains db' where "purge_run r db = delete_run_row r db'"
    and "runs (lc_pack db') = runs (lc_pack db)"
    and "\<And>r'. r' \<noteq> r \<Longrightarrow> data_of r' db' = data_of r' db"
proof
  let ?db = "delete_workflows r (snd (delete_artifacts r (snd (delete_snapshots r
       (snd (delete_events r db))))))"
  show "purge_run r db = delete_run_row r ?db" by (simp add: purge_run_def)
  note laws = local_deleteD [OF local_events] local_deleteD [OF local_snapshots]
    local_deleteD [OF local_artifacts] delete_workflows_local
  show "runs (lc_pack ?db) = runs (lc_pack db)" by (simp add: laws)
  show "data_of r' ?db = data_of r' db" if "r' \<noteq> r" for r' using that by (simp add: laws)
qed

lemma purge_run_keeps:
  assumes "x \<in> set (runs (lc_pack db))" and "\<not> descends (links (runs (lc_pack db))) r (run_id x)"
  shows "x \<in> set (runs (lc_pack (purge_run r db)))"
    and "data_of (run_id x) (purge_run r db) = data_of (run_id x) db"
proof -
  have "run_id x \<noteq> r" using assms(2) descends_self by metis
  obtain db' where db': "purge_run r db = delete_run_row r db'" "runs (lc_pack db') = runs (lc_pack db)"
    "\<And>r'. r' \<noteq> r \<Longrightarrow> data_of r' db' = data_of r' db" by (rule purge_run_before [of r db], rule that)
  show "x \<in> set (runs (lc_pack (purge_run r db)))"
    using delete_run_row_keeps(1) [of x db' r] assms by (simp add: db')
  show "data_of (run_id x) (purge_run r db) = data_of (run_id x) db"
    using delete_run_row_keeps(2) [of x db' r] assms \<open>run_id x \<noteq> r\<close> by (simp add: db')
qed

lemma runs_purge_run:
  "runs (lc_pack (purge_run r db)) =
     (if r \<in> set (map run_id (runs (lc_pack db))) then cascade [r] (runs (lc_pack db))
      else runs (lc_pack db))"
proof -
  obtain db' where "purge_run r db = delete_run_row r db'" "runs (lc_pack db') = runs (lc_pack db)"
    using purge_run_before by blast
  then show ?thesis by (simp add: runs_delete_run_row)
qed

lemma runs_purge_filter: "\<exists>q. runs (lc_pack (purge_run r db)) = filter q (runs (lc_pack db))"
proof (cases "r \<in> set (map run_id (runs (lc_pack db)))")
  case True
  then show ?thesis using cascade_is_filter by (simp add: runs_purge_run)
next
  case False
  then have "runs (lc_pack (purge_run r db)) = filter (\<lambda>_. True) (runs (lc_pack db))"
    by (simp add: runs_purge_run)
  then show ?thesis by blast
qed

end
