(* ===== verification/Purge_Safety.thy ===== *)
theory Purge_Safety
  imports Purge_Laws
begin

text \<open>
  The properties of the daily cleanup: protected runs keep everything; a purged unit parent takes
  its sessions along, protected or not; purged events block a restore; rollups are overwritten by
  the next pass; evidence is redacted once and for all.
\<close>

section \<open>Protected families\<close>

definition safe_run :: "instant \<Rightarrow> lifecycle_db \<Rightarrow> run_row \<Rightarrow> bool" where
  "safe_run now db x \<longleftrightarrow> x \<in> set (runs (lc_pack db)) \<and>
     (\<forall>a \<in> set (runs (lc_pack db)). descends (links (runs (lc_pack db))) (run_id a) (run_id x) \<longrightarrow>
        prune_protected now db a)"

definition spared :: "lifecycle_db \<Rightarrow> lifecycle_db \<Rightarrow> run_row \<Rightarrow> bool" where
  "spared db0 db x \<longleftrightarrow> (\<exists>x' \<in> set (runs (lc_pack db)). run_core x' = run_core x) \<and>
     data_of (run_id x) db = data_of (run_id x) db0"

text \<open>What every phase of the cleanup keeps of the state \<open>db0\<close> it started in.\<close>

definition purge_inv :: "instant \<Rightarrow> lifecycle_db \<Rightarrow> lifecycle_db \<Rightarrow> bool" where
  "purge_inv now db0 db \<longleftrightarrow> distinct (map run_id (runs (lc_pack db)))
     \<and> run_core ` set (runs (lc_pack db)) \<subseteq> run_core ` set (runs (lc_pack db0))
     \<and> (\<forall>x. safe_run now db0 x \<longrightarrow> spared db0 db x)"

lemma purge_invD:
  assumes "purge_inv now db0 db"
  shows "distinct (map run_id (runs (lc_pack db)))"
    and "run_core ` set (runs (lc_pack db)) \<subseteq> run_core ` set (runs (lc_pack db0))"
    and "safe_run now db0 x \<Longrightarrow> spared db0 db x"
  using assms by (simp_all add: purge_inv_def)

lemma purge_inv_refl: "distinct (map run_id (runs (lc_pack db))) \<Longrightarrow> purge_inv now db db"
  by (auto simp: purge_inv_def spared_def safe_run_def)

lemma safe_not_prunable:
  assumes "purge_inv now db0 db" and "safe_run now db0 x" and "run_core y = run_core x"
  shows "\<not> is_prunable now None (build_run_prune_context db y) n"
proof -
  have "data_of (run_id x) db = data_of (run_id x) db0"
    using purge_invD(3) [OF assms(1,2)] by (simp add: spared_def)
  then have "build_run_prune_context db y = build_run_prune_context db0 x"
    using context_core [OF assms(3)] run_core_eqD(1) [OF assms(3)] by simp
  moreover have "prune_protected now db0 x"
    using assms(2) descends_self by (auto simp: safe_run_def)
  ultimately show ?thesis by (simp add: protected_iff)
qed

text \<open>Bulk deletes of prunable runs.\<close>

lemma inv_local_delete:
  assumes inv: "purge_inv now db0 db" and del: "local_delete del"
    and other: "\<And>x. safe_run now db0 x \<Longrightarrow> run_id x \<noteq> r"
  shows "purge_inv now db0 (snd (del r db))"
  unfolding purge_inv_def spared_def local_deleteD(1) [OF del]
  using inv other local_deleteD(2) [OF del] by (simp add: purge_inv_def spared_def)

lemma inv_delete_each:
  assumes "local_delete del" and "\<And>x y. safe_run now db0 x \<Longrightarrow> y \<in> set ys \<Longrightarrow> run_id x \<noteq> run_id y"
    and "purge_inv now db0 db"
  shows "purge_inv now db0 (snd (delete_each del ys n db))"
  using assms(2,3)
proof (induction ys arbitrary: n db)
  case Nil
  then show ?case by simp
next
  case (Cons y ys)
  have "purge_inv now db0 (snd (del (run_id y) db))"
    by (rule inv_local_delete [OF Cons.prems(2) assms(1)]) (simp add: Cons.prems(1))
  then show ?case using Cons by (simp add: split_beta)
qed

lemma inv_bulk:
  assumes "purge_inv now db0 db" and "local_delete del"
  shows "purge_inv now db0 (snd (delete_each del (prunable_deleted_runs now n db) 0 db))"
proof (rule inv_delete_each [OF assms(2) _ assms(1)])
  fix x y
  assume x: "safe_run now db0 x" and "y \<in> set (prunable_deleted_runs now n db)"
  then have y: "y \<in> set (runs (lc_pack db))" "is_prunable now None (build_run_prune_context db y) n"
    by (simp_all add: prunable_deleted_runs_def deleted_runs_def)
  obtain x' where x': "x' \<in> set (runs (lc_pack db))" "run_core x' = run_core x"
    using purge_invD(3) [OF assms(1) x] by (auto simp: spared_def)
  show "run_id x \<noteq> run_id y"
  proof
    assume "run_id x = run_id y"
    then have "x' = y"
      using distinct_key_eq [OF purge_invD(1) [OF assms(1)] x'(1) y(1)] run_core_eqD(1) [OF x'(2)] by simp
    with y(2) x'(2) safe_not_prunable [OF assms(1) x] show False by simp
  qed
qed

section \<open>The purge of runs\<close>

lemma descends_in_start:
  assumes "purge_inv now db0 db" and "descends (links (runs (lc_pack db))) a b"
  shows "descends (links (runs (lc_pack db0))) a b"
  by (rule descends_mono [OF assms(2)])
    (unfold links_core, rule image_mono, rule purge_invD(2) [OF assms(1)])

lemma inv_purge_run:
  assumes inv: "purge_inv now db0 db"
    and other: "\<And>x. safe_run now db0 x \<Longrightarrow> \<not> descends (links (runs (lc_pack db))) r (run_id x)"
  shows "purge_inv now db0 (purge_run r db)"
proof -
  let ?rs = "runs (lc_pack (purge_run r db))"
  obtain q where q: "?rs = filter q (runs (lc_pack db))"
    using runs_purge_filter by blast
  have "distinct (map run_id ?rs)" unfolding q by (rule distinct_map_filter [OF purge_invD(1) [OF inv]])
  moreover have "run_core ` set ?rs \<subseteq> run_core ` set (runs (lc_pack db0))"
    using purge_invD(2) [OF inv] unfolding q by auto
  moreover have "spared db0 (purge_run r db) x" if x: "safe_run now db0 x" for x
  proof -
    obtain x' where x': "x' \<in> set (runs (lc_pack db))" "run_core x' = run_core x"
      and data: "data_of (run_id x) db = data_of (run_id x) db0"
      using purge_invD(3) [OF inv x] by (auto simp: spared_def)
    have "\<not> descends (links (runs (lc_pack db))) r (run_id x')"
      using other [OF x] run_core_eqD(1) [OF x'(2)] by simp
    from purge_run_keeps [OF x'(1) this] show ?thesis
      using data x'(2) run_core_eqD(1) [OF x'(2)] by (auto simp: spared_def)
  qed
  ultimately show ?thesis by (simp add: purge_inv_def)
qed

lemma inv_purge_runs:
  assumes "purge_inv now db0 db" and "\<forall>y \<in> set ys. run_core y \<in> run_core ` set (runs (lc_pack db0))"
  shows "purge_inv now db0 (snd (purge_runs now ys ids db))"
  using assms
proof (induction ys arbitrary: ids db)
  case Nil
  then show ?case by simp
next
  case (Cons y ys)
  show ?case
  proof (cases "is_prunable now None (build_run_prune_context db y) (run_retention y)")
    case False
    then show ?thesis using Cons by simp
  next
    case True
    have "\<not> descends (links (runs (lc_pack db))) (run_id y) (run_id x)" if x: "safe_run now db0 x" for x
    proof
      assume "descends (links (runs (lc_pack db))) (run_id y) (run_id x)"
      then have d: "descends (links (runs (lc_pack db0))) (run_id y) (run_id x)"
        by (rule descends_in_start [OF Cons.prems(1)])
      obtain y0 where y0: "y0 \<in> set (runs (lc_pack db0))" "run_core y = run_core y0"
        using Cons.prems(2) by auto
      then have "safe_run now db0 y0"
        using x descends_trans [OF d] run_core_eqD(1) [OF y0(2)] by (auto simp: safe_run_def)
      with True show False using safe_not_prunable [OF Cons.prems(1) _ y0(2)] by blast
    qed
    then have "purge_inv now db0 (purge_run (run_id y) db)" by (rule inv_purge_run [OF Cons.prems(1)])
    with True Cons show ?thesis by simp
  qed
qed

section \<open>Whole passes\<close>

lemma roll_up_days_state:
  "roll_up_days py_str now ds db = Inr db' \<Longrightarrow> \<exists>rows. db' = db\<lparr>lc_rollups := rows\<rparr>"
proof (induction ds arbitrary: db)
  case Nil
  then have "db' = db\<lparr>lc_rollups := lc_rollups db\<rparr>" by simp
  then show ?case by blast
next
  case (Cons d ds)
  then show ?case by (fastforce simp: ebind_Inr_iff)
qed

lemma inv_rollups: "purge_inv now db0 db \<Longrightarrow> purge_inv now db0 (db\<lparr>lc_rollups := rows\<rparr>)"
  by (simp add: purge_inv_def spared_def data_of_def)

lemma inv_profiles: "purge_inv now db0 db \<Longrightarrow> purge_inv now db0 (snd (purge_expired_class_profiles now db))"
  by (simp add: purge_inv_def spared_def data_of_def purge_expired_class_profiles_def)

lemma touch_class_info:
  "map run_core (runs (lc_pack (touch_run now r (\<lambda>y. y\<lparr>run_class_info := info\<rparr>) db))) = map run_core (runs (lc_pack db))"
  "data_of i (touch_run now r (\<lambda>y. y\<lparr>run_class_info := info\<rparr>) db) = data_of i db"
  by (simp_all add: touch_run_def update_where_def run_core_def set_pack_def data_of_def Let_def)

lemma redact_run_state:
  "map run_core (runs (lc_pack (snd (redact_run now x s)))) = map run_core (runs (lc_pack (snd s)))"
  "data_of i (snd (redact_run now x s)) = data_of i (snd s)"
  by (simp_all add: redact_run_def split_beta touch_class_info split: option.split)

lemma fold_redact_state:
  "map run_core (runs (lc_pack (snd (fold (redact_run now) xs s)))) = map run_core (runs (lc_pack (snd s)))"
  "data_of i (snd (fold (redact_run now) xs s)) = data_of i (snd s)"
  by (induction xs arbitrary: s) (simp_all add: redact_run_state)

lemma map_id_core: "map run_id rs = map run_id (map run_core rs)"
  by (simp add: run_core_def)

lemma inv_redact: "purge_inv now db0 db \<Longrightarrow> purge_inv now db0 (snd (purge_student_evidence now db))"
proof -
  assume inv: "purge_inv now db0 db"
  define db' where "db' = snd (purge_student_evidence now db)"
  have core: "map run_core (runs (lc_pack db')) = map run_core (runs (lc_pack db))"
    and data: "data_of i db' = data_of i db" for i
    by (simp_all add: db'_def purge_student_evidence_def fold_redact_state)
  have "run_core ` set (runs (lc_pack db')) = run_core ` set (runs (lc_pack db))"
    using arg_cong [OF core, of set] by simp
  moreover have "map run_id (runs (lc_pack db')) = map run_id (runs (lc_pack db))"
    unfolding map_id_core [of "runs (lc_pack db')"] core by (simp add: run_core_def)
  ultimately have "purge_inv now db0 db'"
    using inv unfolding purge_inv_def spared_def data by (metis (no_types, lifting) image_iff)
  then show ?thesis by (simp add: db'_def)
qed

lemma inv_purge_expired_runs:
  assumes "purge_inv now db0 db"
  shows "purge_inv now db0 (snd (purge_expired_runs now db))"
  unfolding purge_expired_runs_def
  by (rule inv_purge_runs [OF assms]) (use purge_invD(2) [OF assms] in \<open>auto simp: deleted_runs_def\<close>)

lemma purge_pass_split:
  assumes "purge_pass py_str now db = Inr (res, db')"
  obtains rows db1 db2 db3 db4 db5 where
    "roll_up_days py_str now (days_needing_rollup_before_purge now 90 (lc_pack db)) db = Inr (db\<lparr>lc_rollups := rows\<rparr>)"
    and "db1 = snd (purge_student_evidence now (db\<lparr>lc_rollups := rows\<rparr>))"
    and "db2 = snd (purge_expired_run_events now db1)" and "db3 = snd (purge_expired_snapshots now db2)"
    and "db4 = snd (purge_expired_artifacts now db3)" and "db5 = snd (purge_expired_runs now db4)"
    and "db' = snd (purge_expired_class_profiles now db5)"
proof -
  obtain db0 where roll: "roll_up_days py_str now (days_needing_rollup_before_purge now 90 (lc_pack db)) db = Inr db0"
    and rest: "db' = snd (purge_expired_class_profiles now (snd (purge_expired_runs now
      (snd (purge_expired_artifacts now (snd (purge_expired_snapshots now (snd (purge_expired_run_events now
        (snd (purge_student_evidence now db0)))))))))))"
    using assms by (auto simp: purge_pass_def Let_def ebind_Inr_iff split_beta default_config_def)
  obtain rows where "db0 = db\<lparr>lc_rollups := rows\<rparr>" using roll_up_days_state [OF roll] by blast
  with roll rest that show thesis by blast
qed

lemma purge_pass_inv:
  assumes "purge_pass py_str now db = Inr (res, db')" and "distinct (map run_id (runs (lc_pack db)))"
  shows "purge_inv now db db'"
proof (rule purge_pass_split [OF assms(1)])
  fix rows db1 db2 db3 db4 db5
  assume steps: "db1 = snd (purge_student_evidence now (db\<lparr>lc_rollups := rows\<rparr>))"
    "db2 = snd (purge_expired_run_events now db1)" "db3 = snd (purge_expired_snapshots now db2)"
    "db4 = snd (purge_expired_artifacts now db3)" "db5 = snd (purge_expired_runs now db4)"
    "db' = snd (purge_expired_class_profiles now db5)"
  have "purge_inv now db db1"
    unfolding steps(1) by (intro inv_redact inv_rollups purge_inv_refl assms(2))
  then have "purge_inv now db db2"
    unfolding steps(2) purge_expired_run_events_def by (rule inv_bulk [OF _ local_events])
  then have "purge_inv now db db3"
    unfolding steps(3) purge_expired_snapshots_def by (rule inv_bulk [OF _ local_snapshots])
  then have "purge_inv now db db4"
    unfolding steps(4) purge_expired_artifacts_def by (rule inv_bulk [OF _ local_artifacts_workflows])
  then have "purge_inv now db db5" unfolding steps(5) by (rule inv_purge_expired_runs)
  then show ?thesis unfolding steps(6) by (rule inv_profiles)
qed

section \<open>What the purge of runs removes\<close>

definition family_inv :: "lifecycle_db \<Rightarrow> lifecycle_db \<Rightarrow> bool" where
  "family_inv db0 db \<longleftrightarrow> set (runs (lc_pack db)) \<subseteq> set (runs (lc_pack db0))
     \<and> (\<forall>p \<in> set (runs (lc_pack db0)). \<forall>c \<in> set (runs (lc_pack db)).
          run_parent_run_id c = Some (run_id p) \<longrightarrow> p \<in> set (runs (lc_pack db)))
     \<and> (\<forall>x \<in> set (runs (lc_pack db)). data_of (run_id x) db = data_of (run_id x) db0)
     \<and> (\<forall>x \<in> set (runs (lc_pack db0)). x \<notin> set (runs (lc_pack db)) \<longrightarrow>
          (\<forall>e \<in> set (run_events (lc_pack db)). ev_run_id e \<noteq> run_id x))"

lemma family_invD:
  assumes "family_inv db0 db"
  shows "x \<in> set (runs (lc_pack db)) \<Longrightarrow> x \<in> set (runs (lc_pack db0))"
    and "p \<in> set (runs (lc_pack db0)) \<Longrightarrow> c \<in> set (runs (lc_pack db)) \<Longrightarrow>
      run_parent_run_id c = Some (run_id p) \<Longrightarrow> p \<in> set (runs (lc_pack db))"
    and "x \<in> set (runs (lc_pack db)) \<Longrightarrow> data_of (run_id x) db = data_of (run_id x) db0"
    and "x \<in> set (runs (lc_pack db0)) \<Longrightarrow> x \<notin> set (runs (lc_pack db)) \<Longrightarrow>
      e \<in> set (run_events (lc_pack db)) \<Longrightarrow> ev_run_id e \<noteq> run_id x"
  using assms unfolding family_inv_def by blast+

lemma family_inv_same:
  assumes "family_inv db0 db" and "runs (lc_pack db1) = runs (lc_pack db)"
    and "\<And>x. x \<in> set (runs (lc_pack db)) \<Longrightarrow> data_of (run_id x) db1 = data_of (run_id x) db"
    and "set (run_events (lc_pack db1)) \<subseteq> set (run_events (lc_pack db))"
  shows "family_inv db0 db1"
  using assms(1,4) unfolding family_inv_def assms(2) by (simp add: assms(3) subset_iff)

lemma purge_run_events:
  "run_events (lc_pack (purge_run r db)) = filter (\<lambda>e. ev_run_id e \<noteq> r \<and>
     \<not> gone_from (runs (lc_pack db)) (runs (lc_pack (purge_run r db))) (ev_run_id e)) (run_events (lc_pack db))"
  by (auto simp: purge_run_def delete_run_row_def delete_workflows_def delete_artifacts_def
      delete_snapshots_def delete_events_def set_pack_def Let_def gone_from_def intro!: filter_cong)

lemma purge_run_mem:
  assumes "distinct (map run_id (runs (lc_pack db)))" and "y \<in> set (runs (lc_pack db))"
  shows "x \<in> set (runs (lc_pack (purge_run (run_id y) db))) \<longleftrightarrow>
    x \<in> set (runs (lc_pack db)) \<and> \<not> descends (links (runs (lc_pack db))) (run_id y) (run_id x)"
  using assms(2) by (simp add: runs_purge_run cascade_exact)

lemma family_purge_run:
  assumes inv: "family_inv db0 db" and dist: "distinct (map run_id (runs (lc_pack db0)))"
    and sub: "distinct (map run_id (runs (lc_pack db)))" and y: "y \<in> set (runs (lc_pack db))"
  shows "family_inv db0 (purge_run (run_id y) db)"
  unfolding family_inv_def
proof (intro conjI ballI impI)
  let ?db = "purge_run (run_id y) db"
  note mem = purge_run_mem [OF sub y]
  show "set (runs (lc_pack ?db)) \<subseteq> set (runs (lc_pack db0))"
    using family_invD(1) [OF inv] mem by blast
  show "p \<in> set (runs (lc_pack ?db))" if "p \<in> set (runs (lc_pack db0))" "c \<in> set (runs (lc_pack ?db))"
    "run_parent_run_id c = Some (run_id p)" for p c
  proof -
    from that(2) have c: "c \<in> set (runs (lc_pack db))"
      "\<not> descends (links (runs (lc_pack db))) (run_id y) (run_id c)" by (simp_all add: mem)
    have "p \<in> set (runs (lc_pack db))" using family_invD(2) [OF inv that(1) c(1) that(3)] .
    moreover have "(run_id c, Some (run_id p)) \<in> links (runs (lc_pack db))"
      using c(1) that(3) by (force simp: links_def)
    ultimately show ?thesis using c(2) descends_child mem by metis
  qed
  show "data_of (run_id x) ?db = data_of (run_id x) db0" if "x \<in> set (runs (lc_pack ?db))" for x
    using that family_invD(3) [OF inv] purge_run_keeps(2) mem by metis
  show "ev_run_id e \<noteq> run_id x" if x: "x \<in> set (runs (lc_pack db0))" "x \<notin> set (runs (lc_pack ?db))"
    and e: "e \<in> set (run_events (lc_pack ?db))" for x e
  proof (cases "x \<in> set (runs (lc_pack db))")
    case True
    have "run_id x \<notin> set (map run_id (runs (lc_pack ?db)))"
    proof
      assume "run_id x \<in> set (map run_id (runs (lc_pack ?db)))"
      then obtain z where z: "z \<in> set (runs (lc_pack ?db))" "run_id z = run_id x" by auto
      then have "z = x" using distinct_key_eq [OF sub _ True] mem by simp
      with z x(2) show False by simp
    qed
    with True e show ?thesis by (auto simp: purge_run_events gone_from_def) (metis imageI)
  next
    case False
    with e show ?thesis using family_invD(4) [OF inv x(1) False] by (simp add: purge_run_events)
  qed
qed

lemma purge_runs_removes:
  assumes "distinct (map run_id (runs (lc_pack db0)))"
    and "family_inv db0 db" and "distinct (map run_id (runs (lc_pack db)))"
    and "set ys \<subseteq> set (runs (lc_pack db0))"
    and "purge_runs now ys ids db = (ids', db')"
  shows "family_inv db0 db' \<and> (\<forall>y. y \<in> set ys \<and> is_prunable now None (build_run_prune_context db0 y) (run_retention y)
      \<or> y \<in> set (runs (lc_pack db0)) \<and> y \<notin> set (runs (lc_pack db)) \<longrightarrow> y \<notin> set (runs (lc_pack db')))"
  using assms(2-5)
proof (induction ys arbitrary: ids db)
  case Nil
  then show ?case by simp
next
  case (Cons y ys)
  let ?p = "is_prunable now None (build_run_prune_context db y) (run_retention y)"
  define db1 where "db1 = (if ?p then purge_run (run_id y) db else db)"
  obtain ids1 where rest: "purge_runs now ys ids1 db1 = (ids', db')"
    using Cons.prems(4) by (cases ?p) (simp_all add: db1_def)
  have filtered: "\<exists>q. runs (lc_pack db1) = filter q (runs (lc_pack db))"
    by (auto simp: db1_def runs_purge_filter intro: exI [of _ "\<lambda>_. True"])
  then have dist1: "distinct (map run_id (runs (lc_pack db1)))"
    using Cons.prems(2) distinct_map_filter by metis
  have y0: "y \<in> set (runs (lc_pack db0))" using Cons.prems(3) by simp
  have step: "family_inv db0 db1 \<and> (is_prunable now None (build_run_prune_context db0 y) (run_retention y)
      \<longrightarrow> y \<notin> set (runs (lc_pack db1)))"
  proof (cases "y \<in> set (runs (lc_pack db))")
    case True
    then have ctx: "build_run_prune_context db y = build_run_prune_context db0 y"
      using family_invD(3) [OF Cons.prems(1)] by (intro context_core) simp_all
    have "y \<notin> set (runs (lc_pack (purge_run (run_id y) db)))"
      using purge_run_mem [OF Cons.prems(2) True] descends_self by blast
    then show ?thesis
      using family_purge_run [OF Cons.prems(1) assms(1) Cons.prems(2) True] Cons.prems(1)
      by (simp add: db1_def ctx)
  next
    case False
    have gone: "run_id y \<notin> set (map run_id (runs (lc_pack db)))"
    proof
      assume "run_id y \<in> set (map run_id (runs (lc_pack db)))"
      then obtain z where z: "z \<in> set (runs (lc_pack db))" "run_id z = run_id y" by auto
      then have "z = y"
        using distinct_key_eq [OF assms(1) family_invD(1) [OF Cons.prems(1) z(1)] y0] by simp
      with z False show False by simp
    qed
    then have runs1: "runs (lc_pack db1) = runs (lc_pack db)" by (simp add: db1_def runs_purge_run)
    have "data_of (run_id x) db1 = data_of (run_id x) db" if "x \<in> set (runs (lc_pack db))" for x
    proof (cases ?p)
      case True
      have "run_id x \<noteq> run_id y" using that gone by (metis image_eqI set_map)
      obtain db' where db': "purge_run (run_id y) db = delete_run_row (run_id y) db'"
        "runs (lc_pack db') = runs (lc_pack db)"
        "\<And>r'. r' \<noteq> run_id y \<Longrightarrow> data_of r' db' = data_of r' db"
        by (rule purge_run_before [of "run_id y" db], rule that)
      have "delete_run_row (run_id y) db' = db'" using gone by (simp add: delete_run_row_def db'(2))
      then show ?thesis using True db' \<open>run_id x \<noteq> run_id y\<close> by (simp add: db1_def)
    qed (simp add: db1_def)
    moreover have "set (run_events (lc_pack db1)) \<subseteq> set (run_events (lc_pack db))"
      by (auto simp: db1_def purge_run_events)
    ultimately have "family_inv db0 db1"
      using family_inv_same [OF Cons.prems(1) runs1] by blast
    with False show ?thesis by (simp add: runs1)
  qed
  have "set ys \<subseteq> set (runs (lc_pack db0))" using Cons.prems(3) by simp
  note IH = Cons.IH [OF conjunct1 [OF step] dist1 this rest]
  have "y' \<notin> set (runs (lc_pack db1))" if "y' \<notin> set (runs (lc_pack db))" for y'
    using that filtered by auto
  with IH step y0 show ?case by auto
qed

lemma family_inv_refl: "family_inv db db \<longleftrightarrow> True"
  by (simp add: family_inv_def)

end
