(* ===== verification/Cleanup.thy ===== *)
theory Cleanup
  imports Purge_Safety
begin

text \<open>
  The claims on the daily cleanup (\<open>services/gateway/purge.py\<close>, \<open>data_lifecycle_cleanup.py\<close>,
  \<open>soft_delete.py\<close>, \<open>run_event_rollup.py\<close>), with the database they are tried on: a deleted unit
  parent with a session still in flight, and a run that nobody deleted.
\<close>

section \<open>Loops of deletes\<close>

lemma delete_each_events:
  "delete_each delete_events ys n db =
     (n + length (filter (\<lambda>e. ev_run_id e \<in> run_id ` set ys) (run_events (lc_pack db))),
      set_pack ((lc_pack db)\<lparr>run_events :=
        filter (\<lambda>e. ev_run_id e \<notin> run_id ` set ys) (run_events (lc_pack db))\<rparr>) db)"
proof (induction ys arbitrary: n db)
  case Nil
  then show ?case by (simp add: set_pack_def)
next
  case (Cons y ys)
  have split: "length (filter (\<lambda>e. ev_run_id e = run_id y \<or> ev_run_id e \<in> run_id ` set ys) es) =
      length (filter (\<lambda>e. ev_run_id e = run_id y) es)
      + length (filter (\<lambda>e. ev_run_id e \<noteq> run_id y \<and> ev_run_id e \<in> run_id ` set ys) es)"
    for es :: "event_row list" by (induction es) auto
  have del: "delete_events (run_id y) db =
      (length (filter (\<lambda>e. ev_run_id e = run_id y) (run_events (lc_pack db))),
       set_pack ((lc_pack db)\<lparr>run_events := filter (\<lambda>e. ev_run_id e \<noteq> run_id y) (run_events (lc_pack db))\<rparr>) db)"
    by (simp add: delete_events_def Let_def)
  show ?case by (simp add: del Cons.IH split set_pack_def conj_commute)
qed

definition sub_events :: "lifecycle_db \<Rightarrow> lifecycle_db \<Rightarrow> bool" where
  "sub_events db' db \<longleftrightarrow> (\<exists>q. run_events (lc_pack db') = filter q (run_events (lc_pack db)))"

lemma sub_events_refl: "run_events (lc_pack db') = run_events (lc_pack db) \<Longrightarrow> sub_events db' db"
  unfolding sub_events_def by (rule exI [of _ "\<lambda>_. True"]) simp

lemma sub_events_trans: "sub_events c b \<Longrightarrow> sub_events b a \<Longrightarrow> sub_events c a"
  unfolding sub_events_def by (auto simp: filter_filter intro: exI)

lemma sub_events_filter: "run_events (lc_pack db') = filter q (run_events (lc_pack db)) \<Longrightarrow> sub_events db' db"
  unfolding sub_events_def by blast

lemma sub_events_each:
  "(\<And>r db. sub_events (snd (del r db)) db) \<Longrightarrow> sub_events (snd (delete_each del ys n db)) db"
proof (induction ys arbitrary: n db)
  case Nil
  then show ?case by (simp add: sub_events_refl)
next
  case (Cons y ys)
  show ?case
    using sub_events_trans [OF Cons.IH [OF Cons.prems] Cons.prems] by (simp add: split_beta)
qed

lemma sub_events_runs: "sub_events (snd (purge_runs now ys ids db)) db"
proof (induction ys arbitrary: ids db)
  case Nil
  then show ?case by (simp add: sub_events_refl)
next
  case (Cons y ys)
  have "sub_events (purge_run (run_id y) db) db"
    by (rule sub_events_filter) (rule purge_run_events)
  then have "sub_events (snd (purge_runs now ys ids' (purge_run (run_id y) db))) db" for ids'
    using Cons.IH sub_events_trans by blast
  then show ?case using Cons.IH by simp
qed

lemma fold_redact_events:
  "run_events (lc_pack (snd (fold (redact_run now) xs s))) = run_events (lc_pack (snd s))"
  by (induction xs arbitrary: s)
    (simp_all add: redact_run_def split_beta touch_run_def set_pack_def split: option.split)

section \<open>The ledger and the rollups after a pass\<close>

definition rollup_of :: "lifecycle_db \<Rightarrow> int \<Rightarrow> kpi_rollup option" where
  "rollup_of db = map_of (map (\<lambda>r. (kpr_day r, kpr_rollup r)) (lc_rollups db))"

lemma roll_up_days_lookup:
  "roll_up_days py_str now ds db = Inr db' \<Longrightarrow>
     (d \<notin> set ds \<longrightarrow> rollup_of db' d = rollup_of db d) \<and>
     (d \<in> set ds \<longrightarrow> (\<exists>k. rollup_of db' d = Some k \<and> kpi_event_count k = length (events_of_day d (lc_pack db))))"
proof (induction ds arbitrary: db)
  case Nil
  then show ?case by simp
next
  case (Cons a ds)
  then obtain k where k: "compute_daily_kpi_rollup py_str (lc_created_at db) (lc_updated_at db) a (lc_pack db) = Inr k"
    by (auto simp: ensure_kpi_rollup_for_day_def ebind_Inr_iff)
  define db1 where "db1 = db\<lparr>lc_rollups := upsert_rollup \<lparr>kpr_day = a, kpr_rollup = k, kpr_computed_at = now\<rparr> (lc_rollups db)\<rparr>"
  have "roll_up_days py_str now ds db1 = Inr db'"
    using Cons.prems k by (simp add: ensure_kpi_rollup_for_day_def db1_def)
  moreover have "rollup_of db1 = (rollup_of db)(a \<mapsto> k)"
    by (simp add: rollup_of_def db1_def upsert_rollup_lookup)
  moreover have "lc_pack db1 = lc_pack db" by (simp add: db1_def)
  ultimately show ?case using Cons.IH [of db1] compute_event_count [OF k] by auto
qed

lemma delete_each_rollups:
  "(\<And>r db. lc_rollups (snd (del r db)) = lc_rollups db) \<Longrightarrow>
     lc_rollups (snd (delete_each del ys n db)) = lc_rollups db"
  by (induction ys arbitrary: n db) (simp_all add: split_beta)

lemma purge_runs_rollups: "lc_rollups (snd (purge_runs now ys ids db)) = lc_rollups db"
  by (induction ys arbitrary: ids db)
    (simp_all add: purge_run_def delete_run_row_def delete_workflows_def delete_artifacts_def
      delete_snapshots_def delete_events_def set_pack_def Let_def)

lemma fold_redact_rollups: "lc_rollups (snd (fold (redact_run now) xs s)) = lc_rollups (snd s)"
  by (induction xs arbitrary: s)
    (simp_all add: redact_run_def split_beta touch_run_def set_pack_def split: option.split)

lemma data_of_rollups: "data_of i (db\<lparr>lc_rollups := rows\<rparr>) = data_of i db"
  by (simp add: data_of_def)

lemma purge_pass_ledger:
  assumes "purge_pass py_str now db = Inr (res, db')"
  obtains db1 where "sub_events db1 db" and "sub_events db' (snd (purge_expired_run_events now db1))"
    and "run_events (lc_pack db1) = run_events (lc_pack db)"
    and "map run_core (runs (lc_pack db1)) = map run_core (runs (lc_pack db))"
    and "\<And>i. data_of i db1 = data_of i db"
    and "\<And>d. d \<notin> set (days_needing_rollup_before_purge now 90 (lc_pack db)) \<Longrightarrow> rollup_of db' d = rollup_of db d"
    and "\<And>d. d \<in> set (days_needing_rollup_before_purge now 90 (lc_pack db)) \<Longrightarrow>
      \<exists>k. rollup_of db' d = Some k \<and> kpi_event_count k = length (events_of_day d (lc_pack db))"
proof (rule purge_pass_split [OF assms])
  fix rows db1 db2 db3 db4 db5
  assume roll: "roll_up_days py_str now (days_needing_rollup_before_purge now 90 (lc_pack db)) db = Inr (db\<lparr>lc_rollups := rows\<rparr>)"
    and db1: "db1 = snd (purge_student_evidence now (db\<lparr>lc_rollups := rows\<rparr>))"
    and rest: "db2 = snd (purge_expired_run_events now db1)" "db3 = snd (purge_expired_snapshots now db2)"
    "db4 = snd (purge_expired_artifacts now db3)" "db5 = snd (purge_expired_runs now db4)"
    "db' = snd (purge_expired_class_profiles now db5)"
  have ev1: "run_events (lc_pack db1) = run_events (lc_pack db)"
    by (simp add: db1 purge_student_evidence_def fold_redact_events)
  have "sub_events db3 db2" unfolding rest(2) purge_expired_snapshots_def
    by (rule sub_events_each) (simp add: delete_snapshots_def Let_def sub_events_refl)
  moreover have "sub_events db4 db3" unfolding rest(3) purge_expired_artifacts_def
    by (rule sub_events_each)
      (simp add: delete_artifacts_def delete_workflows_def Let_def sub_events_refl)
  moreover have "sub_events db5 db4" unfolding rest(4) purge_expired_runs_def by (rule sub_events_runs)
  moreover have "sub_events db' db5"
    by (rule sub_events_refl) (simp add: rest(5) purge_expired_class_profiles_def)
  ultimately have sub: "sub_events db' (snd (purge_expired_run_events now db1))"
    unfolding rest(1) [symmetric] using sub_events_trans by blast
  have "lc_rollups db1 = rows" by (simp add: db1 purge_student_evidence_def fold_redact_rollups)
  moreover have "lc_rollups db2 = lc_rollups db1"
    by (simp add: rest(1) purge_expired_run_events_def delete_each_events)
  moreover have "lc_rollups db3 = lc_rollups db2" unfolding rest(2) purge_expired_snapshots_def
    by (rule delete_each_rollups) (simp add: delete_snapshots_def Let_def)
  moreover have "lc_rollups db4 = lc_rollups db3" unfolding rest(3) purge_expired_artifacts_def
    by (rule delete_each_rollups) (simp add: delete_artifacts_def delete_workflows_def Let_def)
  moreover have "lc_rollups db5 = lc_rollups db4"
    by (simp add: rest(4) purge_expired_runs_def purge_runs_rollups)
  moreover have "lc_rollups db' = lc_rollups db5" by (simp add: rest(5) purge_expired_class_profiles_def)
  ultimately have rows: "rollup_of db' = rollup_of (db\<lparr>lc_rollups := rows\<rparr>)" by (simp add: rollup_of_def)
  show thesis
    by (rule that [OF sub_events_refl [OF ev1] sub ev1])
      (use roll_up_days_lookup [OF roll] in
        \<open>simp_all add: rows db1 purge_student_evidence_def fold_redact_state data_of_rollups\<close>)
qed

text \<open>A run of prunable events loses them all in the pass.\<close>

lemma pruned_events_go:
  assumes "purge_pass py_str now db = Inr (res, db')" and "x \<in> set (runs (lc_pack db))"
    and "is_prunable now None (build_run_prune_context db x) 90"
    and "e \<in> set (run_events (lc_pack db'))"
  shows "ev_run_id e \<noteq> run_id x"
proof (rule purge_pass_ledger [OF assms(1)])
  fix db1
  assume sub: "sub_events db' (snd (purge_expired_run_events now db1))"
    and core: "map run_core (runs (lc_pack db1)) = map run_core (runs (lc_pack db))"
    and data: "\<And>i. data_of i db1 = data_of i db"
  have "run_core x \<in> set (map run_core (runs (lc_pack db1)))" unfolding core using assms(2) by simp
  then obtain x1 where x1: "x1 \<in> set (runs (lc_pack db1))" "run_core x1 = run_core x" by auto
  then have "build_run_prune_context db1 x1 = build_run_prune_context db x"
    by (intro context_core) (simp_all add: data)
  moreover have "run_deleted_at x1 \<noteq> None"
    using prunable_needs_deletion [OF assms(3)] run_core_eqD(4) [OF x1(2)] by simp
  ultimately have "x1 \<in> set (prunable_deleted_runs now 90 db1)"
    using x1(1) assms(3) by (simp add: prunable_deleted_runs_def deleted_runs_def)
  then have "run_id x \<in> run_id ` set (prunable_deleted_runs now 90 db1)"
    using run_core_eqD(1) [OF x1(2)] by (metis image_eqI)
  moreover have "e \<in> set (run_events (lc_pack (snd (purge_expired_run_events now db1))))"
    using sub assms(4) by (auto simp: sub_events_def)
  ultimately show ?thesis
    by (auto simp: purge_expired_run_events_def delete_each_events default_config_def)
qed

lemma purge_pass_rollup:
  assumes "purge_pass py_str now db = Inr (res, db')"
  shows "d \<notin> set (days_needing_rollup_before_purge now 90 (lc_pack db)) \<Longrightarrow> rollup_of db' d = rollup_of db d"
    and "d \<in> set (days_needing_rollup_before_purge now 90 (lc_pack db)) \<Longrightarrow>
      \<exists>k. rollup_of db' d = Some k \<and> kpi_event_count k = length (events_of_day d (lc_pack db))"
  by (rule purge_pass_ledger [OF assms], blast)+

text \<open>
  A prunable run stays prunable until the pass reaches it: the bulk deletes before it remove at most
  the events that could still protect it.
\<close>

definition policy_state :: "lifecycle_db \<Rightarrow> run_row list \<times> history_row list \<times> gate_row list" where
  "policy_state db = (runs (lc_pack db), run_history (lc_pack db), gates (g_control (lc_gateway db)))"

lemma delete_each_state:
  "(\<And>r db. F (snd (del r db)) = F db) \<Longrightarrow> F (snd (delete_each del ys n db)) = F db"
  by (induction ys arbitrary: n db) (simp_all add: split_beta)

lemma prunable_fewer_events:
  assumes "is_prunable now None (build_run_prune_context db x) n" and "policy_state db' = policy_state db"
    and "rd_events (data_of (run_id x) db') \<in> {rd_events (data_of (run_id x) db), []}"
  shows "is_prunable now None (build_run_prune_context db' x) n"
proof -
  have "rd_gates (data_of (run_id x) db') = rd_gates (data_of (run_id x) db)"
    and "rd_history (data_of (run_id x) db') = rd_history (data_of (run_id x) db)"
    using assms(2) by (simp_all add: policy_state_def data_of_def Let_def)
  then show ?thesis using assms(1,3) unfolding context_of_data is_prunable_iff
    by (auto simp: context_of_def)
qed

lemma filter_outside:
  "filter (\<lambda>x. key x \<notin> S \<and> key x = r) xs \<in> {filter (\<lambda>x. key x = r) xs, []}"
proof (cases "r \<in> S")
  case True
  then show ?thesis by (auto simp: filter_empty_conv)
next
  case False
  then have "filter (\<lambda>x. key x \<notin> S \<and> key x = r) xs = filter (\<lambda>x. key x = r) xs"
    by (intro filter_cong) auto
  then show ?thesis by simp
qed

lemma purged_with_run:
  assumes "purge_pass py_str now db = Inr (res, db')" and "distinct (map run_id (runs (lc_pack db)))"
    and "x \<in> set (runs (lc_pack db))"
    and "is_prunable now None (build_run_prune_context db x) (run_retention x)"
    and "e \<in> set (run_events (lc_pack db'))"
  shows "ev_run_id e \<noteq> run_id x"
proof (rule purge_pass_split [OF assms(1)])
  fix rows db1 db2 db3 db4 db5
  assume db1: "db1 = snd (purge_student_evidence now (db\<lparr>lc_rollups := rows\<rparr>))"
    and rest: "db2 = snd (purge_expired_run_events now db1)" "db3 = snd (purge_expired_snapshots now db2)"
    "db4 = snd (purge_expired_artifacts now db3)" "db5 = snd (purge_expired_runs now db4)"
    "db' = snd (purge_expired_class_profiles now db5)"
  have core: "map run_core (runs (lc_pack db1)) = map run_core (runs (lc_pack db))"
    and data: "data_of i db1 = data_of i db" for i
    by (simp_all add: db1 purge_student_evidence_def fold_redact_state data_of_rollups)
  have "run_core x \<in> set (map run_core (runs (lc_pack db1)))" unfolding core using assms(3) by simp
  then obtain x1 where x1: "x1 \<in> set (runs (lc_pack db1))" "run_core x1 = run_core x" by auto
  note same = run_core_eqD [OF x1(2)]
  have "build_run_prune_context db1 x1 = build_run_prune_context db x"
    using x1(2) by (intro context_core) (simp_all add: data)
  then have prune1: "is_prunable now None (build_run_prune_context db1 x1) (run_retention x1)"
    using assms(4) same(5) by (simp add: run_retention_def)
  have "policy_state db2 = policy_state db1"
    unfolding rest(1) purge_expired_run_events_def
    by (rule delete_each_state) (simp add: policy_state_def delete_events_def set_pack_def Let_def)
  moreover have 3: "policy_state db3 = policy_state db2" "run_events (lc_pack db3) = run_events (lc_pack db2)"
    unfolding rest(2) purge_expired_snapshots_def
    by (rule delete_each_state, simp add: policy_state_def delete_snapshots_def Let_def)+
  moreover have 4: "policy_state db4 = policy_state db3" "run_events (lc_pack db4) = run_events (lc_pack db3)"
    unfolding rest(3) purge_expired_artifacts_def
    by (rule delete_each_state, simp add: policy_state_def delete_artifacts_def delete_workflows_def Let_def)+
  ultimately have policy: "policy_state db4 = policy_state db1" by simp
  have "run_events (lc_pack db4) = filter (\<lambda>e. ev_run_id e \<notin> run_id ` set (prunable_deleted_runs now 90 db1))
      (run_events (lc_pack db1))"
    unfolding 3 4 rest(1) by (simp add: purge_expired_run_events_def delete_each_events default_config_def)
  then have "rd_events (data_of (run_id x1) db4) \<in> {rd_events (data_of (run_id x1) db1), []}"
    using filter_outside [of ev_run_id "run_id ` set (prunable_deleted_runs now 90 db1)" "run_id x1"
        "run_events (lc_pack db1)"]
    by (simp add: data_of_def Let_def)
  with prune1 policy have prune4: "is_prunable now None (build_run_prune_context db4 x1) (run_retention x1)"
    by (rule prunable_fewer_events)
  have runs4: "runs (lc_pack db4) = runs (lc_pack db1)" using policy by (simp add: policy_state_def)
  have dist: "distinct (map run_id (runs (lc_pack db4)))"
    unfolding runs4 map_id_core [of "runs (lc_pack db1)"] core using assms(2)
    by (simp only: map_id_core [of "runs (lc_pack db)", symmetric])
  have "x1 \<in> set (deleted_runs db4)"
    using x1(1) prunable_needs_deletion [OF prune4] by (simp add: deleted_runs_def runs4)
  moreover obtain ids where "purge_runs now (deleted_runs db4) [] db4 = (ids, db5)"
    by (cases "purge_runs now (deleted_runs db4) [] db4") (simp add: rest(4) purge_expired_runs_def)
  moreover have "set (deleted_runs db4) \<subseteq> set (runs (lc_pack db4))" by (auto simp: deleted_runs_def)
  moreover have "family_inv db4 db4" by (simp add: family_inv_refl)
  ultimately have "family_inv db4 db5" and "x1 \<notin> set (runs (lc_pack db5))"
    using purge_runs_removes [OF dist _ dist] prune4 by blast+
  then have "e' \<in> set (run_events (lc_pack db5)) \<Longrightarrow> ev_run_id e' \<noteq> run_id x1" for e'
    using family_invD(4) x1(1) by (simp add: runs4)
  moreover have "run_events (lc_pack db') = run_events (lc_pack db5)"
    by (simp add: rest(5) purge_expired_class_profiles_def)
  ultimately show ?thesis using assms(5) same(1) by simp
qed

lemma purge_pass_sub_events: "purge_pass py_str now db = Inr (res, db') \<Longrightarrow> sub_events db' db"
proof (erule purge_pass_ledger)
  fix db1
  assume "sub_events db1 db" and "sub_events db' (snd (purge_expired_run_events now db1))"
  moreover have "sub_events (snd (purge_expired_run_events now db1)) db1"
    by (rule sub_events_filter) (simp add: purge_expired_run_events_def delete_each_events)
  ultimately show ?thesis using sub_events_trans by blast
qed

lemma cleanup_pass:
  "run_data_lifecycle_cleanup py_str now False db = Inr (res, db') \<longleftrightarrow>
     (\<exists>res'. purge_pass py_str now db = Inr (res', db') \<and> res = res'\<lparr>cr_dry_run := False\<rparr>)"
  by (auto simp: run_data_lifecycle_cleanup_def ebind_Inr_iff)

section \<open>A database to try them on\<close>

definition demo_row :: "string \<Rightarrow> run_status \<Rightarrow> instant option \<Rightarrow> int option \<Rightarrow> string option \<Rightarrow> run_row" where
  "demo_row i st deleted retention parent =
     \<lparr>run_id = i, run_teacher_id = ''t1'', run_organization_id = ''org'', run_status = st,
      run_current_step = 1, run_raw_request = ''fractions'',
      run_class_info = [(''student_evidence'', JObj [(''email'', JStr ''a@b''), (''level'', JInt 2)])],
      run_retention_days = retention, run_artifact_types = [], run_theme = ''default'',
      run_quality_passed = False, run_teacher_approved = False, run_revision_count = 0,
      run_export_formats = [], run_tokens_used = 0, run_deleted_at = deleted, run_deleted_by = None,
      run_parent_run_id = parent, run_session_id = None, run_session_index = None,
      run_unit_role = STANDALONE,
      run_lesson_sequence = None\<rparr>"

definition demo_unit :: "int option \<Rightarrow> run_row" where
  "demo_unit retention = demo_row ''u'' CANCELLED (Some (days 100)) retention None"

definition demo_session_run :: run_row where
  "demo_session_run = demo_row ''s'' PENDING None None (Some ''u'')"

definition demo_other :: run_row where
  "demo_other = demo_row ''o'' PENDING None None None"

definition demo_event :: "string \<Rightarrow> instant \<Rightarrow> event_row" where
  "demo_event r t = \<lparr>ev_run_id = r, ev_sequence = 1, ev_name = ''teaching_pack.run.created'', ev_stage = None,
     ev_visibility = VIS_TEACHER, ev_payload = None, ev_created_at = t\<rparr>"

definition demo_outbox :: "nat \<Rightarrow> string \<Rightarrow> outbox_row" where
  "demo_outbox i r = \<lparr>outbox_id = i, ob_run_id = r, ob_sequence = 1, ob_dedupe_key = dedupe_key r 1,
     ob_status = OB_PUBLISHED, ob_attempts = 1, ob_available_at = None, ob_lease_owner = None,
     ob_lease_expires_at = None, ob_last_error = None, ob_published_at = None\<rparr>"

definition demo_history :: "string \<Rightarrow> run_status \<Rightarrow> history_row" where
  "demo_history r st = \<lparr>hist_run_id = r, hist_status = st, hist_stage = None, hist_reason = None\<rparr>"

text \<open>The unit was deleted on day 100; every run has one event, written at \<open>t\<close>.\<close>

definition demo_lifecycle :: "int option \<Rightarrow> instant \<Rightarrow> lifecycle_db" where
  "demo_lifecycle retention t =
     \<lparr>lc_gateway = \<lparr>g_pack = \<lparr>runs = [demo_unit retention, demo_session_run, demo_other],
          run_history = [demo_history ''u'' PENDING, demo_history ''u'' CANCELLED,
            demo_history ''s'' PENDING, demo_history ''o'' PENDING],
          run_events = [demo_event ''u'' t, demo_event ''s'' t, demo_event ''o'' t],
          outbox = [demo_outbox 1 ''u'', demo_outbox 2 ''s'', demo_outbox 3 ''o''], next_outbox_id = 4,
          pending_event_run_ids = []\<rparr>,
        g_jobs = [], g_control = \<lparr>contracts = [], contract_revisions = [], gates = [],
          gate_responses = [], workflows = []\<rparr>,
        g_snapshots = [], g_exports = [], g_notices = [], g_bus = (\<lambda>_. 0)\<rparr>,
      lc_created_at = (\<lambda>_. 0), lc_updated_at = (\<lambda>_. 0), lc_artifacts = [], lc_profiles = [],
      lc_rollups = []\<rparr>"

lemmas demo_rows = demo_unit_def demo_session_run_def demo_other_def demo_row_def

lemma demo_runs: "runs (lc_pack (demo_lifecycle ret t)) = [demo_unit ret, demo_session_run, demo_other]"
  and demo_events: "run_events (lc_pack (demo_lifecycle ret t)) = [demo_event ''u'' t, demo_event ''s'' t, demo_event ''o'' t]"
  and demo_rollups: "lc_rollups (demo_lifecycle ret t) = []"
  and demo_created: "lc_created_at (demo_lifecycle ret t) = (\<lambda>_. 0)"
  by (simp_all add: demo_lifecycle_def)

lemma demo_distinct: "distinct (map run_id (runs (lc_pack (demo_lifecycle ret t))))"
  by (simp add: demo_runs demo_rows)

lemma demo_prunable:
  "days 100 + days n < now \<Longrightarrow>
     is_prunable now None (build_run_prune_context (demo_lifecycle ret t) (demo_unit ret')) n"
  by (simp add: is_prunable_iff build_run_prune_context_def auto_approved_times_def demo_rows
      demo_lifecycle_def demo_event_def)

lemma demo_safe: "safe_run now (demo_lifecycle ret t) demo_other"
proof -
  have protected: "prune_protected now db demo_other" for db
    by (simp add: prune_protected_def demo_rows)
  have "a = ''o''" if "descends (links (runs (lc_pack (demo_lifecycle ret t)))) a b" "b = ''o''" for a b
    using that by (induction rule: descends.induct) (auto simp: links_def demo_runs demo_rows)
  then show ?thesis
    using protected by (auto simp: safe_run_def demo_runs) (auto simp: demo_rows)
qed

text \<open>A pass over events that accrue no cost cannot fail.\<close>

lemma count_events_total:
  "\<forall>e \<in> set es. ev_name e \<noteq> ''cost_accrued'' \<Longrightarrow> \<exists>k'. count_events py_str es k = Inr k'"
proof (induction es arbitrary: k)
  case Nil
  then show ?case by simp
next
  case (Cons e es)
  then have "\<exists>k'. count_event py_str (ev_name e) (ev_payload e) k = Inr k'"
    unfolding count_event_def Let_def by (auto split: if_split)
  then obtain k' where "count_event py_str (ev_name e) (ev_payload e) k = Inr k'" by blast
  then show ?case using Cons by simp
qed

lemma roll_up_days_total:
  "\<forall>e \<in> set (run_events (lc_pack db)). ev_name e \<noteq> ''cost_accrued'' \<Longrightarrow>
     \<exists>db'. roll_up_days py_str now ds db = Inr db'"
proof (induction ds arbitrary: db)
  case Nil
  then show ?case by simp
next
  case (Cons d ds)
  have "\<forall>e \<in> set (events_of_day d (lc_pack db)). ev_name e \<noteq> ''cost_accrued''"
    using Cons.prems by (simp add: events_of_day_eq)
  from count_events_total [OF this] obtain k where "count_events py_str (events_of_day d (lc_pack db)) empty_kpi = Inr k"
    by blast
  then show ?case using Cons
    by (simp add: ensure_kpi_rollup_for_day_def compute_daily_kpi_rollup_def Let_def)
qed

lemma cleanup_total:
  assumes "\<forall>e \<in> set (run_events (lc_pack db)). ev_name e \<noteq> ''cost_accrued''"
  shows "\<exists>res db'. run_data_lifecycle_cleanup py_str now dry db = Inr (res, db')"
proof -
  obtain db0 where "roll_up_days py_str now (days_needing_rollup_before_purge now (rc_events default_config) (lc_pack db)) db = Inr db0"
    using roll_up_days_total [OF assms] by blast
  then show ?thesis by (simp add: run_data_lifecycle_cleanup_def purge_pass_def Let_def split_beta)
qed

lemma demo_cleanup: "\<exists>res db'. run_data_lifecycle_cleanup py_str now dry (demo_lifecycle ret t) = Inr (res, db')"
  by (rule cleanup_total) (simp add: demo_events demo_event_def)

section \<open>Claims\<close>



text \<open>
  The purge of a unit parent deletes its session runs as well, and their
  events, whatever their status: nothing asks whether a session is in flight, undeleted or waiting
  at a gate.
\<close>
lemma purge_takes_sessions:
  assumes "distinct (map run_id (runs (lc_pack db)))" and "parent \<in> set (runs (lc_pack db))"
    and "is_prunable now None (build_run_prune_context db parent) (run_retention parent)"
    and "child \<in> set (runs (lc_pack db))" and "run_parent_run_id child = Some (run_id parent)"
    and "purge_expired_runs now db = (ids, db')"
  shows "child \<notin> set (runs (lc_pack db')) \<and> (\<forall>e \<in> set (run_events (lc_pack db')). ev_run_id e \<noteq> run_id child)"
proof -
  have "family_inv db db" by (simp add: family_inv_refl)
  note removed = purge_runs_removes [OF assms(1) this assms(1) _ assms(6) [unfolded purge_expired_runs_def]]
  have "parent \<in> set (deleted_runs db)"
    using assms(2) prunable_needs_deletion [OF assms(3)] by (simp add: deleted_runs_def)
  then have inv: "family_inv db db'" and "parent \<notin> set (runs (lc_pack db'))"
    using removed assms(3) by (auto simp: deleted_runs_def)
  then have "child \<notin> set (runs (lc_pack db'))" using family_invD(2) [OF inv assms(2) _ assms(5)] by blast
  then show ?thesis using family_invD(4) [OF inv assms(4)] by blast
qed

lemma purge_takes_sessions_witness:
  "demo_session_run \<notin> set (runs (lc_pack (snd (purge_expired_runs (days 500) (demo_lifecycle None 0)))))"
proof -
  obtain ids db' where run: "purge_expired_runs (days 500) (demo_lifecycle None 0) = (ids, db')" by fastforce
  have "is_prunable (days 500) None (build_run_prune_context (demo_lifecycle None 0) (demo_unit None))
      (run_retention (demo_unit None))"
    by (rule demo_prunable) (simp add: days_def run_retention_def demo_rows default_config_def)
  then have "demo_session_run \<notin> set (runs (lc_pack db'))"
    using purge_takes_sessions [OF demo_distinct _ _ _ _ run, of "demo_unit None" demo_session_run]
    by (simp add: demo_runs) (simp add: demo_rows)
  then show ?thesis by (simp add: run)
qed

end
