(* ===== verification/Cleanup_Claims.thy ===== *)
theory Cleanup_Claims
  imports Cleanup Control_Laws
begin

text \<open>
  The remaining claims on retention: the bulk deletes as one statement, the KPI rollups that a
  second pass overwrites or that are never made, the restore that purged events block, and the
  redaction of student evidence.
\<close>

section \<open>Rollups and purged events\<close>

text \<open>
  The loop over prunable runs with one \<open>DELETE\<close> each is one \<open>DELETE\<close>
  of the events of all of them, counts every removed row once and touches nothing else.
\<close>
lemma purge_events_is_one_delete:
  "purge_expired_run_events now db =
     (let gone = (\<lambda>e. \<exists>x \<in> set (runs (lc_pack db)). run_id x = ev_run_id e \<and>
            is_prunable now None (build_run_prune_context db x) 90);
          es = run_events (lc_pack db)
      in (length (filter gone es), set_pack ((lc_pack db)\<lparr>run_events := filter (\<lambda>e. \<not> gone e) es\<rparr>) db))"
proof -
  have "ev_run_id e \<in> run_id ` set (prunable_deleted_runs now 90 db) \<longleftrightarrow>
      (\<exists>x \<in> set (runs (lc_pack db)). run_id x = ev_run_id e \<and>
        is_prunable now None (build_run_prune_context db x) 90)" for e :: event_row
    using prunable_needs_deletion by (force simp: prunable_deleted_runs_def deleted_runs_def image_iff)
  then show ?thesis
    unfolding purge_expired_run_events_def delete_each_events default_config_def Let_def by simp
qed

text \<open>
  A pass rolls up the day of a purged event correctly, but as long as another
  event of that day is kept the next pass rolls the day up again from what is left, so the recorded
  count drops below the number of events the day had.
\<close>
lemma rollup_overwritten:
  assumes "run_data_lifecycle_cleanup py_str now False db = Inr (res, db1)"
    and "run_data_lifecycle_cleanup py_str now2 False db1 = Inr (res2, db2)" and "now \<le> now2"
    and "e \<in> set (run_events (lc_pack db))" and "e \<notin> set (run_events (lc_pack db1))"
    and "f \<in> set (run_events (lc_pack db1))" and "ev_created_at f < now - days 90"
    and "day_of (ev_created_at e) = d" and "day_of (ev_created_at f) = d"
  shows "\<exists>k1 k2. rollup_of db1 d = Some k1 \<and> rollup_of db2 d = Some k2
    \<and> kpi_event_count k1 = length (events_of_day d (lc_pack db)) \<and> kpi_event_count k2 < kpi_event_count k1"
proof -
  obtain r1 r2 where p1: "purge_pass py_str now db = Inr (r1, db1)"
    and p2: "purge_pass py_str now2 db1 = Inr (r2, db2)"
    using assms(1,2) by (auto simp: cleanup_pass)
  obtain q where q: "run_events (lc_pack db1) = filter q (run_events (lc_pack db))"
    using purge_pass_sub_events [OF p1] by (auto simp: sub_events_def)
  have old: "d \<in> set (days_needing_rollup_before_purge now 90 (lc_pack db))"
    using assms(6,7,9) q by (auto simp: days_needing_iff)
  have "d \<in> set (days_needing_rollup_before_purge now2 90 (lc_pack db1))"
    unfolding days_needing_iff by (rule bexI [OF _ assms(6)]) (use assms(3,7,9) in simp)
  then obtain k2 where k2: "rollup_of db2 d = Some k2" "kpi_event_count k2 = length (events_of_day d (lc_pack db1))"
    using purge_pass_rollup(2) [OF p2] by blast
  obtain k1 where k1: "rollup_of db1 d = Some k1" "kpi_event_count k1 = length (events_of_day d (lc_pack db))"
    using purge_pass_rollup(2) [OF p1 old] by blast
  have "events_of_day d (lc_pack db1) = filter q (events_of_day d (lc_pack db))"
    by (simp add: events_of_day_eq q conj_commute)
  moreover have "e \<in> set (events_of_day d (lc_pack db))" and "\<not> q e"
    using assms(4,5,8) q by (auto simp: events_of_day_eq)
  ultimately have "length (events_of_day d (lc_pack db1)) < length (events_of_day d (lc_pack db))"
    by (simp add: length_filter_less)
  with k1 k2 show ?thesis by simp
qed

lemma rollup_overwritten_witness:
  "\<exists>res db1 res2 db2. run_data_lifecycle_cleanup (\<lambda>_. []) (days 500) False (demo_lifecycle None (days 10)) = Inr (res, db1)
     \<and> run_data_lifecycle_cleanup (\<lambda>_. []) (days 501) False db1 = Inr (res2, db2)
     \<and> (\<exists>k1 k2. rollup_of db1 10 = Some k1 \<and> rollup_of db2 10 = Some k2
          \<and> kpi_event_count k1 = 3 \<and> kpi_event_count k2 < 3)"
proof -
  let ?db = "demo_lifecycle None (days 10)"
  obtain res db1 where 1: "run_data_lifecycle_cleanup (\<lambda>_. []) (days 500) False ?db = Inr (res, db1)"
    using demo_cleanup by blast
  then obtain r1 where pass: "purge_pass (\<lambda>_. []) (days 500) ?db = Inr (r1, db1)" by (auto simp: cleanup_pass)
  have sub: "set (run_events (lc_pack db1)) \<subseteq> set (run_events (lc_pack ?db))"
    using purge_pass_sub_events [OF pass] by (auto simp: sub_events_def)
  have day: "day_of (days 10) = 10" by (simp add: day_of_def days_def)
  have "\<forall>e \<in> set (run_events (lc_pack ?db)). ev_name e \<noteq> ''cost_accrued''"
    by (simp add: demo_events demo_event_def)
  with sub have "\<forall>e \<in> set (run_events (lc_pack db1)). ev_name e \<noteq> ''cost_accrued''" by blast
  from cleanup_total [OF this] obtain res2 db2
    where 2: "run_data_lifecycle_cleanup (\<lambda>_. []) (days 501) False db1 = Inr (res2, db2)" by blast
  have gone: "ev_run_id e \<noteq> run_id (demo_unit None)" if "e \<in> set (run_events (lc_pack db1))" for e
    by (rule pruned_events_go [OF pass _ demo_prunable that]) (simp_all add: demo_runs days_def)
  have "ev_run_id (demo_event ''u'' (days 10)) = run_id (demo_unit None)"
    by (simp add: demo_event_def demo_rows)
  then have "demo_event ''u'' (days 10) \<notin> set (run_events (lc_pack db1))" using gone by blast
  moreover have "data_of ''o'' db1 = data_of ''o'' ?db"
    using purge_invD(3) [OF purge_pass_inv [OF pass demo_distinct] demo_safe]
    by (simp add: spared_def demo_rows)
  then have "filter (\<lambda>e. ev_run_id e = ''o'') (run_events (lc_pack db1)) = [demo_event ''o'' (days 10)]"
    by (simp add: data_of_def Let_def demo_events demo_event_def)
  then have "demo_event ''o'' (days 10) \<in> set (run_events (lc_pack db1))"
    using filter_singletonD by metis
  ultimately have member: "demo_event ''u'' (days 10) \<in> set (run_events (lc_pack ?db))"
    "demo_event ''u'' (days 10) \<notin> set (run_events (lc_pack db1))"
    "demo_event ''o'' (days 10) \<in> set (run_events (lc_pack db1))"
    by (simp_all add: demo_events)
  have at: "ev_created_at (demo_event r t) = t" for r t by (simp add: demo_event_def)
  have "\<exists>k1 k2. rollup_of db1 10 = Some k1 \<and> rollup_of db2 10 = Some k2
      \<and> kpi_event_count k1 = length (events_of_day 10 (lc_pack ?db)) \<and> kpi_event_count k2 < kpi_event_count k1"
    using rollup_overwritten [OF 1 2 _ member(1) member(2) member(3), of 10] at day by (simp add: days_def)
  moreover have "length (events_of_day 10 (lc_pack ?db)) = 3"
    by (simp add: events_of_day_eq demo_events day demo_event_def)
  ultimately have "\<exists>k1 k2. rollup_of db1 10 = Some k1 \<and> rollup_of db2 10 = Some k2
      \<and> kpi_event_count k1 = 3 \<and> kpi_event_count k2 < 3" by metis
  with 1 2 show ?thesis by blast
qed

text \<open>
  A run kept for less than the ninety days of events (as every run
  with student evidence is) is purged with events whose days are too young to be rolled up: they
  leave the ledger and no rollup ever counts them.
\<close>
lemma short_retention_loses_kpis:
  assumes "run_data_lifecycle_cleanup py_str now False db = Inr (res, db')"
    and "distinct (map run_id (runs (lc_pack db)))" and "x \<in> set (runs (lc_pack db))"
    and "is_prunable now None (build_run_prune_context db x) (run_retention x)"
    and "e \<in> set (run_events (lc_pack db))" and "ev_run_id e = run_id x"
    and "\<forall>f \<in> set (run_events (lc_pack db)). day_of (ev_created_at f) = day_of (ev_created_at e) \<longrightarrow>
      now - days 90 \<le> ev_created_at f"
  shows "e \<notin> set (run_events (lc_pack db'))
     \<and> rollup_of db' (day_of (ev_created_at e)) = rollup_of db (day_of (ev_created_at e))"
proof -
  obtain r where pass: "purge_pass py_str now db = Inr (r, db')" using assms(1) by (auto simp: cleanup_pass)
  have "day_of (ev_created_at e) \<notin> set (days_needing_rollup_before_purge now 90 (lc_pack db))"
    using assms(7) by (fastforce simp: days_needing_iff)
  then have "rollup_of db' (day_of (ev_created_at e)) = rollup_of db (day_of (ev_created_at e))"
    by (rule purge_pass_rollup(1) [OF pass])
  moreover have "e \<notin> set (run_events (lc_pack db'))"
    using purged_with_run [OF pass assms(2-4)] assms(6) by blast
  ultimately show ?thesis by simp
qed

lemma short_retention_loses_kpis_witness:
  "\<exists>res db'. run_data_lifecycle_cleanup (\<lambda>_. []) (days 135) False (demo_lifecycle (Some 30) (days 95)) = Inr (res, db')
     \<and> demo_event ''u'' (days 95) \<notin> set (run_events (lc_pack db')) \<and> rollup_of db' 95 = None"
proof -
  let ?db = "demo_lifecycle (Some 30) (days 95)" and ?e = "demo_event ''u'' (days 95)"
  obtain res db' where run: "run_data_lifecycle_cleanup (\<lambda>_. []) (days 135) False ?db = Inr (res, db')"
    using demo_cleanup by blast
  have "is_prunable (days 135) None (build_run_prune_context ?db (demo_unit (Some 30))) (run_retention (demo_unit (Some 30)))"
    by (rule demo_prunable) (simp add: days_def run_retention_def demo_rows)
  then have "?e \<notin> set (run_events (lc_pack db')) \<and> rollup_of db' (day_of (ev_created_at ?e)) = rollup_of ?db (day_of (ev_created_at ?e))"
    by (intro short_retention_loses_kpis [OF run demo_distinct])
      (simp_all add: demo_runs demo_events demo_event_def days_def, simp add: demo_rows)
  moreover have "day_of (ev_created_at ?e) = 95" by (simp add: demo_event_def day_of_def days_def)
  moreover have "rollup_of ?db 95 = None" by (simp add: rollup_of_def demo_rollups)
  ultimately show ?thesis using run by metis
qed

section \<open>Purged events and restoring\<close>

text \<open>
  The events of a deleted run are purged long before the run, but not
  its outbox rows. Restoring the run then always fails: its first new event takes number one again,
  which the outbox has already seen; so does every other write to its ledger.
\<close>
lemma purged_events_block_restore:
  assumes "pack_ok (lc_pack db)" and "x \<in> set (runs (lc_pack db))"
    and "is_prunable now None (build_run_prune_context db x) 90"
    and "\<exists>e \<in> set (run_events (lc_pack db)). ev_run_id e = run_id x"
    and "purge_expired_run_events now db = (n, db')"
  shows "restore_run later (run_id x) who db' = Inl IntegrityError
     \<and> (ec_run_id ec = run_id x \<longrightarrow> write_event later ec (lc_pack db') = Inl IntegrityError)"
proof -
  let ?ids = "run_id ` set (prunable_deleted_runs now 90 db)"
  note ok = pack_okD [OF assms(1)]
  have db': "db' = set_pack ((lc_pack db)\<lparr>run_events :=
      filter (\<lambda>e. ev_run_id e \<notin> ?ids) (run_events (lc_pack db))\<rparr>) db"
    using assms(5) unfolding purge_expired_run_events_def delete_each_events
    by (simp add: default_config_def)
  have "x \<in> set (prunable_deleted_runs now 90 db)"
    using assms(2,3) prunable_needs_deletion by (simp add: prunable_deleted_runs_def deleted_runs_def)
  then have none: "event_seqs (lc_pack db') (run_id x) = []"
    by (auto simp: event_seqs_def db' filter_empty_conv)
  have "event_seqs (lc_pack db) (run_id x) \<noteq> []"
    using assms(4) by (auto simp: event_seqs_def filter_empty_conv)
  then have "1 \<in> set (event_seqs (lc_pack db) (run_id x))"
    using ok(3) by (auto simp: ledger_ok_def gapless_set Suc_le_eq)
  then have "(run_id x, 1) \<in> set (map (\<lambda>b. (ob_run_id b, ob_sequence b)) (outbox (lc_pack db)))"
    using ok(4) by (simp only: event_seqs_mem outbox_ok_def)
  then have taken: "\<exists>b \<in> set (outbox (lc_pack db')). ob_run_id b = run_id x \<and> ob_sequence b = 1"
    by (auto simp: db')
  have blocked: "insert_event later (run_id x) name stg vis payload p = Inl IntegrityError"
    if "run_events p = run_events (lc_pack db')" "outbox p = outbox (lc_pack db')" for name stg vis payload p
  proof -
    have "event_next_sequence p (run_id x) = 1"
      using none by (simp add: event_next_sequence_def event_seqs_def that next_seq_def)
    then show ?thesis
      using taken by (auto simp: insert_event_def Let_def outbox_enqueue_def that)
  qed
  have "find_run (run_id x) db' = Inr (Some x)"
    using filter_key_le_one [OF ok(1) assms(2)] by (simp add: find_run_def db')
  then show ?thesis
    by (simp add: restore_run_def write_lifecycle_event_def write_event_def touch_run_def blocked)
qed

lemma demo_pack_ok: "pack_ok (lc_pack (demo_lifecycle ret t))"
proof -
  let ?p = "lc_pack (demo_lifecycle ret t)"
  have hist: "run_history ?p = [demo_history ''u'' PENDING, demo_history ''u'' CANCELLED,
      demo_history ''s'' PENDING, demo_history ''o'' PENDING]"
    and out: "outbox ?p = [demo_outbox 1 ''u'', demo_outbox 2 ''s'', demo_outbox 3 ''o'']" "next_outbox_id ?p = 4"
    by (simp_all add: demo_lifecycle_def)
  have "history_ok ?p"
    by (simp add: history_ok_def statuses_of_def demo_runs hist demo_history_def demo_rows run_exists_def
        run_machine.accepted_iff)
  moreover have "ledger_ok ?p"
    by (auto simp: ledger_ok_def event_seqs_def demo_events demo_event_def run_exists_def demo_runs demo_rows
        gapless_def)
  moreover have "outbox_ok ?p"
    by (simp add: outbox_ok_def out demo_outbox_def demo_events demo_event_def)
  ultimately show ?thesis using demo_distinct by (simp add: pack_ok_def)
qed

lemma purged_events_block_restore_witness:
  "restore_run (days 301) ''u'' ''t1'' (snd (purge_expired_run_events (days 300) (demo_lifecycle None 0)))
     = Inl IntegrityError"
proof -
  obtain n db' where run: "purge_expired_run_events (days 300) (demo_lifecycle None 0) = (n, db')" by fastforce
  have "is_prunable (days 300) None (build_run_prune_context (demo_lifecycle None 0) (demo_unit None)) 90"
    by (rule demo_prunable) (simp add: days_def)
  then have "restore_run (days 301) (run_id (demo_unit None)) ''t1'' db' = Inl IntegrityError"
    using purged_events_block_restore [OF demo_pack_ok _ _ _ run, of "demo_unit None"]
    by (simp add: demo_runs demo_events) (simp add: demo_event_def demo_rows)
  then show ?thesis by (simp add: run demo_rows)
qed

section \<open>Student evidence\<close>

definition redact_row :: "run_row \<Rightarrow> run_row" where
  "redact_row x = (case redacted_class_info (run_class_info x) of
     None \<Rightarrow> x | Some info \<Rightarrow> x\<lparr>run_class_info := info\<rparr>)"

lemma redact_row_id [simp]: "run_id (redact_row x) = run_id x"
  by (simp add: redact_row_def split: option.split)

lemma fold_redact:
  assumes "distinct (map run_id (runs (lc_pack db)))" and "distinct ys" and "set ys \<subseteq> set (runs (lc_pack db))"
  shows "fst (fold (redact_run now) ys (n, db)) =
      n + length (filter (\<lambda>y. redacted_class_info (run_class_info y) \<noteq> None) ys)
    \<and> runs (lc_pack (snd (fold (redact_run now) ys (n, db)))) =
      map (\<lambda>z. if z \<in> set ys then redact_row z else z) (runs (lc_pack db))"
  using assms(2,3)
proof (induction ys rule: rev_induct)
  case Nil
  then show ?case by simp
next
  case (snoc y ys)
  obtain k db1 where IH: "fold (redact_run now) ys (n, db) = (k, db1)" by fastforce
  with snoc have k: "k = n + length (filter (\<lambda>y. redacted_class_info (run_class_info y) \<noteq> None) ys)"
    and rs: "runs (lc_pack db1) = map (\<lambda>z. if z \<in> set ys then redact_row z else z) (runs (lc_pack db))"
    by simp_all
  have y: "y \<in> set (runs (lc_pack db))" "y \<notin> set ys" using snoc.prems by simp_all
  have key: "z = y" if "z \<in> set (runs (lc_pack db))" "run_id z = run_id y" for z
    using distinct_key_eq [OF assms(1) that(1) y(1)] that(2) by simp
  have fold: "fold (redact_run now) (ys @ [y]) (n, db) = redact_run now y (k, db1)" by (simp add: IH)
  show ?case
  proof (cases "redacted_class_info (run_class_info y)")
    case None
    then have "redact_row y = y" and "redact_run now y (k, db1) = (k, db1)"
      by (simp_all add: redact_row_def redact_run_def)
    then show ?thesis using None y(2) unfolding fold by (auto simp: k rs)
  next
    case (Some info)
    then have row: "redact_row y = y\<lparr>run_class_info := info\<rparr>" by (simp add: redact_row_def)
    have step: "redact_run now y (k, db1) = (k + 1, touch_run now (run_id y) (\<lambda>z. z\<lparr>run_class_info := info\<rparr>) db1)"
      using Some by (simp add: redact_run_def)
    have "runs (lc_pack (snd (redact_run now y (k, db1)))) =
        map (\<lambda>z. if z \<in> set (ys @ [y]) then redact_row z else z) (runs (lc_pack db))"
      unfolding step by (simp add: touch_run_def set_pack_def update_where_def rs)
        (use key y(2) row in auto)
    moreover have "fst (redact_run now y (k, db1)) = k + 1" unfolding step by simp
    ultimately show ?thesis using Some unfolding fold by (simp add: k)
  qed
qed

lemma redacted_class_info_clean:
  "redacted_class_info info = Some info' \<Longrightarrow>
     \<exists>ev. dict_get info' ''student_evidence'' = JObj ev \<and> set (map fst ev) \<inter> set STUDENT_EVIDENCE_PII_KEYS = {}"
  by (auto simp: redacted_class_info_def Let_def dict_get_def dict_merge_def update_conv' split: json.splits if_splits)

lemma not_redacted_clean:
  "redacted_class_info info = None \<Longrightarrow> dict_get info ''student_evidence'' = JObj ev \<Longrightarrow>
     set (map fst ev) \<inter> set STUDENT_EVIDENCE_PII_KEYS = {}"
  by (auto simp: redacted_class_info_def Let_def filter_id_conv split: if_splits)

lemma clean_not_redacted:
  assumes "dict_get info ''student_evidence'' = JObj ev" and "set (map fst ev) \<inter> set STUDENT_EVIDENCE_PII_KEYS = {}"
  shows "redacted_class_info info = None"
proof -
  have "filter (\<lambda>(k, v). k \<notin> set STUDENT_EVIDENCE_PII_KEYS) ev = ev"
    using assms(2) by (auto simp: filter_id_conv)
  then show ?thesis using assms(1) by (simp add: redacted_class_info_def)
qed

lemma redact_row_clean: "redacted_class_info (run_class_info (redact_row x)) = None"
proof (cases "redacted_class_info (run_class_info x)")
  case None
  then show ?thesis by (simp add: redact_row_def)
next
  case (Some info)
  with redacted_class_info_clean [OF Some] clean_not_redacted show ?thesis by (auto simp: redact_row_def)
qed

lemma redacted_runs:
  assumes "distinct (map run_id (runs (lc_pack db)))" and "purge_student_evidence now db = (n, db')"
  shows "runs (lc_pack db') = map (\<lambda>z. if lc_created_at db (run_id z) < now - days 30 then redact_row z else z)
      (runs (lc_pack db))"
    and "lc_created_at db' = lc_created_at db"
proof -
  let ?old = "filter (\<lambda>x. lc_created_at db (run_id x) < now - days 30) (runs (lc_pack db))"
  have dist: "distinct ?old" using assms(1) by (simp add: distinct_map)
  have sub: "set ?old \<subseteq> set (runs (lc_pack db))" by auto
  have db': "db' = snd (fold (redact_run now) ?old (0, db))"
  proof -
    have "rc_student_evidence default_config = 30" by (simp add: default_config_def)
    with assms(2) show ?thesis unfolding purge_student_evidence_def by (simp only: snd_conv)
  qed
  have "runs (lc_pack db') = map (\<lambda>z. if z \<in> set ?old then redact_row z else z) (runs (lc_pack db))"
    unfolding db' by (rule conjunct2 [OF fold_redact [OF assms(1) dist sub]])
  then show "runs (lc_pack db') = map (\<lambda>z. if lc_created_at db (run_id z) < now - days 30 then redact_row z else z)
      (runs (lc_pack db))" by (simp cong: map_cong)
  have "lc_created_at (snd (fold (redact_run now) xs s)) = lc_created_at (snd s)" for xs s
    by (induction xs arbitrary: s)
      (simp_all add: redact_run_def split_beta touch_run_def set_pack_def split: option.split)
  then show "lc_created_at db' = lc_created_at db" by (simp add: db')
qed

lemma fold_nothing_to_redact:
  "\<forall>x \<in> set xs. redacted_class_info (run_class_info x) = None \<Longrightarrow> fold (redact_run now) xs s = s"
  by (induction xs arbitrary: s) (simp_all add: redact_run_def)

text \<open>
  C33: after the redaction no run older than thirty days holds a name, mail address,
  score or identifier among its student evidence, and redacting again at once finds nothing to do.
\<close>
theorem evidence_redacted:
  assumes "distinct (map run_id (runs (lc_pack db)))" and "purge_student_evidence now db = (n, db')"
  shows "(\<forall>x \<in> set (runs (lc_pack db')). \<forall>ev. lc_created_at db' (run_id x) < now - days 30 \<longrightarrow>
      dict_get (run_class_info x) ''student_evidence'' = JObj ev \<longrightarrow>
      set (map fst ev) \<inter> {''name'', ''student_name'', ''email'', ''score'', ''class_id'', ''student_id''} = {})
    \<and> purge_student_evidence now db' = (0, db')"
proof -
  note after = redacted_runs [OF assms]
  have clean: "redacted_class_info (run_class_info x) = None"
    if "x \<in> set (runs (lc_pack db'))" "lc_created_at db' (run_id x) < now - days 30" for x
    using that redact_row_clean by (auto simp: after)
  then have "\<forall>x \<in> set (filter (\<lambda>x. lc_created_at db' (run_id x) < now - days 30) (runs (lc_pack db'))).
      redacted_class_info (run_class_info x) = None" by simp
  then have idle: "fold (redact_run now) (filter (\<lambda>x. lc_created_at db' (run_id x) < now - days 30)
      (runs (lc_pack db'))) (0, db') = (0, db')" by (rule fold_nothing_to_redact)
  have "purge_student_evidence now db' = fold (redact_run now)
      (filter (\<lambda>x. lc_created_at db' (run_id x) < now - days 30) (runs (lc_pack db'))) (0, db')"
    by (simp add: purge_student_evidence_def default_config_def del: fold_simps)
  also have "\<dots> = (0, db')" by (rule idle)
  finally have again: "purge_student_evidence now db' = (0, db')" .
  have pii: "set (map fst ev) \<inter> {''name'', ''student_name'', ''email'', ''score'', ''class_id'', ''student_id''} = {}"
    if "x \<in> set (runs (lc_pack db'))" "lc_created_at db' (run_id x) < now - days 30"
      "dict_get (run_class_info x) ''student_evidence'' = JObj ev" for x ev
    using not_redacted_clean [OF clean [OF that(1,2)] that(3)] by (simp add: STUDENT_EVIDENCE_PII_KEYS_def)
  show ?thesis by (intro conjI ballI allI impI again) (rule pii)
qed

theorem evidence_redacted_witness:
  "purge_student_evidence (days 200) (snd (purge_student_evidence (days 200) (demo_lifecycle None 0)))
     = (0, snd (purge_student_evidence (days 200) (demo_lifecycle None 0)))"
proof -
  obtain n db' where run: "purge_student_evidence (days 200) (demo_lifecycle None 0) = (n, db')" by fastforce
  from evidence_redacted [OF demo_distinct run] show ?thesis by (simp add: run)
qed

end
