(* ===== verification/Unit_Orchestrator.thy ===== *)
theory Unit_Orchestrator
  imports Run_Ledger Job_Queue
begin

text \<open>
  Units: a parent run whose lesson sequence is taught in sessions, each a child run
  (\<open>services/gateway/unit_run_store.py\<close>, \<open>unit_orchestrator.py\<close>, the sequence's validator in
  \<open>common/contracts/lesson_sequence.py\<close>). The state is the run store, the job table and the stored
  sequences, of which only what the orchestrator reads and the validator bounds is kept. The random
  identifiers of a spawn are arguments, one pair per session.
\<close>

section \<open>Lesson sequences\<close>

record session_plan =
  sp_session_id :: string
  sp_order_index :: int
  sp_duration_minutes :: int
  sp_prerequisites :: "string list"

record lesson_sequence =
  lseq_total_sessions :: int
  lseq_total_duration :: int
  lseq_sessions :: "session_plan list"

definition session_plan_fields_ok :: "session_plan \<Rightarrow> bool" where
  "session_plan_fields_ok s \<longleftrightarrow>
     1 \<le> length (sp_session_id s) \<and> length (sp_session_id s) \<le> 32
     \<and> 1 \<le> sp_order_index s \<and> sp_order_index s \<le> 20
     \<and> 10 \<le> sp_duration_minutes s \<and> sp_duration_minutes s \<le> 90"

definition unknown_prerequisites :: "lesson_sequence \<Rightarrow> string list" where
  "unknown_prerequisites q =
     filter (\<lambda>p. p \<notin> set (map sp_session_id (lseq_sessions q)))
       (concat (map sp_prerequisites (lseq_sessions q)))"

definition validate_lesson_sequence :: "lesson_sequence \<Rightarrow> lesson_sequence result" where
  "validate_lesson_sequence q =
     (if \<not> (1 \<le> lseq_total_sessions q \<and> lseq_total_sessions q \<le> 20)
        \<or> \<not> (10 \<le> lseq_total_duration q \<and> lseq_total_duration q \<le> 1800)
        \<or> \<not> (1 \<le> length (lseq_sessions q) \<and> length (lseq_sessions q) \<le> 20)
        \<or> \<not> list_all session_plan_fields_ok (lseq_sessions q)
      then Inl (ValidationError ''lesson_sequence'')
      else if unknown_prerequisites q \<noteq> [] then Inl (ValidationError ''unknown_prerequisite_session'')
      else Inr q)"

section \<open>State\<close>

record unit_db =
  un_pack :: pack_db
  un_jobs :: jobs
  un_sequences :: "string \<Rightarrow> lesson_sequence option"

section \<open>The unit run store\<close>

record unit_parent_create =
  upc_run_id :: string
  upc_teacher_id :: string
  upc_raw_request :: string
  upc_class_info :: json_object
  upc_lesson_sequence :: lesson_sequence
  upc_retention_days :: "int option"

record unit_session_create =
  usc_run_id :: string
  usc_parent_run_id :: string
  usc_teacher_id :: string
  usc_session_id :: string
  usc_session_index :: int
  usc_raw_request :: string
  usc_class_info :: json_object
  usc_retention_days :: "int option"

record unit_session_read =
  usr_run_id :: string
  usr_parent_run_id :: string
  usr_session_id :: string
  usr_session_index :: int
  usr_status :: run_status
  usr_raw_request :: string

datatype unit_lifecycle = UNIT_BLOCKED | UNIT_PARTIALLY_COMPLETE | UNIT_COMPLETE

record unit_status_read =
  us_lifecycle :: unit_lifecycle
  us_total_sessions :: nat
  us_completed_sessions :: nat
  us_active_sessions :: nat
  us_failed_sessions :: nat

text \<open>Both rows of a new run: the organisation is the teacher's personal one, by the column's default.\<close>

definition add_run :: "run_row \<Rightarrow> pack_db \<Rightarrow> pack_db result" where
  "add_run x p =
     (if run_exists p (run_id x) then Inl IntegrityError
      else if (\<exists>r \<in> set (runs p). run_parent_run_id r \<noteq> None \<and> run_session_id r \<noteq> None \<and>
             run_parent_run_id r = run_parent_run_id x \<and> run_session_id r = run_session_id x)
      then Inl IntegrityError
      else if (case run_parent_run_id x of None \<Rightarrow> False | Some q \<Rightarrow> \<not> run_exists p q)
      then Inl IntegrityError
      else Inr (p\<lparr>runs := runs p @ [x],
             run_history := run_history p @
               [\<lparr>hist_run_id = run_id x, hist_status = PENDING, hist_stage = None,
                 hist_reason = Some ''created''\<rparr>]\<rparr>))"

definition unit_run :: "string \<Rightarrow> string \<Rightarrow> string \<Rightarrow> json_object \<Rightarrow> int option \<Rightarrow> string \<Rightarrow> run_row" where
  "unit_run i t raw info retention theme =
     \<lparr>run_id = i, run_teacher_id = t, run_organization_id = ''teacher:'' @ t, run_status = PENDING,
      run_current_step = 1, run_raw_request = raw, run_class_info = info,
      run_retention_days = retention, run_artifact_types = [], run_theme = theme,
      run_quality_passed = False, run_teacher_approved = False, run_revision_count = 0,
      run_export_formats = [''html''], run_tokens_used = 0, run_deleted_at = None,
      run_deleted_by = None, run_parent_run_id = None, run_session_id = None,
      run_session_index = None, run_unit_role = STANDALONE,
      run_lesson_sequence = None\<rparr>"

definition create_parent_run :: "unit_parent_create \<Rightarrow> unit_db \<Rightarrow> unit_db result" where
  "create_parent_run c db =
     ebind (add_run ((unit_run (upc_run_id c) (upc_teacher_id c) (upc_raw_request c) (upc_class_info c)
         (upc_retention_days c) ''default'')\<lparr>run_unit_role := UNIT_PARENT\<rparr>) (un_pack db))
       (\<lambda>p. Inr (db\<lparr>un_pack := p,
          un_sequences := (un_sequences db)(upc_run_id c \<mapsto> upc_lesson_sequence c)\<rparr>))"

definition parent_run :: "string \<Rightarrow> pack_db \<Rightarrow> run_row option result" where
  "parent_run r p = scalar_one_or_none (filter (\<lambda>x. run_id x = r) (runs p))"

definition create_child_run :: "unit_session_create \<Rightarrow> pack_db \<Rightarrow> pack_db result" where
  "create_child_run c p =
     ebind (parent_run (usc_parent_run_id c) p)
       (\<lambda>parent. add_run ((unit_run (usc_run_id c) (usc_teacher_id c) (usc_raw_request c)
            (usc_class_info c) (usc_retention_days c)
            (case parent of None \<Rightarrow> ''default'' | Some x \<Rightarrow> run_theme x))
          \<lparr>run_parent_run_id := Some (usc_parent_run_id c), run_session_id := Some (usc_session_id c),
           run_session_index := Some (usc_session_index c), run_unit_role := UNIT_SESSION\<rparr>) p)"

definition child_rows :: "string \<Rightarrow> pack_db \<Rightarrow> run_row list" where
  "child_rows parent p =
     filter (\<lambda>x. run_session_id x \<noteq> None \<and> run_session_index x \<noteq> None)
       (sort_key (\<lambda>x. the_default 0 (run_session_index x))
         (filter (\<lambda>x. run_parent_run_id x = Some parent \<and> run_unit_role x = UNIT_SESSION) (runs p)))"

definition list_children :: "string \<Rightarrow> pack_db \<Rightarrow> unit_session_read list" where
  "list_children parent p =
     map (\<lambda>x. \<lparr>usr_run_id = run_id x, usr_parent_run_id = parent,
                usr_session_id = the_default [] (run_session_id x),
                usr_session_index = the_default 0 (run_session_index x),
                usr_status = run_status x, usr_raw_request = run_raw_request x\<rparr>) (child_rows parent p)"

definition get_lesson_sequence :: "string \<Rightarrow> unit_db \<Rightarrow> lesson_sequence option" where
  "get_lesson_sequence r db =
     (if \<exists>x \<in> set (runs (un_pack db)). run_id x = r \<and> run_unit_role x = UNIT_PARENT
      then un_sequences db r else None)"

fun is_active_status :: "run_status \<Rightarrow> bool" where
  "is_active_status COMPLETED = False"
| "is_active_status FAILED = False"
| "is_active_status CANCELLED = False"
| "is_active_status _ = True"

definition unit_lifecycle :: "nat \<Rightarrow> nat \<Rightarrow> nat \<Rightarrow> nat \<Rightarrow> unit_lifecycle" where
  "unit_lifecycle n completed active failed =
     (if n = 0 then UNIT_BLOCKED
      else if completed = n then UNIT_COMPLETE
      else if active = 0 \<and> completed = 0 \<and> 0 < failed then UNIT_BLOCKED
      else UNIT_PARTIALLY_COMPLETE)"

definition compute_unit_status :: "string \<Rightarrow> pack_db \<Rightarrow> unit_status_read" where
  "compute_unit_status parent p =
     (let sts = map usr_status (list_children parent p);
          completed = length (filter (\<lambda>s. s = COMPLETED) sts);
          active = length (filter is_active_status sts);
          failed = length (filter (\<lambda>s. s \<in> {FAILED, CANCELLED}) sts)
      in \<lparr>us_lifecycle = unit_lifecycle (length sts) completed active failed,
          us_total_sessions = length sts, us_completed_sessions = completed,
          us_active_sessions = active, us_failed_sessions = failed\<rparr>)"

section \<open>Deciding\<close>

datatype orchestrator_action = SPAWN | BLOCK | MARK_PARTIALLY_COMPLETE | MARK_COMPLETE

record session_action =
  sa_session_id :: string
  sa_action :: orchestrator_action
  sa_reason :: string

text \<open>\<open>dag.predecessors\<close>: the distinct prerequisites of every session of that id, first seen first.\<close>

definition predecessors :: "lesson_sequence \<Rightarrow> string \<Rightarrow> string list" where
  "predecessors q sid = rev (remdups (rev (concat (map sp_prerequisites
     (filter (\<lambda>s. sp_session_id s = sid) (lseq_sessions q))))))"

definition session_action_of :: "string \<Rightarrow> orchestrator_action \<Rightarrow> string \<Rightarrow> session_action" where
  "session_action_of sid a why = \<lparr>sa_session_id = sid, sa_action = a, sa_reason = why\<rparr>"

definition status_in :: "run_status list \<Rightarrow> (string \<times> run_status) list \<Rightarrow> string \<Rightarrow> bool" where
  "status_in sts states p = (case map_of states p of None \<Rightarrow> False | Some s \<Rightarrow> s \<in> set sts)"

fun decide_sessions ::
  "lesson_sequence \<Rightarrow> (string \<times> run_status) list \<Rightarrow> int \<Rightarrow> session_plan list \<Rightarrow> session_action list"
where
  "decide_sessions q states slots [] = []"
| "decide_sessions q states slots (s # ss) =
     (let sid = sp_session_id s; prereqs = predecessors q sid
      in if sid \<in> set (map fst states) then decide_sessions q states slots ss
         else case filter (status_in [FAILED, CANCELLED] states) prereqs of
             p # _ \<Rightarrow> session_action_of sid BLOCK (''prerequisite '' @ p @ '' failed'')
                        # decide_sessions q states slots ss
           | [] \<Rightarrow>
               if \<not> list_all (status_in [COMPLETED] states) prereqs then decide_sessions q states slots ss
               else if 0 < slots
               then session_action_of sid SPAWN ''prerequisites satisfied''
                      # decide_sessions q states (slots - 1) ss
               else decide_sessions q states slots ss)"

definition sessions_in :: "run_status list \<Rightarrow> (string \<times> run_status) list \<Rightarrow> string list" where
  "sessions_in sts states = map fst (filter (\<lambda>(_, st). st \<in> set sts) states)"

definition ACTIVE_STATUSES :: "run_status list" where
  "ACTIVE_STATUSES = [PENDING, PLANNING, RESEARCHING, GENERATING, REVIEWING, AWAITING_APPROVAL, EXPORTING]"

definition decide ::
  "lesson_sequence \<Rightarrow> (string \<times> run_status) list \<Rightarrow> int \<Rightarrow> session_action list" where
  "decide q states concurrency =
     (let actions = decide_sessions q states concurrency (lseq_sessions q);
          all_ids = set (map sp_session_id (lseq_sessions q));
          completed = sessions_in [COMPLETED] states;
          failed = sessions_in [FAILED, CANCELLED] states;
          spawned = filter (\<lambda>a. sa_action a = SPAWN) actions;
          active = sessions_in ACTIVE_STATUSES states
      in if all_ids = set completed
         then actions @ [session_action_of [] MARK_COMPLETE ''all sessions completed'']
         else if failed \<noteq> [] \<and> spawned = [] \<and> active = [] \<and> completed \<noteq> []
         then actions @ [session_action_of [] MARK_PARTIALLY_COMPLETE
                ''some sessions failed, no active or spawnable sessions remain'']
         else actions)"

section \<open>Reacting\<close>

definition children_states :: "string \<Rightarrow> pack_db \<Rightarrow> (string \<times> run_status) list" where
  "children_states parent p =
     dict_merge [] (map (\<lambda>c. (usr_session_id c, usr_status c))
       (filter (\<lambda>c. usr_session_id c \<noteq> []) (list_children parent p)))"

definition spawn_session ::
  "instant \<Rightarrow> (string \<Rightarrow> string \<times> string) \<Rightarrow> run_row \<Rightarrow> session_plan \<Rightarrow> unit_db \<Rightarrow> unit_db result" where
  "spawn_session now ids parent plan db =
     (let sid = sp_session_id plan; child = fst (ids sid); r = run_id parent
      in ebind (create_child_run
           \<lparr>usc_run_id = child, usc_parent_run_id = r, usc_teacher_id = run_teacher_id parent,
            usc_session_id = sid, usc_session_index = sp_order_index plan,
            usc_raw_request = run_raw_request parent, usc_class_info = run_class_info parent,
            usc_retention_days = run_retention_days parent\<rparr> (un_pack db)) (\<lambda>p.
         ebind (enqueue (run_exists p) now
           \<lparr>jc_job_id = snd (ids sid), jc_run_id = child, jc_kind = START,
            jc_idempotency_key = ''unit-session-start:'' @ r @ '':'' @ sid,
            jc_payload = [(''run_id'', JStr child)], jc_eligible_at = None\<rparr> (un_jobs db)) (\<lambda>(_, js).
         ebind (write_event now
           \<lparr>ec_run_id = r, ec_event_name = ''unit.session.spawned'', ec_visibility = VIS_TEACHER,
            ec_stage = None,
            ec_payload = Some [(''event_type'', JStr ''unit.progress''), (''parent_run_id'', JStr r),
              (''child_run_id'', JStr child), (''session_id'', JStr sid)]\<rparr> p) (\<lambda>(_, p').
         Inr (db\<lparr>un_pack := p', un_jobs := js\<rparr>)))))"

text \<open>\<open>session_map\<close> is a dictionary: of two plans of one session the later is found.\<close>

definition plan_of :: "lesson_sequence \<Rightarrow> string \<Rightarrow> session_plan option" where
  "plan_of q sid = map_of (rev (map (\<lambda>s. (sp_session_id s, s)) (lseq_sessions q))) sid"

fun execute_actions ::
  "instant \<Rightarrow> (string \<Rightarrow> string \<times> string) \<Rightarrow> run_row \<Rightarrow> lesson_sequence \<Rightarrow> session_action list \<Rightarrow> unit_db
   \<Rightarrow> unit_db result" where
  "execute_actions now ids parent q [] db = Inr db"
| "execute_actions now ids parent q (a # as) db =
     (if sa_action a \<noteq> SPAWN then execute_actions now ids parent q as db
      else case plan_of q (sa_session_id a) of
          None \<Rightarrow> execute_actions now ids parent q as db
        | Some plan \<Rightarrow> ebind (spawn_session now ids parent plan db) (execute_actions now ids parent q as))"

definition react ::
  "instant \<Rightarrow> (string \<Rightarrow> string \<times> string) \<Rightarrow> string \<Rightarrow> unit_db \<Rightarrow> (session_action list \<times> unit_db) result" where
  "react now ids r db =
     (case get_lesson_sequence r db of
        None \<Rightarrow> Inr ([], db)
      | Some stored \<Rightarrow>
          ebind (validate_lesson_sequence stored) (\<lambda>q.
          let actions = decide q (children_states r (un_pack db)) 1
          in ebind (parent_run r (un_pack db)) (\<lambda>parent.
            case parent of
              None \<Rightarrow> Inr (actions, db)
            | Some x \<Rightarrow> ebind (execute_actions now ids x q actions db) (\<lambda>db'. Inr (actions, db')))))"

text \<open>
  One tick of the sweeper. An invalid sequence is logged and skipped; a violated constraint dooms the
  transaction, so the caller's commit fails whatever is caught here.
\<close>

fun react_each ::
  "instant \<Rightarrow> (string \<Rightarrow> string \<Rightarrow> string \<times> string) \<Rightarrow> string list \<Rightarrow> unit_db \<Rightarrow> unit_db result" where
  "react_each now ids [] db = Inr db"
| "react_each now ids (r # rs) db =
     (case react now (ids r) r db of
        Inl (ValidationError _) \<Rightarrow> react_each now ids rs db
      | Inl e \<Rightarrow> Inl e
      | Inr (_, db') \<Rightarrow> react_each now ids rs db')"

definition live_parents :: "pack_db \<Rightarrow> string list" where
  "live_parents p = map run_id (filter (\<lambda>x. run_unit_role x = UNIT_PARENT
     \<and> run_status x \<notin> {COMPLETED, FAILED, CANCELLED}) (runs p))"

definition reconcile_units ::
  "instant \<Rightarrow> (string \<Rightarrow> string \<Rightarrow> string \<times> string) \<Rightarrow> unit_db \<Rightarrow> unit_db result" where
  "reconcile_units now ids db = react_each now ids (live_parents (un_pack db)) db"

end
