(* ===== verification/Unit_Laws.thy ===== *)
theory Unit_Laws
  imports Unit_Orchestrator
begin

text \<open>
  What the orchestrator of units guarantees: sessions start only after their prerequisites, every
  acyclic unit whose children complete goes on, cyclic ones never start, and the marks that end a
  unit are decided but not carried out.
\<close>

section \<open>Decisions\<close>

lemma set_predecessors:
  "set (predecessors q sid) = (\<Union>s \<in> {s \<in> set (lseq_sessions q). sp_session_id s = sid}. set (sp_prerequisites s))"
  by (auto simp: predecessors_def)

lemma status_in_iff: "status_in sts states p \<longleftrightarrow> (\<exists>st \<in> set sts. map_of states p = Some st)"
  by (auto simp: status_in_def split: option.splits)

lemma decide_sessions_spawn:
  "a \<in> set (decide_sessions q states n ss) \<Longrightarrow> sa_action a = SPAWN \<Longrightarrow>
     \<exists>s \<in> set ss. sa_session_id a = sp_session_id s \<and> sp_session_id s \<notin> set (map fst states)
       \<and> list_all (status_in [COMPLETED] states) (predecessors q (sp_session_id s))"
  by (induction q states n ss rule: decide_sessions.induct)
    (auto simp: Let_def session_action_of_def split: if_splits list.splits)

lemma decide_sessions_actions: "a \<in> set (decide_sessions q states n ss) \<Longrightarrow> sa_action a \<in> {SPAWN, BLOCK}"
  by (induction q states n ss rule: decide_sessions.induct)
    (auto simp: Let_def session_action_of_def split: if_splits list.splits)

lemma decide_sessions_slots:
  "length (filter (\<lambda>a. sa_action a = SPAWN) (decide_sessions q states n ss)) \<le> nat n"
proof (induction ss arbitrary: n)
  case Nil
  then show ?case by simp
next
  case (Cons s ss)
  have "Suc (length (filter (\<lambda>a. sa_action a = SPAWN) (decide_sessions q states (n - 1) ss))) \<le> nat n"
    if "0 < n" using Cons [of "n - 1"] that by simp
  then show ?case using Cons [of n]
    by (auto simp: Let_def session_action_of_def split: list.split)
qed

lemma decide_sessions_live:
  assumes "s \<in> set ss" and "sp_session_id s \<notin> set (map fst states)" and "0 < n"
    and "list_all (status_in [COMPLETED] states) (predecessors q (sp_session_id s))"
  shows "\<exists>a \<in> set (decide_sessions q states n ss). sa_action a = SPAWN"
proof -
  have free: "filter (status_in [FAILED, CANCELLED] states) (predecessors q (sp_session_id s)) = []"
    using assms(4) by (auto simp: filter_empty_conv list_all_iff status_in_iff)
  show ?thesis using assms(1)
  proof (induction ss)
    case Nil
    then show ?case by simp
  next
    case (Cons t ss)
    show ?case
    proof (cases "t = s")
      case True
      then show ?thesis using assms(2-4) free by (simp add: Let_def session_action_of_def)
    next
      case False
      then show ?thesis using Cons assms(3)
        by (auto simp: Let_def session_action_of_def split: list.split)
    qed
  qed
qed

lemma decide_spawns:
  "a \<in> set (decide q states n) \<and> sa_action a = SPAWN \<longleftrightarrow>
     a \<in> set (decide_sessions q states n (lseq_sessions q)) \<and> sa_action a = SPAWN"
  by (auto simp: decide_def Let_def session_action_of_def)

lemma decide_spawn_count:
  "length (filter (\<lambda>a. sa_action a = SPAWN) (decide q states n)) \<le> nat n"
  using decide_sessions_slots [of q states n "lseq_sessions q"]
  by (auto simp: decide_def Let_def session_action_of_def)

text \<open>
  C34: whatever the children's states, a session is started only when it
  has no run yet and all its prerequisites are completed, and at most as many sessions are started
  as the concurrency allows.
\<close>
theorem spawn_respects_prerequisites:
  assumes "a \<in> set (decide q states n)" and "sa_action a = SPAWN"
  shows "(\<exists>s \<in> set (lseq_sessions q). sp_session_id s = sa_session_id a)
    \<and> map_of states (sa_session_id a) = None
    \<and> (\<forall>s \<in> set (lseq_sessions q). sp_session_id s = sa_session_id a \<longrightarrow>
         (\<forall>p \<in> set (sp_prerequisites s). map_of states p = Some COMPLETED))
    \<and> length (filter (\<lambda>b. sa_action b = SPAWN) (decide q states n)) \<le> nat n"
proof -
  obtain s where "s \<in> set (lseq_sessions q)" "sa_session_id a = sp_session_id s"
      "sp_session_id s \<notin> set (map fst states)"
      "list_all (status_in [COMPLETED] states) (predecessors q (sp_session_id s))"
    using decide_spawns assms decide_sessions_spawn by metis
  then show ?thesis using decide_spawn_count [of q states n]
    by (fastforce simp: map_of_eq_None_iff list_all_iff set_predecessors status_in_iff)
qed

text \<open>
  C35: a unit without a cycle of prerequisites never stalls while its children complete:
  as long as some session has no run, a next one is started.
\<close>
theorem unit_progress:
  fixes rank :: "string \<Rightarrow> nat"
  assumes "\<forall>s \<in> set (lseq_sessions q). \<forall>p \<in> set (sp_prerequisites s).
      p \<in> set (map sp_session_id (lseq_sessions q)) \<and> rank p < rank (sp_session_id s)"
    and "\<forall>st \<in> set (map snd states). st = COMPLETED" and "0 < n"
    and "s \<in> set (lseq_sessions q)" and "sp_session_id s \<notin> set (map fst states)"
  shows "\<exists>a \<in> set (decide q states n). sa_action a = SPAWN"
proof -
  let ?open = "\<lambda>s. s \<in> set (lseq_sessions q) \<and> sp_session_id s \<notin> set (map fst states)"
  obtain t where t: "?open t" and least: "\<And>u. ?open u \<Longrightarrow> rank (sp_session_id t) \<le> rank (sp_session_id u)"
    using ex_has_least_nat [of ?open s "\<lambda>s. rank (sp_session_id s)"] assms(4,5) by blast
  have "status_in [COMPLETED] states p" if pre: "p \<in> set (predecessors q (sp_session_id t))" for p
  proof -
    obtain u where u: "u \<in> set (lseq_sessions q)" "sp_session_id u = sp_session_id t" "p \<in> set (sp_prerequisites u)"
      using pre by (auto simp: set_predecessors)
    with assms(1) obtain v where "v \<in> set (lseq_sessions q)" "sp_session_id v = p"
      and "rank p < rank (sp_session_id t)" by fastforce
    then have "p \<in> set (map fst states)" using least [of v] by force
    then obtain st where st: "map_of states p = Some st" by (auto simp: map_of_eq_None_iff dest: weak_map_of_SomeI)
    then have "(p, st) \<in> set states" by (rule map_of_SomeD)
    then have "st = COMPLETED" using assms(2) by force
    with st show ?thesis by (simp add: status_in_iff)
  qed
  then have "list_all (status_in [COMPLETED] states) (predecessors q (sp_session_id t))"
    by (simp add: list_all_iff)
  with decide_sessions_live [of t _ states n q] t assms(3) show ?thesis using decide_spawns by metis
qed

section \<open>Spawning\<close>

lemma add_run_Inr:
  assumes "add_run x p = Inr p'"
  shows "\<not> run_exists p (run_id x)" and "runs p' = runs p @ [x]"
    and "pack_ok p \<Longrightarrow> run_status x = PENDING \<Longrightarrow> pack_ok p'"
proof -
  from assms have eff: "\<not> run_exists p (run_id x)" "p' = p\<lparr>runs := runs p @ [x], run_history := run_history p @
      [\<lparr>hist_run_id = run_id x, hist_status = PENDING, hist_stage = None, hist_reason = Some ''created''\<rparr>]\<rparr>"
    by (auto simp: add_run_def split: if_splits)
  then show "\<not> run_exists p (run_id x)" and "runs p' = runs p @ [x]" by simp_all
  show "pack_ok p \<Longrightarrow> run_status x = PENDING \<Longrightarrow> pack_ok p'"
    by (rule new_run_ok [of p x]) (simp_all add: eff)
qed

definition session_run_of :: "string \<Rightarrow> string \<Rightarrow> run_row \<Rightarrow> bool" where
  "session_run_of parent sid x \<longleftrightarrow> run_parent_run_id x = Some parent \<and> run_session_id x = Some sid
     \<and> run_session_index x \<noteq> None \<and> run_unit_role x = UNIT_SESSION \<and> run_status x = PENDING"

lemma create_child_run_Inr:
  assumes "create_child_run c p = Inr p'"
  shows "\<exists>x. runs p' = runs p @ [x] \<and> session_run_of (usc_parent_run_id c) (usc_session_id c) x"
    and "pack_ok p \<Longrightarrow> pack_ok p'"
  using assms add_run_Inr
  by (fastforce simp: create_child_run_def ebind_Inr_iff session_run_of_def unit_run_def)+

lemma spawn_session_Inr:
  assumes "spawn_session now ids parent plan db = Inr db'"
  shows "\<exists>x. runs (un_pack db') = runs (un_pack db) @ [x] \<and> session_run_of (run_id parent) (sp_session_id plan) x"
    and "pack_ok (un_pack db) \<and> jobs_ok (un_jobs db) \<Longrightarrow> pack_ok (un_pack db') \<and> jobs_ok (un_jobs db')"
    and "un_sequences db' = un_sequences db"
proof -
  define c where "c = \<lparr>usc_run_id = fst (ids (sp_session_id plan)), usc_parent_run_id = run_id parent,
    usc_teacher_id = run_teacher_id parent, usc_session_id = sp_session_id plan,
    usc_session_index = sp_order_index plan, usc_raw_request = run_raw_request parent,
    usc_class_info = run_class_info parent, usc_retention_days = run_retention_days parent\<rparr>"
  from assms obtain p q r js ev er p' where c: "create_child_run c (un_pack db) = Inr p"
    and j: "enqueue (run_exists p) now q (un_jobs db) = Inr (r, js)"
    and w: "write_event now ev p = Inr (er, p')"
    and db': "db' = db\<lparr>un_pack := p', un_jobs := js\<rparr>"
    unfolding spawn_session_def Let_def c_def [symmetric] by (auto simp: ebind_Inr_iff)
  have same: "runs p' = runs p" using w unfolding write_event_insert by (rule insert_event_Inr)
  show "\<exists>x. runs (un_pack db') = runs (un_pack db) @ [x] \<and> session_run_of (run_id parent) (sp_session_id plan) x"
    using create_child_run_Inr(1) [OF c] same by (simp add: db' c_def)
  show "pack_ok (un_pack db) \<and> jobs_ok (un_jobs db) \<Longrightarrow> pack_ok (un_pack db') \<and> jobs_ok (un_jobs db')"
    using create_child_run_Inr(2) [OF c] enqueue_ok [OF j] insert_event_ok [OF _ w [unfolded write_event_insert]]
    by (simp add: db')
  show "un_sequences db' = un_sequences db" by (simp add: db')
qed

lemma plan_of_id: "plan_of q sid = Some plan \<Longrightarrow> sp_session_id plan = sid"
  unfolding plan_of_def by (drule map_of_SomeD) auto

lemma execute_actions_Inr:
  "execute_actions now ids parent q as db = Inr db' \<Longrightarrow>
     (\<exists>new. runs (un_pack db') = runs (un_pack db) @ new \<and>
        (\<forall>x \<in> set new. \<exists>a \<in> set as. sa_action a = SPAWN \<and> session_run_of (run_id parent) (sa_session_id a) x))
     \<and> (pack_ok (un_pack db) \<and> jobs_ok (un_jobs db) \<longrightarrow> pack_ok (un_pack db') \<and> jobs_ok (un_jobs db'))
     \<and> un_sequences db' = un_sequences db"
proof (induction "as" arbitrary: db)
  case Nil
  then show ?case by simp
next
  case (Cons a "as")
  show ?case
  proof (cases "sa_action a = SPAWN \<and> plan_of q (sa_session_id a) \<noteq> None")
    case False
    then have "execute_actions now ids parent q as db = Inr db'"
      using Cons.prems by (auto split: if_splits)
    from Cons.IH [OF this] show ?thesis by fastforce
  next
    case True
    then obtain plan where plan: "plan_of q (sa_session_id a) = Some plan" and a: "sa_action a = SPAWN" by blast
    then obtain db1 where 1: "spawn_session now ids parent plan db = Inr db1"
      and rest: "execute_actions now ids parent q as db1 = Inr db'"
      using Cons.prems by (auto simp: ebind_Inr_iff)
    obtain x where x: "runs (un_pack db1) = runs (un_pack db) @ [x]"
      "session_run_of (run_id parent) (sa_session_id a) x"
      using spawn_session_Inr(1) [OF 1] plan_of_id [OF plan] by auto
    from Cons.IH [OF rest] obtain new where "runs (un_pack db') = runs (un_pack db1) @ new"
      "\<forall>x \<in> set new. \<exists>a \<in> set as. sa_action a = SPAWN \<and> session_run_of (run_id parent) (sa_session_id a) x"
      by blast
    then have "runs (un_pack db') = runs (un_pack db) @ (x # new)"
      "\<forall>x \<in> set (x # new). \<exists>a \<in> set (a # as). sa_action a = SPAWN \<and> session_run_of (run_id parent) (sa_session_id a) x"
      using x a by auto
    then have grown: "\<exists>new. runs (un_pack db') = runs (un_pack db) @ new \<and> (\<forall>x \<in> set new. \<exists>a \<in> set (a # as).
        sa_action a = SPAWN \<and> session_run_of (run_id parent) (sa_session_id a) x)" by blast
    have "pack_ok (un_pack db1) \<and> jobs_ok (un_jobs db1) \<longrightarrow> pack_ok (un_pack db') \<and> jobs_ok (un_jobs db')"
      and "un_sequences db' = un_sequences db1" using Cons.IH [OF rest] by simp_all
    with grown show ?thesis using spawn_session_Inr(2,3) [OF 1] by simp
  qed
qed

lemma react_Inr:
  assumes "react now ids r db = Inr (actions, db')"
  shows "\<exists>new. runs (un_pack db') = runs (un_pack db) @ new \<and>
      (\<forall>x \<in> set new. \<exists>a \<in> set actions. sa_action a = SPAWN \<and> session_run_of r (sa_session_id a) x)"
    and "pack_ok (un_pack db) \<and> jobs_ok (un_jobs db) \<Longrightarrow> pack_ok (un_pack db') \<and> jobs_ok (un_jobs db')"
    and "un_sequences db' = un_sequences db"
    and "get_lesson_sequence r db = Some q \<Longrightarrow> validate_lesson_sequence q = Inr q \<and>
      actions = decide q (children_states r (un_pack db)) 1"
proof -
  have "db' = db \<or>
      (\<exists>x q. run_id x = r \<and> execute_actions now ids x q actions db = Inr db')"
    using assms by (auto simp: react_def ebind_Inr_iff Let_def parent_run_def dest!: filter_singletonD
        split: option.splits)
  then show "\<exists>new. runs (un_pack db') = runs (un_pack db) @ new \<and>
      (\<forall>x \<in> set new. \<exists>a \<in> set actions. sa_action a = SPAWN \<and> session_run_of r (sa_session_id a) x)"
    and "pack_ok (un_pack db) \<and> jobs_ok (un_jobs db) \<Longrightarrow> pack_ok (un_pack db') \<and> jobs_ok (un_jobs db')"
    and "un_sequences db' = un_sequences db"
    using execute_actions_Inr by fastforce+
  show "get_lesson_sequence r db = Some q \<Longrightarrow> validate_lesson_sequence q = Inr q \<and>
      actions = decide q (children_states r (un_pack db)) 1"
    using assms by (auto simp: react_def ebind_Inr_iff Let_def validate_lesson_sequence_def
        split: option.splits if_splits)
qed

section \<open>Ticks\<close>

lemma keys_dict_merge_Nil: "set (map fst (dict_merge [] xs)) = set (map fst xs)"
proof (induction xs rule: rev_induct)
  case Nil
  then show ?case by (simp add: dict_merge_def)
next
  case (snoc x xs)
  obtain k v where x: "x = (k, v)" by (cases x)
  have keys: "set (map fst d) = dom (map_of d)" for d :: "('a \<times> 'b) list"
    by (simp add: dom_map_of_conv_image_fst)
  show ?case using snoc unfolding keys x by (simp add: map_of_dict_merge_snoc)
qed

lemma children_keys:
  "set (map fst (children_states r p)) = {i. i \<noteq> [] \<and> (\<exists>x \<in> set (runs p). run_parent_run_id x = Some r
     \<and> run_unit_role x = UNIT_SESSION \<and> run_session_id x = Some i \<and> run_session_index x \<noteq> None)}"
  unfolding children_states_def keys_dict_merge_Nil
  by (force simp: list_children_def child_rows_def the_default_def split: option.splits)

lemma react_each_Inr:
  "react_each now ids rs db = Inr db' \<Longrightarrow>
     (\<exists>new. runs (un_pack db') = runs (un_pack db) @ new \<and> (\<forall>x \<in> set new. run_unit_role x = UNIT_SESSION))
     \<and> (pack_ok (un_pack db) \<and> jobs_ok (un_jobs db) \<longrightarrow> pack_ok (un_pack db') \<and> jobs_ok (un_jobs db'))"
proof (induction rs arbitrary: db)
  case Nil
  then show ?case by simp
next
  case (Cons r rs)
  show ?case
  proof (cases "react now (ids r) r db")
    case (Inl e)
    then have "react_each now ids rs db = Inr db'" using Cons.prems by (cases e) auto
    then show ?thesis by (rule Cons.IH)
  next
    case (Inr s)
    then obtain actions db1 where 1: "react now (ids r) r db = Inr (actions, db1)" by (cases s) auto
    then have rest: "react_each now ids rs db1 = Inr db'" using Cons.prems by simp
    obtain new where new: "runs (un_pack db1) = runs (un_pack db) @ new" "\<forall>x \<in> set new. run_unit_role x = UNIT_SESSION"
      using react_Inr(1) [OF 1] by (force simp: session_run_of_def)
    obtain new' where new': "runs (un_pack db') = runs (un_pack db1) @ new'" "\<forall>x \<in> set new'. run_unit_role x = UNIT_SESSION"
      using Cons.IH [OF rest] by blast
    have "runs (un_pack db') = runs (un_pack db) @ (new @ new') \<and> (\<forall>x \<in> set (new @ new'). run_unit_role x = UNIT_SESSION)"
      using new new' by auto
    moreover have "pack_ok (un_pack db) \<and> jobs_ok (un_jobs db) \<longrightarrow> pack_ok (un_pack db') \<and> jobs_ok (un_jobs db')"
      using Cons.IH [OF rest] react_Inr(2) [OF 1] by blast
    ultimately show ?thesis by blast
  qed
qed

text \<open>
  Sessions that depend on each other in a cycle pass the validator but are
  never started: a tick spawns none of them, so they stay without runs, and never marks the unit
  complete.
\<close>
lemma cyclic_unit_stalls:
  assumes "react now ids r db = Inr (actions, db')" and "get_lesson_sequence r db = Some q"
    and "\<forall>k \<in> K. \<exists>s \<in> set (lseq_sessions q). sp_session_id s = k \<and> (\<exists>p \<in> set (sp_prerequisites s). p \<in> K)"
    and "K \<noteq> {}" and "K \<inter> set (map fst (children_states r (un_pack db))) = {}"
  shows "K \<inter> set (map fst (children_states r (un_pack db'))) = {}
     \<and> (\<forall>a \<in> set actions. sa_action a = SPAWN \<longrightarrow> sa_session_id a \<notin> K)
     \<and> (\<forall>a \<in> set actions. sa_action a \<noteq> MARK_COMPLETE)"
proof -
  let ?st = "children_states r (un_pack db)"
  have actions: "actions = decide q ?st 1" using react_Inr(4) [OF assms(1,2)] by simp
  have spawn: "sa_session_id a \<notin> K" if a: "a \<in> set actions" "sa_action a = SPAWN" for a
  proof
    assume k: "sa_session_id a \<in> K"
    have "list_all (status_in [COMPLETED] ?st) (predecessors q (sa_session_id a))"
      using a decide_spawns decide_sessions_spawn unfolding actions by metis
    moreover obtain p where "p \<in> set (predecessors q (sa_session_id a))" "p \<in> K"
      using assms(3) k by (fastforce simp: set_predecessors)
    ultimately have "map_of ?st p \<noteq> None" and "p \<in> K" by (auto simp: list_all_iff status_in_iff)
    then show False using assms(5) by (auto simp: map_of_eq_None_iff)
  qed
  obtain k where k: "k \<in> K" using assms(4) by blast
  then have "k \<in> set (map sp_session_id (lseq_sessions q))" using assms(3) by force
  moreover have "k \<notin> set (sessions_in [COMPLETED] ?st)" using k assms(5) by (force simp: sessions_in_def)
  ultimately have "set (map sp_session_id (lseq_sessions q)) \<noteq> set (sessions_in [COMPLETED] ?st)" by blast
  then have "set actions \<subseteq> set (decide_sessions q ?st 1 (lseq_sessions q)) \<union>
      {session_action_of [] MARK_PARTIALLY_COMPLETE ''some sessions failed, no active or spawnable sessions remain''}"
    unfolding actions decide_def Let_def by auto
  then have marks: "sa_action a \<noteq> MARK_COMPLETE" if "a \<in> set actions" for a
    using that decide_sessions_actions [of a q ?st 1 "lseq_sessions q"] by (auto simp: session_action_of_def)
  obtain new where new: "runs (un_pack db') = runs (un_pack db) @ new"
    "\<forall>x \<in> set new. \<exists>a \<in> set actions. sa_action a = SPAWN \<and> session_run_of r (sa_session_id a) x"
    using react_Inr(1) [OF assms(1)] by blast
  have "i \<notin> K" if i: "i \<in> set (map fst (children_states r (un_pack db')))" for i
  proof (cases "i \<in> set (map fst ?st)")
    case True
    then show ?thesis using assms(5) by blast
  next
    case False
    with i obtain x where "x \<in> set new" "run_session_id x = Some i" unfolding children_keys new(1) by auto
    then show ?thesis using new(2) spawn by (fastforce simp: session_run_of_def)
  qed
  with spawn marks show ?thesis by blast
qed

text \<open>
  When all sessions of a unit are completed a tick decides to mark it
  complete and does nothing else; no tick ever changes the status of a run, so the parent stays as
  it was created and is visited again for good.
\<close>
lemma finished_unit_stays_live:
  assumes "get_lesson_sequence r db = Some q" and "validate_lesson_sequence q = Inr q"
    and "parent_run r (un_pack db) = Inr (Some x)"
    and "set (map fst (children_states r (un_pack db))) = set (map sp_session_id (lseq_sessions q))"
    and "\<forall>st \<in> set (map snd (children_states r (un_pack db))). st = COMPLETED"
    and "reconcile_units now' ids' db = Inr db'"
  shows "react now ids r db = Inr ([session_action_of [] MARK_COMPLETE ''all sessions completed''], db)
     \<and> x \<in> set (runs (un_pack db'))"
proof -
  let ?st = "children_states r (un_pack db)"
  have "filter (\<lambda>(_, st). st \<in> set [COMPLETED]) ?st = ?st"
    using assms(5) by (auto simp: filter_id_conv)
  then have "sessions_in [COMPLETED] ?st = map fst ?st" unfolding sessions_in_def by (rule arg_cong)
  moreover have "decide_sessions q ?st n ss = []" if "set ss \<subseteq> set (lseq_sessions q)" for n ss
    using that assms(4) by (induction ss) (auto simp: Let_def)
  ultimately have "decide q ?st 1 = [session_action_of [] MARK_COMPLETE ''all sessions completed'']"
    using assms(4) by (simp add: decide_def Let_def)
  then have "react now ids r db = Inr ([session_action_of [] MARK_COMPLETE ''all sessions completed''], db)"
    by (simp add: react_def assms(1-3) session_action_of_def)
  moreover have "x \<in> set (runs (un_pack db))"
    using filter_singletonD assms(3) unfolding parent_run_def scalar_one_or_none_Some by fast
  ultimately show ?thesis using react_each_Inr [OF assms(6) [unfolded reconcile_units_def]] by auto
qed

text \<open>
  A tick over all units keeps the run store and the job table consistent, leaves
  every existing run as it is and adds session runs only.
\<close>
lemma units_keep_stores:
  assumes "reconcile_units now ids db = Inr db'" and "pack_ok (un_pack db)" and "jobs_ok (un_jobs db)"
  shows "pack_ok (un_pack db') \<and> jobs_ok (un_jobs db')
     \<and> (\<exists>new. runs (un_pack db') = runs (un_pack db) @ new \<and> (\<forall>x \<in> set new. run_unit_role x = UNIT_SESSION))"
  using react_each_Inr [OF assms(1) [unfolded reconcile_units_def]] assms(2,3) by blast

section \<open>Witnesses\<close>

definition demo_plan :: "string \<Rightarrow> int \<Rightarrow> string list \<Rightarrow> session_plan" where
  "demo_plan sid i pre = \<lparr>sp_session_id = sid, sp_order_index = i, sp_duration_minutes = 45,
     sp_prerequisites = pre\<rparr>"

definition demo_sequence :: "session_plan list \<Rightarrow> lesson_sequence" where
  "demo_sequence ss = \<lparr>lseq_total_sessions = 2, lseq_total_duration = 90, lseq_sessions = ss\<rparr>"

abbreviation chain :: "session_plan list" where
  "chain \<equiv> [demo_plan ''a'' 1 [], demo_plan ''b'' 2 [''a'']]"

abbreviation loop :: "session_plan list" where
  "loop \<equiv> [demo_plan ''a'' 1 [''b''], demo_plan ''b'' 2 [''a'']]"

lemma demo_sequence_simps [simp]: "lseq_sessions (demo_sequence ss) = ss"
  "sp_session_id (demo_plan sid i pre) = sid" "sp_prerequisites (demo_plan sid i pre) = pre"
  by (simp_all add: demo_sequence_def demo_plan_def)

lemma demo_valid: "ss \<in> {chain, loop} \<Longrightarrow> validate_lesson_sequence (demo_sequence ss) = Inr (demo_sequence ss)"
  by (auto simp: validate_lesson_sequence_def unknown_prerequisites_def session_plan_fields_ok_def
      demo_sequence_def demo_plan_def)

theorem spawn_respects_prerequisites_witness:
  "decide (demo_sequence chain) [] 1 = [session_action_of ''a'' SPAWN ''prerequisites satisfied'']
   \<and> length (filter (\<lambda>b. sa_action b = SPAWN) (decide (demo_sequence chain) [] 1)) \<le> nat 1"
proof -
  have d: "decide (demo_sequence chain) [] 1 = [session_action_of ''a'' SPAWN ''prerequisites satisfied'']"
    by (simp add: decide_def Let_def predecessors_def sessions_in_def status_in_def)
  with spawn_respects_prerequisites [of "session_action_of ''a'' SPAWN ''prerequisites satisfied''"
      "demo_sequence chain" "[]" 1]
  show ?thesis by (simp add: session_action_of_def)
qed

theorem unit_progress_witness:
  "\<exists>a \<in> set (decide (demo_sequence chain) [(''a'', COMPLETED)] 1). sa_action a = SPAWN"
  by (rule unit_progress [where s = "demo_plan ''b'' 2 [''a'']" and rank = "\<lambda>i. if i = ''a'' then 0 else 1"])
    simp_all

definition demo_parent :: run_row where
  "demo_parent = (unit_run ''u'' ''t1'' ''fractions'' [] None ''default'')\<lparr>run_unit_role := UNIT_PARENT\<rparr>"

definition demo_units :: "session_plan list \<Rightarrow> run_row list \<Rightarrow> unit_db" where
  "demo_units ss children =
     \<lparr>un_pack = \<lparr>runs = demo_parent # children, run_history = [\<lparr>hist_run_id = ''u'',
          hist_status = PENDING, hist_stage = None, hist_reason = Some ''created''\<rparr>], run_events = [], outbox = [], next_outbox_id = 1,
        pending_event_run_ids = []\<rparr>,
      un_jobs = [], un_sequences = (\<lambda>r. if r = ''u'' then Some (demo_sequence ss) else None)\<rparr>"

definition demo_child :: "string \<Rightarrow> string \<Rightarrow> int \<Rightarrow> run_row" where
  "demo_child i sid n = (unit_run i ''t1'' ''fractions'' [] None ''default'')
     \<lparr>run_status := COMPLETED, run_parent_run_id := Some ''u'', run_session_id := Some sid,
      run_session_index := Some n, run_unit_role := UNIT_SESSION\<rparr>"

lemma demo_units_sequence: "get_lesson_sequence ''u'' (demo_units ss children) = Some (demo_sequence ss)"
  by (simp add: get_lesson_sequence_def demo_units_def demo_parent_def unit_run_def)

lemma demo_units_parent:
  "\<forall>x \<in> set children. run_id x \<noteq> ''u'' \<Longrightarrow>
     parent_run ''u'' (un_pack (demo_units ss children)) = Inr (Some demo_parent)"
  by (simp add: parent_run_def demo_units_def filter_empty_conv) (simp add: demo_parent_def unit_run_def)

lemma demo_no_children: "children_states ''u'' (un_pack (demo_units ss [])) = []"
  by (simp add: children_states_def list_children_def child_rows_def demo_units_def demo_parent_def
      unit_run_def dict_merge_def)

lemma demo_live: "live_parents (un_pack (demo_units ss [])) = [''u'']"
  by (simp add: live_parents_def demo_units_def demo_parent_def unit_run_def)

lemma cyclic_unit_stalls_witness:
  "react 0 (\<lambda>k. (k, k)) ''u'' (demo_units loop []) = Inr ([], demo_units loop [])
   \<and> {''a'', ''b''} \<inter> set (map fst (children_states ''u'' (un_pack (demo_units loop [])))) = {}"
proof -
  have "decide (demo_sequence loop) [] 1 = []"
    by (simp add: decide_def Let_def predecessors_def sessions_in_def status_in_def)
  then have "react 0 (\<lambda>k. (k, k)) ''u'' (demo_units loop []) = Inr ([], demo_units loop [])"
    by (simp add: react_def demo_units_sequence demo_valid demo_units_parent demo_no_children)
  with cyclic_unit_stalls [OF this demo_units_sequence, of "{''a'', ''b''}"] show ?thesis
    by (simp add: demo_no_children)
qed

lemma finished_unit_stays_live_witness:
  "\<exists>db'. reconcile_units 9 ids (demo_units chain [demo_child ''c1'' ''a'' 1, demo_child ''c2'' ''b'' 2]) = Inr db'
     \<and> demo_parent \<in> set (runs (un_pack db'))"
proof -
  let ?db = "demo_units chain [demo_child ''c1'' ''a'' 1, demo_child ''c2'' ''b'' 2]"
  have states: "children_states ''u'' (un_pack ?db) = [(''a'', COMPLETED), (''b'', COMPLETED)]"
    by (simp add: children_states_def list_children_def child_rows_def demo_units_def demo_parent_def
        demo_child_def unit_run_def dict_merge_def)
  have parent: "parent_run ''u'' (un_pack ?db) = Inr (Some demo_parent)"
    by (rule demo_units_parent) (simp add: demo_child_def unit_run_def)
  have "decide (demo_sequence chain) [(''a'', COMPLETED), (''b'', COMPLETED)] 1
      = [session_action_of [] MARK_COMPLETE ''all sessions completed'']"
    by (simp add: decide_def Let_def sessions_in_def)
  then have "react 9 (ids ''u'') ''u'' ?db = Inr ([session_action_of [] MARK_COMPLETE ''all sessions completed''], ?db)"
    by (simp add: react_def demo_units_sequence demo_valid states parent session_action_of_def)
  moreover have "live_parents (un_pack ?db) = [''u'']"
    by (simp add: live_parents_def demo_units_def demo_parent_def demo_child_def unit_run_def)
  ultimately have tick: "reconcile_units 9 ids ?db = Inr ?db" by (simp add: reconcile_units_def)
  with finished_unit_stays_live [OF demo_units_sequence demo_valid parent _ _ tick] show ?thesis
    by (simp add: states)
qed

lemma units_keep_stores_witness:
  "\<exists>db'. reconcile_units 9 (\<lambda>_ _. (''c1'', ''j1'')) (demo_units loop []) = Inr db'
     \<and> pack_ok (un_pack db') \<and> jobs_ok (un_jobs db')"
proof -
  let ?db = "demo_units loop []"
  have "decide (demo_sequence loop) [] 1 = []"
    by (simp add: decide_def Let_def predecessors_def sessions_in_def status_in_def)
  then have "react 9 (\<lambda>_. (''c1'', ''j1'')) ''u'' ?db = Inr ([], ?db)"
    by (simp add: react_def demo_units_sequence demo_valid demo_units_parent demo_no_children)
  then have tick: "reconcile_units 9 (\<lambda>_ _. (''c1'', ''j1'')) ?db = Inr ?db"
    by (simp add: reconcile_units_def demo_live)
  have "pack_ok (un_pack ?db)"
    by (simp add: demo_units_def demo_parent_def unit_run_def pack_ok_def history_ok_def statuses_of_def
        run_exists_def ledger_ok_def event_seqs_def outbox_ok_def)
  moreover have "jobs_ok (un_jobs ?db)" by (simp add: demo_units_def jobs_ok_def)
  ultimately have "pack_ok (un_pack ?db) \<and> jobs_ok (un_jobs ?db)" using units_keep_stores [OF tick] by simp
  with tick show ?thesis by blast
qed

end
