(* ===== verification/Session_Policy.thy ===== *)
theory Session_Policy
  imports Status_Machine
begin

text \<open>
  Live teaching sessions: the data model and the policy that binds it
  (\<open>services/gateway/teaching_session/models.py\<close>, \<open>status.py\<close>, \<open>retention.py\<close>,
  \<open>delivery_mode.py\<close>, \<open>service.py\<close>). A session has a lifecycle that only moves forward, a
  retention tier chosen once at creation, which says what categories of data may be stored and
  for how long, and a room code that no other joinable session has.

  \<open>secrets.randbelow(1_000_000)\<close> is an argument: the number drawn at each attempt.
\<close>

section \<open>Lifecycle (\<open>models.py\<close> \<open>SessionStatus\<close>, \<open>status.py\<close>)\<close>

datatype session_status = SCHEDULED | LIVE | ENDED | ARCHIVED | EXPIRED

fun session_status_value :: "session_status \<Rightarrow> string" where
  "session_status_value SCHEDULED = ''scheduled''"
| "session_status_value LIVE = ''live''"
| "session_status_value ENDED = ''ended''"
| "session_status_value ARCHIVED = ''archived''"
| "session_status_value EXPIRED = ''expired''"

text \<open>The statuses in the order of the enumeration, which is the order of a session's life.\<close>

fun session_rank :: "session_status \<Rightarrow> nat" where
  "session_rank SCHEDULED = 0"
| "session_rank LIVE = 1"
| "session_rank ENDED = 2"
| "session_rank ARCHIVED = 3"
| "session_rank EXPIRED = 4"

lemma session_rank_inj: "session_rank a = session_rank b \<longleftrightarrow> a = b"
  by (cases a; cases b) simp_all

instantiation session_status :: linorder
begin

definition less_eq_session_status :: "session_status \<Rightarrow> session_status \<Rightarrow> bool" where
  "less_eq_session_status a b \<longleftrightarrow> session_rank a \<le> session_rank b"

definition less_session_status :: "session_status \<Rightarrow> session_status \<Rightarrow> bool" where
  "less_session_status a b \<longleftrightarrow> session_rank a < session_rank b"

instance
  by standard
    (auto simp: less_eq_session_status_def less_session_status_def session_rank_inj)

end

fun session_allowed_transitions :: "session_status \<Rightarrow> session_status list" where
  "session_allowed_transitions SCHEDULED = [LIVE, EXPIRED]"
| "session_allowed_transitions LIVE = [ENDED]"
| "session_allowed_transitions ENDED = [ARCHIVED, EXPIRED]"
| "session_allowed_transitions ARCHIVED = [EXPIRED]"
| "session_allowed_transitions EXPIRED = []"

definition validate_session_transition ::
    "session_status \<Rightarrow> session_status \<Rightarrow> session_status transition_result" where
  "validate_session_transition a b =
     (if a = b then Transition_Accepted a b
      else if b \<in> set (session_allowed_transitions a) then Transition_Accepted a b
      else Transition_Rejected a b ''transition_not_allowed'')"

interpretation session_machine: forward_machine session_allowed_transitions validate_session_transition
proof unfold_locales
  fix a b :: session_status
  show "a = b \<or> b \<in> set (session_allowed_transitions a) \<Longrightarrow>
    validate_session_transition a b = Transition_Accepted a b"
    by (auto simp: validate_session_transition_def)
  show "a \<noteq> b \<Longrightarrow> b \<notin> set (session_allowed_transitions a) \<Longrightarrow>
    validate_session_transition a b = Transition_Rejected a b ''transition_not_allowed''"
    by (simp add: validate_session_transition_def)
  show "a \<notin> set (session_allowed_transitions a)" by (cases a) simp_all
  show "b \<in> set (session_allowed_transitions a) \<Longrightarrow> a < b"
    by (cases a) (auto simp: less_session_status_def)
qed

abbreviation session_status_step :: "session_status \<Rightarrow> session_status \<Rightarrow> bool" where
  "session_status_step \<equiv> (\<lambda>a b. validate_session_transition a b = Transition_Accepted a b)"

text \<open>\<open>JOINABLE_STATUSES\<close> of \<open>join.py\<close> and \<open>_TERMINAL_STATUSES\<close> of \<open>retention.py\<close>.\<close>

definition joinable_statuses :: "session_status list" where
  "joinable_statuses = [SCHEDULED, LIVE]"

definition session_terminal_statuses :: "session_status list" where
  "session_terminal_statuses = [ENDED, ARCHIVED, EXPIRED]"

lemma joinable_not_terminal:
  "s \<in> set joinable_statuses \<longleftrightarrow> s \<notin> set session_terminal_statuses"
  by (cases s) (simp_all add: joinable_statuses_def session_terminal_statuses_def)

lemma joinable_iff: "s \<in> set joinable_statuses \<longleftrightarrow> s \<le> LIVE"
  by (cases s) (simp_all add: joinable_statuses_def less_eq_session_status_def)

lemma joinable_before: "a \<le> b \<Longrightarrow> b \<in> set joinable_statuses \<Longrightarrow> a \<in> set joinable_statuses"
  by (auto simp: joinable_iff)

section \<open>Retention tiers and data categories (\<open>models.py\<close>, \<open>retention.py\<close>)\<close>

datatype retention_tier = NONE | AGGREGATE | PSEUDONYMOUS | IDENTIFIABLE

fun retention_tier_value :: "retention_tier \<Rightarrow> string" where
  "retention_tier_value NONE = ''none''"
| "retention_tier_value AGGREGATE = ''aggregate''"
| "retention_tier_value PSEUDONYMOUS = ''pseudonymous''"
| "retention_tier_value IDENTIFIABLE = ''identifiable''"

text \<open>The tiers are declared from the least to the most identifying.\<close>

fun tier_rank :: "retention_tier \<Rightarrow> nat" where
  "tier_rank NONE = 0"
| "tier_rank AGGREGATE = 1"
| "tier_rank PSEUDONYMOUS = 2"
| "tier_rank IDENTIFIABLE = 3"

lemma tier_rank_inj: "tier_rank a = tier_rank b \<longleftrightarrow> a = b"
  by (cases a; cases b) simp_all

instantiation retention_tier :: linorder
begin

definition less_eq_retention_tier :: "retention_tier \<Rightarrow> retention_tier \<Rightarrow> bool" where
  "less_eq_retention_tier a b \<longleftrightarrow> tier_rank a \<le> tier_rank b"

definition less_retention_tier :: "retention_tier \<Rightarrow> retention_tier \<Rightarrow> bool" where
  "less_retention_tier a b \<longleftrightarrow> tier_rank a < tier_rank b"

instance
  by standard (auto simp: less_eq_retention_tier_def less_retention_tier_def tier_rank_inj)

end

datatype session_data_category =
  EVENTS | AGGREGATES | RAW_RESPONSES | TEACHER_REFLECTIONS | AI_SUGGESTIONS | EXPORTS

fun allowed_data_categories_for_tier :: "retention_tier \<Rightarrow> session_data_category list" where
  "allowed_data_categories_for_tier NONE = [TEACHER_REFLECTIONS, AI_SUGGESTIONS]"
| "allowed_data_categories_for_tier AGGREGATE =
     [EVENTS, AGGREGATES, TEACHER_REFLECTIONS, AI_SUGGESTIONS, EXPORTS]"
| "allowed_data_categories_for_tier PSEUDONYMOUS =
     [EVENTS, AGGREGATES, RAW_RESPONSES, TEACHER_REFLECTIONS, AI_SUGGESTIONS, EXPORTS]"
| "allowed_data_categories_for_tier IDENTIFIABLE =
     [EVENTS, AGGREGATES, RAW_RESPONSES, TEACHER_REFLECTIONS, AI_SUGGESTIONS, EXPORTS]"

lemma categories_mono:
  "a \<le> b \<Longrightarrow>
   set (allowed_data_categories_for_tier a) \<subseteq> set (allowed_data_categories_for_tier b)"
  by (cases a; cases b) (auto simp: less_eq_retention_tier_def)

lemma raw_responses_iff:
  "RAW_RESPONSES \<in> set (allowed_data_categories_for_tier t) \<longleftrightarrow> PSEUDONYMOUS \<le> t"
  by (cases t) (simp_all add: less_eq_retention_tier_def)

lemma aggregates_iff:
  "AGGREGATES \<in> set (allowed_data_categories_for_tier t) \<longleftrightarrow> t \<noteq> NONE"
  by (cases t) simp_all

lemma events_iff: "EVENTS \<in> set (allowed_data_categories_for_tier t) \<longleftrightarrow> t \<noteq> NONE"
  by (cases t) simp_all

datatype retention_selection_result =
    RetentionSelectionAccepted retention_tier
  | RetentionSelectionRejected retention_tier string

definition identity_bearing_tiers :: "retention_tier list" where
  "identity_bearing_tiers = [PSEUDONYMOUS, IDENTIFIABLE]"

text \<open>\<open>not class_id\<close> holds of \<open>None\<close> and of the empty string.\<close>

definition validate_retention_selection ::
    "retention_tier \<Rightarrow> string option \<Rightarrow> bool \<Rightarrow> retention_selection_result" where
  "validate_retention_selection tier class_id identifiable_acknowledged =
     (if tier \<in> set identity_bearing_tiers \<and> the_default [] class_id = []
      then RetentionSelectionRejected tier ''class_id_required_for_identity_bearing_tier''
      else if tier = IDENTIFIABLE \<and> \<not> identifiable_acknowledged
      then RetentionSelectionRejected tier ''identifiable_tier_requires_explicit_acknowledgment''
      else RetentionSelectionAccepted tier)"

lemma retention_accepted_iff:
  "validate_retention_selection t c ack = RetentionSelectionAccepted u \<longleftrightarrow>
   u = t \<and> (PSEUDONYMOUS \<le> t \<longrightarrow> the_default [] c \<noteq> []) \<and> (t = IDENTIFIABLE \<longrightarrow> ack)"
  by (cases t)
    (auto simp: validate_retention_selection_def identity_bearing_tiers_def
      less_eq_retention_tier_def)

fun retention_window_days :: "retention_tier \<Rightarrow> int" where
  "retention_window_days NONE = 0"
| "retention_window_days IDENTIFIABLE = 30"
| "retention_window_days PSEUDONYMOUS = 90"
| "retention_window_days AGGREGATE = 180"

fun tier_label :: "retention_tier \<Rightarrow> string" where
  "tier_label NONE = ''No student data''"
| "tier_label AGGREGATE = ''Aggregate / class-level (K-12 default)''"
| "tier_label PSEUDONYMOUS = ''Pseudonymous per-student''"
| "tier_label IDENTIFIABLE = ''Identifiable per-student''"

fun tier_description :: "retention_tier \<Rightarrow> string" where
  "tier_description NONE =
     ''Nothing student-facing is persisted; the session runs ephemerally.''"
| "tier_description AGGREGATE =
     ''Only class-level aggregates and lifecycle events are kept; no raw per-student responses.''"
| "tier_description PSEUDONYMOUS =
     ''Raw responses are kept under a per-session pseudonym, never a real student identity.''"
| "tier_description IDENTIFIABLE =
     ''Raw responses are kept tied to a real student identity. Requires an explicit, '' @
     ''audited acknowledgment and a real class.''"

record retention_policy_description =
  pol_tier :: retention_tier
  pol_label :: string
  pol_description :: string
  pol_allowed_categories :: "session_data_category list"

definition describe_retention_policy :: "retention_tier \<Rightarrow> retention_policy_description" where
  "describe_retention_policy tier =
     \<lparr> pol_tier = tier,
       pol_label = tier_label tier,
       pol_description = tier_description tier,
       pol_allowed_categories = allowed_data_categories_for_tier tier \<rparr>"

section \<open>Delivery modes (\<open>delivery_mode.py\<close>)\<close>

datatype delivery_mode = Mode_LIVE | Mode_HOMEWORK | Mode_REVIEW | Mode_FLIPPED | Mode_CATCH_UP

fun delivery_mode_value :: "delivery_mode \<Rightarrow> string" where
  "delivery_mode_value Mode_LIVE = ''live''"
| "delivery_mode_value Mode_HOMEWORK = ''homework''"
| "delivery_mode_value Mode_REVIEW = ''review''"
| "delivery_mode_value Mode_FLIPPED = ''flipped''"
| "delivery_mode_value Mode_CATCH_UP = ''catch_up''"

record delivery_mode_policy =
  dmp_mode :: delivery_mode
  dmp_response_policy :: string
  dmp_retention_policy :: string
  dmp_sync_policy :: string
  dmp_teacher_controlled :: bool

fun describe_delivery_mode_policy :: "delivery_mode \<Rightarrow> delivery_mode_policy" where
  "describe_delivery_mode_policy Mode_LIVE =
     \<lparr> dmp_mode = Mode_LIVE, dmp_response_policy = ''teacher_controlled_nav'',
       dmp_retention_policy = ''tsp01_retention_tier'', dmp_sync_policy = ''realtime_sse'',
       dmp_teacher_controlled = True \<rparr>"
| "describe_delivery_mode_policy Mode_HOMEWORK =
     \<lparr> dmp_mode = Mode_HOMEWORK, dmp_response_policy = ''student_paced'',
       dmp_retention_policy = ''tsp01_retention_tier'', dmp_sync_policy = ''polling'',
       dmp_teacher_controlled = False \<rparr>"
| "describe_delivery_mode_policy Mode_REVIEW =
     \<lparr> dmp_mode = Mode_REVIEW, dmp_response_policy = ''student_paced'',
       dmp_retention_policy = ''tsp01_retention_tier'', dmp_sync_policy = ''none'',
       dmp_teacher_controlled = False \<rparr>"
| "describe_delivery_mode_policy Mode_FLIPPED =
     \<lparr> dmp_mode = Mode_FLIPPED, dmp_response_policy = ''student_paced'',
       dmp_retention_policy = ''tsp01_retention_tier'', dmp_sync_policy = ''polling'',
       dmp_teacher_controlled = False \<rparr>"
| "describe_delivery_mode_policy Mode_CATCH_UP =
     \<lparr> dmp_mode = Mode_CATCH_UP, dmp_response_policy = ''student_paced'',
       dmp_retention_policy = ''tsp01_retention_tier'', dmp_sync_policy = ''none'',
       dmp_teacher_controlled = False \<rparr>"

definition implemented_delivery_modes :: "delivery_mode list" where
  "implemented_delivery_modes = [Mode_LIVE]"

section \<open>Tables (\<open>models.py\<close>)\<close>

record teaching_session =
  sess_session_id :: string
  sess_teacher_id :: string
  sess_room_code :: "string option"
  sess_class_id :: "string option"
  sess_deck_id :: string
  sess_snapshot_id :: string
  sess_status :: session_status
  sess_delivery_mode :: delivery_mode
  sess_retention_tier :: retention_tier
  sess_created_at :: instant
  sess_updated_at :: instant
  sess_started_at :: "instant option"
  sess_ended_at :: "instant option"
  sess_archived_at :: "instant option"
  sess_expired_at :: "instant option"

record session_audit_event =
  sae_event_id :: string
  sae_session_id :: string
  sae_actor_id :: string
  sae_action :: string
  sae_event_metadata :: json_object
  sae_created_at :: instant

text \<open>The session tables that the creation of a session writes.\<close>

record session_db =
  live_sessions :: "teaching_session list"
  session_audit_events :: "session_audit_event list"

text \<open>
  \<open>_lock_retention_tier\<close>: \<open>current\<close> is the value the instance holds, \<open>None\<close> while it is being
  constructed. The message quotes the enumeration members' \<open>repr\<close>.
\<close>

definition tier_repr :: "retention_tier \<Rightarrow> string" where
  "tier_repr t = ''<RetentionTier.'' @
     (case t of NONE \<Rightarrow> ''NONE'' | AGGREGATE \<Rightarrow> ''AGGREGATE''
      | PSEUDONYMOUS \<Rightarrow> ''PSEUDONYMOUS'' | IDENTIFIABLE \<Rightarrow> ''IDENTIFIABLE'') @
     '': '' @ [CHR 0x27] @ retention_tier_value t @ [CHR 0x27] @ ''>''"

definition lock_retention_tier :: "retention_tier option \<Rightarrow> retention_tier \<Rightarrow> retention_tier result" where
  "lock_retention_tier current value =
     (case current of
        None \<Rightarrow> Inr value
      | Some c \<Rightarrow>
          (if c \<noteq> value
           then Inl (ValueError (''retention_tier is locked at session creation (was '' @
                  tier_repr c @ '', attempted '' @ tier_repr value @ '')''))
           else Inr value))"

definition assign_retention_tier :: "teaching_session \<Rightarrow> retention_tier \<Rightarrow> teaching_session result" where
  "assign_retention_tier session value =
     ebind (lock_retention_tier (Some (sess_retention_tier session)) value)
       (\<lambda>v. Inr (session\<lparr>sess_retention_tier := v\<rparr>))"

section \<open>Purge predicate (\<open>retention.py\<close> \<open>is_prunable\<close>)\<close>

definition first_some :: "'a option list \<Rightarrow> 'a option" where
  "first_some xs = (case dropWhile (\<lambda>x. x = None) xs of [] \<Rightarrow> None | x # _ \<Rightarrow> x)"

definition session_terminal_at :: "teaching_session \<Rightarrow> instant option" where
  "session_terminal_at s = first_some [sess_archived_at s, sess_ended_at s, sess_expired_at s]"

definition is_session_prunable :: "teaching_session \<Rightarrow> instant \<Rightarrow> bool" where
  "is_session_prunable session now =
     (if sess_status session \<notin> set session_terminal_statuses then False
      else case session_terminal_at session of
             None \<Rightarrow> False
           | Some terminal_at \<Rightarrow>
               (let window_days = retention_window_days (sess_retention_tier session) in
                if window_days = 0 then True else terminal_at + days window_days \<le> now))"

section \<open>Room codes and creation (\<open>join.py\<close>, \<open>service.py\<close>)\<close>

text \<open>\<open>f"{n:06d}"\<close>.\<close>

definition room_code_text :: "nat \<Rightarrow> string" where
  "room_code_text n = replicate (6 - length (show_nat n)) (CHR ''0'') @ show_nat n"

definition generate_room_code :: "nat \<Rightarrow> string" where
  "generate_room_code draw = room_code_text (draw mod 1000000)"

definition joinable_with_code :: "teaching_session list \<Rightarrow> string \<Rightarrow> teaching_session list" where
  "joinable_with_code rows code =
     filter (\<lambda>s. sess_room_code s = Some code \<and> sess_status s \<in> set joinable_statuses) rows"

definition max_room_code_attempts :: nat where
  "max_room_code_attempts = 5"

fun try_room_codes :: "teaching_session list \<Rightarrow> nat list \<Rightarrow> string result" where
  "try_room_codes rows [] =
     Inl (RuntimeError (''Could not generate a unique room code after '' @
       show_nat max_room_code_attempts @ '' attempts''))"
| "try_room_codes rows (draw # draws) =
     (let candidate = generate_room_code draw in
      ebind (scalar_one_or_none (joinable_with_code rows candidate))
        (\<lambda>found. case found of
            None \<Rightarrow> Inr candidate
          | Some _ \<Rightarrow> try_room_codes rows draws))"

definition unique_room_code :: "teaching_session list \<Rightarrow> (nat \<Rightarrow> nat) \<Rightarrow> string result" where
  "unique_room_code rows draws = try_room_codes rows (map draws [0..<max_room_code_attempts])"

definition quoted :: "string \<Rightarrow> string" where
  "quoted s = [CHR 0x27] @ s @ [CHR 0x27]"

text \<open>
  \<open>create_session\<close>: \<open>draws\<close> are the random numbers, \<open>audit_id\<close> the identifier of the audit row,
  \<open>now\<close> the default of the timestamp columns. The primary key is checked by the first flush.
\<close>

definition create_session ::
    "(nat \<Rightarrow> nat) \<Rightarrow> string \<Rightarrow> instant \<Rightarrow> string \<Rightarrow> string \<Rightarrow> string \<Rightarrow> string \<Rightarrow> string option \<Rightarrow>
     retention_tier \<Rightarrow> bool \<Rightarrow> delivery_mode \<Rightarrow> session_db \<Rightarrow> (session_db \<times> teaching_session) result"
  where
  "create_session draws audit_id now session_id teacher_id deck_id snapshot_id class_id
     retention_tier identifiable_acknowledged delivery_mode db =
     (if delivery_mode \<notin> set implemented_delivery_modes
      then Inl (OMCError (''delivery_mode '' @ quoted (delivery_mode_value delivery_mode) @
             '' is not yet supported''))
      else case validate_retention_selection retention_tier class_id identifiable_acknowledged of
             RetentionSelectionRejected tier reason \<Rightarrow>
               Inl (OMCError (''Retention tier '' @ quoted (retention_tier_value tier) @
                 '' rejected: '' @ reason))
           | RetentionSelectionAccepted _ \<Rightarrow>
               ebind (unique_room_code (live_sessions db) draws) (\<lambda>code.
                 (let session =
                    \<lparr> sess_session_id = session_id, sess_teacher_id = teacher_id,
                      sess_room_code = Some code, sess_class_id = class_id,
                      sess_deck_id = deck_id, sess_snapshot_id = snapshot_id,
                      sess_status = SCHEDULED, sess_delivery_mode = delivery_mode,
                      sess_retention_tier = retention_tier, sess_created_at = now,
                      sess_updated_at = now, sess_started_at = None, sess_ended_at = None,
                      sess_archived_at = None, sess_expired_at = None \<rparr>;
                    audit =
                    \<lparr> sae_event_id = audit_id, sae_session_id = session_id,
                      sae_actor_id = teacher_id,
                      sae_action = ''retention_tier_identifiable_acknowledged'',
                      sae_event_metadata =
                        [(''tier'', JStr (retention_tier_value retention_tier))],
                      sae_created_at = now \<rparr>
                  in if session_id \<in> set (map sess_session_id (live_sessions db))
                     then Inl IntegrityError
                     else if retention_tier = IDENTIFIABLE
                     then (if audit_id \<in> set (map sae_event_id (session_audit_events db))
                           then Inl IntegrityError
                           else Inr (db\<lparr>live_sessions := live_sessions db @ [session],
                                  session_audit_events := session_audit_events db @ [audit]\<rparr>,
                                session))
                     else Inr (db\<lparr>live_sessions := live_sessions db @ [session]\<rparr>, session))))"

end
