(* ===== verification/Auth.thy ===== *)
theory Auth
  imports Run_Store Session_Policy
begin

text \<open>
  Who may do what: account tokens and roles (\<open>services/gateway/auth/\<close>), ownership of a run and
  audited delegation of its review (\<open>auth/ownership.py\<close>, \<open>run_delegation_store.py\<close>), and the
  role tokens of live sessions (\<open>teaching_session/tokens.py\<close>, \<open>session_auth.py\<close>).

  PyJWT is an argument: \<open>encode\<close> from claims to a token, and \<open>decode\<close> from the clock (seconds) and
  a token to claims or an error. What the code relies on is \<open>jwt_contract\<close>: a token decodes to
  the claims it was made from, unless it has expired or is not yet valid. The secret and the
  algorithm are the same for every token and are left out. Claims are JSON objects; pydantic's
  validation reads the fields of each payload model from them. (A decimal text where an
  integer is expected, which pydantic would coerce, is refused here: no signer writes one.)
\<close>

section \<open>Account roles and claims (\<open>auth/models.py\<close>)\<close>

datatype account_role = Role_TEACHER | Role_ADMIN | Role_SCHOOL_ADMIN | Role_SYSTEM_ADMIN

fun account_role_value :: "account_role \<Rightarrow> string" where
  "account_role_value Role_TEACHER = ''teacher''"
| "account_role_value Role_ADMIN = ''admin''"
| "account_role_value Role_SCHOOL_ADMIN = ''school_admin''"
| "account_role_value Role_SYSTEM_ADMIN = ''system_admin''"

definition teacher_roles :: "account_role list" where
  "teacher_roles = [Role_TEACHER, Role_ADMIN, Role_SCHOOL_ADMIN, Role_SYSTEM_ADMIN]"

definition admin_roles :: "account_role list" where
  "admin_roles = [Role_ADMIN, Role_SYSTEM_ADMIN]"

record user =
  user_user_id :: string
  user_username :: string
  user_role :: account_role
  user_email :: "string option"
  user_organization_id :: "string option"
  user_class_id :: "string option"

record token_payload =
  tok_sub :: string
  tok_role :: account_role
  tok_exp :: int
  tok_iat :: int
  tok_organization_id :: "string option"
  tok_class_id :: "string option"

section \<open>Reading claims\<close>

definition find_value :: "('a \<Rightarrow> string) \<Rightarrow> 'a list \<Rightarrow> string \<Rightarrow> 'a option" where
  "find_value value xs s = find (\<lambda>x. value x = s) xs"

text \<open>Required and optional fields of a payload model, read from claims.\<close>

fun read_str :: "json option \<Rightarrow> string option" where
  "read_str (Some (JStr s)) = Some s"
| "read_str _ = None"

fun read_int :: "json option \<Rightarrow> int option" where
  "read_int (Some (JInt i)) = Some i"
| "read_int (Some (JBool b)) = Some (if b then 1 else 0)"
| "read_int _ = None"

fun read_opt_str :: "json option \<Rightarrow> string option option" where
  "read_opt_str None = Some None"
| "read_opt_str (Some JNull) = Some None"
| "read_opt_str (Some (JStr s)) = Some (Some s)"
| "read_opt_str _ = None"

fun opt_json :: "string option \<Rightarrow> json" where
  "opt_json None = JNull"
| "opt_json (Some s) = JStr s"

lemma read_opt_json [simp]: "read_opt_str (Some (opt_json x)) = Some x"
  by (cases x) simp_all

definition read_account_role :: "json option \<Rightarrow> account_role option" where
  "read_account_role j = Option.bind (read_str j) (find_value account_role_value teacher_roles)"

lemma read_account_role_value [simp]:
  "read_account_role (Some (JStr (account_role_value r))) = Some r"
  by (cases r) (simp_all add: read_account_role_def find_value_def teacher_roles_def)

definition read_token_payload :: "json_object \<Rightarrow> token_payload option" where
  "read_token_payload c =
     (case (read_str (map_of c ''sub''), read_account_role (map_of c ''role''),
            read_int (map_of c ''exp''), read_int (map_of c ''iat''),
            read_opt_str (map_of c ''organization_id''), read_opt_str (map_of c ''class_id'')) of
        (Some sub, Some role, Some exp, Some iat, Some org, Some cls) \<Rightarrow>
          Some \<lparr> tok_sub = sub, tok_role = role, tok_exp = exp, tok_iat = iat,
                 tok_organization_id = org, tok_class_id = cls \<rparr>
      | _ \<Rightarrow> None)"

definition dump_token_payload :: "token_payload \<Rightarrow> json_object" where
  "dump_token_payload p =
     [(''sub'', JStr (tok_sub p)), (''role'', JStr (account_role_value (tok_role p))),
      (''exp'', JInt (tok_exp p)), (''iat'', JInt (tok_iat p)),
      (''organization_id'', opt_json (tok_organization_id p)),
      (''class_id'', opt_json (tok_class_id p))]"

lemma read_dump_token: "read_token_payload (dump_token_payload p) = Some p"
  by (simp add: read_token_payload_def dump_token_payload_def)

section \<open>Signing and verifying (\<open>auth/jwt_handler.py\<close>)\<close>

datatype jwt_error = ExpiredSignatureError | InvalidTokenError string

type_synonym 't jwt_encode = "json_object \<Rightarrow> 't"
type_synonym 't jwt_decode = "int \<Rightarrow> 't \<Rightarrow> jwt_error + json_object"

definition jwt_contract :: "'t jwt_encode \<Rightarrow> 't jwt_decode \<Rightarrow> bool" where
  "jwt_contract encode decode \<longleftrightarrow>
     (\<forall>claims exp iat now. map_of claims ''exp'' = Some (JInt exp) \<longrightarrow>
        map_of claims ''iat'' = Some (JInt iat) \<longrightarrow>
        decode now (encode claims) =
          (if now < iat then Inl (InvalidTokenError ''The token is not yet valid (iat)'')
           else if exp \<le> now then Inl ExpiredSignatureError
           else Inr claims))"

text \<open>\<open>create_access_token\<close>: the token of the response; \<open>now\<close> is \<open>int(time.time())\<close>.\<close>

definition create_access_token :: "'t jwt_encode \<Rightarrow> int \<Rightarrow> int \<Rightarrow> user \<Rightarrow> 't" where
  "create_access_token encode expiry_hours now user =
     encode (dump_token_payload
       \<lparr> tok_sub = user_user_id user, tok_role = user_role user,
         tok_exp = now + expiry_hours * 3600, tok_iat = now,
         tok_organization_id = user_organization_id user,
         tok_class_id = user_class_id user \<rparr>)"

text \<open>A claim set that fails pydantic's validation raises \<open>ValidationError\<close>, a \<open>ValueError\<close>.\<close>

definition verify_token :: "'t jwt_decode \<Rightarrow> int \<Rightarrow> 't \<Rightarrow> token_payload result" where
  "verify_token decode now token =
     (case decode now token of
        Inl ExpiredSignatureError \<Rightarrow> Inl (ValueError ''Token has expired'')
      | Inl (InvalidTokenError e) \<Rightarrow> Inl (ValueError (''Invalid token: '' @ e))
      | Inr claims \<Rightarrow>
          (case read_token_payload claims of
             None \<Rightarrow> Inl (ValidationError ''TokenPayload'')
           | Some p \<Rightarrow> Inr p))"

definition user_from_payload :: "token_payload \<Rightarrow> user" where
  "user_from_payload p =
     \<lparr> user_user_id = tok_sub p, user_username = tok_sub p, user_role = tok_role p,
       user_email = None, user_organization_id = tok_organization_id p,
       user_class_id = tok_class_id p \<rparr>"

section \<open>Dependencies of the routes (\<open>auth/dependencies.py\<close>)\<close>

definition unauthorized :: "py_error \<Rightarrow> py_error" where
  "unauthorized e = HTTPException 401 (case e of ValueError m \<Rightarrow> m | ValidationError m \<Rightarrow> m | _ \<Rightarrow> [])"

definition get_current_user :: "'t jwt_decode \<Rightarrow> int \<Rightarrow> 't option \<Rightarrow> user result" where
  "get_current_user decode now credentials =
     (case credentials of
        None \<Rightarrow> Inl (unauthorized (ValueError ''Missing or invalid Authorization header''))
      | Some token \<Rightarrow>
          (case verify_token decode now token of
             Inl e \<Rightarrow> Inl (unauthorized e)
           | Inr p \<Rightarrow> Inr (user_from_payload p)))"

text \<open>The event stream also accepts the token in a cookie; the header has precedence.\<close>

definition get_current_user_for_status_stream ::
    "'t jwt_decode \<Rightarrow> int \<Rightarrow> 't option \<Rightarrow> 't option \<Rightarrow> user result" where
  "get_current_user_for_status_stream decode now credentials auth_token =
     get_current_user decode now (case credentials of Some c \<Rightarrow> Some c | None \<Rightarrow> auth_token)"

definition require_teacher :: "user result \<Rightarrow> user result" where
  "require_teacher current = ebind current (\<lambda>u.
     if user_role u \<notin> set teacher_roles
     then Inl (HTTPException 403 ''Teacher or admin role required'') else Inr u)"

definition require_admin :: "user result \<Rightarrow> user result" where
  "require_admin current = ebind current (\<lambda>u.
     if user_role u \<notin> set admin_roles
     then Inl (HTTPException 403 ''Admin role required'') else Inr u)"

section \<open>Ownership and delegation (\<open>auth/ownership.py\<close>, \<open>run_delegation_store.py\<close>)\<close>

text \<open>
  A row of \<open>users\<close>. The table has no \<open>organization_id\<close> column, so
  \<open>getattr(owner, "organization_id", None)\<close> is always \<open>None\<close>.
\<close>

record users_row =
  ur_user_id :: string
  ur_username :: string

definition owner_organization :: "users_row \<Rightarrow> string option" where
  "owner_organization owner = None"

definition check_same_organization :: "users_row list \<Rightarrow> string \<Rightarrow> user \<Rightarrow> bool result" where
  "check_same_organization users teacher_id u =
     (if the_default [] (user_organization_id u) = [] then Inr False
      else ebind (scalar_one_or_none (filter (\<lambda>r. ur_user_id r = teacher_id) users))
        (\<lambda>found. case found of
            None \<Rightarrow> Inr False
          | Some owner \<Rightarrow>
              (case owner_organization owner of
                 None \<Rightarrow> Inr False
               | Some org \<Rightarrow> Inr (Some org = user_organization_id u))))"

definition check_run_owner :: "users_row list \<Rightarrow> run_row list \<Rightarrow> string \<Rightarrow> user \<Rightarrow> bool result" where
  "check_run_owner users run_rows rid u =
     ebind (scalar_one_or_none (filter (\<lambda>r. run_id r = rid) run_rows))
       (\<lambda>found. case found of
           None \<Rightarrow> Inr False
         | Some run \<Rightarrow>
             (if user_role u = Role_SYSTEM_ADMIN then Inr True
              else if user_role u = Role_SCHOOL_ADMIN
              then check_same_organization users (run_teacher_id run) u
              else Inr (run_teacher_id run = user_user_id u)))"

record run_delegation =
  del_delegation_id :: string
  del_run_id :: string
  del_delegate_id :: string
  del_granted_by :: string

definition delegation_grant ::
    "string \<Rightarrow> string \<Rightarrow> string \<Rightarrow> string \<Rightarrow> run_delegation list \<Rightarrow> run_delegation list" where
  "delegation_grant new_id rid delegate granted_by rows =
     rows @ [\<lparr> del_delegation_id = new_id, del_run_id = rid, del_delegate_id = delegate,
               del_granted_by = granted_by \<rparr>]"

definition delegation_list_for_run :: "run_delegation list \<Rightarrow> string \<Rightarrow> run_delegation list" where
  "delegation_list_for_run rows rid = filter (\<lambda>d. del_run_id d = rid) rows"

definition is_delegate :: "run_delegation list \<Rightarrow> string \<Rightarrow> string \<Rightarrow> bool" where
  "is_delegate rows rid uid \<longleftrightarrow>
     filter (\<lambda>d. del_run_id d = rid \<and> del_delegate_id d = uid) rows \<noteq> []"

definition check_run_reviewer ::
    "users_row list \<Rightarrow> run_row list \<Rightarrow> run_delegation list \<Rightarrow> string \<Rightarrow> user \<Rightarrow> bool result" where
  "check_run_reviewer users run_rows dels rid u =
     ebind (check_run_owner users run_rows rid u)
       (\<lambda>owner. if owner then Inr True else Inr (is_delegate dels rid (user_user_id u)))"

section \<open>Role tokens of live sessions (\<open>teaching_session/tokens.py\<close>)\<close>

datatype session_role = CONTROLLER | DISPLAY | STUDENT | OBSERVER

fun session_role_value :: "session_role \<Rightarrow> string" where
  "session_role_value CONTROLLER = ''controller''"
| "session_role_value DISPLAY = ''display''"
| "session_role_value STUDENT = ''student''"
| "session_role_value OBSERVER = ''observer''"

definition session_roles :: "session_role list" where
  "session_roles = [CONTROLLER, DISPLAY, STUDENT, OBSERVER]"

definition teacher_minted_roles :: "session_role list" where
  "teacher_minted_roles = filter (\<lambda>r. r \<noteq> STUDENT) session_roles"

definition participant_roles :: "session_role list" where
  "participant_roles = filter (\<lambda>r. r \<noteq> CONTROLLER) session_roles"

lemma teacher_minted_iff: "r \<in> set teacher_minted_roles \<longleftrightarrow> r \<noteq> STUDENT"
  by (cases r) (simp_all add: teacher_minted_roles_def session_roles_def)

datatype identity_mode = ANONYMOUS | PSEUDONYM | ROSTER

fun identity_mode_value :: "identity_mode \<Rightarrow> string" where
  "identity_mode_value ANONYMOUS = ''anonymous''"
| "identity_mode_value PSEUDONYM = ''pseudonymous''"
| "identity_mode_value ROSTER = ''roster''"

definition default_session_token_ttl_seconds :: int where
  "default_session_token_ttl_seconds = 4 * 3600"

record session_token_payload =
  stp_session_id :: string
  stp_room_code :: string
  stp_role :: session_role
  stp_exp :: int
  stp_iat :: int
  stp_retention_tier :: "retention_tier option"
  stp_identity_mode :: identity_mode
  stp_alias :: "string option"
  stp_roster_student_id :: "string option"

definition dump_session_token :: "session_token_payload \<Rightarrow> json_object" where
  "dump_session_token p =
     [(''session_id'', JStr (stp_session_id p)), (''room_code'', JStr (stp_room_code p)),
      (''role'', JStr (session_role_value (stp_role p))),
      (''exp'', JInt (stp_exp p)), (''iat'', JInt (stp_iat p)),
      (''retention_tier'', opt_json (map_option retention_tier_value (stp_retention_tier p))),
      (''identity_mode'', JStr (identity_mode_value (stp_identity_mode p))),
      (''alias'', opt_json (stp_alias p)),
      (''roster_student_id'', opt_json (stp_roster_student_id p))]"

definition read_session_role :: "json option \<Rightarrow> session_role option" where
  "read_session_role j = Option.bind (read_str j) (find_value session_role_value session_roles)"

definition read_retention_tier :: "json option \<Rightarrow> retention_tier option option" where
  "read_retention_tier j =
     Option.bind (read_opt_str j) (\<lambda>s. case s of
         None \<Rightarrow> Some None
       | Some v \<Rightarrow> map_option Some
           (find_value retention_tier_value [NONE, AGGREGATE, PSEUDONYMOUS, IDENTIFIABLE] v))"

text \<open>The field has a default, so it may be missing, but it may not be null.\<close>

definition read_identity_mode :: "json option \<Rightarrow> identity_mode option" where
  "read_identity_mode j =
     (case j of
        None \<Rightarrow> Some ANONYMOUS
      | Some v \<Rightarrow> Option.bind (read_str (Some v))
          (find_value identity_mode_value [ANONYMOUS, PSEUDONYM, ROSTER]))"

definition read_session_token :: "json_object \<Rightarrow> session_token_payload option" where
  "read_session_token c =
     (case (read_str (map_of c ''session_id''), read_str (map_of c ''room_code''),
            read_session_role (map_of c ''role''),
            read_int (map_of c ''exp''), read_int (map_of c ''iat''),
            read_retention_tier (map_of c ''retention_tier''),
            read_identity_mode (map_of c ''identity_mode''),
            read_opt_str (map_of c ''alias''), read_opt_str (map_of c ''roster_student_id'')) of
        (Some sid, Some code, Some role, Some exp, Some iat, Some tier, Some mode,
         Some alias, Some student) \<Rightarrow>
          Some \<lparr> stp_session_id = sid, stp_room_code = code, stp_role = role, stp_exp = exp,
                 stp_iat = iat, stp_retention_tier = tier, stp_identity_mode = mode,
                 stp_alias = alias, stp_roster_student_id = student \<rparr>
      | _ \<Rightarrow> None)"

lemma read_session_role_value [simp]:
  "read_session_role (Some (JStr (session_role_value r))) = Some r"
  by (cases r) (simp_all add: read_session_role_def find_value_def session_roles_def)

lemma read_identity_mode_value [simp]:
  "read_identity_mode (Some (JStr (identity_mode_value m))) = Some m"
  by (cases m) (simp_all add: read_identity_mode_def find_value_def)

lemma read_retention_tier_value [simp]:
  "read_retention_tier (Some (opt_json (map_option retention_tier_value t))) = Some t"
proof (cases t)
  case None
  then show ?thesis by (simp add: read_retention_tier_def)
next
  case (Some a)
  then show ?thesis by (cases a) (simp_all add: read_retention_tier_def find_value_def)
qed

lemma read_dump_session_token: "read_session_token (dump_session_token p) = Some p"
  by (simp add: read_session_token_def dump_session_token_def)

text \<open>\<open>_require_owning_teacher\<close> and \<open>mint_session_token\<close>.\<close>

definition require_owning_teacher :: "teaching_session \<Rightarrow> user option \<Rightarrow> unit result" where
  "require_owning_teacher session minted_by =
     (case minted_by of
        None \<Rightarrow> Inl (AuthorizationError ''Teacher auth is required to mint this session role token'')
      | Some u \<Rightarrow>
          (if user_role u \<notin> set teacher_roles
           then Inl (AuthorizationError ''Teacher auth is required to mint this session role token'')
           else if user_user_id u \<noteq> sess_teacher_id session
           then Inl (AuthorizationError ''Only the session's own teacher can mint this role token'')
           else Inr ()))"

definition session_token_claims ::
    "int \<Rightarrow> int \<Rightarrow> teaching_session \<Rightarrow> session_role \<Rightarrow> identity_mode \<Rightarrow> string option \<Rightarrow>
     string option \<Rightarrow> session_token_payload" where
  "session_token_claims now ttl_seconds session role mode alias student =
     \<lparr> stp_session_id = sess_session_id session,
       stp_room_code = the_default [] (sess_room_code session), stp_role = role,
       stp_exp = now + ttl_seconds, stp_iat = now,
       stp_retention_tier = Some (sess_retention_tier session), stp_identity_mode = mode,
       stp_alias = alias, stp_roster_student_id = student \<rparr>"

definition mint_session_token ::
    "'t jwt_encode \<Rightarrow> int \<Rightarrow> int \<Rightarrow> teaching_session \<Rightarrow> session_role \<Rightarrow> identity_mode \<Rightarrow>
     string option \<Rightarrow> string option \<Rightarrow> user option \<Rightarrow> 't result" where
  "mint_session_token encode now ttl_seconds session role mode alias student minted_by =
     ebind (if role \<in> set teacher_minted_roles then require_owning_teacher session minted_by
            else Inr ())
       (\<lambda>_. Inr (encode (dump_session_token
          (session_token_claims now ttl_seconds session role mode alias student))))"

definition verify_session_token :: "'t jwt_decode \<Rightarrow> int \<Rightarrow> 't \<Rightarrow> session_token_payload result" where
  "verify_session_token decode now token =
     (case decode now token of
        Inl ExpiredSignatureError \<Rightarrow> Inl (ValueError ''Session token has expired'')
      | Inl (InvalidTokenError e) \<Rightarrow> Inl (ValueError (''Invalid session token: '' @ e))
      | Inr claims \<Rightarrow>
          (case read_session_token claims of
             None \<Rightarrow> Inl (ValueError ''Invalid session token claims: '')
           | Some p \<Rightarrow> Inr p))"

section \<open>Dependencies of the session routes (\<open>session_auth.py\<close>)\<close>

definition get_session_claims ::
    "'t jwt_decode \<Rightarrow> int \<Rightarrow> 't option \<Rightarrow> session_token_payload result" where
  "get_session_claims decode now credentials =
     (case credentials of
        None \<Rightarrow> Inl (HTTPException 401 ''Missing session role token'')
      | Some token \<Rightarrow>
          (case verify_session_token decode now token of
             Inl e \<Rightarrow> Inl (unauthorized e)
           | Inr p \<Rightarrow> Inr p))"

definition get_session_claims_for_stream ::
    "'t jwt_decode \<Rightarrow> int \<Rightarrow> 't option \<Rightarrow> 't option \<Rightarrow> session_token_payload result" where
  "get_session_claims_for_stream decode now credentials session_token =
     get_session_claims decode now
       (case credentials of Some c \<Rightarrow> Some c | None \<Rightarrow> session_token)"

definition require_session_role ::
    "session_role list \<Rightarrow> session_token_payload result \<Rightarrow> session_token_payload result" where
  "require_session_role allowed claims = ebind claims (\<lambda>c.
     if stp_role c \<notin> set allowed
     then Inl (HTTPException 403 ''Session role not permitted for this action'') else Inr c)"

definition require_controller :: "session_token_payload result \<Rightarrow> session_token_payload result" where
  "require_controller = require_session_role [CONTROLLER]"

section \<open>Laws\<close>

text \<open>What a decoded token can be, when PyJWT keeps its contract.\<close>

lemma decode_account:
  "jwt_contract encode decode \<Longrightarrow>
   decode now (create_access_token encode hours issued u) =
     (if now < issued then Inl (InvalidTokenError ''The token is not yet valid (iat)'')
      else if issued + hours * 3600 \<le> now then Inl ExpiredSignatureError
      else Inr (dump_token_payload
        \<lparr> tok_sub = user_user_id u, tok_role = user_role u, tok_exp = issued + hours * 3600,
          tok_iat = issued, tok_organization_id = user_organization_id u,
          tok_class_id = user_class_id u \<rparr>))"
  by (simp add: jwt_contract_def create_access_token_def dump_token_payload_def)

lemma decode_session:
  "jwt_contract encode decode \<Longrightarrow>
   decode now (encode (dump_session_token p)) =
     (if now < stp_iat p then Inl (InvalidTokenError ''The token is not yet valid (iat)'')
      else if stp_exp p \<le> now then Inl ExpiredSignatureError
      else Inr (dump_session_token p))"
  by (simp add: jwt_contract_def dump_session_token_def)

lemma session_claims_no_account: "read_token_payload (dump_session_token p) = None"
  by (simp add: read_token_payload_def dump_session_token_def split: option.splits)

lemma account_claims_no_session: "read_session_token (dump_token_payload p) = None"
  by (simp add: read_session_token_def dump_token_payload_def split: option.splits)

text \<open>
  A role token for a session is issued only to the session's own teacher,
  or, for the student role, to anyone; verified while it is valid it yields exactly the session,
  role and policy it was minted for; presented as an account token it never authenticates, and an
  account token never passes as a role token.
\<close>
lemma session_token_scoped:
  assumes "jwt_contract encode decode"
    and "mint_session_token encode issued ttl session role mode alias student minted_by = Inr token"
  shows "(role \<noteq> STUDENT \<longrightarrow> (\<exists>u. minted_by = Some u \<and> user_user_id u = sess_teacher_id session)) \<and>
    (issued \<le> now \<and> now < issued + ttl \<longrightarrow>
       verify_session_token decode now token =
         Inr (session_token_claims issued ttl session role mode alias student)) \<and>
    (issued + ttl \<le> now \<longrightarrow> (\<exists>e. verify_session_token decode now token = Inl (ValueError e))) \<and>
    (\<exists>m. get_current_user decode now (Some token) = Inl (HTTPException 401 m)) \<and>
    (\<exists>m. get_session_claims decode now (Some (create_access_token encode hours issued' u)) =
       Inl (HTTPException 401 m))"
proof -
  let ?p = "session_token_claims issued ttl session role mode alias student"
  have token: "token = encode (dump_session_token ?p)"
    and owner: "role \<noteq> STUDENT \<Longrightarrow> require_owning_teacher session minted_by = Inr ()"
    using assms(2) by (auto simp: mint_session_token_def teacher_minted_iff ebind_Inr_iff
        split: if_splits)
  have times: "stp_iat ?p = issued" "stp_exp ?p = issued + ttl"
    by (simp_all add: session_token_claims_def)
  have "role \<noteq> STUDENT \<longrightarrow> (\<exists>u. minted_by = Some u \<and> user_user_id u = sess_teacher_id session)"
    using owner by (auto simp: require_owning_teacher_def split: option.splits if_splits)
  moreover have "issued \<le> now \<and> now < issued + ttl \<longrightarrow>
      verify_session_token decode now token = Inr ?p"
    by (simp add: verify_session_token_def token decode_session [OF assms(1)] times
        read_dump_session_token)
  moreover have "issued + ttl \<le> now \<longrightarrow>
      (\<exists>e. verify_session_token decode now token = Inl (ValueError e))"
    by (simp add: verify_session_token_def token decode_session [OF assms(1)] times)
  moreover have "\<exists>m. get_current_user decode now (Some token) = Inl (HTTPException 401 m)"
    by (simp add: get_current_user_def verify_token_def token decode_session [OF assms(1)]
        session_claims_no_account unauthorized_def)
  moreover have "\<exists>m. get_session_claims decode now
      (Some (create_access_token encode hours issued' u)) = Inl (HTTPException 401 m)"
    by (simp add: get_session_claims_def verify_session_token_def decode_account [OF assms(1)]
        account_claims_no_session unauthorized_def)
  ultimately show ?thesis by blast
qed

text \<open>An instance of the contract: a token is its claims.\<close>

definition plain_decode :: "json_object jwt_decode" where
  "plain_decode now claims =
     (case (map_of claims ''exp'', map_of claims ''iat'') of
        (Some (JInt exp), Some (JInt iat)) \<Rightarrow>
          (if now < iat then Inl (InvalidTokenError ''The token is not yet valid (iat)'')
           else if exp \<le> now then Inl ExpiredSignatureError
           else Inr claims)
      | _ \<Rightarrow> Inl (InvalidTokenError ''missing claim''))"

lemma plain_contract: "jwt_contract (\<lambda>c. c) plain_decode"
  by (simp add: jwt_contract_def plain_decode_def)

definition demo_session :: teaching_session where
  "demo_session =
     \<lparr> sess_session_id = ''s1'', sess_teacher_id = ''t1'', sess_room_code = Some ''000042'',
       sess_class_id = Some ''c1'', sess_deck_id = ''d'', sess_snapshot_id = ''n'',
       sess_status = SCHEDULED, sess_delivery_mode = Mode_LIVE,
       sess_retention_tier = PSEUDONYMOUS, sess_created_at = 0, sess_updated_at = 0,
       sess_started_at = None, sess_ended_at = None, sess_archived_at = None,
       sess_expired_at = None \<rparr>"

definition demo_teacher :: user where
  "demo_teacher =
     \<lparr> user_user_id = ''t1'', user_username = ''t1'', user_role = Role_TEACHER,
       user_email = None, user_organization_id = None, user_class_id = None \<rparr>"

lemma session_token_scoped_witness:
  "verify_session_token plain_decode 100
     (dump_session_token (session_token_claims 0 14400 demo_session CONTROLLER ANONYMOUS None None)) =
   Inr (session_token_claims 0 14400 demo_session CONTROLLER ANONYMOUS None None)"
proof -
  have "mint_session_token (\<lambda>c. c) 0 14400 demo_session CONTROLLER ANONYMOUS None None
      (Some demo_teacher) =
    Inr (dump_session_token (session_token_claims 0 14400 demo_session CONTROLLER ANONYMOUS None None))"
    by (simp add: mint_session_token_def require_owning_teacher_def teacher_roles_def
        demo_teacher_def demo_session_def)
  from session_token_scoped [OF plain_contract this, of 100] show ?thesis by simp
qed

lemma school_admin_no_organization:
  "distinct (map ur_user_id users) \<Longrightarrow> check_same_organization users t u = Inr False"
proof -
  assume d: "distinct (map ur_user_id users)"
  have "filter (\<lambda>r. ur_user_id r = t) users = [] \<or> (\<exists>r. filter (\<lambda>r. ur_user_id r = t) users = [r])"
    using filter_key_le_one [OF d] by (auto simp: filter_empty_conv)
  then show ?thesis
    by (auto simp: check_same_organization_def owner_organization_def)
qed

lemma run_lookup:
  "distinct (map run_id run_rows) \<Longrightarrow>
   scalar_one_or_none (filter (\<lambda>r. run_id r = rid) run_rows) = Inr (find (\<lambda>r. run_id r = rid) run_rows)"
proof (induction run_rows)
  case Nil
  then show ?case by simp
next
  case (Cons r rs)
  show ?case
  proof (cases "run_id r = rid")
    case True
    then have "filter (\<lambda>x. run_id x = rid) rs = []"
      using Cons.prems by (auto simp: filter_empty_conv image_iff)
    with True show ?thesis by simp
  next
    case False
    with Cons show ?thesis by simp
  qed
qed

text \<open>
  The exact rule of who may act on a run. A system administrator may act on
  every run that exists; a teacher and a legacy administrator on their own; a school
  administrator on none, not even their own, since accounts carry no organization; and review
  is open, beyond the owner, to exactly those to whom it was delegated.
\<close>
lemma run_review_access:
  assumes "distinct (map run_id run_rows)" and "distinct (map ur_user_id users)"
  shows "check_run_owner users run_rows rid u = Inr (\<exists>r \<in> set run_rows. run_id r = rid \<and>
      (user_role u = Role_SYSTEM_ADMIN \<or>
       user_role u \<in> {Role_TEACHER, Role_ADMIN} \<and> run_teacher_id r = user_user_id u)) \<and>
    (check_run_owner users run_rows rid u = Inr False \<longrightarrow>
     check_run_reviewer users run_rows dels rid u =
       Inr (\<exists>d \<in> set dels. del_run_id d = rid \<and> del_delegate_id d = user_user_id u)) \<and>
    (check_run_owner users run_rows rid u = Inr True \<longrightarrow>
     check_run_reviewer users run_rows dels rid u = Inr True)"
proof -
  have uniq: "r = r'" if "r \<in> set run_rows" "r' \<in> set run_rows" "run_id r = run_id r'" for r r'
    using distinct_key_eq [OF assms(1)] that by blast
  have owner: "check_run_owner users run_rows rid u = Inr (\<exists>r \<in> set run_rows. run_id r = rid \<and>
      (user_role u = Role_SYSTEM_ADMIN \<or>
       user_role u \<in> {Role_TEACHER, Role_ADMIN} \<and> run_teacher_id r = user_user_id u))"
  proof (cases "find (\<lambda>r. run_id r = rid) run_rows")
    case None
    then show ?thesis
      using run_lookup [OF assms(1), of rid] by (auto simp: check_run_owner_def find_None_iff)
  next
    case (Some r)
    then have r: "r \<in> set run_rows" "run_id r = rid"
      by (auto simp: find_Some_iff)
    have only: "(\<exists>x \<in> set run_rows. run_id x = rid \<and> P x) = P r" for P
      using r uniq by auto
    show ?thesis
      unfolding only using run_lookup [OF assms(1), of rid] Some
      by (cases "user_role u")
        (simp_all add: check_run_owner_def school_admin_no_organization [OF assms(2)])
  qed
  have del: "is_delegate dels rid x \<longleftrightarrow> (\<exists>d \<in> set dels. del_run_id d = rid \<and> del_delegate_id d = x)"
    for x by (auto simp: is_delegate_def filter_empty_conv)
  have no: "check_run_owner users run_rows rid u = Inr False \<Longrightarrow>
      check_run_reviewer users run_rows dels rid u =
        Inr (\<exists>d \<in> set dels. del_run_id d = rid \<and> del_delegate_id d = user_user_id u)"
    unfolding check_run_reviewer_def del by (simp only: ebind.simps if_False)
  have yes: "check_run_owner users run_rows rid u = Inr True \<Longrightarrow>
      check_run_reviewer users run_rows dels rid u = Inr True"
    unfolding check_run_reviewer_def by (simp only: ebind.simps if_True)
  show ?thesis by (intro conjI impI owner no yes)
qed

lemma run_review_access_witness:
  "check_run_reviewer [] [] [\<lparr> del_delegation_id = ''g'', del_run_id = ''r1'',
      del_delegate_id = ''t1'', del_granted_by = ''t2'' \<rparr>] ''r1'' demo_teacher = Inr True"
  using run_review_access [of "[]" "[]" "''r1''" demo_teacher
      "[\<lparr> del_delegation_id = ''g'', del_run_id = ''r1'', del_delegate_id = ''t1'',
          del_granted_by = ''t2'' \<rparr>]"]
  by (simp add: demo_teacher_def)

end
