(* ===== verification/Session_Events.thy ===== *)
theory Session_Events
  imports Auth Sequenced_Log
begin

text \<open>
  The significant events of a live session (\<open>services/gateway/teaching_session/events.py\<close>): typed
  payloads, the read model folded from them, and the hot copy of it in Redis
  (\<open>live_sync.py\<close>); the append-only log they are kept in (\<open>event_log.py\<close>).

  Redis is an argument: the text stored under a session's key, or nothing when the key is
  missing or the server is not reachable. JSON text is its parsed value; an instant's ISO form
  and back is an argument with the law that it reads back what was written.
\<close>

section \<open>Event types and payloads (\<open>events.py\<close>)\<close>

datatype session_event_type =
    SESSION_STARTED | SLIDE_CHANGED | INTERACTION_OPENED | AGGREGATE_UPDATED
  | BRANCH_SELECTED | ANNOTATION_ADDED | SESSION_ENDED | CONTENT_REPUBLISHED

fun session_event_type_value :: "session_event_type \<Rightarrow> string" where
  "session_event_type_value SESSION_STARTED = ''session_started''"
| "session_event_type_value SLIDE_CHANGED = ''slide_changed''"
| "session_event_type_value INTERACTION_OPENED = ''interaction_opened''"
| "session_event_type_value AGGREGATE_UPDATED = ''aggregate_updated''"
| "session_event_type_value BRANCH_SELECTED = ''branch_selected''"
| "session_event_type_value ANNOTATION_ADDED = ''annotation_added''"
| "session_event_type_value SESSION_ENDED = ''session_ended''"
| "session_event_type_value CONTENT_REPUBLISHED = ''content_republished''"

text \<open>One constructor per payload model.\<close>

datatype event_payload =
    SessionStartedPayload string string
  | SlideChangedPayload string "int option"
  | InteractionOpenedPayload string string "string option"
  | AggregateUpdatedPayload string "(string \<times> int) list"
  | BranchSelectedPayload string string string
  | AnnotationAddedPayload string string "string option"
  | SessionEndedPayload "string option"
  | ContentRepublishedPayload string

text \<open>\<open>_PAYLOAD_MODELS\<close>, read from a payload to its type.\<close>

fun payload_type :: "event_payload \<Rightarrow> session_event_type" where
  "payload_type (SessionStartedPayload _ _) = SESSION_STARTED"
| "payload_type (SlideChangedPayload _ _) = SLIDE_CHANGED"
| "payload_type (InteractionOpenedPayload _ _ _) = INTERACTION_OPENED"
| "payload_type (AggregateUpdatedPayload _ _) = AGGREGATE_UPDATED"
| "payload_type (BranchSelectedPayload _ _ _) = BRANCH_SELECTED"
| "payload_type (AnnotationAddedPayload _ _ _) = ANNOTATION_ADDED"
| "payload_type (SessionEndedPayload _) = SESSION_ENDED"
| "payload_type (ContentRepublishedPayload _) = CONTENT_REPUBLISHED"

fun opt_int_json :: "int option \<Rightarrow> json" where
  "opt_int_json None = JNull"
| "opt_int_json (Some i) = JInt i"

fun dump_payload :: "event_payload \<Rightarrow> json_object" where
  "dump_payload (SessionStartedPayload d s) = [(''deck_id'', JStr d), (''snapshot_id'', JStr s)]"
| "dump_payload (SlideChangedPayload s i) =
     [(''slide_id'', JStr s), (''slide_index'', opt_int_json i)]"
| "dump_payload (InteractionOpenedPayload i s k) =
     [(''interaction_id'', JStr i), (''slide_id'', JStr s), (''interaction_kind'', opt_json k)]"
| "dump_payload (AggregateUpdatedPayload i ts) =
     [(''interaction_id'', JStr i), (''tallies'', JObj (map (\<lambda>(k, v). (k, JInt v)) ts))]"
| "dump_payload (BranchSelectedPayload s b src) =
     [(''slide_id'', JStr s), (''branch_id'', JStr b), (''source'', JStr src)]"
| "dump_payload (AnnotationAddedPayload s a k) =
     [(''slide_id'', JStr s), (''annotation_id'', JStr a), (''annotation_kind'', opt_json k)]"
| "dump_payload (SessionEndedPayload r) = [(''reason'', opt_json r)]"
| "dump_payload (ContentRepublishedPayload s) = [(''snapshot_id'', JStr s)]"

fun read_opt_int :: "json option \<Rightarrow> int option option" where
  "read_opt_int None = Some None"
| "read_opt_int (Some JNull) = Some None"
| "read_opt_int (Some j) = map_option Some (read_int (Some j))"

text \<open>A field with a default: may be missing, may not be null.\<close>

fun read_str_default :: "string \<Rightarrow> json option \<Rightarrow> string option" where
  "read_str_default d None = Some d"
| "read_str_default d (Some j) = read_str (Some j)"

fun read_tally_items :: "json_object \<Rightarrow> (string \<times> int) list option" where
  "read_tally_items [] = Some []"
| "read_tally_items ((k, v) # kvs) =
     (case (read_int (Some v), read_tally_items kvs) of
        (Some i, Some is) \<Rightarrow> Some ((k, i) # is)
      | _ \<Rightarrow> None)"

fun read_tallies :: "json option \<Rightarrow> (string \<times> int) list option" where
  "read_tallies (Some (JObj kvs)) = read_tally_items kvs"
| "read_tallies _ = None"

definition pair_opt :: "'a option \<Rightarrow> 'b option \<Rightarrow> ('a \<times> 'b) option" where
  "pair_opt x y = (case (x, y) of (Some a, Some b) \<Rightarrow> Some (a, b) | _ \<Rightarrow> None)"

text \<open>\<open>payload_model.model_validate\<close>: unknown fields are dropped, missing ones take their default.\<close>

fun validate_payload :: "session_event_type \<Rightarrow> json_object \<Rightarrow> event_payload option" where
  "validate_payload SESSION_STARTED c =
     map_option (\<lambda>(d, s). SessionStartedPayload d s)
       (pair_opt (read_str (map_of c ''deck_id'')) (read_str (map_of c ''snapshot_id'')))"
| "validate_payload SLIDE_CHANGED c =
     map_option (\<lambda>(s, i). SlideChangedPayload s i)
       (pair_opt (read_str (map_of c ''slide_id'')) (read_opt_int (map_of c ''slide_index'')))"
| "validate_payload INTERACTION_OPENED c =
     map_option (\<lambda>(i, s, k). InteractionOpenedPayload i s k)
       (pair_opt (read_str (map_of c ''interaction_id''))
         (pair_opt (read_str (map_of c ''slide_id''))
           (read_opt_str (map_of c ''interaction_kind''))))"
| "validate_payload AGGREGATE_UPDATED c =
     map_option (\<lambda>(i, ts). AggregateUpdatedPayload i ts)
       (pair_opt (read_str (map_of c ''interaction_id'')) (read_tallies (map_of c ''tallies'')))"
| "validate_payload BRANCH_SELECTED c =
     map_option (\<lambda>(s, b, src). BranchSelectedPayload s b src)
       (pair_opt (read_str (map_of c ''slide_id''))
         (pair_opt (read_str (map_of c ''branch_id''))
           (read_str_default ''precomputed'' (map_of c ''source''))))"
| "validate_payload ANNOTATION_ADDED c =
     map_option (\<lambda>(s, a, k). AnnotationAddedPayload s a k)
       (pair_opt (read_str (map_of c ''slide_id''))
         (pair_opt (read_str (map_of c ''annotation_id''))
           (read_opt_str (map_of c ''annotation_kind''))))"
| "validate_payload SESSION_ENDED c =
     map_option SessionEndedPayload (read_opt_str (map_of c ''reason''))"
| "validate_payload CONTENT_REPUBLISHED c =
     map_option ContentRepublishedPayload (read_str (map_of c ''snapshot_id''))"

lemma read_tally_items_dump: "read_tally_items (map (\<lambda>(k, v). (k, JInt v)) ts) = Some ts"
  by (induction ts) auto

lemma read_opt_int_json [simp]: "read_opt_int (Some (opt_int_json i)) = Some i"
  by (cases i) simp_all

lemma validate_dump: "validate_payload (payload_type p) (dump_payload p) = Some p"
  by (cases p) (simp_all add: pair_opt_def read_tally_items_dump)

lemma validate_type: "validate_payload t c = Some p \<Longrightarrow> payload_type p = t"
  by (cases t) (auto simp: pair_opt_def split: option.splits)

record session_event =
  se_event_id :: string
  se_session_id :: string
  se_event_type :: session_event_type
  se_actor_role :: session_role
  se_payload :: json_object
  se_created_at :: instant
  se_sequence :: "nat option"

definition build_event ::
    "string \<Rightarrow> instant \<Rightarrow> string \<Rightarrow> session_event_type \<Rightarrow> session_role \<Rightarrow> json_object \<Rightarrow>
     session_event result" where
  "build_event new_id now session_id event_type actor_role payload =
     (case validate_payload event_type payload of
        None \<Rightarrow> Inl (ValidationError (session_event_type_value event_type))
      | Some validated \<Rightarrow>
          Inr \<lparr> se_event_id = new_id, se_session_id = session_id, se_event_type = event_type,
                se_actor_role = actor_role, se_payload = dump_payload validated,
                se_created_at = now, se_sequence = None \<rparr>)"

section \<open>The read model (\<open>events.py\<close>)\<close>

record session_read_model =
  rm_session_id :: string
  rm_current_slide_id :: "string option"
  rm_current_branch_id :: "string option"
  rm_open_interaction_id :: "string option"
  rm_tallies :: "(string \<times> (string \<times> int) list) list"
  rm_ended :: bool
  rm_last_sequence :: nat
  rm_updated_at :: "instant option"

definition initial_read_model :: "string \<Rightarrow> session_read_model" where
  "initial_read_model session_id =
     \<lparr> rm_session_id = session_id, rm_current_slide_id = None, rm_current_branch_id = None,
       rm_open_interaction_id = None, rm_tallies = [], rm_ended = False, rm_last_sequence = 0,
       rm_updated_at = None \<rparr>"

text \<open>The field assignments of one event, by the payload read from it.\<close>

fun apply_payload :: "event_payload \<Rightarrow> session_read_model \<Rightarrow> session_read_model" where
  "apply_payload (SlideChangedPayload slide _) s = s\<lparr>rm_current_slide_id := Some slide\<rparr>"
| "apply_payload (BranchSelectedPayload slide branch _) s =
     s\<lparr>rm_current_slide_id := Some slide, rm_current_branch_id := Some branch\<rparr>"
| "apply_payload (InteractionOpenedPayload i _ _) s = s\<lparr>rm_open_interaction_id := Some i\<rparr>"
| "apply_payload (AggregateUpdatedPayload i tallies) s =
     s\<lparr>rm_tallies := AList.update i tallies (rm_tallies s)\<rparr>"
| "apply_payload (SessionEndedPayload _) s = s\<lparr>rm_ended := True\<rparr>"
| "apply_payload _ s = s"

text \<open>The types whose payload \<open>apply_event\<close> reads again; the others are taken as they are.\<close>

definition reads_payload :: "session_event_type \<Rightarrow> bool" where
  "reads_payload t \<longleftrightarrow> t \<in> {SLIDE_CHANGED, BRANCH_SELECTED, INTERACTION_OPENED, AGGREGATE_UPDATED}"

definition stamp :: "session_event \<Rightarrow> session_read_model \<Rightarrow> session_read_model" where
  "stamp event s =
     (let s1 = (case se_sequence event of
                  None \<Rightarrow> s
                | Some n \<Rightarrow> s\<lparr>rm_last_sequence := max (rm_last_sequence s) n\<rparr>)
      in s1\<lparr>rm_updated_at := Some (se_created_at event)\<rparr>)"

definition apply_event :: "session_read_model \<Rightarrow> session_event \<Rightarrow> session_read_model result" where
  "apply_event state event =
     (if reads_payload (se_event_type event)
      then (case validate_payload (se_event_type event) (se_payload event) of
              None \<Rightarrow> Inl (ValidationError (session_event_type_value (se_event_type event)))
            | Some p \<Rightarrow> Inr (stamp event (apply_payload p state)))
      else if se_event_type event = SESSION_ENDED
      then Inr (stamp event (state\<lparr>rm_ended := True\<rparr>))
      else Inr (stamp event state))"

fun fold_events :: "session_read_model \<Rightarrow> session_event list \<Rightarrow> session_read_model result" where
  "fold_events s [] = Inr s"
| "fold_events s (e # es) = ebind (apply_event s e) (\<lambda>s'. fold_events s' es)"

lemma fold_events_append:
  "fold_events s (xs @ ys) = ebind (fold_events s xs) (\<lambda>s'. fold_events s' ys)"
proof (induction xs arbitrary: s)
  case Nil
  then show ?case by simp
next
  case (Cons x xs)
  then show ?case by (cases "apply_event s x") simp_all
qed

lemma update_idem: "AList.update k v (AList.update k v xs) = AList.update k v xs"
  by (induction xs) auto

lemma apply_payload_idem: "apply_payload p (apply_payload p s) = apply_payload p s"
  by (cases p) (simp_all add: update_idem)

lemma apply_payload_last [simp]: "rm_last_sequence (apply_payload p s) = rm_last_sequence s"
  by (cases p) simp_all

lemma stamp_payload: "apply_payload p (stamp e s) = stamp e (apply_payload p s)"
  by (cases p) (simp_all add: stamp_def Let_def split: option.splits)

lemma stamp_idem: "stamp e (stamp e s) = stamp e s"
  by (simp add: stamp_def Let_def split: option.splits)

lemma stamp_ended: "(stamp e s)\<lparr>rm_ended := True\<rparr> = stamp e (s\<lparr>rm_ended := True\<rparr>)"
  by (simp add: stamp_def Let_def split: option.splits)

text \<open>Applying the same event again changes nothing, which recovery relies on.\<close>

lemma apply_event_idem: "apply_event s e = Inr s' \<Longrightarrow> apply_event s' e = Inr s'"
  by (auto simp: apply_event_def stamp_payload stamp_idem apply_payload_idem stamp_ended
      split: if_splits option.splits)

text \<open>An event that was built from a valid payload can always be applied.\<close>

definition event_ok :: "session_event \<Rightarrow> bool" where
  "event_ok e \<longleftrightarrow> (\<exists>p. payload_type p = se_event_type e \<and> se_payload e = dump_payload p)"

lemma apply_event_total: "event_ok e \<Longrightarrow> \<exists>s'. apply_event s e = Inr s'"
  unfolding event_ok_def apply_event_def using validate_dump by (metis option.simps(5))

lemma fold_events_total: "\<forall>e \<in> set es. event_ok e \<Longrightarrow> \<exists>s'. fold_events s es = Inr s'"
proof (induction es arbitrary: s)
  case Nil
  then show ?case by simp
next
  case (Cons e es)
  then obtain s1 where "apply_event s e = Inr s1" using apply_event_total by force
  with Cons show ?case by simp
qed

section \<open>The hot copy (\<open>live_sync.py\<close>)\<close>

definition session_channel :: "string \<Rightarrow> string" where
  "session_channel session_id = ''teaching_session:'' @ session_id"

definition state_key :: "string \<Rightarrow> string" where
  "state_key session_id = ''teaching_session:state:'' @ session_id"

definition tallies_json :: "(string \<times> (string \<times> int) list) list \<Rightarrow> json" where
  "tallies_json ts = JObj (map (\<lambda>(i, t). (i, JObj (map (\<lambda>(k, v). (k, JInt v)) t))) ts)"

definition read_model_to_json :: "(instant \<Rightarrow> string) \<Rightarrow> session_read_model \<Rightarrow> json_object" where
  "read_model_to_json isoformat s =
     [(''session_id'', JStr (rm_session_id s)),
      (''current_slide_id'', opt_json (rm_current_slide_id s)),
      (''current_branch_id'', opt_json (rm_current_branch_id s)),
      (''open_interaction_id'', opt_json (rm_open_interaction_id s)),
      (''tallies'', tallies_json (rm_tallies s)),
      (''ended'', JBool (rm_ended s)),
      (''last_sequence'', JInt (int (rm_last_sequence s))),
      (''updated_at'', opt_json (map_option isoformat (rm_updated_at s)))]"

text \<open>The reader takes each field as it comes, so it is only right on what the writer wrote.\<close>

fun as_opt_str :: "json \<Rightarrow> string option" where
  "as_opt_str (JStr s) = Some s"
| "as_opt_str _ = None"

fun as_int :: "json \<Rightarrow> int" where
  "as_int (JInt i) = i"
| "as_int _ = 0"

fun as_tallies :: "json \<Rightarrow> (string \<times> (string \<times> int) list) list" where
  "as_tallies (JObj kvs) =
     map (\<lambda>(i, t). (i, case t of JObj items \<Rightarrow> map (\<lambda>(k, v). (k, as_int v)) items | _ \<Rightarrow> [])) kvs"
| "as_tallies _ = []"

definition read_model_from_json ::
    "(string \<Rightarrow> instant) \<Rightarrow> string \<Rightarrow> json_object \<Rightarrow> session_read_model" where
  "read_model_from_json fromiso session_id data =
     \<lparr> rm_session_id = session_id,
       rm_current_slide_id = as_opt_str (dict_get data ''current_slide_id''),
       rm_current_branch_id = as_opt_str (dict_get data ''current_branch_id''),
       rm_open_interaction_id = as_opt_str (dict_get data ''open_interaction_id''),
       rm_tallies = as_tallies (dict_get data ''tallies''),
       rm_ended = truthy (dict_get data ''ended''),
       rm_last_sequence = nat (as_int (dict_get data ''last_sequence'')),
       rm_updated_at = map_option fromiso (as_opt_str (dict_get data ''updated_at'')) \<rparr>"

lemma as_opt_str_opt_json [simp]: "as_opt_str (opt_json x) = x"
  by (cases x) simp_all

lemma as_tallies_json: "as_tallies (tallies_json ts) = ts"
proof -
  have "map (\<lambda>(k, v). (k, as_int v)) (map (\<lambda>(k, v). (k, JInt v)) t) = t" for t :: "(string \<times> int) list"
    by (induction t) auto
  then show ?thesis by (induction ts) (auto simp: tallies_json_def)
qed

lemma read_model_json:
  assumes "\<And>t. fromiso (isoformat t) = t"
  shows "read_model_from_json fromiso (rm_session_id s) (read_model_to_json isoformat s) = s"
proof -
  have "map_option fromiso (map_option isoformat (rm_updated_at s)) = rm_updated_at s"
    using assms by (cases "rm_updated_at s") simp_all
  then show ?thesis
    by (simp add: read_model_from_json_def read_model_to_json_def dict_get_def as_tallies_json)
qed

section \<open>The event log (\<open>models.py\<close> \<open>TeachingSessionEvent\<close>, \<open>event_log.py\<close>)\<close>

record session_event_row =
  ser_id :: nat
  ser_event_id :: string
  ser_session_id :: string
  ser_sequence :: nat
  ser_event_type :: session_event_type
  ser_actor_role :: session_role
  ser_payload :: json_object
  ser_idempotency_key :: "string option"
  ser_created_at :: instant

type_synonym event_log = "session_event_row list"

definition session_rows :: "event_log \<Rightarrow> string \<Rightarrow> session_event_row list" where
  "session_rows log sid = filter (\<lambda>r. ser_session_id r = sid) log"

definition session_seqs :: "event_log \<Rightarrow> string \<Rightarrow> nat list" where
  "session_seqs log sid = map ser_sequence (session_rows log sid)"

definition find_by_idempotency_key ::
    "event_log \<Rightarrow> string \<Rightarrow> string \<Rightarrow> session_event_row option result" where
  "find_by_idempotency_key log sid key =
     scalar_one_or_none
       (filter (\<lambda>r. ser_session_id r = sid \<and> ser_idempotency_key r = Some key) log)"

definition next_session_sequence :: "event_log \<Rightarrow> string \<Rightarrow> nat" where
  "next_session_sequence log sid = next_seq (session_seqs log sid)"

text \<open>
  \<open>append_event\<close>: \<open>sessions\<close> are the identifiers the foreign key may name. With an idempotency key
  the insert does nothing on a conflict of that key alone; every other violated constraint
  raises.
\<close>

definition append_event ::
    "string list \<Rightarrow> string \<Rightarrow> instant \<Rightarrow> string \<Rightarrow> session_event_type \<Rightarrow> session_role \<Rightarrow>
     json_object \<Rightarrow> string option \<Rightarrow> event_log \<Rightarrow> (event_log \<times> session_event_row \<times> bool) result"
  where
  "append_event sessions new_id now sid event_type actor_role payload key log =
     (let sequence = next_session_sequence log sid in
      ebind (build_event new_id now sid event_type actor_role payload) (\<lambda>event.
        (let row =
           \<lparr> ser_id = next_seq (map ser_id log), ser_event_id = se_event_id event,
             ser_session_id = sid, ser_sequence = sequence, ser_event_type = event_type,
             ser_actor_role = actor_role, ser_payload = se_payload event,
             ser_idempotency_key = key, ser_created_at = se_created_at event \<rparr>;
           conflict = (case key of
              None \<Rightarrow> []
            | Some k \<Rightarrow> filter (\<lambda>r. ser_session_id r = sid \<and> ser_idempotency_key r = Some k) log)
         in if conflict \<noteq> []
            then ebind (find_by_idempotency_key log sid (the key)) (\<lambda>found.
                   Inr (log, the found, False))
            else if sid \<notin> set sessions \<or> new_id \<in> set (map ser_event_id log) \<or>
                    sequence \<in> set (session_seqs log sid)
            then Inl IntegrityError
            else Inr (log @ [row], row, True))))"

definition replay_session_events ::
    "event_log \<Rightarrow> string \<Rightarrow> nat \<Rightarrow> nat option \<Rightarrow> session_event_row list" where
  "replay_session_events log sid after_sequence limit =
     (let rows = sort_key ser_sequence
        (filter (\<lambda>r. ser_session_id r = sid \<and> after_sequence < ser_sequence r) log)
      in case limit of None \<Rightarrow> rows | Some n \<Rightarrow> take n rows)"

definition row_to_event :: "session_event_row \<Rightarrow> session_event" where
  "row_to_event row =
     \<lparr> se_event_id = ser_event_id row, se_session_id = ser_session_id row,
       se_event_type = ser_event_type row, se_actor_role = ser_actor_role row,
       se_payload = ser_payload row, se_created_at = ser_created_at row,
       se_sequence = Some (ser_sequence row) \<rparr>"

definition default_recovery_event_limit :: nat where
  "default_recovery_event_limit = 500"

text \<open>The newest \<open>limit\<close> rows, read newest first and turned around.\<close>

definition recover_read_model :: "nat \<Rightarrow> event_log \<Rightarrow> string \<Rightarrow> session_read_model result" where
  "recover_read_model limit log sid =
     (let newest_first = rev (sort_key ser_sequence (session_rows log sid));
          rows = rev (take limit newest_first)
      in fold_events (initial_read_model sid) (map row_to_event rows))"

definition current_session_state ::
    "session_read_model option \<Rightarrow> event_log \<Rightarrow> string \<Rightarrow> session_read_model result" where
  "current_session_state hot log sid =
     (case hot of
        Some state \<Rightarrow> Inr state
      | None \<Rightarrow> recover_read_model default_recovery_event_limit log sid)"

record recorded_event =
  rec_row :: session_event_row
  rec_event :: session_event
  rec_duplicate :: bool
  rec_read_model :: session_read_model

definition record_event ::
    "string list \<Rightarrow> session_read_model option \<Rightarrow> string \<Rightarrow> instant \<Rightarrow> string \<Rightarrow>
     session_event_type \<Rightarrow> session_role \<Rightarrow> json_object \<Rightarrow> string option \<Rightarrow> event_log \<Rightarrow>
     (event_log \<times> recorded_event) result" where
  "record_event sessions hot new_id now sid event_type actor_role payload key log =
     ebind (append_event sessions new_id now sid event_type actor_role payload key log)
       (\<lambda>(log', row, created).
         (let event = row_to_event row in
          ebind (current_session_state hot log' sid) (\<lambda>state.
            if \<not> created
            then Inr (log', \<lparr> rec_row = row, rec_event = event, rec_duplicate = True,
                              rec_read_model = state \<rparr>)
            else ebind (apply_event state event) (\<lambda>next_state.
                   Inr (log', \<lparr> rec_row = row, rec_event = event, rec_duplicate = False,
                                rec_read_model = next_state \<rparr>)))))"

end
