(* ===== verification/Session_Log.thy ===== *)
theory Session_Log
  imports Session_Events
begin

text \<open>
  The laws of the live-session event log: reachable logs are numbered without gaps, per session,
  and hold only events that can be applied; the read model that an operation returns is the fold
  of the log, whether Redis was warm or cold; and what a subscriber of the event stream
  (\<open>routers/teaching_session_live.py\<close> \<open>_sse_relay\<close>) receives.
\<close>

section \<open>Consistent logs\<close>

definition row_ok :: "session_event_row \<Rightarrow> bool" where
  "row_ok r \<longleftrightarrow> (\<exists>p. payload_type p = ser_event_type r \<and> ser_payload r = dump_payload p)"

definition keyed_rows :: "event_log \<Rightarrow> string \<Rightarrow> string \<Rightarrow> session_event_row list" where
  "keyed_rows log sid k = filter (\<lambda>r. ser_session_id r = sid \<and> ser_idempotency_key r = Some k) log"

definition session_log_ok :: "event_log \<Rightarrow> bool" where
  "session_log_ok log \<longleftrightarrow>
     (\<forall>sid. gapless (session_seqs log sid)) \<and> (\<forall>r \<in> set log. row_ok r) \<and>
     (\<forall>sid k. length (keyed_rows log sid k) \<le> 1)"

inductive session_log_step :: "event_log \<Rightarrow> event_log \<Rightarrow> bool" where
  "append_event sessions new_id now sid t role payload key log = Inr (log', row, created) \<Longrightarrow>
   session_log_step log log'"

inductive_cases session_log_stepE: "session_log_step log log'"

lemma append_created:
  assumes "append_event sessions new_id now sid t role payload key log = Inr (log', row, True)"
  shows "log' = log @ [row]" and "ser_session_id row = sid"
    and "ser_sequence row = next_seq (session_seqs log sid)" and "row_ok row"
    and "ser_idempotency_key row = key" and "ser_event_type row = t"
    and "\<forall>k. key = Some k \<longrightarrow> keyed_rows log sid k = []"
proof -
  obtain event p where b: "build_event new_id now sid t role payload = Inr event"
    and p: "validate_payload t payload = Some p" "se_payload event = dump_payload p"
    using assms by (auto simp: append_event_def Let_def ebind_Inr_iff build_event_def
        split: option.splits)
  have k: "\<forall>k. key = Some k \<longrightarrow> keyed_rows log sid k = []"
    using assms by (auto simp: append_event_def Let_def ebind_Inr_iff keyed_rows_def split: if_splits)
  have row: "log' = log @ [row] \<and> row =
      \<lparr> ser_id = next_seq (map ser_id log), ser_event_id = se_event_id event,
        ser_session_id = sid, ser_sequence = next_session_sequence log sid, ser_event_type = t,
        ser_actor_role = role, ser_payload = se_payload event, ser_idempotency_key = key,
        ser_created_at = se_created_at event \<rparr>"
    using assms b by (auto simp: append_event_def Let_def ebind_Inr_iff split: if_splits)
  show "log' = log @ [row]" and "ser_session_id row = sid"
    and "ser_sequence row = next_seq (session_seqs log sid)"
    and "ser_idempotency_key row = key" and "ser_event_type row = t"
    using row by (simp_all add: next_session_sequence_def)
  show "row_ok row" using row p validate_type [OF p(1)] by (auto simp: row_ok_def)
  show "\<forall>k. key = Some k \<longrightarrow> keyed_rows log sid k = []" by (rule k)
qed

lemma append_duplicate:
  assumes "append_event sessions new_id now sid t role payload key log = Inr (log', row, False)"
  shows "log' = log \<and> (\<exists>k. key = Some k \<and> keyed_rows log sid k \<noteq> [])"
  using assms
  by (auto simp: append_event_def Let_def ebind_Inr_iff keyed_rows_def split: if_splits option.splits)

text \<open>A second append under a key answers with the first one's row.\<close>

lemma append_again:
  assumes "keyed_rows log sid k = [row]" and "validate_payload t payload \<noteq> None"
  shows "append_event sessions new_id now sid t role payload (Some k) log = Inr (log, row, False)"
  using assms
  by (auto simp: append_event_def Let_def keyed_rows_def build_event_def find_by_idempotency_key_def
      simp del: scalar_one_or_none_Some)

lemma append_total:
  assumes "session_log_ok log" and "validate_payload t payload \<noteq> None" and "sid \<in> set sessions"
    and "new_id \<notin> set (map ser_event_id log)"
  shows "\<exists>log' row created. append_event sessions new_id now sid t role payload key log =
    Inr (log', row, created)"
proof (cases "\<exists>k. key = Some k \<and> keyed_rows log sid k \<noteq> []")
  case True
  then obtain k where k: "key = Some k" "keyed_rows log sid k \<noteq> []" by blast
  moreover from assms(1) have "length (keyed_rows log sid k) \<le> 1" by (simp add: session_log_ok_def)
  ultimately obtain row where "keyed_rows log sid k = [row]"
    by (cases "keyed_rows log sid k") auto
  then show ?thesis using append_again assms(2) k(1) by blast
next
  case False
  have "next_seq (session_seqs log sid) \<notin> set (session_seqs log sid)"
    using next_seq_gt less_irrefl by blast
  with False assms(2-4) show ?thesis
    by (cases key) (auto simp: append_event_def Let_def build_event_def keyed_rows_def
        next_session_sequence_def)
qed

lemma seqs_append:
  "session_seqs (log @ [r]) sid =
     session_seqs log sid @ (if ser_session_id r = sid then [ser_sequence r] else [])"
  by (simp add: session_seqs_def session_rows_def)

interpretation session_log: sequenced_log session_seqs
  "\<lambda>sid log log'. \<exists>sessions new_id now t role payload key row.
     append_event sessions new_id now sid t role payload key log = Inr (log', row, True)"
proof unfold_locales
  fix sid sid' log log'
  assume "\<exists>sessions new_id now t role payload key row.
     append_event sessions new_id now sid t role payload key log = Inr (log', row, True)"
  then obtain row where row: "log' = log @ [row]" "ser_session_id row = sid"
    "ser_sequence row = next_seq (session_seqs log sid)"
    using append_created by meson
  then show "session_seqs log' sid = session_seqs log sid @ [next_seq (session_seqs log sid)]"
    by (simp add: seqs_append)
  show "sid' \<noteq> sid \<Longrightarrow> session_seqs log' sid' = session_seqs log sid'"
    using row by (simp add: seqs_append)
qed

lemma session_log_step_ok:
  assumes "session_log_step log log'" and "session_log_ok log"
  shows "session_log_ok log'"
proof -
  obtain sessions new_id now sid t role payload key row created where step:
    "append_event sessions new_id now sid t role payload key log = Inr (log', row, created)"
    using assms(1) by (rule session_log_stepE)
  show ?thesis
  proof (cases created)
    case False
    with step have "append_event sessions new_id now sid t role payload key log =
      Inr (log', row, False)" by simp
    from append_duplicate [OF this] assms(2) show ?thesis by simp
  next
    case True
    then have app: "append_event sessions new_id now sid t role payload key log = Inr (log', row, True)"
      using step by simp
    note c = append_created [OF app]
    have "gapless (session_seqs log' j)" for j
      by (rule session_log.gapless_appended [where l = log and k = sid])
        (use assms(2) app in \<open>simp add: session_log_ok_def\<close>, use app in blast)
    moreover have "\<forall>r \<in> set log'. row_ok r"
      using assms(2) c(1,4) by (auto simp: session_log_ok_def)
    moreover have "length (keyed_rows log' j k) \<le> 1" for j k
    proof (cases "j = sid \<and> key = Some k")
      case True
      then have "keyed_rows log' j k = [row]"
        using c(1,2,5,7) by (simp add: keyed_rows_def)
      then show ?thesis by simp
    next
      case False
      then have "keyed_rows log' j k = keyed_rows log j k"
        using c(1,2,5) by (auto simp: keyed_rows_def)
      with assms(2) show ?thesis by (simp add: session_log_ok_def)
    qed
    ultimately show ?thesis by (simp add: session_log_ok_def)
  qed
qed

lemma session_log_ok_Nil: "session_log_ok []"
  by (simp add: session_log_ok_def session_seqs_def session_rows_def keyed_rows_def)

lemma session_log_reachable: "session_log_step\<^sup>*\<^sup>* [] log \<Longrightarrow> session_log_ok log"
  by (induction rule: rtranclp_induct) (auto intro: session_log_ok_Nil session_log_step_ok)

lemma rows_gapless: "session_log_ok log \<Longrightarrow> gapless (map ser_sequence (session_rows log sid))"
  by (simp add: session_log_ok_def session_seqs_def)

lemma replay_rows:
  assumes "session_log_ok log"
  shows "replay_session_events log sid n None = drop n (session_rows log sid)"
proof -
  have "filter (\<lambda>r. ser_session_id r = sid \<and> n < ser_sequence r) log =
      filter (\<lambda>r. n < ser_sequence r) (session_rows log sid)"
    unfolding session_rows_def filter_filter by (rule filter_cong) auto
  then show ?thesis
    by (simp add: replay_session_events_def gapless_rows_after [OF rows_gapless [OF assms]]
        gapless_rows_sorted [OF rows_gapless [OF assms]])
qed

section \<open>The state of a session\<close>

definition session_state :: "event_log \<Rightarrow> string \<Rightarrow> session_read_model result" where
  "session_state log sid =
     fold_events (initial_read_model sid) (map row_to_event (session_rows log sid))"

lemma recover_full:
  assumes "session_log_ok log" and "length (session_rows log sid) \<le> limit"
  shows "recover_read_model limit log sid = session_state log sid"
  using assms(2) gapless_rows_sorted [OF rows_gapless [OF assms(1)], of 0 sid]
  by (simp add: recover_read_model_def session_state_def)

lemma row_event_ok: "row_ok r \<Longrightarrow> event_ok (row_to_event r)"
  by (simp add: row_ok_def event_ok_def row_to_event_def)

lemma session_state_total: "session_log_ok log \<Longrightarrow> \<exists>s. session_state log sid = Inr s"
  unfolding session_state_def
  by (rule fold_events_total) (auto simp: session_log_ok_def session_rows_def intro: row_event_ok)

lemma session_state_snoc:
  "ser_session_id row = sid \<Longrightarrow> session_state (log @ [row]) sid =
     ebind (session_state log sid) (\<lambda>s. apply_event s (row_to_event row))"
proof -
  assume "ser_session_id row = sid"
  then have "session_rows (log @ [row]) sid = session_rows log sid @ [row]"
    by (simp add: session_rows_def)
  moreover have "ebind m (\<lambda>s'. ebind (f s') Inr) = ebind m f" for m and f :: "'a \<Rightarrow> 'b result"
  proof (cases m)
    case (Inr a)
    then show ?thesis by (cases "f a") simp_all
  qed simp
  ultimately show ?thesis by (simp add: session_state_def fold_events_append)
qed



section \<open>The event stream (\<open>routers/teaching_session_live.py\<close>)\<close>

text \<open>
  \<open>_sse_relay\<close>: first the rows missing after the client's last event, then what the subscription
  delivers, skipping what was replayed. \<open>relay_live last es\<close> is the loop over the subscription.
\<close>

fun relay_live :: "nat \<Rightarrow> session_event list \<Rightarrow> session_event list" where
  "relay_live last_sequence [] = []"
| "relay_live last_sequence (event # events) =
     (case se_sequence event of
        None \<Rightarrow> event # relay_live last_sequence events
      | Some n \<Rightarrow>
          (if n \<le> last_sequence then relay_live last_sequence events
           else event # relay_live (if n \<noteq> 0 then n else last_sequence) events))"

definition sse_relay :: "event_log \<Rightarrow> string \<Rightarrow> nat \<Rightarrow> session_event list \<Rightarrow> session_event list" where
  "sse_relay log sid after_sequence subscription =
     (let rows = replay_session_events log sid after_sequence None;
          last_sequence = foldl (\<lambda>m r. max m (ser_sequence r)) after_sequence rows
      in map row_to_event rows @ relay_live last_sequence subscription)"

lemma relay_live_after:
  "sorted_wrt (<) (map ser_sequence rows) \<Longrightarrow>
   relay_live n (map row_to_event rows) =
     map row_to_event (filter (\<lambda>r. n < ser_sequence r) rows)"
proof (induction rows arbitrary: n)
  case Nil
  then show ?case by simp
next
  case (Cons r rows)
  have all: "filter (\<lambda>x. ser_sequence r < ser_sequence x) rows = rows"
    using Cons.prems by (auto simp: filter_id_conv)
  have "filter (\<lambda>x. n < ser_sequence x) rows = rows" if "n < ser_sequence r"
    using Cons.prems that by (auto simp: filter_id_conv)
  with Cons all show ?case by (auto simp: row_to_event_def)
qed

lemma foldl_max_Max: "foldl (\<lambda>m r. max m (f r)) (a::nat) rows = Max (insert a (f ` set rows))"
proof (induction rows arbitrary: a)
  case Nil
  then show ?case by simp
next
  case (Cons r rows)
  then show ?case by (cases "rows = []") (simp_all add: max.assoc)
qed

lemma replay_last:
  assumes "gapless (map f rows)"
  shows "foldl (\<lambda>m r. max m (f r)) n (drop n rows) = max n (length rows)"
proof -
  have nums: "map f (drop n rows) = drop n [1..<Suc (length rows)]"
    using assms by (metis drop_map gapless_def length_map)
  have "f ` set (drop n rows) = set (map f (drop n rows))" by simp
  also have "\<dots> = {Suc n..<Suc (length rows)}" by (simp only: nums drop_upt set_upt) simp
  finally have "f ` set (drop n rows) = {Suc n..<Suc (length rows)}" .
  then have "insert n (f ` set (drop n rows)) = {n..max n (length rows)}" by auto
  moreover have "Max {n..max n (length rows)} = max n (length rows)" by (rule Max_eqI) auto
  ultimately show ?thesis by (simp add: foldl_max_Max)
qed

text \<open>
  C30: a client that has seen the first \<open>k\<close> events of a session and
  reconnects is sent, in order and each once, the later events that were committed when its
  replay ran (there were \<open>n\<close>), and those that were published after its subscription began (the
  \<open>m\<close>-th was the last before it). Events committed between the two are not sent; there are none
  exactly when the subscription began no later than the replay ran.
\<close>
theorem stream_delivers_missing:
  assumes "session_log_step\<^sup>*\<^sup>* [] log" and "session_log_step\<^sup>*\<^sup>* [] before"
    and "session_rows before sid = take n (session_rows log sid)"
    and "k \<le> n" and "n \<le> length (session_rows log sid)"
  shows "sse_relay before sid k (map row_to_event (drop m (session_rows log sid))) =
    map row_to_event (drop k (take n (session_rows log sid)) @
      drop (max m n) (session_rows log sid))"
proof -
  let ?rows = "session_rows log sid"
  have g: "gapless (map ser_sequence ?rows)"
    using rows_gapless [OF session_log_reachable [OF assms(1)]] .
  note okb = session_log_reachable [OF assms(2)]
  have last: "foldl (\<lambda>x r. max x (ser_sequence r)) k (drop k (session_rows before sid)) = n"
    using replay_last [OF rows_gapless [OF okb, of sid], of k] assms(3-5) by simp
  have "sorted_wrt (<) (map ser_sequence ?rows)"
    using g by (metis gapless_def sorted_wrt_upt)
  then have "sorted_wrt (<) (map ser_sequence (drop m ?rows))"
    by (simp add: drop_map [symmetric] sorted_wrt_drop)
  then have "relay_live n (map row_to_event (drop m ?rows)) =
      map row_to_event (filter (\<lambda>r. n < ser_sequence r) (drop m ?rows))"
    by (rule relay_live_after)
  also have "filter (\<lambda>r. n < ser_sequence r) (drop m ?rows) = drop (max m n) ?rows"
  proof -
    have "drop m ?rows = filter (\<lambda>r. m < ser_sequence r) ?rows"
      by (simp add: gapless_rows_after [OF g])
    then have "filter (\<lambda>r. n < ser_sequence r) (drop m ?rows) =
        filter (\<lambda>r. max m n < ser_sequence r) ?rows"
      by simp
    then show ?thesis by (simp only: gapless_rows_after [OF g])
  qed
  finally show ?thesis
    using last by (simp add: sse_relay_def replay_rows [OF okb] assms(3))
qed

definition demo_log :: event_log where
  "demo_log = [\<lparr> ser_id = 1, ser_event_id = ''e1'', ser_session_id = ''s1'', ser_sequence = 1,
     ser_event_type = SESSION_ENDED, ser_actor_role = CONTROLLER,
     ser_payload = [(''reason'', JNull)], ser_idempotency_key = None, ser_created_at = 7 \<rparr>]"

lemma demo_log_reachable: "session_log_step\<^sup>*\<^sup>* [] demo_log"
proof -
  have "append_event [''s1''] ''e1'' 7 ''s1'' SESSION_ENDED CONTROLLER [] None [] =
      Inr (demo_log, hd demo_log, True)"
    by (simp add: append_event_def build_event_def demo_log_def next_session_sequence_def
        session_seqs_def session_rows_def next_seq_def Let_def)
  then show ?thesis by (blast intro: session_log_step.intros)
qed

theorem stream_delivers_missing_witness:
  "sse_relay [] ''s1'' 0 (map row_to_event (drop 1 (session_rows demo_log ''s1''))) = []"
proof -
  have "session_rows [] ''s1'' = take 0 (session_rows demo_log ''s1'')"
    by (simp add: session_rows_def)
  from stream_delivers_missing [OF demo_log_reachable _ this, of 0 1] show ?thesis
    by (simp add: session_rows_def demo_log_def)
qed

end
