(* ===== verification/Session_Responses.thy ===== *)
theory Session_Responses
  imports Session_Log "HOL-Library.List_Lexorder" "HOL-Library.Char_ord"
begin

text \<open>
  Student responses (\<open>services/gateway/teaching_session/responses.py\<close>): payload checks, the gate on
  free text, what a response may leave behind under each retention tier, the class-level rollup,
  the gated drill-down and points; and the submission route that records a response and its
  event together (\<open>routers/teaching_session_live.py\<close> \<open>submit_response\<close>).

  The detector of personal data is an argument: \<open>pii text\<close> is whether it reports any hit, of
  high or low confidence. Identifiers drawn and the clock are arguments as well.
\<close>

section \<open>Response kinds and payloads\<close>

datatype response_kind = MULTIPLE_CHOICE | POLL_VOTE | SHORT_STRUCTURED | FREE_TEXT

fun response_kind_value :: "response_kind \<Rightarrow> string" where
  "response_kind_value MULTIPLE_CHOICE = ''multiple_choice''"
| "response_kind_value POLL_VOTE = ''poll_vote''"
| "response_kind_value SHORT_STRUCTURED = ''short_structured''"
| "response_kind_value FREE_TEXT = ''free_text''"

fun nonempty_str :: "json \<Rightarrow> bool" where
  "nonempty_str (JStr s) = (s \<noteq> [])"
| "nonempty_str _ = False"

fun nonempty_str_list :: "json \<Rightarrow> bool" where
  "nonempty_str_list (JList xs) = (xs \<noteq> [] \<and> list_all nonempty_str xs)"
| "nonempty_str_list _ = False"

fun bounded_str :: "nat \<Rightarrow> json \<Rightarrow> bool" where
  "bounded_str n (JStr s) = (s \<noteq> [] \<and> length s \<le> n)"
| "bounded_str n _ = False"

definition validate_response_payload :: "response_kind \<Rightarrow> json_object \<Rightarrow> string option" where
  "validate_response_payload kind payload =
     (case kind of
        MULTIPLE_CHOICE \<Rightarrow>
          (if nonempty_str_list (dict_get payload ''selected_option_ids'') then None
           else Some ''multiple_choice_requires_selected_option_ids'')
      | POLL_VOTE \<Rightarrow>
          (if nonempty_str (dict_get payload ''selected_option_id'') then None
           else Some ''poll_vote_requires_selected_option_id'')
      | SHORT_STRUCTURED \<Rightarrow>
          (if bounded_str 200 (dict_get payload ''value'') then None
           else Some ''short_structured_requires_bounded_value'')
      | FREE_TEXT \<Rightarrow>
          (if nonempty_str (dict_get payload ''text'') then None
           else Some ''free_text_requires_text''))"

datatype free_text_gate_result = FreeTextAccepted | FreeTextRejected string

definition gate_free_text :: "(string \<Rightarrow> bool) \<Rightarrow> string \<Rightarrow> bool \<Rightarrow> bool \<Rightarrow> free_text_gate_result" where
  "gate_free_text pii text interaction_allows session_allows =
     (if \<not> interaction_allows then FreeTextRejected ''interaction_does_not_allow_free_text''
      else if \<not> session_allows then FreeTextRejected ''session_policy_blocks_free_text''
      else if pii text then FreeTextRejected ''pii_detected''
      else FreeTextAccepted)"

section \<open>Tables\<close>

record student_response =
  sr_response_id :: string
  sr_session_id :: string
  sr_interaction_id :: string
  sr_student_pseudonym :: string
  sr_kind :: response_kind
  sr_kc_ids :: "string list"
  sr_payload :: json_object
  sr_correct :: "bool option"

record response_aggregate =
  agg_aggregate_id :: string
  agg_session_id :: string
  agg_interaction_id :: string
  agg_kc_ids :: "string list"
  agg_attempt_count :: int
  agg_correct_count :: int

record response_db =
  raw_responses :: "student_response list"
  response_aggregates :: "response_aggregate list"

definition aggregate_key :: "string \<Rightarrow> string \<Rightarrow> response_aggregate \<Rightarrow> bool" where
  "aggregate_key sid iid a \<longleftrightarrow> agg_session_id a = sid \<and> agg_interaction_id a = iid"

section \<open>Recording a response (\<open>record_response\<close>)\<close>

datatype submit_response_result = ResponseAccepted response_kind bool | ResponseRejected string

definition bump :: "bool option \<Rightarrow> response_aggregate \<Rightarrow> response_aggregate" where
  "bump correct a = a\<lparr>agg_attempt_count := agg_attempt_count a + 1,
     agg_correct_count := agg_correct_count a + (if correct = Some True then 1 else 0)\<rparr>"

definition increment_aggregate ::
    "string \<Rightarrow> string \<Rightarrow> string \<Rightarrow> string list \<Rightarrow> bool option \<Rightarrow> response_db \<Rightarrow> response_db result" where
  "increment_aggregate new_id sid iid kc_ids correct db =
     ebind (scalar_one_or_none (filter (aggregate_key sid iid) (response_aggregates db)))
       (\<lambda>found. case found of
           Some _ \<Rightarrow>
             Inr (db\<lparr>response_aggregates :=
                update_where (aggregate_key sid iid) (bump correct) (response_aggregates db)\<rparr>)
         | None \<Rightarrow>
             (if new_id \<in> set (map agg_aggregate_id (response_aggregates db)) then Inl IntegrityError
              else Inr (db\<lparr>response_aggregates := response_aggregates db @
                 [bump correct \<lparr> agg_aggregate_id = new_id, agg_session_id = sid,
                    agg_interaction_id = iid, agg_kc_ids = kc_ids, agg_attempt_count = 0,
                    agg_correct_count = 0 \<rparr>]\<rparr>)))"

record response_request =
  rq_interaction_id :: string
  rq_kind :: response_kind
  rq_payload :: json_object
  rq_kc_ids :: "string list option"
  rq_correct :: "bool option"
  rq_interaction_allows_free_text :: bool
  rq_session_allows_free_text :: bool

fun json_text :: "json \<Rightarrow> string" where
  "json_text (JStr s) = s"
| "json_text _ = []"

definition record_response ::
    "(string \<Rightarrow> bool) \<Rightarrow> string \<Rightarrow> string \<Rightarrow> string \<Rightarrow> retention_tier \<Rightarrow> string \<Rightarrow>
     response_request \<Rightarrow> response_db \<Rightarrow> (response_db \<times> submit_response_result) result" where
  "record_response pii response_id aggregate_id sid tier pseudonym rq db =
     (let kc_ids = the_default [] (rq_kc_ids rq);
          gate = (if rq_kind rq = FREE_TEXT
                  then gate_free_text pii (json_text (dict_get (rq_payload rq) ''text''))
                    (rq_interaction_allows_free_text rq) (rq_session_allows_free_text rq)
                  else FreeTextAccepted);
          categories = allowed_data_categories_for_tier tier
      in case validate_response_payload (rq_kind rq) (rq_payload rq) of
           Some shape_error \<Rightarrow> Inr (db, ResponseRejected shape_error)
         | None \<Rightarrow>
             (case gate of
                FreeTextRejected reason \<Rightarrow> Inr (db, ResponseRejected reason)
              | FreeTextAccepted \<Rightarrow>
                  (if AGGREGATES \<notin> set categories
                   then Inr (db, ResponseAccepted (rq_kind rq) False)
                   else ebind (increment_aggregate aggregate_id sid (rq_interaction_id rq) kc_ids
                                 (rq_correct rq) db) (\<lambda>db1.
                     if RAW_RESPONSES \<in> set categories
                     then (if response_id \<in> set (map sr_response_id (raw_responses db1))
                           then Inl IntegrityError
                           else Inr (db1\<lparr>raw_responses := raw_responses db1 @
                             [\<lparr> sr_response_id = response_id, sr_session_id = sid,
                                sr_interaction_id = rq_interaction_id rq,
                                sr_student_pseudonym = pseudonym, sr_kind = rq_kind rq,
                                sr_kc_ids = kc_ids, sr_payload = rq_payload rq,
                                sr_correct = rq_correct rq \<rparr>]\<rparr>,
                             ResponseAccepted (rq_kind rq) True))
                     else Inr (db1, ResponseAccepted (rq_kind rq) False)))))"

definition get_session_aggregates :: "response_db \<Rightarrow> string \<Rightarrow> response_aggregate list" where
  "get_session_aggregates db sid = filter (\<lambda>a. agg_session_id a = sid) (response_aggregates db)"

definition get_session_raw_responses :: "response_db \<Rightarrow> string \<Rightarrow> student_response list" where
  "get_session_raw_responses db sid = filter (\<lambda>r. sr_session_id r = sid) (raw_responses db)"

section \<open>Analytics\<close>

record rollup_row =
  rr_key :: string
  rr_attempt_count :: int
  rr_correct_count :: int

definition incorrect_count :: "rollup_row \<Rightarrow> int" where
  "incorrect_count r = rr_attempt_count r - rr_correct_count r"

definition rollup_keys :: "response_aggregate \<Rightarrow> string list" where
  "rollup_keys row =
     (if agg_kc_ids row \<noteq> [] then agg_kc_ids row else [''interaction:'' @ agg_interaction_id row])"

text \<open>The buckets keep the order in which their keys were met, as a Python dictionary does.\<close>

definition add_to_bucket ::
    "response_aggregate \<Rightarrow> string \<Rightarrow> (string \<times> rollup_row) list \<Rightarrow> (string \<times> rollup_row) list" where
  "add_to_bucket row key buckets =
     (case map_of buckets key of
        None \<Rightarrow> AList.update key
          \<lparr> rr_key = key, rr_attempt_count = agg_attempt_count row,
            rr_correct_count = agg_correct_count row \<rparr> buckets
      | Some existing \<Rightarrow> AList.update key
          \<lparr> rr_key = key, rr_attempt_count = rr_attempt_count existing + agg_attempt_count row,
            rr_correct_count = rr_correct_count existing + agg_correct_count row \<rparr> buckets)"

definition class_concept_rollup :: "response_aggregate list \<Rightarrow> rollup_row list" where
  "class_concept_rollup aggregates =
     sort_key rr_key (map snd
       (foldl (\<lambda>b row. foldl (\<lambda>b key. add_to_bucket row key b) b (rollup_keys row)) [] aggregates))"

record drill_down_row =
  dd_student_pseudonym :: string
  dd_interaction_id :: string
  dd_kc_ids :: "string list"
  dd_correct :: "bool option"

datatype drill_down_result = DrillDownAccepted "drill_down_row list" | DrillDownRejected string

definition student_drill_down :: "student_response list \<Rightarrow> retention_tier \<Rightarrow> drill_down_result" where
  "student_drill_down responses tier =
     (if RAW_RESPONSES \<notin> set (allowed_data_categories_for_tier tier)
      then DrillDownRejected ''retention_tier_does_not_allow_drill_down''
      else DrillDownAccepted (map (\<lambda>r.
        \<lparr> dd_student_pseudonym = sr_student_pseudonym r, dd_interaction_id = sr_interaction_id r,
          dd_kc_ids = sr_kc_ids r, dd_correct = sr_correct r \<rparr>) responses))"

datatype gamification_mode = DISABLED | PRIVATE_PER_STUDENT | CLASS_COLLECTIVE

fun gamification_mode_value :: "gamification_mode \<Rightarrow> string" where
  "gamification_mode_value DISABLED = ''disabled''"
| "gamification_mode_value PRIVATE_PER_STUDENT = ''private_per_student''"
| "gamification_mode_value CLASS_COLLECTIVE = ''class_collective''"

definition gamification_mode_from_preference :: "json_object option \<Rightarrow> gamification_mode" where
  "gamification_mode_from_preference preference =
     (case preference of
        None \<Rightarrow> DISABLED
      | Some p \<Rightarrow>
          (if p = [] \<or> \<not> truthy (dict_get p ''enabled'') then DISABLED
           else case (case map_of p ''mode'' of None \<Rightarrow> JStr ''disabled'' | Some v \<Rightarrow> v) of
                  JStr s \<Rightarrow>
                    the_default DISABLED (find_value gamification_mode_value
                      [DISABLED, PRIVATE_PER_STUDENT, CLASS_COLLECTIVE] s)
                | _ \<Rightarrow> DISABLED))"

definition private_student_points :: "student_response list \<Rightarrow> string \<Rightarrow> int" where
  "private_student_points responses pseudonym =
     int (length (filter (\<lambda>r. sr_student_pseudonym r = pseudonym \<and> sr_correct r = Some True) responses))"

definition class_collective_points :: "response_aggregate list \<Rightarrow> int" where
  "class_collective_points aggregates = sum_list (map agg_correct_count aggregates)"

section \<open>The submission route (\<open>routers/teaching_session_live.py\<close>)\<close>

text \<open>
  The database and the Redis copy of the read models, absent for a session while Redis has no
  state for it.
\<close>

record classroom =
  cr_sessions :: "teaching_session list"
  cr_log :: event_log
  cr_responses :: response_db
  cr_hot :: "string \<rightharpoonup> session_read_model"

record submission_ids =
  sid_response_id :: string
  sid_aggregate_id :: string
  sid_event_id :: string

definition student_pseudonym :: "session_token_payload \<Rightarrow> string \<Rightarrow> string" where
  "student_pseudonym claims sid =
     (if the_default [] (stp_roster_student_id claims) \<noteq> [] then the (stp_roster_student_id claims)
      else if the_default [] (stp_alias claims) \<noteq> [] then the (stp_alias claims)
      else ''anon:'' @ sid)"

definition current_tallies :: "response_db \<Rightarrow> string \<Rightarrow> string \<Rightarrow> (string \<times> int) list" where
  "current_tallies db sid iid =
     (case find (\<lambda>a. agg_interaction_id a = iid) (get_session_aggregates db sid) of
        None \<Rightarrow> [(''attempt_count'', 0), (''correct_count'', 0)]
      | Some a \<Rightarrow> [(''attempt_count'', agg_attempt_count a), (''correct_count'', agg_correct_count a)])"

definition require_matching_session :: "session_token_payload \<Rightarrow> string \<Rightarrow> unit result" where
  "require_matching_session claims sid =
     (if stp_session_id claims \<noteq> sid then Inl (HTTPException 403 ''session_token_scope_mismatch'')
      else Inr ())"

definition load_session_or_404 :: "teaching_session list \<Rightarrow> string \<Rightarrow> teaching_session result" where
  "load_session_or_404 rows sid =
     (case find (\<lambda>s. sess_session_id s = sid) rows of
        None \<Rightarrow> Inl (HTTPException 404 ''session_not_found'')
      | Some s \<Rightarrow> Inr s)"

text \<open>\<open>_finish\<close>: after the commit the new state is put into Redis, if Redis is up.\<close>

definition finish_recorded ::
    "bool \<Rightarrow> event_log \<times> recorded_event \<Rightarrow> classroom \<Rightarrow> classroom \<times> session_read_model" where
  "finish_recorded redis_up rec c =
     (let (log, r) = rec; c1 = c\<lparr>cr_log := log\<rparr>;
          c2 = (if \<not> rec_duplicate r \<and> redis_up
                then c1\<lparr>cr_hot := (cr_hot c1)(rm_session_id (rec_read_model r) \<mapsto> rec_read_model r)\<rparr>
                else c1)
      in (c2, rec_read_model r))"

definition hot_state :: "bool \<Rightarrow> classroom \<Rightarrow> string \<Rightarrow> session_read_model option" where
  "hot_state redis_up c sid = (if redis_up then cr_hot c sid else None)"

definition route_event ::
    "bool \<Rightarrow> string \<Rightarrow> instant \<Rightarrow> string \<Rightarrow> session_event_type \<Rightarrow> session_role \<Rightarrow> json_object \<Rightarrow>
     string option \<Rightarrow> classroom \<Rightarrow> (classroom \<times> session_read_model) result" where
  "route_event redis_up event_id now sid event_type role payload key c =
     ebind (record_event (map sess_session_id (cr_sessions c)) (hot_state redis_up c sid) event_id
              now sid event_type role payload key (cr_log c))
       (\<lambda>rec. Inr (finish_recorded redis_up rec c))"

text \<open>\<open>advance_slide\<close> and \<open>select_branch\<close>, after the check that the token is a controller's.\<close>

definition advance_slide ::
    "bool \<Rightarrow> string \<Rightarrow> instant \<Rightarrow> session_token_payload \<Rightarrow> string \<Rightarrow> string \<Rightarrow> int option \<Rightarrow>
     classroom \<Rightarrow> (classroom \<times> session_read_model) result" where
  "advance_slide redis_up event_id now claims sid slide_id slide_index c =
     ebind (require_matching_session claims sid) (\<lambda>_.
     ebind (load_session_or_404 (cr_sessions c) sid) (\<lambda>_.
       route_event redis_up event_id now sid SLIDE_CHANGED (stp_role claims)
         [(''slide_id'', JStr slide_id), (''slide_index'', opt_int_json slide_index)] None c))"

definition select_branch ::
    "bool \<Rightarrow> string \<Rightarrow> instant \<Rightarrow> session_token_payload \<Rightarrow> string \<Rightarrow> string \<Rightarrow> string \<Rightarrow>
     classroom \<Rightarrow> (classroom \<times> session_read_model) result" where
  "select_branch redis_up event_id now claims sid slide_id branch_id c =
     ebind (require_matching_session claims sid) (\<lambda>_.
     ebind (load_session_or_404 (cr_sessions c) sid) (\<lambda>_.
       route_event redis_up event_id now sid BRANCH_SELECTED (stp_role claims)
         [(''slide_id'', JStr slide_id), (''branch_id'', JStr branch_id)] None c))"

text \<open>An exception leaves the transaction uncommitted, so the classroom as it was.\<close>

definition submit_response ::
    "(string \<Rightarrow> bool) \<Rightarrow> bool \<Rightarrow> submission_ids \<Rightarrow> instant \<Rightarrow> session_token_payload \<Rightarrow> string \<Rightarrow>
     response_request \<Rightarrow> string \<Rightarrow> classroom \<Rightarrow> (classroom \<times> session_read_model) result" where
  "submit_response pii redis_up ids now claims sid rq key c =
     ebind (require_matching_session claims sid) (\<lambda>_.
     ebind (load_session_or_404 (cr_sessions c) sid) (\<lambda>session.
     ebind (find_by_idempotency_key (cr_log c) sid key) (\<lambda>existing.
       if existing \<noteq> None
       then ebind (current_session_state (hot_state redis_up c sid) (cr_log c) sid)
              (\<lambda>state. Inr (c, state))
       else
         ebind (record_response pii (sid_response_id ids) (sid_aggregate_id ids) sid
                  (sess_retention_tier session) (student_pseudonym claims sid) rq (cr_responses c))
           (\<lambda>(responses, result). case result of
               ResponseRejected reason \<Rightarrow> Inl (HTTPException 422 reason)
             | ResponseAccepted _ _ \<Rightarrow>
                 (let c1 = c\<lparr>cr_responses := responses\<rparr> in
                  if EVENTS \<notin> set (allowed_data_categories_for_tier (sess_retention_tier session))
                  then ebind (current_session_state (hot_state redis_up c1 sid) (cr_log c1) sid)
                         (\<lambda>state. Inr (c1, state))
                  else route_event redis_up (sid_event_id ids) now sid AGGREGATE_UPDATED
                         (stp_role claims)
                         [(''interaction_id'', JStr (rq_interaction_id rq)),
                          (''tallies'', JObj (map (\<lambda>(k, v). (k, JInt v))
                             (current_tallies responses sid (rq_interaction_id rq))))]
                         (Some key) c1)))))"

definition get_current_state ::
    "bool \<Rightarrow> session_token_payload \<Rightarrow> string \<Rightarrow> classroom \<Rightarrow> (session_read_model \<times> string) result" where
  "get_current_state redis_up claims sid c =
     ebind (require_matching_session claims sid) (\<lambda>_.
     ebind (load_session_or_404 (cr_sessions c) sid) (\<lambda>session.
     ebind (current_session_state (hot_state redis_up c sid) (cr_log c) sid) (\<lambda>state.
       Inr (state, sess_snapshot_id session))))"

end
