(* ===== verification/Response_Laws.thy ===== *)
theory Response_Laws
  imports Session_Responses
begin

text \<open>
  The laws of student responses: in every classroom that the routes can reach raw answers exist
  only where the retention tier allows them, the class-level counters count each accepted
  submission once, however often a client repeats it, and the rollup adds up exactly the
  counters it is given.
\<close>

section \<open>Counters\<close>

definition aggregates_of :: "response_db \<Rightarrow> string \<Rightarrow> string \<Rightarrow> response_aggregate list" where
  "aggregates_of db sid iid = filter (aggregate_key sid iid) (response_aggregates db)"

definition attempts :: "response_db \<Rightarrow> string \<Rightarrow> string \<Rightarrow> int" where
  "attempts db sid iid = sum_list (map agg_attempt_count (aggregates_of db sid iid))"

definition counters_ok :: "response_db \<Rightarrow> bool" where
  "counters_ok db \<longleftrightarrow>
     (\<forall>sid iid. length (aggregates_of db sid iid) \<le> 1) \<and>
     (\<forall>a \<in> set (response_aggregates db).
        0 \<le> agg_correct_count a \<and> agg_correct_count a \<le> agg_attempt_count a)"

lemma bump_key [simp]: "aggregate_key s i (bump c a) = aggregate_key s i a"
  by (simp add: aggregate_key_def bump_def)

lemma key_unique: "aggregate_key s i a \<Longrightarrow> aggregate_key t j a \<longleftrightarrow> t = s \<and> j = i"
  by (auto simp: aggregate_key_def)

lemma aggregates_of_bumped:
  "filter (aggregate_key t j) (update_where (aggregate_key sid iid) (bump c) xs) =
     (if t = sid \<and> j = iid then map (bump c) (filter (aggregate_key t j) xs)
      else filter (aggregate_key t j) xs)"
proof (induction xs)
  case Nil
  then show ?case by (simp add: table_simps)
next
  case (Cons a xs)
  then show ?case
    by (cases "t = sid \<and> j = iid"; cases "aggregate_key sid iid a"; cases "aggregate_key t j a")
      (simp_all add: table_simps, (use key_unique in blast)+)
qed

lemma increment_facts:
  assumes "increment_aggregate new_id sid iid kc_ids correct db = Inr db'" and "counters_ok db"
  shows "raw_responses db' = raw_responses db" and "counters_ok db'"
    and "attempts db' t j = attempts db t j + (if t = sid \<and> j = iid then 1 else 0)"
proof -
  obtain found where f: "scalar_one_or_none (aggregates_of db sid iid) = Inr found"
    using assms(1) by (auto simp: increment_aggregate_def aggregates_of_def ebind_Inr_iff)
  consider (old) a where "aggregates_of db sid iid = [a]"
      "db' = db\<lparr>response_aggregates :=
         update_where (aggregate_key sid iid) (bump correct) (response_aggregates db)\<rparr>"
    | (new) a where "aggregates_of db sid iid = []"
      "a = \<lparr> agg_aggregate_id = new_id, agg_session_id = sid, agg_interaction_id = iid,
             agg_kc_ids = kc_ids, agg_attempt_count = 0, agg_correct_count = 0 \<rparr>"
      "db' = db\<lparr>response_aggregates := response_aggregates db @ [bump correct a]\<rparr>"
  proof (cases found)
    case None
    with that(2) f assms(1) show ?thesis
      by (auto simp: increment_aggregate_def aggregates_of_def split: if_splits)
  next
    case (Some a)
    with that(1) f assms(1) show ?thesis
      by (auto simp: increment_aggregate_def aggregates_of_def)
  qed
  then have "raw_responses db' = raw_responses db \<and> counters_ok db' \<and>
    attempts db' t j = attempts db t j + (if t = sid \<and> j = iid then 1 else 0)"
  proof cases
    case old
    have agg: "aggregates_of db' u v =
        (if u = sid \<and> v = iid then map (bump correct) (aggregates_of db u v)
         else aggregates_of db u v)" for u v
      by (simp add: old(2) aggregates_of_def aggregates_of_bumped)
    have "\<forall>a \<in> set (response_aggregates db').
        0 \<le> agg_correct_count a \<and> agg_correct_count a \<le> agg_attempt_count a"
      using assms(2) by (auto simp: old(2) counters_ok_def set_update_where bump_def)
    then have "counters_ok db'" using assms(2) by (auto simp: counters_ok_def agg)
    moreover have "raw_responses db' = raw_responses db" by (simp add: old(2))
    ultimately show ?thesis using old(1) by (auto simp: attempts_def agg bump_def)
  next
    case new
    have agg: "aggregates_of db' u v =
        aggregates_of db u v @ (if u = sid \<and> v = iid then [bump correct a] else [])" for u v
      by (auto simp: new(2,3) aggregates_of_def aggregate_key_def bump_def)
    have "\<forall>a \<in> set (response_aggregates db').
        0 \<le> agg_correct_count a \<and> agg_correct_count a \<le> agg_attempt_count a"
      using assms(2) by (auto simp: new(2,3) counters_ok_def bump_def)
    then have "counters_ok db'" using assms(2) new(1) by (auto simp: counters_ok_def agg)
    moreover have "raw_responses db' = raw_responses db" by (simp add: new(3))
    ultimately show ?thesis using new(1,2) by (auto simp: attempts_def agg bump_def)
  qed
  then show "raw_responses db' = raw_responses db" and "counters_ok db'"
    and "attempts db' t j = attempts db t j + (if t = sid \<and> j = iid then 1 else 0)"
    by blast+
qed

text \<open>What an accepted response leaves behind, by tier.\<close>

lemma record_response_accepted:
  assumes "record_response pii rid aid sid tier pseudo rq db = Inr (db', ResponseAccepted k p)"
    and "counters_ok db"
  shows "counters_ok db'"
    and "attempts db' t j = attempts db t j +
      (if tier \<noteq> NONE \<and> t = sid \<and> j = rq_interaction_id rq then 1 else 0)"
    and "\<forall>r \<in> set (raw_responses db'). r \<in> set (raw_responses db) \<or>
      sr_session_id r = sid \<and> PSEUDONYMOUS \<le> tier"
proof -
  note def = assms(1) [unfolded record_response_def Let_def]
  have "counters_ok db' \<and>
    attempts db' t j = attempts db t j +
      (if tier \<noteq> NONE \<and> t = sid \<and> j = rq_interaction_id rq then 1 else 0) \<and>
    (\<forall>r \<in> set (raw_responses db'). r \<in> set (raw_responses db) \<or>
      sr_session_id r = sid \<and> PSEUDONYMOUS \<le> tier)"
  proof (cases "tier = NONE")
    case True
    with def assms(2) show ?thesis
      by (auto split: option.splits free_text_gate_result.splits if_splits)
  next
    case False
    then obtain db1 where inc: "increment_aggregate aid sid (rq_interaction_id rq)
        (the_default [] (rq_kc_ids rq)) (rq_correct rq) db = Inr db1"
      and db': "response_aggregates db' = response_aggregates db1"
      and raw: "raw_responses db' = raw_responses db1 \<or> PSEUDONYMOUS \<le> tier \<and>
        (\<exists>r. sr_session_id r = sid \<and> raw_responses db' = raw_responses db1 @ [r])"
      using def
      by (fastforce simp: aggregates_iff raw_responses_iff ebind_Inr_iff
          split: option.splits free_text_gate_result.splits if_splits)
    note i = increment_facts [OF inc assms(2)]
    have same: "counters_ok db' = counters_ok db1" "attempts db' t j = attempts db1 t j"
      by (simp_all add: counters_ok_def attempts_def aggregates_of_def db')
    show ?thesis using False raw i by (auto simp: same)
  qed
  then show "counters_ok db'" and "attempts db' t j = attempts db t j +
      (if tier \<noteq> NONE \<and> t = sid \<and> j = rq_interaction_id rq then 1 else 0)"
    and "\<forall>r \<in> set (raw_responses db'). r \<in> set (raw_responses db) \<or>
      sr_session_id r = sid \<and> PSEUDONYMOUS \<le> tier"
    by blast+
qed

section \<open>Reachable classrooms\<close>

definition start_classroom :: "teaching_session list \<Rightarrow> classroom" where
  "start_classroom rows =
     \<lparr> cr_sessions = rows, cr_log = [],
       cr_responses = \<lparr> raw_responses = [], response_aggregates = [] \<rparr>, cr_hot = Map.empty \<rparr>"

inductive classroom_step :: "classroom \<Rightarrow> classroom \<Rightarrow> bool" where
  "advance_slide up eid now claims sid slide i c = Inr (c', s) \<Longrightarrow> classroom_step c c'"
| "select_branch up eid now claims sid slide b c = Inr (c', s) \<Longrightarrow> classroom_step c c'"
| "submit_response pii up ids now claims sid rq key c = Inr (c', s) \<Longrightarrow> classroom_step c c'"

inductive_cases classroom_stepE: "classroom_step c c'"

text \<open>The events that report a submission for an interaction of a session.\<close>

definition reports :: "string \<Rightarrow> string \<Rightarrow> session_event_row \<Rightarrow> bool" where
  "reports sid iid r \<longleftrightarrow> ser_session_id r = sid \<and> ser_event_type r = AGGREGATE_UPDATED \<and>
     map_of (ser_payload r) ''interaction_id'' = Some (JStr iid)"

definition classroom_ok :: "classroom \<Rightarrow> bool" where
  "classroom_ok c \<longleftrightarrow>
     session_log_ok (cr_log c) \<and> counters_ok (cr_responses c) \<and>
     (\<forall>sid iid. attempts (cr_responses c) sid iid =
        int (length (filter (reports sid iid) (cr_log c)))) \<and>
     (\<forall>r \<in> set (cr_log c). ser_event_type r = AGGREGATE_UPDATED \<longrightarrow> ser_idempotency_key r \<noteq> None) \<and>
     (\<forall>r \<in> set (raw_responses (cr_responses c)).
        \<exists>s \<in> set (cr_sessions c). sess_session_id s = sr_session_id r \<and>
          PSEUDONYMOUS \<le> sess_retention_tier s)"

lemma start_ok: "classroom_ok (start_classroom rows)"
  by (simp add: classroom_ok_def start_classroom_def session_log_ok_Nil counters_ok_def
      aggregates_of_def attempts_def)

lemma route_event_log:
  assumes "route_event up eid now sid t role payload key c = Inr (c', s)"
  shows "\<exists>row created. append_event (map sess_session_id (cr_sessions c)) eid now sid t role payload
      key (cr_log c) = Inr (cr_log c', row, created)"
    and "cr_responses c' = cr_responses c" and "cr_sessions c' = cr_sessions c"
  using assms
  by (auto simp: route_event_def record_event_def finish_recorded_def Let_def ebind_Inr_iff
      split: prod.splits if_splits)

lemma loaded_session:
  "load_session_or_404 rows sid = Inr s \<Longrightarrow> s \<in> set rows \<and> sess_session_id s = sid"
  by (auto simp: load_session_or_404_def find_Some_iff split: option.splits)

lemma created_row_reports:
  assumes "append_event sessions eid now sid AGGREGATE_UPDATED role
      [(''interaction_id'', JStr iid), (''tallies'', JObj (map (\<lambda>(k, v). (k, JInt v)) ts))] key log =
    Inr (log', row, True)"
  shows "reports t j row \<longleftrightarrow> t = sid \<and> j = iid"
proof -
  have "ser_payload row = dump_payload (AggregateUpdatedPayload iid ts)"
    using assms
    by (auto simp: append_event_def Let_def ebind_Inr_iff build_event_def pair_opt_def
        read_tally_items_dump split: if_splits)
  with append_created(2,6) [OF assms] show ?thesis by (auto simp: reports_def)
qed

text \<open>An event of another type leaves the counters in step with the log.\<close>

lemma other_event_ok:
  assumes "route_event up eid now sid t role payload None c = Inr (c', s)"
    and "t \<noteq> AGGREGATE_UPDATED" and "classroom_ok c"
  shows "classroom_ok c'"
proof -
  obtain row created where app: "append_event (map sess_session_id (cr_sessions c)) eid now sid t
      role payload None (cr_log c) = Inr (cr_log c', row, created)"
    and same: "cr_responses c' = cr_responses c" "cr_sessions c' = cr_sessions c"
    using route_event_log [OF assms(1)] by blast
  have "created" using app append_duplicate by (metis (full_types) option.distinct(1))
  with app have a: "append_event (map sess_session_id (cr_sessions c)) eid now sid t
      role payload None (cr_log c) = Inr (cr_log c', row, True)" by simp
  note r = append_created [OF a]
  have "session_log_ok (cr_log c')"
    using session_log_step_ok [OF session_log_step.intros [OF a]] assms(3)
    by (simp add: classroom_ok_def)
  with assms(2,3) same r(1,6) show ?thesis by (auto simp: classroom_ok_def reports_def)
qed

lemma submit_cases:
  assumes "submit_response pii up ids now claims sid rq key c = Inr (c', s)"
  obtains (again) row where "c' = c" "find_by_idempotency_key (cr_log c) sid key = Inr (Some row)"
  | (first) session db k p where "session \<in> set (cr_sessions c)" "sess_session_id session = sid"
      "find_by_idempotency_key (cr_log c) sid key = Inr None"
      "record_response pii (sid_response_id ids) (sid_aggregate_id ids) sid
         (sess_retention_tier session) (student_pseudonym claims sid) rq (cr_responses c) =
         Inr (db, ResponseAccepted k p)"
      "sess_retention_tier session = NONE \<and> c' = c\<lparr>cr_responses := db\<rparr> \<or>
       sess_retention_tier session \<noteq> NONE \<and>
       route_event up (sid_event_id ids) now sid AGGREGATE_UPDATED (stp_role claims)
         [(''interaction_id'', JStr (rq_interaction_id rq)),
          (''tallies'', JObj (map (\<lambda>(k, v). (k, JInt v))
             (current_tallies db sid (rq_interaction_id rq))))]
         (Some key) (c\<lparr>cr_responses := db\<rparr>) = Inr (c', s)"
proof -
  obtain session found where s: "load_session_or_404 (cr_sessions c) sid = Inr session"
    and f: "find_by_idempotency_key (cr_log c) sid key = Inr found"
    using assms by (auto simp: submit_response_def ebind_Inr_iff)
  show ?thesis
  proof (cases found)
    case (Some row)
    then show ?thesis
      using assms s f again by (auto simp: submit_response_def ebind_Inr_iff)
  next
    case None
    obtain db res where rr: "record_response pii (sid_response_id ids) (sid_aggregate_id ids) sid
         (sess_retention_tier session) (student_pseudonym claims sid) rq (cr_responses c) =
         Inr (db, res)"
      using assms s f None by (auto simp: submit_response_def ebind_Inr_iff)
    then obtain k p where "res = ResponseAccepted k p"
      using assms s f None by (cases res) (auto simp: submit_response_def ebind_Inr_iff)
    with rr assms s f None show ?thesis
      using first [of session db k p] loaded_session [OF s]
      by (auto simp: submit_response_def ebind_Inr_iff events_iff Let_def split: if_splits)
  qed
qed

lemma found_keyed:
  "find_by_idempotency_key log sid k = Inr (Some r) \<longleftrightarrow> keyed_rows log sid k = [r]"
  "find_by_idempotency_key log sid k = Inr None \<longleftrightarrow> keyed_rows log sid k = []"
  by (simp_all add: find_by_idempotency_key_def keyed_rows_def)

lemma submit_ok:
  assumes "submit_response pii up ids now claims sid rq key c = Inr (c', s)"
    and "classroom_ok c"
  shows "classroom_ok c' \<and> cr_sessions c' = cr_sessions c"
  using assms(1)
proof (cases rule: submit_cases)
  case again
  with assms(2) show ?thesis by simp
next
  case (first session db k p)
  let ?iid = "rq_interaction_id rq"
  have cok: "counters_ok (cr_responses c)" using assms(2) by (simp add: classroom_ok_def)
  note r = record_response_accepted [OF first(4) cok]
  have raw: "\<forall>r \<in> set (raw_responses db). \<exists>s \<in> set (cr_sessions c).
      sess_session_id s = sr_session_id r \<and> PSEUDONYMOUS \<le> sess_retention_tier s"
    using r(3) first(1,2) assms(2) by (fastforce simp: classroom_ok_def)
  from first(5) show ?thesis
  proof (elim disjE conjE)
    assume n: "sess_retention_tier session = NONE" "c' = c\<lparr>cr_responses := db\<rparr>"
    then have "attempts db t j = attempts (cr_responses c) t j" for t j
      using r(2) [of t j] by simp
    with n(2) assms(2) r(1) raw show ?thesis by (simp add: classroom_ok_def)
  next
    assume n: "sess_retention_tier session \<noteq> NONE"
      and route: "route_event up (sid_event_id ids) now sid AGGREGATE_UPDATED (stp_role claims)
         [(''interaction_id'', JStr ?iid), (''tallies'', JObj (map (\<lambda>(k, v). (k, JInt v))
             (current_tallies db sid ?iid)))] (Some key) (c\<lparr>cr_responses := db\<rparr>) = Inr (c', s)"
    obtain row created where app: "append_event (map sess_session_id (cr_sessions c))
        (sid_event_id ids) now sid AGGREGATE_UPDATED (stp_role claims)
        [(''interaction_id'', JStr ?iid), (''tallies'', JObj (map (\<lambda>(k, v). (k, JInt v))
             (current_tallies db sid ?iid)))] (Some key) (cr_log c) = Inr (cr_log c', row, created)"
      and same: "cr_responses c' = db" "cr_sessions c' = cr_sessions c"
      using route_event_log [OF route] by auto
    have "created"
      using app append_duplicate first(3) by (cases created) (fastforce simp: found_keyed)+
    with app have a: "append_event (map sess_session_id (cr_sessions c))
        (sid_event_id ids) now sid AGGREGATE_UPDATED (stp_role claims)
        [(''interaction_id'', JStr ?iid), (''tallies'', JObj (map (\<lambda>(k, v). (k, JInt v))
             (current_tallies db sid ?iid)))] (Some key) (cr_log c) = Inr (cr_log c', row, True)"
      by simp
    note row = append_created [OF a]
    have log: "session_log_ok (cr_log c')"
      using session_log_step_ok [OF session_log_step.intros [OF a]] assms(2)
      by (simp add: classroom_ok_def)
    have "attempts db t j = int (length (filter (reports t j) (cr_log c')))" for t j
      using r(2) [of t j] n assms(2) created_row_reports [OF a, of t j]
      by (simp add: row(1) classroom_ok_def)
    with log raw r(1) same row(1,5) assms(2) show ?thesis by (simp add: classroom_ok_def)
  qed
qed

lemma classroom_step_ok:
  assumes "classroom_step c c'" and "classroom_ok c"
  shows "classroom_ok c'"
  using assms(1)
proof (cases rule: classroom_step.cases)
  case 1
  then show ?thesis using assms(2)
    by (auto simp: advance_slide_def ebind_Inr_iff intro: other_event_ok)
next
  case 2
  then show ?thesis using assms(2)
    by (auto simp: select_branch_def ebind_Inr_iff intro: other_event_ok)
next
  case 3
  then show ?thesis using submit_ok assms(2) by blast
qed

lemma classroom_reachable:
  "classroom_step\<^sup>*\<^sup>* (start_classroom rows) c \<Longrightarrow> classroom_ok c"
  by (induction rule: rtranclp_induct) (auto intro: start_ok classroom_step_ok)

section \<open>Properties\<close>

definition demo_request :: response_request where
  "demo_request =
     \<lparr> rq_interaction_id = ''q1'', rq_kind = POLL_VOTE,
       rq_payload = [(''selected_option_id'', JStr ''a'')], rq_kc_ids = None,
       rq_correct = Some True, rq_interaction_allows_free_text = False,
       rq_session_allows_free_text = False \<rparr>"

definition demo_claims :: session_token_payload where
  "demo_claims = session_token_claims 0 14400 demo_session STUDENT PSEUDONYM (Some ''Mai'') None"

definition demo_ids :: submission_ids where
  "demo_ids = \<lparr> sid_response_id = ''p1'', sid_aggregate_id = ''g1'', sid_event_id = ''e1'' \<rparr>"

definition demo_classroom :: classroom where
  "demo_classroom =
     (case submit_response (\<lambda>_. False) False demo_ids 5 demo_claims ''s1'' demo_request ''k1''
        (start_classroom [demo_session]) of Inr (c, _) \<Rightarrow> c | Inl _ \<Rightarrow> start_classroom [])"

lemma demo_submitted:
  "(\<exists>s. submit_response (\<lambda>_. False) False demo_ids 5 demo_claims ''s1'' demo_request ''k1''
     (start_classroom [demo_session]) = Inr (demo_classroom, s)) \<and>
   (\<exists>r. raw_responses (cr_responses demo_classroom) = [r])"
proof -
  have "\<exists>c s. submit_response (\<lambda>_. False) False demo_ids 5 demo_claims ''s1'' demo_request ''k1''
     (start_classroom [demo_session]) = Inr (c, s) \<and> (\<exists>r. raw_responses (cr_responses c) = [r])"
    by (simp add: submit_response_def require_matching_session_def load_session_or_404_def
        demo_claims_def session_token_claims_def demo_session_def start_classroom_def
        find_by_idempotency_key_def record_response_def demo_request_def
        validate_response_payload_def dict_get_def increment_aggregate_def aggregate_key_def
        bump_def demo_ids_def route_event_def record_event_def append_event_def build_event_def
        current_tallies_def get_session_aggregates_def pair_opt_def hot_state_def
        current_session_state_def recover_read_model_def default_recovery_event_limit_def
        session_rows_def row_to_event_def apply_event_def reads_payload_def finish_recorded_def
        next_session_sequence_def session_seqs_def Let_def)
  then show ?thesis by (auto simp: demo_classroom_def)
qed

lemma demo_classroom_reachable:
  "classroom_step\<^sup>*\<^sup>* (start_classroom [demo_session]) demo_classroom"
  using demo_submitted classroom_step.intros(3) by blast

text \<open>
  C28: in every classroom the routes can reach, the attempt counter of an
  interaction equals the number of submissions reported for it in the event log, every such
  report carries the idempotency key of its submission, and repeating a submission under a key
  that is already in the log changes nothing at all.
\<close>
theorem responses_counted_once:
  assumes "classroom_step\<^sup>*\<^sup>* (start_classroom rows) c"
  shows "attempts (cr_responses c) sid iid = int (length (filter (reports sid iid) (cr_log c))) \<and>
    (\<forall>r \<in> set (cr_log c). ser_event_type r = AGGREGATE_UPDATED \<longrightarrow> ser_idempotency_key r \<noteq> None) \<and>
    (keyed_rows (cr_log c) sid key \<noteq> [] \<longrightarrow>
       submit_response pii up ids now claims sid rq key c = Inr (c', s) \<longrightarrow> c' = c)"
proof -
  have ok: "classroom_ok c" using classroom_reachable [OF assms] .
  have "c' = c" if k: "keyed_rows (cr_log c) sid key \<noteq> []"
    and sub: "submit_response pii up ids now claims sid rq key c = Inr (c', s)"
    using sub by (cases rule: submit_cases) (use k in \<open>auto simp: found_keyed\<close>)
  with ok show ?thesis by (simp add: classroom_ok_def)
qed

theorem responses_counted_once_witness:
  "attempts (cr_responses demo_classroom) ''s1'' ''q1'' =
     int (length (filter (reports ''s1'' ''q1'') (cr_log demo_classroom)))"
  using responses_counted_once [OF demo_classroom_reachable] by blast

text \<open>
  A raw answer is stored only for a session of a pseudonymous or
  identifiable tier; drill-down is refused below them; and class counters never show more
  correct answers than attempts.
\<close>
lemma raw_responses_gated:
  assumes "classroom_step\<^sup>*\<^sup>* (start_classroom rows) c"
    and "r \<in> set (raw_responses (cr_responses c))"
  shows "(\<exists>s \<in> set (cr_sessions c). sess_session_id s = sr_session_id r \<and>
      (\<exists>ds. student_drill_down [r] (sess_retention_tier s) = DrillDownAccepted ds)) \<and>
    (\<forall>a \<in> set (response_aggregates (cr_responses c)).
      0 \<le> incorrect_count \<lparr> rr_key = k, rr_attempt_count = agg_attempt_count a,
        rr_correct_count = agg_correct_count a \<rparr>)"
proof -
  have ok: "classroom_ok c" using classroom_reachable [OF assms(1)] .
  then obtain s where "s \<in> set (cr_sessions c)" "sess_session_id s = sr_session_id r"
    "PSEUDONYMOUS \<le> sess_retention_tier s"
    using assms(2) by (auto simp: classroom_ok_def)
  moreover from this have "\<exists>ds. student_drill_down [r] (sess_retention_tier s) = DrillDownAccepted ds"
    by (simp add: student_drill_down_def raw_responses_iff)
  moreover have "\<forall>a \<in> set (response_aggregates (cr_responses c)).
      0 \<le> incorrect_count \<lparr> rr_key = k, rr_attempt_count = agg_attempt_count a,
        rr_correct_count = agg_correct_count a \<rparr>"
    using ok by (auto simp: classroom_ok_def counters_ok_def incorrect_count_def)
  ultimately show ?thesis by blast
qed

lemma raw_responses_gated_witness:
  "\<exists>r. raw_responses (cr_responses demo_classroom) = [r] \<and>
     (\<exists>s \<in> set (cr_sessions demo_classroom). sess_session_id s = sr_session_id r)"
proof -
  obtain r where r: "raw_responses (cr_responses demo_classroom) = [r]"
    using demo_submitted by blast
  from raw_responses_gated [OF demo_classroom_reachable, of r] r show ?thesis by auto
qed

section \<open>The rollup\<close>

text \<open>All contributions to the buckets, in order: a row once per key it is tagged with.\<close>

definition contributions :: "response_aggregate list \<Rightarrow> (response_aggregate \<times> string) list" where
  "contributions aggregates = concat (map (\<lambda>row. map (Pair row) (rollup_keys row)) aggregates)"

definition total_of :: "(response_aggregate \<Rightarrow> int) \<Rightarrow> (response_aggregate \<times> string) list \<Rightarrow> string \<Rightarrow> int" where
  "total_of f ps key = sum_list (map (\<lambda>p. f (fst p)) (filter (\<lambda>p. snd p = key) ps))"

definition buckets_of :: "(response_aggregate \<times> string) list \<Rightarrow> (string \<times> rollup_row) list" where
  "buckets_of ps = foldl (\<lambda>b (row, key). add_to_bucket row key b) [] ps"

lemma rollup_buckets:
  "class_concept_rollup aggregates = sort_key rr_key (map snd (buckets_of (contributions aggregates)))"
proof -
  have "foldl (\<lambda>b row. foldl (\<lambda>b key. add_to_bucket row key b) b (rollup_keys row)) b xs =
      foldl (\<lambda>b (row, key). add_to_bucket row key b) b
        (concat (map (\<lambda>row. map (Pair row) (rollup_keys row)) xs))" for b xs
    by (induction xs arbitrary: b) (simp_all add: foldl_map)
  then show ?thesis
    by (simp add: class_concept_rollup_def buckets_of_def contributions_def)
qed

lemma add_lookup:
  "map_of (add_to_bucket row k b) = (map_of b)(k \<mapsto>
     \<lparr> rr_key = k,
       rr_attempt_count = (case map_of b k of None \<Rightarrow> 0 | Some e \<Rightarrow> rr_attempt_count e) +
         agg_attempt_count row,
       rr_correct_count = (case map_of b k of None \<Rightarrow> 0 | Some e \<Rightarrow> rr_correct_count e) +
         agg_correct_count row \<rparr>)"
  by (simp add: add_to_bucket_def update_conv' split: option.split)

lemma total_snoc:
  "total_of f (ps @ [(row, k)]) key = total_of f ps key + (if key = k then f row else 0)"
  by (simp add: total_of_def)

lemma buckets_lookup:
  "distinct (map fst (buckets_of ps)) \<and>
   map_of (buckets_of ps) key =
     (if key \<in> snd ` set ps
      then Some \<lparr> rr_key = key, rr_attempt_count = total_of agg_attempt_count ps key,
                  rr_correct_count = total_of agg_correct_count ps key \<rparr>
      else None)"
proof (induction ps arbitrary: key rule: rev_induct)
  case Nil
  then show ?case by (simp add: buckets_of_def)
next
  case (snoc p ps)
  obtain row k where p: "p = (row, k)" by (cases p)
  have b: "buckets_of (ps @ [p]) = add_to_bucket row k (buckets_of ps)"
    by (simp add: buckets_of_def p)
  have "distinct (map fst (buckets_of (ps @ [p])))"
    using snoc.IH by (auto simp: b add_to_bucket_def distinct_update split: option.splits)
  moreover have none: "total_of f ps k = 0" if "k \<notin> snd ` set ps" for f
  proof -
    from that have none: "filter (\<lambda>p. snd p = k) ps = []" by (auto simp: filter_empty_conv)
    show ?thesis unfolding total_of_def none by simp
  qed
  moreover have "map_of (buckets_of (ps @ [p])) key =
     (if key \<in> snd ` set (ps @ [p])
      then Some \<lparr> rr_key = key, rr_attempt_count = total_of agg_attempt_count (ps @ [p]) key,
                  rr_correct_count = total_of agg_correct_count (ps @ [p]) key \<rparr>
      else None)"
    unfolding b add_lookup unfolding p total_snoc
    using conjunct2 [OF snoc.IH [of k]] conjunct2 [OF snoc.IH [of key]] none
    by (cases "key = k"; cases "k \<in> snd ` set ps") simp_all
  ultimately show ?case by blast
qed

text \<open>
  The class-level rollup has one row per concept, sorted by concept, with a row
  for exactly the concepts some counter is tagged with (an untagged counter stands for its
  interaction), and each row's totals are the sums of the counters tagged with its concept.
\<close>
lemma rollup_adds_up:
  "sorted (map rr_key (class_concept_rollup aggregates)) \<and>
   distinct (map rr_key (class_concept_rollup aggregates)) \<and>
   set (class_concept_rollup aggregates) =
     (\<lambda>key. \<lparr> rr_key = key, rr_attempt_count = total_of agg_attempt_count (contributions aggregates) key,
              rr_correct_count = total_of agg_correct_count (contributions aggregates) key \<rparr>) `
       (snd ` set (contributions aggregates))"
proof -
  let ?ps = "contributions aggregates" let ?b = "buckets_of ?ps"
  let ?row = "\<lambda>key. \<lparr> rr_key = key, rr_attempt_count = total_of agg_attempt_count ?ps key,
              rr_correct_count = total_of agg_correct_count ?ps key \<rparr>"
  have d: "distinct (map fst ?b)" using buckets_lookup by blast
  then have look: "(key, r) \<in> set ?b \<longleftrightarrow> key \<in> snd ` set ?ps \<and> r = ?row key" for key r
    using buckets_lookup [of ?ps key] by (auto simp: map_of_eq_Some_iff [symmetric] split: if_splits)
  have "map rr_key (map snd ?b) = map fst ?b"
    using look by (auto intro!: map_cong)
  then have "distinct (map rr_key (map snd ?b))" using d by (simp only:)
  moreover have "set (map snd ?b) = ?row ` (snd ` set ?ps)"
  proof -
    have "set (map snd ?b) = {r. \<exists>key. (key, r) \<in> set ?b}" by force
    also have "\<dots> = {r. \<exists>key. key \<in> snd ` set ?ps \<and> r = ?row key}" unfolding look ..
    finally show ?thesis by (simp only: image_def Bex_def)
  qed
  moreover have "distinct (map rr_key (sort_key rr_key xs)) = distinct (map rr_key xs)" for xs :: "rollup_row list"
    by (simp add: distinct_map)
  ultimately show ?thesis unfolding rollup_buckets by (simp only: set_sort sorted_sort_key)
qed

end
