(* ===== verification/Sliding_Window.thy ===== *)
theory Sliding_Window
  imports Prelude
begin

text \<open>
  The interface of the gateway's in-memory rate limiters. Three of them share one algorithm: for
  room joins (\<open>teaching_session/join.py\<close>), for AI rewrites
  (\<open>slide_deck_ai_rewrite_rate_limit.py\<close>) and for webhooks (\<open>routers/webhooks.py\<close>). Each keeps the
  accepted instants per key, drops those that left the trailing window, and denies a request
  when as many as the cap remain. What a caller relies on is proved once: in no window of the
  configured length are more requests of a key accepted than the cap.
\<close>

definition recent_times :: "int \<Rightarrow> instant \<Rightarrow> instant list \<Rightarrow> instant list" where
  "recent_times window now seen = filter (\<lambda>seen_at. now - seen_at \<le> window) seen"

text \<open>The accepted requests of a sequence of requests, in order.\<close>

fun accepted_run ::
    "('k \<Rightarrow> instant \<Rightarrow> 'st \<Rightarrow> 'st \<times> bool) \<Rightarrow> 'st \<Rightarrow> ('k \<times> instant) list \<Rightarrow>
     'st \<times> ('k \<times> instant) list" where
  "accepted_run attempt st [] = (st, [])"
| "accepted_run attempt st ((k, now) # rs) =
     (let (st', ok) = attempt k now st; (st'', as) = accepted_run attempt st' rs
      in (st'', (if ok then (k, now) # as else as)))"

definition in_window :: "'k \<Rightarrow> instant \<Rightarrow> int \<Rightarrow> 'k \<times> instant \<Rightarrow> bool" where
  "in_window k t window r \<longleftrightarrow> fst r = k \<and> t \<le> snd r \<and> snd r \<le> t + window"

lemma accepted_run_snoc:
  "accepted_run attempt st (rs @ [(k, now)]) =
     (let (st', as) = accepted_run attempt st rs; (st'', ok) = attempt k now st'
      in (st'', as @ (if ok then [(k, now)] else [])))"
  by (induction rs arbitrary: st) (auto simp: Let_def split: prod.splits)

locale sliding_window =
  fixes times :: "'st \<Rightarrow> 'k \<Rightarrow> instant list"
    and attempt :: "'k \<Rightarrow> instant \<Rightarrow> 'st \<Rightarrow> 'st \<times> bool"
    and cap :: nat and window :: int
  assumes allowed: "snd (attempt k now st) \<longleftrightarrow> length (recent_times window now (times st k)) < cap"
    and own_times: "times (fst (attempt k now st)) k =
      recent_times window now (times st k) @ (if snd (attempt k now st) then [now] else [])"
    and other_times: "j \<noteq> k \<Longrightarrow> times (fst (attempt k now st)) j = times st j"
begin

text \<open>
  The stored instants of a key are its accepted ones, as far as any later request can tell.
\<close>

lemma stored_recent:
  assumes "accepted_run attempt st rs = (st', as)" and "\<And>k. times st k = []"
    and "sorted (map snd rs)" and "\<forall>r \<in> set rs. snd r \<le> n"
  shows "recent_times window n (times st' k) =
    recent_times window n (map snd (filter (\<lambda>r. fst r = k) as))"
  using assms(1,3,4)
proof (induction rs arbitrary: st' as n rule: rev_induct)
  case Nil
  then show ?case using assms(2) by simp
next
  case (snoc r rs)
  obtain j now where r: "r = (j, now)" by (cases r)
  obtain st1 as1 where run: "accepted_run attempt st rs = (st1, as1)"
    by (cases "accepted_run attempt st rs")
  obtain ok where step: "attempt j now st1 = (st', ok)"
    and as: "as = as1 @ (if ok then [(j, now)] else [])"
    using snoc.prems(1) run by (auto simp: r accepted_run_snoc Let_def split: prod.splits)
  have now: "now \<le> n" "sorted (map snd rs)" "\<forall>r \<in> set rs. snd r \<le> now"
    using snoc.prems(2,3) by (auto simp: r sorted_append)
  have IHn: "recent_times window n (times st1 k) =
      recent_times window n (map snd (filter (\<lambda>r. fst r = k) as1))"
    using snoc.IH [OF run now(2), of n] snoc.prems(3) by simp
  have shrink: "recent_times window n (recent_times window now xs) = recent_times window n xs"
    for xs using now(1) by (auto simp: recent_times_def intro: filter_cong)
  show ?case
  proof (cases "k = j")
    case True
    have "times st' k = recent_times window now (times st1 k) @ (if ok then [now] else [])"
      using own_times [of j now st1] step True by simp
    then have "recent_times window n (times st' k) =
        recent_times window n (times st1 k) @ recent_times window n (if ok then [now] else [])"
      by (simp only: recent_times_def filter_append shrink [unfolded recent_times_def])
    then show ?thesis using IHn True by (auto simp: as recent_times_def)
  next
    case False
    then have "times st' k = times st1 k" using other_times [of k j now st1] step by simp
    with IHn False show ?thesis by (auto simp: as)
  qed
qed

theorem window_bound:
  assumes "accepted_run attempt st rs = (st', as)" and "\<And>k. times st k = []"
    and "sorted (map snd rs)"
  shows "length (filter (in_window k t window) as) \<le> cap"
  using assms(1,3)
proof (induction rs arbitrary: st' as rule: rev_induct)
  case Nil
  then show ?case by simp
next
  case (snoc r rs)
  obtain j now where r: "r = (j, now)" by (cases r)
  obtain st1 as1 where run: "accepted_run attempt st rs = (st1, as1)"
    by (cases "accepted_run attempt st rs")
  obtain ok where step: "attempt j now st1 = (st', ok)"
    and as: "as = as1 @ (if ok then [(j, now)] else [])"
    using snoc.prems(1) run by (auto simp: r accepted_run_snoc Let_def split: prod.splits)
  have srt: "sorted (map snd rs)" and before: "\<forall>r \<in> set rs. snd r \<le> now"
    using snoc.prems(2) by (auto simp: r sorted_append)
  have IH: "length (filter (in_window k t window) as1) \<le> cap"
    by (rule snoc.IH [OF run srt])
  show ?case
  proof (cases "ok \<and> in_window k t window (j, now)")
    case False
    with IH show ?thesis by (auto simp: as)
  next
    case True
    then have kj: "j = k" and t: "t \<le> now" "now \<le> t + window" by (auto simp: in_window_def)
    have "length (filter (in_window k t window) as1) \<le>
        length (filter (\<lambda>r. fst r = k \<and> now - snd r \<le> window) as1)"
    proof -
      have "filter (in_window k t window) as1 =
          filter (in_window k t window) (filter (\<lambda>r. fst r = k \<and> now - snd r \<le> window) as1)"
        using t by (auto simp: in_window_def intro!: filter_cong)
      then show ?thesis by (metis length_filter_le)
    qed
    also have "\<dots> = length (recent_times window now (map snd (filter (\<lambda>r. fst r = k) as1)))"
      by (simp add: recent_times_def filter_map o_def conj_commute)
    also have "\<dots> = length (recent_times window now (times st1 k))"
      using stored_recent [OF run assms(2) srt before] by simp
    also have "\<dots> < cap" using allowed [of k now st1] step True kj by simp
    finally show ?thesis using True by (simp add: as)
  qed
qed

text \<open>A key that is quiet for longer than the window gets its full allowance back.\<close>

lemma quiet_key_allowed:
  assumes "0 < cap" and "\<forall>seen \<in> set (times st k). window < now - seen"
  shows "snd (attempt k now st)"
proof -
  have "recent_times window now (times st k) = []"
    using assms(2) by (auto simp: recent_times_def filter_empty_conv not_le)
  then show ?thesis using assms(1) by (simp add: allowed)
qed

end

end
