(* ===== verification/Session_Join.thy ===== *)
theory Session_Join
  imports Auth Sliding_Window
begin

text \<open>
  Joining a live session (\<open>services/gateway/teaching_session/join.py\<close>) and class rosters
  (\<open>roster.py\<close>), with the laws of session creation and of joining: what a reachable session table
  looks like, that a room code leads to at most one session, that attempts are limited per
  address and code, and what a successful join hands out.

  \<open>csv.DictReader\<close> is an argument of the roster import: the column names and the rows it reads.
\<close>

section \<open>Rate limit (\<open>join.py\<close>)\<close>

record join_rate_limit_config =
  jrl_rate_limit_count :: int
  jrl_rate_limit_window_seconds :: int

definition default_join_rate_limit_config :: join_rate_limit_config where
  "default_join_rate_limit_config =
     \<lparr> jrl_rate_limit_count = 10, jrl_rate_limit_window_seconds = 60 \<rparr>"

type_synonym join_rate_limit_state = "string \<times> string \<rightharpoonup> instant list"

definition allow_join_attempt ::
    "join_rate_limit_config \<Rightarrow> int option \<Rightarrow> int option \<Rightarrow> string \<times> string \<Rightarrow> instant \<Rightarrow>
     join_rate_limit_state \<Rightarrow> join_rate_limit_state \<times> bool" where
  "allow_join_attempt cfg limit window_seconds key now state =
     (let window = seconds (the_default (jrl_rate_limit_window_seconds cfg) window_seconds);
          cap = the_default (jrl_rate_limit_count cfg) limit;
          recent = recent_times window now (the_default [] (state key))
      in if cap \<le> int (length recent) then (state(key \<mapsto> recent), False)
         else (state(key \<mapsto> recent @ [now]), True))"

interpretation join_window:
  sliding_window "\<lambda>st k. the_default [] (st k)" "allow_join_attempt cfg limit ws"
    "nat (the_default (jrl_rate_limit_count cfg) limit)"
    "seconds (the_default (jrl_rate_limit_window_seconds cfg) ws)"
  for cfg limit ws
  by unfold_locales (auto simp: allow_join_attempt_def Let_def split: if_splits)

section \<open>Room codes (\<open>join.py\<close>)\<close>

definition room_code_join_payload :: "teaching_session \<Rightarrow> string" where
  "room_code_join_payload s = ''omc-join:'' @ sess_session_id s @ '':'' @
     (case sess_room_code s of None \<Rightarrow> ''None'' | Some c \<Rightarrow> c)"

definition is_room_code_valid :: "teaching_session \<Rightarrow> bool" where
  "is_room_code_valid s \<longleftrightarrow> sess_room_code s \<noteq> None \<and> sess_status s \<in> set joinable_statuses"

definition find_joinable_session_by_room_code ::
    "teaching_session list \<Rightarrow> string \<Rightarrow> teaching_session option result" where
  "find_joinable_session_by_room_code rows code = scalar_one_or_none (joinable_with_code rows code)"

section \<open>Rosters (\<open>models.py\<close> \<open>ClassRosterEntry\<close>, \<open>roster.py\<close>)\<close>

record roster_entry =
  ros_roster_entry_id :: string
  ros_class_id :: string
  ros_name :: string
  ros_student_id :: "string option"
  ros_imported_by :: string

fun roster_rows :: "(string \<rightharpoonup> string) list \<Rightarrow> (string \<times> string option) list" where
  "roster_rows [] = []"
| "roster_rows (row # rows) =
     (let name = strip (the_default [] (row ''name''));
          student = strip (the_default [] (row ''student_id''))
      in if name = [] then roster_rows rows
         else (name, if student = [] then None else Some student) # roster_rows rows)"

definition parse_roster_csv ::
    "string list option \<Rightarrow> (string \<rightharpoonup> string) list \<Rightarrow> (string \<times> string option) list result" where
  "parse_roster_csv fieldnames rows =
     (case fieldnames of
        None \<Rightarrow> Inl (ValueError ''Roster CSV must have a 'name' column'')
      | Some names \<Rightarrow>
          (if ''name'' \<notin> set names then Inl (ValueError ''Roster CSV must have a 'name' column'')
           else Inr (roster_rows rows)))"

text \<open>\<open>ids i\<close> is the identifier drawn for the \<open>i\<close>-th row.\<close>

definition import_roster ::
    "(nat \<Rightarrow> string) \<Rightarrow> string \<Rightarrow> string list option \<Rightarrow> (string \<rightharpoonup> string) list \<Rightarrow> string \<Rightarrow>
     roster_entry list \<Rightarrow> (roster_entry list \<times> roster_entry list) result" where
  "import_roster ids class_id fieldnames rows imported_by table =
     ebind (parse_roster_csv fieldnames rows) (\<lambda>parsed.
       (let kept = filter (\<lambda>e. ros_class_id e \<noteq> class_id) table;
            entries = map (\<lambda>(i, name, student).
                \<lparr> ros_roster_entry_id = ids i, ros_class_id = class_id, ros_name = name,
                  ros_student_id = student, ros_imported_by = imported_by \<rparr>)
              (zip [0..<length parsed] parsed)
        in if distinct (map ros_roster_entry_id (kept @ entries))
           then Inr (kept @ entries, entries) else Inl IntegrityError))"

definition get_roster_entry :: "roster_entry list \<Rightarrow> string \<Rightarrow> string \<Rightarrow> roster_entry option result" where
  "get_roster_entry table class_id entry_id =
     scalar_one_or_none
       (filter (\<lambda>e. ros_class_id e = class_id \<and> ros_roster_entry_id e = entry_id) table)"

section \<open>Joining (\<open>join.py\<close> \<open>join_session\<close>)\<close>

datatype 't join_result =
    JoinAccepted (joined_token: 't) session_role identity_mode
  | JoinRejected string

text \<open>How a participant is identified: mode, alias and roster identifier.\<close>

definition join_identity ::
    "string option \<Rightarrow> roster_entry option \<Rightarrow> identity_mode \<times> string option \<times> string option" where
  "join_identity alias entry =
     (case entry of
        Some e \<Rightarrow>
          (ROSTER, Some (ros_name e),
           Some (if the_default [] (ros_student_id e) \<noteq> [] then the (ros_student_id e)
                 else ros_roster_entry_id e))
      | None \<Rightarrow>
          (if the_default [] alias \<noteq> [] then (PSEUDONYM, alias, None)
           else (ANONYMOUS, alias, None)))"

definition join_session ::
    "'t jwt_encode \<Rightarrow> join_rate_limit_config \<Rightarrow> int \<Rightarrow> teaching_session option \<Rightarrow> string \<Rightarrow>
     string \<Rightarrow> instant \<Rightarrow> string option \<Rightarrow> roster_entry option \<Rightarrow> join_rate_limit_state \<Rightarrow>
     join_rate_limit_state \<times> 't join_result result" where
  "join_session encode cfg clock session client_ip room_code now alias entry state =
     (let (state1, ok) = allow_join_attempt cfg None None (client_ip, room_code) now state in
      (state1,
       if \<not> ok then Inr (JoinRejected ''rate_limited'')
       else case session of
              None \<Rightarrow> Inr (JoinRejected ''invalid_room_code'')
            | Some s \<Rightarrow>
                (if sess_room_code s \<noteq> Some room_code then Inr (JoinRejected ''invalid_room_code'')
                 else if \<not> is_room_code_valid s then Inr (JoinRejected ''session_not_joinable'')
                 else if entry \<noteq> None \<and> Some (ros_class_id (the entry)) \<noteq> sess_class_id s
                 then Inr (JoinRejected ''roster_entry_not_in_class'')
                 else
                   let (mode, name, student) = join_identity alias entry in
                   ebind (mint_session_token encode clock default_session_token_ttl_seconds s
                           STUDENT mode name student None)
                     (\<lambda>token. Inr (JoinAccepted token STUDENT mode)))))"

section \<open>Reachable session tables\<close>

text \<open>
  Sessions are created by \<open>create_session\<close>; a status changes only by a transition that the
  lifecycle table accepts.
\<close>

definition move_session :: "string \<Rightarrow> session_status \<Rightarrow> session_db \<Rightarrow> session_db" where
  "move_session sid st db =
     db\<lparr>live_sessions := update_where (\<lambda>s. sess_session_id s = sid \<and>
           session_status_step (sess_status s) st) (\<lambda>s. s\<lparr>sess_status := st\<rparr>) (live_sessions db)\<rparr>"

inductive session_db_step :: "session_db \<Rightarrow> session_db \<Rightarrow> bool" where
  created: "create_session draws audit_id now sid teacher deck snap cls tier ack mode db =
     Inr (db', s) \<Longrightarrow> session_db_step db db'"
| moved: "session_db_step db (move_session sid st db)"

inductive_cases session_db_stepE: "session_db_step db db'"

definition empty_session_db :: session_db where
  "empty_session_db = \<lparr> live_sessions = [], session_audit_events = [] \<rparr>"

text \<open>What the policy demands of one row: a stored tier was validated, and audited if need be.\<close>

definition session_row_ok :: "session_audit_event list \<Rightarrow> teaching_session \<Rightarrow> bool" where
  "session_row_ok audit s \<longleftrightarrow>
     sess_delivery_mode s = Mode_LIVE \<and>
     (PSEUDONYMOUS \<le> sess_retention_tier s \<longrightarrow> the_default [] (sess_class_id s) \<noteq> []) \<and>
     (sess_retention_tier s = IDENTIFIABLE \<longrightarrow>
        (\<exists>a \<in> set audit. sae_session_id a = sess_session_id s \<and> sae_actor_id a = sess_teacher_id s \<and>
           sae_action a = ''retention_tier_identifiable_acknowledged''))"

definition session_db_ok :: "session_db \<Rightarrow> bool" where
  "session_db_ok db \<longleftrightarrow>
     distinct (map sess_session_id (live_sessions db)) \<and>
     (\<forall>s \<in> set (live_sessions db). session_row_ok (session_audit_events db) s) \<and>
     (\<forall>code. length (joinable_with_code (live_sessions db) code) \<le> 1)"

lemma try_room_codes_fresh:
  "try_room_codes rows draws = Inr code \<Longrightarrow> joinable_with_code rows code = []"
  by (induction draws) (auto simp: Let_def ebind_Inr_iff split: option.splits)

lemma joinable_snoc:
  "joinable_with_code (rows @ [s]) code = joinable_with_code rows code @
     (if sess_room_code s = Some code \<and> sess_status s \<in> set joinable_statuses then [s] else [])"
  by (simp add: joinable_with_code_def)

lemma session_row_ok_mono:
  "session_row_ok audit s \<Longrightarrow> set audit \<subseteq> set audit' \<Longrightarrow> session_row_ok audit' s"
  by (auto simp: session_row_ok_def)

text \<open>What a successful creation wrote.\<close>

lemma create_session_ok:
  assumes "create_session draws audit_id now sid teacher deck snap cls tier ack mode db = Inr (db', s)"
  shows "live_sessions db' = live_sessions db @ [s]"
    and "set (session_audit_events db) \<subseteq> set (session_audit_events db')"
    and "sid = sess_session_id s" and "sid \<notin> set (map sess_session_id (live_sessions db))"
    and "session_row_ok (session_audit_events db') s"
    and "\<exists>code. sess_room_code s = Some code \<and> joinable_with_code (live_sessions db) code = []"
proof -
  from assms have mode: "mode = Mode_LIVE"
    by (auto simp: create_session_def implemented_delivery_modes_def split: if_splits)
  obtain u where "validate_retention_selection tier cls ack = RetentionSelectionAccepted u"
    using assms by (auto simp: create_session_def split: if_splits retention_selection_result.splits)
  then have sel: "validate_retention_selection tier cls ack = RetentionSelectionAccepted tier"
    and tier: "PSEUDONYMOUS \<le> tier \<longrightarrow> the_default [] cls \<noteq> []"
    by (simp_all add: retention_accepted_iff)
  obtain code where code: "unique_room_code (live_sessions db) draws = Inr code"
    using assms sel mode
    by (auto simp: create_session_def implemented_delivery_modes_def ebind_Inr_iff)
  have fresh: "joinable_with_code (live_sessions db) code = []"
    using try_room_codes_fresh code by (simp add: unique_room_code_def)
  note facts = assms [unfolded create_session_def] sel mode code
  show "live_sessions db' = live_sessions db @ [s]"
    and "set (session_audit_events db) \<subseteq> set (session_audit_events db')"
    and "sid = sess_session_id s" and "sid \<notin> set (map sess_session_id (live_sessions db))"
    and "session_row_ok (session_audit_events db') s"
    and "\<exists>code. sess_room_code s = Some code \<and> joinable_with_code (live_sessions db) code = []"
    using facts tier fresh
    by (auto simp: implemented_delivery_modes_def session_row_ok_def Let_def split: if_splits)
qed

lemma created_keeps:
  assumes "session_db_ok db"
    and "create_session draws audit_id now sid teacher deck snap cls tier ack mode db = Inr (db', s)"
  shows "session_db_ok db'"
proof -
  note c = create_session_ok [OF assms(2)]
  obtain code where code: "sess_room_code s = Some code"
    "joinable_with_code (live_sessions db) code = []" using c(6) by blast
  have "length (joinable_with_code (live_sessions db') k) \<le> 1" for k
    using assms(1) code by (cases "k = code") (auto simp: c(1) joinable_snoc session_db_ok_def)
  moreover have "distinct (map sess_session_id (live_sessions db'))"
    using assms(1) c(3,4) by (auto simp: c(1) session_db_ok_def)
  moreover have "\<forall>r \<in> set (live_sessions db'). session_row_ok (session_audit_events db') r"
    using assms(1) c(2,5) session_row_ok_mono by (auto simp: c(1) session_db_ok_def)
  ultimately show ?thesis by (simp add: session_db_ok_def)
qed

text \<open>A row that moves forward can stop being joinable, but never starts to be.\<close>

lemma moved_joinable:
  "length (joinable_with_code (update_where (\<lambda>s. p s \<and> session_status_step (sess_status s) st)
      (\<lambda>s. s\<lparr>sess_status := st\<rparr>) rows) code) \<le> length (joinable_with_code rows code)"
proof (induction rows)
  case Nil
  then show ?case by (simp add: joinable_with_code_def table_simps)
next
  case (Cons s rows)
  have "st \<in> set joinable_statuses \<Longrightarrow> sess_status s \<in> set joinable_statuses"
    if "session_status_step (sess_status s) st"
    using joinable_before session_machine.accepted_le [OF that] by blast
  with Cons show ?case by (auto simp: joinable_with_code_def table_simps)
qed

lemma moved_keeps: "session_db_ok db \<Longrightarrow> session_db_ok (move_session sid st db)"
proof -
  assume ok: "session_db_ok db"
  let ?db = "move_session sid st db"
  have "map sess_session_id (live_sessions ?db) = map sess_session_id (live_sessions db)"
    by (simp add: move_session_def map_update_where)
  moreover have "\<forall>s \<in> set (live_sessions ?db). session_row_ok (session_audit_events ?db) s"
    using ok by (auto simp: move_session_def session_db_ok_def session_row_ok_def set_update_where)
  moreover have "length (joinable_with_code (live_sessions ?db) code) \<le> 1" for code
    using ok moved_joinable [of "\<lambda>s. sess_session_id s = sid" st "live_sessions db" code]
    by (force simp: move_session_def session_db_ok_def intro: order.trans)
  ultimately show ?thesis using ok by (simp add: session_db_ok_def)
qed

lemma session_db_reachable:
  assumes "session_db_step\<^sup>*\<^sup>* empty_session_db db"
  shows "session_db_ok db"
  using assms
proof (induction rule: rtranclp_induct)
  case base
  show ?case by (simp add: empty_session_db_def session_db_ok_def joinable_with_code_def)
next
  case (step y z)
  from step(2) show ?case
    by (cases rule: session_db_stepE) (use step(3) created_keeps moved_keeps in auto)
qed

section \<open>Properties\<close>

text \<open>
  In every reachable session table each session of an
  identity-bearing tier belongs to a named class, each identifiable one has the audited
  acknowledgment of its teacher, and a room code leads to at most one joinable session, so its
  lookup never raises.
\<close>
lemma session_policy_enforced:
  assumes "session_db_step\<^sup>*\<^sup>* empty_session_db db"
  shows "(\<forall>s \<in> set (live_sessions db). session_row_ok (session_audit_events db) s) \<and>
    (\<forall>code. \<exists>found. find_joinable_session_by_room_code (live_sessions db) code = Inr found \<and>
       (\<forall>s. found = Some s \<longrightarrow> is_room_code_valid s \<and> sess_room_code s = Some code))"
proof -
  note ok = session_db_reachable [OF assms]
  have "\<exists>found. find_joinable_session_by_room_code (live_sessions db) code = Inr found \<and>
       (\<forall>s. found = Some s \<longrightarrow> is_room_code_valid s \<and> sess_room_code s = Some code)" for code
  proof -
    from ok have "length (joinable_with_code (live_sessions db) code) \<le> 1"
      by (simp add: session_db_ok_def)
    then consider "joinable_with_code (live_sessions db) code = []"
      | s where "joinable_with_code (live_sessions db) code = [s]"
      by (cases "joinable_with_code (live_sessions db) code") auto
    then show ?thesis
    proof cases
      case 1
      then show ?thesis by (simp add: find_joinable_session_by_room_code_def)
    next
      case 2
      then have "s \<in> set (live_sessions db) \<and> sess_room_code s = Some code \<and>
          sess_status s \<in> set joinable_statuses"
        unfolding joinable_with_code_def by (rule filter_singletonD)
      with 2 show ?thesis
        by (simp add: find_joinable_session_by_room_code_def is_room_code_valid_def)
    qed
  qed
  with ok show ?thesis by (simp add: session_db_ok_def)
qed

definition demo_session_db :: session_db where
  "demo_session_db =
     (case create_session (\<lambda>_. 42) ''a1'' 0 ''s1'' ''t1'' ''d'' ''n'' (Some ''c1'') PSEUDONYMOUS False
        Mode_LIVE empty_session_db of Inr (db, _) \<Rightarrow> db | Inl _ \<Rightarrow> empty_session_db)"

lemma room_code_42: "generate_room_code 42 = ''000042''"
proof -
  have "show_nat 42 = ''42''"
    by (simp add: show_nat.simps [of 42] show_nat.simps [of 4] char_of_def bit_Suc_0_iff)
  moreover have "replicate 4 (CHR ''0'') = ''0000''" by (simp add: eval_nat_numeral)
  ultimately show ?thesis by (simp add: generate_room_code_def room_code_text_def)
qed

lemma demo_session_created:
  "create_session (\<lambda>_. 42) ''a1'' 0 ''s1'' ''t1'' ''d'' ''n'' (Some ''c1'') PSEUDONYMOUS False
     Mode_LIVE empty_session_db = Inr (demo_session_db, demo_session)"
proof -
  have "[0..<max_room_code_attempts] = [0, 1, 2, 3, 4]"
    by (simp add: max_room_code_attempts_def upt_conv_Cons)
  then have "unique_room_code [] (\<lambda>_. 42) = Inr ''000042''"
    by (simp add: unique_room_code_def joinable_with_code_def room_code_42)
  then have "\<exists>db. create_session (\<lambda>_. 42) ''a1'' 0 ''s1'' ''t1'' ''d'' ''n'' (Some ''c1'')
      PSEUDONYMOUS False Mode_LIVE empty_session_db = Inr (db, demo_session)"
    by (simp add: create_session_def implemented_delivery_modes_def validate_retention_selection_def
        empty_session_db_def demo_session_def Let_def)
  then show ?thesis by (auto simp: demo_session_db_def)
qed

lemma session_policy_enforced_witness:
  "session_row_ok (session_audit_events demo_session_db) demo_session"
proof -
  have "session_db_step\<^sup>*\<^sup>* empty_session_db demo_session_db"
    using session_db_step.created [OF demo_session_created] by blast
  from session_policy_enforced [OF this] create_session_ok(1) [OF demo_session_created]
  show ?thesis by simp
qed

text \<open>
  However requests to join interleave, as long as the clock does not run
  backwards no window of sixty seconds holds more than ten admitted attempts from one address
  on one room code.
\<close>
lemma join_attempts_bounded:
  assumes "sorted (map snd rs)"
    and "accepted_run (allow_join_attempt default_join_rate_limit_config None None) Map.empty rs =
      (st, as)"
  shows "length (filter (in_window (ip, code) t (seconds 60)) as) \<le> 10"
  using join_window.window_bound [OF assms(2) _ assms(1), of "(ip, code)" t]
  by (simp add: default_join_rate_limit_config_def)

lemma join_attempts_bounded_witness:
  "length (filter (in_window (''ip'', ''000042'') 0 (seconds 60))
     (snd (accepted_run (allow_join_attempt default_join_rate_limit_config None None) Map.empty
        [((''ip'', ''000042''), 0), ((''ip'', ''000042''), 5)]))) \<le> 10"
  by (rule join_attempts_bounded [OF _ prod.collapse [symmetric]]) simp

text \<open>
  A join succeeds only on the room code of a joinable session, and the
  token it hands out verifies, while it is valid, to the student role in that session and its
  retention tier, never to another role; a roster identity is that of a roster entry of the
  session's class.
\<close>
lemma join_grants_student:
  assumes "jwt_contract encode decode"
    and "snd (join_session encode cfg clock (Some s) ip code now alias entry st) =
      Inr (JoinAccepted token role mode)"
    and "clock \<le> later" and "later < clock + 4 * 3600"
  shows "sess_room_code s = Some code \<and> sess_status s \<in> {SCHEDULED, LIVE} \<and> role = STUDENT \<and>
    (\<exists>p. verify_session_token decode later token = Inr p \<and> stp_role p = STUDENT \<and>
       stp_session_id p = sess_session_id s \<and> stp_identity_mode p = mode \<and>
       stp_retention_tier p = Some (sess_retention_tier s)) \<and>
    require_controller (get_session_claims decode later (Some token)) =
      Inl (HTTPException 403 ''Session role not permitted for this action'') \<and>
    (mode = ROSTER \<longrightarrow> (\<exists>e. entry = Some e \<and> Some (ros_class_id e) = sess_class_id s))"
proof -
  obtain name student where id: "join_identity alias entry = (mode, name, student)"
    and mint: "mint_session_token encode clock default_session_token_ttl_seconds s STUDENT mode
      name student None = Inr token"
    and s: "sess_room_code s = Some code" "is_room_code_valid s" "role = STUDENT"
    and e: "entry = None \<or> Some (ros_class_id (the entry)) = sess_class_id s"
    using assms(2)
    by (auto simp: join_session_def Let_def ebind_Inr_iff split: prod.splits if_splits)
  let ?p = "session_token_claims clock default_session_token_ttl_seconds s STUDENT mode name student"
  have token: "token = encode (dump_session_token ?p)"
    using mint by (simp add: mint_session_token_def teacher_minted_iff)
  have "stp_iat ?p = clock" "stp_exp ?p = clock + 4 * 3600"
    by (simp_all add: session_token_claims_def default_session_token_ttl_seconds_def)
  then have v: "verify_session_token decode later token = Inr ?p"
    using assms(3,4)
    by (simp add: verify_session_token_def token decode_session [OF assms(1)]
        read_dump_session_token)
  have p: "stp_role ?p = STUDENT" "stp_session_id ?p = sess_session_id s"
    "stp_identity_mode ?p = mode" "stp_retention_tier ?p = Some (sess_retention_tier s)"
    by (simp_all add: session_token_claims_def)
  have c: "require_controller (get_session_claims decode later (Some token)) =
      Inl (HTTPException 403 ''Session role not permitted for this action'')"
    using p(1) by (simp add: require_controller_def require_session_role_def
        get_session_claims_def v)
  have r: "mode = ROSTER \<longrightarrow> (\<exists>e. entry = Some e \<and> Some (ros_class_id e) = sess_class_id s)"
    using id e by (cases entry) (auto simp: join_identity_def split: if_splits)
  have "sess_status s \<in> {SCHEDULED, LIVE}"
    using s(2) by (simp add: is_room_code_valid_def joinable_statuses_def)
  with s v p c r show ?thesis by blast
qed

lemma join_grants_student_witness:
  "\<exists>token. snd (join_session (\<lambda>c. c) default_join_rate_limit_config 0 (Some demo_session) ''ip''
       ''000042'' 0 (Some ''Mai'') None Map.empty) = Inr (JoinAccepted token STUDENT PSEUDONYM) \<and>
     require_controller (get_session_claims plain_decode 60 (Some token)) =
       Inl (HTTPException 403 ''Session role not permitted for this action'')"
proof -
  have "\<exists>token. snd (join_session (\<lambda>c. c) default_join_rate_limit_config 0 (Some demo_session) ''ip''
       ''000042'' 0 (Some ''Mai'') None Map.empty) = Inr (JoinAccepted token STUDENT PSEUDONYM)"
    by (simp add: join_session_def allow_join_attempt_def default_join_rate_limit_config_def
        recent_times_def demo_session_def is_room_code_valid_def joinable_statuses_def
        join_identity_def mint_session_token_def teacher_minted_iff Let_def)
  then obtain token where t: "snd (join_session (\<lambda>c. c) default_join_rate_limit_config 0
       (Some demo_session) ''ip'' ''000042'' 0 (Some ''Mai'') None Map.empty) =
     Inr (JoinAccepted token STUDENT PSEUDONYM)" by blast
  from join_grants_student [OF plain_contract t, of 60] t show ?thesis by auto
qed

end
