(* ===== verification/Webhooks.thy ===== *)
theory Webhooks
  imports Sliding_Window
begin

text \<open>
  Inbound webhooks and their outbound dispatch (\<open>services/gateway/routers/webhooks.py\<close>), and the
  limiter of AI rewrites (\<open>slide_deck_ai_rewrite_rate_limit.py\<close>), which is built the same way.

  Arguments of the model: \<open>post url event i\<close>, whether the \<open>i\<close>-th attempt to post the event to the
  URL succeeds; \<open>py_str\<close>, Python's \<open>str\<close> on a list or a dictionary; \<open>digest\<close>, the SHA-256 of the
  request body, or of the sorted payload where there is no body. Signature verification comes
  before these operations and is not modelled.
\<close>

section \<open>Configuration defaults (\<open>webhooks/config.py\<close>)\<close>

record webhook_config =
  webhook_notify_secret :: "string option"
  webhook_outbound_urls :: string
  webhook_rate_limit_count :: int
  webhook_rate_limit_window_seconds :: int

definition default_webhook_config :: webhook_config where
  "default_webhook_config =
     \<lparr> webhook_notify_secret = None, webhook_outbound_urls = '''',
       webhook_rate_limit_count = 60, webhook_rate_limit_window_seconds = 60 \<rparr>"

section \<open>Dispatch\<close>

record webhook_dispatch =
  wd_source :: string
  wd_event_id :: string
  wd_event_type :: string
  wd_payload :: json_object

definition dispatch_payload :: "webhook_dispatch \<Rightarrow> json_object" where
  "dispatch_payload event =
     [(''source'', JStr (wd_source event)),
      (''event_id'', JStr (wd_event_id event)),
      (''event_type'', JStr (wd_event_type event)),
      (''payload'', JObj (wd_payload event))]"

text \<open>\<open>for _ in range(retries + 1)\<close>: the first success returns, else the last error is raised.\<close>

definition post_with_retry ::
    "(string \<Rightarrow> json_object \<Rightarrow> nat \<Rightarrow> bool) \<Rightarrow> nat \<Rightarrow> string \<Rightarrow> webhook_dispatch \<Rightarrow> unit result" where
  "post_with_retry post retries url event =
     (if list_ex (post url (dispatch_payload event)) [0..<retries + 1] then Inr ()
      else Inl (HTTPError url))"

text \<open>\<open>OutboundWebhookDispatcher.dispatch\<close>: the URLs that were served, and the result.\<close>

fun dispatch_to ::
    "(string \<Rightarrow> json_object \<Rightarrow> nat \<Rightarrow> bool) \<Rightarrow> nat \<Rightarrow> webhook_dispatch \<Rightarrow> string list \<Rightarrow>
     string list \<times> unit result" where
  "dispatch_to post retries event [] = ([], Inr ())"
| "dispatch_to post retries event (url # urls) =
     (case post_with_retry post retries url event of
        Inl e \<Rightarrow> ([], Inl e)
      | Inr _ \<Rightarrow> (let (served, r) = dispatch_to post retries event urls in (url # served, r)))"

definition outbound_webhook_urls :: "webhook_config \<Rightarrow> string list" where
  "outbound_webhook_urls cfg =
     filter (\<lambda>u. u \<noteq> []) (map strip (split_on (CHR '','') (webhook_outbound_urls cfg)))"

section \<open>Processing a verified webhook\<close>

record webhook_state =
  processed_event_ids :: "string list"
  request_times_by_source :: "string \<rightharpoonup> instant list"

definition allow_request ::
    "webhook_config \<Rightarrow> string \<Rightarrow> instant \<Rightarrow> webhook_state \<Rightarrow> webhook_state \<times> bool" where
  "allow_request cfg source now state =
     (let window = seconds (webhook_rate_limit_window_seconds cfg);
          recent = recent_times window now (the_default [] (request_times_by_source state source))
      in if webhook_rate_limit_count cfg \<le> int (length recent)
         then (state\<lparr>request_times_by_source :=
                 (request_times_by_source state)(source \<mapsto> recent)\<rparr>, False)
         else (state\<lparr>request_times_by_source :=
                 (request_times_by_source state)(source \<mapsto> recent @ [now])\<rparr>, True))"

interpretation webhook_window:
  sliding_window "\<lambda>st k. the_default [] (request_times_by_source st k)" "allow_request cfg"
    "nat (webhook_rate_limit_count cfg)" "seconds (webhook_rate_limit_window_seconds cfg)"
  for cfg
  by unfold_locales (auto simp: allow_request_def Let_def split: if_splits)

fun first_present :: "json_object \<Rightarrow> string list \<Rightarrow> json" where
  "first_present payload [] = JNull"
| "first_present payload (k # ks) =
     (if dict_get payload k \<noteq> JNull then dict_get payload k else first_present payload ks)"

definition webhook_event_id :: "(json \<Rightarrow> string) \<Rightarrow> string \<Rightarrow> json_object \<Rightarrow> string" where
  "webhook_event_id py_str digest payload =
     (let v = first_present payload [''event_id'', ''update_id'', ''message_id'', ''id'']
      in if v \<noteq> JNull then json_str py_str v else digest)"

text \<open>\<open>payload.get("type", payload.get("event", "unknown"))\<close>.\<close>

definition webhook_event_type :: "(json \<Rightarrow> string) \<Rightarrow> json_object \<Rightarrow> string" where
  "webhook_event_type py_str payload =
     json_str py_str
       (case map_of payload ''type'' of
          Some v \<Rightarrow> v
        | None \<Rightarrow> (case map_of payload ''event'' of Some v \<Rightarrow> v | None \<Rightarrow> JStr ''unknown''))"

record webhook_env =
  env_config :: webhook_config
  env_py_str :: "json \<Rightarrow> string"
  env_dispatch :: "webhook_dispatch \<Rightarrow> string list \<times> unit result"

text \<open>\<open>_dispatcher\<close>: without outbound URLs an event is only logged, which cannot fail.\<close>

definition make_dispatcher ::
    "(string \<Rightarrow> json_object \<Rightarrow> nat \<Rightarrow> bool) \<Rightarrow> webhook_config \<Rightarrow> webhook_dispatch \<Rightarrow>
     string list \<times> unit result" where
  "make_dispatcher post cfg event =
     (if outbound_webhook_urls cfg = [] then ([], Inr ())
      else dispatch_to post 2 event (outbound_webhook_urls cfg))"

datatype webhook_outcome = Processed | Duplicate

text \<open>
  \<open>_process_verified_webhook\<close>: the new state, the dispatches that were started, and the result.
  The identifier is recorded before the dispatch, and stays recorded when the dispatch raises.
\<close>

definition process_verified_webhook ::
    "webhook_env \<Rightarrow> string \<Rightarrow> string \<Rightarrow> json_object \<Rightarrow> instant \<Rightarrow> webhook_state \<Rightarrow>
     webhook_state \<times> webhook_dispatch list \<times> webhook_outcome result" where
  "process_verified_webhook env digest source payload now state =
     (let (state1, ok) = allow_request (env_config env) source now state in
      if \<not> ok then (state1, [], Inl (HTTPException 429 ''webhook_rate_limited''))
      else
        let event_id = source @ '':'' @ webhook_event_id (env_py_str env) digest payload in
        if event_id \<in> set (processed_event_ids state1) then (state1, [], Inr Duplicate)
        else
          let state2 = state1\<lparr>processed_event_ids := event_id # processed_event_ids state1\<rparr>;
              event = \<lparr> wd_source = source, wd_event_id = event_id,
                        wd_event_type = webhook_event_type (env_py_str env) payload,
                        wd_payload = payload \<rparr>
          in (state2, [event],
              (case snd (env_dispatch env event) of Inl e \<Rightarrow> Inl e | Inr _ \<Rightarrow> Inr Processed)))"

definition verify_notify_secret :: "webhook_config \<Rightarrow> string option \<Rightarrow> bool" where
  "verify_notify_secret cfg secret \<longleftrightarrow>
     the_default [] (webhook_notify_secret cfg) \<noteq> [] \<and> the_default [] secret \<noteq> [] \<and>
     secret = webhook_notify_secret cfg"

section \<open>The limiter of AI rewrites\<close>

record ai_rewrite_limit_config =
  air_rate_limit_count :: int
  air_rate_limit_window_seconds :: int

definition default_ai_rewrite_limit_config :: ai_rewrite_limit_config where
  "default_ai_rewrite_limit_config =
     \<lparr> air_rate_limit_count = 20, air_rate_limit_window_seconds = 3600 \<rparr>"

type_synonym ai_rewrite_limit_state = "string \<rightharpoonup> instant list"

definition allow_ai_rewrite_attempt ::
    "ai_rewrite_limit_config \<Rightarrow> int option \<Rightarrow> int option \<Rightarrow> string \<Rightarrow> instant \<Rightarrow>
     ai_rewrite_limit_state \<Rightarrow> ai_rewrite_limit_state \<times> bool" where
  "allow_ai_rewrite_attempt cfg limit window_seconds teacher_id now state =
     (let window = seconds (the_default (air_rate_limit_window_seconds cfg) window_seconds);
          cap = the_default (air_rate_limit_count cfg) limit;
          recent = recent_times window now (the_default [] (state teacher_id))
      in if cap \<le> int (length recent) then (state(teacher_id \<mapsto> recent), False)
         else (state(teacher_id \<mapsto> recent @ [now]), True))"

interpretation ai_rewrite_window:
  sliding_window "\<lambda>st k. the_default [] (st k)" "allow_ai_rewrite_attempt cfg limit ws"
    "nat (the_default (air_rate_limit_count cfg) limit)"
    "seconds (the_default (air_rate_limit_window_seconds cfg) ws)"
  for cfg limit ws
  by unfold_locales (auto simp: allow_ai_rewrite_attempt_def Let_def split: if_splits)

section \<open>Laws\<close>

lemma allow_request_ids [simp]:
  "processed_event_ids (fst (allow_request cfg source now st)) = processed_event_ids st"
  by (simp add: allow_request_def Let_def)

text \<open>A sequence of verified webhooks: all dispatches that were started.\<close>

fun webhook_run ::
    "webhook_env \<Rightarrow> (string \<times> string \<times> json_object \<times> instant) list \<Rightarrow> webhook_state \<Rightarrow>
     webhook_state \<times> webhook_dispatch list" where
  "webhook_run env [] st = (st, [])"
| "webhook_run env ((source, digest, payload, now) # rs) st =
     (let (st1, started, _) = process_verified_webhook env digest source payload now st;
          (st2, later) = webhook_run env rs st1
      in (st2, started @ later))"

lemma process_ids:
  assumes "process_verified_webhook env digest source payload now st = (st', started, r)"
  shows "processed_event_ids st' = map wd_event_id started @ processed_event_ids st \<and>
    distinct (map wd_event_id started) \<and>
    set (map wd_event_id started) \<inter> set (processed_event_ids st) = {}"
proof -
  obtain st1 ok where a: "allow_request (env_config env) source now st = (st1, ok)"
    by (cases "allow_request (env_config env) source now st")
  then have "processed_event_ids st1 = processed_event_ids st"
    using allow_request_ids [of "env_config env" source now st] by simp
  with assms a show ?thesis
    by (auto simp: process_verified_webhook_def Let_def split: if_splits)
qed

lemma webhook_run_ids:
  "webhook_run env rs st = (st', ds) \<Longrightarrow>
   distinct (map wd_event_id ds) \<and>
   set (map wd_event_id ds) \<inter> set (processed_event_ids st) = {} \<and>
   set (processed_event_ids st') = set (map wd_event_id ds) \<union> set (processed_event_ids st)"
proof (induction rs arbitrary: st ds)
  case Nil
  then show ?case by simp
next
  case (Cons r rs)
  obtain source digest payload now where r: "r = (source, digest, payload, now)"
    by (cases r)
  obtain st1 started res where p:
    "process_verified_webhook env digest source payload now st = (st1, started, res)"
    by (metis prod_cases3)
  obtain later where l: "webhook_run env rs st1 = (st', later)" and ds: "ds = started @ later"
    using Cons.prems p by (auto simp: r Let_def split: prod.splits)
  show ?case using Cons.IH [OF l] process_ids [OF p] by (auto simp: ds)
qed

text \<open>
  Whatever sequence of verified webhooks arrives, a dispatch is
  started at most once for each event identifier, and never for one that was processed before.
\<close>
lemma webhook_dispatched_once:
  "distinct (map wd_event_id (snd (webhook_run env rs st))) \<and>
   set (map wd_event_id (snd (webhook_run env rs st))) \<inter> set (processed_event_ids st) = {}"
  using webhook_run_ids [of env rs st] by (metis prod.collapse)

text \<open>
  The identifier is recorded before the event is handed on, so when
  its dispatch raises, the sender sees an error, and every redelivery the limiter admits is
  answered as a duplicate without being dispatched: the event is lost.
\<close>
lemma failed_dispatch_is_lost:
  assumes "process_verified_webhook env digest source payload now st = (st1, [event], Inl e)"
    and "snd (allow_request (env_config env) source later st1)"
  shows "snd (process_verified_webhook env digest source payload later st1) = ([], Inr Duplicate)"
proof -
  obtain st0 ok where a: "allow_request (env_config env) source now st = (st0, ok)"
    by (cases "allow_request (env_config env) source now st")
  obtain st2 where b: "allow_request (env_config env) source later st1 = (st2, True)"
    using assms(2) by (metis prod.collapse)
  have "source @ '':'' @ webhook_event_id (env_py_str env) digest payload \<in>
      set (processed_event_ids st1)"
    using assms(1) a by (auto simp: process_verified_webhook_def Let_def split: if_splits)
  moreover have "processed_event_ids st2 = processed_event_ids st1"
    using allow_request_ids [of "env_config env" source later st1] b by simp
  ultimately show ?thesis using b by (simp add: process_verified_webhook_def)
qed

definition demo_webhook_env :: webhook_env where
  "demo_webhook_env =
     \<lparr> env_config = default_webhook_config\<lparr>webhook_outbound_urls := ''u''\<rparr>,
       env_py_str = (\<lambda>_. []),
       env_dispatch = make_dispatcher (\<lambda>_ _ _. False)
         (default_webhook_config\<lparr>webhook_outbound_urls := ''u''\<rparr>) \<rparr>"

definition demo_webhook_state :: webhook_state where
  "demo_webhook_state = \<lparr> processed_event_ids = [], request_times_by_source = Map.empty \<rparr>"

lemma failed_dispatch_is_lost_witness:
  "\<exists>st1 event e.
     process_verified_webhook demo_webhook_env ''d'' ''zalo'' [(''id'', JStr ''7'')] 0
       demo_webhook_state = (st1, [event], Inl e) \<and>
     snd (process_verified_webhook demo_webhook_env ''d'' ''zalo'' [(''id'', JStr ''7'')] 5 st1) =
       ([], Inr Duplicate)"
proof -
  let ?p = "process_verified_webhook demo_webhook_env ''d'' ''zalo'' [(''id'', JStr ''7'')] 0
       demo_webhook_state"
  have run: "?p = (fst ?p, [hd (fst (snd ?p))], Inl (HTTPError ''u''))"
    by (simp add: process_verified_webhook_def demo_webhook_env_def demo_webhook_state_def
        default_webhook_config_def allow_request_def recent_times_def webhook_event_id_def
        dict_get_def make_dispatcher_def outbound_webhook_urls_def strip_def blank_def
        post_with_retry_def list_ex_iff Let_def)
  have ok: "snd (allow_request (env_config demo_webhook_env) ''zalo'' 5 (fst ?p))"
    by (simp add: process_verified_webhook_def demo_webhook_env_def demo_webhook_state_def
        default_webhook_config_def allow_request_def recent_times_def webhook_event_id_def
        dict_get_def Let_def seconds_def)
  from failed_dispatch_is_lost [OF run ok] run show ?thesis by blast
qed

end
