(* ===== verification/Dependency_Plan.thy ===== *)
theory Dependency_Plan
  imports Prelude
begin

text \<open>
  The artifact dependency plan (\<open>common/contracts/dependency_plan.py\<close>) and the two computations over
  it in \<open>packages/agents/teaching_pack/artifact_fanout_helpers.py\<close>: the dependents of rejected
  artifact types, and the dependents a failure skips. A dict is its list of items.
\<close>

section \<open>The plan and its validator\<close>

type_synonym dependencies = "(string \<times> string list) list"

record dependency_plan =
  plan_version :: string
  plan_waves :: "string list list"
  plan_dependencies :: dependencies

datatype plan_error =
    Plan_Field_Invalid
  | Unknown_Dependency string string
  | Forward_Dependency string string

definition requires :: "dependencies \<Rightarrow> string \<Rightarrow> string list" where
  "requires deps t = the_default [] (map_of deps t)"

text \<open>The dict comprehension over the waves: of several waves that list a type, the last counts.\<close>

definition wave_index_by_type :: "string list list \<Rightarrow> string \<rightharpoonup> nat" where
  "wave_index_by_type waves =
     map_of (rev (concat (map (\<lambda>(i, wave). map (\<lambda>t. (t, i)) wave) (enumerate 0 waves))))"

fun check_requires :: "(string \<rightharpoonup> nat) \<Rightarrow> string \<Rightarrow> string list \<Rightarrow> plan_error + unit" where
  "check_requires index t [] = Inr ()"
| "check_requires index t (d # ds) =
     (case index d of
        None \<Rightarrow> Inl (Unknown_Dependency t d)
      | Some i \<Rightarrow>
          (case index t of
             None \<Rightarrow> check_requires index t ds
           | Some j \<Rightarrow> if j \<le> i then Inl (Forward_Dependency t d) else check_requires index t ds))"

fun check_dependencies :: "(string \<rightharpoonup> nat) \<Rightarrow> dependencies \<Rightarrow> plan_error + unit" where
  "check_dependencies index [] = Inr ()"
| "check_dependencies index ((t, ds) # rest) =
     (case check_requires index t ds of Inl e \<Rightarrow> Inl e | Inr _ \<Rightarrow> check_dependencies index rest)"

definition dependency_plan_of ::
  "string \<Rightarrow> string list list \<Rightarrow> dependencies \<Rightarrow> plan_error + dependency_plan" where
  "dependency_plan_of version waves deps =
     (if version = [] \<or> 40 < length version \<or> waves = [] then Inl Plan_Field_Invalid
      else case check_dependencies (wave_index_by_type waves) deps of
          Inl e \<Rightarrow> Inl e
        | Inr _ \<Rightarrow> Inr \<lparr>plan_version = version, plan_waves = waves, plan_dependencies = deps\<rparr>)"

fun wave_index_from :: "nat \<Rightarrow> string list list \<Rightarrow> string \<Rightarrow> nat option" where
  "wave_index_from i [] t = None"
| "wave_index_from i (w # ws) t = (if t \<in> set w then Some i else wave_index_from (Suc i) ws t)"

definition wave_index_of :: "dependency_plan \<Rightarrow> string \<Rightarrow> nat option" where
  "wave_index_of p t = wave_index_from 0 (plan_waves p) t"

definition DEFAULT_WAVES :: "string list list" where
  "DEFAULT_WAVES =
     [[''lesson''],
      [''worksheet'', ''quiz'', ''drill'', ''flashcard_deck'', ''roadmap'', ''slide_deck'',
       ''reading_passage'', ''infographic'', ''exit_ticket''],
      [''recap'', ''answer_key'']]"

definition DEFAULT_DEPENDENCIES :: dependencies where
  "DEFAULT_DEPENDENCIES =
     [(''worksheet'', [''lesson'']), (''quiz'', [''lesson'']), (''drill'', [''lesson'']),
      (''recap'', [''lesson'', ''quiz'']), (''flashcard_deck'', [''lesson'']),
      (''answer_key'', [''quiz'']), (''roadmap'', [''lesson'']), (''slide_deck'', [''lesson'']),
      (''reading_passage'', [''lesson'']), (''infographic'', [''lesson'']), (''exit_ticket'', [''lesson''])]"

definition DEFAULT_DEPENDENCY_PLAN :: "plan_error + dependency_plan" where
  "DEFAULT_DEPENDENCY_PLAN = dependency_plan_of ''dependency_plan.v1'' DEFAULT_WAVES DEFAULT_DEPENDENCIES"

section \<open>Dependents\<close>

text \<open>One pass of the \<open>for\<close> loop of \<open>with_dependents\<close>, and the \<open>while changed\<close> around it.\<close>

definition dependents_pass :: "dependencies \<Rightarrow> string list \<Rightarrow> string set \<Rightarrow> string set \<times> bool" where
  "dependents_pass deps requested affected =
     fold (\<lambda>t (affected, changed).
         if t \<notin> affected \<and> list_ex (\<lambda>d. d \<in> affected) (requires deps t)
         then (insert t affected, True) else (affected, changed))
       requested (affected, False)"

lemma dependents_pass_induct:
  assumes "P a" and "\<And>t a. P a \<Longrightarrow> t \<in> set requested \<Longrightarrow> t \<notin> a \<Longrightarrow> list_ex (\<lambda>d. d \<in> a) (requires deps t) \<Longrightarrow> P (insert t a)"
  shows "P (fst (dependents_pass deps requested a))"
proof -
  have "P (fst (fold (\<lambda>t (a, c). if t \<notin> a \<and> list_ex (\<lambda>d. d \<in> a) (requires deps t)
      then (insert t a, True) else (a, c)) ts (a, c)))"
    if "P a" "set ts \<subseteq> set requested" for ts a c
    using that by (induction ts arbitrary: a c) (auto intro: assms(2))
  then show ?thesis using assms(1) by (simp add: dependents_pass_def)
qed

lemma dependents_pass_unchanged:
  assumes "dependents_pass deps requested a = (a', False)"
  shows "a' = a \<and> (\<forall>t \<in> set requested. t \<in> a \<or> \<not> list_ex (\<lambda>d. d \<in> a) (requires deps t))"
proof -
  let ?step = "\<lambda>t (a, c). if t \<notin> a \<and> list_ex (\<lambda>d. d \<in> a) (requires deps t) then (insert t a, True) else (a, c)"
  have sticky: "snd (fold ?step ts (a, True))" for ts a
    by (induction ts arbitrary: a) simp_all
  have "fold ?step ts (a, False) = (a', False) \<Longrightarrow>
      a' = a \<and> (\<forall>t \<in> set ts. t \<in> a \<or> \<not> list_ex (\<lambda>d. d \<in> a) (requires deps t))" for ts
  proof (induction ts)
    case Nil
    then show ?case by simp
  next
    case (Cons t ts)
    then show ?case
      using sticky [of ts "insert t a"] by (auto split: if_splits)
  qed
  then show ?thesis using assms by (simp add: dependents_pass_def)
qed

lemma dependents_pass_changed:
  assumes "dependents_pass deps requested a = (a', True)"
  shows "\<exists>t \<in> set requested. t \<notin> a \<and> t \<in> a'"
proof (rule ccontr)
  let ?step = "\<lambda>t (a, c). if t \<notin> a \<and> list_ex (\<lambda>d. d \<in> a) (requires deps t) then (insert t a, True) else (a, c)"
  assume none: "\<not> ?thesis"
  have grows: "a \<subseteq> fst (fold ?step ts (a, c))" for ts a c
    by (induction ts arbitrary: a c) (auto, blast+)
  have "snd (fold ?step ts (a, False)) \<Longrightarrow> \<exists>t \<in> set ts. t \<notin> a \<and> t \<in> fst (fold ?step ts (a, False))" for ts
  proof (induction ts)
    case (Cons t ts)
    then show ?case
      using grows [of "insert t a" ts True] by (auto split: if_splits)
  qed simp
  from this [of requested] none assms show False by (auto simp: dependents_pass_def)
qed

lemma dependents_pass_shrinks:
  assumes "dependents_pass deps requested affected = (affected', True)"
  shows "card (set requested - affected') < card (set requested - affected)"
proof -
  have "affected \<subseteq> affected'"
    using dependents_pass_induct [where P = "\<lambda>a. affected \<subseteq> a" and a = affected and deps = deps and requested = requested]
    by (auto simp: assms)
  moreover obtain t where "t \<in> set requested" "t \<notin> affected" "t \<in> affected'"
    using dependents_pass_changed [OF assms] by blast
  ultimately have "set requested - affected' \<subset> set requested - affected" by blast
  then show ?thesis by (simp add: psubset_card_mono)
qed

function dependents_closure :: "dependencies \<Rightarrow> string list \<Rightarrow> string set \<Rightarrow> string set" where
  "dependents_closure deps requested affected =
     (let (affected', changed) = dependents_pass deps requested affected
      in if changed then dependents_closure deps requested affected' else affected')"
  by pat_completeness auto
termination
  by (relation "measure (\<lambda>(deps, requested, affected). card (set requested - affected))")
    (auto intro!: dependents_pass_shrinks)

declare dependents_closure.simps [simp del]

definition with_dependents :: "string list \<Rightarrow> string list \<Rightarrow> dependencies \<Rightarrow> string list" where
  "with_dependents seeds requested deps =
     filter (\<lambda>t. t \<in> dependents_closure deps requested (set seeds)) requested"

section \<open>What the validator rules out\<close>

lemma check_requires_Inr:
  "check_requires index t ds = Inr u \<Longrightarrow> d \<in> set ds \<Longrightarrow>
   \<exists>i. index d = Some i \<and> (\<forall>j. index t = Some j \<longrightarrow> i < j)"
  by (induction ds) (auto split: option.splits if_splits)

lemma check_dependencies_Inr:
  "check_dependencies index deps = Inr u \<Longrightarrow> (t, ds) \<in> set deps \<Longrightarrow> check_requires index t ds = Inr ()"
  by (induction deps) (auto split: sum.splits)

lemma wave_index_bound:
  assumes "wave_index_by_type waves t = Some i"
  shows "i < length waves \<and> t \<in> set (waves ! i)"
  using map_of_SomeD [OF assms [unfolded wave_index_by_type_def]]
  by (auto simp: in_set_enumerate_eq)

lemma wave_index_unique:
  assumes "distinct (concat waves)" and "i < length waves" and "t \<in> set (waves ! i)"
  shows "wave_index_by_type waves t = Some i"
proof -
  let ?pairs = "\<lambda>n waves. concat (map (\<lambda>(i, wave). map (\<lambda>t. (t, i)) wave) (enumerate n waves))"
  have "map fst (?pairs n waves) = concat waves" for n
    by (induction waves arbitrary: n) (simp_all add: comp_def)
  then have "distinct (map fst (rev (?pairs 0 waves)))" using assms(1) by (simp flip: rev_map)
  moreover have "(t, i) \<in> set (rev (?pairs 0 waves))"
    using assms(2,3) by (auto simp: in_set_enumerate_eq intro!: bexI [of _ "(i, waves ! i)"])
  ultimately show ?thesis unfolding wave_index_by_type_def by (simp add: map_of_eq_Some_iff)
qed

lemma validated_dependency:
  assumes "dependency_plan_of v waves deps = Inr p" and "d \<in> set (requires deps t)"
  shows "\<exists>i. wave_index_by_type waves d = Some i \<and> (\<forall>j. wave_index_by_type waves t = Some j \<longrightarrow> i < j)"
proof -
  from assms(2) obtain ds where ds: "map_of deps t = Some ds" "d \<in> set ds"
    by (cases "map_of deps t") (auto simp: requires_def)
  moreover from assms(1) have "check_dependencies (wave_index_by_type waves) deps = Inr ()"
    by (auto simp: dependency_plan_of_def split: if_splits sum.splits)
  ultimately show ?thesis
    using check_dependencies_Inr check_requires_Inr map_of_SomeD by metis
qed

text \<open>
  C38: in a plan the validator accepts the dependency relation is well founded, whatever
  the waves: a dependency lies in a wave, strictly earlier than the type that requires it, if that type
  is in a wave at all, and no dependency chain comes back to its start.
\<close>
theorem validated_plan_well_founded:
  assumes "dependency_plan_of v waves deps = Inr p"
  shows "wf {(d, t). d \<in> set (requires deps t)}
    \<and> (\<forall>t. \<forall>d \<in> set (requires deps t). \<exists>i < length waves. d \<in> set (waves ! i)
        \<and> (\<forall>j. wave_index_by_type waves t = Some j \<longrightarrow> i < j))"
proof
  let ?rank = "\<lambda>t. case wave_index_by_type waves t of Some j \<Rightarrow> j | None \<Rightarrow> length waves"
  have "{(d, t). d \<in> set (requires deps t)} \<subseteq> measure ?rank"
    using validated_dependency [OF assms] wave_index_bound by (fastforce split: option.splits)
  then show "wf {(d, t). d \<in> set (requires deps t)}" by (rule wf_subset [OF wf_measure])
  show "\<forall>t. \<forall>d \<in> set (requires deps t). \<exists>i < length waves. d \<in> set (waves ! i)
      \<and> (\<forall>j. wave_index_by_type waves t = Some j \<longrightarrow> i < j)"
    using validated_dependency [OF assms] wave_index_bound by blast
qed

lemma default_plan:
  "DEFAULT_DEPENDENCY_PLAN = Inr \<lparr>plan_version = ''dependency_plan.v1'', plan_waves = DEFAULT_WAVES,
     plan_dependencies = DEFAULT_DEPENDENCIES\<rparr>"
  by (simp add: DEFAULT_DEPENDENCY_PLAN_def dependency_plan_of_def wave_index_by_type_def DEFAULT_WAVES_def
      DEFAULT_DEPENDENCIES_def)

theorem validated_plan_well_founded_witness:
  "wf {(d, t). d \<in> set (requires DEFAULT_DEPENDENCIES t)}"
proof -
  from default_plan [unfolded DEFAULT_DEPENDENCY_PLAN_def] show ?thesis
    by (blast dest: validated_plan_well_founded)
qed

section \<open>The dependents of a rejection\<close>

inductive affected_by :: "dependencies \<Rightarrow> string list \<Rightarrow> string set \<Rightarrow> string \<Rightarrow> bool"
  for deps requested seeds where
  seed: "t \<in> seeds \<Longrightarrow> affected_by deps requested seeds t"
| dependent: "affected_by deps requested seeds d \<Longrightarrow> d \<in> set (requires deps t) \<Longrightarrow> t \<in> set requested
    \<Longrightarrow> affected_by deps requested seeds t"

lemma closure_bounds:
  "a \<subseteq> dependents_closure deps requested a
   \<and> (\<forall>t \<in> set requested. list_ex (\<lambda>d. d \<in> dependents_closure deps requested a) (requires deps t)
        \<longrightarrow> t \<in> dependents_closure deps requested a)
   \<and> (\<forall>t \<in> dependents_closure deps requested a. affected_by deps requested a t)"
proof (induction deps requested a rule: dependents_closure.induct)
  case (1 deps requested a)
  obtain a' changed where pass: "dependents_pass deps requested a = (a', changed)" by fastforce
  have inv: "a \<subseteq> a' \<and> (\<forall>t \<in> a'. affected_by deps requested a t)"
    using dependents_pass_induct [where P = "\<lambda>b. a \<subseteq> b \<and> (\<forall>t \<in> b. affected_by deps requested a t)"
        and a = a and deps = deps and requested = requested]
    by (auto simp: pass list_ex_iff intro: affected_by.intros)
  have trans: "affected_by deps requested a t" if "affected_by deps requested a' t" for t
    using that inv by induction (auto intro: affected_by.intros)
  show ?case
  proof (cases changed)
    case True
    then have "dependents_closure deps requested a = dependents_closure deps requested a'"
      by (subst dependents_closure.simps) (simp add: pass)
    with "1.IH" [OF pass [symmetric] refl True] inv trans show ?thesis by auto
  next
    case False
    then have "dependents_closure deps requested a = a'"
      by (subst dependents_closure.simps) (simp add: pass)
    with dependents_pass_unchanged [of deps requested a a'] pass False inv show ?thesis by auto
  qed
qed

text \<open>
  C39: the loop ends, and the types to regenerate after a rejection are
  exactly the requested ones that a chain of dependencies through requested types connects to a
  rejected type, in the order of the request.
\<close>
theorem rejection_reaches_dependents:
  "with_dependents seeds requested deps = filter (affected_by deps requested (set seeds)) requested"
proof -
  have "affected_by deps requested a t \<Longrightarrow> t \<in> dependents_closure deps requested a" for a t
    by (induction rule: affected_by.induct)
      (use closure_bounds [of a deps requested] in \<open>auto simp: list_ex_iff\<close>)
  then show ?thesis
    unfolding with_dependents_def by (intro filter_cong) (use closure_bounds in \<open>blast+\<close>)
qed

end
