(* ===== verification/Artifact_Channels.thy ===== *)
theory Artifact_Channels
  imports Prelude "HOL-Library.Multiset" "HOL-Library.List_Lexorder" "HOL-Library.Char_ord"
    "HOL-Library.Product_Lexorder"
begin

text \<open>
  The checkpoint channels that artifact branches write concurrently and their reducers
  (\<open>packages/agents/teaching_pack/reducers.py\<close>). A missing text of a JSON object reads as the empty
  text, as in the code.
\<close>

section \<open>Entries\<close>

record artifact_reference =
  ar_document_id :: string
  ar_artifact_id :: string
  ar_artifact_type :: string
  ar_generation_id :: string
  ar_version :: int
  ar_title :: string

record branch_state =
  bw_workflow_id :: string
  bw_generation_id :: string
  bw_artifact_id :: string
  bw_artifact_type :: string
  bw_status :: string
  bw_error_class :: string
  bw_error_summary :: string

definition workflow_state_id :: "branch_state \<Rightarrow> string" where
  "workflow_state_id s = (if bw_workflow_id s \<noteq> [] then bw_workflow_id s else bw_artifact_id s)"

definition workflow_state_sort_key :: "branch_state \<Rightarrow> string \<times> string" where
  "workflow_state_sort_key s = (bw_artifact_type s, workflow_state_id s)"

section \<open>Reducers\<close>

text \<open>A dict built by a comprehension over \<open>prev\<close> and updated in a loop over \<open>new\<close>.\<close>

definition keyed :: "('a \<Rightarrow> 'k) \<Rightarrow> 'a list \<Rightarrow> ('k \<times> 'a) list" where
  "keyed ident xs = map (\<lambda>x. (ident x, x)) xs"

definition stable_merge_workflow_states :: "branch_state list \<Rightarrow> branch_state list \<Rightarrow> branch_state list" where
  "stable_merge_workflow_states prev new =
     sort_key workflow_state_sort_key
       (map snd (dict_merge (dict_merge [] (keyed workflow_state_id prev)) (keyed workflow_state_id new)))"

definition stable_merge_artifact_references ::
  "artifact_reference list \<Rightarrow> artifact_reference list \<Rightarrow> artifact_reference list" where
  "stable_merge_artifact_references prev new =
     sort_key (\<lambda>r. (ar_artifact_type r, ar_document_id r))
       (map snd (dict_merge (dict_merge [] (keyed ar_document_id prev)) (keyed ar_document_id new)))"

definition append_new :: "'a list \<Rightarrow> 'a list \<Rightarrow> 'a list" where
  "append_new seen xs = foldl (\<lambda>seen x. if x \<in> set seen then seen else seen @ [x]) seen xs"

lemma set_append_new [simp]: "set (append_new seen xs) = set seen \<union> set xs"
  by (induction xs arbitrary: seen) (auto simp: append_new_def)

definition stable_merge_files :: "string list \<Rightarrow> string list \<Rightarrow> string list" where
  "stable_merge_files prev new =
     sort (append_new prev new)"

definition current_generation_workflow_states :: "branch_state list \<Rightarrow> string \<Rightarrow> branch_state list" where
  "current_generation_workflow_states states generation_id =
     filter (\<lambda>s. bw_generation_id s = generation_id) states"

definition current_generation_artifact_references ::
  "artifact_reference list \<Rightarrow> string \<Rightarrow> artifact_reference list" where
  "current_generation_artifact_references references generation_id =
     stable_merge_artifact_references [] (filter (\<lambda>r. ar_generation_id r = generation_id) references)"

section \<open>What a channel holds\<close>

text \<open>The latest entry of each identity.\<close>

definition view :: "('a \<Rightarrow> 'k) \<Rightarrow> 'a list \<Rightarrow> 'k \<rightharpoonup> 'a" where
  "view ident xs = map_of (rev (keyed ident xs))"

lemma map_eq_by_Some: "(\<And>k x. m k = Some x \<longleftrightarrow> n k = Some x) \<Longrightarrow> m = n"
  by (intro ext) (metis not_Some_eq)

lemma view_Nil [simp]: "view ident [] = Map.empty"
  by (simp add: view_def keyed_def)

lemma view_append: "view ident (xs @ ys) = view ident xs ++ view ident ys"
  by (simp add: view_def keyed_def map_add_def fun_eq_iff split: option.splits)

lemma view_single [simp]: "view ident [x] = [ident x \<mapsto> x]"
  by (simp add: view_def keyed_def)

lemma view_SomeD: "view ident xs k = Some x \<Longrightarrow> x \<in> set xs \<and> ident x = k"
  by (auto simp: view_def keyed_def dest: map_of_SomeD)

lemma view_dom: "dom (view ident xs) = ident ` set xs"
  by (simp add: view_def keyed_def dom_map_of_conv_image_fst image_image)

lemma view_None: "view ident xs k = None \<longleftrightarrow> k \<notin> ident ` set xs"
  using view_dom [of ident xs] by blast

lemma view_distinct:
  assumes "distinct (map ident xs)"
  shows "view ident xs k = Some x \<longleftrightarrow> x \<in> set xs \<and> ident x = k"
proof
  assume x: "x \<in> set xs \<and> ident x = k"
  then obtain y where y: "view ident xs k = Some y" using view_dom [of ident xs] by auto
  with x assms show "view ident xs k = Some x" using view_SomeD [OF y] by (metis distinct_map inj_onD)
qed (rule view_SomeD)

lemma dict_merge_keyed: "map_of (dict_merge d (keyed ident xs)) = map_of d ++ view ident xs"
proof (induction xs rule: rev_induct)
  case Nil
  then show ?case by (simp add: dict_merge_def keyed_def)
next
  case (snoc x xs)
  have "keyed ident (xs @ [x]) = keyed ident xs @ [(ident x, x)]" by (simp add: keyed_def)
  then show ?case by (simp add: map_of_dict_merge_snoc snoc.IH view_append map_add_def fun_eq_iff)
qed

lemma sorted_values_determined:
  assumes "distinct (map fst d)" and "distinct (map fst e)" and same: "map_of d = map_of e"
    and own: "\<And>k x. map_of d k = Some x \<Longrightarrow> ident x = k" and rank: "\<And>x y. rank x = rank y \<Longrightarrow> ident x = ident y"
  shows "sort_key rank (map snd d) = sort_key rank (map snd e)"
proof (rule sort_key_eq_sort_key)
  have "(k, x) \<in> set d \<longleftrightarrow> (k, x) \<in> set e" for k x
    using same by (simp flip: map_of_eq_Some_iff [OF assms(1)] map_of_eq_Some_iff [OF assms(2)])
  then have "set d = set e" by auto
  then have "mset d = mset e" using assms(1,2) by (simp add: distinct_map set_eq_iff_mset_eq_distinct)
  then show "mset (map snd d) = mset (map snd e)" by simp
  show "inj_on rank (set (map snd d))"
  proof (rule inj_onI)
    fix x y
    assume "x \<in> set (map snd d)" "y \<in> set (map snd d)" and eq: "rank x = rank y"
    then obtain j k where "map_of d j = Some x" "map_of d k = Some y"
      using assms(1) by (auto simp: map_of_eq_Some_iff)
    with own rank [OF eq] show "x = y" by (metis option.inject)
  qed
qed

section \<open>The contract of a reducer\<close>

text \<open>
  A reducer determines its channel by the latest entries: what it returns holds the entries of the new
  value over those of the old one, in an order that depends on nothing else.
\<close>

locale channel_reducer =
  fixes merge :: "'a list \<Rightarrow> 'a list \<Rightarrow> 'a list" and ident :: "'a \<Rightarrow> string"
  assumes one_each: "distinct (map ident (merge prev new))"
    and lookup: "view ident (merge prev new) = view ident prev ++ view ident new"
    and canonical: "view ident prev ++ view ident new = view ident prev' ++ view ident new'
      \<Longrightarrow> merge prev new = merge prev' new'"
begin

lemma merge_again: "merge (merge prev new) new = merge prev new"
  by (rule canonical) (simp add: lookup map_add_def fun_eq_iff split: option.splits)

lemma merge_merge: "merge (merge prev a) b = merge prev (a @ b)"
  by (rule canonical) (simp add: lookup view_append)

lemma merge_commute:
  assumes "ident ` set a \<inter> ident ` set b = {}"
  shows "merge (merge prev a) b = merge (merge prev b) a"
proof -
  have "view ident a ++ view ident b = view ident b ++ view ident a"
    by (rule map_add_comm) (simp add: view_dom assms)
  then show ?thesis unfolding merge_merge by (intro canonical) (simp add: view_append)
qed

lemma merge_branches:
  assumes "distinct (map ident (concat bs))" and "mset bs = mset cs"
  shows "foldl merge prev bs = foldl merge prev cs"
proof -
  have flat: "bs \<noteq> [] \<Longrightarrow> foldl merge prev bs = merge prev (concat bs)" for prev bs
  proof (induction bs arbitrary: prev)
    case (Cons b bs)
    then show ?case by (cases "bs = []") (simp_all add: merge_merge)
  qed simp
  have same: "mset (concat bs) = mset (concat cs)"
    using assms(2) by (metis mset_concat mset_map sum_mset_sum_list)
  then have "mset (map ident (concat bs)) = mset (map ident (concat cs))" by (metis mset_map)
  then have "distinct (map ident (concat cs))"
    using assms(1) mset_eq_imp_distinct_iff by blast
  moreover have "set (concat bs) = set (concat cs)" using same by (rule mset_eq_setD)
  ultimately have "view ident (concat bs) = view ident (concat cs)"
    using assms(1) by (intro map_eq_by_Some) (simp add: view_distinct)
  moreover have "bs = [] \<longleftrightarrow> cs = []" using assms(2) by (metis mset_zero_iff)
  ultimately show ?thesis
    by (cases "bs = []") (auto simp: flat intro: canonical)
qed

lemma entries_stay: "ident ` set prev \<subseteq> ident ` set (merge prev new)"
  using lookup [of prev new] by (metis dom_map_add sup_ge2 view_dom)

lemma in_merge: "x \<in> set (merge prev new) \<longleftrightarrow> (view ident prev ++ view ident new) (ident x) = Some x"
  using view_distinct [OF one_each, of prev new "ident x" x] by (simp add: lookup)

lemma from_either: "x \<in> set (merge prev new) \<Longrightarrow> x \<in> set prev \<or> x \<in> set new"
  by (auto simp: in_merge map_add_Some_iff dest: view_SomeD)

lemma set_merge:
  assumes "distinct (map ident prev)" and "distinct (map ident new)"
  shows "x \<in> set (merge prev new) \<longleftrightarrow> x \<in> set new \<or> x \<in> set prev \<and> ident x \<notin> ident ` set new"
  unfolding in_merge map_add_Some_iff view_distinct [OF assms(1)] view_distinct [OF assms(2)] view_None
  by auto

end

lemma keyed_reducer:
  assumes "\<And>x y :: 'a. rank x = (rank y :: 'r :: linorder) \<Longrightarrow> ident x = ident y"
  shows "channel_reducer (\<lambda>prev new. sort_key rank
      (map snd (dict_merge (dict_merge [] (keyed ident prev)) (keyed ident new)))) (ident :: 'a \<Rightarrow> string)"
proof -
  let ?dict = "\<lambda>prev new. dict_merge (dict_merge [] (keyed ident prev)) (keyed ident new)"
  have dict: "distinct (map fst (?dict prev new))" "map_of (?dict prev new) = view ident prev ++ view ident new" for prev new
    by (simp_all add: distinct_dict_merge dict_merge_keyed)
  have own: "map_of (?dict prev new) k = Some x \<Longrightarrow> ident x = k" for prev new k x
    by (auto simp: dict map_add_Some_iff dest: view_SomeD)
  have keys: "map ident (map snd (?dict prev new)) = map fst (?dict prev new)" for prev new
    using own dict(1) by (auto simp: map_of_eq_Some_iff)
  let ?merge = "\<lambda>prev new. sort_key rank (map snd (?dict prev new))"
  have distinct: "distinct (map ident (?merge prev new))" for prev new
  proof -
    have "mset (map ident (?merge prev new)) = mset (map fst (?dict prev new))"
      by (metis keys mset_map mset_sort)
    then show ?thesis using dict(1) mset_eq_imp_distinct_iff by blast
  qed
  show ?thesis
  proof
    show "distinct (map ident (?merge prev new))" for prev new by (rule distinct)
    show "view ident (?merge prev new) = view ident prev ++ view ident new" for prev new
    proof -
      have "view ident (?merge prev new) k = Some x \<longleftrightarrow> map_of (?dict prev new) k = Some x" for k x
        using own dict(1) by (force simp: view_distinct [OF distinct] map_of_eq_Some_iff)
      then show ?thesis unfolding dict(2) by (rule map_eq_by_Some)
    qed
    show "?merge prev new = ?merge prev' new'"
      if "view ident prev ++ view ident new = view ident prev' ++ view ident new'" for prev new prev' new'
      by (rule sorted_values_determined [OF dict(1) dict(1) _ own assms]) (simp add: dict(2) that)
  qed
qed

interpretation wf_channel: channel_reducer stable_merge_workflow_states workflow_state_id
  unfolding stable_merge_workflow_states_def [abs_def]
  by (rule keyed_reducer) (simp add: workflow_state_sort_key_def)

interpretation ref_channel: channel_reducer stable_merge_artifact_references ar_document_id
  unfolding stable_merge_artifact_references_def [abs_def] by (rule keyed_reducer) simp

text \<open>
  When the branches of a wave report different workflows, the status channel
  after all of them is the same in whatever order they finish, and replaying a branch changes nothing.
\<close>
lemma branch_order_irrelevant:
  assumes "distinct (map workflow_state_id (concat branches))" and "mset branches = mset branches'"
  shows "foldl stable_merge_workflow_states channel branches = foldl stable_merge_workflow_states channel branches'
    \<and> stable_merge_workflow_states (stable_merge_workflow_states channel b) b = stable_merge_workflow_states channel b"
  using wf_channel.merge_branches [OF assms] wf_channel.merge_again by blast

definition demo_branch :: "string \<Rightarrow> string \<Rightarrow> branch_state" where
  "demo_branch t status = \<lparr>bw_workflow_id = ''r1:artifact:1:'' @ t, bw_generation_id = ''r1:artifact:1'',
     bw_artifact_id = t, bw_artifact_type = t, bw_status = status, bw_error_class = [], bw_error_summary = []\<rparr>"

lemma branch_order_irrelevant_witness:
  "foldl stable_merge_workflow_states [demo_branch ''lesson'' ''passed'']
      [[demo_branch ''quiz'' ''passed''], [demo_branch ''drill'' ''failed'']]
   = foldl stable_merge_workflow_states [demo_branch ''lesson'' ''passed'']
      [[demo_branch ''drill'' ''failed''], [demo_branch ''quiz'' ''passed'']]"
proof -
  have "distinct (map workflow_state_id (concat [[demo_branch ''quiz'' ''passed''], [demo_branch ''drill'' ''failed'']]))"
    by (simp add: demo_branch_def workflow_state_id_def)
  moreover have "mset [[demo_branch ''quiz'' ''passed''], [demo_branch ''drill'' ''failed'']]
      = mset [[demo_branch ''drill'' ''failed''], [demo_branch ''quiz'' ''passed'']]" by simp
  ultimately show ?thesis by (rule conjunct1 [OF branch_order_irrelevant])
qed

end
