(* ===== verification/Fanout.thy ===== *)
theory Fanout
  imports Dependency_Plan Artifact_Channels Stages
begin

text \<open>
  The artifact fan-out of the teaching-pack graph: the coordinator and its router
  (\<open>packages/agents/teaching_pack/artifact_fanout.py\<close>), scoped rejections
  (\<open>scoped_regeneration.py\<close>), and what a generation branch writes back
  (\<open>generate_one_artifact.py\<close>, whose content generation is a parameter). The graph state keeps the
  keys the control flow reads; a key that is missing is \<open>None\<close>, or the default its readers give it.
\<close>

section \<open>Graph state\<close>

record gate_payload =
  gp_action :: string
  gp_rejection_type :: string
  gp_rejections :: "(string \<times> string) list option"
  gp_section_edit :: bool

record pack_state =
  pk_run_id :: string
  pk_artifact_types :: "string list option"
  pk_contract_types :: "string list option"
  pk_generation_id :: "string option"
  pk_generation_revision :: "int option"
  pk_wave_index :: "int option"
  pk_fanout_complete :: bool
  pk_fanout_blocked :: bool
  pk_scope :: "string list option"
  pk_references :: "artifact_reference list"
  pk_workflow_states :: "branch_state list"
  pk_recovery_route :: "string option"
  pk_gate_payload :: gate_payload
  pk_completed_stages :: "stage list"

section \<open>Scoped rejections\<close>

definition rejects_scoped :: "gate_payload \<Rightarrow> bool" where
  "rejects_scoped p \<longleftrightarrow> gp_rejection_type p = ''scoped'' \<or> gp_action p = ''reject_selected''"

definition scoped_rejections ::
  "artifact_reference list \<Rightarrow> gate_payload \<Rightarrow> (string \<times> string \<times> string) list" where
  "scoped_rejections artifacts p =
     (if \<not> rejects_scoped p then []
      else case gp_rejections p of
          None \<Rightarrow> []
        | Some raws \<Rightarrow>
            List.map_filter (\<lambda>(artifact_id, reason).
                case view ar_artifact_id artifacts artifact_id of
                  None \<Rightarrow> None
                | Some a \<Rightarrow> Some (artifact_id, ar_artifact_type a, reason))
              raws)"

definition rejected_artifact_types :: "artifact_reference list \<Rightarrow> gate_payload \<Rightarrow> string list" where
  "rejected_artifact_types artifacts p =
     append_new [] (map (\<lambda>(artifact_id, artifact_type, reason). artifact_type) (scoped_rejections artifacts p))"

section \<open>What is requested\<close>

definition non_empty :: "'a list option \<Rightarrow> 'a list option" where
  "non_empty xs = (case xs of Some (y # ys) \<Rightarrow> Some (y # ys) | _ \<Rightarrow> None)"

definition all_requested_types :: "pack_state \<Rightarrow> string list" where
  "all_requested_types st =
     (case non_empty (pk_artifact_types st) of
        Some values \<Rightarrow> values
      | None \<Rightarrow>
          (case non_empty (pk_contract_types st) of
             Some values \<Rightarrow> values
           | None \<Rightarrow> [''lesson'', ''worksheet'', ''quiz'', ''drill'', ''slide_deck'']))"

definition recorded_scope_types :: "pack_state \<Rightarrow> string list" where
  "recorded_scope_types st = the_default [] (pk_scope st)"

definition rejected_generation_types :: "pack_state \<Rightarrow> string list" where
  "rejected_generation_types st =
     (let rejected = rejected_artifact_types (pk_references st) (pk_gate_payload st)
      in if rejected = [] then []
         else with_dependents rejected (all_requested_types st) DEFAULT_DEPENDENCIES)"

definition scoped_generation_types :: "pack_state \<Rightarrow> string list" where
  "scoped_generation_types st =
     (if recorded_scope_types st \<noteq> [] then recorded_scope_types st else rejected_generation_types st)"

definition requested_types :: "pack_state \<Rightarrow> string list" where
  "requested_types st =
     (if scoped_generation_types st \<noteq> [] then scoped_generation_types st else all_requested_types st)"

definition needs_new_generation_cycle :: "pack_state \<Rightarrow> bool" where
  "needs_new_generation_cycle st \<longleftrightarrow>
     pk_fanout_complete st
     \<and> (rejected_generation_types st \<noteq> [] \<or> pk_recovery_route st = Some ''artifact_workflow'')"

section \<open>Generations and waves\<close>

definition generation_revision :: "pack_state \<Rightarrow> int" where
  "generation_revision st = (case pk_generation_revision st of Some v \<Rightarrow> if 0 < v then v else 1 | None \<Rightarrow> 1)"

definition next_generation_revision :: "pack_state \<Rightarrow> int" where
  "next_generation_revision st =
     (if needs_new_generation_cycle st then generation_revision st + 1 else generation_revision st)"

definition generation_id :: "pack_state \<Rightarrow> int \<Rightarrow> string" where
  "generation_id st revision =
     (let expected = pk_run_id st @ '':artifact:'' @ show_int revision
      in case pk_generation_id st of
           Some existing \<Rightarrow> if existing \<noteq> [] \<and> revision = generation_revision st then existing else expected
         | None \<Rightarrow> expected)"

definition wave_at :: "string list \<Rightarrow> nat \<Rightarrow> string list" where
  "wave_at requested i =
     (if length DEFAULT_WAVES \<le> i then [] else filter (\<lambda>t. t \<in> set requested) (DEFAULT_WAVES ! i))"

definition first_wave_from :: "string list \<Rightarrow> nat \<Rightarrow> nat option" where
  "first_wave_from requested i = List.find (\<lambda>j. wave_at requested j \<noteq> []) [i..<length DEFAULT_WAVES]"

definition next_wave_index :: "string list \<Rightarrow> nat \<Rightarrow> nat option" where
  "next_wave_index requested i = first_wave_from requested (Suc i)"

definition current_wave_index :: "pack_state \<Rightarrow> nat" where
  "current_wave_index st =
     (let first = first_wave_from (requested_types st) 0;
          stored = (case pk_wave_index st of
              Some v \<Rightarrow> if 0 \<le> v then nat v else the_default 0 first
            | None \<Rightarrow> the_default 0 first)
      in if needs_new_generation_cycle st then the_default stored first else stored)"

definition completed_types :: "branch_state list \<Rightarrow> string list" where
  "completed_types states =
     map bw_artifact_type (filter (\<lambda>s. bw_status s \<in> {''passed'', ''failed'', ''skipped''}) states)"

definition failed_types :: "branch_state list \<Rightarrow> string list" where
  "failed_types states = map bw_artifact_type (filter (\<lambda>s. bw_status s = ''failed'') states)"

definition skipped_dependents ::
  "string \<Rightarrow> string list \<Rightarrow> string list \<Rightarrow> dependencies \<Rightarrow> branch_state list" where
  "skipped_dependents gen requested failed deps =
     List.map_filter (\<lambda>t.
         if list_ex (\<lambda>d. d \<in> set failed) (requires deps t)
         then Some \<lparr>bw_workflow_id = gen @ '':'' @ t, bw_generation_id = gen, bw_artifact_id = t,
                    bw_artifact_type = t, bw_status = ''skipped'', bw_error_class = [],
                    bw_error_summary = ''required dependency failed''\<rparr>
         else None)
       requested"

section \<open>Coordinator and router\<close>

text \<open>
  The coordinator returns an update, which its stage node lays over a copy of the state: the model
  returns that copy.
\<close>

definition coordinate_artifact_fanout :: "pack_state \<Rightarrow> pack_state" where
  "coordinate_artifact_fanout st =
     (let revision = next_generation_revision st;
          gen = generation_id st revision;
          requested = requested_types st;
          index = current_wave_index st;
          scoped = scoped_generation_types st;
          states = current_generation_workflow_states (pk_workflow_states st) gen;
          current = current_generation_artifact_references (pk_references st) gen;
          preserved = (if scoped = [] then []
            else filter (\<lambda>r. ar_artifact_type r \<notin> set scoped) (pk_references st));
          update = st\<lparr>pk_generation_id := Some gen, pk_generation_revision := Some revision,
            pk_wave_index := Some (int index), pk_fanout_complete := False,
            pk_references := preserved @ current,
            pk_scope := (if scoped = [] then pk_scope st else Some scoped)\<rparr>;
          wave = wave_at requested index
      in if wave = [] then update\<lparr>pk_fanout_complete := True\<rparr>
         else if \<not> set wave \<subseteq> set (completed_types states) then update
         else let skipped = skipped_dependents gen requested (failed_types states) DEFAULT_DEPENDENCIES
              in if skipped \<noteq> []
                 then update\<lparr>pk_fanout_complete := True, pk_fanout_blocked := True, pk_workflow_states := skipped\<rparr>
                 else case next_wave_index requested index of
                     None \<Rightarrow> update\<lparr>pk_fanout_complete := True\<rparr>
                   | Some next_index \<Rightarrow> update\<lparr>pk_wave_index := Some (int next_index)\<rparr>)"

datatype fanout_route = To_Render_Quality | Send_All "(string \<times> string) list"

definition route_after_artifact_workflow :: "nat \<Rightarrow> pack_state \<Rightarrow> fanout_route" where
  "route_after_artifact_workflow parallelism_cap st =
     (if pk_fanout_complete st then To_Render_Quality
      else let gen = generation_id st (generation_revision st);
               wave = wave_at (requested_types st) (current_wave_index st);
               states = current_generation_workflow_states (pk_workflow_states st) gen;
               sends = take parallelism_cap
                 (map (Pair gen) (filter (\<lambda>t. t \<notin> set (completed_types states)) wave))
           in if wave = [] \<or> sends = [] then To_Render_Quality else Send_All sends)"

section \<open>Branches and checkpoints\<close>

text \<open>
  What generating one artifact comes to: its identity and title once it is stored, or the error that
  stopped it.
\<close>

datatype generation_outcome = Generated string string | Generation_Failed string string

definition branch_update :: "(string \<times> string) \<Rightarrow> generation_outcome \<Rightarrow> artifact_reference list \<times> branch_state list" where
  "branch_update payload outcome =
     (let (gen, t) = payload;
          state = (\<lambda>status artifact_id error_class summary.
            \<lparr>bw_workflow_id = gen @ '':'' @ t, bw_generation_id = gen, bw_artifact_id = artifact_id,
             bw_artifact_type = t, bw_status = status, bw_error_class = error_class,
             bw_error_summary = take 240 summary\<rparr>)
      in case outcome of
           Generated artifact_id title \<Rightarrow>
             ([\<lparr>ar_document_id = gen @ '':'' @ artifact_id, ar_artifact_id = artifact_id, ar_artifact_type = t,
                ar_generation_id = gen, ar_version = 1, ar_title = title\<rparr>],
              [state ''passed'' (if artifact_id = [] then t else artifact_id) [] []])
         | Generation_Failed error_class summary \<Rightarrow> ([], [state ''failed'' t error_class summary]))"

text \<open>A write of a whole state: the two annotated channels go through their reducers.\<close>

definition checkpoint :: "pack_state \<Rightarrow> pack_state \<Rightarrow> pack_state" where
  "checkpoint prev new =
     new\<lparr>pk_references := stable_merge_artifact_references (pk_references prev) (pk_references new),
         pk_workflow_states := stable_merge_workflow_states (pk_workflow_states prev) (pk_workflow_states new)\<rparr>"

definition write_branch ::
  "(string \<times> string \<Rightarrow> generation_outcome) \<Rightarrow> string \<times> string \<Rightarrow> pack_state \<Rightarrow> pack_state" where
  "write_branch generate payload st =
     (let (references, states) = branch_update payload (generate payload)
      in st\<lparr>pk_references := stable_merge_artifact_references (pk_references st) references,
            pk_workflow_states := stable_merge_workflow_states (pk_workflow_states st) states\<rparr>)"

text \<open>
  The loop of the graph between the coordinator and its branches, with the payloads sent so far: the
  fuel bounds the number of rounds, and \<open>None\<close> means that it was used up.
\<close>

fun fanout_loop ::
  "nat \<Rightarrow> nat \<Rightarrow> (string \<times> string \<Rightarrow> generation_outcome) \<Rightarrow> pack_state \<Rightarrow> (string \<times> string) list list
   \<Rightarrow> (pack_state \<times> (string \<times> string) list list) option" where
  "fanout_loop 0 cap generate st sent = None"
| "fanout_loop (Suc fuel) cap generate st sent =
     (let st' = checkpoint st (coordinate_artifact_fanout st)
      in case route_after_artifact_workflow cap st' of
           To_Render_Quality \<Rightarrow> Some (st', sent)
         | Send_All payloads \<Rightarrow>
             fanout_loop fuel cap generate (fold (write_branch generate) payloads st') (sent @ [payloads]))"

end
