(* ===== verification/Circuit_Breaker.thy ===== *)
theory Circuit_Breaker
  imports Prelude
begin

text \<open>
  Circuit breakers (\<open>packages/agents/healing/circuit_breaker.py\<close>, the key lifetimes of
  \<open>redis_breaker_store.py\<close>, and the breaker of one process in \<open>packages/llm_client/circuit_breaker.py\<close>).
  Times are instants in microseconds where the code has floating seconds; a breaker's scope is its
  key in the store.
\<close>

section \<open>Stored state\<close>

record breaker_state =
  bs_failures :: int
  bs_state :: string
  bs_last_failure_time :: instant

definition fresh_breaker :: breaker_state where
  "fresh_breaker = \<lparr>bs_failures = 0, bs_state = ''closed'', bs_last_failure_time = 0\<rparr>"

datatype breaker_value = BV_Int int | BV_Str string | BV_Time instant

definition breaker_as_mapping :: "breaker_state \<Rightarrow> (string \<times> breaker_value) list" where
  "breaker_as_mapping b =
     [(''failures'', BV_Int (bs_failures b)), (''state'', BV_Str (bs_state b)),
      (''last_failure_time'', BV_Time (bs_last_failure_time b))]"

text \<open>
  \<open>int\<close>, \<open>str\<close> and \<open>float\<close> of what a store hands back: the values themselves, or, from Redis, their
  texts; \<open>time_of_text\<close> and \<open>text_of_time\<close> are \<open>float\<close> and \<open>str\<close> on times.
\<close>

definition breaker_int :: "breaker_value \<Rightarrow> int result" where
  "breaker_int v = (case v of
       BV_Int i \<Rightarrow> Inr i
     | BV_Str s \<Rightarrow> (case int_of_text s of None \<Rightarrow> Inl (ValueError s) | Some i \<Rightarrow> Inr i)
     | BV_Time t \<Rightarrow> Inr (t div 1000000))"

definition breaker_text :: "(instant \<Rightarrow> string) \<Rightarrow> breaker_value \<Rightarrow> string" where
  "breaker_text text_of_time v =
     (case v of BV_Int i \<Rightarrow> show_int i | BV_Str s \<Rightarrow> s | BV_Time t \<Rightarrow> text_of_time t)"

definition breaker_time :: "(string \<Rightarrow> instant option) \<Rightarrow> breaker_value \<Rightarrow> instant result" where
  "breaker_time time_of_text v = (case v of
       BV_Int i \<Rightarrow> Inr (seconds i)
     | BV_Str s \<Rightarrow> (case time_of_text s of None \<Rightarrow> Inl (ValueError s) | Some t \<Rightarrow> Inr t)
     | BV_Time t \<Rightarrow> Inr t)"

definition breaker_from_mapping ::
  "(string \<Rightarrow> instant option) \<Rightarrow> (instant \<Rightarrow> string) \<Rightarrow> (string \<times> breaker_value) list option
   \<Rightarrow> breaker_state result" where
  "breaker_from_mapping time_of_text text_of_time value =
     (case value of
        None \<Rightarrow> Inr fresh_breaker
      | Some d \<Rightarrow>
          ebind (breaker_int (the_default (BV_Int 0) (map_of d ''failures''))) (\<lambda>n.
          ebind (breaker_time time_of_text (the_default (BV_Time 0) (map_of d ''last_failure_time''))) (\<lambda>t.
          Inr \<lparr>bs_failures = n,
               bs_state = breaker_text text_of_time (the_default (BV_Str ''closed'') (map_of d ''state'')),
               bs_last_failure_time = t\<rparr>)))"

section \<open>Stores\<close>

text \<open>
  The in-memory store ignores the lifetime it is given, Redis forgets a key when it is over, the null
  store forgets at once. A store that cannot be reached raises \<open>ConnectionError\<close> or \<open>OSError\<close>, which
  the breaker swallows.
\<close>

datatype store_kind = STORE_MEMORY | STORE_REDIS | STORE_NULL

record breaker_store =
  bst_kind :: store_kind
  bst_reachable :: bool
  bst_values :: "string \<Rightarrow> (breaker_state \<times> instant) option"

definition redis_lifetime :: "instant \<Rightarrow> instant" where
  "redis_lifetime ttl = seconds (max 1 (ttl div 1000000))"

definition store_get :: "instant \<Rightarrow> string \<Rightarrow> breaker_store \<Rightarrow> breaker_state option" where
  "store_get now key st =
     (case bst_kind st of
        STORE_NULL \<Rightarrow> None
      | STORE_MEMORY \<Rightarrow> map_option fst (bst_values st key)
      | STORE_REDIS \<Rightarrow>
          (case bst_values st key of
             None \<Rightarrow> None
           | Some (b, expiry) \<Rightarrow> if expiry \<le> now then None else Some b))"

definition store_set :: "instant \<Rightarrow> string \<Rightarrow> breaker_state \<Rightarrow> instant \<Rightarrow> breaker_store \<Rightarrow> breaker_store" where
  "store_set now key b ttl st =
     (if bst_kind st = STORE_NULL then st
      else st\<lparr>bst_values := (bst_values st)(key \<mapsto> (b, now + redis_lifetime ttl))\<rparr>)"

section \<open>The layered breaker\<close>

record breaker =
  br_key :: string
  br_threshold :: int
  br_recovery_timeout :: instant

definition load_state :: "instant \<Rightarrow> breaker \<Rightarrow> breaker_store \<Rightarrow> breaker_state" where
  "load_state now br st =
     (if \<not> bst_reachable st then fresh_breaker
      else the_default fresh_breaker (store_get now (br_key br) st))"

definition save_state :: "instant \<Rightarrow> breaker \<Rightarrow> breaker_state \<Rightarrow> breaker_store \<Rightarrow> breaker_store" where
  "save_state now br b st =
     (if \<not> bst_reachable st then st else store_set now (br_key br) b (br_recovery_timeout br) st)"

definition breaker_blocks :: "instant \<Rightarrow> breaker \<Rightarrow> breaker_state \<Rightarrow> breaker_store \<Rightarrow> bool \<times> breaker_store" where
  "breaker_blocks now br b st =
     (if bs_state b \<noteq> ''open'' then (False, st)
      else if br_recovery_timeout br < now - bs_last_failure_time b
      then (False, save_state now br (b\<lparr>bs_state := ''half-open''\<rparr>) st)
      else (True, st))"

definition breaker_is_open :: "instant \<Rightarrow> breaker \<Rightarrow> breaker_store \<Rightarrow> bool \<times> breaker_store" where
  "breaker_is_open now br st = breaker_blocks now br (load_state now br st) st"

definition breaker_exhausted :: "instant \<Rightarrow> breaker \<Rightarrow> breaker_store \<Rightarrow> bool" where
  "breaker_exhausted now br st =
     (let b = load_state now br st in bs_state b = ''open'' \<and> br_threshold br \<le> bs_failures b)"

definition record_success :: "instant \<Rightarrow> breaker \<Rightarrow> breaker_store \<Rightarrow> breaker_store" where
  "record_success now br st = save_state now br fresh_breaker st"

text \<open>Whether the failure trips the breaker, which is announced as a run event, and the new store.\<close>

definition record_failure :: "instant \<Rightarrow> breaker \<Rightarrow> breaker_store \<Rightarrow> bool \<times> breaker_store" where
  "record_failure now br st =
     (let b = load_state now br st;
          failures = bs_failures b + 1;
          next_state = (if br_threshold br \<le> failures then ''open'' else ''closed'')
      in (bs_state b \<noteq> ''open'' \<and> next_state = ''open'',
          save_state now br \<lparr>bs_failures = failures, bs_state = next_state, bs_last_failure_time = now\<rparr> st))"

datatype 'a breaker_outcome = Circuit_Open | Call_Failed string | Call_Returned 'a

definition breaker_call ::
  "instant \<Rightarrow> breaker \<Rightarrow> (string + 'a) \<Rightarrow> breaker_store \<Rightarrow> 'a breaker_outcome \<times> breaker_store" where
  "breaker_call now br fn st =
     (let (blocked, st') = breaker_blocks now br (load_state now br st) st
      in if blocked then (Circuit_Open, st')
         else case fn of
             Inl e \<Rightarrow> (Call_Failed e, snd (record_failure now br st'))
           | Inr x \<Rightarrow> (Call_Returned x, record_success now br st'))"

section \<open>The breaker of one process\<close>

datatype circuit_state = CLOSED | OPEN | HALF_OPEN

record local_breaker =
  lb_failure_threshold :: int
  lb_recovery_seconds :: instant
  lb_failures :: int
  lb_state :: circuit_state
  lb_opened_at :: "instant option"

definition local_breaker_new :: "int \<Rightarrow> instant \<Rightarrow> local_breaker" where
  "local_breaker_new n t = \<lparr>lb_failure_threshold = n, lb_recovery_seconds = t, lb_failures = 0,
     lb_state = CLOSED, lb_opened_at = None\<rparr>"

definition local_record_success :: "local_breaker \<Rightarrow> local_breaker" where
  "local_record_success b = b\<lparr>lb_failures := 0, lb_state := CLOSED, lb_opened_at := None\<rparr>"

definition local_record_failure :: "instant \<Rightarrow> local_breaker \<Rightarrow> local_breaker" where
  "local_record_failure now b =
     (let b' = b\<lparr>lb_failures := lb_failures b + 1\<rparr>
      in if lb_state b' = CLOSED \<and> lb_failure_threshold b' \<le> lb_failures b'
         then b'\<lparr>lb_state := OPEN, lb_opened_at := Some now\<rparr> else b')"

definition local_is_open :: "instant \<Rightarrow> local_breaker \<Rightarrow> bool \<times> local_breaker" where
  "local_is_open now b =
     (if lb_state b = CLOSED then (False, b)
      else if lb_state b = HALF_OPEN then (False, b)
      else if (case lb_opened_at b of None \<Rightarrow> False | Some t \<Rightarrow> lb_recovery_seconds b \<le> now - t)
      then (False, b\<lparr>lb_state := HALF_OPEN\<rparr>)
      else (True, b))"

section \<open>Round trip through a store\<close>

text \<open>
  A stored breaker state is read back unchanged, from the mapping itself
  and from the texts Redis returns for its values, as long as the text of a time denotes it.
\<close>
lemma breaker_mapping_roundtrip:
  assumes "\<And>t. time_of_text (text_of_time t) = Some t"
  shows "breaker_from_mapping time_of_text text_of_time (Some (breaker_as_mapping b)) = Inr b
    \<and> breaker_from_mapping time_of_text text_of_time
        (Some (map (\<lambda>(k, v). (k, BV_Str (breaker_text text_of_time v))) (breaker_as_mapping b))) = Inr b"
  using assms int_of_text_show_int [of "bs_failures b"]
  by (simp add: breaker_from_mapping_def breaker_as_mapping_def breaker_int_def breaker_time_def breaker_text_def)

lemma breaker_mapping_roundtrip_witness:
  "breaker_from_mapping int_of_text show_int
     (Some (map (\<lambda>(k, v). (k, BV_Str (breaker_text show_int v)))
        (breaker_as_mapping \<lparr>bs_failures = 3, bs_state = ''open'', bs_last_failure_time = 12\<rparr>)))
   = Inr \<lparr>bs_failures = 3, bs_state = ''open'', bs_last_failure_time = 12\<rparr>"
  using breaker_mapping_roundtrip [OF int_of_text_show_int] by blast

section \<open>Opening and probing\<close>

lemma load_save:
  assumes "bst_reachable st" and "bst_kind st = STORE_MEMORY"
  shows "load_state now' br (save_state now br b st) = b"
  using assms by (simp add: load_state_def save_state_def store_get_def store_set_def)

lemma save_keeps:
  "bst_reachable (save_state now br b st) = bst_reachable st"
  "bst_kind (save_state now br b st) = bst_kind st"
  by (simp_all add: save_state_def store_set_def)

text \<open>
  A breaker that keeps its state in memory refuses every call for the whole
  recovery time after the last failure; the first call after it goes through, and its outcome
  decides: a failure reopens the breaker for another recovery time, a success closes it.
\<close>
lemma open_breaker_protocol:
  assumes "bst_reachable st" and "bst_kind st = STORE_MEMORY"
    and "load_state now br st = b" and "bs_state b = ''open''" and "br_threshold br \<le> bs_failures b"
  shows "if now - bs_last_failure_time b \<le> br_recovery_timeout br then breaker_call now br fn st = (Circuit_Open, st)
    else (case fn of
        Inl e \<Rightarrow> fst (breaker_call now br fn st) = Call_Failed e
          \<and> (\<forall>now'. now' - now \<le> br_recovery_timeout br \<longrightarrow>
               fst (breaker_is_open now' br (snd (breaker_call now br fn st))))
      | Inr x \<Rightarrow> fst (breaker_call now br fn st) = Call_Returned x
          \<and> (\<forall>now'. load_state now' br (snd (breaker_call now br fn st)) = fresh_breaker))"
proof (cases "now - bs_last_failure_time b \<le> br_recovery_timeout br")
  case True
  then show ?thesis using assms(3,4) by (simp add: breaker_call_def breaker_blocks_def)
next
  case False
  define st1 where "st1 = save_state now br (b\<lparr>bs_state := ''half-open''\<rparr>) st"
  have st1: "bst_reachable st1" "bst_kind st1 = STORE_MEMORY"
    using assms(1,2) by (simp_all add: st1_def save_keeps)
  have loaded: "load_state now br st1 = b\<lparr>bs_state := ''half-open''\<rparr>"
    unfolding st1_def by (rule load_save [OF assms(1,2)])
  have call: "breaker_call now br fn st = (case fn of
      Inl e \<Rightarrow> (Call_Failed e, snd (record_failure now br st1))
    | Inr x \<Rightarrow> (Call_Returned x, record_success now br st1))"
    unfolding st1_def using False assms(3,4) by (simp add: breaker_call_def breaker_blocks_def split: sum.split)
  show ?thesis
  proof (cases fn)
    case (Inl e)
    have "snd (record_failure now br st1) =
        save_state now br \<lparr>bs_failures = bs_failures b + 1, bs_state = ''open'', bs_last_failure_time = now\<rparr> st1"
      using assms(5) by (simp add: record_failure_def Let_def loaded)
    then show ?thesis
      using False Inl by (simp add: call [unfolded Inl] breaker_is_open_def load_save [OF st1] breaker_blocks_def)
  next
    case (Inr x)
    then show ?thesis using False by (simp add: call [unfolded Inr] record_success_def load_save [OF st1])
  qed
qed

definition demo_breaker :: breaker where
  "demo_breaker = \<lparr>br_key = ''cb:run:r1'', br_threshold = 3, br_recovery_timeout = seconds 60\<rparr>"

definition demo_store :: "store_kind \<Rightarrow> breaker_store" where
  "demo_store k = \<lparr>bst_kind = k, bst_reachable = True,
     bst_values = [''cb:run:r1'' \<mapsto> (\<lparr>bs_failures = 3, bs_state = ''open'', bs_last_failure_time = seconds 100\<rparr>, seconds 160)]\<rparr>"

lemma open_breaker_protocol_witness:
  "breaker_call (seconds 130) demo_breaker (Inr ''ok'') (demo_store STORE_MEMORY) = (Circuit_Open, demo_store STORE_MEMORY)
   \<and> fst (breaker_call (seconds 200) demo_breaker (Inr ''ok'') (demo_store STORE_MEMORY)) = Call_Returned ''ok''"
proof -
  let ?b = "\<lparr>bs_failures = 3, bs_state = ''open'', bs_last_failure_time = seconds 100\<rparr>"
  have st: "bst_reachable (demo_store STORE_MEMORY)" "bst_kind (demo_store STORE_MEMORY) = STORE_MEMORY"
    "load_state now demo_breaker (demo_store STORE_MEMORY) = ?b" for now
    by (simp_all add: demo_store_def demo_breaker_def load_state_def store_get_def)
  have "br_threshold demo_breaker \<le> bs_failures ?b" and "br_recovery_timeout demo_breaker = seconds 60"
    by (simp_all add: demo_breaker_def)
  with open_breaker_protocol [OF st(1,2) st(3) _ this(1), of "seconds 130" "Inr ''ok''"]
    open_breaker_protocol [OF st(1,2) st(3) _ this(1), of "seconds 200" "Inr ''ok''"]
  show ?thesis by (simp add: seconds_def)
qed

text \<open>
  With Redis the state of a tripped breaker is forgotten no later than its
  recovery time is over, so there is no half-open probe: a failing call after the recovery time
  counts as the first failure of a closed breaker, which stays closed until the threshold is
  reached anew.
\<close>
lemma redis_breaker_forgets:
  assumes "bst_reachable st" and "bst_kind st = STORE_REDIS" and "1 < br_threshold br"
    and "seconds 1 \<le> br_recovery_timeout br" and "record_failure t0 br st = (True, st1)"
    and "br_recovery_timeout br < now - t0"
  shows "breaker_call now br (Inl e) st1 = (Call_Failed e, snd (record_failure now br st1))
    \<and> load_state now br (snd (record_failure now br st1)) =
        \<lparr>bs_failures = 1, bs_state = ''closed'', bs_last_failure_time = now\<rparr>"
proof -
  let ?life = "redis_lifetime (br_recovery_timeout br)"
  have life: "?life \<le> br_recovery_timeout br" "0 < ?life"
    using assms(4) by (auto simp: redis_lifetime_def seconds_def max_def)
  obtain b where st1: "st1 = save_state t0 br b st"
    using assms(5) by (auto simp: record_failure_def Let_def)
  then have fresh: "load_state now br st1 = fresh_breaker"
    using assms(1,2,6) life by (simp add: load_state_def save_state_def store_get_def store_set_def)
  have keep: "bst_reachable st1" "bst_kind st1 = STORE_REDIS" using assms(1,2) by (simp_all add: st1 save_keeps)
  have "breaker_call now br (Inl e) st1 = (Call_Failed e, snd (record_failure now br st1))"
    by (simp add: breaker_call_def breaker_blocks_def fresh) (simp add: fresh_breaker_def)
  moreover have "snd (record_failure now br st1) =
      save_state now br \<lparr>bs_failures = 1, bs_state = ''closed'', bs_last_failure_time = now\<rparr> st1"
    using assms(3) by (simp add: record_failure_def Let_def fresh) (simp add: fresh_breaker_def)
  moreover have "load_state now br (save_state now br b' st1) = b'" for b'
    using keep life(2) by (simp add: load_state_def save_state_def store_get_def store_set_def)
  ultimately show ?thesis by simp
qed

lemma redis_breaker_forgets_witness:
  "\<exists>st. record_failure 0 demo_breaker
       (demo_store STORE_REDIS\<lparr>bst_values := [''cb:run:r1'' \<mapsto> (\<lparr>bs_failures = 2, bs_state = ''closed'',
          bs_last_failure_time = 0\<rparr>, seconds 60)]\<rparr>) = (True, st)
     \<and> fst (breaker_call (seconds 61) demo_breaker (Inl ''timeout'' :: string + nat) st) = Call_Failed ''timeout''
     \<and> bs_state (load_state (seconds 61) demo_breaker (snd (record_failure (seconds 61) demo_breaker st))) = ''closed''"
proof -
  let ?st = "demo_store STORE_REDIS\<lparr>bst_values := [''cb:run:r1'' \<mapsto> (\<lparr>bs_failures = 2, bs_state = ''closed'',
          bs_last_failure_time = 0\<rparr>, seconds 60)]\<rparr>"
  obtain st where trip: "record_failure 0 demo_breaker ?st = (True, st)"
    by (simp add: record_failure_def Let_def load_state_def store_get_def demo_store_def demo_breaker_def seconds_def)
  have "bst_reachable ?st" "bst_kind ?st = STORE_REDIS" "1 < br_threshold demo_breaker"
    "seconds 1 \<le> br_recovery_timeout demo_breaker" "br_recovery_timeout demo_breaker < seconds 61 - 0"
    by (simp_all add: demo_store_def demo_breaker_def seconds_def)
  from redis_breaker_forgets [OF this(1-4) trip this(5), of "''timeout''", where ?'a = nat]
  have "fst (breaker_call (seconds 61) demo_breaker (Inl ''timeout'' :: string + nat) st) = Call_Failed ''timeout''"
    and "bs_state (load_state (seconds 61) demo_breaker (snd (record_failure (seconds 61) demo_breaker st))) = ''closed''"
    by simp_all
  with trip show ?thesis by blast
qed

section \<open>The local breaker\<close>

datatype local_event = Local_Failure instant | Local_Check instant

fun local_step :: "local_event \<Rightarrow> local_breaker \<Rightarrow> local_breaker" where
  "local_step (Local_Failure now) b = local_record_failure now b"
| "local_step (Local_Check now) b = snd (local_is_open now b)"

text \<open>
  Once the breaker of one process has become half open, no number of
  further failures opens it again: it lets every call through until one succeeds.
\<close>
lemma local_half_open_never_reopens:
  assumes "lb_state b = HALF_OPEN"
  shows "lb_state (fold local_step es b) = HALF_OPEN \<and> \<not> fst (local_is_open now (fold local_step es b))"
proof -
  have "lb_state (fold local_step es b) = HALF_OPEN" using assms
  proof (induction es arbitrary: b)
    case Nil
    then show ?case by simp
  next
    case (Cons e es)
    have "lb_state (local_step e b) = HALF_OPEN"
      using Cons.prems by (cases e) (simp_all add: local_record_failure_def local_is_open_def Let_def)
    then show ?case using Cons.IH by simp
  qed
  then show ?thesis by (simp add: local_is_open_def)
qed

lemma local_half_open_never_reopens_witness:
  "let b = snd (local_is_open 10 (local_record_failure 0 (local_breaker_new 1 5)))
   in lb_state b = HALF_OPEN \<and> \<not> fst (local_is_open 99 (fold local_step [Local_Failure 11, Local_Failure 12, Local_Failure 13] b))"
proof -
  define b where "b = snd (local_is_open 10 (local_record_failure 0 (local_breaker_new 1 5)))"
  have "lb_state b = HALF_OPEN"
    by (simp add: b_def local_breaker_new_def local_record_failure_def local_is_open_def Let_def)
  with local_half_open_never_reopens [OF this] show ?thesis unfolding b_def [symmetric] Let_def by blast
qed

end
