(* ===== verification/Healing.thy ===== *)
theory Healing
  imports Circuit_Breaker "HOL-Library.List_Lexorder" "HOL-Library.Char_ord"
begin

text \<open>
  Healing of quality failures: the strategies (\<open>packages/agents/healing/strategies\<close>), the orchestrator
  that selects one (\<open>orchestrator.py\<close>) and its use by the quality stage
  (\<open>packages/agents/teaching_pack/healing_runtime.py\<close>). A state is a JSON object, as in the code.
  \<open>py_str\<close> is Python's \<open>str\<close> of a list or dict, \<open>backoff_text\<close> the delay of a retry written with one
  decimal; sleeping for that delay is not modelled.
\<close>

section \<open>Reading a state\<close>

definition get_or :: "json_object \<Rightarrow> string \<Rightarrow> json \<Rightarrow> json" where
  "get_or d k v = the_default v (map_of d k)"

fun json_objects :: "json \<Rightarrow> json_object list" where
  "json_objects (JList xs) = List.map_filter (\<lambda>x. case x of JObj kvs \<Rightarrow> Some kvs | _ \<Rightarrow> None) xs"
| "json_objects _ = []"

fun json_object :: "json \<Rightarrow> json_object" where
  "json_object (JObj kvs) = kvs"
| "json_object _ = []"

fun string_value :: "json \<Rightarrow> string option" where
  "string_value (JStr s) = (if s = [] then None else Some s)"
| "string_value _ = None"

fun int_plus_one :: "json \<Rightarrow> int result" where
  "int_plus_one (JInt i) = Inr (i + 1)"
| "int_plus_one (JBool b) = Inr (if b then 2 else 1)"
| "int_plus_one _ = Inl (TypeError ''+'')"

fun json_elements :: "json \<Rightarrow> json list" where
  "json_elements (JList xs) = xs"
| "json_elements _ = []"

section \<open>Strategies\<close>

definition escalate :: "(json \<Rightarrow> string) \<Rightarrow> json_object \<Rightarrow> int \<Rightarrow> json_object" where
  "escalate py_str state fail_count =
     (let fail_layer = json_str py_str (get_or state ''fail_layer'' (JStr ''unknown''));
          errors = get_or (json_object (dict_get state ''fail_context'')) ''errors'' (JList [JStr ''unknown''])
      in [(''fail_count'', JInt fail_count), (''healing_strategy'', JStr ''escalate''), (''escalate'', JBool True),
          (''escalate_reason'',
             JStr (''Auto-escalated after '' @ show_int fail_count @ '' failed healing attempts. Last fail layer: ''
               @ fail_layer @ ''. Last error: '' @ json_str py_str errors)),
          (''error'', JStr (''Escalated: '' @ fail_layer @ '' gate failed '' @ show_int fail_count @ '' times''))])"

definition retry :: "(int \<Rightarrow> string) \<Rightarrow> int \<Rightarrow> json_object" where
  "retry backoff_text fail_count =
     [(''fail_count'', JInt fail_count), (''healing_strategy'', JStr ''retry''),
      (''healing_note'', JStr (''Retrying after '' @ backoff_text fail_count @ ''s backoff (attempt ''
          @ show_int fail_count @ '')''))]"

fun join_with :: "string \<Rightarrow> string list \<Rightarrow> string" where
  "join_with sep [] = []"
| "join_with sep [w] = w"
| "join_with sep (w # ws) = w @ sep @ join_with sep ws"

definition rewrite :: "(json \<Rightarrow> string) \<Rightarrow> json_object \<Rightarrow> int \<Rightarrow> json_object" where
  "rewrite py_str state fail_count =
     (let errors = json_elements (get_or (json_object (dict_get state ''fail_context'')) ''errors'' (JList []));
          summary = join_with ''; '' (map (json_str py_str) (take 3 errors));
          context = AList.update ''rewrite_instruction''
            (JStr (''Previous attempt failed validation. Fix these issues:'' @ CHR 0x0A # summary))
            (json_object (dict_get state ''healing_context''))
      in [(''fail_count'', JInt fail_count), (''healing_strategy'', JStr ''rewrite''),
          (''healing_context'', JObj context), (''artifacts'', JNull)])"

definition DEFAULT_GENERATION_MODEL :: string where
  "DEFAULT_GENERATION_MODEL = ''4omc''"

text \<open>\<open>strong_default\<close> is the attribute of \<open>MODELS\<close>; the arrow of the note is written in ASCII.\<close>

definition reroute :: "string \<Rightarrow> json_object \<Rightarrow> int \<Rightarrow> json_object" where
  "reroute strong_default state fail_count =
     (let current = the_default DEFAULT_GENERATION_MODEL (string_value (dict_get state ''generation_model''));
          strong = (if strong_default = [] then DEFAULT_GENERATION_MODEL else strong_default);
          fallback = (if current \<noteq> strong then strong else current);
          note = (if fallback \<noteq> current then ''Switching model: '' @ current @ '' -> '' @ fallback
            else ''No stronger model configured beyond '' @ current @ ''; holding steady.'')
      in [(''fail_count'', JInt fail_count), (''healing_strategy'', JStr ''reroute''),
          (''generation_model'', JStr fallback), (''healing_note'', JStr note), (''artifacts'', JNull)])"

definition DEPENDENT_TYPES :: "string \<Rightarrow> string list" where
  "DEPENDENT_TYPES t = the_default []
     (map_of [(''lesson'', [''worksheet'', ''quiz'', ''drill'', ''recap'']), (''quiz'', [''recap''])] t)"

definition artifact_id_types :: "json_object \<Rightarrow> (string \<times> string) list" where
  "artifact_id_types state =
     concat (map (\<lambda>key. List.map_filter (\<lambda>item.
          case (string_value (dict_get item ''artifact_id''), string_value (dict_get item ''artifact_type'')) of
            (Some i, Some t) \<Rightarrow> Some (i, t) | _ \<Rightarrow> None)
        (json_objects (dict_get state key)))
      [''artifact_chunks'', ''artifacts'', ''artifact_workflow_states'', ''rendered_snapshots''])"

definition artifact_type_of :: "json_object \<Rightarrow> string \<Rightarrow> string" where
  "artifact_type_of state artifact_id = the_default [] (map_of (artifact_id_types state) artifact_id)"

text \<open>A set of ids is a list; only membership and its sorted listing are read.\<close>

definition clear_artifact_ids :: "json_object \<Rightarrow> string \<Rightarrow> string list" where
  "clear_artifact_ids state failed_id =
     (let failed_type = artifact_type_of state failed_id;
          clear_types = failed_type # DEPENDENT_TYPES failed_type
      in remdups (map fst (filter (\<lambda>(i, t). i = failed_id \<or> t \<in> set clear_types) (artifact_id_types state))))"

definition cleared :: "string list \<Rightarrow> json_object \<Rightarrow> bool" where
  "cleared ids item = (case dict_get item ''artifact_id'' of JStr i \<Rightarrow> i \<in> set ids | _ \<Rightarrow> False)"

definition without_artifacts :: "json \<Rightarrow> string list \<Rightarrow> json" where
  "without_artifacts value ids =
     (let items = json_objects value
      in if items = [] then JNull else JList (map JObj (filter (\<lambda>item. \<not> cleared ids item) items)))"

definition without_quality_reports :: "json \<Rightarrow> string list \<Rightarrow> json" where
  "without_quality_reports value ids =
     (let scores = json_object value; reports = json_objects (dict_get scores ''reports'')
      in if scores = [] then JNull
         else if reports = [] then JObj scores
         else JObj (AList.update ''reports'' (JList (map JObj (filter (\<lambda>r. \<not> cleared ids r) reports))) scores))"

definition full_replan :: "int \<Rightarrow> string \<Rightarrow> json_object" where
  "full_replan fail_count route =
     [(''fail_count'', JInt fail_count), (''healing_strategy'', JStr ''replan''), (''artifact_chunks'', JNull),
      (''artifacts'', JNull), (''artifact_workflow_states'', JNull), (''rendered_snapshots'', JNull),
      (''quality_scores'', JNull), (''quality_issues'', JNull), (''quality_recovery_route'', JStr route),
      (''healing_note'', JStr (''Full regeneration triggered at '' @ route @ '' after 3 failed attempts''))]"

definition scoped_replan :: "json_object \<Rightarrow> int \<Rightarrow> string \<Rightarrow> json_object" where
  "scoped_replan state fail_count failed_id =
     (let ids = clear_artifact_ids state failed_id;
          without = (\<lambda>key. without_artifacts (dict_get state key) ids)
      in [(''fail_count'', JInt fail_count), (''healing_strategy'', JStr ''replan''),
          (''artifact_chunks'', without ''artifact_chunks''), (''artifacts'', without ''artifacts''),
          (''artifact_workflow_states'', without ''artifact_workflow_states''),
          (''rendered_snapshots'', without ''rendered_snapshots''),
          (''quality_scores'', without_quality_reports (dict_get state ''quality_scores'') ids),
          (''quality_issues'', JNull), (''quality_recovery_route'', JStr ''artifact_workflow''),
          (''healing_context'', JObj [(''artifact_ids'', JList (map JStr (sort ids)))]),
          (''healing_note'', JStr (''Scoped regeneration for '' @ failed_id @ '' and downstream dependents''))])"

definition replan :: "json_object \<Rightarrow> int \<Rightarrow> json_object" where
  "replan state fail_count =
     (let context = json_object (dict_get state ''fail_context'');
          stage_value = (if truthy (dict_get context ''stage'') then dict_get context ''stage''
            else dict_get context ''current_stage'')
      in case string_value stage_value of
           Some stage \<Rightarrow>
             if stage \<in> {''planning_blueprint'', ''post_blueprint_research''} then full_replan fail_count stage
             else (case string_value (dict_get context ''artifact_id'') of
                 None \<Rightarrow> full_replan fail_count ''artifact_workflow''
               | Some failed_id \<Rightarrow> scoped_replan state fail_count failed_id)
         | None \<Rightarrow>
             (case string_value (dict_get context ''artifact_id'') of
                 None \<Rightarrow> full_replan fail_count ''artifact_workflow''
               | Some failed_id \<Rightarrow> scoped_replan state fail_count failed_id))"

section \<open>The orchestrator\<close>

record healing_env =
  he_py_str :: "json \<Rightarrow> string"
  he_backoff_text :: "int \<Rightarrow> string"
  he_strong_default :: string
  he_breaker_recovery :: instant
  he_max_healing_attempts :: int
  he_force_escalate :: bool

type_synonym run_events = "(string \<times> json_object) list"

definition run_breaker :: "healing_env \<Rightarrow> json_object \<Rightarrow> int \<Rightarrow> breaker option" where
  "run_breaker env state threshold =
     map_option (\<lambda>run_id. \<lparr>br_key = ''cb:run:'' @ run_id, br_threshold = threshold,
         br_recovery_timeout = he_breaker_recovery env\<rparr>)
       (string_value (dict_get state ''run_id''))"

definition select_strategy :: "healing_env \<Rightarrow> int \<Rightarrow> json_object \<Rightarrow> int \<Rightarrow> json_object" where
  "select_strategy env max_retries state fail_count =
     (let fail_type = get_or state ''fail_type'' (JStr ''validation'')
      in if max_retries < fail_count then escalate (he_py_str env) state fail_count
         else if fail_count = 1 \<and> fail_type = JStr ''transient'' then retry (he_backoff_text env) fail_count
         else if fail_count = 1 \<and> fail_type \<in> {JStr ''validation'', JStr ''score'', JStr ''content''}
         then rewrite (he_py_str env) state fail_count
         else if fail_count = 2 then reroute (he_strong_default env) state fail_count
         else if fail_count = 3 then replan state fail_count
         else escalate (he_py_str env) state fail_count)"

definition healing_events :: "healing_env \<Rightarrow> json_object \<Rightarrow> json_object \<Rightarrow> run_events" where
  "healing_events env state result =
     (let text = json_str (he_py_str env);
          first_of = (\<lambda>vs. the_default (JStr ''Manual review required.'') (List.find truthy vs))
      in case string_value (dict_get state ''run_id'') of
           None \<Rightarrow> []
         | Some run_id \<Rightarrow>
             (''healing_decision'',
               [(''fail_count'', get_or result ''fail_count'' (JInt 0)),
                (''fail_type'', JStr (text (get_or state ''fail_type'' (JStr ''unknown'')))),
                (''fail_layer'', JStr (text (get_or state ''fail_layer'' (JStr ''unknown'')))),
                (''healing_strategy'', JStr (text (get_or result ''healing_strategy'' (JStr ''unknown'')))),
                (''quality_recovery_route'', JStr (text (get_or result ''quality_recovery_route'' (JStr []))))])
             # (if dict_get result ''escalate'' = JBool True
                then [(''escalate'',
                  [(''reason'', JStr (text (first_of [dict_get result ''escalate_reason'', dict_get result ''error'']))),
                   (''healing_strategy'', JStr (text (get_or result ''healing_strategy'' (JStr ''escalate'')))),
                   (''fail_count'', get_or result ''fail_count'' (JInt 0))])]
                else []))"

definition heal ::
  "healing_env \<Rightarrow> instant \<Rightarrow> int \<Rightarrow> json_object \<Rightarrow> breaker_store
   \<Rightarrow> (json_object \<times> run_events) result \<times> breaker_store" where
  "heal env now max_retries state store =
     (case int_plus_one (get_or state ''fail_count'' (JInt 0)) of
        Inl e \<Rightarrow> (Inl e, store)
      | Inr fail_count \<Rightarrow>
          let answer = (\<lambda>result. Inr (result, healing_events env state result))
          in case run_breaker env state (max_retries + 1) of
               None \<Rightarrow> (answer (select_strategy env max_retries state fail_count), store)
             | Some br \<Rightarrow>
                 let store' = snd (record_failure now br store)
                 in if breaker_exhausted now br store'
                    then (answer (escalate (he_py_str env) state fail_count), store')
                    else (answer (select_strategy env max_retries state fail_count), store'))"

definition route_after_healing :: "json_object \<Rightarrow> string" where
  "route_after_healing state =
     (if truthy (dict_get state ''escalate'') then ''escalate_node''
      else if list_ex (\<lambda>a. truthy (dict_get (json_object (dict_get a ''metadata'')) ''placeholder''))
                (json_objects (dict_get state ''artifacts''))
      then ''escalate_node'' else ''step_08_generate'')"

section \<open>Healing in the quality stage\<close>

datatype failure_class =
    SCHEMA_INVALID | PLACEHOLDER_CONTENT | ANSWER_KEY_LEAKAGE | PII_LEAKAGE | EXTERNAL_ASSET | MISSING_DOCTYPE
  | MISSING_ACCESSIBILITY | UNSUPPORTED_COMPONENT | FACTUAL_UNCERTAINTY | PEDAGOGICAL_MISMATCH | EXPORT_NOT_READY

definition max_healing_attempts :: "healing_env \<Rightarrow> json_object \<Rightarrow> int" where
  "max_healing_attempts env state =
     (case dict_get state ''max_healing_attempts'' of
        JInt i \<Rightarrow> if 0 \<le> i then i else he_max_healing_attempts env
      | JBool b \<Rightarrow> if b then 1 else 0
      | _ \<Rightarrow> he_max_healing_attempts env)"

definition fail_type_of :: "failure_class list \<Rightarrow> string" where
  "fail_type_of classes =
     (if SCHEMA_INVALID \<in> set classes then ''validation''
      else if FACTUAL_UNCERTAINTY \<in> set classes then ''content'' else ''score'')"

definition planning_failure :: "failure_class list \<Rightarrow> bool" where
  "planning_failure classes \<longleftrightarrow> list_ex (\<lambda>c. c \<in> {PEDAGOGICAL_MISMATCH, FACTUAL_UNCERTAINTY}) classes"

definition route_without_healing :: "failure_class list \<Rightarrow> string" where
  "route_without_healing classes =
     (if planning_failure classes then ''planning_blueprint'' else ''artifact_workflow'')"

definition route_for_healing :: "json_object \<Rightarrow> failure_class list \<Rightarrow> string" where
  "route_for_healing healing classes =
     (if dict_get healing ''escalate'' = JBool True then ''teacher_approval''
      else if dict_get healing ''healing_strategy'' = JStr ''replan'' then ''planning_blueprint''
      else route_without_healing classes)"

definition int_field :: "json_object \<Rightarrow> string \<Rightarrow> int" where
  "int_field state key =
     (case dict_get state key of JInt i \<Rightarrow> i | JBool b \<Rightarrow> (if b then 1 else 0) | _ \<Rightarrow> 0)"

definition string_field :: "json_object \<Rightarrow> string \<Rightarrow> string" where
  "string_field state key = (case dict_get state key of JStr s \<Rightarrow> s | _ \<Rightarrow> [])"

definition healing_state_of :: "json_object \<Rightarrow> failure_class list \<Rightarrow> string list \<Rightarrow> json_object" where
  "healing_state_of state classes issues =
     [(''run_id'', JStr (string_field state ''run_id'')), (''fail_count'', JInt (int_field state ''fail_count'')),
      (''fail_type'', JStr (fail_type_of classes)), (''fail_layer'', JStr ''quality''),
      (''fail_context'', JObj [(''errors'', JList (map JStr issues))])]
     @ (case string_value (dict_get state ''generation_model'') of
          None \<Rightarrow> [] | Some m \<Rightarrow> [(''generation_model'', JStr m)])"

definition heal_quality_failure ::
  "healing_env \<Rightarrow> instant \<Rightarrow> json_object \<Rightarrow> failure_class list \<Rightarrow> string list \<Rightarrow> breaker_store
   \<Rightarrow> (json_object \<times> run_events) result \<times> breaker_store" where
  "heal_quality_failure env now state classes issues store =
     (let attempts = max_healing_attempts env state
      in if he_force_escalate env
         then (Inr ([(''fail_count'', JInt (int_field state ''fail_count'' + 1)),
                     (''healing_strategy'', JStr ''escalate''), (''escalate'', JBool True),
                     (''escalate_reason'', JStr ''Forced escalation for teaching-pack test seam.''),
                     (''quality_recovery_route'', JStr ''teacher_approval'')], []), store)
         else if attempts = 0
         then (Inr ([(''quality_recovery_route'', JStr (route_without_healing classes))], []), store)
         else let (result, store') = heal env now attempts (healing_state_of state classes issues) store
              in (case result of
                    Inl e \<Rightarrow> Inl e
                  | Inr (healing, events) \<Rightarrow>
                      Inr (AList.update ''quality_recovery_route'' (JStr (route_for_healing healing classes)) healing, events),
                  store'))"

end
