(* ===== verification/Quality_Runtime.thy ===== *)
theory Quality_Runtime
  imports Healing "HOL-Library.Sublist"
begin

text \<open>
  The quality stage (\<open>packages/agents/teaching_pack/quality_runtime.py\<close>) and its routes
  (\<open>quality_routing.py\<close>). What the checks find in the artifacts is an input: their issue lists, the
  reports of a gate and the verdict of a judge. Of the scores the model keeps whether they passed and how
  many issues they count.
\<close>

section \<open>Reports\<close>

fun failure_value :: "failure_class \<Rightarrow> string" where
  "failure_value SCHEMA_INVALID = ''schema_invalid''"
| "failure_value PLACEHOLDER_CONTENT = ''placeholder_content''"
| "failure_value ANSWER_KEY_LEAKAGE = ''answer_key_leakage''"
| "failure_value PII_LEAKAGE = ''pii_leakage''"
| "failure_value EXTERNAL_ASSET = ''external_asset''"
| "failure_value MISSING_DOCTYPE = ''missing_doctype''"
| "failure_value MISSING_ACCESSIBILITY = ''missing_accessibility''"
| "failure_value UNSUPPORTED_COMPONENT = ''unsupported_component''"
| "failure_value FACTUAL_UNCERTAINTY = ''factual_uncertainty''"
| "failure_value PEDAGOGICAL_MISMATCH = ''pedagogical_mismatch''"
| "failure_value EXPORT_NOT_READY = ''export_not_ready''"

record quality_issue =
  qi_failure_class :: failure_class
  qi_location :: string
  qi_message :: string

record quality_report =
  qr_artifact_id :: string
  qr_passed :: bool
  qr_issues :: "quality_issue list"

definition failed_report_issues :: "quality_report list \<Rightarrow> string list" where
  "failed_report_issues reports =
     concat (map (\<lambda>r. if qr_passed r then []
         else map (\<lambda>i. qi_location i @ '': '' @ failure_value (qi_failure_class i) @ '': '' @ qi_message i) (qr_issues r))
       reports)"

definition failure_classes :: "quality_report list \<Rightarrow> failure_class list" where
  "failure_classes reports =
     concat (map (\<lambda>r. map qi_failure_class (filter (\<lambda>i. \<not> qr_passed r) (qr_issues r))) reports)"

section \<open>Routes\<close>

definition quality_recovery_route :: "string list \<Rightarrow> string" where
  "quality_recovery_route issues =
     (let joined = join_with '' '' issues
      in if sublist ''factual_uncertainty'' joined then ''post_blueprint_research''
         else if sublist ''not_aligned_with_objectives'' joined \<or> sublist ''vietnamese_difficulty'' joined
         then ''planning_blueprint'' else ''artifact_workflow'')"

definition route_after_render_quality :: "string option \<Rightarrow> string" where
  "route_after_render_quality route =
     (case route of
        None \<Rightarrow> ''compliance_gate''
      | Some r \<Rightarrow>
          if r \<in> {''planning_blueprint'', ''post_blueprint_research'', ''artifact_workflow'', ''teacher_approval''}
          then r else ''artifact_workflow'')"

definition pack_coherence_issues :: "string list \<Rightarrow> string list" where
  "pack_coherence_issues issues = filter (prefix ''pack.coherence:'') issues"

definition render_quality_failure :: "string \<Rightarrow> string list \<Rightarrow> json_object" where
  "render_quality_failure run_id issues =
     [(''run_id'', JStr run_id), (''quality_issues'', JList (map JStr issues)),
      (''quality_recovery_route'', JStr (quality_recovery_route issues)),
      (''quality_scores'', JObj [(''passed'', JBool False), (''issue_count'', JInt (int (length issues)))])]"

section \<open>The stage\<close>

text \<open>What the checks find in the current artifacts.\<close>

record quality_findings =
  qf_coherence_issues :: "string list"
  qf_layer1_issues :: "string list"
  qf_hard_strategy_issues :: "string list"
  qf_gate_reports :: "quality_report list option"
  qf_reviewer_reports :: "quality_report list"
  qf_core_artifacts :: bool
  qf_judge :: "bool \<times> string list"
  qf_snapshots :: "json list"

definition render_quality ::
  "healing_env \<Rightarrow> instant \<Rightarrow> quality_findings \<Rightarrow> json_object \<Rightarrow> breaker_store
   \<Rightarrow> (json_object \<times> run_events) result \<times> breaker_store" where
  "render_quality env now found state store =
     (let run_id = string_field state ''run_id'';
          fail = (\<lambda>issues. (Inr (render_quality_failure run_id issues, []), store));
          passed = (Inr ([(''run_id'', JStr run_id), (''rendered_snapshots'', JList (qf_snapshots found)),
            (''quality_scores'', JObj [(''passed'', JBool True), (''snapshot_count'', JInt (int (length (qf_snapshots found))))]),
            (''quality_recovery_route'', JNull)], []), store)
      in if qf_coherence_issues found \<noteq> [] then fail (qf_coherence_issues found)
         else if qf_layer1_issues found \<noteq> []
         then (if pack_coherence_issues (qf_layer1_issues found) \<noteq> [] then fail (qf_layer1_issues found)
               else (Inl (RuntimeError (''Teaching Pack quality gate failed: '' @ join_with ''; '' (qf_layer1_issues found))), store))
         else if qf_hard_strategy_issues found \<noteq> [] then fail (qf_hard_strategy_issues found)
         else case qf_gate_reports found of
             None \<Rightarrow>
               (let failed = failed_report_issues (qf_reviewer_reports found); (judged, judge_issues) = qf_judge found
                in if failed \<noteq> [] then fail failed
                   else if qf_core_artifacts found \<and> \<not> judged then fail judge_issues else passed)
           | Some reports \<Rightarrow>
               (let failed = failed_report_issues reports; classes = failure_classes reports
                in if failed = [] then passed
                   else let (logged, store1) = heal_quality_failure env now state classes failed store
                        in case logged of
                             Inl e \<Rightarrow> (Inl e, store1)
                           | Inr (_, logged_events) \<Rightarrow>
                               (let (healed, store2) = heal_quality_failure env now state classes failed store1
                                in (case healed of
                                      Inl e \<Rightarrow> Inl e
                                    | Inr (healing, events) \<Rightarrow>
                                        Inr (dict_merge
                                              (AList.update ''quality_recovery_route''
                                                (JStr (the_default (quality_recovery_route failed)
                                                  (string_value (dict_get healing ''quality_recovery_route''))))
                                                (render_quality_failure run_id failed))
                                              healing,
                                            logged_events @ events),
                                    store2))))"

end
