(* ===== verification/Pack_Graph.thy ===== *)
theory Pack_Graph
  imports Fanout Quality_Runtime
begin

text \<open>
  The stage graph of the teaching pack: the wrapper of every stage with its re-entry rule, the stages'
  effects on the state that decides the way (\<open>packages/agents/teaching_pack/nodes.py\<close>), the compliance
  gate (\<open>compliance.py\<close>), the teacher's answers (\<open>teacher_gate_payload.py\<close>), the statuses that gate an
  export (\<open>artifact_status.py\<close>) and the edges (\<open>graph.py\<close>). The branch fan-out is enabled, which is the
  default. What agents, checks and the teacher contribute to a step is its input.
\<close>

section \<open>State and inputs\<close>

record graph_state =
  gs_pack :: pack_state
  gs_values :: json_object
  gs_compliance_passed :: bool
  gs_teacher_approved :: bool
  gs_strategy_plan :: bool
  gs_snapshots :: "json list"
  gs_approved_snapshots :: "json list"
  gs_exported :: "string list"
  gs_export_blocked :: bool

record graph_config =
  gc_healing :: healing_env
  gc_parallelism :: nat
  gc_component_strategy :: bool
  gc_plan_unit :: bool

record stage_inputs =
  si_now :: instant
  si_findings :: quality_findings
  si_violations :: "string list"
  si_response :: gate_payload
  si_trusted :: bool
  si_files :: "string list"

section \<open>Artifact statuses\<close>

datatype artifact_status = PASSED | REGENERATING | FAILED | SKIPPED_DUE_DEPENDENCY | ESCALATED

definition requested_artifact_types :: "pack_state \<Rightarrow> string list" where
  "requested_artifact_types st =
     (case non_empty (pk_artifact_types st) of
        Some values \<Rightarrow> values
      | None \<Rightarrow>
          (case non_empty (pk_contract_types st) of
             Some values \<Rightarrow> values
           | None \<Rightarrow> filter (\<lambda>t. t \<noteq> []) (map ar_artifact_type (pk_references st))))"

definition status_item :: "artifact_reference option \<Rightarrow> branch_state option \<Rightarrow> artifact_status" where
  "status_item artifact workflow =
     (let raw_status = (case workflow of None \<Rightarrow> [] | Some w \<Rightarrow> bw_status w)
      in if raw_status = ''passed'' then PASSED
         else if raw_status = ''failed'' then FAILED
         else if raw_status = ''skipped'' then SKIPPED_DUE_DEPENDENCY
         else if raw_status = ''escalated'' then ESCALATED
         else if raw_status = [] \<and> artifact \<noteq> None then PASSED else REGENERATING)"

text \<open>\<open>_artifacts_by_type\<close> and \<open>_workflow_by_type\<close>: the last entry of each type.\<close>

definition artifact_statuses_for_teacher :: "pack_state \<Rightarrow> (string \<times> artifact_status) list" where
  "artifact_statuses_for_teacher st =
     map (\<lambda>t. (t, status_item (view ar_artifact_type (pk_references st) t) (view bw_artifact_type (pk_workflow_states st) t)))
       (requested_artifact_types st)"

definition unavailable_required_artifact_statuses :: "pack_state \<Rightarrow> (string \<times> artifact_status) list" where
  "unavailable_required_artifact_statuses st =
     filter (\<lambda>(t, status). status \<noteq> PASSED) (artifact_statuses_for_teacher st)"

section \<open>Re-entry\<close>

definition can_reenter_stage :: "graph_state \<Rightarrow> stage \<Rightarrow> bool" where
  "can_reenter_stage st stage =
     (let route = pk_recovery_route (gs_pack st);
          rejections = scoped_rejections (pk_references (gs_pack st)) (pk_gate_payload (gs_pack st))
      in case stage of
           ARTIFACT_WORKFLOW \<Rightarrow> \<not> pk_fanout_complete (gs_pack st)
             \<or> route \<in> {Some ''artifact_workflow'', Some ''planning_blueprint''} \<or> rejections \<noteq> []
         | RENDER_QUALITY \<Rightarrow> route = Some ''artifact_workflow'' \<or> rejections \<noteq> []
         | TEACHER_APPROVAL \<Rightarrow> route = Some ''artifact_workflow'' \<or> rejections \<noteq> []
         | PLANNING_BLUEPRINT \<Rightarrow> route = Some ''planning_blueprint''
         | POST_BLUEPRINT_RESEARCH \<Rightarrow> route \<in> {Some ''planning_blueprint'', Some ''post_blueprint_research''}
         | _ \<Rightarrow> False)"

section \<open>Stages\<close>

definition set_route :: "string option \<Rightarrow> graph_state \<Rightarrow> graph_state" where
  "set_route route st = st\<lparr>gs_pack := (gs_pack st)\<lparr>pk_recovery_route := route\<rparr>\<rparr>"

text \<open>An update of JSON keys: the route and the snapshots among them have their own fields.\<close>

definition apply_values :: "json_object \<Rightarrow> graph_state \<Rightarrow> graph_state" where
  "apply_values update st =
     (let d = dict_merge [] update;
          st' = st\<lparr>gs_values := dict_merge (gs_values st) update,
            gs_snapshots := (case map_of d ''rendered_snapshots'' of
                None \<Rightarrow> gs_snapshots st | Some v \<Rightarrow> json_elements v)\<rparr>
      in case map_of d ''quality_recovery_route'' of
           None \<Rightarrow> st'
         | Some v \<Rightarrow> set_route (case v of JStr s \<Rightarrow> Some s | _ \<Rightarrow> None) st')"

definition setup_contract :: "graph_state \<Rightarrow> graph_state" where
  "setup_contract st = st\<lparr>gs_pack := (gs_pack st)\<lparr>pk_artifact_types :=
     Some (the_default [''lesson'', ''worksheet'', ''quiz'', ''drill'', ''slide_deck'']
       (non_empty (pk_contract_types (gs_pack st))))\<rparr>\<rparr>"

definition compliance_gate_state :: "string list \<Rightarrow> graph_state \<Rightarrow> graph_state" where
  "compliance_gate_state violations st =
     (if violations = [] then st\<lparr>gs_compliance_passed := True\<rparr>
      else set_route (Some ''artifact_workflow'')
        (st\<lparr>gs_compliance_passed := False,
            gs_values := dict_merge (gs_values st)
              [(''quality_issues'', JList (map JStr violations)), (''fail_layer'', JStr ''compliance''),
               (''fail_type'', JStr ''hard_block'')]\<rparr>))"

definition normalized_teacher_action :: "string \<Rightarrow> string" where
  "normalized_teacher_action action =
     (if action = ''approve_selected'' then ''approve''
      else if action = ''reject_selected'' then ''reject'' else action)"

definition is_scoped_teacher_action :: "gate_payload \<Rightarrow> bool" where
  "is_scoped_teacher_action p \<longleftrightarrow> gp_action p \<in> {''approve_selected'', ''reject_selected''}"

definition teacher_approval :: "bool \<Rightarrow> gate_payload \<Rightarrow> graph_state \<Rightarrow> graph_state" where
  "teacher_approval trusted response st =
     (let auto_approved = (trusted \<and> gs_compliance_passed st \<and> dict_get (gs_values st) ''escalate'' \<noteq> JBool True);
          action = (if gp_action response \<noteq> [] then gp_action response
            else if auto_approved then ''approve'' else ''reject'');
          approved = (normalized_teacher_action action = ''approve'')
      in st\<lparr>gs_pack := (gs_pack st)\<lparr>pk_gate_payload := response\<lparr>gp_action := action\<rparr>\<rparr>,
            gs_teacher_approved := approved,
            gs_approved_snapshots := (if approved then gs_snapshots st else [])\<rparr>)"

definition unit_approval :: "gate_payload \<Rightarrow> graph_state \<Rightarrow> graph_state" where
  "unit_approval response st =
     (let action = (if gp_action response \<noteq> [] then gp_action response else ''reject'')
      in st\<lparr>gs_pack := (gs_pack st)\<lparr>pk_gate_payload := response\<rparr>, gs_teacher_approved := (action = ''approve'')\<rparr>)"

definition export_finalize :: "string list \<Rightarrow> graph_state \<Rightarrow> graph_state" where
  "export_finalize files st =
     (if \<not> gs_teacher_approved st then st\<lparr>gs_exported := []\<rparr>
      else if unavailable_required_artifact_statuses (gs_pack st) \<noteq> []
      then st\<lparr>gs_exported := [], gs_export_blocked := True\<rparr>
      else set_route (Some [])
        (st\<lparr>gs_exported := files,
            gs_values := dict_merge (gs_values st) [(''quality_issues'', JList []), (''escalate'', JBool False)]\<rparr>))"

definition stage_update ::
  "graph_config \<Rightarrow> stage_inputs \<Rightarrow> stage \<Rightarrow> graph_state \<Rightarrow> breaker_store \<Rightarrow> graph_state result \<times> breaker_store" where
  "stage_update cfg inp stage st store =
     (case stage of
        SETUP_CONTRACT \<Rightarrow> (Inr (setup_contract st), store)
      | UNIT_APPROVAL \<Rightarrow> (Inr (unit_approval (si_response inp) st), store)
      | PLANNING_BLUEPRINT \<Rightarrow> (Inr (set_route (Some ''artifact_workflow'') st), store)
      | ARTIFACT_WORKFLOW \<Rightarrow> (Inr (st\<lparr>gs_pack := coordinate_artifact_fanout (gs_pack st)\<rparr>), store)
      | RENDER_QUALITY \<Rightarrow>
          (let (result, store') = render_quality (gc_healing cfg) (si_now inp) (si_findings inp)
                 ((''run_id'', JStr (pk_run_id (gs_pack st))) # gs_values st) store
           in (case result of Inl e \<Rightarrow> Inl e | Inr (update, _) \<Rightarrow> Inr (apply_values update st), store'))
      | COMPLIANCE_GATE \<Rightarrow> (Inr (compliance_gate_state (si_violations inp) st), store)
      | TEACHER_APPROVAL \<Rightarrow> (Inr (teacher_approval (si_trusted inp) (si_response inp) st), store)
      | EXPORT_FINALIZE \<Rightarrow> (Inr (export_finalize (si_files inp) st), store)
      | _ \<Rightarrow> (Inr st, store))"

definition complete_stage :: "stage \<Rightarrow> graph_state \<Rightarrow> graph_state" where
  "complete_stage stage st =
     st\<lparr>gs_pack := (gs_pack st)\<lparr>pk_completed_stages := pk_completed_stages (gs_pack st) @ [stage]\<rparr>\<rparr>"

text \<open>The wrapper, and the write of what it returns through the annotated channels.\<close>

definition stage_node ::
  "graph_config \<Rightarrow> stage_inputs \<Rightarrow> stage \<Rightarrow> graph_state \<Rightarrow> breaker_store \<Rightarrow> graph_state result \<times> breaker_store" where
  "stage_node cfg inp stage st store =
     (let write = (\<lambda>st'. st'\<lparr>gs_pack := checkpoint (gs_pack st) (gs_pack st')\<rparr>)
      in if stage \<in> set (pk_completed_stages (gs_pack st)) \<and> \<not> can_reenter_stage st stage then (Inr (write st), store)
         else let (result, store') = stage_update cfg inp stage st store
              in (case result of
                    Inl e \<Rightarrow> Inl e
                  | Inr st' \<Rightarrow>
                      if stage = ARTIFACT_WORKFLOW \<and> \<not> pk_fanout_complete (gs_pack st') then Inr (write st')
                      else Inr (write (complete_stage stage st')),
                  store'))"

section \<open>Edges\<close>

datatype graph_node = At stage | Branches "(string \<times> string) list" | Finished

fun stage_after :: "stage list \<Rightarrow> stage \<Rightarrow> graph_node" where
  "stage_after (a # b # rest) s = (if s = a then At b else stage_after (b # rest) s)"
| "stage_after _ s = Finished"

definition route_after_triage :: "graph_config \<Rightarrow> stage" where
  "route_after_triage cfg = (if gc_plan_unit cfg then UNIT_PLANNING else PREPLANNING_SEARCH)"

definition route_after_unit_approval :: "graph_state \<Rightarrow> stage" where
  "route_after_unit_approval st = (if gs_teacher_approved st then UNIT_PREP else UNIT_PLANNING)"

definition route_after_teacher_approval :: "graph_state \<Rightarrow> stage" where
  "route_after_teacher_approval st =
     (let p = gs_pack st; payload = pk_gate_payload p
      in if gs_teacher_approved st \<and> gs_strategy_plan st \<and> pk_references p = [] then ARTIFACT_WORKFLOW
         else if gs_teacher_approved st then EXPORT_FINALIZE
         else if is_scoped_teacher_action payload \<or> gp_section_edit payload
           \<or> scoped_rejections (pk_references p) payload \<noteq> [] then ARTIFACT_WORKFLOW
         else EXPORT_FINALIZE)"

definition route_after_compliance_gate :: "graph_state \<Rightarrow> stage" where
  "route_after_compliance_gate st = (if gs_compliance_passed st then TEACHER_APPROVAL else ARTIFACT_WORKFLOW)"

definition stage_of_route :: "string \<Rightarrow> stage" where
  "stage_of_route r =
     (if r = ''planning_blueprint'' then PLANNING_BLUEPRINT
      else if r = ''post_blueprint_research'' then POST_BLUEPRINT_RESEARCH
      else if r = ''teacher_approval'' then TEACHER_APPROVAL
      else if r = ''compliance_gate'' then COMPLIANCE_GATE else ARTIFACT_WORKFLOW)"

definition next_node :: "graph_config \<Rightarrow> stage \<Rightarrow> graph_state \<Rightarrow> graph_node" where
  "next_node cfg stage st =
     (case stage of
        TRIAGE \<Rightarrow> At (route_after_triage cfg)
      | UNIT_PLANNING \<Rightarrow> At UNIT_APPROVAL
      | UNIT_APPROVAL \<Rightarrow> At (route_after_unit_approval st)
      | UNIT_PREP \<Rightarrow> Finished
      | TEACHER_APPROVAL \<Rightarrow> At (route_after_teacher_approval st)
      | ARTIFACT_WORKFLOW \<Rightarrow>
          (case route_after_artifact_workflow (gc_parallelism cfg) (gs_pack st) of
             To_Render_Quality \<Rightarrow> At RENDER_QUALITY | Send_All payloads \<Rightarrow> Branches payloads)
      | RENDER_QUALITY \<Rightarrow> At (stage_of_route (route_after_render_quality (pk_recovery_route (gs_pack st))))
      | COMPLIANCE_GATE \<Rightarrow> At (route_after_compliance_gate st)
      | _ \<Rightarrow> stage_after (teaching_pack_stages (gc_component_strategy cfg)) stage)"

text \<open>One step of the graph; a stage that raises has none, and ends the invocation.\<close>

inductive graph_step ::
  "graph_config \<Rightarrow> graph_node \<times> graph_state \<times> breaker_store \<Rightarrow> graph_node \<times> graph_state \<times> breaker_store \<Rightarrow> bool"
  for cfg where
  stage: "stage_node cfg inp s st store = (Inr st', store') \<Longrightarrow>
    graph_step cfg (At s, st, store) (next_node cfg s st', st', store')"
| branches: "graph_step cfg (Branches payloads, st, store)
    (At ARTIFACT_WORKFLOW, st\<lparr>gs_pack := fold (write_branch generate) payloads (gs_pack st)\<rparr>, store)"

inductive_cases at_stepE: "graph_step cfg (At s, st, store) next"
inductive_cases branches_stepE: "graph_step cfg (Branches payloads, st, store) next"
inductive_cases finished_stepE: "graph_step cfg (Finished, st, store) next"

end
