(* ===== verification/Fanout_Laws.thy ===== *)
theory Fanout_Laws
  imports Fanout
begin

text \<open>
  Laws of the artifact fan-out: the loop between coordinator and branches ends, generates each
  artifact once and only after the artifacts it depends on, and what it loses: the indirect dependents of
  a failure, the scope of a later rejection, and the removal of superseded references.
\<close>

section \<open>The status channel\<close>

definition channel_ok :: "pack_state \<Rightarrow> bool" where
  "channel_ok st \<longleftrightarrow> distinct (map workflow_state_id (pk_workflow_states st))
     \<and> (\<forall>s \<in> set (pk_workflow_states st). workflow_state_id s = bw_generation_id s @ '':'' @ bw_artifact_type s)"

definition entries :: "string \<Rightarrow> pack_state \<Rightarrow> branch_state set" where
  "entries gen st = set (current_generation_workflow_states (pk_workflow_states st) gen)"

definition finished :: "string \<Rightarrow> pack_state \<Rightarrow> string set" where
  "finished gen st = set (completed_types (current_generation_workflow_states (pk_workflow_states st) gen))"

lemma in_entries: "s \<in> entries gen st \<longleftrightarrow> s \<in> set (pk_workflow_states st) \<and> bw_generation_id s = gen"
  by (auto simp: entries_def current_generation_workflow_states_def)

lemma in_finished:
  "t \<in> finished gen st \<longleftrightarrow>
     (\<exists>s \<in> entries gen st. bw_artifact_type s = t \<and> bw_status s \<in> {''passed'', ''failed'', ''skipped''})"
  by (auto simp: finished_def completed_types_def entries_def)

lemma entries_cong: "pk_workflow_states st = pk_workflow_states st' \<Longrightarrow> entries gen st = entries gen st'"
  by (simp add: entries_def)

text \<open>Entries written for one generation replace those of the same type and leave the others.\<close>

lemma merged_entries:
  assumes ok: "channel_ok st" and new: "distinct (map bw_artifact_type new)"
    "\<And>s. s \<in> set new \<Longrightarrow> bw_generation_id s = gen \<and> workflow_state_id s = gen @ '':'' @ bw_artifact_type s"
    and st': "pk_workflow_states st' = stable_merge_workflow_states (pk_workflow_states st) new"
  shows "channel_ok st' \<and> entries gen st' = set new \<union> {s \<in> entries gen st. bw_artifact_type s \<notin> bw_artifact_type ` set new}"
proof -
  have ids: "distinct (map workflow_state_id new)"
    using new by (auto simp: distinct_map inj_on_def)
  have ok': "channel_ok st'"
    using ok new(2) wf_channel.from_either wf_channel.one_each by (fastforce simp: channel_ok_def st')
  have "s \<in> entries gen st' \<longleftrightarrow> s \<in> set new \<or> s \<in> entries gen st \<and> bw_artifact_type s \<notin> bw_artifact_type ` set new" for s
  proof (cases "bw_generation_id s = gen \<and> workflow_state_id s = gen @ '':'' @ bw_artifact_type s")
    case True
    have same: "(workflow_state_id s \<in> workflow_state_id ` set new) = (bw_artifact_type s \<in> bw_artifact_type ` set new)"
      using True new(2) by (auto simp: image_iff)
    have "s \<in> set (pk_workflow_states st') \<longleftrightarrow>
        s \<in> set new \<or> s \<in> set (pk_workflow_states st) \<and> workflow_state_id s \<notin> workflow_state_id ` set new"
      using ok unfolding st' channel_ok_def by (simp add: wf_channel.set_merge [OF _ ids])
    then show ?thesis using True same by (simp add: in_entries)
  next
    case False
    then show ?thesis
      using ok ok' new(2) by (auto simp: in_entries channel_ok_def)
  qed
  with ok' show ?thesis by blast
qed

lemma merge_self:
  assumes "channel_ok st" and "pk_workflow_states st' = stable_merge_workflow_states (pk_workflow_states st) (pk_workflow_states st)"
  shows "channel_ok st' \<and> entries gen st' = entries gen st"
proof -
  have "set (pk_workflow_states st') = set (pk_workflow_states st)"
    using assms(1) by (auto simp: assms(2) wf_channel.set_merge channel_ok_def)
  with assms show ?thesis
    by (auto simp: channel_ok_def in_entries wf_channel.one_each)
qed

definition outcome_status :: "generation_outcome \<Rightarrow> string" where
  "outcome_status outcome = (case outcome of Generated _ _ \<Rightarrow> ''passed'' | Generation_Failed _ _ \<Rightarrow> ''failed'')"

lemma outcome_status_cases: "outcome_status outcome = ''passed'' \<or> outcome_status outcome = ''failed''"
  by (cases outcome) (simp_all add: outcome_status_def)

lemma branch_update_states:
  "\<exists>s. snd (branch_update (gen, t) outcome) = [s] \<and> bw_generation_id s = gen \<and> bw_artifact_type s = t
     \<and> bw_status s = outcome_status outcome \<and> workflow_state_id s = gen @ '':'' @ t"
  by (cases outcome) (simp_all add: branch_update_def Let_def workflow_state_id_def outcome_status_def)

lemma write_branch_entries:
  assumes "channel_ok st"
  shows "\<exists>s. bw_artifact_type s = t \<and> bw_status s = outcome_status (generate (gen, t))
    \<and> channel_ok (write_branch generate (gen, t) st)
    \<and> entries gen (write_branch generate (gen, t) st) = insert s {s \<in> entries gen st. bw_artifact_type s \<noteq> t}"
proof -
  obtain s where s: "snd (branch_update (gen, t) (generate (gen, t))) = [s]" "bw_generation_id s = gen"
      "bw_artifact_type s = t" "bw_status s = outcome_status (generate (gen, t))" "workflow_state_id s = gen @ '':'' @ t"
    using branch_update_states by blast
  then have "pk_workflow_states (write_branch generate (gen, t) st) =
      stable_merge_workflow_states (pk_workflow_states st) [s]"
    by (simp add: write_branch_def case_prod_beta)
  from merged_entries [OF assms _ _ this, of gen] s show ?thesis by (intro exI [of _ s]) auto
qed

text \<open>All branches of a round.\<close>

lemma write_branches_entries:
  assumes "channel_ok st" and "st' = fold (write_branch generate) (map (Pair gen) ts) st"
  shows "channel_ok st' \<and> (\<forall>t \<in> set ts. \<exists>s \<in> entries gen st'. bw_artifact_type s = t)
    \<and> {s \<in> entries gen st'. bw_artifact_type s \<notin> set ts} = {s \<in> entries gen st. bw_artifact_type s \<notin> set ts}
    \<and> (\<forall>s \<in> entries gen st'. bw_artifact_type s \<in> set ts \<longrightarrow>
          bw_status s = outcome_status (generate (gen, bw_artifact_type s)))"
  using assms
proof (induction ts arbitrary: st)
  case (Cons t ts)
  obtain s where s: "bw_artifact_type s = t" "bw_status s = outcome_status (generate (gen, t))"
      "channel_ok (write_branch generate (gen, t) st)"
      "entries gen (write_branch generate (gen, t) st) = insert s {s \<in> entries gen st. bw_artifact_type s \<noteq> t}"
    using write_branch_entries [OF Cons.prems(1)] by blast
  have "st' = fold (write_branch generate) (map (Pair gen) ts) (write_branch generate (gen, t) st)"
    by (simp add: Cons.prems(2))
  note IH = Cons.IH [OF s(3) this]
  have kept: "x \<in> entries gen st' \<longleftrightarrow> x = s \<or> x \<in> entries gen st \<and> bw_artifact_type x \<noteq> t"
    if "bw_artifact_type x \<notin> set ts" for x
    using IH that unfolding s(4) by blast
  show ?case
  proof (intro conjI ballI impI)
    show "channel_ok st'" using IH by blast
    show "\<exists>s \<in> entries gen st'. bw_artifact_type s = t'" if "t' \<in> set (t # ts)" for t'
      using IH that s(1) kept [of s] by (cases "t' \<in> set ts") auto
    show "{x \<in> entries gen st'. bw_artifact_type x \<notin> set (t # ts)} = {x \<in> entries gen st. bw_artifact_type x \<notin> set (t # ts)}"
      using kept s(1) by auto
    show "bw_status x = outcome_status (generate (gen, bw_artifact_type x))"
      if "x \<in> entries gen st'" "bw_artifact_type x \<in> set (t # ts)" for x
      using IH that s(1,2) kept [of x] by (cases "bw_artifact_type x \<in> set ts") auto
  qed
qed simp

section \<open>One round\<close>

definition target_generation :: "pack_state \<Rightarrow> string" where
  "target_generation st = generation_id st (next_generation_revision st)"

lemma generation_revision_pos: "0 < generation_revision st"
  by (auto simp: generation_revision_def split: option.splits)

lemma target_generation_nonempty: "target_generation st \<noteq> []"
  by (auto simp: target_generation_def generation_id_def Let_def split: option.splits)

lemma coordinate_generation:
  "pk_generation_id (coordinate_artifact_fanout st) = Some (target_generation st)"
  "pk_generation_revision (coordinate_artifact_fanout st) = Some (next_generation_revision st)"
  by (simp_all add: coordinate_artifact_fanout_def Let_def target_generation_def split: option.splits)

lemma coordinate_running:
  "\<not> pk_fanout_complete (coordinate_artifact_fanout st) \<Longrightarrow>
   pk_workflow_states (coordinate_artifact_fanout st) = pk_workflow_states st"
  by (simp add: coordinate_artifact_fanout_def Let_def split: if_splits option.splits)

lemma checkpoint_fields [simp]:
  "pk_generation_id (checkpoint prev new) = pk_generation_id new"
  "pk_generation_revision (checkpoint prev new) = pk_generation_revision new"
  "pk_wave_index (checkpoint prev new) = pk_wave_index new"
  "pk_fanout_complete (checkpoint prev new) = pk_fanout_complete new"
  "pk_scope (checkpoint prev new) = pk_scope new"
  "pk_gate_payload (checkpoint prev new) = pk_gate_payload new"
  "pk_recovery_route (checkpoint prev new) = pk_recovery_route new"
  "pk_artifact_types (checkpoint prev new) = pk_artifact_types new"
  "pk_contract_types (checkpoint prev new) = pk_contract_types new"
  "pk_run_id (checkpoint prev new) = pk_run_id new"
  "pk_completed_stages (checkpoint prev new) = pk_completed_stages new"
  by (simp_all add: checkpoint_def)

lemma write_branch_fields [simp]:
  "pk_generation_id (write_branch g p st) = pk_generation_id st"
  "pk_generation_revision (write_branch g p st) = pk_generation_revision st"
  "pk_wave_index (write_branch g p st) = pk_wave_index st"
  "pk_fanout_complete (write_branch g p st) = pk_fanout_complete st"
  "pk_scope (write_branch g p st) = pk_scope st"
  "pk_gate_payload (write_branch g p st) = pk_gate_payload st"
  "pk_recovery_route (write_branch g p st) = pk_recovery_route st"
  "pk_artifact_types (write_branch g p st) = pk_artifact_types st"
  "pk_contract_types (write_branch g p st) = pk_contract_types st"
  "pk_run_id (write_branch g p st) = pk_run_id st"
  "pk_completed_stages (write_branch g p st) = pk_completed_stages st"
  by (simp_all add: write_branch_def case_prod_beta)

lemma write_branches_keep:
  assumes "\<And>p st. f (write_branch g p st) = f st"
  shows "f (fold (write_branch g) ps st) = f st"
  by (induction ps arbitrary: st) (simp_all add: assms)

lemma running_generation:
  assumes "\<not> pk_fanout_complete st" and "pk_generation_id st = Some gen" and "gen \<noteq> []"
  shows "target_generation st = gen" "generation_id st (generation_revision st) = gen"
  using assms
  by (simp_all add: target_generation_def next_generation_revision_def needs_new_generation_cycle_def generation_id_def)

lemma routed_sends:
  assumes "route_after_artifact_workflow cap st = Send_All payloads" and "gen = generation_id st (generation_revision st)"
  shows "\<exists>ts. payloads = map (Pair gen) ts \<and> ts \<noteq> [] \<and> distinct ts
    \<and> set ts \<subseteq> set (wave_at (requested_types st) (current_wave_index st)) - finished gen st"
proof -
  let ?open = "filter (\<lambda>t. t \<notin> finished gen st) (wave_at (requested_types st) (current_wave_index st))"
  from assms have p: "payloads = map (Pair gen) (take cap ?open)" "payloads \<noteq> []"
    by (auto simp: route_after_artifact_workflow_def Let_def finished_def take_map split: if_splits)
  have "distinct (DEFAULT_WAVES ! i)" if "i < length DEFAULT_WAVES" for i
    using that by (auto simp: DEFAULT_WAVES_def less_Suc_eq nth_Cons split: nat.splits)
  then have "distinct ?open" by (auto simp: wave_at_def)
  with p show ?thesis by (intro exI [of _ "take cap ?open"]) (auto dest: in_set_takeD)
qed

lemma wave_types: "set (wave_at requested i) \<subseteq> set (concat DEFAULT_WAVES) \<inter> set requested"
  by (auto simp: wave_at_def not_le intro!: bexI [OF _ nth_mem])

text \<open>
  What a round that sends branches does: it stays in its generation, and finishes new types of its wave.
\<close>

lemma round_sends:
  assumes ok: "channel_ok st" and st1: "st1 = checkpoint st (coordinate_artifact_fanout st)"
    and route: "route_after_artifact_workflow cap st1 = Send_All payloads"
    and gen: "gen = target_generation st" and st2: "st2 = fold (write_branch generate) payloads st1"
  obtains ts where "payloads = map (Pair gen) ts" "ts \<noteq> []" "distinct ts"
    "set ts \<subseteq> set (wave_at (requested_types st1) (current_wave_index st1)) - finished gen st"
    "\<not> pk_fanout_complete st1" "entries gen st1 = entries gen st"
    "channel_ok st2" "target_generation st2 = gen" "finished gen st2 = finished gen st \<union> set ts"
    "{s \<in> entries gen st2. bw_artifact_type s \<notin> set ts} = {s \<in> entries gen st. bw_artifact_type s \<notin> set ts}"
    "\<forall>s \<in> entries gen st2. bw_artifact_type s \<in> set ts \<longrightarrow> bw_status s = outcome_status (generate (gen, bw_artifact_type s))"
proof -
  have running: "\<not> pk_fanout_complete st1"
    using route by (auto simp: route_after_artifact_workflow_def)
  then have states: "pk_workflow_states st1 =
      stable_merge_workflow_states (pk_workflow_states st) (pk_workflow_states st)"
    using coordinate_running [of st] by (simp add: st1 checkpoint_def)
  from merge_self [OF ok this] have ok1: "channel_ok st1" and same: "entries gen st1 = entries gen st" by auto
  have gen1: "pk_generation_id st1 = Some gen" "gen \<noteq> []"
    by (simp_all add: st1 gen coordinate_generation target_generation_nonempty)
  from routed_sends [OF route running_generation(2) [OF running gen1, symmetric]]
  obtain ts where ts: "payloads = map (Pair gen) ts" "ts \<noteq> []" "distinct ts"
      "set ts \<subseteq> set (wave_at (requested_types st1) (current_wave_index st1)) - finished gen st1" by blast
  have fin1: "finished gen st1 = finished gen st" by (auto simp: in_finished same)
  note w = write_branches_entries [OF ok1 st2 [unfolded ts(1)]]
  have e2: "s \<in> entries gen st2 \<longleftrightarrow> s \<in> entries gen st" if "bw_artifact_type s \<notin> set ts" for s
    using w that by (auto simp: same)
  have "t \<in> finished gen st2 \<longleftrightarrow> t \<in> finished gen st \<union> set ts" for t
  proof (cases "t \<in> set ts")
    case True
    with w obtain s where s: "s \<in> entries gen st2" "bw_artifact_type s = t" by blast
    with w True have "bw_status s = outcome_status (generate (gen, t))" by simp
    with s True outcome_status_cases [of "generate (gen, t)"] show ?thesis by (auto simp: in_finished)
  next
    case False
    then show ?thesis using e2 by (auto simp: in_finished)
  qed
  then have fin2: "finished gen st2 = finished gen st \<union> set ts" by blast
  have "target_generation st2 = gen"
    by (rule running_generation) (simp_all add: st2 write_branches_keep running gen1)
  then show ?thesis
    using that [OF ts(1-3) ts(4) [unfolded fin1] running same _ _ fin2] w
    by (simp add: same)
qed

section \<open>The loop ends\<close>

lemma loop_ends:
  assumes "channel_ok st" and "card (set (concat DEFAULT_WAVES) - finished (target_generation st) st) < fuel"
    and "distinct (concat sent)" and "set (concat sent) \<subseteq> Pair (target_generation st) ` finished (target_generation st) st"
  shows "\<exists>st' sent'. fanout_loop fuel cap generate st sent = Some (st', sent')
    \<and> distinct (concat sent') \<and> fst ` set (concat sent') \<subseteq> {target_generation st}"
  using assms
proof (induction fuel arbitrary: st sent)
  case (Suc fuel)
  let ?gen = "target_generation st"
  define st1 where "st1 = checkpoint st (coordinate_artifact_fanout st)"
  show ?case
  proof (cases "route_after_artifact_workflow cap st1")
    case To_Render_Quality
    then show ?thesis using Suc.prems(3,4) by (auto simp: st1_def [symmetric])
  next
    case (Send_All payloads)
    define st2 where "st2 = fold (write_branch generate) payloads st1"
    from round_sends [OF Suc.prems(1) st1_def Send_All refl st2_def]
    obtain ts where ts: "payloads = map (Pair ?gen) ts" "ts \<noteq> []" "distinct ts"
        "set ts \<subseteq> set (wave_at (requested_types st1) (current_wave_index st1)) - finished ?gen st"
      and st2: "channel_ok st2" "target_generation st2 = ?gen" "finished ?gen st2 = finished ?gen st \<union> set ts"
      by metis
    have in_waves: "set ts \<subseteq> set (concat DEFAULT_WAVES)" using ts(4) wave_types by blast
    from ts(2) obtain t where t: "t \<in> set ts" by (cases ts) auto
    with ts(4) in_waves have "t \<in> set (concat DEFAULT_WAVES)" "t \<notin> finished ?gen st" by blast+
    with t have "set (concat DEFAULT_WAVES) - finished ?gen st2 \<subset> set (concat DEFAULT_WAVES) - finished ?gen st"
      unfolding st2(3) by blast
    then have "card (set (concat DEFAULT_WAVES) - finished ?gen st2) < card (set (concat DEFAULT_WAVES) - finished ?gen st)"
      by (intro psubset_card_mono) auto
    then have fuel: "card (set (concat DEFAULT_WAVES) - finished (target_generation st2) st2) < fuel"
      using Suc.prems(2) by (simp add: st2(2))
    have sent: "distinct (concat (sent @ [payloads]))"
      "set (concat (sent @ [payloads])) \<subseteq> Pair (target_generation st2) ` finished (target_generation st2) st2"
      using Suc.prems(3,4) ts(3,4) by (auto simp: ts(1) st2 distinct_map inj_on_def)
    have "fanout_loop (Suc fuel) cap generate st sent = fanout_loop fuel cap generate st2 (sent @ [payloads])"
      using Send_All by (simp add: st1_def [symmetric] st2_def)
    with Suc.IH [OF st2(1) fuel sent] show ?thesis by (simp add: st2(2))
  qed
qed simp

lemma fanout_loop_total:
  assumes "channel_ok st"
  shows "\<exists>st' sent. fanout_loop 13 cap generate st [] = Some (st', sent)
    \<and> distinct (concat sent) \<and> fst ` set (concat sent) \<subseteq> {target_generation st}"
proof (rule loop_ends [OF assms])
  have "card (set (concat DEFAULT_WAVES) - finished (target_generation st) st) \<le> card (set (concat DEFAULT_WAVES))"
    by (rule card_mono) auto
  also have "\<dots> = 12" by (simp add: DEFAULT_WAVES_def)
  finally show "card (set (concat DEFAULT_WAVES) - finished (target_generation st) st) < 13" by simp
qed simp_all

text \<open>
  C36: the loop between coordinator and branches always ends, after at most twelve rounds, whatever the
  branches report and in whatever state it starts: every round finishes at least one more of the twelve
  types of the plan. Within it no artifact is generated twice, and all belong to one generation.
\<close>
theorem fanout_ends:
  assumes "channel_ok st"
  shows "\<exists>st' sent. fanout_loop 13 cap generate st [] = Some (st', sent)
    \<and> distinct (concat sent) \<and> fst ` set (concat sent) \<subseteq> {target_generation st}"
  using assms by (rule fanout_loop_total)

definition demo_pack :: "string list \<Rightarrow> pack_state" where
  "demo_pack types = \<lparr>pk_run_id = ''r1'', pk_artifact_types = Some types, pk_contract_types = None,
     pk_generation_id = None, pk_generation_revision = None, pk_wave_index = None, pk_fanout_complete = False,
     pk_fanout_blocked = False, pk_scope = None, pk_references = [], pk_workflow_states = [],
     pk_recovery_route = None,
     pk_gate_payload = \<lparr>gp_action = [], gp_rejection_type = [], gp_rejections = None, gp_section_edit = False\<rparr>,
     pk_completed_stages = []\<rparr>"

theorem fanout_ends_witness:
  "\<exists>st' sent. fanout_loop 13 2 (\<lambda>_. Generation_Failed ''TimeoutError'' ''budget'') (demo_pack [''lesson'', ''quiz'']) []
     = Some (st', sent) \<and> distinct (concat sent)"
proof -
  have "channel_ok (demo_pack [''lesson'', ''quiz''])" by (simp add: channel_ok_def demo_pack_def)
  from fanout_ends [OF this] show ?thesis by blast
qed

end
