(* ===== verification/Fanout_Order.thy ===== *)
theory Fanout_Order
  imports Fanout_Laws
begin

text \<open>
  The order of generation: an artifact is generated only after the artifacts it depends on were generated.
\<close>

section \<open>Waves\<close>

lemma first_wave_from_Some:
  "first_wave_from requested i = Some k \<longleftrightarrow>
     i \<le> k \<and> k < length DEFAULT_WAVES \<and> wave_at requested k \<noteq> [] \<and> (\<forall>j. i \<le> j \<longrightarrow> j < k \<longrightarrow> wave_at requested j = [])"
proof
  assume "first_wave_from requested i = Some k"
  then obtain n where n: "n < length [i..<length DEFAULT_WAVES]" "k = [i..<length DEFAULT_WAVES] ! n"
      "wave_at requested k \<noteq> []" "\<forall>m < n. wave_at requested ([i..<length DEFAULT_WAVES] ! m) = []"
    unfolding first_wave_from_def find_Some_iff by auto
  have "wave_at requested j = []" if "i \<le> j" "j < k" for j
    using n(4) [rule_format, of "j - i"] n(1,2) that by simp
  with n show "i \<le> k \<and> k < length DEFAULT_WAVES \<and> wave_at requested k \<noteq> [] \<and> (\<forall>j. i \<le> j \<longrightarrow> j < k \<longrightarrow> wave_at requested j = [])"
    by auto
next
  assume k: "i \<le> k \<and> k < length DEFAULT_WAVES \<and> wave_at requested k \<noteq> [] \<and> (\<forall>j. i \<le> j \<longrightarrow> j < k \<longrightarrow> wave_at requested j = [])"
  then show "first_wave_from requested i = Some k"
    unfolding first_wave_from_def find_Some_iff by (intro exI [of _ "k - i"]) auto
qed

lemma first_wave_from_None:
  "first_wave_from requested i = None \<longleftrightarrow> (\<forall>j. i \<le> j \<longrightarrow> wave_at requested j = [])"
  unfolding first_wave_from_def find_None_iff by (auto simp: wave_at_def)

lemma requires_earlier_wave:
  assumes d: "d \<in> set (requires DEFAULT_DEPENDENCIES t)" and t: "t \<in> set (wave_at requested i)" and "d \<in> set requested"
  shows "\<exists>j < i. d \<in> set (wave_at requested j)"
proof -
  have "i < length DEFAULT_WAVES" "t \<in> set (DEFAULT_WAVES ! i)" using t by (auto simp: wave_at_def split: if_splits)
  moreover have "distinct (concat DEFAULT_WAVES)" by (simp add: DEFAULT_WAVES_def)
  ultimately have "wave_index_by_type DEFAULT_WAVES t = Some i" by (intro wave_index_unique)
  with validated_dependency [OF default_plan [unfolded DEFAULT_DEPENDENCY_PLAN_def] d]
  obtain j where "wave_index_by_type DEFAULT_WAVES d = Some j" "j < i" by blast
  with wave_index_bound [of DEFAULT_WAVES d j] assms(3) show ?thesis
    by (intro exI [of _ j]) (simp add: wave_at_def)
qed

section \<open>The request does not change during the loop\<close>

definition steady :: "pack_state \<Rightarrow> bool" where
  "steady st \<longleftrightarrow> recorded_scope_types st \<noteq> [] \<or> \<not> rejects_scoped (pk_gate_payload st)"

lemma no_rejection: "\<not> rejects_scoped (pk_gate_payload st) \<Longrightarrow> rejected_generation_types st = []"
  by (simp add: rejected_generation_types_def rejected_artifact_types_def scoped_rejections_def append_new_def)

lemma all_requested_cong:
  "pk_artifact_types st' = pk_artifact_types st \<Longrightarrow> pk_contract_types st' = pk_contract_types st \<Longrightarrow>
   all_requested_types st' = all_requested_types st"
  by (auto simp: all_requested_types_def split: option.splits)

lemma steady_requested:
  assumes "steady st" and "pk_scope st' = pk_scope st" and "pk_gate_payload st' = pk_gate_payload st"
    and "pk_artifact_types st' = pk_artifact_types st" and "pk_contract_types st' = pk_contract_types st"
  shows "steady st' \<and> requested_types st' = requested_types st"
  using assms no_rejection [of st] no_rejection [of st'] all_requested_cong [OF assms(4,5)]
  by (auto simp: steady_def requested_types_def scoped_generation_types_def recorded_scope_types_def)

lemma coordinate_fields [simp]:
  "pk_gate_payload (coordinate_artifact_fanout st) = pk_gate_payload st"
  "pk_recovery_route (coordinate_artifact_fanout st) = pk_recovery_route st"
  "pk_artifact_types (coordinate_artifact_fanout st) = pk_artifact_types st"
  "pk_contract_types (coordinate_artifact_fanout st) = pk_contract_types st"
  "pk_run_id (coordinate_artifact_fanout st) = pk_run_id st"
  "pk_completed_stages (coordinate_artifact_fanout st) = pk_completed_stages st"
  "pk_scope (coordinate_artifact_fanout st) =
     (if scoped_generation_types st = [] then pk_scope st else Some (scoped_generation_types st))"
  by (simp_all add: coordinate_artifact_fanout_def Let_def split: option.splits)

lemma coordinate_requested:
  assumes "steady st \<or> rejected_generation_types st \<noteq> []"
  shows "steady (coordinate_artifact_fanout st) \<and> requested_types (coordinate_artifact_fanout st) = requested_types st"
proof (cases "scoped_generation_types st = []")
  case True
  with assms have "steady st" by (auto simp: scoped_generation_types_def split: if_splits)
  then show ?thesis by (rule steady_requested) (simp_all add: True)
next
  case False
  then have recorded: "recorded_scope_types (coordinate_artifact_fanout st) = scoped_generation_types st"
    by (simp add: recorded_scope_types_def)
  then have "scoped_generation_types (coordinate_artifact_fanout st) = scoped_generation_types st"
    using False by (simp add: scoped_generation_types_def [of "coordinate_artifact_fanout st"])
  with False recorded show ?thesis by (simp add: steady_def requested_types_def)
qed

lemma steady_checkpoint: "steady st \<Longrightarrow> steady (checkpoint prev st) \<and> requested_types (checkpoint prev st) = requested_types st"
  by (rule steady_requested) simp_all

lemma coordinate_index:
  assumes "\<not> pk_fanout_complete (coordinate_artifact_fanout st)"
  shows "\<exists>k. pk_wave_index (coordinate_artifact_fanout st) = Some (int k)
    \<and> (k = current_wave_index st
       \<or> set (wave_at (requested_types st) (current_wave_index st)) \<subseteq> finished (target_generation st) st
         \<and> first_wave_from (requested_types st) (Suc (current_wave_index st)) = Some k
         \<and> skipped_dependents (target_generation st) (requested_types st)
             (failed_types (current_generation_workflow_states (pk_workflow_states st) (target_generation st))) DEFAULT_DEPENDENCIES = [])"
  using assms
  by (auto simp: coordinate_artifact_fanout_def Let_def next_wave_index_def target_generation_def finished_def
      split: if_splits option.splits)

lemma running_index:
  "\<not> pk_fanout_complete st \<Longrightarrow> pk_wave_index st = Some (int k) \<Longrightarrow> current_wave_index st = k"
  by (simp add: current_wave_index_def Let_def needs_new_generation_cycle_def)

lemma nothing_skipped:
  assumes "skipped_dependents gen requested failed deps = []" and "t \<in> set requested" and "d \<in> set (requires deps t)"
  shows "d \<notin> set failed"
  using assms by (fastforce simp: skipped_dependents_def List.map_filter_def filter_empty_conv list_ex_iff split: if_splits)

section \<open>Dependencies first\<close>

definition supplied :: "(string \<times> string \<Rightarrow> generation_outcome) \<Rightarrow> string \<Rightarrow> string list \<Rightarrow> (string \<times> string) set \<Rightarrow> string \<Rightarrow> bool" where
  "supplied generate gen requested sent t \<longleftrightarrow>
     (\<forall>d \<in> set (requires DEFAULT_DEPENDENCIES t). d \<in> set requested \<longrightarrow>
        (gen, d) \<in> sent \<and> outcome_status (generate (gen, d)) = ''passed'')"

definition dependencies_first ::
  "(string \<times> string \<Rightarrow> generation_outcome) \<Rightarrow> string list \<Rightarrow> (string \<times> string) list list \<Rightarrow> bool" where
  "dependencies_first generate requested sent \<longleftrightarrow>
     (\<forall>i < length sent. \<forall>(gen, t) \<in> set (sent ! i).
        supplied generate gen requested (set (concat (take i sent))) t)"

lemma supplied_mono: "supplied generate gen requested sent t \<Longrightarrow> sent \<subseteq> sent' \<Longrightarrow> supplied generate gen requested sent' t"
  by (auto simp: supplied_def)

lemma dependencies_first_snoc:
  "dependencies_first generate requested (sent @ [map (Pair gen) ts]) \<longleftrightarrow>
   dependencies_first generate requested sent
   \<and> (\<forall>t \<in> set ts. supplied generate gen requested (set (concat sent)) t)"
  unfolding dependencies_first_def by (auto simp: less_Suc_eq nth_append)

definition ordered_loop ::
  "(string \<times> string \<Rightarrow> generation_outcome) \<Rightarrow> string \<Rightarrow> string list \<Rightarrow> nat \<Rightarrow> pack_state \<Rightarrow> (string \<times> string) set \<Rightarrow> bool" where
  "ordered_loop generate gen requested index st sent \<longleftrightarrow>
     (\<forall>s \<in> entries gen st. (gen, bw_artifact_type s) \<in> sent
        \<and> bw_status s = outcome_status (generate (gen, bw_artifact_type s)))
     \<and> (\<forall>j < index. set (wave_at requested j) \<subseteq> finished gen st)
     \<and> (\<forall>t \<in> set (wave_at requested index). supplied generate gen requested sent t)"

text \<open>Moving on to the next wave.\<close>

lemma ordered_advance:
  assumes inv: "ordered_loop generate (target_generation st) (requested_types st) (current_wave_index st) st sent"
    and running: "\<not> pk_fanout_complete (coordinate_artifact_fanout st)"
    and k: "pk_wave_index (coordinate_artifact_fanout st) = Some (int k)"
  shows "ordered_loop generate (target_generation st) (requested_types st) k st sent"
proof -
  let ?gen = "target_generation st" and ?req = "requested_types st" and ?i = "current_wave_index st"
  consider "k = ?i"
    | (next_wave) "set (wave_at ?req ?i) \<subseteq> finished ?gen st" "first_wave_from ?req (Suc ?i) = Some k"
      "skipped_dependents ?gen ?req (failed_types (current_generation_workflow_states (pk_workflow_states st) ?gen)) DEFAULT_DEPENDENCIES = []"
    using coordinate_index [OF running] k by auto
  then show ?thesis
  proof cases
    case next_wave
    have gap: "wave_at ?req j = []" if "?i < j" "j < k" for j
      using next_wave(2) that by (simp add: first_wave_from_Some)
    have reached: "set (wave_at ?req j) \<subseteq> finished ?gen st" if "j < k" for j
      using inv next_wave(1) gap [of j] that unfolding ordered_loop_def
      by (cases j ?i rule: linorder_cases) auto
    have "supplied generate ?gen ?req sent t" if t: "t \<in> set (wave_at ?req k)" for t
      unfolding supplied_def
    proof (intro ballI impI)
      fix d
      assume d: "d \<in> set (requires DEFAULT_DEPENDENCIES t)" "d \<in> set ?req"
      from requires_earlier_wave [OF d(1) t d(2)] reached have "d \<in> finished ?gen st" by blast
      then obtain s where s: "s \<in> entries ?gen st" "bw_artifact_type s = d" by (auto simp: in_finished)
      have "t \<in> set ?req" using t by (auto simp: wave_at_def split: if_splits)
      from nothing_skipped [OF next_wave(3) this d(1)] s have "bw_status s \<noteq> ''failed''"
        by (auto simp: failed_types_def entries_def)
      with inv s outcome_status_cases [of "generate (?gen, d)"]
      show "(?gen, d) \<in> sent \<and> outcome_status (generate (?gen, d)) = ''passed''"
        by (auto simp: ordered_loop_def)
    qed
    with inv reached show ?thesis by (simp add: ordered_loop_def)
  qed (use inv in simp)
qed

lemma ordered_round:
  assumes ok: "channel_ok st" and steady: "steady st \<or> rejected_generation_types st \<noteq> []"
    and st1: "st1 = checkpoint st (coordinate_artifact_fanout st)"
    and route: "route_after_artifact_workflow cap st1 = Send_All payloads"
    and st2: "st2 = fold (write_branch generate) payloads st1"
    and inv: "ordered_loop generate (target_generation st) (requested_types st) (current_wave_index st) st (set (concat sent))"
    and first: "dependencies_first generate (requested_types st) sent"
  shows "channel_ok st2 \<and> steady st2 \<and> requested_types st2 = requested_types st
    \<and> ordered_loop generate (target_generation st2) (requested_types st2) (current_wave_index st2) st2 (set (concat (sent @ [payloads])))
    \<and> dependencies_first generate (requested_types st) (sent @ [payloads])"
proof -
  let ?gen = "target_generation st" and ?req = "requested_types st"
  obtain ts where ts: "payloads = map (Pair ?gen) ts" "ts \<noteq> []" "distinct ts"
      "set ts \<subseteq> set (wave_at (requested_types st1) (current_wave_index st1)) - finished ?gen st"
    and running: "\<not> pk_fanout_complete st1" and "entries ?gen st1 = entries ?gen st"
    and ok2: "channel_ok st2" and gen2: "target_generation st2 = ?gen"
    and fin: "finished ?gen st2 = finished ?gen st \<union> set ts"
    and old: "{s \<in> entries ?gen st2. bw_artifact_type s \<notin> set ts} = {s \<in> entries ?gen st. bw_artifact_type s \<notin> set ts}"
    and new: "\<forall>s \<in> entries ?gen st2. bw_artifact_type s \<in> set ts \<longrightarrow> bw_status s = outcome_status (generate (?gen, bw_artifact_type s))"
    by (rule round_sends [OF ok st1 route refl st2])
  have req1: "steady st1 \<and> requested_types st1 = ?req"
    using steady_checkpoint coordinate_requested [OF steady] by (simp add: st1)
  have same: "steady st2 \<and> requested_types st2 = requested_types st1"
    unfolding st2 by (rule steady_requested [OF conjunct1 [OF req1]]) (rule write_branches_keep, simp)+
  from coordinate_index [of st] running obtain k where
    k: "pk_wave_index (coordinate_artifact_fanout st) = Some (int k)" by (auto simp: st1)
  then have index: "current_wave_index st1 = k" "current_wave_index st2 = k"
    using running by (auto intro!: running_index simp: st1 st2 write_branches_keep [where f = pk_fanout_complete]
        write_branches_keep [where f = pk_wave_index])
  from ordered_advance [OF inv _ k] running have adv: "ordered_loop generate ?gen ?req k st (set (concat sent))"
    by (simp add: st1)
  have supp: "\<forall>t \<in> set ts. supplied generate ?gen ?req (set (concat sent)) t"
    using ts(4) adv by (auto simp: req1 index ordered_loop_def)
  have "(?gen, bw_artifact_type s) \<in> set (concat (sent @ [payloads])) \<and> bw_status s = outcome_status (generate (?gen, bw_artifact_type s))"
    if "s \<in> entries ?gen st2" for s
  proof (cases "bw_artifact_type s \<in> set ts")
    case True
    then show ?thesis using new that by (simp add: ts(1))
  next
    case False
    with old that have "s \<in> entries ?gen st" by blast
    with adv show ?thesis by (simp add: ordered_loop_def)
  qed
  moreover have "\<forall>j < k. set (wave_at ?req j) \<subseteq> finished ?gen st2"
    using adv by (auto simp: ordered_loop_def fin)
  moreover have "\<forall>t \<in> set (wave_at ?req k). supplied generate ?gen ?req (set (concat (sent @ [payloads]))) t"
    using adv supplied_mono by (fastforce simp: ordered_loop_def)
  ultimately show ?thesis
    using ok2 same req1 first supp by (simp add: gen2 index ordered_loop_def ts(1) dependencies_first_snoc)
qed

lemma ordered_result:
  assumes "fanout_loop fuel cap generate st sent = Some (st', sent')" and "channel_ok st"
    and "steady st \<or> rejected_generation_types st \<noteq> []"
    and "ordered_loop generate (target_generation st) (requested_types st) (current_wave_index st) st (set (concat sent))"
    and "dependencies_first generate (requested_types st) sent"
  shows "dependencies_first generate (requested_types st) sent'"
  using assms
proof (induction fuel arbitrary: st sent)
  case (Suc fuel)
  define st1 where "st1 = checkpoint st (coordinate_artifact_fanout st)"
  show ?case
  proof (cases "route_after_artifact_workflow cap st1")
    case To_Render_Quality
    with Suc.prems(1,5) show ?thesis by (simp add: st1_def [symmetric])
  next
    case (Send_All payloads)
    define st2 where "st2 = fold (write_branch generate) payloads st1"
    from ordered_round [OF Suc.prems(2,3) st1_def Send_All st2_def Suc.prems(4,5)]
    have st2: "channel_ok st2" "steady st2" "requested_types st2 = requested_types st"
      "ordered_loop generate (target_generation st2) (requested_types st2) (current_wave_index st2) st2 (set (concat (sent @ [payloads])))"
      "dependencies_first generate (requested_types st) (sent @ [payloads])" by blast+
    have "fanout_loop fuel cap generate st2 (sent @ [payloads]) = Some (st', sent')"
      using Suc.prems(1) Send_All by (simp add: st1_def [symmetric] st2_def)
    from Suc.IH [OF this st2(1) disjI1 [OF st2(2)] st2(4)] st2(3,5) show ?thesis by simp
  qed
qed simp

lemma fresh_start:
  assumes "entries (target_generation st) st = {}" and "needs_new_generation_cycle st \<or> pk_wave_index st = None"
  shows "ordered_loop generate (target_generation st) (requested_types st) (current_wave_index st) st {}"
proof -
  let ?req = "requested_types st"
  have before: "wave_at ?req j = []" if "j < current_wave_index st" for j
  proof (cases "first_wave_from ?req 0")
    case None
    then show ?thesis by (simp add: first_wave_from_None)
  next
    case (Some k)
    with assms(2) have "current_wave_index st = k" by (auto simp: current_wave_index_def Let_def)
    with Some that show ?thesis by (simp add: first_wave_from_Some)
  qed
  have "supplied generate (target_generation st) ?req {} t" if "t \<in> set (wave_at ?req (current_wave_index st))" for t
    using requires_earlier_wave [OF _ that] before unfolding supplied_def by fastforce
  with before assms(1) show ?thesis by (simp add: ordered_loop_def)
qed

text \<open>
  C37: a fan-out that starts a generation ends, and a type is only generated after every requested
  type it depends on was generated successfully in an earlier round of the same generation, also when
  branches fail.
\<close>
theorem dependencies_come_first:
  assumes "channel_ok st" and "entries (target_generation st) st = {}"
    and "steady st \<or> rejected_generation_types st \<noteq> []"
    and "needs_new_generation_cycle st \<or> pk_wave_index st = None"
  shows "\<exists>st' sent. fanout_loop 13 cap generate st [] = Some (st', sent)
    \<and> dependencies_first generate (requested_types st) sent"
proof -
  from fanout_loop_total [OF assms(1)] obtain st' sent where "fanout_loop 13 cap generate st [] = Some (st', sent)" by blast
  moreover have "dependencies_first generate (requested_types st) []" by (simp add: dependencies_first_def)
  ultimately show ?thesis using ordered_result [OF _ assms(1,3)] fresh_start [OF assms(2,4)] by fastforce
qed

theorem dependencies_come_first_witness:
  "\<exists>st' sent. fanout_loop 13 2 (\<lambda>(gen, t). if t = ''quiz'' then Generation_Failed ''ValueError'' [] else Generated t t)
       (demo_pack [''lesson'', ''quiz'', ''recap'']) [] = Some (st', sent)
     \<and> dependencies_first (\<lambda>(gen, t). if t = ''quiz'' then Generation_Failed ''ValueError'' [] else Generated t t)
         [''lesson'', ''quiz'', ''recap''] sent"
proof -
  let ?st = "demo_pack [''lesson'', ''quiz'', ''recap'']"
  have quiet: "\<not> rejects_scoped (pk_gate_payload ?st)" by (simp add: demo_pack_def rejects_scoped_def)
  have "requested_types ?st = [''lesson'', ''quiz'', ''recap'']"
    using no_rejection [OF quiet]
    by (simp add: requested_types_def scoped_generation_types_def recorded_scope_types_def
        all_requested_types_def non_empty_def demo_pack_def)
  moreover have "channel_ok ?st" "entries (target_generation ?st) ?st = {}" "steady ?st" "pk_wave_index ?st = None"
    using quiet by (simp_all add: channel_ok_def in_entries set_eq_iff steady_def) (simp_all add: demo_pack_def)
  ultimately show ?thesis
    using dependencies_come_first [of ?st 2 "\<lambda>(gen, t). if t = ''quiz'' then Generation_Failed ''ValueError'' [] else Generated t t"]
    by simp
qed

end
