(* ===== verification/Healing_Laws.thy ===== *)
theory Healing_Laws
  imports Quality_Runtime
begin

text \<open>
  Laws of healing: it escalates after a bounded number of attempts, the quality stage counts every
  failure twice, and scoped replanning clears less than the dependency plan says.
\<close>

section \<open>Escalation\<close>

lemma dict_get_Cons: "dict_get ((j, v) # d) k = (if j = k then v else dict_get d k)"
  by (simp add: dict_get_def)

lemma dict_get_Nil [simp]: "dict_get [] k = JNull"
  by (simp add: dict_get_def)

lemma dict_get_update: "dict_get (AList.update j v d) k = (if j = k then v else dict_get d k)"
  by (simp add: dict_get_def update_conv')

lemma map_of_Cons_get: "map_of d k = Some v \<Longrightarrow> dict_get d k = v"
  by (simp add: dict_get_def)

lemma escalate_fields:
  "map_of (escalate p state n) ''fail_count'' = Some (JInt n)"
  "dict_get (escalate p state n) ''escalate'' = JBool True"
  "dict_get (escalate p state n) ''healing_strategy'' = JStr ''escalate''"
  unfolding escalate_def Let_def dict_get_def by simp_all

lemma replan_count: "map_of (replan state n) ''fail_count'' = Some (JInt n)"
  by (simp add: replan_def full_replan_def scoped_replan_def Let_def split: option.split)

lemma escalate_distinct: "distinct (map fst (escalate p state n))"
  by (simp add: escalate_def Let_def)

lemma replan_distinct: "distinct (map fst (replan state n))"
proof -
  have "distinct (map fst (full_replan n r))" "distinct (map fst (scoped_replan state n i))" for r i
    by (simp_all add: full_replan_def scoped_replan_def Let_def)
  then show ?thesis by (simp add: replan_def Let_def split: option.split)
qed

lemma strategy_distinct: "distinct (map fst (select_strategy env m state n))"
  by (simp add: select_strategy_def Let_def escalate_distinct replan_distinct retry_def rewrite_def reroute_def)

lemma strategy_count: "map_of (select_strategy env m state n) ''fail_count'' = Some (JInt n)"
  by (simp add: select_strategy_def Let_def escalate_fields retry_def rewrite_def reroute_def replan_count)

lemma strategy_escalate_iff:
  "dict_get (select_strategy env m state n) ''escalate'' = JBool True \<longleftrightarrow>
   dict_get (select_strategy env m state n) ''healing_strategy'' = JStr ''escalate''"
proof -
  have "dict_get (full_replan n r) ''escalate'' = JNull" "dict_get (full_replan n r) ''healing_strategy'' = JStr ''replan''"
    "dict_get (scoped_replan state n i) ''escalate'' = JNull" "dict_get (scoped_replan state n i) ''healing_strategy'' = JStr ''replan''"
    for n r i
    by (simp_all add: full_replan_def scoped_replan_def Let_def dict_get_Cons)
  then have "dict_get (replan state n) ''escalate'' = JNull" "dict_get (replan state n) ''healing_strategy'' = JStr ''replan''" for n
    by (simp_all add: replan_def Let_def split: option.split)
  then show ?thesis
    by (simp add: select_strategy_def Let_def escalate_fields retry_def rewrite_def reroute_def dict_get_Cons)
qed

lemma strategy_escalates:
  assumes "m < n \<or> 3 < n"
  shows "select_strategy env m state n = escalate (he_py_str env) state n"
  using assms by (auto simp: select_strategy_def Let_def)

lemma heal_cases:
  assumes "map_of state ''fail_count'' = Some (JInt c)"
  obtains result store' where "heal env now m state store = (Inr (result, healing_events env state result), store')"
    and "map_of result ''fail_count'' = Some (JInt (c + 1))" and "distinct (map fst result)"
    and "dict_get result ''escalate'' = JBool True \<longleftrightarrow> dict_get result ''healing_strategy'' = JStr ''escalate''"
    and "m < c + 1 \<or> 3 < c + 1 \<Longrightarrow> dict_get result ''escalate'' = JBool True"
proof -
  have n: "int_plus_one (get_or state ''fail_count'' (JInt 0)) = Inr (c + 1)" by (simp add: get_or_def assms)
  show ?thesis
  proof (cases "run_breaker env state (m + 1)")
    case None
    then show ?thesis
      using that strategy_count [of env m state "c + 1"] strategy_escalates [of m "c + 1" env state]
      by (simp add: heal_def n Let_def escalate_fields strategy_distinct strategy_escalate_iff del: map_of_eq_Some_iff)
  next
    case (Some br)
    let ?store = "snd (record_failure now br store)"
    show ?thesis
    proof (cases "breaker_exhausted now br ?store")
      case True
      then show ?thesis using that Some by (simp add: heal_def n Let_def escalate_fields escalate_distinct del: map_of_eq_Some_iff)
    next
      case False
      then show ?thesis
        using that Some strategy_count [of env m state "c + 1"] strategy_escalates [of m "c + 1" env state]
        by (simp add: heal_def n Let_def escalate_fields strategy_distinct strategy_escalate_iff del: map_of_eq_Some_iff)
    qed
  qed
qed

text \<open>
  Failures one after the other: each arrives as fields laid over the state, and what healing returns is
  laid over it in turn, until healing escalates.
\<close>

fun healing_rounds ::
  "healing_env \<Rightarrow> int \<Rightarrow> (instant \<times> json_object) list \<Rightarrow> json_object \<Rightarrow> breaker_store \<Rightarrow> json_object option" where
  "healing_rounds env m [] state store = None"
| "healing_rounds env m ((now, failure) # rest) state store =
     (let state' = dict_merge state failure
      in case heal env now m state' store of
           (Inr (result, _), store') \<Rightarrow>
             if dict_get result ''escalate'' = JBool True then Some result
             else healing_rounds env m rest (dict_merge state' result) store'
         | (Inl _, _) \<Rightarrow> None)"

lemma map_of_dict_merge: "map_of (dict_merge d e) = map_of d ++ map_of (rev e)"
proof (induction e rule: rev_induct)
  case (snoc kv e)
  then show ?case by (cases kv) (simp add: map_of_dict_merge_snoc map_add_def fun_eq_iff)
qed (simp add: dict_merge_def)

lemma map_of_dict_merge_other: "k \<notin> fst ` set e \<Longrightarrow> map_of (dict_merge d e) k = map_of d k"
  by (simp add: map_of_dict_merge map_add_def map_of_eq_None_iff split: option.splits)
    (metis map_of_eq_None_iff option.distinct(1) set_rev)

text \<open>
  However failures are classified, whatever the breaker remembers and whatever each failure lays
  over the state, healing escalates after at most \<open>max_retries + 1\<close> failures, and after at most four when
  more retries are configured.
\<close>
lemma healing_escalates:
  assumes "map_of state ''fail_count'' = Some (JInt c)" and "0 \<le> c"
    and "\<forall>(now, failure) \<in> set rounds. ''fail_count'' \<notin> fst ` set failure"
    and "min m 3 - c < int (length rounds)" and "rounds \<noteq> []"
  shows "\<exists>result. healing_rounds env m rounds state store = Some result
    \<and> dict_get result ''healing_strategy'' = JStr ''escalate''"
  using assms
proof (induction rounds arbitrary: state c store)
  case (Cons r rest)
  obtain now failure where r: "r = (now, failure)" by (cases r)
  let ?state = "dict_merge state failure"
  have count: "map_of ?state ''fail_count'' = Some (JInt c)"
    using Cons.prems(1,3) by (simp add: r map_of_dict_merge_other)
  obtain result store' where h: "heal env now m ?state store = (Inr (result, healing_events env ?state result), store')"
    and result: "map_of result ''fail_count'' = Some (JInt (c + 1))" "distinct (map fst result)"
    and named: "dict_get result ''escalate'' = JBool True \<longleftrightarrow> dict_get result ''healing_strategy'' = JStr ''escalate''"
    and last: "m < c + 1 \<or> 3 < c + 1 \<Longrightarrow> dict_get result ''escalate'' = JBool True"
    using heal_cases [OF count] by metis
  show ?case
  proof (cases "dict_get result ''escalate'' = JBool True")
    case True
    with h named show ?thesis by (simp add: r Let_def)
  next
    case False
    with last have "\<not> (m < c + 1 \<or> 3 < c + 1)" by blast
    then have small: "c + 1 \<le> m" "c + 1 \<le> 3" by simp_all
    then have rest: "min m 3 - (c + 1) < int (length rest)" "rest \<noteq> []" using Cons.prems(4) by auto
    have "map_of (dict_merge ?state result) ''fail_count'' = Some (JInt (c + 1))"
      using result by (simp add: dict_merge_lookup)
    from Cons.IH [OF this _ _ rest] Cons.prems(2,3)
    have "\<exists>res. healing_rounds env m rest (dict_merge ?state result) store' = Some res
        \<and> dict_get res ''healing_strategy'' = JStr ''escalate''" by simp
    with h False show ?thesis by (simp add: r Let_def)
  qed
qed simp

definition demo_env :: healing_env where
  "demo_env = \<lparr>he_py_str = (\<lambda>_. ''[]''), he_backoff_text = (\<lambda>_. ''0.5''), he_strong_default = ''4omc'',
     he_breaker_recovery = seconds 60, he_max_healing_attempts = 3, he_force_escalate = False\<rparr>"

lemma healing_escalates_witness:
  "\<exists>result. healing_rounds demo_env 5
      [(0, [(''fail_type'', JStr ''transient'')]), (1, []), (2, [(''fail_type'', JStr ''score'')]), (3, [])]
      [(''run_id'', JStr ''r1''), (''fail_count'', JInt 0)] (demo_store STORE_NULL) = Some result
     \<and> dict_get result ''healing_strategy'' = JStr ''escalate''"
  by (rule healing_escalates [where c = 0]) simp_all

section \<open>Failures are counted twice\<close>

lemma record_failure_loaded:
  assumes "bst_reachable store" and "bst_kind store \<noteq> STORE_NULL" and "record_failure now br store = (tripped, store')"
  shows "bst_reachable store' \<and> bst_kind store' = bst_kind store
    \<and> bs_failures (load_state now br store') = bs_failures (load_state now br store) + 1
    \<and> (bs_state (load_state now br store') = ''open'' \<longleftrightarrow> br_threshold br \<le> bs_failures (load_state now br store) + 1)"
proof -
  have life: "0 < redis_lifetime (br_recovery_timeout br)" by (simp add: redis_lifetime_def)
  have "load_state now br (save_state now br b store) = b" for b
    using assms(1,2) life
    by (cases "bst_kind store") (simp_all add: load_state_def save_state_def store_get_def store_set_def)
  with assms save_keeps show ?thesis
    by (auto simp: record_failure_def Let_def split: if_splits)
qed

lemma heal_counts:
  assumes "bst_reachable store" and "bst_kind store \<noteq> STORE_NULL"
    and "map_of state ''fail_count'' = Some (JInt c)" and "run_breaker env state (m + 1) = Some br"
  shows "\<exists>result events store'. heal env now m state store = (Inr (result, events), store')
    \<and> bst_reachable store' \<and> bst_kind store' = bst_kind store
    \<and> bs_failures (load_state now br store') = bs_failures (load_state now br store) + 1
    \<and> (m \<le> bs_failures (load_state now br store) \<longrightarrow> result = escalate (he_py_str env) state (c + 1))"
proof -
  obtain tripped store' where r: "record_failure now br store = (tripped, store')" by fastforce
  note rec = record_failure_loaded [OF assms(1,2) r]
  have n: "int_plus_one (get_or state ''fail_count'' (JInt 0)) = Inr (c + 1)" by (simp add: get_or_def assms(3))
  have threshold: "br_threshold br = m + 1" using assms(4) by (auto simp: run_breaker_def)
  have "breaker_exhausted now br store' \<longleftrightarrow> m \<le> bs_failures (load_state now br store)"
    using rec by (auto simp: breaker_exhausted_def Let_def threshold)
  with rec show ?thesis by (simp add: heal_def n assms(4) r Let_def)
qed

definition run_scope :: "healing_env \<Rightarrow> string \<Rightarrow> int \<Rightarrow> breaker" where
  "run_scope env run_id n =
     \<lparr>br_key = ''cb:run:'' @ run_id, br_threshold = n + 1, br_recovery_timeout = he_breaker_recovery env\<rparr>"

lemma quality_heal_counts:
  assumes "bst_reachable store" and "bst_kind store \<noteq> STORE_NULL" and "\<not> he_force_escalate env"
    and "max_healing_attempts env state = n" and "0 < n" and "string_value (dict_get state ''run_id'') = Some run_id"
    and br: "br = run_scope env run_id n"
  shows "\<exists>healing events store'. heal_quality_failure env now state classes issues store = (Inr (healing, events), store')
    \<and> bst_reachable store' \<and> bst_kind store' = bst_kind store
    \<and> bs_failures (load_state now br store') = bs_failures (load_state now br store) + 1
    \<and> (n \<le> bs_failures (load_state now br store) \<longrightarrow> distinct (map fst healing)
        \<and> dict_get healing ''escalate'' = JBool True
        \<and> dict_get healing ''fail_count'' = JInt (int_field state ''fail_count'' + 1)
        \<and> dict_get healing ''quality_recovery_route'' = JStr ''teacher_approval'')"
proof -
  let ?hs = "healing_state_of state classes issues"
  have run: "dict_get state ''run_id'' = JStr run_id" "run_id \<noteq> []"
    using assms(6) by (cases "dict_get state ''run_id''"; simp split: if_splits)+
  then have "run_breaker env ?hs (n + 1) = Some br"
    by (simp add: run_breaker_def healing_state_of_def dict_get_Cons string_field_def br run_scope_def)
  moreover have "map_of ?hs ''fail_count'' = Some (JInt (int_field state ''fail_count''))"
    by (simp add: healing_state_of_def)
  ultimately obtain result events store' where h: "heal env now n ?hs store = (Inr (result, events), store')"
    and st: "bst_reachable store'" "bst_kind store' = bst_kind store"
      "bs_failures (load_state now br store') = bs_failures (load_state now br store) + 1"
    and esc: "n \<le> bs_failures (load_state now br store) \<longrightarrow>
        result = escalate (he_py_str env) ?hs (int_field state ''fail_count'' + 1)"
    using heal_counts [OF assms(1,2)] by metis
  let ?healing = "AList.update ''quality_recovery_route'' (JStr (route_for_healing result classes)) result"
  have "heal_quality_failure env now state classes issues store = (Inr (?healing, events), store')"
    using assms(3,5) by (simp add: heal_quality_failure_def assms(4) h Let_def)
  moreover have "distinct (map fst ?healing) \<and> dict_get ?healing ''escalate'' = JBool True
      \<and> dict_get ?healing ''fail_count'' = JInt (int_field state ''fail_count'' + 1)
      \<and> dict_get ?healing ''quality_recovery_route'' = JStr ''teacher_approval''"
    if "n \<le> bs_failures (load_state now br store)"
  proof -
    from esc that have e: "result = escalate (he_py_str env) ?hs (int_field state ''fail_count'' + 1)" by blast
    show ?thesis unfolding e
      by (simp add: dict_get_update distinct_update escalate_distinct escalate_fields(2) route_for_healing_def
          map_of_Cons_get [OF escalate_fields(1)] del: map_of_eq_Some_iff)
  qed
  ultimately show ?thesis using st by blast
qed

text \<open>
  C22: when a gate finds faults, the stage runs healing twice, once only to log its route: the run's
  breaker, which is to open after \<open>n + 1\<close> failures, counts two for each. A pass that finds \<open>n - 1\<close> or more
  of them counted hands the run to the teacher, although fewer than \<open>n\<close> of its attempts may have been used.
\<close>
theorem healing_counted_twice:
  assumes "bst_reachable store" and "bst_kind store \<noteq> STORE_NULL" and "\<not> he_force_escalate env"
    and "max_healing_attempts env state = n" and "0 < n" and "string_value (dict_get state ''run_id'') = Some run_id"
    and "qf_coherence_issues found = []" and "qf_layer1_issues found = []" and "qf_hard_strategy_issues found = []"
    and "qf_gate_reports found = Some reports" and "failed_report_issues reports \<noteq> []"
  shows "\<exists>update events store'. render_quality env now found state store = (Inr (update, events), store')
    \<and> bs_failures (load_state now (run_scope env run_id n) store') = bs_failures (load_state now (run_scope env run_id n) store) + 2
    \<and> (n - 1 \<le> bs_failures (load_state now (run_scope env run_id n) store) \<longrightarrow>
        dict_get update ''fail_count'' = JInt (int_field state ''fail_count'' + 1)
        \<and> route_after_render_quality (string_value (dict_get update ''quality_recovery_route'')) = ''teacher_approval'')"
proof -
  let ?br = "run_scope env run_id n" and ?failed = "failed_report_issues reports" and ?classes = "failure_classes reports"
  note heal = quality_heal_counts [OF _ _ assms(3-6) refl]
  obtain h1 e1 store1 where 1: "heal_quality_failure env now state ?classes ?failed store = (Inr (h1, e1), store1)"
      "bst_reachable store1" "bst_kind store1 = bst_kind store"
      "bs_failures (load_state now ?br store1) = bs_failures (load_state now ?br store) + 1"
    using heal [OF assms(1,2)] by blast
  obtain h2 e2 store2 where 2: "heal_quality_failure env now state ?classes ?failed store1 = (Inr (h2, e2), store2)"
      "bs_failures (load_state now ?br store2) = bs_failures (load_state now ?br store1) + 1"
    and esc: "n \<le> bs_failures (load_state now ?br store1) \<longrightarrow> distinct (map fst h2)
        \<and> dict_get h2 ''escalate'' = JBool True \<and> dict_get h2 ''fail_count'' = JInt (int_field state ''fail_count'' + 1)
        \<and> dict_get h2 ''quality_recovery_route'' = JStr ''teacher_approval''"
    using heal [of store1 now] 1(2,3) assms(2) by metis
  have merged: "dict_get (dict_merge base h2) k = v" if "distinct (map fst h2)" "dict_get h2 k = v" "v \<noteq> JNull" for base k v
    using that by (simp add: dict_get_def dict_merge_lookup map_add_def split: option.splits del: map_of_eq_Some_iff)
  show ?thesis
    using assms(7-11) esc 1(4) 2(2)
    by (auto simp: render_quality_def Let_def 1(1) 2(1) merged route_after_render_quality_def)
qed

definition demo_findings :: quality_findings where
  "demo_findings = \<lparr>qf_coherence_issues = [], qf_layer1_issues = [], qf_hard_strategy_issues = [],
     qf_gate_reports = Some [\<lparr>qr_artifact_id = ''quiz'', qr_passed = False,
       qr_issues = [\<lparr>qi_failure_class = PII_LEAKAGE, qi_location = ''sections'', qi_message = ''name''\<rparr>]\<rparr>],
     qf_reviewer_reports = [], qf_core_artifacts = True, qf_judge = (True, []), qf_snapshots = []\<rparr>"

text \<open>The second failure of a run that is allowed three attempts.\<close>

theorem healing_counted_twice_witness:
  "\<exists>update events store'. render_quality demo_env (seconds 9) demo_findings
       [(''run_id'', JStr ''r1''), (''fail_count'', JInt 1)]
       (demo_store STORE_MEMORY\<lparr>bst_values := [''cb:run:r1'' \<mapsto> (\<lparr>bs_failures = 2, bs_state = ''closed'',
          bs_last_failure_time = 0\<rparr>, 0)]\<rparr>) = (Inr (update, events), store')
     \<and> dict_get update ''fail_count'' = JInt 2
     \<and> route_after_render_quality (string_value (dict_get update ''quality_recovery_route'')) = ''teacher_approval''"
proof -
  let ?store = "demo_store STORE_MEMORY\<lparr>bst_values := [''cb:run:r1'' \<mapsto> (\<lparr>bs_failures = 2, bs_state = ''closed'',
          bs_last_failure_time = 0\<rparr>, 0)]\<rparr>" and ?state = "[(''run_id'', JStr ''r1''), (''fail_count'', JInt 1)]"
  have h: "bst_reachable ?store" "bst_kind ?store \<noteq> STORE_NULL" "\<not> he_force_escalate demo_env"
    "max_healing_attempts demo_env ?state = 3" "(0::int) < 3" "string_value (dict_get ?state ''run_id'') = Some ''r1''"
    "qf_coherence_issues demo_findings = []" "qf_layer1_issues demo_findings = []" "qf_hard_strategy_issues demo_findings = []"
    by (simp_all add: demo_store_def demo_env_def max_healing_attempts_def dict_get_def demo_findings_def)
  obtain reports where reports: "qf_gate_reports demo_findings = Some reports" "failed_report_issues reports \<noteq> []"
    by (simp add: demo_findings_def failed_report_issues_def)
  have two: "bs_failures (load_state (seconds 9) (run_scope demo_env ''r1'' 3) ?store) = 2"
    "int_field ?state ''fail_count'' = 1"
    by (simp_all add: load_state_def store_get_def demo_store_def run_scope_def int_field_def dict_get_def)
  from healing_counted_twice [OF h reports, of "seconds 9"] show ?thesis unfolding two by auto
qed

end
