(* ===== verification/Pack_Laws.thy ===== *)
theory Pack_Laws
  imports Pack_Graph Fanout_Order Healing_Laws
begin

text \<open>
  Laws of the stage graph: the verdict of the compliance gate is never revised, references never leave
  the channel, and four situations from which no execution ever leaves a cycle of skipped stages.
\<close>

section \<open>Steps\<close>

definition idle :: "graph_state \<Rightarrow> graph_state" where
  "idle st = st\<lparr>gs_pack := checkpoint (gs_pack st) (gs_pack st)\<rparr>"

lemma skipped_stage:
  assumes "s \<in> set (pk_completed_stages (gs_pack st))" and "\<not> can_reenter_stage st s"
  shows "stage_node cfg inp s st store = (Inr (idle st), store)"
  using assms by (simp add: stage_node_def idle_def Let_def)

lemma idle_fields [simp]:
  "gs_compliance_passed (idle st) = gs_compliance_passed st"
  "gs_teacher_approved (idle st) = gs_teacher_approved st"
  "gs_strategy_plan (idle st) = gs_strategy_plan st"
  "gs_approved_snapshots (idle st) = gs_approved_snapshots st"
  "pk_completed_stages (gs_pack (idle st)) = pk_completed_stages (gs_pack st)"
  "pk_recovery_route (gs_pack (idle st)) = pk_recovery_route (gs_pack st)"
  "pk_fanout_complete (gs_pack (idle st)) = pk_fanout_complete (gs_pack st)"
  "pk_gate_payload (gs_pack (idle st)) = pk_gate_payload (gs_pack st)"
  by (simp_all add: idle_def)

lemma no_rejections_mono:
  assumes "scoped_rejections refs p = []" and "set refs' \<subseteq> set refs"
  shows "scoped_rejections refs' p = []"
proof (cases "rejects_scoped p \<and> gp_rejections p \<noteq> None")
  case True
  then obtain raws where raws: "gp_rejections p = Some raws" by blast
  have "view ar_artifact_id refs' i = None" if "(i, reason) \<in> set raws" for i reason
  proof -
    have "view ar_artifact_id refs i = None"
      using assms(1) True raws that
      by (fastforce simp: scoped_rejections_def List.map_filter_def filter_empty_conv split: option.splits)
    then show ?thesis using assms(2) by (auto simp: view_None)
  qed
  then show ?thesis
    using True raws by (auto simp: scoped_rejections_def List.map_filter_def filter_empty_conv)
next
  case False
  then show ?thesis by (auto simp: scoped_rejections_def)
qed

lemma merged_references: "set (stable_merge_artifact_references refs refs) \<subseteq> set refs"
  using ref_channel.from_either by blast

section \<open>Verdicts\<close>

lemma can_reenter_never:
  "stage \<in> {SETUP_CONTRACT, TRIAGE, UNIT_PLANNING, UNIT_APPROVAL, UNIT_PREP, PREPLANNING_SEARCH,
     PROVISIONAL_COMPONENT_STRATEGY, FINALIZE_COMPONENT_STRATEGY, COMPLIANCE_GATE, EXPORT_FINALIZE}
   \<Longrightarrow> \<not> can_reenter_stage st stage"
  by (auto simp: can_reenter_stage_def Let_def)

lemma apply_values_keeps [simp]:
  "gs_compliance_passed (apply_values u st) = gs_compliance_passed st"
  "pk_completed_stages (gs_pack (apply_values u st)) = pk_completed_stages (gs_pack st)"
  "pk_references (gs_pack (apply_values u st)) = pk_references (gs_pack st)"
  by (simp_all add: apply_values_def set_route_def Let_def split: option.splits)

lemma stage_update_compliance:
  assumes "stage_update cfg inp s st store = (Inr st', store')" and "s \<noteq> COMPLIANCE_GATE"
  shows "gs_compliance_passed st' = gs_compliance_passed st"
  using assms
  by (cases s) (auto simp: stage_update_def setup_contract_def unit_approval_def set_route_def teacher_approval_def
      export_finalize_def Let_def split: prod.splits sum.splits if_splits)

lemma stage_update_completed:
  assumes "stage_update cfg inp s st store = (Inr st', store')"
  shows "pk_completed_stages (gs_pack st') = pk_completed_stages (gs_pack st)"
  using assms
  by (cases s) (auto simp: stage_update_def setup_contract_def unit_approval_def set_route_def teacher_approval_def
      export_finalize_def compliance_gate_state_def Let_def split: prod.splits sum.splits if_splits)

lemma stage_node_cases:
  assumes "stage_node cfg inp s st store = (Inr st', store')"
  obtains (skipped) "s \<in> set (pk_completed_stages (gs_pack st))" "\<not> can_reenter_stage st s" "st' = idle st" "store' = store"
  | (run) st1 where "s \<notin> set (pk_completed_stages (gs_pack st)) \<or> can_reenter_stage st s"
      "stage_update cfg inp s st store = (Inr st1, store')"
      "st' = (let st2 = if s = ARTIFACT_WORKFLOW \<and> \<not> pk_fanout_complete (gs_pack st1) then st1 else complete_stage s st1
        in st2\<lparr>gs_pack := checkpoint (gs_pack st) (gs_pack st2)\<rparr>)"
  using assms by (auto simp: stage_node_def idle_def Let_def split: if_splits prod.splits sum.splits)

lemma stage_node_verdict:
  assumes "stage_node cfg inp s st store = (Inr st', store')" and "COMPLIANCE_GATE \<in> set (pk_completed_stages (gs_pack st))"
  shows "COMPLIANCE_GATE \<in> set (pk_completed_stages (gs_pack st')) \<and> gs_compliance_passed st' = gs_compliance_passed st"
  using assms(1)
proof (cases rule: stage_node_cases)
  case skipped
  then show ?thesis using assms(2) by simp
next
  case (run st1)
  then have "s \<noteq> COMPLIANCE_GATE" using assms(2) can_reenter_never by blast
  with run stage_update_compliance stage_update_completed [OF run(2)] assms(2)
  show ?thesis by (auto simp: complete_stage_def Let_def)
qed

text \<open>
  C4: once the compliance gate has run, no execution of the graph runs it again: its verdict
  holds for all content regenerated later. A run it blocked is never let through, and content
  regenerated at the teacher's request is not checked.
\<close>
theorem compliance_verdict_final:
  assumes "(graph_step cfg)\<^sup>*\<^sup>* (n, st, store) (n', st', store')"
    and "COMPLIANCE_GATE \<in> set (pk_completed_stages (gs_pack st))"
  shows "gs_compliance_passed st' = gs_compliance_passed st
    \<and> next_node cfg COMPLIANCE_GATE st' = At (if gs_compliance_passed st then TEACHER_APPROVAL else ARTIFACT_WORKFLOW)"
proof -
  have "COMPLIANCE_GATE \<in> set (pk_completed_stages (gs_pack st')) \<and> gs_compliance_passed st' = gs_compliance_passed st"
    using assms
  proof (induction "(n', st', store')" arbitrary: n' st' store' rule: rtranclp_induct)
    case (step y)
    obtain m u us where y: "y = (m, u, us)" by (cases y)
    from step.hyps(3) [OF y step.prems] have inv: "COMPLIANCE_GATE \<in> set (pk_completed_stages (gs_pack u))"
      "gs_compliance_passed u = gs_compliance_passed st" by auto
    from step.hyps(2) [unfolded y] show ?case
    proof cases
      case (stage inp s)
      then show ?thesis using stage_node_verdict inv by auto
    next
      case (branches payloads generate)
      then show ?thesis using inv by (simp add: write_branches_keep [where f = pk_completed_stages])
    qed
  qed simp
  then show ?thesis by (simp add: next_node_def route_after_compliance_gate_def)
qed

section \<open>References\<close>

lemma write_branches_references:
  "ar_document_id ` set (pk_references st) \<subseteq> ar_document_id ` set (pk_references (fold (write_branch generate) payloads st))"
proof (induction payloads arbitrary: st)
  case (Cons p payloads)
  have "ar_document_id ` set (pk_references st) \<subseteq> ar_document_id ` set (pk_references (write_branch generate p st))"
    using ref_channel.entries_stay by (simp add: write_branch_def case_prod_beta)
  with Cons show ?case by fastforce
qed simp

text \<open>
  No step removes an artifact from the reference channel: the coordinator computes a list without the
  superseded generation, but the channel's reducer merges it into the old value. Quality checks, approval
  and export keep seeing the documents that regeneration was to replace.
\<close>
lemma references_never_leave:
  assumes "(graph_step cfg)\<^sup>*\<^sup>* (n, st, store) (n', st', store')"
  shows "ar_document_id ` set (pk_references (gs_pack st)) \<subseteq> ar_document_id ` set (pk_references (gs_pack st'))"
  using assms
proof (induction "(n', st', store')" arbitrary: n' st' store' rule: rtranclp_induct)
  case (step y)
  obtain m u us where y: "y = (m, u, us)" by (cases y)
  have "ar_document_id ` set (pk_references (gs_pack u)) \<subseteq> ar_document_id ` set (pk_references (gs_pack st'))"
    using step.hyps(2) [unfolded y]
  proof cases
    case (stage inp s)
    from stage(3) obtain new where "pk_references (gs_pack st') = stable_merge_artifact_references (pk_references (gs_pack u)) new"
      by (cases rule: stage_node_cases) (auto simp: idle_def checkpoint_def Let_def)
    then show ?thesis using ref_channel.entries_stay by simp
  next
    case (branches payloads generate)
    then show ?thesis using write_branches_references by simp
  qed
  with step.hyps(3) [OF y] show ?case by blast
qed simp

definition demo_graph :: "stage list \<Rightarrow> graph_state" where
  "demo_graph completed =
     \<lparr>gs_pack = (demo_pack [''lesson''])\<lparr>pk_fanout_complete := True, pk_completed_stages := completed,
        pk_references := [\<lparr>ar_document_id = ''r1:artifact:1:lesson'', ar_artifact_id = ''lesson'', ar_artifact_type = ''lesson'',
          ar_generation_id = ''r1:artifact:1'', ar_version = 1, ar_title = ''Fractions''\<rparr>]\<rparr>,
      gs_values = [], gs_compliance_passed = False, gs_teacher_approved = False, gs_strategy_plan = False,
      gs_snapshots = [], gs_approved_snapshots = [], gs_exported = [], gs_export_blocked = False\<rparr>"

definition demo_config :: graph_config where
  "demo_config = \<lparr>gc_healing = demo_env, gc_parallelism = 2, gc_component_strategy = False, gc_plan_unit = False\<rparr>"

lemma demo_step:
  "graph_step demo_config (At COMPLIANCE_GATE, demo_graph [COMPLIANCE_GATE], store)
     (At ARTIFACT_WORKFLOW, idle (demo_graph [COMPLIANCE_GATE]), store)"
proof -
  have "COMPLIANCE_GATE \<in> set (pk_completed_stages (gs_pack (demo_graph [COMPLIANCE_GATE])))"
    by (simp add: demo_graph_def)
  from graph_step.stage [OF skipped_stage [OF this can_reenter_never]]
  have "graph_step demo_config (At COMPLIANCE_GATE, demo_graph [COMPLIANCE_GATE], store)
      (next_node demo_config COMPLIANCE_GATE (idle (demo_graph [COMPLIANCE_GATE])), idle (demo_graph [COMPLIANCE_GATE]), store)"
    by simp
  moreover have "next_node demo_config COMPLIANCE_GATE (idle (demo_graph [COMPLIANCE_GATE])) = At ARTIFACT_WORKFLOW"
    by (simp add: next_node_def route_after_compliance_gate_def) (simp add: demo_graph_def)
  ultimately show ?thesis by simp
qed

theorem compliance_verdict_final_witness:
  "\<not> gs_compliance_passed (idle (demo_graph [COMPLIANCE_GATE]))
   \<and> next_node demo_config COMPLIANCE_GATE (idle (demo_graph [COMPLIANCE_GATE])) = At ARTIFACT_WORKFLOW"
  using compliance_verdict_final [OF r_into_rtranclp [of "graph_step demo_config", OF demo_step [of "demo_store STORE_NULL"]]]
  by (simp add: demo_graph_def)

lemma references_never_leave_witness:
  "''r1:artifact:1:lesson'' \<in> ar_document_id ` set (pk_references (gs_pack (idle (demo_graph [COMPLIANCE_GATE]))))"
  using references_never_leave [OF r_into_rtranclp [of "graph_step demo_config", OF demo_step [of "demo_store STORE_NULL"]]]
  by (simp add: demo_graph_def)

section \<open>Cycles without an exit\<close>

text \<open>
  Situations in which every stage of a cycle has been completed and may not be re-entered: after a
  compliance violation whose regeneration passed the quality checks, after a quality failure that asks for
  research, after the teacher rejected or edited a unit plan, and after an answer to the content gate that
  edits a section or selects artifacts without rejecting any of them.
\<close>

definition settled :: "graph_state \<Rightarrow> bool" where
  "settled st \<longleftrightarrow> pk_fanout_complete (gs_pack st)
     \<and> scoped_rejections (pk_references (gs_pack st)) (pk_gate_payload (gs_pack st)) = []"

inductive trapped :: "graph_config \<Rightarrow> stage set \<Rightarrow> graph_state \<Rightarrow> bool" for cfg where
  compliance: "settled st \<Longrightarrow> {ARTIFACT_WORKFLOW, RENDER_QUALITY, COMPLIANCE_GATE} \<subseteq> set (pk_completed_stages (gs_pack st))
    \<Longrightarrow> pk_recovery_route (gs_pack st) = None \<Longrightarrow> \<not> gs_compliance_passed st
    \<Longrightarrow> trapped cfg {ARTIFACT_WORKFLOW, RENDER_QUALITY, COMPLIANCE_GATE} st"
| research: "settled st \<Longrightarrow> {ARTIFACT_WORKFLOW, RENDER_QUALITY} \<subseteq> set (pk_completed_stages (gs_pack st))
    \<Longrightarrow> pk_recovery_route (gs_pack st) = Some ''post_blueprint_research'' \<Longrightarrow> \<not> gc_component_strategy cfg
    \<Longrightarrow> trapped cfg {POST_BLUEPRINT_RESEARCH, ARTIFACT_WORKFLOW, RENDER_QUALITY} st"
| unit_plan: "{UNIT_PLANNING, UNIT_APPROVAL} \<subseteq> set (pk_completed_stages (gs_pack st)) \<Longrightarrow> \<not> gs_teacher_approved st
    \<Longrightarrow> trapped cfg {UNIT_PLANNING, UNIT_APPROVAL} st"
| content_edit: "settled st
    \<Longrightarrow> {ARTIFACT_WORKFLOW, RENDER_QUALITY, COMPLIANCE_GATE, TEACHER_APPROVAL} \<subseteq> set (pk_completed_stages (gs_pack st))
    \<Longrightarrow> pk_recovery_route (gs_pack st) = None \<Longrightarrow> gs_compliance_passed st \<Longrightarrow> \<not> gs_teacher_approved st
    \<Longrightarrow> is_scoped_teacher_action (pk_gate_payload (gs_pack st)) \<or> gp_section_edit (pk_gate_payload (gs_pack st))
    \<Longrightarrow> trapped cfg {ARTIFACT_WORKFLOW, RENDER_QUALITY, COMPLIANCE_GATE, TEACHER_APPROVAL} st"

lemma settled_write:
  assumes "settled st" and "pk_fanout_complete (gs_pack st') = pk_fanout_complete (gs_pack st)"
    and "pk_gate_payload (gs_pack st') = pk_gate_payload (gs_pack st)"
    and "set (pk_references (gs_pack st')) \<subseteq> set (pk_references (gs_pack st))"
  shows "settled st'"
  using assms(1) no_rejections_mono [OF _ assms(4), of "pk_gate_payload (gs_pack st)"]
  by (simp add: settled_def assms(2,3))

lemma settled_idle: "settled st \<Longrightarrow> settled (idle st)"
  by (rule settled_write) (use merged_references in \<open>auto simp: idle_def checkpoint_def\<close>)

lemma settled_blocked:
  assumes "settled st"
  shows "pk_recovery_route (gs_pack st) \<notin> {Some ''artifact_workflow'', Some ''planning_blueprint''} \<Longrightarrow> \<not> can_reenter_stage st ARTIFACT_WORKFLOW"
    and "pk_recovery_route (gs_pack st) \<noteq> Some ''artifact_workflow'' \<Longrightarrow> \<not> can_reenter_stage st RENDER_QUALITY"
    and "pk_recovery_route (gs_pack st) \<noteq> Some ''artifact_workflow'' \<Longrightarrow> \<not> can_reenter_stage st TEACHER_APPROVAL"
  using assms by (auto simp: can_reenter_stage_def settled_def Let_def)

text \<open>A trap depends on the state only through fields that skipped stages keep.\<close>

lemma trapped_write:
  assumes "trapped cfg cycle st" and "settled st \<Longrightarrow> settled st'"
    and "set (pk_completed_stages (gs_pack st)) \<subseteq> set (pk_completed_stages (gs_pack st'))"
    and "pk_recovery_route (gs_pack st') = pk_recovery_route (gs_pack st)"
    and "gs_compliance_passed st' = gs_compliance_passed st" and "gs_teacher_approved st' = gs_teacher_approved st"
    and "pk_gate_payload (gs_pack st') = pk_gate_payload (gs_pack st)"
  shows "trapped cfg cycle st'"
  using assms(1)
proof cases
  case compliance
  with assms show ?thesis by (simp only: compliance(1)) (rule trapped.compliance, auto)
next
  case research
  with assms show ?thesis by (simp only: research(1)) (rule trapped.research, auto)
next
  case unit_plan
  with assms show ?thesis by (simp only: unit_plan(1)) (rule trapped.unit_plan, auto)
next
  case content_edit
  with assms show ?thesis by (simp only: content_edit(1)) (rule trapped.content_edit, auto)
qed

lemma trapped_idle: "trapped cfg cycle st \<Longrightarrow> trapped cfg cycle (idle st)"
  by (rule trapped_write) (simp_all add: settled_idle)

lemma trapped_next:
  assumes "trapped cfg cycle st" and "s \<in> cycle"
  shows "next_node cfg s st \<in> At ` cycle"
  using assms(1)
proof cases
  case compliance
  with assms(2) show ?thesis
    by (auto simp: next_node_def settled_def route_after_artifact_workflow_def route_after_compliance_gate_def
        stage_of_route_def route_after_render_quality_def)
next
  case research
  with assms(2) show ?thesis
    by (auto simp: next_node_def settled_def route_after_artifact_workflow_def stage_of_route_def
        route_after_render_quality_def teaching_pack_stages_def TEACHING_PACK_STAGES_def)
next
  case unit_plan
  with assms(2) show ?thesis by (auto simp: next_node_def route_after_unit_approval_def)
next
  case content_edit
  with assms(2) show ?thesis
    by (auto simp: next_node_def settled_def route_after_artifact_workflow_def route_after_compliance_gate_def
        stage_of_route_def route_after_render_quality_def route_after_teacher_approval_def Let_def)
qed

lemma trapped_skips:
  assumes "trapped cfg cycle st" and "s \<in> cycle" and "s \<noteq> POST_BLUEPRINT_RESEARCH"
  shows "s \<in> set (pk_completed_stages (gs_pack st)) \<and> \<not> can_reenter_stage st s"
  using assms(1)
proof cases
  case compliance
  with assms(2) settled_blocked show ?thesis by (auto simp: can_reenter_never)
next
  case research
  with assms(2,3) settled_blocked show ?thesis by auto
next
  case unit_plan
  with assms(2) show ?thesis by (auto simp: can_reenter_never)
next
  case content_edit
  with assms(2) settled_blocked show ?thesis by (auto simp: can_reenter_never)
qed

lemma trapped_stage:
  assumes "trapped cfg cycle st" and "s \<in> cycle" and "stage_node cfg inp s st store = (Inr st', store')"
  shows "trapped cfg cycle st'"
  using assms(3)
proof (cases rule: stage_node_cases)
  case skipped
  with assms(1) trapped_idle show ?thesis by simp
next
  case (run st1)
  with trapped_skips [OF assms(1,2)] have s: "s = POST_BLUEPRINT_RESEARCH" by blast
  with run have st': "st' = (complete_stage s st)\<lparr>gs_pack := checkpoint (gs_pack st) (gs_pack (complete_stage s st))\<rparr>"
    by (simp add: stage_update_def Let_def)
  have "settled st \<Longrightarrow> settled st'"
    by (rule settled_write) (use merged_references in \<open>auto simp: st' complete_stage_def checkpoint_def\<close>)
  with assms(1) show ?thesis by (rule trapped_write) (auto simp: st' complete_stage_def)
qed

lemma trapped_step:
  assumes "graph_step cfg (At s, st, store) next" and "trapped cfg cycle st" and "s \<in> cycle"
  shows "\<exists>s' st' store'. next = (At s', st', store') \<and> s' \<in> cycle \<and> trapped cfg cycle st'"
  using assms(1)
proof cases
  case (stage inp st' store')
  from trapped_stage [OF assms(2,3) stage(2)] have st': "trapped cfg cycle st'" .
  with trapped_next [OF st' assms(3)] stage(1) show ?thesis by auto
qed

lemma trapped_continues:
  assumes "trapped cfg cycle st" and "s \<in> cycle"
  shows "\<exists>next. graph_step cfg (At s, st, store) next"
proof (cases "s = POST_BLUEPRINT_RESEARCH")
  case True
  then have "\<exists>st'. stage_node cfg inp s st store = (Inr st', store)" for inp
    by (auto simp: stage_node_def stage_update_def Let_def)
  then show ?thesis by (blast intro: graph_step.stage)
next
  case False
  with trapped_skips [OF assms] skipped_stage show ?thesis by (blast intro: graph_step.stage)
qed

text \<open>
  C5: four situations from which no execution of the graph finishes, asks the teacher
  anything or regenerates anything: whatever checks and agents answer, it circles through completed stages
  for ever, and can always take another step.
\<close>
theorem graph_livelocks:
  assumes "(graph_step cfg)\<^sup>*\<^sup>* (At s, st, store) (n, st', store')" and "trapped cfg cycle st" and "s \<in> cycle"
  shows "n \<in> At ` cycle \<and> (\<exists>next. graph_step cfg (n, st', store') next)
    \<and> (\<forall>s' \<in> cycle - {POST_BLUEPRINT_RESEARCH}. \<forall>inp store. stage_node cfg inp s' st' store = (Inr (idle st'), store))"
proof -
  have "\<exists>s'. n = At s' \<and> s' \<in> cycle \<and> trapped cfg cycle st'"
    using assms(1)
  proof (induction "(n, st', store')" arbitrary: n st' store' rule: rtranclp_induct)
    case base
    then show ?case using assms(2,3) by simp
  next
    case (step y)
    obtain m u us where y: "y = (m, u, us)" by (cases y)
    from step.hyps(3) [OF y] step.hyps(2) y trapped_step show ?case by blast
  qed
  then show ?thesis using trapped_continues trapped_skips skipped_stage by fastforce
qed

text \<open>How the traps are entered: each by one ordinary step.\<close>

lemma teacher_edit_traps:
  assumes "stage_node cfg inp TEACHER_APPROVAL st store = (Inr st', store')"
    and "TEACHER_APPROVAL \<notin> set (pk_completed_stages (gs_pack st))"
    and "{ARTIFACT_WORKFLOW, RENDER_QUALITY, COMPLIANCE_GATE} \<subseteq> set (pk_completed_stages (gs_pack st))"
    and "pk_fanout_complete (gs_pack st)" and "pk_recovery_route (gs_pack st) = None" and "gs_compliance_passed st"
    and response: "gp_action (si_response inp) \<notin> {[], ''approve'', ''approve_selected'', ''reject_selected''}"
    "gp_rejection_type (si_response inp) \<noteq> ''scoped''" "gp_section_edit (si_response inp)"
  shows "trapped cfg {ARTIFACT_WORKFLOW, RENDER_QUALITY, COMPLIANCE_GATE, TEACHER_APPROVAL} st'
    \<and> next_node cfg TEACHER_APPROVAL st' = At ARTIFACT_WORKFLOW"
proof -
  have st': "st' = (let st2 = complete_stage TEACHER_APPROVAL (teacher_approval (si_trusted inp) (si_response inp) st)
      in st2\<lparr>gs_pack := checkpoint (gs_pack st) (gs_pack st2)\<rparr>)"
    using assms(1,2) by (simp add: stage_node_def stage_update_def Let_def)
  have payload: "pk_gate_payload (gs_pack st') = si_response inp" and approved: "\<not> gs_teacher_approved st'"
    using response(1) by (auto simp: st' complete_stage_def teacher_approval_def normalized_teacher_action_def Let_def)
  have rest: "set (pk_completed_stages (gs_pack st')) = insert TEACHER_APPROVAL (set (pk_completed_stages (gs_pack st)))"
    "pk_fanout_complete (gs_pack st') = pk_fanout_complete (gs_pack st)"
    "pk_recovery_route (gs_pack st') = pk_recovery_route (gs_pack st)" "gs_compliance_passed st' = gs_compliance_passed st"
    by (simp_all add: st' complete_stage_def teacher_approval_def Let_def)
  have quiet: "scoped_rejections refs (si_response inp) = []" for refs
    using response(1,2) by (simp add: scoped_rejections_def rejects_scoped_def)
  have "trapped cfg {ARTIFACT_WORKFLOW, RENDER_QUALITY, COMPLIANCE_GATE, TEACHER_APPROVAL} st'"
    by (rule trapped.content_edit) (use assms(3-6) response(3) in \<open>auto simp: settled_def quiet payload rest approved\<close>)
  moreover have "next_node cfg TEACHER_APPROVAL st' = At ARTIFACT_WORKFLOW"
    using response(3) by (simp add: next_node_def route_after_teacher_approval_def approved payload Let_def)
  ultimately show ?thesis by blast
qed

lemma unit_rejection_traps:
  assumes "stage_node cfg inp UNIT_APPROVAL st store = (Inr st', store')"
    and "UNIT_APPROVAL \<notin> set (pk_completed_stages (gs_pack st))" and "UNIT_PLANNING \<in> set (pk_completed_stages (gs_pack st))"
    and "gp_action (si_response inp) \<noteq> ''approve''"
  shows "trapped cfg {UNIT_PLANNING, UNIT_APPROVAL} st' \<and> next_node cfg UNIT_APPROVAL st' = At UNIT_PLANNING"
proof -
  have st': "st' = (let st2 = complete_stage UNIT_APPROVAL (unit_approval (si_response inp) st)
      in st2\<lparr>gs_pack := checkpoint (gs_pack st) (gs_pack st2)\<rparr>)"
    using assms(1,2) by (simp add: stage_node_def stage_update_def Let_def)
  have "\<not> gs_teacher_approved st'" using assms(4) by (auto simp: st' complete_stage_def unit_approval_def Let_def)
  moreover have "{UNIT_PLANNING, UNIT_APPROVAL} \<subseteq> set (pk_completed_stages (gs_pack st'))"
    using assms(3) by (auto simp: st' complete_stage_def unit_approval_def Let_def)
  ultimately show ?thesis by (auto intro: trapped.unit_plan simp: next_node_def route_after_unit_approval_def)
qed

lemma quality_traps:
  assumes "stage_node cfg inp RENDER_QUALITY st store = (Inr st', store')" and "settled st" and "\<not> gc_component_strategy cfg"
    and "ARTIFACT_WORKFLOW \<in> set (pk_completed_stages (gs_pack st))"
    and "pk_recovery_route (gs_pack st') = Some ''post_blueprint_research''
      \<or> pk_recovery_route (gs_pack st') = None \<and> COMPLIANCE_GATE \<in> set (pk_completed_stages (gs_pack st)) \<and> \<not> gs_compliance_passed st"
  shows "\<exists>cycle. trapped cfg cycle st' \<and> next_node cfg RENDER_QUALITY st' \<in> At ` cycle"
  using assms(1)
proof (cases rule: stage_node_cases)
  have finish: ?thesis
    if "settled st'" "{ARTIFACT_WORKFLOW, RENDER_QUALITY} \<union> set (pk_completed_stages (gs_pack st)) \<subseteq> set (pk_completed_stages (gs_pack st'))"
      "gs_compliance_passed st' = gs_compliance_passed st"
    using assms(5)
  proof
    assume route: "pk_recovery_route (gs_pack st') = Some ''post_blueprint_research''"
    then have "trapped cfg {POST_BLUEPRINT_RESEARCH, ARTIFACT_WORKFLOW, RENDER_QUALITY} st'"
      using that assms(3) by (intro trapped.research) auto
    then show ?thesis using trapped_next by blast
  next
    assume "pk_recovery_route (gs_pack st') = None \<and> COMPLIANCE_GATE \<in> set (pk_completed_stages (gs_pack st)) \<and> \<not> gs_compliance_passed st"
    then have "trapped cfg {ARTIFACT_WORKFLOW, RENDER_QUALITY, COMPLIANCE_GATE} st'"
      using that by (intro trapped.compliance) auto
    then show ?thesis using trapped_next by blast
  qed
  {
    case skipped
    with assms(2,4) settled_idle show ?thesis by (intro finish) auto
  next
    case (run st1)
    then obtain update where st1: "st1 = apply_values update st"
      by (auto simp: stage_update_def Let_def split: prod.splits sum.splits)
    have st': "st' = (complete_stage RENDER_QUALITY st1)\<lparr>gs_pack := checkpoint (gs_pack st) (gs_pack (complete_stage RENDER_QUALITY st1))\<rparr>"
      using run by (simp add: Let_def)
    have "pk_fanout_complete (gs_pack st1) = pk_fanout_complete (gs_pack st)" "pk_gate_payload (gs_pack st1) = pk_gate_payload (gs_pack st)"
      by (simp_all add: st1 apply_values_def set_route_def Let_def split: option.splits)
    then have "settled st'"
      by (intro settled_write [OF assms(2)]) (use merged_references in \<open>auto simp: st' complete_stage_def checkpoint_def st1\<close>)
    then show ?thesis using assms(4) by (intro finish) (auto simp: st' complete_stage_def st1)
  }
qed

definition demo_inputs :: stage_inputs where
  "demo_inputs = \<lparr>si_now = 0, si_findings = demo_findings, si_violations = [],
     si_response = \<lparr>gp_action = ''edit'', gp_rejection_type = [], gp_rejections = None, gp_section_edit = False\<rparr>,
     si_trusted = False, si_files = []\<rparr>"

text \<open>A teacher who asks for changes to a unit plan: the plan is never made again.\<close>

theorem graph_livelocks_witness:
  "\<exists>st'. stage_node demo_config demo_inputs UNIT_APPROVAL (demo_graph [UNIT_PLANNING]) (demo_store STORE_NULL)
       = (Inr st', demo_store STORE_NULL)
     \<and> (\<exists>next. graph_step demo_config (At UNIT_PLANNING, st', demo_store STORE_NULL) next)
     \<and> stage_node demo_config demo_inputs UNIT_PLANNING st' (demo_store STORE_NULL) = (Inr (idle st'), demo_store STORE_NULL)
     \<and> stage_node demo_config demo_inputs UNIT_APPROVAL st' (demo_store STORE_NULL) = (Inr (idle st'), demo_store STORE_NULL)"
proof -
  obtain st' where st': "stage_node demo_config demo_inputs UNIT_APPROVAL (demo_graph [UNIT_PLANNING]) (demo_store STORE_NULL)
       = (Inr st', demo_store STORE_NULL)"
    by (simp add: stage_node_def stage_update_def demo_graph_def Let_def)
  have "trapped demo_config {UNIT_PLANNING, UNIT_APPROVAL} st'"
    using unit_rejection_traps [OF st'] by (simp add: demo_graph_def demo_inputs_def)
  from graph_livelocks [OF rtranclp.rtrancl_refl this, of UNIT_PLANNING "demo_store STORE_NULL"] st'
  show ?thesis by blast
qed

end
