(* ===== verification/Pack_Losses.thy ===== *)
theory Pack_Losses
  imports Pack_Laws
begin

text \<open>
  What the fan-out and the graph lose: indirect dependents of a failed artifact, rejections after the
  first one, and the content approval of packs with a component strategy.
\<close>

section \<open>Rejections after the first\<close>

lemma recorded_requested: "pk_scope st = Some ts \<Longrightarrow> ts \<noteq> [] \<Longrightarrow> requested_types st = ts \<and> scoped_generation_types st = ts"
  by (simp add: requested_types_def scoped_generation_types_def recorded_scope_types_def)

lemma loop_keeps_scope:
  assumes "fanout_loop fuel cap generate st sent = Some (st', sent')" and "pk_scope st = Some ts" and "ts \<noteq> []"
    and "snd ` set (concat sent) \<subseteq> set ts"
  shows "snd ` set (concat sent') \<subseteq> set ts \<and> pk_scope st' = Some ts"
  using assms
proof (induction fuel arbitrary: st sent)
  case (Suc fuel)
  define st1 where "st1 = checkpoint st (coordinate_artifact_fanout st)"
  have scope: "pk_scope st1 = Some ts"
    using recorded_requested [OF Suc.prems(2,3)] Suc.prems(3) by (simp add: st1_def)
  show ?case
  proof (cases "route_after_artifact_workflow cap st1")
    case To_Render_Quality
    with Suc.prems(1,4) scope show ?thesis by (simp add: st1_def [symmetric])
  next
    case (Send_All payloads)
    from routed_sends [OF this refl] obtain us where
      "payloads = map (Pair (generation_id st1 (generation_revision st1))) us"
      and "set us \<subseteq> set (wave_at (requested_types st1) (current_wave_index st1))" by blast
    then have "snd ` set payloads \<subseteq> set (wave_at (requested_types st1) (current_wave_index st1))"
      by (simp add: image_image)
    moreover have "set (wave_at (requested_types st1) (current_wave_index st1)) \<subseteq> set ts"
      using wave_types recorded_requested [OF scope Suc.prems(3)] by blast
    ultimately have "snd ` set payloads \<subseteq> set ts" by blast
    with Suc.prems(4) have sent: "snd ` set (concat (sent @ [payloads])) \<subseteq> set ts" by auto
    have "fanout_loop fuel cap generate (fold (write_branch generate) payloads st1) (sent @ [payloads]) = Some (st', sent')"
      using Suc.prems(1) Send_All by (simp add: st1_def [symmetric])
    from Suc.IH [OF this _ Suc.prems(3) sent] show ?thesis
      using scope by (simp add: write_branches_keep [where f = pk_scope])
  qed
qed simp

text \<open>
  The types of the first scoped rejection are recorded in the state and never cleared: when the
  teacher rejects artifacts again, the first rejection's types are generated once more and no artifact of
  another type, whatever was rejected this time.
\<close>
lemma later_rejections_ignored:
  assumes "channel_ok st" and "pk_scope st = Some ts" and "ts \<noteq> []"
    and "t \<in> set (rejected_artifact_types (pk_references st) (pk_gate_payload st))" and "t \<notin> set ts"
  shows "\<exists>st' sent. fanout_loop 13 cap generate st [] = Some (st', sent)
    \<and> t \<notin> snd ` set (concat sent) \<and> snd ` set (concat sent) \<subseteq> set ts \<and> pk_scope st' = Some ts"
proof -
  from fanout_loop_total [OF assms(1)] obtain st' sent where loop: "fanout_loop 13 cap generate st [] = Some (st', sent)" by blast
  with loop_keeps_scope [OF this assms(2,3)] assms(5) show ?thesis by auto
qed

definition demo_rejection :: pack_state where
  "demo_rejection = (gs_pack (demo_graph []))\<lparr>pk_scope := Some [''quiz'', ''recap''],
     pk_gate_payload := \<lparr>gp_action = ''reject_selected'', gp_rejection_type = [],
       gp_rejections = Some [(''lesson'', ''too long'')], gp_section_edit = False\<rparr>\<rparr>"

lemma later_rejections_ignored_witness:
  "\<exists>st' sent. fanout_loop 13 2 (\<lambda>(gen, t). Generated t t) demo_rejection [] = Some (st', sent)
     \<and> ''lesson'' \<notin> snd ` set (concat sent)"
proof -
  have "channel_ok demo_rejection" "pk_scope demo_rejection = Some [''quiz'', ''recap'']"
    "''lesson'' \<in> set (rejected_artifact_types (pk_references demo_rejection) (pk_gate_payload demo_rejection))"
    by (simp_all add: demo_rejection_def demo_graph_def demo_pack_def channel_ok_def rejected_artifact_types_def
        append_new_def scoped_rejections_def rejects_scoped_def List.map_filter_def view_def keyed_def)
  from later_rejections_ignored [OF this(1,2) _ this(3), of 2 "\<lambda>(gen, t). Generated t t"]
  show ?thesis by auto
qed

section \<open>Indirect dependents of a failure\<close>

lemma skipped_types:
  "set (map bw_artifact_type (skipped_dependents gen requested failed deps)) =
     {t \<in> set requested. list_ex (\<lambda>d. d \<in> set failed) (requires deps t)}"
  by (induction requested) (auto simp: skipped_dependents_def List.map_filter_def)

lemma skipped_distinct:
  "distinct requested \<Longrightarrow> distinct (map bw_artifact_type (skipped_dependents gen requested failed deps))"
proof (induction requested)
  case (Cons t requested)
  then show ?case
    using skipped_types [of gen requested failed deps] by (auto simp: skipped_dependents_def List.map_filter_def)
qed (simp add: skipped_dependents_def List.map_filter_def)

lemma skipped_entries:
  "s \<in> set (skipped_dependents gen requested failed deps) \<Longrightarrow>
   bw_generation_id s = gen \<and> workflow_state_id s = gen @ '':'' @ bw_artifact_type s \<and> bw_status s = ''skipped''"
  by (auto simp: skipped_dependents_def List.map_filter_def workflow_state_id_def split: if_splits)

text \<open>
  When a type whose dependents are requested fails, the fan-out ends and records its direct
  dependents as skipped, but a requested type that depends on it only through another one is neither
  generated nor recorded: it has no status at all in this generation.
\<close>
lemma skips_are_not_transitive:
  assumes "channel_ok st" and "distinct (requested_types st)" and gen: "gen = target_generation st"
    and "wave_at (requested_types st) (current_wave_index st) \<noteq> []"
    and "set (wave_at (requested_types st) (current_wave_index st)) \<subseteq> finished gen st"
    and failed: "s \<in> entries gen st" "bw_status s = ''failed''"
    and u: "u \<in> set (requested_types st)" "bw_artifact_type s \<in> set (requires DEFAULT_DEPENDENCIES u)"
    and t: "t \<notin> finished gen st"
      "\<forall>s \<in> entries gen st. bw_status s = ''failed'' \<longrightarrow> bw_artifact_type s \<notin> set (requires DEFAULT_DEPENDENCIES t)"
  shows "pk_fanout_complete (coordinate_artifact_fanout st) \<and> pk_fanout_blocked (coordinate_artifact_fanout st)
    \<and> u \<in> finished gen (checkpoint st (coordinate_artifact_fanout st))
    \<and> t \<notin> finished gen (checkpoint st (coordinate_artifact_fanout st))"
proof -
  let ?states = "current_generation_workflow_states (pk_workflow_states st) gen"
  let ?skipped = "skipped_dependents gen (requested_types st) (failed_types ?states) DEFAULT_DEPENDENCIES"
  have failed_set: "set (failed_types ?states) = bw_artifact_type ` {s \<in> entries gen st. bw_status s = ''failed''}"
    by (auto simp: failed_types_def entries_def)
  have types: "set (map bw_artifact_type ?skipped) = {t \<in> set (requested_types st).
      \<exists>d \<in> set (requires DEFAULT_DEPENDENCIES t). d \<in> set (failed_types ?states)}"
    unfolding skipped_types by (simp add: list_ex_iff)
  have u': "u \<in> set (map bw_artifact_type ?skipped)" using failed u unfolding types failed_set by auto
  then have "?skipped \<noteq> []" by auto
  then have coord: "pk_fanout_complete (coordinate_artifact_fanout st)" "pk_fanout_blocked (coordinate_artifact_fanout st)"
    "pk_workflow_states (coordinate_artifact_fanout st) = ?skipped"
    using assms(4,5) by (simp_all add: coordinate_artifact_fanout_def Let_def gen target_generation_def finished_def)
  have "entries gen (checkpoint st (coordinate_artifact_fanout st)) =
      set ?skipped \<union> {s \<in> entries gen st. bw_artifact_type s \<notin> bw_artifact_type ` set ?skipped}"
  proof (rule conjunct2 [OF merged_entries [OF assms(1) skipped_distinct [OF assms(2)]]])
    show "bw_generation_id s = gen \<and> workflow_state_id s = gen @ '':'' @ bw_artifact_type s" if "s \<in> set ?skipped" for s
      using skipped_entries [OF that] by blast
  qed (simp add: checkpoint_def coord(3))
  then have after: "s \<in> entries gen (checkpoint st (coordinate_artifact_fanout st)) \<longleftrightarrow>
      s \<in> set ?skipped \<or> s \<in> entries gen st \<and> bw_artifact_type s \<notin> bw_artifact_type ` set ?skipped" for s
    by blast
  have fin: "x \<in> finished gen (checkpoint st (coordinate_artifact_fanout st)) \<longleftrightarrow>
      x \<in> set (map bw_artifact_type ?skipped) \<or> x \<in> finished gen st" for x
  proof (cases "x \<in> set (map bw_artifact_type ?skipped)")
    case True
    then obtain s where s: "s \<in> set ?skipped" "bw_artifact_type s = x" by auto
    with after skipped_entries [OF s(1)] True show ?thesis unfolding in_finished by blast
  next
    case False
    with after show ?thesis unfolding in_finished by fastforce
  qed
  have "t \<notin> set (map bw_artifact_type ?skipped)" using t(2) unfolding types failed_set by auto
  with u' t(1) coord(1,2) show ?thesis unfolding fin by blast
qed

definition demo_failed_lesson :: pack_state where
  "demo_failed_lesson = (demo_pack [''lesson'', ''quiz'', ''answer_key''])\<lparr>pk_generation_id := Some ''r1:artifact:1'',
     pk_generation_revision := Some 1, pk_wave_index := Some 0, pk_workflow_states := [demo_branch ''lesson'' ''failed'']\<rparr>"

lemma skips_are_not_transitive_witness:
  "pk_fanout_complete (coordinate_artifact_fanout demo_failed_lesson)
   \<and> ''quiz'' \<in> finished ''r1:artifact:1'' (checkpoint demo_failed_lesson (coordinate_artifact_fanout demo_failed_lesson))
   \<and> ''answer_key'' \<notin> finished ''r1:artifact:1'' (checkpoint demo_failed_lesson (coordinate_artifact_fanout demo_failed_lesson))"
proof -
  let ?st = demo_failed_lesson
  have fields: "\<not> pk_fanout_complete ?st" "pk_generation_id ?st = Some ''r1:artifact:1''" "pk_wave_index ?st = Some (int 0)"
    "\<not> rejects_scoped (pk_gate_payload ?st)"
    by (simp_all add: demo_failed_lesson_def demo_pack_def rejects_scoped_def)
  have req: "requested_types ?st = [''lesson'', ''quiz'', ''answer_key'']"
    using no_rejection [OF fields(4)]
    by (simp add: requested_types_def scoped_generation_types_def recorded_scope_types_def
        all_requested_types_def non_empty_def demo_failed_lesson_def demo_pack_def)
  have index: "current_wave_index ?st = 0" using running_index [OF fields(1,3)] .
  have wave: "wave_at (requested_types ?st) (current_wave_index ?st) = [''lesson'']"
    by (simp add: req index wave_at_def DEFAULT_WAVES_def)
  have gen: "''r1:artifact:1'' = target_generation ?st" using running_generation(1) [OF fields(1,2)] by simp
  have entries: "entries ''r1:artifact:1'' ?st = {demo_branch ''lesson'' ''failed''}"
    by (simp add: entries_def current_generation_workflow_states_def demo_failed_lesson_def demo_branch_def)
  have fin: "finished ''r1:artifact:1'' ?st = {''lesson''}"
    by (simp add: finished_def completed_types_def current_generation_workflow_states_def demo_failed_lesson_def demo_branch_def)
  have ok: "channel_ok ?st"
    by (simp add: channel_ok_def demo_failed_lesson_def demo_branch_def workflow_state_id_def)
  have requires: "''lesson'' \<in> set (requires DEFAULT_DEPENDENCIES ''quiz'')" "''lesson'' \<notin> set (requires DEFAULT_DEPENDENCIES ''answer_key'')"
    by (simp_all add: requires_def DEFAULT_DEPENDENCIES_def)
  have lesson: "bw_artifact_type (demo_branch ''lesson'' ''failed'') = ''lesson''" "bw_status (demo_branch ''lesson'' ''failed'') = ''failed''"
    by (simp_all add: demo_branch_def)
  have "distinct (requested_types ?st)" "wave_at (requested_types ?st) (current_wave_index ?st) \<noteq> []"
    "set (wave_at (requested_types ?st) (current_wave_index ?st)) \<subseteq> finished ''r1:artifact:1'' ?st"
    "demo_branch ''lesson'' ''failed'' \<in> entries ''r1:artifact:1'' ?st" "''quiz'' \<in> set (requested_types ?st)"
    "''answer_key'' \<notin> finished ''r1:artifact:1'' ?st"
    by (simp_all add: wave [unfolded req] fin entries req)
  from skips_are_not_transitive [OF ok this(1) gen this(2-4) lesson(2) this(5) _ this(6)] requires entries lesson
  show ?thesis by auto
qed

section \<open>Packs with a component strategy\<close>

text \<open>
  With a component strategy the teacher approves the plan before anything is generated. The approval stage
  comes again after the compliance gate, but is completed: the approval of the plan stands for the content,
  whose snapshots are not among the approved ones.
\<close>

lemma plan_approval_stands_for_content:
  assumes "TEACHER_APPROVAL \<in> set (pk_completed_stages (gs_pack st))" and "settled st"
    and "pk_recovery_route (gs_pack st) = None" and "gs_teacher_approved st" and "pk_references (gs_pack st) \<noteq> []"
  shows "stage_node cfg inp TEACHER_APPROVAL st store = (Inr (idle st), store)
    \<and> next_node cfg TEACHER_APPROVAL (idle st) = At EXPORT_FINALIZE
    \<and> gs_approved_snapshots (idle st) = gs_approved_snapshots st"
proof -
  have "pk_references (gs_pack (idle st)) \<noteq> []"
    using assms(5) ref_channel.entries_stay [of "pk_references (gs_pack st)" "pk_references (gs_pack st)"]
    by (auto simp: idle_def checkpoint_def)
  then show ?thesis
    using skipped_stage [OF assms(1) settled_blocked(3) [OF assms(2)]] assms(3,4)
    by (simp add: next_node_def route_after_teacher_approval_def Let_def)
qed

end
