(* ===== verification/Document_Contract.thy ===== *)
theory Document_Contract
  imports Prelude
begin

text \<open>
  Canonical artifact documents (\<open>common/contracts/artifact_document.py\<close>), the content that agents
  generate (\<open>common/contracts/artifact.py\<close>) and the mapping between the two
  (\<open>common/contracts/artifact_projection_mapper.py\<close>). A Pydantic model is a record with a predicate of
  what its validators accept; its constructor raises \<open>ValidationError\<close> otherwise. The schemas of typed
  content components and of slide decks are parameters, collected in \<open>content_env\<close>; a slide deck is
  the object its model dumps to.
\<close>

section \<open>Documents\<close>

datatype block_kind = HEADING | PARAGRAPH

record document_block =
  blk_entity_id :: string
  blk_kind :: block_kind
  blk_text :: string
  blk_level :: "int option"

record document_section =
  sec_entity_id :: string
  sec_title :: string
  sec_blocks :: "document_block list"

record assessment_option =
  opt_entity_id :: string
  opt_text :: string

record assessment_question =
  qst_entity_id :: string
  qst_prompt :: string
  qst_options :: "assessment_option list"

record rich_section =
  rich_entity_id :: string
  rich_title :: string
  rich_components :: "json_object list"

datatype payload_kind = BLOCK_DOCUMENT | ASSESSMENT_DOCUMENT | RICH_DOCUMENT | SLIDE_DECK_DOCUMENT

record payload =
  pl_kind :: payload_kind
  pl_sections :: "document_section list option"
  pl_questions :: "assessment_question list option"
  pl_rich_sections :: "rich_section list option"
  pl_slide_deck :: "json_object option"

datatype document_language = LANG_EN | LANG_VI
datatype document_audience = FOR_STUDENT | FOR_TEACHER | FOR_PRINT
datatype document_authority =
    BY_GENERATION | BY_TEACHER_EDIT | BY_AI_ASSISTED_EDIT | BY_RESTORE | BY_TRANSLATION | BY_VARIANT

record document =
  doc_id :: string
  doc_artifact_id :: string
  doc_artifact_type :: string
  doc_version :: int
  doc_language :: document_language
  doc_audience :: document_audience
  doc_authority :: document_authority
  doc_title :: string
  doc_theme :: string
  doc_metadata :: json_object
  doc_payload :: payload
  doc_parent :: "string option"
  doc_source :: "string option"

section \<open>Dumps\<close>

definition dump_opt :: "('a \<Rightarrow> json) \<Rightarrow> 'a option \<Rightarrow> json" where
  "dump_opt f x = (case x of None \<Rightarrow> JNull | Some v \<Rightarrow> f v)"

definition dump_block :: "document_block \<Rightarrow> json" where
  "dump_block b = JObj
     [(''entity_id'', JStr (blk_entity_id b)),
      (''block_kind'', JStr (case blk_kind b of HEADING \<Rightarrow> ''heading'' | PARAGRAPH \<Rightarrow> ''paragraph'')),
      (''text'', JStr (blk_text b)), (''level'', dump_opt JInt (blk_level b))]"

definition dump_section :: "document_section \<Rightarrow> json" where
  "dump_section s = JObj
     [(''entity_id'', JStr (sec_entity_id s)), (''title'', JStr (sec_title s)),
      (''blocks'', JList (map dump_block (sec_blocks s)))]"

definition dump_option :: "assessment_option \<Rightarrow> json" where
  "dump_option c = JObj [(''entity_id'', JStr (opt_entity_id c)), (''text'', JStr (opt_text c))]"

definition dump_question :: "assessment_question \<Rightarrow> json" where
  "dump_question q = JObj
     [(''entity_id'', JStr (qst_entity_id q)), (''prompt'', JStr (qst_prompt q)),
      (''options'', JList (map dump_option (qst_options q)))]"

definition dump_rich_section :: "rich_section \<Rightarrow> json" where
  "dump_rich_section s = JObj
     [(''entity_id'', JStr (rich_entity_id s)), (''title'', JStr (rich_title s)),
      (''components'', JList (map JObj (rich_components s)))]"

definition payload_kind_value :: "payload_kind \<Rightarrow> string" where
  "payload_kind_value k =
     (case k of BLOCK_DOCUMENT \<Rightarrow> ''block_document'' | ASSESSMENT_DOCUMENT \<Rightarrow> ''assessment_document''
      | RICH_DOCUMENT \<Rightarrow> ''rich_document'' | SLIDE_DECK_DOCUMENT \<Rightarrow> ''slide_deck_document'')"

definition dump_payload :: "payload \<Rightarrow> json" where
  "dump_payload p = JObj
     [(''payload_kind'', JStr (payload_kind_value (pl_kind p))),
      (''sections'', dump_opt (\<lambda>xs. JList (map dump_section xs)) (pl_sections p)),
      (''questions'', dump_opt (\<lambda>xs. JList (map dump_question xs)) (pl_questions p)),
      (''rich_sections'', dump_opt (\<lambda>xs. JList (map dump_rich_section xs)) (pl_rich_sections p)),
      (''slide_deck'', dump_opt JObj (pl_slide_deck p))]"

definition language_value :: "document_language \<Rightarrow> string" where
  "language_value l = (case l of LANG_EN \<Rightarrow> ''en'' | LANG_VI \<Rightarrow> ''vi'')"

definition audience_value :: "document_audience \<Rightarrow> string" where
  "audience_value a = (case a of FOR_STUDENT \<Rightarrow> ''student'' | FOR_TEACHER \<Rightarrow> ''teacher'' | FOR_PRINT \<Rightarrow> ''print'')"

definition authority_value :: "document_authority \<Rightarrow> string" where
  "authority_value a =
     (case a of BY_GENERATION \<Rightarrow> ''generated'' | BY_TEACHER_EDIT \<Rightarrow> ''teacher_edit''
      | BY_AI_ASSISTED_EDIT \<Rightarrow> ''ai_assisted_edit'' | BY_RESTORE \<Rightarrow> ''restored''
      | BY_TRANSLATION \<Rightarrow> ''translated'' | BY_VARIANT \<Rightarrow> ''variant_generated'')"

definition dump_document :: "document \<Rightarrow> json" where
  "dump_document d = JObj
     [(''document_id'', JStr (doc_id d)), (''artifact_id'', JStr (doc_artifact_id d)),
      (''education_policy_version'', JStr ''education_policy.v1''),
      (''artifact_type'', JStr (doc_artifact_type d)), (''version'', JInt (doc_version d)),
      (''language'', JStr (language_value (doc_language d))),
      (''audience'', JStr (audience_value (doc_audience d))),
      (''authority'', JStr (authority_value (doc_authority d))),
      (''title'', JStr (doc_title d)), (''theme'', JStr (doc_theme d)),
      (''metadata'', JObj (doc_metadata d)), (''payload'', dump_payload (doc_payload d)),
      (''parent_document_id'', dump_opt JStr (doc_parent d)),
      (''source_document_id'', dump_opt JStr (doc_source d))]"

section \<open>Validators\<close>

definition text_between :: "nat \<Rightarrow> nat \<Rightarrow> string \<Rightarrow> bool" where
  "text_between lo hi s \<longleftrightarrow> lo \<le> length s \<and> length s \<le> hi"

definition block_ok :: "document_block \<Rightarrow> bool" where
  "block_ok b \<longleftrightarrow> text_between 1 80 (blk_entity_id b) \<and> text_between 1 10000 (blk_text b)
     \<and> (case blk_kind b of
          HEADING \<Rightarrow> (case blk_level b of None \<Rightarrow> False | Some l \<Rightarrow> 1 \<le> l \<and> l \<le> 4)
        | PARAGRAPH \<Rightarrow> blk_level b = None)"

definition section_ok :: "document_section \<Rightarrow> bool" where
  "section_ok s \<longleftrightarrow> text_between 1 80 (sec_entity_id s) \<and> text_between 1 200 (sec_title s)
     \<and> sec_blocks s \<noteq> [] \<and> list_all block_ok (sec_blocks s)"

definition option_ok :: "assessment_option \<Rightarrow> bool" where
  "option_ok c \<longleftrightarrow> text_between 1 80 (opt_entity_id c) \<and> text_between 1 2000 (opt_text c)"

definition question_ok :: "assessment_question \<Rightarrow> bool" where
  "question_ok q \<longleftrightarrow> text_between 1 80 (qst_entity_id q) \<and> text_between 1 10000 (qst_prompt q)
     \<and> list_all option_ok (qst_options q)"

definition rich_section_ok :: "rich_section \<Rightarrow> bool" where
  "rich_section_ok s \<longleftrightarrow> text_between 1 80 (rich_entity_id s) \<and> text_between 1 200 (rich_title s)
     \<and> rich_components s \<noteq> []"

text \<open>\<open>ArtifactPayload\<close>: exactly the part that the kind names is present, and it is not empty.\<close>

definition payload_ok :: "payload \<Rightarrow> bool" where
  "payload_ok p \<longleftrightarrow>
     (case pl_kind p of
        BLOCK_DOCUMENT \<Rightarrow> pl_sections p \<notin> {None, Some []} \<and> pl_questions p = None
          \<and> pl_rich_sections p = None \<and> pl_slide_deck p = None
      | ASSESSMENT_DOCUMENT \<Rightarrow> pl_questions p \<notin> {None, Some []} \<and> pl_sections p = None
          \<and> pl_rich_sections p = None \<and> pl_slide_deck p = None
      | RICH_DOCUMENT \<Rightarrow> pl_rich_sections p \<notin> {None, Some []} \<and> pl_sections p = None
          \<and> pl_questions p = None \<and> pl_slide_deck p = None
      | SLIDE_DECK_DOCUMENT \<Rightarrow> pl_slide_deck p \<noteq> None \<and> pl_sections p = None
          \<and> pl_questions p = None \<and> pl_rich_sections p = None)
     \<and> list_all section_ok (the_default [] (pl_sections p))
     \<and> list_all question_ok (the_default [] (pl_questions p))
     \<and> list_all rich_section_ok (the_default [] (pl_rich_sections p))"

definition ARTIFACT_DOCUMENT_TYPES :: "string list" where
  "ARTIFACT_DOCUMENT_TYPES =
     [''lesson'', ''worksheet'', ''quiz'', ''drill'', ''recap'', ''infographic'', ''answer_key'', ''roadmap'',
      ''flashcard_deck'', ''slide_deck'', ''exit_ticket'', ''reading_passage'']"

definition ASSESSMENT_TYPES :: "string list" where
  "ASSESSMENT_TYPES = [''quiz'', ''drill'', ''exit_ticket'']"

definition payload_matches_type :: "string \<Rightarrow> payload_kind \<Rightarrow> bool" where
  "payload_matches_type t k \<longleftrightarrow>
     (if t \<in> set ASSESSMENT_TYPES then k = ASSESSMENT_DOCUMENT
      else if t = ''slide_deck'' then k = SLIDE_DECK_DOCUMENT
      else k \<in> {BLOCK_DOCUMENT, RICH_DOCUMENT})"

definition DOCUMENT_TEACHER_KEYS :: "string list" where
  "DOCUMENT_TEACHER_KEYS =
     [''answer'', ''answer_set'', ''accepted_answers'', ''correct_option_ids'', ''explain'', ''rationale'',
      ''wrong_reasons'', ''rubric_solution'']"

text \<open>A JSON value, the items of a list and the fields of an object that hold one of some keys.\<close>

fun holds_key :: "string list \<Rightarrow> json \<Rightarrow> bool"
  and holds_key_items :: "string list \<Rightarrow> json list \<Rightarrow> bool"
  and holds_key_fields :: "string list \<Rightarrow> json_object \<Rightarrow> bool" where
  "holds_key ks (JList xs) = holds_key_items ks xs"
| "holds_key ks (JObj kvs) = holds_key_fields ks kvs"
| "holds_key ks _ = False"
| "holds_key_items ks [] = False"
| "holds_key_items ks (x # xs) = (holds_key ks x \<or> holds_key_items ks xs)"
| "holds_key_fields ks [] = False"
| "holds_key_fields ks ((k, v) # kvs) = (k \<in> set ks \<or> holds_key ks v \<or> holds_key_fields ks kvs)"

definition has_teacher_only_value :: "json \<Rightarrow> bool" where
  "has_teacher_only_value = holds_key DOCUMENT_TEACHER_KEYS"

definition opt_id_ok :: "string option \<Rightarrow> bool" where
  "opt_id_ok x = (case x of None \<Rightarrow> True | Some i \<Rightarrow> text_between 1 80 i)"

definition document_ok :: "document \<Rightarrow> bool" where
  "document_ok d \<longleftrightarrow> text_between 1 80 (doc_id d) \<and> text_between 1 80 (doc_artifact_id d)
     \<and> doc_artifact_type d \<in> set ARTIFACT_DOCUMENT_TYPES \<and> 1 \<le> doc_version d
     \<and> text_between 3 200 (doc_title d) \<and> text_between 1 80 (doc_theme d)
     \<and> payload_ok (doc_payload d) \<and> opt_id_ok (doc_parent d) \<and> opt_id_ok (doc_source d)
     \<and> payload_matches_type (doc_artifact_type d) (pl_kind (doc_payload d))
     \<and> \<not> (doc_audience d = FOR_STUDENT \<and> has_teacher_only_value (dump_document d))"

text \<open>The constructor of the model.\<close>

definition artifact_document :: "document \<Rightarrow> document result" where
  "artifact_document d = (if document_ok d then Inr d else Inl (ValidationError ''ArtifactDocument''))"

section \<open>Generated content\<close>

record content =
  ct_artifact_type :: string
  ct_theme :: string
  ct_title :: string
  ct_sections :: "json_object list"
  ct_metadata :: json_object
  ct_accessibility :: json_object

record content_env =
  ce_component_ok :: "json_object \<Rightarrow> bool"
  ce_validate_deck :: "json_object \<Rightarrow> json_object option"
  ce_py_str :: "json \<Rightarrow> string"

definition typed_component_ok :: "content_env \<Rightarrow> json \<Rightarrow> bool" where
  "typed_component_ok env entry =
     (case entry of JObj kvs \<Rightarrow> map_of kvs ''type'' = None \<or> ce_component_ok env kvs | _ \<Rightarrow> True)"

definition section_components :: "json_object \<Rightarrow> json list" where
  "section_components s = (case dict_get s ''components'' of JList xs \<Rightarrow> xs | _ \<Rightarrow> [])"

definition content_ok :: "content_env \<Rightarrow> content \<Rightarrow> bool" where
  "content_ok env c \<longleftrightarrow> ct_artifact_type c \<in> set ARTIFACT_DOCUMENT_TYPES \<and> text_between 3 200 (ct_title c)
     \<and> ct_sections c \<noteq> []
     \<and> list_all (\<lambda>s. list_all (typed_component_ok env) (section_components s)) (ct_sections c)"

definition artifact_content :: "content_env \<Rightarrow> content \<Rightarrow> content result" where
  "artifact_content env c = (if content_ok env c then Inr c else Inl (ValidationError ''ArtifactContent''))"

section \<open>From content to documents\<close>

definition STRIPPED_KEYS :: "string list" where
  "STRIPPED_KEYS =
     [''answer'', ''answer_set'', ''accepted_answers'', ''correct_option_ids'', ''explain'', ''rationale'',
      ''wrong_reasons'']"

fun student_value :: "json \<Rightarrow> json"
  and student_items :: "json list \<Rightarrow> json list"
  and student_fields :: "json_object \<Rightarrow> json_object" where
  "student_value (JList xs) = JList (student_items xs)"
| "student_value (JObj kvs) = JObj (student_fields kvs)"
| "student_value v = v"
| "student_items [] = []"
| "student_items (x # xs) = student_value x # student_items xs"
| "student_fields [] = []"
| "student_fields ((k, v) # kvs) =
     (if k \<in> set STRIPPED_KEYS then student_fields kvs else (k, student_value v) # student_fields kvs)"

definition student_content :: "content_env \<Rightarrow> content \<Rightarrow> content result" where
  "student_content env c =
     artifact_content env (c\<lparr>ct_metadata := student_fields (ct_metadata c),
       ct_sections := map student_fields (ct_sections c)\<rparr>)"

text \<open>A question card; other components are passed over.\<close>

definition question_of :: "json \<Rightarrow> assessment_question option result" where
  "question_of component =
     (case component of
        JObj kvs \<Rightarrow>
          if dict_get kvs ''type'' \<noteq> JStr ''question_card'' then Inr None
          else (case (dict_get kvs ''id'', dict_get kvs ''text'') of
              (JStr (i # is), JStr (t # ts)) \<Rightarrow>
                (case dict_get kvs ''options'' of
                   JObj choices \<Rightarrow>
                     if list_all (\<lambda>(k, v). k \<noteq> [] \<and> (case v of JStr (x # xs) \<Rightarrow> True | _ \<Rightarrow> False)) choices
                     then let q = \<lparr>qst_entity_id = i # is, qst_prompt = t # ts,
                            qst_options = map (\<lambda>(k, v). \<lparr>opt_entity_id = k,
                              opt_text = (case v of JStr x \<Rightarrow> x | _ \<Rightarrow> [])\<rparr>) choices\<rparr>
                          in if question_ok q then Inr (Some q) else Inl (ValidationError ''AssessmentQuestion'')
                     else Inl (ArtifactProjectionConversionError
                       ''question_card requires string option identifiers and text'')
                 | _ \<Rightarrow> Inl (ArtifactProjectionConversionError
                     ''question_card requires string option identifiers and text''))
            | _ \<Rightarrow> Inl (ArtifactProjectionConversionError ''question_card requires a non-empty id and text''))
      | _ \<Rightarrow> Inr None)"

fun questions_of :: "json list \<Rightarrow> assessment_question list result" where
  "questions_of [] = Inr []"
| "questions_of (c # cs) =
     ebind (question_of c) (\<lambda>q. ebind (questions_of cs) (\<lambda>qs. Inr ((case q of None \<Rightarrow> [] | Some x \<Rightarrow> [x]) @ qs)))"

definition plain_payload :: "payload_kind \<Rightarrow> payload" where
  "plain_payload k = \<lparr>pl_kind = k, pl_sections = None, pl_questions = None, pl_rich_sections = None, pl_slide_deck = None\<rparr>"

definition assessment_payload :: "content \<Rightarrow> payload result" where
  "assessment_payload c =
     ebind (questions_of (concat (map section_components (ct_sections c)))) (\<lambda>qs.
       if qs = [] then Inl (ArtifactProjectionConversionError ''assessment requires answer-bearing question_card components'')
       else Inr ((plain_payload ASSESSMENT_DOCUMENT)\<lparr>pl_questions := Some qs\<rparr>))"

fun objects_of :: "json list \<Rightarrow> json_object list option" where
  "objects_of [] = Some []"
| "objects_of (JObj kvs # xs) = map_option (Cons kvs) (objects_of xs)"
| "objects_of (_ # xs) = None"

definition rich_section_of :: "content_env \<Rightarrow> nat \<Rightarrow> json_object \<Rightarrow> rich_section result" where
  "rich_section_of env index s =
     ebind (case (dict_get s ''components'', dict_get s ''content'') of
              (JList (x # xs), _) \<Rightarrow> Inr (x # xs)
            | (_, JStr (t # ts)) \<Rightarrow> Inr [JObj [(''type'', JStr ''paragraph''), (''text'', JStr (t # ts))]]
            | _ \<Rightarrow> Inl (ArtifactProjectionConversionError
                (''section '' @ show_nat index @ '' has no mappable student-safe content''))) (\<lambda>components.
       let fresh = ''section-'' @ show_nat index;
           i = dict_get s ''id''
       in case objects_of components of
            None \<Rightarrow> Inl (ValidationError ''RichDocumentSection'')
          | Some cs \<Rightarrow>
              let r = \<lparr>rich_entity_id = (if truthy i then json_str (ce_py_str env) i else fresh),
                    rich_title = (case dict_get s ''title'' of JStr (t # ts) \<Rightarrow> t # ts | _ \<Rightarrow> ''Section '' @ show_nat index),
                    rich_components = cs\<rparr>
              in if rich_section_ok r then Inr r else Inl (ValidationError ''RichDocumentSection''))"

fun rich_sections_of :: "content_env \<Rightarrow> nat \<Rightarrow> json_object list \<Rightarrow> rich_section list result" where
  "rich_sections_of env index [] = Inr []"
| "rich_sections_of env index (s # ss) =
     ebind (rich_section_of env index s) (\<lambda>r. ebind (rich_sections_of env (Suc index) ss) (\<lambda>rs. Inr (r # rs)))"

definition rich_payload :: "content_env \<Rightarrow> content \<Rightarrow> payload result" where
  "rich_payload env c =
     ebind (rich_sections_of env 1 (ct_sections c)) (\<lambda>rs. Inr ((plain_payload RICH_DOCUMENT)\<lparr>pl_rich_sections := Some rs\<rparr>))"

text \<open>Slides without \<open>teacher_notes\<close>, their interactions without \<open>teacher_only\<close>.\<close>

definition update_objects :: "(json_object \<Rightarrow> json_object) \<Rightarrow> string \<Rightarrow> json_object \<Rightarrow> json_object" where
  "update_objects f key d =
     (case dict_get d key of
        JList xs \<Rightarrow> AList.update key (JList (map (\<lambda>x. case x of JObj kvs \<Rightarrow> JObj (f kvs) | _ \<Rightarrow> x) xs)) d
      | _ \<Rightarrow> d)"

definition student_safe_slide_deck :: "json_object \<Rightarrow> json_object" where
  "student_safe_slide_deck =
     update_objects (\<lambda>slide.
         update_objects (AList.update ''teacher_only'' JNull) ''interactions''
           (AList.update ''teacher_notes'' JNull slide)) ''slides''"

definition slide_deck_payload :: "content_env \<Rightarrow> content \<Rightarrow> document_audience \<Rightarrow> payload result" where
  "slide_deck_payload env c audience =
     (case dict_get (ct_metadata c) ''slide_deck_data'' of
        JObj data \<Rightarrow>
          (case ce_validate_deck env data of
             None \<Rightarrow> Inl (ValidationError ''SlideDeckData'')
           | Some deck \<Rightarrow> Inr ((plain_payload SLIDE_DECK_DOCUMENT)\<lparr>pl_slide_deck :=
               Some (if audience = FOR_STUDENT then student_safe_slide_deck deck else deck)\<rparr>))
      | _ \<Rightarrow> Inl (ArtifactProjectionConversionError ''slide_deck requires metadata.slide_deck_data''))"

definition document_language_of :: "json_object \<Rightarrow> document_language" where
  "document_language_of accessibility = (if dict_get accessibility ''language'' = JStr ''vi'' then LANG_VI else LANG_EN)"

definition document_from_content ::
  "content_env \<Rightarrow> content \<Rightarrow> string \<Rightarrow> string \<Rightarrow> int \<Rightarrow> document result" where
  "document_from_content env c document_id artifact_id version =
     (let audience = (if ct_artifact_type c = ''answer_key'' then FOR_TEACHER else FOR_STUDENT);
          finish = (\<lambda>c payload metadata.
            artifact_document \<lparr>doc_id = document_id, doc_artifact_id = artifact_id,
              doc_artifact_type = ct_artifact_type c, doc_version = version,
              doc_language = document_language_of (ct_accessibility c), doc_audience = audience,
              doc_authority = BY_GENERATION, doc_title = ct_title c, doc_theme = ct_theme c,
              doc_metadata = metadata, doc_payload = payload, doc_parent = None, doc_source = None\<rparr>)
      in ebind (artifact_content env c) (\<lambda>c.
         if ct_artifact_type c = ''slide_deck''
         then ebind (slide_deck_payload env c audience) (\<lambda>payload.
           let metadata = filter (\<lambda>(k, v). k \<noteq> ''slide_deck_data'') (ct_metadata c)
           in finish c payload (if audience = FOR_STUDENT then student_fields metadata else metadata))
         else ebind (if audience = FOR_STUDENT then student_content env c else Inr c) (\<lambda>c.
           ebind (if ct_artifact_type c \<in> set ASSESSMENT_TYPES then assessment_payload c else rich_payload env c) (\<lambda>payload.
             finish c payload (ct_metadata c)))))"

section \<open>From documents to content\<close>

definition question_component :: "assessment_question \<Rightarrow> json" where
  "question_component q = JObj
     [(''type'', JStr ''question_card''), (''id'', JStr (qst_entity_id q)), (''text'', JStr (qst_prompt q)),
      (''options'', JObj (dict_merge [] (map (\<lambda>c. (opt_entity_id c, JStr (opt_text c))) (qst_options q))))]"

definition block_component :: "document_block \<Rightarrow> json" where
  "block_component b = JObj
     ([(''type'', JStr (case blk_kind b of HEADING \<Rightarrow> ''heading'' | PARAGRAPH \<Rightarrow> ''paragraph'')),
       (''text'', JStr (blk_text b))]
      @ (case blk_level b of None \<Rightarrow> [] | Some l \<Rightarrow> [(''level'', JInt l)]))"

definition projected_sections :: "payload \<Rightarrow> json_object list result" where
  "projected_sections p =
     (case pl_kind p of
        ASSESSMENT_DOCUMENT \<Rightarrow>
          Inr [[(''title'', JStr ''Questions''),
                (''components'', JList (map question_component (the_default [] (pl_questions p))))]]
      | BLOCK_DOCUMENT \<Rightarrow>
          Inr (map (\<lambda>s. [(''id'', JStr (sec_entity_id s)), (''title'', JStr (sec_title s)),
                (''components'', JList (map block_component (sec_blocks s)))]) (the_default [] (pl_sections p)))
      | RICH_DOCUMENT \<Rightarrow>
          Inr (map (\<lambda>s. [(''id'', JStr (rich_entity_id s)), (''title'', JStr (rich_title s)),
                (''components'', JList (map JObj (rich_components s)))]) (the_default [] (pl_rich_sections p)))
      | SLIDE_DECK_DOCUMENT \<Rightarrow>
          (if pl_slide_deck p = None
           then Inl (ArtifactProjectionConversionError ''slide_deck_document requires slide_deck'')
           else Inr [[(''title'', JStr ''Deck''),
                (''components'', JList [JObj [(''type'', JStr ''paragraph''), (''text'', JStr ''Slide deck'')]])]]))"

definition content_from_document :: "content_env \<Rightarrow> document \<Rightarrow> string option \<Rightarrow> content result" where
  "content_from_document env d theme =
     ebind (projected_sections (doc_payload d)) (\<lambda>sections.
       artifact_content env \<lparr>ct_artifact_type = doc_artifact_type d,
         ct_theme = (case theme of Some (t # ts) \<Rightarrow> t # ts | _ \<Rightarrow> doc_theme d), ct_title = doc_title d,
         ct_sections = sections,
         ct_metadata = dict_merge (doc_metadata d)
           ([(''document_id'', JStr (doc_id d)), (''document_version'', JInt (doc_version d))]
            @ (case (pl_kind (doc_payload d), pl_slide_deck (doc_payload d)) of
                 (SLIDE_DECK_DOCUMENT, Some deck) \<Rightarrow> [(''slide_deck_data'', JObj deck)] | _ \<Rightarrow> [])),
         ct_accessibility = [(''language'', JStr (language_value (doc_language d)))]\<rparr>)"

end
