(* ===== verification/Document_Store.thy ===== *)
theory Document_Store
  imports Document_Contract
begin

text \<open>
  The append-only tables of artifact documents and the services on them:
  \<open>services/gateway/artifact_document_models.py\<close>, \<open>artifact_document_store.py\<close>,
  \<open>artifact_document_edit_service.py\<close>, \<open>artifact_language_version_service.py\<close>, \<open>review_note_store.py\<close>,
  \<open>artifact_approval_service.py\<close> and \<open>artifact_document_content_store.py\<close>. A row keeps the typed
  document whose dump the column \<open>document_json\<close> holds. Generated identifiers are arguments. The ids of
  runs and snapshots, which foreign keys refer to, are part of the tables.
\<close>

section \<open>Tables\<close>

record document_row =
  dr_run_id :: string
  dr_document :: document
  dr_created_at :: instant

record answer_row =
  an_answer_set_id :: string
  an_source_document_id :: string
  an_source_version :: int
  an_authority :: string
  an_entries :: json_object

record variant_row =
  vr_variant_id :: string
  vr_document_id :: string
  vr_source_document_id :: string
  vr_variant_kind :: string

record dependency_row =
  dp_document_id :: string
  dp_source_document_id :: string
  dp_kind :: string

record approval_row =
  ap_approval_id :: string
  ap_document_id :: string
  ap_status :: string
  ap_approved_by :: string
  ap_created_at :: instant

record note_row =
  nt_note_id :: string
  nt_run_id :: string
  nt_artifact_id :: string
  nt_document_id :: string
  nt_content_entity_id :: "string option"
  nt_author_id :: string
  nt_body :: string
  nt_blocking :: bool
  nt_status :: string
  nt_created_at :: instant
  nt_resolved_at :: "instant option"

record link_row =
  ln_document_id :: string
  ln_snapshot_id :: string

record document_db =
  dd_runs :: "string list"
  dd_snapshots :: "string list"
  dd_documents :: "document_row list"
  dd_answers :: "answer_row list"
  dd_variants :: "variant_row list"
  dd_dependencies :: "dependency_row list"
  dd_approvals :: "approval_row list"
  dd_notes :: "note_row list"
  dd_links :: "link_row list"

abbreviation row_id :: "document_row \<Rightarrow> string" where "row_id r \<equiv> doc_id (dr_document r)"
abbreviation row_artifact :: "document_row \<Rightarrow> string" where "row_artifact r \<equiv> doc_artifact_id (dr_document r)"
abbreviation row_version :: "document_row \<Rightarrow> int" where "row_version r \<equiv> doc_version (dr_document r)"

text \<open>
  \<open>INSERT ... ON CONFLICT (arbiter) DO NOTHING\<close>: another violated constraint raises.
\<close>

definition insert_or_nothing :: "('a \<Rightarrow> bool) \<Rightarrow> bool \<Rightarrow> 'a \<Rightarrow> 'a list \<Rightarrow> 'a list result" where
  "insert_or_nothing conflicts allowed row rows =
     (if list_ex conflicts rows then Inr rows
      else if allowed then Inr (rows @ [row]) else Inl IntegrityError)"

definition document_ids :: "document_db \<Rightarrow> string set" where
  "document_ids db = row_id ` set (dd_documents db)"

definition opt_known :: "'a set \<Rightarrow> 'a option \<Rightarrow> bool" where
  "opt_known A x = (case x of None \<Rightarrow> True | Some v \<Rightarrow> v \<in> A)"

section \<open>The document store\<close>

record approval_create =
  ac_approval_id :: string
  ac_status :: string
  ac_approved_by :: string

record variant_create =
  vc_variant_id :: string
  vc_variant_kind :: string
  vc_source_document_id :: string

record document_write =
  dw_run_id :: string
  dw_document :: document
  dw_answer_set :: "answer_row option"
  dw_variant :: "variant_create option"
  dw_dependencies :: "(string \<times> string) list"
  dw_approval :: "approval_create option"
  dw_snapshot_id :: "string option"

definition document_write_of :: "string \<Rightarrow> document \<Rightarrow> document_write" where
  "document_write_of run d = \<lparr>dw_run_id = run, dw_document = d, dw_answer_set = None, dw_variant = None,
     dw_dependencies = [], dw_approval = None, dw_snapshot_id = None\<rparr>"

record persisted =
  ps_document :: document
  ps_answer_set :: "answer_row option"
  ps_approval_status :: "string option"

definition insert_document :: "instant \<Rightarrow> string \<Rightarrow> document \<Rightarrow> document_db \<Rightarrow> document_db result" where
  "insert_document now run d db =
     ebind (insert_or_nothing (\<lambda>r. row_id r = doc_id d)
         (run \<in> set (dd_runs db)
          \<and> \<not> list_ex (\<lambda>r. dr_run_id r = run \<and> row_artifact r = doc_artifact_id d \<and> row_version r = doc_version d)
               (dd_documents db)
          \<and> opt_known (document_ids db) (doc_parent d) \<and> opt_known (document_ids db) (doc_source d))
         \<lparr>dr_run_id = run, dr_document = d, dr_created_at = now\<rparr> (dd_documents db))
       (\<lambda>rows. Inr (db\<lparr>dd_documents := rows\<rparr>))"

definition insert_answer_set :: "answer_row \<Rightarrow> document_db \<Rightarrow> document_db result" where
  "insert_answer_set a db =
     ebind (insert_or_nothing
         (\<lambda>r. an_source_document_id r = an_source_document_id a \<and> an_source_version r = an_source_version a)
         (an_source_document_id a \<in> document_ids db
          \<and> an_answer_set_id a \<notin> an_answer_set_id ` set (dd_answers db))
         a (dd_answers db))
       (\<lambda>rows. Inr (db\<lparr>dd_answers := rows\<rparr>))"

definition insert_variant :: "string \<Rightarrow> variant_create \<Rightarrow> document_db \<Rightarrow> document_db result" where
  "insert_variant document_id v db =
     ebind (insert_or_nothing
         (\<lambda>r. vr_document_id r = document_id \<and> vr_variant_kind r = vc_variant_kind v)
         (document_id \<in> document_ids db \<and> vc_source_document_id v \<in> document_ids db
          \<and> vc_variant_id v \<notin> vr_variant_id ` set (dd_variants db))
         \<lparr>vr_variant_id = vc_variant_id v, vr_document_id = document_id,
          vr_source_document_id = vc_source_document_id v, vr_variant_kind = vc_variant_kind v\<rparr>
         (dd_variants db))
       (\<lambda>rows. Inr (db\<lparr>dd_variants := rows\<rparr>))"

definition insert_dependency :: "string \<Rightarrow> string \<times> string \<Rightarrow> document_db \<Rightarrow> document_db result" where
  "insert_dependency document_id dependency db =
     (let row = \<lparr>dp_document_id = document_id, dp_source_document_id = fst dependency, dp_kind = snd dependency\<rparr>
      in ebind (insert_or_nothing ((=) row)
           (document_id \<in> document_ids db \<and> fst dependency \<in> document_ids db) row (dd_dependencies db))
         (\<lambda>rows. Inr (db\<lparr>dd_dependencies := rows\<rparr>)))"

fun insert_dependencies :: "string \<Rightarrow> (string \<times> string) list \<Rightarrow> document_db \<Rightarrow> document_db result" where
  "insert_dependencies document_id [] db = Inr db"
| "insert_dependencies document_id (d # ds) db =
     ebind (insert_dependency document_id d db) (insert_dependencies document_id ds)"

definition insert_approval :: "instant \<Rightarrow> string \<Rightarrow> approval_create \<Rightarrow> document_db \<Rightarrow> document_db result" where
  "insert_approval now document_id a db =
     ebind (insert_or_nothing (\<lambda>r. ap_approval_id r = ac_approval_id a) (document_id \<in> document_ids db)
         \<lparr>ap_approval_id = ac_approval_id a, ap_document_id = document_id, ap_status = ac_status a,
          ap_approved_by = ac_approved_by a, ap_created_at = now\<rparr> (dd_approvals db))
       (\<lambda>rows. Inr (db\<lparr>dd_approvals := rows\<rparr>))"

definition insert_snapshot_link :: "string \<Rightarrow> string \<Rightarrow> document_db \<Rightarrow> document_db result" where
  "insert_snapshot_link document_id snapshot_id db =
     (let row = \<lparr>ln_document_id = document_id, ln_snapshot_id = snapshot_id\<rparr>
      in ebind (insert_or_nothing ((=) row)
           (document_id \<in> document_ids db \<and> snapshot_id \<in> set (dd_snapshots db)) row (dd_links db))
         (\<lambda>rows. Inr (db\<lparr>dd_links := rows\<rparr>)))"

text \<open>\<open>ORDER BY created_at DESC LIMIT 1\<close>, the newest insertion first among equal times.\<close>

definition latest_approval_status :: "document_db \<Rightarrow> string \<Rightarrow> string option" where
  "latest_approval_status db document_id =
     (case sort_key (\<lambda>r. - ap_created_at r) (rev (filter (\<lambda>r. ap_document_id r = document_id) (dd_approvals db))) of
        [] \<Rightarrow> None | r # rs \<Rightarrow> Some (ap_status r))"

definition read_persisted :: "string \<Rightarrow> document_db \<Rightarrow> persisted result" where
  "read_persisted document_id db =
     (case List.find (\<lambda>r. row_id r = document_id) (dd_documents db) of
        None \<Rightarrow> Inl (ArtifactDocumentNotFoundError document_id)
      | Some r \<Rightarrow>
          ebind (scalar_one_or_none (filter (\<lambda>a. an_source_document_id a = document_id
              \<and> an_source_version a = row_version r) (dd_answers db))) (\<lambda>answers.
          ebind (artifact_document (dr_document r)) (\<lambda>d.
            Inr \<lparr>ps_document = d, ps_answer_set = answers,
                 ps_approval_status = latest_approval_status db document_id\<rparr>)))"

definition opt_apply :: "('a \<Rightarrow> 'b \<Rightarrow> 'b result) \<Rightarrow> 'a option \<Rightarrow> 'b \<Rightarrow> 'b result" where
  "opt_apply f x db = (case x of None \<Rightarrow> Inr db | Some v \<Rightarrow> f v db)"

text \<open>What \<open>persist\<close> raises leaves the tables to the caller's transaction, which is rolled back.\<close>

definition persist :: "instant \<Rightarrow> document_write \<Rightarrow> document_db \<Rightarrow> (persisted \<times> document_db) result" where
  "persist now w db =
     (let i = doc_id (dw_document w)
      in ebind (insert_document now (dw_run_id w) (dw_document w) db) (\<lambda>db.
         ebind (opt_apply insert_answer_set (dw_answer_set w) db) (\<lambda>db.
         ebind (opt_apply (insert_variant i) (dw_variant w) db) (\<lambda>db.
         ebind (insert_dependencies i (dw_dependencies w) db) (\<lambda>db.
         ebind (opt_apply (insert_approval now i) (dw_approval w) db) (\<lambda>db.
         ebind (opt_apply (insert_snapshot_link i) (dw_snapshot_id w) db) (\<lambda>db.
         ebind (read_persisted i db) (\<lambda>p. Inr (p, db)))))))))"

definition list_versions :: "string \<Rightarrow> string \<Rightarrow> document_db \<Rightarrow> document_row list" where
  "list_versions run artifact_id db =
     sort_key (\<lambda>r. - row_version r) (filter (\<lambda>r. dr_run_id r = run \<and> row_artifact r = artifact_id) (dd_documents db))"

definition get_latest :: "string \<Rightarrow> string \<Rightarrow> document_db \<Rightarrow> document_row option" where
  "get_latest run artifact_id db = (case list_versions run artifact_id db of [] \<Rightarrow> None | r # rs \<Rightarrow> Some r)"

definition create_edit ::
  "instant \<Rightarrow> string \<Rightarrow> int \<Rightarrow> document_write \<Rightarrow> document_db \<Rightarrow> (persisted \<times> document_db) result" where
  "create_edit now run base_version w db =
     (let artifact_id = doc_artifact_id (dw_document w);
          current = map_option row_version (get_latest run artifact_id db)
      in if current \<noteq> Some base_version then Inl (StaleArtifactVersionError artifact_id base_version current)
         else persist now w db)"

section \<open>Edits\<close>

definition impacted_artifact_ids :: "string \<Rightarrow> document_db \<Rightarrow> string list" where
  "impacted_artifact_ids edited db =
     remdups (concat (map (\<lambda>r. map (\<lambda>_. row_artifact r)
         (filter (\<lambda>d. dp_document_id d = row_id r \<and> dp_source_document_id d = edited) (dd_dependencies db)))
       (dd_documents db)))"

definition DEFAULT_TITLE :: string where
  "DEFAULT_TITLE = ''Untitled artifact''"

text \<open>The arguments a caller of the constructor leaves out take their defaults.\<close>

definition next_document ::
  "string \<Rightarrow> string \<Rightarrow> document_row \<Rightarrow> payload \<Rightarrow> document_authority \<Rightarrow> document" where
  "next_document new_id artifact_id latest payload authority =
     (let d = dr_document latest
      in \<lparr>doc_id = new_id, doc_artifact_id = artifact_id, doc_artifact_type = doc_artifact_type d,
          doc_version = doc_version d + 1, doc_language = doc_language d, doc_audience = doc_audience d,
          doc_authority = authority, doc_title = DEFAULT_TITLE, doc_theme = ''default'', doc_metadata = [],
          doc_payload = payload, doc_parent = Some (doc_id d),
          doc_source = Some (case doc_source d of Some (c # cs) \<Rightarrow> c # cs | _ \<Rightarrow> doc_id d)\<rparr>)"

text \<open>
  The edit of a head that was read before the lock was taken, and the edit as one transaction without
  another one in between.
\<close>

definition edit_after_read ::
  "instant \<Rightarrow> string \<Rightarrow> string \<Rightarrow> string \<Rightarrow> int \<Rightarrow> payload \<Rightarrow> document_authority \<Rightarrow> document_row option \<Rightarrow> document_db
   \<Rightarrow> ((document \<times> string list) \<times> document_db) result" where
  "edit_after_read now new_id run artifact_id base_version payload authority seen db =
     (case seen of
        None \<Rightarrow> Inl (ArtifactHasNoVersionsError artifact_id)
      | Some latest \<Rightarrow>
          ebind (artifact_document (next_document new_id artifact_id latest payload authority)) (\<lambda>d.
          ebind (create_edit now run base_version (document_write_of run d) db) (\<lambda>(p, db).
            Inr ((ps_document p, impacted_artifact_ids (row_id latest) db), db))))"

definition edit_artifact_document ::
  "instant \<Rightarrow> string \<Rightarrow> string \<Rightarrow> string \<Rightarrow> int \<Rightarrow> payload \<Rightarrow> document_authority \<Rightarrow> document_db
   \<Rightarrow> ((document \<times> string list) \<times> document_db) result" where
  "edit_artifact_document now new_id run artifact_id base_version payload authority db =
     edit_after_read now new_id run artifact_id base_version payload authority (get_latest run artifact_id db) db"

definition restore_artifact_document ::
  "instant \<Rightarrow> string \<Rightarrow> string \<Rightarrow> string \<Rightarrow> int \<Rightarrow> document_db
   \<Rightarrow> ((document \<times> string list) \<times> document_db) result" where
  "restore_artifact_document now new_id run artifact_id target_version db =
     (case list_versions run artifact_id db of
        [] \<Rightarrow> Inl (ArtifactHasNoVersionsError artifact_id)
      | latest # older \<Rightarrow>
          (case List.find (\<lambda>r. row_version r = target_version) (latest # older) of
             None \<Rightarrow> Inl (ArtifactVersionNotFoundError artifact_id target_version)
           | Some target \<Rightarrow>
               edit_artifact_document now new_id run artifact_id (row_version latest)
                 (doc_payload (dr_document target)) BY_RESTORE db))"

section \<open>Language versions and variants\<close>

definition derived_artifact_id :: "string \<Rightarrow> string \<Rightarrow> string" where
  "derived_artifact_id source suffix = take 80 (source @ ''--'' @ suffix)"

definition derived_document ::
  "string \<Rightarrow> string \<Rightarrow> document_row \<Rightarrow> document_row option \<Rightarrow> document_language \<Rightarrow> document_authority \<Rightarrow> payload
   \<Rightarrow> document" where
  "derived_document new_id derived_id source derived language authority payload =
     \<lparr>doc_id = new_id, doc_artifact_id = derived_id, doc_artifact_type = doc_artifact_type (dr_document source),
      doc_version = (case derived of Some r \<Rightarrow> row_version r + 1 | None \<Rightarrow> 1), doc_language = language,
      doc_audience = doc_audience (dr_document source), doc_authority = authority, doc_title = DEFAULT_TITLE,
      doc_theme = ''default'', doc_metadata = [], doc_payload = payload, doc_parent = map_option row_id derived,
      doc_source = Some (row_id source)\<rparr>"

definition persist_or_extend ::
  "instant \<Rightarrow> string \<Rightarrow> string \<Rightarrow> string \<Rightarrow> string \<Rightarrow> document_language \<Rightarrow> document_authority \<Rightarrow> payload
   \<Rightarrow> string \<Rightarrow> variant_create option \<Rightarrow> document_db \<Rightarrow> ((document \<times> string list) \<times> document_db) result" where
  "persist_or_extend now new_id run source_id derived_id language authority payload kind variant db =
     (case get_latest run source_id db of
        None \<Rightarrow> Inl (ArtifactHasNoVersionsError source_id)
      | Some source \<Rightarrow>
          let derived = get_latest run derived_id db
          in ebind (artifact_document (derived_document new_id derived_id source derived language authority payload)) (\<lambda>d.
             let w = (document_write_of run d)\<lparr>dw_variant := variant, dw_dependencies := [(row_id source, kind)]\<rparr>
             in ebind (case derived of
                  None \<Rightarrow> persist now w db
                | Some r \<Rightarrow> create_edit now run (row_version r) w db) (\<lambda>(p, db).
                Inr ((ps_document p, impacted_artifact_ids (row_id source) db), db))))"

definition create_language_version ::
  "instant \<Rightarrow> string \<Rightarrow> string \<Rightarrow> string \<Rightarrow> document_language \<Rightarrow> payload \<Rightarrow> document_authority \<Rightarrow> document_db
   \<Rightarrow> ((document \<times> string list) \<times> document_db) result" where
  "create_language_version now new_id run source_id language payload authority db =
     (case get_latest run source_id db of
        None \<Rightarrow> Inl (ArtifactHasNoVersionsError source_id)
      | Some source \<Rightarrow>
          if doc_language (dr_document source) = language
          then Inl (LanguageVersionAlreadyInTargetLanguageError source_id (language_value language))
          else persist_or_extend now new_id run source_id
            (derived_artifact_id source_id (''lang-'' @ language_value language)) language authority payload
            ''translation'' None db)"

definition create_content_variant ::
  "instant \<Rightarrow> string \<Rightarrow> string \<Rightarrow> string \<Rightarrow> string \<Rightarrow> string \<Rightarrow> payload \<Rightarrow> document_authority \<Rightarrow> document_db
   \<Rightarrow> ((document \<times> string list) \<times> document_db) result" where
  "create_content_variant now new_id variant_id run source_id kind payload authority db =
     (case get_latest run source_id db of
        None \<Rightarrow> Inl (ArtifactHasNoVersionsError source_id)
      | Some source \<Rightarrow>
          persist_or_extend now new_id run source_id (derived_artifact_id source_id (''variant-'' @ kind))
            (doc_language (dr_document source)) authority payload ''variant''
            (Some \<lparr>vc_variant_id = variant_id, vc_variant_kind = kind, vc_source_document_id = row_id source\<rparr>) db)"

text \<open>Kinds are listed in the order in which \<open>sorted\<close> puts them.\<close>

definition ALL_VARIANT_KINDS :: "string list" where
  "ALL_VARIANT_KINDS = [''accessibility'', ''challenge'', ''language_scaffold'', ''semantic_support'']"

definition required_variant_kinds :: "json_object \<Rightarrow> string list" where
  "required_variant_kinds class_profile =
     (let target = dict_get class_profile ''target_language'';
          instruction = dict_get class_profile ''instruction_language''
      in [''accessibility'']
         @ (if truthy target \<and> truthy instruction \<and> target \<noteq> instruction then [''language_scaffold''] else []))"

definition variant_kinds_present :: "string \<Rightarrow> string \<Rightarrow> document_db \<Rightarrow> string set" where
  "variant_kinds_present run source_id db =
     (case get_latest run source_id db of
        None \<Rightarrow> {}
      | Some source \<Rightarrow>
          vr_variant_kind ` {v \<in> set (dd_variants db). vr_source_document_id v = row_id source})"

record variants_outcome =
  vo_created :: "string list"
  vo_already_present :: "string list"
  vo_missing_payload :: "string list"
  vo_recommended :: "string list"

text \<open>The loop over the missing kinds; \<open>ids kind\<close> are the identifiers generated for a kind.\<close>

fun create_variants ::
  "instant \<Rightarrow> (string \<Rightarrow> string \<times> string) \<Rightarrow> string \<Rightarrow> string \<Rightarrow> (string \<rightharpoonup> payload) \<Rightarrow> string list \<Rightarrow> document_db
   \<Rightarrow> ((string list \<times> string list) \<times> document_db) result" where
  "create_variants now ids run source_id payloads [] db = Inr (([], []), db)"
| "create_variants now ids run source_id payloads (k # ks) db =
     (case payloads k of
        None \<Rightarrow> ebind (create_variants now ids run source_id payloads ks db) (\<lambda>((created, missing), db).
            Inr ((created, k # missing), db))
      | Some payload \<Rightarrow>
          ebind (create_content_variant now (fst (ids k)) (snd (ids k)) run source_id k payload BY_VARIANT db) (\<lambda>(_, db).
          ebind (create_variants now ids run source_id payloads ks db) (\<lambda>((created, missing), db).
            Inr ((k # created, missing), db))))"

definition ensure_required_variants ::
  "instant \<Rightarrow> (string \<Rightarrow> string \<times> string) \<Rightarrow> string \<Rightarrow> string \<Rightarrow> json_object \<Rightarrow> (string \<rightharpoonup> payload) \<Rightarrow> document_db
   \<Rightarrow> (variants_outcome \<times> document_db) result" where
  "ensure_required_variants now ids run source_id class_profile payloads db =
     (let required = required_variant_kinds class_profile;
          present = variant_kinds_present run source_id db
      in ebind (create_variants now ids run source_id payloads (filter (\<lambda>k. k \<notin> present) required) db)
           (\<lambda>((created, missing), db).
             Inr (\<lparr>vo_created = created, vo_already_present = filter (\<lambda>k. k \<in> present) required,
               vo_missing_payload = missing,
               vo_recommended = filter (\<lambda>k. k \<notin> set required) ALL_VARIANT_KINDS\<rparr>, db)))"

section \<open>Review notes and approvals\<close>

record note_create =
  nc_note_id :: string
  nc_run_id :: string
  nc_artifact_id :: string
  nc_document_id :: string
  nc_content_entity_id :: "string option"
  nc_author_id :: string
  nc_body :: string
  nc_blocking :: bool

definition create_note :: "instant \<Rightarrow> note_create \<Rightarrow> document_db \<Rightarrow> document_db result" where
  "create_note now n db =
     (if nc_note_id n \<in> nt_note_id ` set (dd_notes db) \<or> nc_run_id n \<notin> set (dd_runs db)
         \<or> nc_document_id n \<notin> document_ids db
      then Inl IntegrityError
      else Inr (db\<lparr>dd_notes := dd_notes db @
        [\<lparr>nt_note_id = nc_note_id n, nt_run_id = nc_run_id n, nt_artifact_id = nc_artifact_id n,
          nt_document_id = nc_document_id n, nt_content_entity_id = nc_content_entity_id n,
          nt_author_id = nc_author_id n, nt_body = nc_body n, nt_blocking = nc_blocking n, nt_status = ''open'',
          nt_created_at = now, nt_resolved_at = None\<rparr>]\<rparr>))"

definition list_notes :: "string \<Rightarrow> string \<Rightarrow> document_db \<Rightarrow> note_row list" where
  "list_notes run artifact_id db =
     sort_key (\<lambda>n. - nt_created_at n)
       (rev (filter (\<lambda>n. nt_run_id n = run \<and> nt_artifact_id n = artifact_id) (dd_notes db)))"

definition resolve_note :: "instant \<Rightarrow> string \<Rightarrow> document_db \<Rightarrow> document_db result" where
  "resolve_note now note_id db =
     (if note_id \<notin> nt_note_id ` set (dd_notes db) then Inl (ReviewNoteNotFoundError note_id)
      else Inr (db\<lparr>dd_notes := update_where (\<lambda>n. nt_note_id n = note_id)
        (\<lambda>n. n\<lparr>nt_status := ''resolved'', nt_resolved_at := Some now\<rparr>) (dd_notes db)\<rparr>))"

definition has_open_blocking :: "string \<Rightarrow> string \<Rightarrow> document_db \<Rightarrow> bool" where
  "has_open_blocking run artifact_id db =
     list_ex (\<lambda>n. nt_run_id n = run \<and> nt_artifact_id n = artifact_id \<and> nt_blocking n \<and> nt_status n = ''open'')
       (dd_notes db)"

definition approval_by :: "string \<Rightarrow> string \<Rightarrow> approval_create" where
  "approval_by approval_id approver = \<lparr>ac_approval_id = approval_id, ac_status = ''approved'', ac_approved_by = approver\<rparr>"

definition approve_artifact_version ::
  "instant \<Rightarrow> string \<Rightarrow> string \<Rightarrow> string \<Rightarrow> int \<Rightarrow> string \<Rightarrow> document_db \<Rightarrow> document_db result" where
  "approve_artifact_version now approval_id run artifact_id version approver db =
     (case get_latest run artifact_id db of
        None \<Rightarrow> Inl (ArtifactNotCurrentError artifact_id version 0)
      | Some latest \<Rightarrow>
          if row_version latest \<noteq> version
          then Inl (ArtifactNotCurrentError artifact_id version (row_version latest))
          else if has_open_blocking run artifact_id db then Inl (BlockingReviewNotesOpenError artifact_id)
          else insert_approval now (row_id latest) (approval_by approval_id approver) db)"

fun approve_all_current ::
  "instant \<Rightarrow> string \<Rightarrow> string \<Rightarrow> (string \<times> string) list \<Rightarrow> document_db
   \<Rightarrow> ((string list \<times> (string \<times> string) list) \<times> document_db) result" where
  "approve_all_current now run approver [] db = Inr (([], []), db)"
| "approve_all_current now run approver ((artifact_id, approval_id) # rest) db =
     (case get_latest run artifact_id db of
        None \<Rightarrow> ebind (approve_all_current now run approver rest db) (\<lambda>((approved, blocked), db).
            Inr ((approved, (artifact_id, ''no_version'') # blocked), db))
      | Some latest \<Rightarrow>
          if has_open_blocking run artifact_id db
          then ebind (approve_all_current now run approver rest db) (\<lambda>((approved, blocked), db).
            Inr ((approved, (artifact_id, ''blocking_review_note'') # blocked), db))
          else ebind (insert_approval now (row_id latest) (approval_by approval_id approver) db) (\<lambda>db.
            ebind (approve_all_current now run approver rest db) (\<lambda>((approved, blocked), db).
              Inr ((artifact_id # approved, blocked), db))))"

section \<open>The content store of the graph\<close>

text \<open>The reference that a branch writes to the graph's state, and what one transaction stores.\<close>

record persistence_result =
  pr_artifact :: content
  pr_answer_set :: "answer_row option"
  pr_dependency_document_ids :: "string list"

definition persist_result ::
  "content_env \<Rightarrow> instant \<Rightarrow> string \<Rightarrow> string \<Rightarrow> persistence_result \<Rightarrow> string \<Rightarrow> document_db
   \<Rightarrow> (document \<times> document_db) result" where
  "persist_result env now run generation_id result artifact_id db =
     (let document_id = generation_id @ '':'' @ artifact_id
      in ebind (document_from_content env (pr_artifact result) document_id artifact_id 1) (\<lambda>d.
         let answers = map_option (\<lambda>a. a\<lparr>an_source_document_id := document_id, an_source_version := doc_version d,
               an_answer_set_id := ''answers-'' @ document_id @ ''-v'' @ show_int (doc_version d)\<rparr>)
             (pr_answer_set result);
             w = (document_write_of run d)\<lparr>dw_answer_set := answers,
               dw_dependencies := map (\<lambda>i. (i, ''answer_projection'')) (pr_dependency_document_ids result)\<rparr>
         in ebind (persist now w db) (\<lambda>(p, db). Inr (d, db))))"

definition read_projection :: "content_env \<Rightarrow> string \<Rightarrow> document_db \<Rightarrow> content result" where
  "read_projection env document_id db =
     ebind (read_persisted document_id db) (\<lambda>p. content_from_document env (ps_document p) None)"

definition read_answer_set :: "string \<Rightarrow> document_db \<Rightarrow> answer_row option result" where
  "read_answer_set document_id db = ebind (read_persisted document_id db) (\<lambda>p. Inr (ps_answer_set p))"

end
