(* ===== verification/Document_Invariant.thy ===== *)
theory Document_Invariant
  imports Document_Store Sequenced_Log
begin

text \<open>
  The invariant of the document tables: identifiers are unique, the versions of every artifact form a
  gapless lineage in which each version names the one before it, every stored document validates, and
  answers, variants, dependencies and approvals refer to stored documents. The lineages interpret the
  locale of numbered logs. Every service keeps the invariant.
\<close>

section \<open>What the operations do to the documents\<close>

lemma insert_or_nothing_Inr:
  "insert_or_nothing conflicts allowed row rows = Inr rows' \<longleftrightarrow>
   list_ex conflicts rows \<and> rows' = rows \<or> \<not> list_ex conflicts rows \<and> allowed \<and> rows' = rows @ [row]"
  by (auto simp: insert_or_nothing_def)

text \<open>The tables that hold no documents.\<close>

definition same_documents :: "document_db \<Rightarrow> document_db \<Rightarrow> bool" where
  "same_documents db db' \<longleftrightarrow> dd_documents db' = dd_documents db \<and> dd_runs db' = dd_runs db
     \<and> dd_notes db' = dd_notes db"

lemma same_documents_refl [simp]: "same_documents db db"
  by (simp add: same_documents_def)

lemma same_documents_trans: "same_documents a b \<Longrightarrow> same_documents b c \<Longrightarrow> same_documents a c"
  by (simp add: same_documents_def)

lemma inserts_same_documents:
  "insert_answer_set a db = Inr db' \<Longrightarrow> same_documents db db'"
  "insert_variant i v db = Inr db' \<Longrightarrow> same_documents db db'"
  "insert_dependency i d db = Inr db' \<Longrightarrow> same_documents db db'"
  "insert_approval now i c db = Inr db' \<Longrightarrow> same_documents db db'"
  "insert_snapshot_link i s db = Inr db' \<Longrightarrow> same_documents db db'"
  by (auto simp: insert_answer_set_def insert_variant_def insert_dependency_def insert_approval_def
      insert_snapshot_link_def Let_def ebind_Inr_iff same_documents_def)

lemma insert_dependencies_same_documents:
  "insert_dependencies i ds db = Inr db' \<Longrightarrow> same_documents db db'"
  by (induction ds arbitrary: db) (auto simp: ebind_Inr_iff intro: same_documents_trans inserts_same_documents(3))

lemma opt_apply_same_documents:
  "opt_apply f x db = Inr db' \<Longrightarrow> (\<And>v db db'. f v db = Inr db' \<Longrightarrow> same_documents db db') \<Longrightarrow> same_documents db db'"
  by (auto simp: opt_apply_def split: option.splits)

text \<open>A row of the document table as \<open>insert_document\<close> writes it.\<close>

definition inserted :: "string \<Rightarrow> document \<Rightarrow> document_db \<Rightarrow> document_row \<Rightarrow> bool" where
  "inserted run d db row \<longleftrightarrow> dr_run_id row = run \<and> dr_document row = d \<and> doc_id d \<notin> document_ids db
     \<and> run \<in> set (dd_runs db)
     \<and> (\<forall>r \<in> set (dd_documents db). dr_run_id r = run \<longrightarrow> row_artifact r = doc_artifact_id d \<longrightarrow> row_version r \<noteq> doc_version d)
     \<and> opt_known (document_ids db) (doc_parent d) \<and> opt_known (document_ids db) (doc_source d)"

definition extends :: "string \<Rightarrow> document \<Rightarrow> document_db \<Rightarrow> document_db \<Rightarrow> bool" where
  "extends run d db db' \<longleftrightarrow> dd_runs db' = dd_runs db \<and> dd_notes db' = dd_notes db
     \<and> (\<exists>row. inserted run d db row \<and> dd_documents db' = dd_documents db @ [row])"

lemma insert_document_Inr:
  assumes "insert_document now run d db = Inr db'"
  shows "doc_id d \<in> document_ids db \<and> db' = db \<or> extends run d db db'"
proof (cases "doc_id d \<in> document_ids db")
  case True
  then have "list_ex (\<lambda>r. row_id r = doc_id d) (dd_documents db)" by (auto simp: list_ex_iff document_ids_def)
  with assms True show ?thesis by (simp add: insert_document_def insert_or_nothing_def)
next
  case False
  then have new: "\<not> list_ex (\<lambda>r. row_id r = doc_id d) (dd_documents db)"
    unfolding list_ex_iff document_ids_def by (metis image_eqI)
  let ?row = "\<lparr>dr_run_id = run, dr_document = d, dr_created_at = now\<rparr>"
  have "dd_documents db' = dd_documents db @ [?row] \<and> dd_runs db' = dd_runs db \<and> dd_notes db' = dd_notes db"
    and "inserted run d db ?row"
    using assms new False
    by (auto simp: insert_document_def insert_or_nothing_def inserted_def list_ex_iff split: if_splits)
  then show ?thesis by (auto simp: extends_def)
qed

lemma read_persisted_Inr:
  assumes "read_persisted i db = Inr p"
  shows "\<exists>r \<in> set (dd_documents db). row_id r = i \<and> ps_document p = dr_document r \<and> document_ok (dr_document r)"
  using assms
  by (auto simp: read_persisted_def ebind_Inr_iff artifact_document_def find_Some_iff
      split: option.splits if_splits)

lemma persist_documents:
  assumes "persist now w db = Inr (p, db')"
  shows "(doc_id (dw_document w) \<in> document_ids db \<and> same_documents db db' \<or> extends (dw_run_id w) (dw_document w) db db')
    \<and> (\<exists>r \<in> set (dd_documents db'). row_id r = doc_id (dw_document w) \<and> ps_document p = dr_document r)"
proof -
  let ?i = "doc_id (dw_document w)"
  from assms obtain db1 db2 db3 db4 db5 where
    first: "insert_document now (dw_run_id w) (dw_document w) db = Inr db1"
    and rest: "opt_apply insert_answer_set (dw_answer_set w) db1 = Inr db2"
      "opt_apply (insert_variant ?i) (dw_variant w) db2 = Inr db3"
      "insert_dependencies ?i (dw_dependencies w) db3 = Inr db4"
      "opt_apply (insert_approval now ?i) (dw_approval w) db4 = Inr db5"
      "opt_apply (insert_snapshot_link ?i) (dw_snapshot_id w) db5 = Inr db'"
    and read: "read_persisted ?i db' = Inr p"
    by (auto simp: persist_def Let_def ebind_Inr_iff)
  have "same_documents db1 db'"
    by (rule same_documents_trans, rule same_documents_trans, rule same_documents_trans, rule same_documents_trans)
      (rule opt_apply_same_documents [OF rest(1)] opt_apply_same_documents [OF rest(2)]
        insert_dependencies_same_documents [OF rest(3)] opt_apply_same_documents [OF rest(4)]
        opt_apply_same_documents [OF rest(5)]; erule inserts_same_documents)+
  with insert_document_Inr [OF first] read_persisted_Inr [OF read] show ?thesis
    by (auto simp: same_documents_def extends_def)
qed

section \<open>Lineages\<close>

definition in_lineage :: "string \<times> string \<Rightarrow> document_row \<Rightarrow> bool" where
  "in_lineage k r \<longleftrightarrow> (dr_run_id r, row_artifact r) = k"

definition lineage_versions :: "document_db \<Rightarrow> string \<times> string \<Rightarrow> nat list" where
  "lineage_versions db k = map (\<lambda>r. nat (row_version r)) (filter (in_lineage k) (dd_documents db))"

definition version_appended :: "string \<times> string \<Rightarrow> document_db \<Rightarrow> document_db \<Rightarrow> bool" where
  "version_appended k db db' \<longleftrightarrow>
     (\<exists>row. dd_documents db' = dd_documents db @ [row] \<and> in_lineage k row
       \<and> nat (row_version row) = next_seq (lineage_versions db k))"

lemma in_lineage_eq: "in_lineage k r \<Longrightarrow> in_lineage k' r \<longleftrightarrow> k' = k"
  by (auto simp: in_lineage_def)

lemma lineage_versions_snoc:
  "dd_documents db' = dd_documents db @ [row] \<Longrightarrow>
   lineage_versions db' k = lineage_versions db k @ (if in_lineage k row then [nat (row_version row)] else [])"
  by (simp add: lineage_versions_def)

interpretation lineages: sequenced_log lineage_versions version_appended
  by unfold_locales (use lineage_versions_snoc in_lineage_eq in \<open>fastforce simp: version_appended_def\<close>)+

text \<open>The version after one that is there is the next one, unless it is there too.\<close>

lemma next_version:
  assumes "gapless ns" and "v \<in> set ns" and "Suc v \<notin> set ns"
  shows "Suc v = next_seq ns"
  using assms gapless_set [OF assms(1)] next_of_gapless [OF assms(1)] by fastforce

lemma latest_row:
  assumes "get_latest run art db = Some r"
  shows "r \<in> set (dd_documents db) \<and> in_lineage (run, art) r
    \<and> (\<forall>q \<in> set (dd_documents db). in_lineage (run, art) q \<longrightarrow> row_version q \<le> row_version r)"
proof -
  from assms obtain rs where
    "filter (\<lambda>r. dr_run_id r = run \<and> row_artifact r = art) (sort_key (\<lambda>r. - row_version r) (dd_documents db)) = r # rs"
    by (auto simp: get_latest_def list_versions_def filter_sort split: list.splits)
  from sort_key_filter_hdD [OF this] show ?thesis by (auto simp: in_lineage_def)
qed

lemma latest_None: "get_latest run art db = None \<longleftrightarrow> lineage_versions db (run, art) = []"
proof -
  have "length (list_versions run art db) = length (filter (\<lambda>r. dr_run_id r = run \<and> row_artifact r = art) (dd_documents db))"
    by (simp add: list_versions_def)
  also have "\<dots> = length (lineage_versions db (run, art))"
    by (simp add: lineage_versions_def in_lineage_def [abs_def])
  finally show ?thesis by (cases "list_versions run art db") (auto simp: get_latest_def)
qed

section \<open>The invariant\<close>

definition documents_ok :: "document_db \<Rightarrow> bool" where
  "documents_ok db \<longleftrightarrow> distinct (map row_id (dd_documents db)) \<and> (\<forall>k. gapless (lineage_versions db k))
     \<and> (\<forall>r \<in> set (dd_documents db). document_ok (dr_document r)
          \<and> (case doc_parent (dr_document r) of
               None \<Rightarrow> row_version r = 1
             | Some p \<Rightarrow> \<exists>q \<in> set (dd_documents db). row_id q = p \<and> dr_run_id q = dr_run_id r
                 \<and> row_artifact q = row_artifact r \<and> row_version r = row_version q + 1))"

lemma documents_okD:
  assumes "documents_ok db"
  shows "distinct (map row_id (dd_documents db))" and "gapless (lineage_versions db k)"
    and "r \<in> set (dd_documents db) \<Longrightarrow> document_ok (dr_document r)"
    and "r \<in> set (dd_documents db) \<Longrightarrow> 1 \<le> row_version r"
proof -
  show "gapless (lineage_versions db k)" using assms by (cases k) (simp add: documents_ok_def)
qed (use assms in \<open>auto simp: documents_ok_def document_ok_def\<close>)

text \<open>The document is a first version, or the one after a row of its lineage.\<close>

definition successor :: "string \<Rightarrow> document \<Rightarrow> document_db \<Rightarrow> bool" where
  "successor run d db \<longleftrightarrow> doc_parent d = None \<and> doc_version d = 1
     \<or> (\<exists>q \<in> set (dd_documents db). doc_parent d = Some (row_id q) \<and> in_lineage (run, doc_artifact_id d) q
          \<and> doc_version d = row_version q + 1)"

lemma version_there:
  assumes "documents_ok db" and "1 \<le> v"
  shows "nat v \<in> set (lineage_versions db (run, art)) \<longleftrightarrow>
    (\<exists>r \<in> set (dd_documents db). in_lineage (run, art) r \<and> row_version r = v)"
proof -
  have "nat (row_version r) = nat v \<longleftrightarrow> row_version r = v" if "r \<in> set (dd_documents db)" for r
    using documents_okD(4) [OF assms(1) that] assms(2) by (simp add: eq_nat_nat_iff)
  then show ?thesis by (fastforce simp: lineage_versions_def image_iff)
qed

lemma inserted_next:
  assumes "documents_ok db" and "inserted run d db row" and "successor run d db"
  shows "in_lineage (run, doc_artifact_id d) row \<and> nat (row_version row) = next_seq (lineage_versions db (run, doc_artifact_id d))"
proof -
  let ?ns = "lineage_versions db (run, doc_artifact_id d)"
  have ok: "gapless ?ns" by (rule documents_okD(2) [OF assms(1)])
  have row: "dr_run_id row = run" "dr_document row = d" using assms(2) by (auto simp: inserted_def)
  have pos: "1 \<le> doc_version d" using assms(3) documents_okD(4) [OF assms(1)] by (fastforce simp: successor_def)
  have new: "nat (doc_version d) \<notin> set ?ns"
    unfolding version_there [OF assms(1) pos] using assms(2) by (auto simp: inserted_def in_lineage_def)
  from assms(3) have "nat (doc_version d) = next_seq ?ns"
    unfolding successor_def
  proof (elim disjE conjE bexE)
    assume "doc_version d = 1"
    then show ?thesis using new gapless_set [OF ok, of 1] next_of_gapless [OF ok] by (simp add: not_less_eq_eq)
  next
    fix q assume q: "q \<in> set (dd_documents db)" "in_lineage (run, doc_artifact_id d) q" "doc_version d = row_version q + 1"
    have "nat (row_version q) \<in> set ?ns" using q(1,2) by (auto simp: lineage_versions_def)
    moreover have "nat (doc_version d) = Suc (nat (row_version q))"
      using q(3) documents_okD(4) [OF assms(1) q(1)] by simp
    ultimately show ?thesis using next_version [OF ok] new by metis
  qed
  with row show ?thesis by (simp add: in_lineage_def)
qed

lemma extends_ok:
  assumes ok: "documents_ok db" and "extends run d db db'" and "document_ok d" and "successor run d db"
  shows "documents_ok db' \<and> version_appended (run, doc_artifact_id d) db db'"
proof -
  from assms(2) obtain row where row: "inserted run d db row" "dd_documents db' = dd_documents db @ [row]"
    by (auto simp: extends_def)
  have app: "version_appended (run, doc_artifact_id d) db db'"
    using inserted_next [OF ok row(1) assms(4)] row(2) by (auto simp: version_appended_def)
  have new: "dr_run_id row = run" "dr_document row = d" "doc_id d \<notin> row_id ` set (dd_documents db)"
    using row(1) by (auto simp: inserted_def document_ids_def)
  have "gapless (lineage_versions db' k)" for k
    by (rule lineages.gapless_appended [OF documents_okD(2) [OF ok] app])
  moreover have "distinct (map row_id (dd_documents db'))"
    using documents_okD(1) [OF ok] new by (simp add: row(2))
  moreover have "case doc_parent (dr_document row) of None \<Rightarrow> row_version row = 1
      | Some p \<Rightarrow> \<exists>q \<in> set (dd_documents db'). row_id q = p \<and> dr_run_id q = dr_run_id row
          \<and> row_artifact q = row_artifact row \<and> row_version row = row_version q + 1"
    unfolding new(1,2) using assms(4) row(2) by (fastforce simp: successor_def in_lineage_def)
  moreover have "\<forall>r \<in> set (dd_documents db). document_ok (dr_document r)
      \<and> (case doc_parent (dr_document r) of None \<Rightarrow> row_version r = 1
         | Some p \<Rightarrow> \<exists>q \<in> set (dd_documents db'). row_id q = p \<and> dr_run_id q = dr_run_id r
             \<and> row_artifact q = row_artifact r \<and> row_version r = row_version q + 1)"
    using ok row(2) unfolding documents_ok_def by (fastforce split: option.splits)
  ultimately show ?thesis using app assms(3) new by (simp add: documents_ok_def row(2))
qed

text \<open>A write either stores its document as the next version or finds one under its identifier.\<close>

definition grows :: "document_db \<Rightarrow> document_db \<Rightarrow> bool" where
  "grows db db' \<longleftrightarrow> dd_documents db' = dd_documents db \<or> (\<exists>k. version_appended k db db')"

lemma same_rows_ok:
  assumes "dd_documents db' = dd_documents db"
  shows "documents_ok db' = documents_ok db \<and> grows db db'"
proof -
  have "lineage_versions db' = lineage_versions db" by (simp add: lineage_versions_def fun_eq_iff assms)
  with assms show ?thesis unfolding documents_ok_def grows_def by (simp only: simp_thms)
qed

lemma same_documents_ok: "same_documents db db' \<Longrightarrow> documents_ok db' = documents_ok db \<and> grows db db'"
  by (rule same_rows_ok) (simp add: same_documents_def)

lemma persist_ok:
  assumes "documents_ok db" and "persist now w db = Inr (p, db')"
    and "document_ok (dw_document w)" and "successor (dw_run_id w) (dw_document w) db"
  shows "documents_ok db' \<and> grows db db'"
  using persist_documents [OF assms(2)] same_documents_ok [of db db'] assms(1)
    extends_ok [OF assms(1) _ assms(3,4)] by (auto simp: grows_def)

lemma create_edit_ok:
  assumes "documents_ok db" and "create_edit now run base w db = Inr (p, db')"
    and "document_ok (dw_document w)" and "successor (dw_run_id w) (dw_document w) db"
  shows "documents_ok db' \<and> grows db db'"
proof -
  have "persist now w db = Inr (p, db')" using assms(2) by (simp add: create_edit_def Let_def split: if_splits)
  from persist_ok [OF assms(1) this assms(3,4)] show ?thesis .
qed

lemma edit_after_read_ok:
  assumes "documents_ok db" and "seen \<in> set (dd_documents db)" and "in_lineage (run, artifact_id) seen"
    and "edit_after_read now new_id run artifact_id base payload authority (Some seen) db = Inr (x, db')"
  shows "documents_ok db' \<and> grows db db'"
proof -
  let ?d = "next_document new_id artifact_id seen payload authority"
  from assms(4) obtain p where "document_ok ?d" and "create_edit now run base (document_write_of run ?d) db = Inr (p, db')"
    by (auto simp: edit_after_read_def ebind_Inr_iff artifact_document_def split: if_splits)
  moreover have "successor run ?d db"
    using assms(2,3) by (auto simp: successor_def next_document_def Let_def)
  ultimately show ?thesis using create_edit_ok [OF assms(1)] by (simp add: document_write_of_def)
qed

lemma edit_ok:
  assumes "documents_ok db" and "edit_artifact_document now new_id run artifact_id base payload authority db = Inr (x, db')"
  shows "documents_ok db' \<and> grows db db'"
proof (cases "get_latest run artifact_id db")
  case None
  with assms(2) show ?thesis by (simp add: edit_artifact_document_def edit_after_read_def)
next
  case (Some seen)
  with assms latest_row [OF Some] edit_after_read_ok show ?thesis by (fastforce simp: edit_artifact_document_def)
qed

lemma restore_ok:
  assumes "documents_ok db" and "restore_artifact_document now new_id run artifact_id target db = Inr (x, db')"
  shows "documents_ok db' \<and> grows db db'"
  using assms(2) edit_ok [OF assms(1)]
  by (auto simp: restore_artifact_document_def split: list.splits option.splits simp del: find.simps)

lemma persist_or_extend_ok:
  assumes "documents_ok db"
    and "persist_or_extend now new_id run source_id derived_id language authority payload kind variant db = Inr (x, db')"
  shows "documents_ok db' \<and> grows db db'"
proof -
  from assms(2) obtain source where source: "get_latest run source_id db = Some source"
    by (auto simp: persist_or_extend_def split: option.splits)
  define derived where "derived = get_latest run derived_id db"
  define d where "d = derived_document new_id derived_id source derived language authority payload"
  define w where "w = (document_write_of run d)\<lparr>dw_variant := variant, dw_dependencies := [(row_id source, kind)]\<rparr>"
  have "persist_or_extend now new_id run source_id derived_id language authority payload kind variant db =
      ebind (artifact_document d) (\<lambda>_. ebind (case derived of
          None \<Rightarrow> persist now w db | Some r \<Rightarrow> create_edit now run (row_version r) w db)
        (\<lambda>(p, db). Inr ((ps_document p, impacted_artifact_ids (row_id source) db), db)))"
    by (cases "get_latest run derived_id db")
      (simp_all add: persist_or_extend_def Let_def source derived_def d_def w_def artifact_document_def)
  with assms(2) obtain p where "document_ok d" and p: "(case derived of None \<Rightarrow> persist now w db
      | Some r \<Rightarrow> create_edit now run (row_version r) w db) = Inr (p, db')"
    by (auto simp: ebind_Inr_iff artifact_document_def split: if_splits)
  moreover have "successor run d db"
    using latest_row [of run derived_id db]
    by (cases derived) (auto simp: derived_def [symmetric] d_def derived_document_def successor_def)
  moreover have "dw_document w = d" "dw_run_id w = run" by (simp_all add: w_def document_write_of_def)
  ultimately show ?thesis
    using persist_ok [OF assms(1), of now w p db'] create_edit_ok [OF assms(1), of now run _ w p db']
    by (cases derived) simp_all
qed

lemma language_version_ok:
  assumes "documents_ok db" and "create_language_version now new_id run source_id language payload authority db = Inr (x, db')"
  shows "documents_ok db' \<and> grows db db'"
  using assms(2) persist_or_extend_ok [OF assms(1)]
  by (auto simp: create_language_version_def split: option.splits if_splits)

lemma content_variant_ok:
  assumes "documents_ok db"
    and "create_content_variant now new_id variant_id run source_id kind payload authority db = Inr (x, db')"
  shows "documents_ok db' \<and> grows db db'"
  using assms(2) persist_or_extend_ok [OF assms(1)]
  by (auto simp: create_content_variant_def split: option.splits)

lemma document_from_content_Inr:
  assumes "document_from_content env c i a v = Inr d"
  shows "document_ok d \<and> doc_id d = i \<and> doc_artifact_id d = a \<and> doc_version d = v \<and> doc_parent d = None"
  using assms
  by (auto simp: document_from_content_def Let_def ebind_Inr_iff artifact_document_def split: if_splits)

text \<open>What one transaction of the content store writes.\<close>

definition generated_write :: "string \<Rightarrow> document \<Rightarrow> persistence_result \<Rightarrow> document_write" where
  "generated_write run d result = (document_write_of run d)
     \<lparr>dw_answer_set := map_option (\<lambda>a. a\<lparr>an_source_document_id := doc_id d, an_source_version := doc_version d,
        an_answer_set_id := ''answers-'' @ doc_id d @ ''-v'' @ show_int (doc_version d)\<rparr>) (pr_answer_set result),
      dw_dependencies := map (\<lambda>i. (i, ''answer_projection'')) (pr_dependency_document_ids result)\<rparr>"

lemma generated_write_document [simp]: "dw_document (generated_write run d result) = d" "dw_run_id (generated_write run d result) = run"
  by (simp_all add: generated_write_def document_write_of_def)

lemma persist_result_write:
  "persist_result env now run gen result artifact_id db =
     ebind (document_from_content env (pr_artifact result) (gen @ '':'' @ artifact_id) artifact_id 1) (\<lambda>d.
       ebind (persist now (generated_write run d result) db) (\<lambda>(p, db). Inr (d, db)))"
proof (cases "document_from_content env (pr_artifact result) (gen @ '':'' @ artifact_id) artifact_id 1")
  case (Inr d)
  with document_from_content_Inr [OF Inr] show ?thesis
    by (simp add: persist_result_def Let_def generated_write_def)
qed (simp add: persist_result_def)

lemma persist_result_ok:
  assumes "documents_ok db" and "persist_result env now run gen result artifact_id db = Inr (x, db')"
  shows "documents_ok db' \<and> grows db db'"
proof -
  from assms(2) obtain d p where d: "document_from_content env (pr_artifact result) (gen @ '':'' @ artifact_id) artifact_id 1 = Inr d"
    and p: "persist now (generated_write run d result) db = Inr (p, db')"
    by (auto simp: persist_result_write ebind_Inr_iff)
  from document_from_content_Inr [OF d] show ?thesis
    using persist_ok [OF assms(1) p] by (simp add: successor_def)
qed

section \<open>References between the tables\<close>

definition references_ok :: "document_db \<Rightarrow> bool" where
  "references_ok db \<longleftrightarrow> (\<forall>a \<in> set (dd_answers db). an_source_document_id a \<in> document_ids db)
     \<and> (\<forall>d \<in> set (dd_dependencies db). dp_document_id d \<in> document_ids db \<and> dp_source_document_id d \<in> document_ids db)
     \<and> (\<forall>v \<in> set (dd_variants db). vr_document_id v \<in> document_ids db \<and> vr_source_document_id v \<in> document_ids db)
     \<and> (\<forall>a \<in> set (dd_approvals db). ap_document_id a \<in> document_ids db)
     \<and> (\<forall>r \<in> set (dd_documents db). dr_run_id r \<in> set (dd_runs db)
          \<and> opt_known (document_ids db) (doc_source (dr_document r)))
     \<and> distinct (map (\<lambda>a. (an_source_document_id a, an_source_version a)) (dd_answers db))"

lemma not_in_document_ids: "i \<notin> document_ids db \<longleftrightarrow> (\<forall>r \<in> set (dd_documents db). row_id r \<noteq> i)"
  unfolding document_ids_def by (metis image_iff)

lemma document_ids_insert:
  "insert_document now run d db = Inr db' \<Longrightarrow> document_ids db' = insert (doc_id d) (document_ids db)"
  using insert_document_Inr [of now run d db db'] by (auto simp: extends_def inserted_def document_ids_def)

lemma insert_document_references:
  assumes "references_ok db" and "insert_document now run d db = Inr db'"
  shows "references_ok db'"
proof -
  have "dd_answers db' = dd_answers db" "dd_dependencies db' = dd_dependencies db"
    "dd_variants db' = dd_variants db" "dd_approvals db' = dd_approvals db" "dd_runs db' = dd_runs db"
    using assms(2) by (auto simp: insert_document_def ebind_Inr_iff)
  moreover have "opt_known (insert i A) x" if "opt_known A x" for i A and x :: "string option"
    using that by (auto simp: opt_known_def split: option.splits)
  then have "\<forall>r \<in> set (dd_documents db'). dr_run_id r \<in> set (dd_runs db)
      \<and> opt_known (insert (doc_id d) (document_ids db)) (doc_source (dr_document r))"
    using assms(1) insert_document_Inr [OF assms(2)] by (auto simp: references_ok_def extends_def inserted_def)
  ultimately show ?thesis using assms(1) by (auto simp: references_ok_def document_ids_insert [OF assms(2)])
qed

lemma document_ids_update [simp]:
  "document_ids (db\<lparr>dd_answers := xs1\<rparr>) = document_ids db"
  "document_ids (db\<lparr>dd_variants := xs2\<rparr>) = document_ids db"
  "document_ids (db\<lparr>dd_dependencies := xs3\<rparr>) = document_ids db"
  "document_ids (db\<lparr>dd_approvals := xs4\<rparr>) = document_ids db"
  "document_ids (db\<lparr>dd_links := xs5\<rparr>) = document_ids db"
  by (simp_all add: document_ids_def)

lemma insert_answer_set_references:
  assumes "references_ok db" and "insert_answer_set a db = Inr db'"
  shows "references_ok db'"
proof -
  from assms(2) consider "db' = db"
    | "an_source_document_id a \<in> document_ids db" "db' = db\<lparr>dd_answers := dd_answers db @ [a]\<rparr>"
      "\<forall>r \<in> set (dd_answers db). (an_source_document_id r, an_source_version r) \<noteq> (an_source_document_id a, an_source_version a)"
    by (auto simp: insert_answer_set_def ebind_Inr_iff insert_or_nothing_Inr list_ex_iff)
  then show ?thesis
  proof cases
    case 2
    with assms(1) show ?thesis by (fastforce simp: references_ok_def)
  qed (use assms(1) in simp)
qed

lemma insert_variant_references: "references_ok db \<Longrightarrow> insert_variant i v db = Inr db' \<Longrightarrow> references_ok db'"
  by (auto simp: insert_variant_def ebind_Inr_iff insert_or_nothing_Inr references_ok_def)

lemma insert_dependency_references: "references_ok db \<Longrightarrow> insert_dependency i d db = Inr db' \<Longrightarrow> references_ok db'"
  by (auto simp: insert_dependency_def Let_def ebind_Inr_iff insert_or_nothing_Inr references_ok_def)

lemma insert_approval_references: "references_ok db \<Longrightarrow> insert_approval now i c db = Inr db' \<Longrightarrow> references_ok db'"
  by (auto simp: insert_approval_def ebind_Inr_iff insert_or_nothing_Inr references_ok_def)

lemma insert_link_references: "references_ok db \<Longrightarrow> insert_snapshot_link i s db = Inr db' \<Longrightarrow> references_ok db'"
  by (auto simp: insert_snapshot_link_def Let_def ebind_Inr_iff references_ok_def)

lemmas inserts_references = insert_answer_set_references insert_variant_references insert_dependency_references
  insert_approval_references insert_link_references

lemma insert_dependencies_references:
  "references_ok db \<Longrightarrow> insert_dependencies i ds db = Inr db' \<Longrightarrow> references_ok db'"
  by (induction ds arbitrary: db) (auto simp: ebind_Inr_iff intro: inserts_references(3))

lemma opt_apply_references:
  "references_ok db \<Longrightarrow> opt_apply f x db = Inr db' \<Longrightarrow>
   (\<And>v db db'. references_ok db \<Longrightarrow> f v db = Inr db' \<Longrightarrow> references_ok db') \<Longrightarrow> references_ok db'"
  by (auto simp: opt_apply_def split: option.splits)

lemma persist_references:
  assumes "references_ok db" and "persist now w db = Inr (p, db')"
  shows "references_ok db'"
proof -
  let ?i = "doc_id (dw_document w)"
  from assms(2) obtain db1 db2 db3 db4 db5 where
    steps: "insert_document now (dw_run_id w) (dw_document w) db = Inr db1"
      "opt_apply insert_answer_set (dw_answer_set w) db1 = Inr db2"
      "opt_apply (insert_variant ?i) (dw_variant w) db2 = Inr db3"
      "insert_dependencies ?i (dw_dependencies w) db3 = Inr db4"
      "opt_apply (insert_approval now ?i) (dw_approval w) db4 = Inr db5"
      "opt_apply (insert_snapshot_link ?i) (dw_snapshot_id w) db5 = Inr db'"
    by (auto simp: persist_def Let_def ebind_Inr_iff)
  note insert_document_references [OF assms(1) steps(1)]
  from opt_apply_references [OF this steps(2) inserts_references(1)]
  have "references_ok db2" .
  from opt_apply_references [OF this steps(3) inserts_references(2)]
  have "references_ok db3" .
  from insert_dependencies_references [OF this steps(4)]
  have "references_ok db4" .
  from opt_apply_references [OF this steps(5) inserts_references(4)]
  have "references_ok db5" .
  from opt_apply_references [OF this steps(6) inserts_references(5)] show ?thesis .
qed

lemma create_edit_references:
  "references_ok db \<Longrightarrow> create_edit now run base w db = Inr (p, db') \<Longrightarrow> references_ok db'"
  by (auto simp: create_edit_def Let_def intro: persist_references split: if_splits)

lemma edit_after_read_references:
  "references_ok db \<Longrightarrow> edit_after_read now new_id run a base payload authority seen db = Inr (x, db') \<Longrightarrow> references_ok db'"
  by (auto simp: edit_after_read_def ebind_Inr_iff intro: create_edit_references split: option.splits)

lemma persist_or_extend_references:
  "references_ok db \<Longrightarrow>
   persist_or_extend now new_id run source_id derived_id language authority payload kind variant db = Inr (x, db') \<Longrightarrow>
   references_ok db'"
  by (auto simp: persist_or_extend_def Let_def ebind_Inr_iff intro: create_edit_references persist_references
      split: option.splits)

end
