(* ===== verification/Document_Laws.thy ===== *)
theory Document_Laws
  imports Document_Invariant
begin

text \<open>
  The services as steps, the invariant over reachable states, heads of lineages, and what a plain write and
  an edit of a head store exactly.
\<close>

section \<open>Steps\<close>

text \<open>
  The services that the gateway calls. An edit may have read the head before another transaction
  committed, so the row it starts from is any row of the lineage.
\<close>

inductive document_step :: "content_env \<Rightarrow> document_db \<Rightarrow> document_db \<Rightarrow> bool" for env where
  generated: "persist_result env now run gen result artifact_id db = Inr (d, db') \<Longrightarrow> document_step env db db'"
| edited: "seen \<in> set (dd_documents db) \<Longrightarrow> in_lineage (run, artifact_id) seen \<Longrightarrow>
    edit_after_read now new_id run artifact_id base payload authority (Some seen) db = Inr (x, db') \<Longrightarrow>
    document_step env db db'"
| restored: "restore_artifact_document now new_id run artifact_id target db = Inr (x, db') \<Longrightarrow> document_step env db db'"
| translated: "create_language_version now new_id run source_id language payload authority db = Inr (x, db') \<Longrightarrow>
    document_step env db db'"
| varied: "create_content_variant now new_id variant_id run source_id kind payload authority db = Inr (x, db') \<Longrightarrow>
    document_step env db db'"
| noted: "create_note now n db = Inr db' \<Longrightarrow> document_step env db db'"
| resolved: "resolve_note now i db = Inr db' \<Longrightarrow> document_step env db db'"
| approved: "approve_artifact_version now approval_id run artifact_id version approver db = Inr db' \<Longrightarrow>
    document_step env db db'"
| approved_all: "approve_all_current now run approver pairs db = Inr (x, db') \<Longrightarrow> document_step env db db'"
| run_created: "document_step env db (db\<lparr>dd_runs := run # dd_runs db\<rparr>)"
| snapshot_stored: "document_step env db (db\<lparr>dd_snapshots := s # dd_snapshots db\<rparr>)"

definition no_documents :: document_db where
  "no_documents = \<lparr>dd_runs = [], dd_snapshots = [], dd_documents = [], dd_answers = [], dd_variants = [],
     dd_dependencies = [], dd_approvals = [], dd_notes = [], dd_links = []\<rparr>"

abbreviation document_reachable :: "content_env \<Rightarrow> document_db \<Rightarrow> bool" where
  "document_reachable env db \<equiv> (document_step env)\<^sup>*\<^sup>* no_documents db"

lemma approve_same_documents:
  "approve_artifact_version now approval_id run artifact_id version approver db = Inr db' \<Longrightarrow> same_documents db db'"
  by (auto simp: approve_artifact_version_def intro: inserts_same_documents split: option.splits if_splits)

lemma approve_references:
  "references_ok db \<Longrightarrow> approve_artifact_version now approval_id run artifact_id version approver db = Inr db' \<Longrightarrow> references_ok db'"
  by (auto simp: approve_artifact_version_def intro: insert_approval_references split: option.splits if_splits)

lemma approve_all_same_documents:
  "approve_all_current now run approver pairs db = Inr (x, db') \<Longrightarrow> same_documents db db'"
proof (induction pairs arbitrary: db x)
  case (Cons pair pairs)
  then show ?case
    by (cases pair) (auto simp: ebind_Inr_iff intro: same_documents_trans inserts_same_documents split: option.splits if_splits)
qed simp

lemma approve_all_references:
  "references_ok db \<Longrightarrow> approve_all_current now run approver pairs db = Inr (x, db') \<Longrightarrow> references_ok db'"
proof (induction pairs arbitrary: db x)
  case (Cons pair pairs)
  then show ?case
    by (cases pair) (auto simp: ebind_Inr_iff dest: insert_approval_references [rotated] split: option.splits if_splits)
qed simp

text \<open>The two parts of the invariant.\<close>

definition tables_ok :: "document_db \<Rightarrow> bool" where
  "tables_ok db \<longleftrightarrow> documents_ok db \<and> references_ok db"

lemma document_step_ok:
  assumes "document_step env db db'" and "tables_ok db"
  shows "tables_ok db' \<and> grows db db'"
proof -
  have ok: "documents_ok db" "references_ok db" using assms(2) by (auto simp: tables_ok_def)
  from assms(1) have "(documents_ok db' \<and> grows db db') \<and> references_ok db'"
  proof cases
    case generated
    then show ?thesis
      using persist_result_ok [OF ok(1)] persist_references [OF ok(2)]
      by (fastforce simp: persist_result_write ebind_Inr_iff)
  next
    case edited
    then show ?thesis using edit_after_read_ok [OF ok(1)] edit_after_read_references [OF ok(2)] by blast
  next
    case restored
    then show ?thesis using restore_ok [OF ok(1)] edit_after_read_references [OF ok(2)]
      by (auto simp: restore_artifact_document_def edit_artifact_document_def split: list.splits option.splits
          simp del: find.simps)
  next
    case translated
    then show ?thesis using language_version_ok [OF ok(1)] persist_or_extend_references [OF ok(2)]
      by (auto simp: create_language_version_def split: option.splits if_splits)
  next
    case varied
    then show ?thesis using content_variant_ok [OF ok(1)] persist_or_extend_references [OF ok(2)]
      by (auto simp: create_content_variant_def split: option.splits)
  next
    case noted
    then show ?thesis using same_rows_ok [of db' db] ok
      by (auto simp: create_note_def references_ok_def document_ids_def split: if_splits)
  next
    case resolved
    then show ?thesis using same_rows_ok [of db' db] ok
      by (auto simp: resolve_note_def references_ok_def document_ids_def split: if_splits)
  next
    case approved
    then show ?thesis using same_documents_ok [OF approve_same_documents] approve_references ok by blast
  next
    case approved_all
    then show ?thesis using same_documents_ok [OF approve_all_same_documents] approve_all_references ok by blast
  next
    case run_created
    then show ?thesis using same_rows_ok [of db' db] ok by (auto simp: references_ok_def document_ids_def)
  next
    case snapshot_stored
    then show ?thesis using same_rows_ok [of db' db] ok by (auto simp: references_ok_def document_ids_def)
  qed
  then show ?thesis by (simp add: tables_ok_def)
qed

lemma document_steps_ok:
  assumes "(document_step env)\<^sup>*\<^sup>* db db'" and "tables_ok db"
  shows "tables_ok db' \<and> (\<exists>rows. dd_documents db' = dd_documents db @ rows)"
  using assms
proof (induction rule: rtranclp_induct)
  case (step y z)
  from step.IH [OF step.prems] document_step_ok [OF step.hyps(2)] show ?case
    by (auto simp: grows_def version_appended_def)
qed simp

lemma no_documents_ok: "tables_ok no_documents"
  by (simp add: tables_ok_def documents_ok_def references_ok_def no_documents_def lineage_versions_def)

lemma reachable_tables_ok: "document_reachable env db \<Longrightarrow> tables_ok db"
  using document_steps_ok no_documents_ok by blast

section \<open>Heads\<close>

lemma latest_iff:
  assumes "documents_ok db"
  shows "get_latest run a db = Some r \<longleftrightarrow> r \<in> set (dd_documents db) \<and> in_lineage (run, a) r
    \<and> row_version r = int (length (lineage_versions db (run, a)))" (is "_ \<longleftrightarrow> ?R r")
proof -
  let ?ns = "lineage_versions db (run, a)"
  have ok: "gapless ?ns" by (rule documents_okD(2) [OF assms])
  have head: "?R q" if q: "get_latest run a db = Some q" for q
  proof -
    from latest_row [OF q] have mem: "q \<in> set (dd_documents db)" "in_lineage (run, a) q"
      and top: "\<And>s. s \<in> set (dd_documents db) \<Longrightarrow> in_lineage (run, a) s \<Longrightarrow> row_version s \<le> row_version q" by blast+
    have v: "1 \<le> row_version q" by (rule documents_okD(4) [OF assms mem(1)])
    have "nat (row_version q) \<in> set ?ns" using mem by (auto simp: lineage_versions_def)
    then have q: "1 \<le> nat (row_version q) \<and> nat (row_version q) \<le> length ?ns"
      unfolding gapless_set [OF ok] .
    then have "length ?ns \<in> set ?ns" unfolding gapless_set [OF ok] by linarith
    then obtain s where "s \<in> set (dd_documents db)" "in_lineage (run, a) s" "nat (row_version s) = length ?ns"
      by (auto simp: lineage_versions_def)
    then have "length ?ns \<le> nat (row_version q)" using top [of s] by linarith
    with q have "nat (row_version q) = length ?ns" by linarith
    then have "row_version q = int (length ?ns)" using v by linarith
    with mem show ?thesis by blast
  qed
  have same: "q = r" if "?R q" "?R r" for q r
  proof -
    have "inj_on (\<lambda>r. nat (row_version r)) (set (filter (in_lineage (run, a)) (dd_documents db)))"
      using gapless_distinct [OF ok] by (simp add: lineage_versions_def distinct_map)
    from inj_onD [OF this, of q r] show ?thesis using that by simp
  qed
  show ?thesis
  proof
    assume r: "?R r"
    then have "?ns \<noteq> []" by (auto simp: lineage_versions_def filter_empty_conv)
    then obtain q where q: "get_latest run a db = Some q" using latest_None [of run a db] by (cases "get_latest run a db") auto
    from same [OF head [OF q] r] q show "get_latest run a db = Some r" by simp
  qed (rule head)
qed

text \<open>The query for a version finds the row that has it.\<close>

lemma version_found:
  assumes "documents_ok db" and "list_versions run a db = versions" and "t \<in> set (dd_documents db)" and "in_lineage (run, a) t"
  shows "List.find (\<lambda>r. row_version r = row_version t) versions = Some t"
proof -
  have set: "set versions = {r \<in> set (dd_documents db). in_lineage (run, a) r}"
    using assms(2) by (auto simp: list_versions_def in_lineage_def)
  have inj: "inj_on (\<lambda>r. nat (row_version r)) (set (filter (in_lineage (run, a)) (dd_documents db)))"
    using gapless_distinct [OF documents_okD(2) [OF assms(1)]] by (simp add: lineage_versions_def distinct_map)
  have "r = t" if "r \<in> set versions" "row_version r = row_version t" for r
    using that assms(3,4) inj_onD [OF inj, of r t] by (auto simp: set)
  moreover have "t \<in> set versions" using assms(3,4) by (simp add: set)
  ultimately show ?thesis by (induction versions) auto
qed

lemma latest_appended:
  assumes "documents_ok db'" and "dd_documents db' = dd_documents db @ [row]" and "in_lineage (run, a) row"
    and "row_version row = int (length (lineage_versions db (run, a))) + 1"
  shows "get_latest run a db' = Some row"
  unfolding latest_iff [OF assms(1)] using assms by (simp add: lineage_versions_snoc [OF assms(2)])

lemma latest_version_grows:
  assumes "documents_ok db" and "documents_ok db'" and "dd_documents db' = dd_documents db @ rows"
    and "get_latest run a db = Some r"
  shows "\<exists>r'. get_latest run a db' = Some r' \<and> row_version r \<le> row_version r'"
proof -
  have r: "r \<in> set (dd_documents db')" "in_lineage (run, a) r"
    using latest_row [OF assms(4)] by (auto simp: assms(3))
  then have "lineage_versions db' (run, a) \<noteq> []" by (auto simp: lineage_versions_def filter_empty_conv)
  then obtain r' where r': "get_latest run a db' = Some r'"
    using latest_None [of run a db'] by (cases "get_latest run a db'") auto
  with latest_row [OF r'] r show ?thesis by blast
qed

section \<open>Plain writes\<close>

lemma find_snoc_new: "\<forall>x \<in> set xs. \<not> P x \<Longrightarrow> P y \<Longrightarrow> List.find P (xs @ [y]) = Some y"
  by (induction xs) auto

lemma find_snoc_old: "x \<in> set xs \<Longrightarrow> P x \<Longrightarrow> List.find P (xs @ ys) = List.find P xs"
  by (induction xs) auto

lemma older_reads:
  assumes "i \<in> document_ids db"
  shows "read_persisted i (db\<lparr>dd_documents := dd_documents db @ rows\<rparr>) = read_persisted i db"
proof -
  from assms obtain r where "r \<in> set (dd_documents db)" "row_id r = i" by (auto simp: document_ids_def)
  from find_snoc_old [of r "dd_documents db" "\<lambda>r. row_id r = i" rows, OF this] show ?thesis
    by (cases "List.find (\<lambda>r. row_id r = i) (dd_documents db)")
      (simp_all add: read_persisted_def latest_approval_status_def)
qed

text \<open>A document stored without anything else has no answers and no approval.\<close>

lemma read_new_document:
  assumes "tables_ok db" and "document_ok (dr_document row)" and "row_id row \<notin> document_ids db"
  shows "read_persisted (row_id row) (db\<lparr>dd_documents := dd_documents db @ [row]\<rparr>) =
    Inr \<lparr>ps_document = dr_document row, ps_answer_set = None, ps_approval_status = None\<rparr>"
proof -
  have "List.find (\<lambda>r. row_id r = row_id row) (dd_documents db @ [row]) = Some row"
    using assms(3) by (simp add: find_snoc_new not_in_document_ids)
  moreover have "filter (\<lambda>a. an_source_document_id a = row_id row \<and> an_source_version a = row_version row) (dd_answers db) = []"
    using assms(1,3) by (auto simp: tables_ok_def references_ok_def filter_empty_conv)
  moreover have "filter (\<lambda>a. ap_document_id a = row_id row) (dd_approvals db) = []"
    using assms(1,3) by (auto simp: tables_ok_def references_ok_def filter_empty_conv)
  ultimately show ?thesis using assms(2)
    by (simp add: read_persisted_def artifact_document_def latest_approval_status_def scalar_one_or_none.simps(1))
qed

lemma persist_plain:
  assumes ok: "tables_ok db" and d: "document_ok d" "doc_id d \<notin> document_ids db" "run \<in> set (dd_runs db)"
    and free: "\<forall>r \<in> set (dd_documents db). dr_run_id r = run \<longrightarrow> row_artifact r = doc_artifact_id d \<longrightarrow> row_version r \<noteq> doc_version d"
    and known: "opt_known (document_ids db) (doc_parent d)" "opt_known (document_ids db) (doc_source d)"
  shows "persist now (document_write_of run d) db =
    Inr (\<lparr>ps_document = d, ps_answer_set = None, ps_approval_status = None\<rparr>,
      db\<lparr>dd_documents := dd_documents db @ [\<lparr>dr_run_id = run, dr_document = d, dr_created_at = now\<rparr>]\<rparr>)"
    (is "_ = Inr (_, ?db)")
proof -
  let ?row = "\<lparr>dr_run_id = run, dr_document = d, dr_created_at = now\<rparr>"
  have new: "\<forall>r \<in> set (dd_documents db). row_id r \<noteq> doc_id d" using d(2) by (simp add: not_in_document_ids)
  have "insert_document now run d db = Inr ?db"
    using new free d(3) known by (simp add: insert_document_def insert_or_nothing_def list_ex_iff)
  moreover have "read_persisted (doc_id d) ?db = Inr \<lparr>ps_document = d, ps_answer_set = None, ps_approval_status = None\<rparr>"
    using read_new_document [OF ok, of ?row] d(1,2) by simp
  ultimately show ?thesis by (simp add: persist_def document_write_of_def opt_apply_def)
qed

lemma edited_free:
  assumes "documents_ok db" and "get_latest run a db = Some head" and "r \<in> set (dd_documents db)"
    and "dr_run_id r = run" and "row_artifact r = a"
  shows "row_version r \<noteq> row_version head + 1"
  using latest_row [OF assms(2)] assms(3-5) by (force simp: in_lineage_def)

section \<open>Edits\<close>

text \<open>The row that a successful edit of a head stores.\<close>

definition edited_row :: "instant \<Rightarrow> string \<Rightarrow> string \<Rightarrow> string \<Rightarrow> document_row \<Rightarrow> payload \<Rightarrow> document_authority \<Rightarrow> document_row" where
  "edited_row now new_id run artifact_id head payload authority =
     \<lparr>dr_run_id = run, dr_document = next_document new_id artifact_id head payload authority, dr_created_at = now\<rparr>"

lemma next_document_fields [simp]:
  "doc_id (next_document new_id a head payload authority) = new_id"
  "doc_artifact_id (next_document new_id a head payload authority) = a"
  "doc_version (next_document new_id a head payload authority) = row_version head + 1"
  "doc_payload (next_document new_id a head payload authority) = payload"
  "doc_title (next_document new_id a head payload authority) = DEFAULT_TITLE"
  "doc_parent (next_document new_id a head payload authority) = Some (row_id head)"
  by (simp_all add: next_document_def Let_def)

lemma next_source_known:
  assumes "references_ok db" and "head \<in> set (dd_documents db)"
  shows "opt_known (document_ids db) (doc_source (next_document new_id a head payload authority))"
proof -
  have "row_id head \<in> document_ids db" using assms(2) by (simp add: document_ids_def)
  moreover have "opt_known (document_ids db) (doc_source (dr_document head))"
    using assms by (auto simp: references_ok_def)
  ultimately show ?thesis
    by (auto simp: next_document_def Let_def opt_known_def split: option.splits list.splits)
qed

lemma edit_exact:
  assumes ok: "tables_ok db" and head: "get_latest run a db = Some head" and new: "new_id \<notin> document_ids db"
    and valid: "document_ok (next_document new_id a head payload authority)"
  shows "edit_artifact_document now new_id run a base payload authority db =
    (if base \<noteq> row_version head then Inl (StaleArtifactVersionError a base (Some (row_version head)))
     else let db' = db\<lparr>dd_documents := dd_documents db @ [edited_row now new_id run a head payload authority]\<rparr>
          in Inr ((next_document new_id a head payload authority, impacted_artifact_ids (row_id head) db'), db'))"
proof -
  let ?d = "next_document new_id a head payload authority"
  have docs: "documents_ok db" and refs: "references_ok db" using ok by (auto simp: tables_ok_def)
  have mem: "head \<in> set (dd_documents db)" "in_lineage (run, a) head" using latest_row [OF head] by auto
  have run: "run \<in> set (dd_runs db)" using refs mem by (auto simp: references_ok_def in_lineage_def)
  have "persist now (document_write_of run ?d) db =
      Inr (\<lparr>ps_document = ?d, ps_answer_set = None, ps_approval_status = None\<rparr>,
        db\<lparr>dd_documents := dd_documents db @ [edited_row now new_id run a head payload authority]\<rparr>)"
    unfolding edited_row_def
  proof (rule persist_plain [OF ok valid])
    show "\<forall>r \<in> set (dd_documents db). dr_run_id r = run \<longrightarrow> row_artifact r = doc_artifact_id ?d \<longrightarrow> row_version r \<noteq> doc_version ?d"
      using edited_free [OF docs head] by simp
    show "opt_known (document_ids db) (doc_parent ?d)" using mem by (simp add: opt_known_def document_ids_def)
  qed (use new run next_source_known [OF refs mem(1)] in simp_all)
  then show ?thesis
    using valid head
    by (simp add: edit_artifact_document_def edit_after_read_def artifact_document_def create_edit_def Let_def
        document_write_of_def)
qed

lemma edit_Inr:
  assumes ok: "tables_ok db" and head: "get_latest run a db = Some head" and new: "new_id \<notin> document_ids db"
    and edit: "edit_artifact_document now new_id run a (row_version head) payload authority db = Inr ((d, impacted), db')"
  shows "d = next_document new_id a head payload authority" and "document_ok d"
    and "db' = db\<lparr>dd_documents := dd_documents db @ [edited_row now new_id run a head payload authority]\<rparr>"
    and "impacted = impacted_artifact_ids (row_id head) db'" and "tables_ok db'"
    and "get_latest run a db' = Some (edited_row now new_id run a head payload authority)"
proof -
  let ?d = "next_document new_id a head payload authority" and ?row = "edited_row now new_id run a head payload authority"
  have valid: "document_ok ?d"
    using edit by (auto simp: edit_artifact_document_def edit_after_read_def head ebind_Inr_iff
        artifact_document_def split: if_splits)
  from edit_exact [OF ok head new valid, of now "row_version head"] edit
  show d: "d = ?d" and db': "db' = db\<lparr>dd_documents := dd_documents db @ [?row]\<rparr>"
    and "impacted = impacted_artifact_ids (row_id head) db'" by (auto simp: Let_def)
  show "document_ok d" using valid by (simp add: d)
  show ok': "tables_ok db'"
    using document_step_ok [OF document_step.edited ok] latest_row [OF head] head edit
    by (fastforce simp: edit_artifact_document_def)
  show "get_latest run a db' = Some ?row"
  proof (rule latest_appended)
    show "documents_ok db'" using ok' by (simp add: tables_ok_def)
    show "row_version ?row = int (length (lineage_versions db (run, a))) + 1"
      using latest_iff [of db run a head] ok head by (simp add: edited_row_def tables_ok_def)
  qed (simp_all add: db' edited_row_def in_lineage_def)
qed

end
