(* ===== verification/Document_Claims.thy ===== *)
theory Document_Claims
  imports Document_Laws
begin

text \<open>
  Claims about documents over time: edits of one version exclude each other, the impact of an edit is
  reported once, a restored version carries the old payload, an artifact generated again under its id
  cannot be stored, and a bulk approval approves what can be approved.
\<close>

section \<open>A small database\<close>

definition demo_content_env :: content_env where
  "demo_content_env = \<lparr>ce_component_ok = (\<lambda>_. True), ce_validate_deck = Some, ce_py_str = (\<lambda>_. [])\<rparr>"

definition demo_lesson :: content where
  "demo_lesson = \<lparr>ct_artifact_type = ''lesson'', ct_theme = ''forest'', ct_title = ''Fractions'',
     ct_sections = [[(''id'', JStr ''s1''), (''title'', JStr ''Halves''),
       (''components'', JList [JObj [(''type'', JStr ''paragraph''), (''text'', JStr ''One of two.''), (''answer'', JStr ''x'')]])]],
     ct_metadata = [(''minutes'', JInt 40)], ct_accessibility = [(''language'', JStr ''vi'')]\<rparr>"

definition demo_payload :: "string \<Rightarrow> payload" where
  "demo_payload t = (plain_payload RICH_DOCUMENT)\<lparr>pl_rich_sections :=
     Some [\<lparr>rich_entity_id = ''s1'', rich_title = ''Halves'',
       rich_components = [[(''type'', JStr ''paragraph''), (''text'', JStr t)]]\<rparr>]\<rparr>"

definition demo_document :: document where
  "demo_document = \<lparr>doc_id = ''g1:lesson-1'', doc_artifact_id = ''lesson-1'', doc_artifact_type = ''lesson'',
     doc_version = 1, doc_language = LANG_VI, doc_audience = FOR_STUDENT, doc_authority = BY_GENERATION,
     doc_title = ''Fractions'', doc_theme = ''forest'', doc_metadata = [(''minutes'', JInt 40)],
     doc_payload = demo_payload ''One of two.'', doc_parent = None, doc_source = None\<rparr>"

definition demo_head :: document_row where
  "demo_head = \<lparr>dr_run_id = ''r1'', dr_document = demo_document, dr_created_at = 5\<rparr>"

definition demo_documents :: document_db where
  "demo_documents = no_documents\<lparr>dd_runs := [''r1''], dd_documents := [demo_head]\<rparr>"

definition demo_result :: persistence_result where
  "demo_result = \<lparr>pr_artifact = demo_lesson, pr_answer_set = None, pr_dependency_document_ids = []\<rparr>"

lemma demo_stored:
  "persist_result demo_content_env 5 ''r1'' ''g1'' demo_result ''lesson-1'' (no_documents\<lparr>dd_runs := [''r1'']\<rparr>)
     = Inr (demo_document, demo_documents)"
  by code_simp

lemma demo_documents_reachable: "document_reachable demo_content_env demo_documents"
proof -
  have "document_step demo_content_env no_documents (no_documents\<lparr>dd_runs := [''r1'']\<rparr>)"
    using document_step.run_created [of demo_content_env no_documents "''r1''"] by (simp add: no_documents_def)
  moreover have "document_step demo_content_env (no_documents\<lparr>dd_runs := [''r1'']\<rparr>) demo_documents"
    by (rule document_step.generated [OF demo_stored])
  ultimately show ?thesis by (rule rtranclp.rtrancl_into_rtrancl [OF r_into_rtranclp])
qed

lemma demo_latest: "get_latest ''r1'' ''lesson-1'' demo_documents = Some demo_head"
  by code_simp

definition demo_edited :: document_db where
  "demo_edited = demo_documents\<lparr>dd_documents :=
     [demo_head, edited_row 9 ''doc-2'' ''r1'' ''lesson-1'' demo_head (demo_payload ''Half.'') BY_TEACHER_EDIT]\<rparr>"

definition demo_next :: document where
  "demo_next = next_document ''doc-2'' ''lesson-1'' demo_head (demo_payload ''Half.'') BY_TEACHER_EDIT"

lemma demo_edit:
  "edit_artifact_document 9 ''doc-2'' ''r1'' ''lesson-1'' (row_version demo_head) (demo_payload ''Half.'') BY_TEACHER_EDIT demo_documents
     = Inr ((demo_next, []), demo_edited)"
  by code_simp

lemma demo_fresh: "''doc-2'' \<notin> document_ids demo_documents" "''doc-3'' \<notin> document_ids demo_edited"
  "''g2:lesson-1'' \<notin> document_ids demo_documents"
  by code_simp+

text \<open>The lesson is translated.\<close>

definition demo_translated :: document_db where
  "demo_translated = demo_documents\<lparr>dd_documents :=
       [demo_head, \<lparr>dr_run_id = ''r1'', dr_document = derived_document ''doc-t'' ''lesson-1--lang-en'' demo_head None
          LANG_EN BY_TRANSLATION (demo_payload ''Half.''), dr_created_at = 7\<rparr>],
     dd_dependencies := [\<lparr>dp_document_id = ''doc-t'', dp_source_document_id = ''g1:lesson-1'', dp_kind = ''translation''\<rparr>]\<rparr>"

lemma demo_translated:
  "create_language_version 7 ''doc-t'' ''r1'' ''lesson-1'' LANG_EN (demo_payload ''Half.'') BY_TRANSLATION demo_documents
     = Inr ((derived_document ''doc-t'' ''lesson-1--lang-en'' demo_head None LANG_EN BY_TRANSLATION (demo_payload ''Half.''),
          [''lesson-1--lang-en'']), demo_translated)"
  by code_simp

lemma demo_translated_reachable: "document_reachable demo_content_env demo_translated"
  by (rule rtranclp.rtrancl_into_rtrancl [OF demo_documents_reachable document_step.translated [OF demo_translated]])

section \<open>Lineages and edits\<close>

text \<open>
  C8: in every reachable state the versions of every artifact are 1, 2, ..., n in the
  order in which they were stored; every stored document validates (so none for students holds
  teacher-only material), and it is a first version or names the previous version of its artifact as its
  parent. What is stored is never changed or removed by a later step.
\<close>
theorem document_lineages:
  assumes "document_reachable env db" and "(document_step env)\<^sup>*\<^sup>* db db'"
  shows "gapless (lineage_versions db (run, artifact_id)) \<and> distinct (map row_id (dd_documents db))
    \<and> (\<forall>r \<in> set (dd_documents db). document_ok (dr_document r)
         \<and> (case doc_parent (dr_document r) of
              None \<Rightarrow> row_version r = 1
            | Some p \<Rightarrow> \<exists>q \<in> set (dd_documents db). row_id q = p \<and> dr_run_id q = dr_run_id r
                \<and> row_artifact q = row_artifact r \<and> row_version r = row_version q + 1))
    \<and> (\<exists>rows. dd_documents db' = dd_documents db @ rows)"
proof -
  have ok: "tables_ok db" by (rule reachable_tables_ok [OF assms(1)])
  with document_steps_ok [OF assms(2) ok] documents_okD(2) show ?thesis
    unfolding tables_ok_def documents_ok_def by blast
qed

theorem document_lineages_witness:
  "gapless (lineage_versions demo_documents (''r1'', ''lesson-1'')) \<and> lineage_versions demo_documents (''r1'', ''lesson-1'') = [1]
   \<and> (\<exists>rows. dd_documents demo_translated = dd_documents demo_documents @ rows)"
proof -
  have "lineage_versions demo_documents (''r1'', ''lesson-1'') = [1]" by code_simp
  with document_lineages [OF demo_documents_reachable r_into_rtranclp [of "document_step demo_content_env"],
      OF document_step.translated [OF demo_translated], of "''r1''" "''lesson-1''"]
  show ?thesis by blast
qed

text \<open>
  C7: an edit of the current version stores the submitted payload as the next version,
  which becomes the current one; every older version reads as before. But only type, language and audience
  are carried over: title, theme and metadata fall back to their defaults, and the new version has
  neither an answer set nor an approval, whatever the edited version had.
\<close>
theorem edit_outcome:
  assumes "document_reachable env db" and "get_latest run a db = Some head" and "new_id \<notin> document_ids db"
    and "edit_artifact_document now new_id run a (row_version head) payload authority db = Inr ((d, impacted), db')"
  shows "(\<exists>row. get_latest run a db' = Some row \<and> dr_document row = d \<and> row_version row = row_version head + 1)
    \<and> doc_payload d = payload \<and> doc_artifact_type d = doc_artifact_type (dr_document head)
    \<and> doc_language d = doc_language (dr_document head) \<and> doc_audience d = doc_audience (dr_document head)
    \<and> doc_title d = ''Untitled artifact'' \<and> doc_theme d = ''default'' \<and> doc_metadata d = []
    \<and> read_persisted new_id db' = Inr \<lparr>ps_document = d, ps_answer_set = None, ps_approval_status = None\<rparr>
    \<and> (\<forall>i \<in> document_ids db. read_persisted i db' = read_persisted i db)"
proof -
  have ok: "tables_ok db" by (rule reachable_tables_ok [OF assms(1)])
  note edit = edit_Inr [OF ok assms(2-4)]
  let ?row = "edited_row now new_id run a head payload authority"
  have "\<forall>i \<in> document_ids db. read_persisted i db' = read_persisted i db"
    by (simp add: older_reads edit(3))
  moreover have "read_persisted new_id db' = Inr \<lparr>ps_document = d, ps_answer_set = None, ps_approval_status = None\<rparr>"
    using read_new_document [OF ok, of ?row] edit(2) assms(3) by (simp add: edit(1,3) edited_row_def)
  ultimately show ?thesis
    using edit(6) by (simp add: edit(1) edited_row_def DEFAULT_TITLE_def) (simp add: next_document_def Let_def)
qed

theorem edit_outcome_witness:
  "doc_title (dr_document demo_head) = ''Fractions'' \<and> doc_title demo_next = ''Untitled artifact''
   \<and> get_latest ''r1'' ''lesson-1'' demo_edited \<noteq> Some demo_head
   \<and> read_persisted ''g1:lesson-1'' demo_edited = read_persisted ''g1:lesson-1'' demo_documents"
proof -
  have "doc_title (dr_document demo_head) = ''Fractions''" "''g1:lesson-1'' \<in> document_ids demo_documents" by code_simp+
  with edit_outcome [OF demo_documents_reachable demo_latest demo_fresh(1) demo_edit] show ?thesis by auto
qed

section \<open>Edits of one version\<close>

text \<open>
  C9: after an edit of a version was stored, no later state accepts another edit based on
  that version: the lock check answers that it is stale and names the current version.
\<close>
theorem edits_serialize:
  assumes "document_reachable env db" and "get_latest run a db = Some head" and "new_id \<notin> document_ids db"
    and "edit_artifact_document now new_id run a (row_version head) payload authority db = Inr (x, db1)"
    and "(document_step env)\<^sup>*\<^sup>* db1 db2"
  shows "(\<exists>v > row_version head. \<forall>now w. doc_artifact_id (dw_document w) = a \<longrightarrow>
      create_edit now run (row_version head) w db2 = Inl (StaleArtifactVersionError a (row_version head) (Some v)))
    \<and> edit_after_read now' new_id' run a (row_version head) payload' authority' seen db2 \<noteq> Inr y"
proof -
  obtain d impacted where x: "x = (d, impacted)" by (cases x)
  note edit = edit_Inr [OF reachable_tables_ok [OF assms(1)] assms(2,3) assms(4) [unfolded x]]
  obtain row where row: "get_latest run a db1 = Some row" "row_version row = row_version head + 1"
    using edit(6) by (simp add: edited_row_def)
  note ok1 = edit(5)
  from document_steps_ok [OF assms(5) ok1] obtain rows where "tables_ok db2" "dd_documents db2 = dd_documents db1 @ rows" by blast
  with latest_version_grows [OF _ _ _ row(1), of db2 rows] ok1 obtain r where
    r: "get_latest run a db2 = Some r" "row_version row \<le> row_version r" by (auto simp: tables_ok_def)
  have stale: "create_edit now run (row_version head) w db2 = Inl (StaleArtifactVersionError a (row_version head) (Some (row_version r)))"
    if "doc_artifact_id (dw_document w) = a" for now w
    using that r row(2) by (simp add: create_edit_def Let_def)
  have "edit_after_read now' new_id' run a (row_version head) payload' authority' seen db2 \<noteq> Inr y"
    using stale by (auto simp: edit_after_read_def document_write_of_def ebind_Inr_iff artifact_document_def
        split: option.splits if_splits)
  moreover have "row_version head < row_version r" using r(2) row(2) by simp
  ultimately show ?thesis using stale by blast
qed

theorem edits_serialize_witness:
  "\<forall>y. edit_after_read 11 ''doc-3'' ''r1'' ''lesson-1'' 1 (demo_payload ''A half.'') BY_AI_ASSISTED_EDIT (Some demo_head) demo_edited
     \<noteq> Inr y"
  using edits_serialize [OF demo_documents_reachable demo_latest demo_fresh(1) demo_edit rtranclp.rtrancl_refl]
  by (simp add: demo_head_def demo_document_def)

section \<open>The impact of an edit\<close>

text \<open>
  An edit reports the artifacts that depend on the version it replaces. Their
  dependency rows stay on that version, so the edit after it reports nobody, although nothing was
  regenerated in between.
\<close>
theorem impact_reported_once:
  assumes "document_reachable env db" and "get_latest run a db = Some head" and "new_id \<notin> document_ids db"
    and "edit_artifact_document now new_id run a (row_version head) payload authority db = Inr ((d, impacted), db1)"
    and "new_id' \<notin> document_ids db1"
    and "edit_artifact_document now' new_id' run a (row_version head + 1) payload' authority' db1 = Inr ((d', impacted'), db2)"
  shows "set impacted = {row_artifact r | r e. r \<in> set (dd_documents db) \<and> e \<in> set (dd_dependencies db)
        \<and> dp_document_id e = row_id r \<and> dp_source_document_id e = row_id head}
    \<and> impacted' = [] \<and> dd_dependencies db2 = dd_dependencies db"
proof -
  have ok: "tables_ok db" by (rule reachable_tables_ok [OF assms(1)])
  from edit_Inr [OF ok assms(2,3,4)] have db1: "db1 = db\<lparr>dd_documents := dd_documents db @ [edited_row now new_id run a head payload authority]\<rparr>"
    and impacted: "impacted = impacted_artifact_ids (row_id head) db1" and ok1: "tables_ok db1"
    and head1: "get_latest run a db1 = Some (edited_row now new_id run a head payload authority)" (is "_ = Some ?row") by simp_all
  have v: "row_version ?row = row_version head + 1" and i: "row_id ?row = new_id" by (simp_all add: edited_row_def)
  from edit_Inr [OF ok1 head1 assms(5)] assms(6) v have
    db2: "db2 = db1\<lparr>dd_documents := dd_documents db1 @ [edited_row now' new_id' run a ?row payload' authority']\<rparr>"
    and impacted': "impacted' = impacted_artifact_ids new_id db2" by (simp_all add: i)
  have refs: "\<forall>e \<in> set (dd_dependencies db). dp_document_id e \<noteq> new_id \<and> dp_source_document_id e \<noteq> new_id"
    using ok assms(3) by (auto simp: tables_ok_def references_ok_def)
  have "impacted' = []" using refs by (simp add: impacted' impacted_artifact_ids_def db2 db1 filter_empty_conv)
  moreover have "set impacted = {row_artifact r | r e. r \<in> set (dd_documents db) \<and> e \<in> set (dd_dependencies db)
        \<and> dp_document_id e = row_id r \<and> dp_source_document_id e = row_id head}"
    using refs i by (auto simp: impacted impacted_artifact_ids_def db1)
  ultimately show ?thesis by (simp add: db1 db2)
qed

theorem impact_reported_once_witness:
  "\<exists>d db1 d' db2.
     edit_artifact_document 9 ''doc-2'' ''r1'' ''lesson-1'' 1 (demo_payload ''Half.'') BY_TEACHER_EDIT demo_translated
       = Inr ((d, [''lesson-1--lang-en'']), db1)
     \<and> edit_artifact_document 11 ''doc-3'' ''r1'' ''lesson-1'' 2 (demo_payload ''Two.'') BY_TEACHER_EDIT db1 = Inr ((d', []), db2)
     \<and> dd_dependencies db2 = dd_dependencies demo_translated"
proof -
  let ?row = "edited_row 9 ''doc-2'' ''r1'' ''lesson-1'' demo_head (demo_payload ''Half.'') BY_TEACHER_EDIT"
  let ?db1 = "demo_translated\<lparr>dd_documents := dd_documents demo_translated @ [?row]\<rparr>"
  let ?row2 = "edited_row 11 ''doc-3'' ''r1'' ''lesson-1'' ?row (demo_payload ''Two.'') BY_TEACHER_EDIT"
  let ?db2 = "?db1\<lparr>dd_documents := dd_documents ?db1 @ [?row2]\<rparr>"
  have head: "get_latest ''r1'' ''lesson-1'' demo_translated = Some demo_head" and v: "row_version demo_head = 1"
    and fresh: "''doc-2'' \<notin> document_ids demo_translated" "''doc-3'' \<notin> document_ids ?db1"
    by code_simp+
  have first: "edit_artifact_document 9 ''doc-2'' ''r1'' ''lesson-1'' (row_version demo_head) (demo_payload ''Half.'') BY_TEACHER_EDIT demo_translated
      = Inr ((dr_document ?row, [''lesson-1--lang-en'']), ?db1)"
    by code_simp
  have second: "edit_artifact_document 11 ''doc-3'' ''r1'' ''lesson-1'' (row_version demo_head + 1) (demo_payload ''Two.'') BY_TEACHER_EDIT ?db1
      = Inr ((dr_document ?row2, []), ?db2)"
    by code_simp
  from impact_reported_once [OF demo_translated_reachable head fresh(1) first fresh(2) second] first second v show ?thesis
    by auto
qed

section \<open>Restoring\<close>

lemma teacher_only_document:
  "has_teacher_only_value (dump_document d) \<longleftrightarrow>
   holds_key_fields DOCUMENT_TEACHER_KEYS (doc_metadata d) \<or> holds_key DOCUMENT_TEACHER_KEYS (dump_payload (doc_payload d))"
proof -
  have "\<not> holds_key ks (dump_opt JStr x)" for ks x by (cases x) (simp_all add: dump_opt_def)
  then show ?thesis by (simp add: has_teacher_only_value_def dump_document_def) (simp add: DOCUMENT_TEACHER_KEYS_def)
qed

lemma restored_document_ok:
  assumes "document_ok (dr_document head)" and "document_ok (dr_document target)" and "text_between 1 80 new_id"
    and "doc_artifact_id (dr_document head) = a"
    and "doc_artifact_type (dr_document target) = doc_artifact_type (dr_document head)"
    and "doc_audience (dr_document target) = doc_audience (dr_document head)"
  shows "document_ok (next_document new_id a head (doc_payload (dr_document target)) authority)"
proof -
  have "text_between 3 200 DEFAULT_TITLE" "text_between 1 80 ''default''"
    by (simp_all add: text_between_def DEFAULT_TITLE_def)
  then show ?thesis
    using assms by (auto simp: document_ok_def teacher_only_document next_document_def Let_def opt_id_ok_def
        split: option.splits list.splits)
qed

text \<open>
  Restoring an earlier version of an artifact never fails when the lineage
  has kept its type and audience: it stores the old payload as a new version after the current one, which
  becomes the current one, and leaves every stored version as it was. Title, theme and metadata of the
  restored version are not restored.
\<close>
lemma restore_brings_payload_back:
  assumes "document_reachable env db" and "get_latest run a db = Some head"
    and "target \<in> set (dd_documents db)" and "in_lineage (run, a) target"
    and "new_id \<notin> document_ids db" and "text_between 1 80 new_id"
    and "doc_artifact_type (dr_document target) = doc_artifact_type (dr_document head)"
    and "doc_audience (dr_document target) = doc_audience (dr_document head)"
  shows "\<exists>d impacted row db'. restore_artifact_document now new_id run a (row_version target) db = Inr ((d, impacted), db')
    \<and> get_latest run a db' = Some row \<and> dr_document row = d \<and> dd_documents db' = dd_documents db @ [row]
    \<and> doc_version d = row_version head + 1 \<and> doc_payload d = doc_payload (dr_document target)
    \<and> doc_authority d = BY_RESTORE \<and> doc_title d = ''Untitled artifact'' \<and> doc_metadata d = []"
proof -
  have ok: "tables_ok db" by (rule reachable_tables_ok [OF assms(1)])
  then have docs: "documents_ok db" by (simp add: tables_ok_def)
  from assms(2) obtain older where versions: "list_versions run a db = head # older"
    by (auto simp: get_latest_def split: list.splits)
  have found: "List.find (\<lambda>r. row_version r = row_version target) (head # older) = Some target"
    by (rule version_found [OF docs versions assms(3,4)])
  have head: "head \<in> set (dd_documents db)" "row_artifact head = a"
    using latest_row [OF assms(2)] by (auto simp: in_lineage_def)
  let ?p = "doc_payload (dr_document target)"
  have valid: "document_ok (next_document new_id a head ?p BY_RESTORE)"
    using restored_document_ok [OF documents_okD(3) [OF docs head(1)] documents_okD(3) [OF docs assms(3)] assms(6) head(2) assms(7,8)] .
  let ?row = "edited_row now new_id run a head ?p BY_RESTORE"
  let ?db = "db\<lparr>dd_documents := dd_documents db @ [?row]\<rparr>"
  have edit: "edit_artifact_document now new_id run a (row_version head) ?p BY_RESTORE db =
      Inr ((next_document new_id a head ?p BY_RESTORE, impacted_artifact_ids (row_id head) ?db), ?db)"
    using edit_exact [OF ok assms(2,5) valid] by (simp add: Let_def)
  have "restore_artifact_document now new_id run a (row_version target) db =
      Inr ((next_document new_id a head ?p BY_RESTORE, impacted_artifact_ids (row_id head) ?db), ?db)"
    using found edit by (simp add: restore_artifact_document_def versions del: find.simps)
  moreover note edit_Inr(6) [OF ok assms(2,5) edit]
  moreover have "doc_authority (next_document new_id a head ?p BY_RESTORE) = BY_RESTORE"
    "doc_metadata (next_document new_id a head ?p BY_RESTORE) = []" by (simp_all add: next_document_def Let_def)
  ultimately show ?thesis
    by (intro exI conjI) (assumption | simp add: edited_row_def DEFAULT_TITLE_def)+
qed

lemma restore_brings_payload_back_witness:
  "\<exists>d impacted db'. restore_artifact_document 12 ''doc-3'' ''r1'' ''lesson-1'' 1 demo_edited = Inr ((d, impacted), db')
     \<and> doc_version d = 3 \<and> doc_payload d = demo_payload ''One of two.''"
proof -
  let ?head = "edited_row 9 ''doc-2'' ''r1'' ''lesson-1'' demo_head (demo_payload ''Half.'') BY_TEACHER_EDIT"
  have reach: "document_reachable demo_content_env demo_edited"
  proof (rule rtranclp.rtrancl_into_rtrancl [OF demo_documents_reachable document_step.edited])
    show "edit_after_read 9 ''doc-2'' ''r1'' ''lesson-1'' 1 (demo_payload ''Half.'') BY_TEACHER_EDIT (Some demo_head) demo_documents
        = Inr ((demo_next, []), demo_edited)" by code_simp
    show "demo_head \<in> set (dd_documents demo_documents)" "in_lineage (''r1'', ''lesson-1'') demo_head"
      by code_simp+
  qed
  have head: "get_latest ''r1'' ''lesson-1'' demo_edited = Some ?head" "demo_head \<in> set (dd_documents demo_edited)"
    "in_lineage (''r1'', ''lesson-1'') demo_head" "text_between 1 80 ''doc-3''"
    "doc_artifact_type (dr_document demo_head) = doc_artifact_type (dr_document ?head)"
    "doc_audience (dr_document demo_head) = doc_audience (dr_document ?head)" "row_version demo_head = 1" "row_version ?head = 2"
    "doc_payload (dr_document demo_head) = demo_payload ''One of two.''"
    by code_simp+
  from restore_brings_payload_back [OF reach head(1-3) demo_fresh(2) head(4-6), of 12] head(7-9) show ?thesis by auto
qed

section \<open>Regeneration\<close>

text \<open>
  C6: once a run has any version of an artifact, storing the artifact under
  the same id for a new generation always raises: generated documents are version 1, and that version
  exists.
\<close>
theorem regeneration_cannot_be_stored:
  assumes "document_reachable env db" and "get_latest run a db \<noteq> None"
    and "gen @ '':'' @ a \<notin> document_ids db"
  shows "persist_result env now run gen result a db =
    (case document_from_content env (pr_artifact result) (gen @ '':'' @ a) a 1 of
       Inl e \<Rightarrow> Inl e | Inr d \<Rightarrow> Inl IntegrityError)"
proof (cases "document_from_content env (pr_artifact result) (gen @ '':'' @ a) a 1")
  case (Inr d)
  from document_from_content_Inr [OF Inr] have d: "doc_id d = gen @ '':'' @ a" "doc_artifact_id d = a" "doc_version d = 1" by auto
  have docs: "documents_ok db" using reachable_tables_ok [OF assms(1)] by (simp add: tables_ok_def)
  have "lineage_versions db (run, a) \<noteq> []" using assms(2) latest_None [of run a db] by simp
  then have "1 \<in> set (lineage_versions db (run, a))"
    unfolding gapless_set [OF documents_okD(2) [OF docs]] by (simp add: Suc_le_eq)
  then obtain r where r: "r \<in> set (dd_documents db)" "dr_run_id r = run" "row_artifact r = a" "row_version r = 1"
    using version_there [OF docs, of 1 run a] by (auto simp: in_lineage_def)
  have "insert_document now run d db = Inl IntegrityError"
    using r assms(3) by (auto simp: insert_document_def insert_or_nothing_def list_ex_iff d not_in_document_ids)
  then show ?thesis unfolding persist_result_write Inr by (simp add: persist_def)
qed (simp add: persist_result_write)

theorem regeneration_cannot_be_stored_witness:
  "persist_result demo_content_env 20 ''r1'' ''g2'' demo_result ''lesson-1'' demo_documents = Inl IntegrityError"
proof -
  have "document_from_content demo_content_env demo_lesson ''g2:lesson-1'' ''lesson-1'' 1 =
      Inr (demo_document\<lparr>doc_id := ''g2:lesson-1''\<rparr>)" by code_simp
  then show ?thesis
    using regeneration_cannot_be_stored [OF demo_documents_reachable, of "''r1''" "''lesson-1''" "''g2''" 20 demo_result] demo_latest demo_fresh(3)
    by (simp add: demo_result_def)
qed

section \<open>Bulk approval\<close>

definition approvable :: "string \<Rightarrow> document_db \<Rightarrow> string \<Rightarrow> bool" where
  "approvable run db a \<longleftrightarrow> get_latest run a db \<noteq> None \<and> \<not> has_open_blocking run a db"

definition approval_rows ::
  "instant \<Rightarrow> string \<Rightarrow> string \<Rightarrow> document_db \<Rightarrow> (string \<times> string) list \<Rightarrow> approval_row list" where
  "approval_rows now run approver db pairs =
     map (\<lambda>(a, i). \<lparr>ap_approval_id = i, ap_document_id = row_id (the (get_latest run a db)), ap_status = ''approved'',
         ap_approved_by = approver, ap_created_at = now\<rparr>)
       (filter (\<lambda>(a, i). approvable run db a) pairs)"

lemma approvals_unchanged [simp]:
  "get_latest run a (db\<lparr>dd_approvals := xs\<rparr>) = get_latest run a db"
  "has_open_blocking run a (db\<lparr>dd_approvals := xs\<rparr>) = has_open_blocking run a db"
  "approvable run (db\<lparr>dd_approvals := xs\<rparr>) = approvable run db"
  by (simp_all add: get_latest_def list_versions_def has_open_blocking_def approvable_def fun_eq_iff)

lemma approve_all_exact:
  assumes "distinct (map snd pairs)" and "snd ` set pairs \<inter> ap_approval_id ` set (dd_approvals db) = {}"
  shows "approve_all_current now run approver pairs db =
    Inr ((map fst (filter (\<lambda>(a, i). approvable run db a) pairs),
          map (\<lambda>(a, i). (a, if get_latest run a db = None then ''no_version'' else ''blocking_review_note''))
            (filter (\<lambda>(a, i). \<not> approvable run db a) pairs)),
      db\<lparr>dd_approvals := dd_approvals db @ approval_rows now run approver db pairs\<rparr>)"
  using assms
proof (induction pairs arbitrary: db)
  case (Cons pair pairs)
  obtain a i where pair: "pair = (a, i)" by (cases pair)
  show ?case
  proof (cases "approvable run db a")
    case False
    then show ?thesis
      using Cons.IH [of db] Cons.prems
      by (auto simp: pair approvable_def approval_rows_def split: option.splits)
  next
    case True
    then obtain head where head: "get_latest run a db = Some head" "\<not> has_open_blocking run a db"
      by (auto simp: approvable_def)
    let ?row = "\<lparr>ap_approval_id = i, ap_document_id = row_id head, ap_status = ''approved'',
        ap_approved_by = approver, ap_created_at = now\<rparr>"
    let ?db = "db\<lparr>dd_approvals := dd_approvals db @ [?row]\<rparr>"
    have "row_id head \<in> document_ids db" using latest_row [OF head(1)] by (simp add: document_ids_def)
    then have "insert_approval now (row_id head) (approval_by i approver) db = Inr ?db"
      using Cons.prems(2) by (auto simp: insert_approval_def insert_or_nothing_def list_ex_iff approval_by_def pair)
    moreover have "approval_rows now run approver ?db pairs = approval_rows now run approver db pairs"
      by (simp add: approval_rows_def)
    moreover have "snd ` set pairs \<inter> ap_approval_id ` set (dd_approvals ?db) = {}" "distinct (map snd pairs)"
      using Cons.prems by (auto simp: pair)
    ultimately show ?thesis
      using Cons.IH [of ?db] True head by (simp add: pair approval_rows_def)
  qed
qed (simp add: approval_rows_def)

lemma newest_approval:
  assumes "\<forall>x \<in> set xs. ap_created_at x \<le> now" and "\<forall>y \<in> set ys. ap_created_at y = now \<and> ap_status y = st"
    and "i \<in> ap_document_id ` set ys"
  shows "latest_approval_status (db\<lparr>dd_approvals := xs @ ys\<rparr>) i = Some st"
proof -
  let ?mine = "filter (\<lambda>r. ap_document_id r = i)"
  have "?mine ys \<noteq> []" using assms(3) by (auto simp: filter_empty_conv)
  then obtain y rest where y: "rev (?mine ys) = y # rest" by (cases "rev (?mine ys)") auto
  then have "y \<in> set ys" by (metis filter_is_subset list.set_intros(1) set_rev subsetD)
  then have now: "ap_created_at y = now" "ap_status y = st" using assms(2) by auto
  have "\<forall>x \<in> set (rest @ rev (?mine xs)). ap_created_at x \<le> now"
  proof
    fix x assume "x \<in> set (rest @ rev (?mine xs))"
    then have "x \<in> set (rev (?mine ys)) \<or> x \<in> set xs" by (auto simp: y)
    then show "ap_created_at x \<le> now" using assms(1,2) by auto
  qed
  then have "sort_key (\<lambda>r. - ap_created_at r) (y # rest @ rev (?mine xs)) =
      y # sort_key (\<lambda>r. - ap_created_at r) (rest @ rev (?mine xs))"
    using now(1) by (simp add: insort_is_Cons)
  then show ?thesis using y now(2) by (simp add: latest_approval_status_def)
qed

text \<open>
  Approving many artifacts at once never raises: it approves exactly those that have
  a version and no open blocking note, reports every other one with its reason, and afterwards the current
  version of each approved artifact reads as approved. No document, note or other table changes.
\<close>
theorem bulk_approval_exact:
  assumes "distinct (map snd pairs)" and "snd ` set pairs \<inter> ap_approval_id ` set (dd_approvals db) = {}"
    and "\<forall>x \<in> set (dd_approvals db). ap_created_at x \<le> now"
  shows "\<exists>blocked db'. approve_all_current now run approver pairs db =
      Inr ((map fst (filter (\<lambda>(a, i). approvable run db a) pairs), blocked), db')
    \<and> blocked = map (\<lambda>(a, i). (a, if get_latest run a db = None then ''no_version'' else ''blocking_review_note''))
        (filter (\<lambda>(a, i). \<not> approvable run db a) pairs)
    \<and> (\<forall>(a, i) \<in> set pairs. approvable run db a \<longrightarrow>
        latest_approval_status db' (row_id (the (get_latest run a db))) = Some ''approved'')
    \<and> (\<exists>rows. db' = db\<lparr>dd_approvals := rows\<rparr>)"
proof -
  let ?rows = "approval_rows now run approver db pairs"
  have "latest_approval_status (db\<lparr>dd_approvals := dd_approvals db @ ?rows\<rparr>) (row_id (the (get_latest run a db))) = Some ''approved''"
    if "(a, i) \<in> set pairs" "approvable run db a" for a i
  proof (rule newest_approval [OF assms(3)])
    show "row_id (the (get_latest run a db)) \<in> ap_document_id ` set ?rows"
      using that by (force simp: approval_rows_def)
  qed (auto simp: approval_rows_def)
  then show ?thesis using approve_all_exact [OF assms(1,2)] by fastforce
qed

theorem bulk_approval_exact_witness:
  "\<exists>db'. approve_all_current 30 ''r1'' ''head-of-year'' [(''lesson-1'', ''ap1''), (''quiz-1'', ''ap2'')] demo_documents =
      Inr (([''lesson-1''], [(''quiz-1'', ''no_version'')]), db')
    \<and> latest_approval_status db' ''g1:lesson-1'' = Some ''approved''"
proof -
  let ?pairs = "[(''lesson-1'', ''ap1''), (''quiz-1'', ''ap2'')]"
  have "approvable ''r1'' demo_documents ''lesson-1''" "\<not> approvable ''r1'' demo_documents ''quiz-1''"
    "get_latest ''r1'' ''quiz-1'' demo_documents = None" "row_id demo_head = ''g1:lesson-1''" "dd_approvals demo_documents = []"
    by code_simp+
  with bulk_approval_exact [of ?pairs demo_documents 30 "''r1''" "''head-of-year''"] demo_latest show ?thesis by auto
qed

end
