(* ===== verification/Document_Mapping.thy ===== *)
theory Document_Mapping
  imports Document_Claims
begin

text \<open>
  The mapping between generated content and documents: what a student projection removes and what it lets
  the validator refuse, and the round trip of a stored document through its projection.
\<close>

section \<open>Stripping\<close>

lemma stripped_fields: "map fst (student_fields kvs) = filter (\<lambda>k. k \<notin> set STRIPPED_KEYS) (map fst kvs)"
  by (induction kvs) (auto split: prod.splits)

lemma student_holds_none:
  "\<not> holds_key STRIPPED_KEYS (student_value v)"
  "\<not> holds_key_items STRIPPED_KEYS (student_items vs)"
  "\<not> holds_key_fields STRIPPED_KEYS (student_fields kvs)"
  by (induction v and vs and kvs rule: student_value_student_items_student_fields.induct) auto

lemma student_unchanged:
  "\<not> holds_key STRIPPED_KEYS v \<Longrightarrow> student_value v = v"
  "\<not> holds_key_items STRIPPED_KEYS vs \<Longrightarrow> student_items vs = vs"
  "\<not> holds_key_fields STRIPPED_KEYS kvs \<Longrightarrow> student_fields kvs = kvs"
  by (induction v and vs and kvs rule: student_value_student_items_student_fields.induct) auto

lemma holds_key_append:
  "holds_key (ks @ ls) v \<longleftrightarrow> holds_key ks v \<or> holds_key ls v"
  "holds_key_items (ks @ ls) vs \<longleftrightarrow> holds_key_items ks vs \<or> holds_key_items ls vs"
  "holds_key_fields (ks @ ls) kvs \<longleftrightarrow> holds_key_fields ks kvs \<or> holds_key_fields ls kvs"
  by (induction ks v and ks vs and ks kvs rule: holds_key_holds_key_items_holds_key_fields.induct) auto

lemma teacher_keys: "DOCUMENT_TEACHER_KEYS = STRIPPED_KEYS @ [''rubric_solution'']"
  by (simp add: DOCUMENT_TEACHER_KEYS_def STRIPPED_KEYS_def)

lemma teacher_not_stripped:
  "\<not> holds_key DOCUMENT_TEACHER_KEYS v \<Longrightarrow> \<not> holds_key STRIPPED_KEYS v"
  "\<not> holds_key_items DOCUMENT_TEACHER_KEYS vs \<Longrightarrow> \<not> holds_key_items STRIPPED_KEYS vs"
  "\<not> holds_key_fields DOCUMENT_TEACHER_KEYS kvs \<Longrightarrow> \<not> holds_key_fields STRIPPED_KEYS kvs"
  unfolding teacher_keys by (simp_all add: holds_key_append)

lemma teacher_only_student:
  "holds_key_fields DOCUMENT_TEACHER_KEYS (student_fields kvs) \<longleftrightarrow> holds_key_fields [''rubric_solution''] (student_fields kvs)"
  unfolding teacher_keys by (simp add: holds_key_append student_holds_none)

text \<open>
  C24: the projection for students removes seven of the eight keys that the
  validator of documents forbids, at every depth, and nothing else; applying it again changes nothing.
  Content whose metadata keeps the eighth key after the projection is refused by the validator instead of
  being cleaned, so no document of it can be stored.
\<close>
theorem student_projection:
  shows "\<not> holds_key STRIPPED_KEYS (student_value v) \<and> student_value (student_value v) = student_value v
    \<and> (\<not> holds_key STRIPPED_KEYS v \<longrightarrow> student_value v = v)
    \<and> (has_teacher_only_value (student_value v) \<longleftrightarrow> holds_key [''rubric_solution''] (student_value v))
    \<and> (ct_artifact_type c \<noteq> ''answer_key'' \<and> ct_artifact_type c \<noteq> ''slide_deck''
        \<and> holds_key_fields [''rubric_solution''] (student_fields (ct_metadata c)) \<longrightarrow>
        (\<exists>e. document_from_content env c document_id artifact_id version = Inl e))"
proof -
  have "has_teacher_only_value (student_value v) \<longleftrightarrow> holds_key [''rubric_solution''] (student_value v)"
    unfolding has_teacher_only_value_def teacher_keys by (simp add: holds_key_append student_holds_none)
  moreover have "\<exists>e. document_from_content env c document_id artifact_id version = Inl e"
    if c: "ct_artifact_type c \<noteq> ''answer_key''" "ct_artifact_type c \<noteq> ''slide_deck''"
      and rubric: "holds_key_fields [''rubric_solution''] (student_fields (ct_metadata c))"
  proof (rule ccontr)
    assume "\<not> ?thesis"
    then obtain d where "document_from_content env c document_id artifact_id version = Inr d"
      by (cases "document_from_content env c document_id artifact_id version") auto
    with c have "document_ok d" "doc_audience d = FOR_STUDENT" "doc_metadata d = student_fields (ct_metadata c)"
      by (auto simp: document_from_content_def Let_def ebind_Inr_iff artifact_document_def artifact_content_def
          student_content_def split: if_splits)
    with rubric show False by (simp add: document_ok_def teacher_only_document teacher_only_student)
  qed
  ultimately show ?thesis using student_holds_none student_unchanged by blast
qed

theorem student_projection_witness:
  "student_value (JObj [(''text'', JStr ''2/4''), (''hints'', JList [JObj [(''answer'', JStr ''B''), (''rubric_solution'', JStr ''B'')]])])
     = JObj [(''text'', JStr ''2/4''), (''hints'', JList [JObj [(''rubric_solution'', JStr ''B'')]])]
   \<and> (\<exists>e. document_from_content demo_content_env (demo_lesson\<lparr>ct_metadata := [(''rubric_solution'', JStr ''B'')]\<rparr>)
        ''g1:lesson-1'' ''lesson-1'' 1 = Inl e)"
proof -
  let ?c = "demo_lesson\<lparr>ct_metadata := [(''rubric_solution'', JStr ''B'')]\<rparr>"
  have "ct_artifact_type ?c \<noteq> ''answer_key''" "ct_artifact_type ?c \<noteq> ''slide_deck''"
    "holds_key_fields [''rubric_solution''] (student_fields (ct_metadata ?c))" by code_simp+
  with student_projection [of JNull ?c demo_content_env "''g1:lesson-1''" "''lesson-1''" 1]
  have "\<exists>e. document_from_content demo_content_env ?c ''g1:lesson-1'' ''lesson-1'' 1 = Inl e" by blast
  then show ?thesis by (simp add: STRIPPED_KEYS_def)
qed

section \<open>Dictionaries of distinct keys\<close>

lemma update_fresh: "k \<notin> fst ` set d \<Longrightarrow> AList.update k v d = d @ [(k, v)]"
  by (induction d) auto

lemma dict_merge_fresh:
  "distinct (map fst e) \<Longrightarrow> fst ` set d \<inter> fst ` set e = {} \<Longrightarrow> dict_merge d e = d @ e"
proof (induction e arbitrary: d)
  case (Cons kv e)
  obtain k v where kv: "kv = (k, v)" by (cases kv)
  with Cons.prems have "k \<notin> fst ` set d" by auto
  with Cons show ?case by (auto simp: dict_merge_def kv update_fresh)
qed (simp add: dict_merge_def)

lemma holds_update:
  "holds_key_fields ks (AList.update k v d) \<Longrightarrow> holds_key_fields ks d \<or> k \<in> set ks \<or> holds_key ks v"
  by (induction d) (auto split: if_splits)

lemma holds_merge:
  "holds_key_fields ks (dict_merge d e) \<Longrightarrow> holds_key_fields ks d \<or> holds_key_fields ks e"
proof (induction e arbitrary: d)
  case (Cons kv e)
  obtain k v where kv: "kv = (k, v)" by (cases kv)
  from Cons.prems have "holds_key_fields ks (dict_merge (AList.update k v d) e)" by (simp add: dict_merge_def kv)
  from Cons.IH [OF this] show ?case using holds_update [of ks k v d] by (auto simp: kv)
qed (simp add: dict_merge_def)

section \<open>Round trip of rich documents\<close>

definition section_object :: "rich_section \<Rightarrow> json_object" where
  "section_object s = [(''id'', JStr (rich_entity_id s)), (''title'', JStr (rich_title s)),
     (''components'', JList (map JObj (rich_components s)))]"

lemma objects_of_map: "objects_of (map JObj xs) = Some xs"
  by (induction xs) auto

lemma rich_section_of_object:
  assumes "rich_section_ok s"
  shows "rich_section_of env index (section_object s) = Inr s"
proof -
  from assms obtain i j t ts x xs where s: "rich_entity_id s = i # j" "rich_title s = t # ts" "rich_components s = x # xs"
    by (auto simp: rich_section_ok_def text_between_def Suc_le_length_iff neq_Nil_conv)
  then show ?thesis using assms
    by (cases s) (simp add: rich_section_of_def section_object_def dict_get_def objects_of_map)
qed

lemma rich_sections_of_objects:
  "list_all rich_section_ok rs \<Longrightarrow> rich_sections_of env index (map section_object rs) = Inr rs"
  by (induction rs arbitrary: index) (simp_all add: rich_section_of_object)

lemma holds_objects: "holds_key_items ks (map JObj xs) \<longleftrightarrow> list_ex (holds_key_fields ks) xs"
  by (induction xs) auto

lemma holds_items: "holds_key_items ks vs \<longleftrightarrow> list_ex (holds_key ks) vs"
  by (induction vs) auto

lemma section_object_clean:
  "\<not> holds_key STRIPPED_KEYS (dump_rich_section s) \<Longrightarrow> student_fields (section_object s) = section_object s"
  by (rule student_unchanged(3)) (simp add: dump_rich_section_def section_object_def STRIPPED_KEYS_def)

section \<open>Round trip of assessments\<close>

lemma question_of_component:
  assumes "question_ok q" and "distinct (map opt_entity_id (qst_options q))"
  shows "question_of (question_component q) = Inr (Some q)"
proof -
  from assms(1) obtain i j t ts where q: "qst_entity_id q = i # j" "qst_prompt q = t # ts"
    by (auto simp: question_ok_def text_between_def Suc_le_length_iff)
  let ?choices = "map (\<lambda>c. (opt_entity_id c, JStr (opt_text c))) (qst_options q)"
  have "dict_merge [] ?choices = ?choices"
    using assms(2) by (simp add: dict_merge_fresh comp_def)
  moreover have "list_all (\<lambda>(k, v). k \<noteq> [] \<and> (case v of JStr (x # xs) \<Rightarrow> True | _ \<Rightarrow> False)) ?choices"
    using assms(1) by (auto simp: list_all_iff question_ok_def option_ok_def text_between_def split: list.splits)
  moreover have "map (\<lambda>(k, v). \<lparr>opt_entity_id = k, opt_text = (case v of JStr x \<Rightarrow> x | _ \<Rightarrow> [])\<rparr>) ?choices = qst_options q"
    by (auto simp: comp_def intro!: map_idI assessment_option.equality)
  ultimately show ?thesis using q assms(1)
    by (cases q) (simp add: question_of_def question_component_def dict_get_def Let_def)
qed

lemma questions_of_components:
  "list_all (\<lambda>q. question_ok q \<and> distinct (map opt_entity_id (qst_options q))) qs \<Longrightarrow>
   questions_of (map question_component qs) = Inr qs"
  by (induction qs) (simp_all add: question_of_component)

lemma question_component_clean:
  assumes "set (map opt_entity_id (qst_options q)) \<inter> set STRIPPED_KEYS = {}"
  shows "\<not> holds_key STRIPPED_KEYS (question_component q)"
proof -
  let ?choices = "map (\<lambda>c. (opt_entity_id c, JStr (opt_text c))) (qst_options q)"
  have "\<not> holds_key_fields STRIPPED_KEYS (map (\<lambda>c. (opt_entity_id c, JStr (opt_text c))) cs)"
    if "set (map opt_entity_id cs) \<inter> set STRIPPED_KEYS = {}" for cs
    using that by (induction cs) auto
  then have "\<not> holds_key_fields STRIPPED_KEYS (dict_merge [] ?choices)"
    using holds_merge [of STRIPPED_KEYS "[]" ?choices] assms by auto
  then show ?thesis by (simp add: question_component_def) (simp add: STRIPPED_KEYS_def)
qed

section \<open>The round trip\<close>

definition projected_metadata :: "document \<Rightarrow> json_object" where
  "projected_metadata d =
     dict_merge (doc_metadata d) [(''document_id'', JStr (doc_id d)), (''document_version'', JInt (doc_version d))]"

definition projected :: "document \<Rightarrow> json_object list \<Rightarrow> content" where
  "projected d sections = \<lparr>ct_artifact_type = doc_artifact_type d, ct_theme = doc_theme d, ct_title = doc_title d,
     ct_sections = sections, ct_metadata = projected_metadata d,
     ct_accessibility = [(''language'', JStr (language_value (doc_language d)))]\<rparr>"

lemma projected_metadata_clean:
  assumes "\<not> holds_key_fields DOCUMENT_TEACHER_KEYS (doc_metadata d)"
  shows "\<not> holds_key_fields DOCUMENT_TEACHER_KEYS (projected_metadata d)"
  using assms holds_merge unfolding projected_metadata_def by (fastforce simp: DOCUMENT_TEACHER_KEYS_def)

text \<open>What a generated document of an assessment or rich artifact looks like.\<close>

definition generated_document :: "document \<Rightarrow> bool" where
  "generated_document d \<longleftrightarrow> document_ok d \<and> doc_authority d = BY_GENERATION \<and> doc_parent d = None \<and> doc_source d = None
     \<and> doc_audience d = (if doc_artifact_type d = ''answer_key'' then FOR_TEACHER else FOR_STUDENT)
     \<and> pl_kind (doc_payload d) \<in> {ASSESSMENT_DOCUMENT, RICH_DOCUMENT}
     \<and> list_all (\<lambda>q. distinct (map opt_entity_id (qst_options q))
          \<and> set (map opt_entity_id (qst_options q)) \<inter> set STRIPPED_KEYS = {}) (the_default [] (pl_questions (doc_payload d)))"

lemma generated_payload:
  assumes "generated_document d"
  obtains (rich) rs where "doc_payload d = (plain_payload RICH_DOCUMENT)\<lparr>pl_rich_sections := Some rs\<rparr>"
      "list_all rich_section_ok rs" "doc_artifact_type d \<notin> set ASSESSMENT_TYPES" "doc_artifact_type d \<noteq> ''slide_deck''"
  | (assessment) qs where "doc_payload d = (plain_payload ASSESSMENT_DOCUMENT)\<lparr>pl_questions := Some qs\<rparr>" "qs \<noteq> []"
      "list_all (\<lambda>q. question_ok q \<and> distinct (map opt_entity_id (qst_options q))) qs"
      "\<forall>q \<in> set qs. set (map opt_entity_id (qst_options q)) \<inter> set STRIPPED_KEYS = {}"
      "doc_artifact_type d \<in> set ASSESSMENT_TYPES" "doc_artifact_type d \<noteq> ''slide_deck''"
proof (cases "pl_kind (doc_payload d)")
  case RICH_DOCUMENT
  with assms have p: "payload_ok (doc_payload d)" "payload_matches_type (doc_artifact_type d) RICH_DOCUMENT"
    by (auto simp: generated_document_def document_ok_def)
  from p(1) RICH_DOCUMENT obtain rs where "doc_payload d = (plain_payload RICH_DOCUMENT)\<lparr>pl_rich_sections := Some rs\<rparr>"
    "list_all rich_section_ok rs"
    by (cases "doc_payload d") (auto simp: payload_ok_def plain_payload_def)
  then show thesis using p(2) by (intro rich) (auto simp: payload_matches_type_def split: if_splits)
next
  case ASSESSMENT_DOCUMENT
  with assms have p: "payload_ok (doc_payload d)" "payload_matches_type (doc_artifact_type d) ASSESSMENT_DOCUMENT"
    by (auto simp: generated_document_def document_ok_def)
  from p(1) ASSESSMENT_DOCUMENT obtain qs where qs: "doc_payload d = (plain_payload ASSESSMENT_DOCUMENT)\<lparr>pl_questions := Some qs\<rparr>"
    by (cases "doc_payload d") (auto simp: payload_ok_def plain_payload_def)
  with p(1) have "qs \<noteq> []" "list_all question_ok qs" by (auto simp: payload_ok_def plain_payload_def)
  note qs = qs this
  have "doc_artifact_type d \<in> set ASSESSMENT_TYPES" using p(2) by (auto simp: payload_matches_type_def split: if_splits)
  moreover from this have "doc_artifact_type d \<noteq> ''slide_deck''" by (auto simp: ASSESSMENT_TYPES_def)
  ultimately show thesis using qs assms
    by (intro assessment) (auto simp: generated_document_def plain_payload_def list_all_iff)
qed (use assms in \<open>auto simp: generated_document_def\<close>)

text \<open>The sections that a projection has read back as the payload it was made from.\<close>

lemma projected_payload:
  assumes "generated_document d" and "projected_sections (doc_payload d) = Inr sections"
  shows "(if doc_artifact_type d \<in> set ASSESSMENT_TYPES then assessment_payload (projected d sections)
          else rich_payload env (projected d sections)) = Inr (doc_payload d)
    \<and> (doc_audience d = FOR_STUDENT \<longrightarrow> map student_fields sections = sections)
    \<and> doc_artifact_type d \<noteq> ''slide_deck''"
  using assms(1)
proof (cases rule: generated_payload)
  case (rich rs)
  then have sections: "sections = map section_object rs"
    using assms(2) by (simp add: projected_sections_def plain_payload_def section_object_def [abs_def])
  have "rich_payload env (projected d sections) = Inr (doc_payload d)"
    using rich(1) rich_sections_of_objects [OF rich(2)] by (simp add: rich_payload_def projected_def sections)
  moreover have "map student_fields sections = sections" if "doc_audience d = FOR_STUDENT"
  proof -
    have "\<not> holds_key DOCUMENT_TEACHER_KEYS (dump_payload (doc_payload d))"
      using assms(1) that by (auto simp: generated_document_def document_ok_def teacher_only_document)
    then have "\<not> holds_key_items DOCUMENT_TEACHER_KEYS (map dump_rich_section rs)"
      by (simp add: dump_payload_def rich(1) plain_payload_def dump_opt_def)
    then have "\<not> holds_key STRIPPED_KEYS (dump_rich_section s)" if "s \<in> set rs" for s
      using that teacher_not_stripped(1) by (auto simp: holds_items list_ex_iff)
    then show ?thesis by (auto simp: sections section_object_clean)
  qed
  ultimately show ?thesis using rich(3,4) by simp
next
  case (assessment qs)
  then have sections: "sections = [[(''title'', JStr ''Questions''), (''components'', JList (map question_component qs))]]"
    using assms(2) by (simp add: projected_sections_def plain_payload_def)
  have "section_components (hd sections) = map question_component qs"
    by (simp add: sections section_components_def dict_get_def)
  then have "assessment_payload (projected d sections) = Inr (doc_payload d)"
    using assessment(1,2) questions_of_components [OF assessment(3)]
    by (simp add: assessment_payload_def projected_def sections)
  moreover have "\<not> holds_key_items STRIPPED_KEYS (map question_component qs)"
    using assessment(4) question_component_clean by (auto simp: holds_items list_ex_iff)
  then have "student_fields (hd sections) = hd sections"
    by (intro student_unchanged(3)) (simp add: sections, simp add: STRIPPED_KEYS_def)
  ultimately show ?thesis using assessment(5,6) by (simp add: sections)
qed



end
