(* ===== verification/Rate_Limit.thy ===== *)
theory Rate_Limit
  imports Auth
begin

text \<open>
  Rate limits and escalating blocks (\<open>services/gateway/rate_limiting.py\<close>) and the two middlewares that
  enforce them (\<open>services/gateway/middleware/rate_limit_middleware.py\<close>). Redis is its documented commands
  on a map of keys to a number and the time at which the key expires; instants are milliseconds, the
  resolution of Redis, and a request is served at one instant.
\<close>

section \<open>Redis\<close>

type_synonym millis = int
type_synonym redis = "string \<rightharpoonup> int \<times> millis option"

text \<open>
  A computation over Redis carries the number of commands Redis still answers before it becomes
  unreachable for the rest of the request: a command that is not answered raises, and what the commands
  before it did stays done.
\<close>

type_synonym 'a redis_io = "nat \<times> redis \<Rightarrow> 'a option \<times> nat \<times> redis"

definition command :: "(redis \<Rightarrow> 'a \<times> redis) \<Rightarrow> 'a redis_io" where
  "command f st =
     (case st of (n, db) \<Rightarrow> if n = 0 then (None, 0, db) else case f db of (a, db') \<Rightarrow> (Some a, n - 1, db'))"

definition rreturn :: "'a \<Rightarrow> 'a redis_io" where
  "rreturn a st = (Some a, st)"

definition rbind :: "'a redis_io \<Rightarrow> ('a \<Rightarrow> 'b redis_io) \<Rightarrow> 'b redis_io" where
  "rbind c f st = (case c st of (None, st') \<Rightarrow> (None, st') | (Some a, st') \<Rightarrow> f a st')"

definition redis_get :: "millis \<Rightarrow> string \<Rightarrow> redis \<Rightarrow> (int \<times> millis option) option" where
  "redis_get now k db =
     (case db k of
        None \<Rightarrow> None
      | Some (v, None) \<Rightarrow> Some (v, None)
      | Some (v, Some t) \<Rightarrow> if now < t then Some (v, Some t) else None)"

definition redis_incr :: "millis \<Rightarrow> string \<Rightarrow> int redis_io" where
  "redis_incr now k = command (\<lambda>db.
     case redis_get now k db of
       None \<Rightarrow> (1, db(k \<mapsto> (1, None)))
     | Some (v, t) \<Rightarrow> (v + 1, db(k \<mapsto> (v + 1, t))))"

definition redis_expire :: "millis \<Rightarrow> string \<Rightarrow> int \<Rightarrow> unit redis_io" where
  "redis_expire now k secs = command (\<lambda>db.
     case redis_get now k db of
       None \<Rightarrow> ((), db)
     | Some (v, t) \<Rightarrow> ((), db(k \<mapsto> (v, Some (now + 1000 * secs)))))"

definition redis_set_ex :: "millis \<Rightarrow> string \<Rightarrow> int \<Rightarrow> unit redis_io" where
  "redis_set_ex now k secs = command (\<lambda>db. ((), db(k \<mapsto> (1, Some (now + 1000 * secs)))))"

definition redis_ttl :: "millis \<Rightarrow> string \<Rightarrow> int redis_io" where
  "redis_ttl now k = command (\<lambda>db.
     (case redis_get now k db of
        None \<Rightarrow> - 2
      | Some (v, None) \<Rightarrow> - 1
      | Some (v, Some t) \<Rightarrow> (t - now + 500) div 1000, db))"

section \<open>Limits\<close>

definition RATE_PREFIX :: string where "RATE_PREFIX = ''ratelimit:''"
definition VIOLATION_PREFIX :: string where "VIOLATION_PREFIX = ''ratelimit:violations:''"
definition BLOCK_PREFIX :: string where "BLOCK_PREFIX = ''ratelimit:blocked:''"

definition ABUSE_THRESHOLD :: int where "ABUSE_THRESHOLD = 5"
definition VIOLATION_WINDOW_SECONDS :: int where "VIOLATION_WINDOW_SECONDS = 600"
definition ESCALATION_SECONDS :: "int list" where "ESCALATION_SECONDS = [60, 300, 900, 3600]"

record rate_tier =
  rt_limit :: int
  rt_window_seconds :: int

record rate_outcome =
  ro_allowed :: bool
  ro_remaining :: int
  ro_retry_after :: int

definition check_rate_limit :: "millis \<Rightarrow> string \<Rightarrow> rate_tier \<Rightarrow> rate_outcome redis_io" where
  "check_rate_limit now key tier =
     (let window_index = now div (1000 * rt_window_seconds tier);
          redis_key = RATE_PREFIX @ key @ '':'' @ show_int window_index
      in rbind (redis_incr now redis_key) (\<lambda>count.
         rbind (if count = 1 then redis_expire now redis_key (rt_window_seconds tier) else rreturn ()) (\<lambda>_.
         let retry_after = rt_window_seconds tier - (now mod (1000 * rt_window_seconds tier)) div 1000
         in if rt_limit tier < count
            then rreturn \<lparr>ro_allowed = False, ro_remaining = 0, ro_retry_after = retry_after\<rparr>
            else rreturn \<lparr>ro_allowed = True, ro_remaining = rt_limit tier - count, ro_retry_after = retry_after\<rparr>)))"

definition is_blocked :: "millis \<Rightarrow> string \<Rightarrow> int option redis_io" where
  "is_blocked now pkey =
     rbind (redis_ttl now (BLOCK_PREFIX @ pkey)) (\<lambda>ttl. rreturn (if 0 < ttl then Some ttl else None))"

definition record_violation :: "millis \<Rightarrow> string \<Rightarrow> int option redis_io" where
  "record_violation now pkey =
     (let violation_key = VIOLATION_PREFIX @ pkey
      in rbind (redis_incr now violation_key) (\<lambda>count.
         rbind (if count = 1 then redis_expire now violation_key VIOLATION_WINDOW_SECONDS else rreturn ()) (\<lambda>_.
         if count < ABUSE_THRESHOLD then rreturn None
         else let escalation_index = min (nat (count - ABUSE_THRESHOLD)) (length ESCALATION_SECONDS - 1);
                  block_seconds = ESCALATION_SECONDS ! escalation_index
              in rbind (redis_set_ex now (BLOCK_PREFIX @ pkey) block_seconds)
                   (\<lambda>_. rreturn (Some block_seconds)))))"

section \<open>Middlewares\<close>

datatype gateway_answer = Call_Next | Payload_Too_Large | Too_Many_Requests int string

definition rate_limit_response :: "int \<Rightarrow> string \<Rightarrow> gateway_answer" where
  "rate_limit_response retry_after detail = Too_Many_Requests (max retry_after 1) detail"

record http_request =
  rq_method :: string
  rq_path :: string
  rq_content_length :: "string option"
  rq_client_ip :: string
  rq_user_id :: "string option"
  rq_user_role :: string

definition client_ip :: "bool \<Rightarrow> string option \<Rightarrow> string option \<Rightarrow> string" where
  "client_ip trust_proxy_headers forwarded_for client_host =
     (if trust_proxy_headers \<and> (case forwarded_for of None \<Rightarrow> False | Some f \<Rightarrow> f \<noteq> [])
      then strip (hd (split_on CHR '','' (the forwarded_for)))
      else (case client_host of None \<Rightarrow> ''unknown'' | Some h \<Rightarrow> h))"

text \<open>
  What both middlewares do for a client once they know its key and tier; when Redis fails they log and
  let the request pass.
\<close>

definition limit_principal ::
  "nat \<Rightarrow> millis \<Rightarrow> string \<Rightarrow> string \<Rightarrow> rate_tier \<Rightarrow> redis \<Rightarrow> gateway_answer \<times> redis" where
  "limit_principal avail now pkey key tier db =
     (let attempt =
        rbind (is_blocked now pkey) (\<lambda>blocked_ttl.
          case blocked_ttl of
            Some ttl \<Rightarrow> rreturn (rate_limit_response ttl ''Too many requests -- temporarily blocked'')
          | None \<Rightarrow>
              rbind (check_rate_limit now key tier) (\<lambda>outcome.
                if \<not> ro_allowed outcome
                then rbind (record_violation now pkey)
                  (\<lambda>_. rreturn (rate_limit_response (ro_retry_after outcome) ''Rate limit exceeded''))
                else rreturn Call_Next))
      in case attempt (avail, db) of
           (None, _, db') \<Rightarrow> (Call_Next, db')
         | (Some answer, _, db') \<Rightarrow> (answer, db'))"

record ip_config =
  ip_general_tier :: rate_tier
  ip_login_tier :: rate_tier
  ip_max_body_bytes :: int

definition LOGIN_PATHS :: "string list" where
  "LOGIN_PATHS = [''/auth/login'']"

definition body_too_large :: "int \<Rightarrow> http_request \<Rightarrow> bool" where
  "body_too_large max_bytes rq =
     (case rq_content_length rq of
        None \<Rightarrow> False
      | Some s \<Rightarrow> (case int_of_text s of None \<Rightarrow> False | Some n \<Rightarrow> max_bytes < n))"

definition ip_dispatch :: "ip_config \<Rightarrow> nat \<Rightarrow> millis \<Rightarrow> http_request \<Rightarrow> redis \<Rightarrow> gateway_answer \<times> redis" where
  "ip_dispatch cfg avail now rq db =
     (if rq_method rq = ''OPTIONS'' then (Call_Next, db)
      else if body_too_large (ip_max_body_bytes cfg) rq then (Payload_Too_Large, db)
      else let pkey = ''ip:'' @ rq_client_ip rq;
               is_login = (rq_path rq \<in> set LOGIN_PATHS)
           in limit_principal avail now pkey (pkey @ '':'' @ (if is_login then ''login'' else ''all''))
                (if is_login then ip_login_tier cfg else ip_general_tier cfg) db)"

definition READ_METHODS :: "string list" where
  "READ_METHODS = [''GET'', ''HEAD'', ''OPTIONS'']"

type_synonym token_tiers = "account_role \<rightharpoonup> rate_tier \<times> rate_tier"

text \<open>\<open>dict.get(role, dict[TEACHER])\<close>: the default is looked up first.\<close>

definition tiers_of :: "token_tiers \<Rightarrow> account_role \<Rightarrow> (rate_tier \<times> rate_tier) result" where
  "tiers_of tiers role =
     (case tiers Role_TEACHER of
        None \<Rightarrow> Inl (KeyError ''teacher'')
      | Some fallback \<Rightarrow> Inr (case tiers role of None \<Rightarrow> fallback | Some t \<Rightarrow> t))"

definition token_dispatch ::
  "token_tiers \<Rightarrow> nat \<Rightarrow> millis \<Rightarrow> http_request \<Rightarrow> redis \<Rightarrow> (gateway_answer \<times> redis) result" where
  "token_dispatch tiers avail now rq db =
     (if rq_method rq = ''OPTIONS'' then Inr (Call_Next, db)
      else case rq_user_id rq of
          None \<Rightarrow> Inr (Call_Next, db)
        | Some user \<Rightarrow>
            let role = the_default Role_TEACHER (find_value account_role_value teacher_roles (rq_user_role rq))
            in ebind (tiers_of tiers role) (\<lambda>(read_tier, mutate_tier).
                 let reading = (rq_method rq \<in> set READ_METHODS);
                     pkey = ''token:'' @ user
                 in Inr (limit_principal avail now pkey
                      (pkey @ '':'' @ (if reading then ''read'' else ''mutate''))
                      (if reading then read_tier else mutate_tier) db)))"

text \<open>Requests served one after the other, with the answers of the address middleware.\<close>

fun serve_all :: "ip_config \<Rightarrow> (nat \<times> millis \<times> http_request) list \<Rightarrow> redis \<Rightarrow> gateway_answer list \<times> redis" where
  "serve_all cfg [] db = ([], db)"
| "serve_all cfg ((avail, now, rq) # rest) db =
     (let (answer, db1) = ip_dispatch cfg avail now rq db; (answers, db2) = serve_all cfg rest db1
      in (answer # answers, db2))"

section \<open>Commands\<close>

lemma rbind_simps [simp]:
  "rbind (rreturn a) f st = f a st"
  "rbind (command c) f (0, db) = (None, 0, db)"
  "rbind (command c) f (Suc n, db) = (case c db of (a, db') \<Rightarrow> f a (n, db'))"
  by (simp_all add: rbind_def rreturn_def command_def split: prod.splits)

lemma rbind_assoc: "rbind (rbind c f) g st = rbind c (\<lambda>a. rbind (f a) g) st"
  by (simp add: rbind_def split: prod.splits option.splits)

lemma command_split: "P (rbind (command c) f (n, db)) \<longleftrightarrow>
    (n = 0 \<longrightarrow> P (None, 0, db)) \<and> (\<forall>m. n = Suc m \<longrightarrow> (case c db of (a, db') \<Rightarrow> P (f a (m, db'))))"
  by (cases n) (simp_all split: prod.splits)

text \<open>
  What a computation leaves of a database: \<open>db_after c n db\<close>. A computation that only writes other
  keys keeps a key, and it uses at most a number of commands.
\<close>

definition spares :: "string \<Rightarrow> 'a redis_io \<Rightarrow> bool" where
  "spares k c \<longleftrightarrow> (\<forall>n db. snd (snd (c (n, db))) k = db k)"

lemma spares_rreturn [intro]: "spares k (rreturn a)"
  by (simp add: spares_def rreturn_def)

lemma spares_rbind:
  assumes "spares k c" and "\<And>a. spares k (f a)"
  shows "spares k (rbind c f)"
  unfolding spares_def
proof (intro allI)
  fix n db
  obtain r m db' where c: "c (n, db) = (r, m, db')" by (cases "c (n, db)")
  have "db' k = db k" using assms(1) c unfolding spares_def by (metis snd_conv)
  then show "snd (snd (rbind c f (n, db))) k = db k"
    using assms(2) by (cases r) (simp_all add: rbind_def c spares_def)
qed

lemma spares_commands [intro]:
  "k \<noteq> k' \<Longrightarrow> spares k (redis_incr now k')" "k \<noteq> k' \<Longrightarrow> spares k (redis_expire now k' secs)"
  "k \<noteq> k' \<Longrightarrow> spares k (redis_set_ex now k' secs)" "spares k (redis_ttl now k')"
  by (auto simp: spares_def redis_incr_def redis_expire_def redis_set_ex_def redis_ttl_def command_def
      split: prod.splits option.splits)

lemma check_rate_limit_spares:
  assumes "k \<noteq> RATE_PREFIX @ key @ '':'' @ show_int (now div (1000 * rt_window_seconds tier))"
  shows "spares k (check_rate_limit now key tier)"
  unfolding check_rate_limit_def Let_def using assms by (intro spares_rbind) auto

definition costs :: "nat \<Rightarrow> 'a redis_io \<Rightarrow> bool" where
  "costs m c \<longleftrightarrow> (\<forall>n db. m \<le> n \<longrightarrow> fst (c (n, db)) \<noteq> None \<and> n \<le> fst (snd (c (n, db))) + m)"

lemma costs_rreturn: "costs m (rreturn a)"
  by (simp add: costs_def rreturn_def)

lemma costs_commands:
  "costs (Suc m) (redis_incr now k)" "costs (Suc m) (redis_expire now k secs)"
  by (auto simp: costs_def redis_incr_def redis_expire_def command_def split: prod.splits)

lemma costs_rbind:
  assumes "costs m c" and "\<And>a. costs l (f a)"
  shows "costs (m + l) (rbind c f)"
  unfolding costs_def
proof (intro allI impI)
  fix n db
  assume "m + l \<le> n"
  obtain r n' db' where c: "c (n, db) = (r, n', db')" by (cases "c (n, db)") auto
  with assms(1) \<open>m + l \<le> n\<close> obtain a where "r = Some a" "n \<le> n' + m" unfolding costs_def
    by (metis add_leD1 fst_conv not_None_eq snd_conv)
  moreover from this \<open>m + l \<le> n\<close> assms(2) [of a] have "fst (f a (n', db')) \<noteq> None \<and> n' \<le> fst (snd (f a (n', db'))) + l"
    unfolding costs_def by (smt (verit) add.commute add_le_cancel_right le_trans)
  ultimately show "fst (rbind c f (n, db)) \<noteq> None \<and> n \<le> fst (snd (rbind c f (n, db))) + (m + l)"
    by (simp add: rbind_def c)
qed

lemma check_rate_limit_costs: "costs 2 (check_rate_limit now key tier)"
proof -
  have "costs (Suc 0 + (Suc 0 + 0)) (check_rate_limit now key tier)"
    unfolding check_rate_limit_def Let_def
    by (intro costs_rbind) (auto intro: costs_commands costs_rreturn)
  then show ?thesis by (simp add: numeral_2_eq_2)
qed

section \<open>Keys\<close>

lemma keys_differ [simp]:
  "VIOLATION_PREFIX \<noteq> BLOCK_PREFIX" "BLOCK_PREFIX \<noteq> VIOLATION_PREFIX"
  "RATE_PREFIX @ ''ip:'' @ x \<noteq> VIOLATION_PREFIX @ p" "RATE_PREFIX @ ''ip:'' @ x \<noteq> BLOCK_PREFIX @ p"
  "VIOLATION_PREFIX @ p \<noteq> RATE_PREFIX @ ''ip:'' @ x" "BLOCK_PREFIX @ p \<noteq> RATE_PREFIX @ ''ip:'' @ x"
  "VIOLATION_PREFIX @ p \<noteq> BLOCK_PREFIX @ q" "BLOCK_PREFIX @ q \<noteq> VIOLATION_PREFIX @ p"
  "VIOLATION_PREFIX @ p = VIOLATION_PREFIX @ q \<longleftrightarrow> p = q" "BLOCK_PREFIX @ p = BLOCK_PREFIX @ q \<longleftrightarrow> p = q"
  by (simp_all add: RATE_PREFIX_def VIOLATION_PREFIX_def BLOCK_PREFIX_def)

section \<open>The escalation\<close>

text \<open>
  The violations of a client and its block: the fifth, sixth and seventh violation within the window
  each start a block, and every later one waits until the block is over.
\<close>

definition escalation_ok :: "string \<Rightarrow> millis \<Rightarrow> redis \<Rightarrow> bool" where
  "escalation_ok p now db \<longleftrightarrow>
     (\<forall>v b. db (BLOCK_PREFIX @ p) = Some (v, b) \<longrightarrow> (\<exists>t. b = Some t \<and> t \<le> now + 900000))
     \<and> (\<forall>c e. db (VIOLATION_PREFIX @ p) = Some (c, e) \<longrightarrow>
          (\<exists>E. e = Some E \<and> 1 \<le> c \<and> E \<le> now + 600000
             \<and> (c \<le> 4 \<or> (\<exists>v b. db (BLOCK_PREFIX @ p) = Some (v, Some b)
                  \<and> (c = 5 \<and> E - 540000 \<le> b \<or> c = 6 \<and> E - 240499 \<le> b \<or> c = 7 \<and> E + 499 < b)))))"

lemma escalation_ok_cong:
  "db' (BLOCK_PREFIX @ p) = db (BLOCK_PREFIX @ p) \<Longrightarrow> db' (VIOLATION_PREFIX @ p) = db (VIOLATION_PREFIX @ p) \<Longrightarrow>
   escalation_ok p now db' = escalation_ok p now db"
  by (simp add: escalation_ok_def)

lemma escalation_ok_later: "escalation_ok p now db \<Longrightarrow> now \<le> now' \<Longrightarrow> escalation_ok p now' db"
  unfolding escalation_ok_def by (intro conjI allI impI) (fastforce, smt (verit))


lemma unblocked:
  assumes "is_blocked now p (n, db) = (Some None, m, db')"
  shows "db (BLOCK_PREFIX @ p) = Some (v, Some b) \<Longrightarrow> b - 499 \<le> now" and "db' = db" and "n = Suc m"
  using assms
  by (cases n; auto simp: is_blocked_def redis_ttl_def redis_get_def rreturn_def split: if_splits option.splits)+

text \<open>A violation that is recorded completely, while no block lasts.\<close>

lemma violation_keeps:
  assumes ok: "escalation_ok p now db" and n: "3 \<le> n"
    and late: "\<And>v b. db (BLOCK_PREFIX @ p) = Some (v, Some b) \<Longrightarrow> b - 499 \<le> now"
  shows "escalation_ok p now (snd (snd (record_violation now p (n, db))))"
proof -
  obtain m where m: "n = Suc (Suc (Suc m))" using n by (metis Suc_le_D eval_nat_numeral(3) numeral_2_eq_2 Suc_le_mono)
  show ?thesis
  proof (cases "redis_get now (VIOLATION_PREFIX @ p) db")
    case None
    then have "snd (snd (record_violation now p (n, db))) = db(VIOLATION_PREFIX @ p \<mapsto> (1, Some (now + 600000)))"
      by (simp add: m record_violation_def redis_incr_def redis_expire_def redis_get_def Let_def ABUSE_THRESHOLD_def
          VIOLATION_WINDOW_SECONDS_def rreturn_def)
    then show ?thesis using ok by (simp add: escalation_ok_def)
  next
    case (Some entry)
    obtain c e where entry: "entry = (c, e)" by (cases entry)
    from Some entry have raw: "db (VIOLATION_PREFIX @ p) = Some (c, e)"
      by (auto simp: redis_get_def split: option.splits if_splits)
    with ok obtain E where E: "e = Some E" "1 \<le> c" "E \<le> now + 600000"
      and stage: "c \<le> 4 \<or> (\<exists>v b. db (BLOCK_PREFIX @ p) = Some (v, Some b)
        \<and> (c = 5 \<and> E - 540000 \<le> b \<or> c = 6 \<and> E - 240499 \<le> b \<or> c = 7 \<and> E + 499 < b))"
      unfolding escalation_ok_def by blast
    have live: "now < E" using Some entry E raw by (auto simp: redis_get_def split: if_splits)
    let ?db = "db(VIOLATION_PREFIX @ p \<mapsto> (c + 1, Some E))"
    note step = m record_violation_def redis_incr_def Some entry E(1) ABUSE_THRESHOLD_def ESCALATION_SECONDS_def
      redis_set_ex_def rreturn_def Let_def
    consider "c < 4" | "c = 4" | "c = 5" | "c = 6" | "c = 7" using stage E(2) by force
    then show ?thesis
    proof cases
      case 1
      then have "snd (snd (record_violation now p (n, db))) = ?db" using E(2) by (simp add: step)
      then show ?thesis using ok E 1 by (simp add: escalation_ok_def)
    next
      case 2
      then have "snd (snd (record_violation now p (n, db))) = ?db(BLOCK_PREFIX @ p \<mapsto> (1, Some (now + 60000)))"
        by (simp add: step)
      then show ?thesis using E 2 by (simp add: escalation_ok_def)
    next
      case 3
      then have "snd (snd (record_violation now p (n, db))) = ?db(BLOCK_PREFIX @ p \<mapsto> (1, Some (now + 300000)))"
        by (simp add: step)
      moreover have "E - 240499 \<le> now + 300000" using stage 3 late by force
      ultimately show ?thesis using E 3 by (simp add: escalation_ok_def)
    next
      case 4
      then have "snd (snd (record_violation now p (n, db))) = ?db(BLOCK_PREFIX @ p \<mapsto> (1, Some (now + 900000)))"
        by (simp add: step)
      moreover have "E + 499 < now + 900000" using stage 4 late by force
      ultimately show ?thesis using E 4 by (simp add: escalation_ok_def)
    next
      case 5
      then have False using stage late live by force
      then show ?thesis ..
    qed
  qed
qed

lemma record_violation_spares:
  assumes "p \<noteq> q"
  shows "spares (BLOCK_PREFIX @ p) (record_violation now q)" and "spares (VIOLATION_PREFIX @ p) (record_violation now q)"
  unfolding record_violation_def Let_def using assms by (intro spares_rbind; auto)+

lemma spares_escalation:
  assumes "spares (BLOCK_PREFIX @ p) c" and "spares (VIOLATION_PREFIX @ p) c" and "escalation_ok p now db"
  shows "escalation_ok p now (snd (snd (c (n, db))))"
  using assms escalation_ok_cong [of "snd (snd (c (n, db)))" p db] by (simp add: spares_def)

lemma limit_free:
  assumes "is_blocked now q (avail, db) = (Some None, m, db0)" and "check_rate_limit now key tier (m, db0) = (Some r, m', db1)"
  shows "snd (limit_principal avail now q key tier db) \<in> {db1, snd (snd (record_violation now q (m', db1)))}"
  using assms by (auto simp: limit_principal_def Let_def rbind_def rreturn_def split: option.splits prod.splits)

lemma limit_not_free:
  assumes "is_blocked now q (avail, db) = (b, m, db0)" and "b \<noteq> Some None"
  shows "snd (limit_principal avail now q key tier db) = db"
  using assms by (cases avail; auto simp: limit_principal_def is_blocked_def redis_ttl_def rreturn_def Let_def rbind_def
      command_def split: option.splits prod.splits if_splits)

lemma limit_keeps:
  assumes ok: "escalation_ok p now db" and avail: "avail = 0 \<or> 6 \<le> avail"
    and key: "\<And>x y. RATE_PREFIX @ key @ x \<noteq> BLOCK_PREFIX @ y" "\<And>x y. RATE_PREFIX @ key @ x \<noteq> VIOLATION_PREFIX @ y"
  shows "escalation_ok p now (snd (limit_principal avail now q key tier db))"
proof -
  have spared: "spares (BLOCK_PREFIX @ r) (check_rate_limit now key tier)"
    "spares (VIOLATION_PREFIX @ r) (check_rate_limit now key tier)" for r
    by (rule check_rate_limit_spares, rule not_sym, rule key)+
  obtain b m db0 where blocked: "is_blocked now q (avail, db) = (b, m, db0)" by (cases "is_blocked now q (avail, db)")
  show ?thesis
  proof (cases "b = Some None")
    case True
    with blocked have free: "is_blocked now q (avail, db) = (Some None, m, db0)" by simp
    note free' = unblocked [OF free]
    have "2 \<le> m" using free'(3) avail by simp
    then obtain r m' db1 where check: "check_rate_limit now key tier (m, db0) = (Some r, m', db1)" and m': "m \<le> m' + 2"
      using check_rate_limit_costs [of now key tier] unfolding costs_def by (metis not_None_eq prod.collapse)
    have same: "db1 (BLOCK_PREFIX @ s) = db (BLOCK_PREFIX @ s)" "db1 (VIOLATION_PREFIX @ s) = db (VIOLATION_PREFIX @ s)" for s
      using spared [of s] check free'(2) unfolding spares_def by (metis snd_conv)+
    have ok1: "escalation_ok p now db1" using ok escalation_ok_cong same by metis
    have "escalation_ok p now (snd (snd (record_violation now q (m', db1))))"
    proof (cases "p = q")
      case True
      have "3 \<le> m'" using m' free'(3) avail by auto
      moreover have "b - 499 \<le> now" if "db1 (BLOCK_PREFIX @ q) = Some (v, Some b)" for v b
        using free'(1) that same(1) by simp
      ultimately show ?thesis unfolding True using violation_keeps ok1 True by metis
    next
      case False
      then show ?thesis using spares_escalation record_violation_spares ok1 by metis
    qed
    then show ?thesis using ok1 limit_free [OF free check] by auto
  qed (simp add: limit_not_free [OF blocked] ok)
qed

lemma ip_keys:
  "RATE_PREFIX @ (''ip:'' @ a) @ x \<noteq> BLOCK_PREFIX @ y" "RATE_PREFIX @ (''ip:'' @ a) @ x \<noteq> VIOLATION_PREFIX @ y"
  by (simp_all add: RATE_PREFIX_def VIOLATION_PREFIX_def BLOCK_PREFIX_def)

lemma dispatch_keeps:
  assumes ok: "escalation_ok p now db" and avail: "avail = 0 \<or> 6 \<le> avail"
  shows "escalation_ok p now (snd (ip_dispatch cfg avail now rq db))"
proof (cases "rq_method rq = ''OPTIONS'' \<or> body_too_large (ip_max_body_bytes cfg) rq")
  case True
  then show ?thesis using ok by (auto simp: ip_dispatch_def)
next
  case False
  define kind tier where "kind = ((if rq_path rq \<in> set LOGIN_PATHS then ''login'' else ''all'') :: string)"
    and "tier = (if rq_path rq \<in> set LOGIN_PATHS then ip_login_tier cfg else ip_general_tier cfg)"
  from False have "ip_dispatch cfg avail now rq db =
      limit_principal avail now (''ip:'' @ rq_client_ip rq) ((''ip:'' @ rq_client_ip rq) @ '':'' @ kind) tier db"
    unfolding ip_dispatch_def Let_def kind_def tier_def by simp
  moreover have "escalation_ok p now
      (snd (limit_principal avail now (''ip:'' @ rq_client_ip rq) ((''ip:'' @ rq_client_ip rq) @ '':'' @ kind) tier db))"
    unfolding append_assoc by (rule limit_keeps [OF ok avail]) (use ip_keys in \<open>simp_all only: append_assoc, blast+\<close>)
  ultimately show ?thesis by simp
qed

lemma serve_keeps:
  assumes "escalation_ok p t0 db" and "sorted (map (\<lambda>(avail, t, rq). t) requests)"
    and "\<forall>(avail, t, rq) \<in> set requests. t0 \<le> t \<and> t \<le> now \<and> (avail = 0 \<or> 6 \<le> avail)" and "t0 \<le> now"
  shows "escalation_ok p now (snd (serve_all cfg requests db))"
  using assms
proof (induction requests arbitrary: db t0)
  case Nil
  then show ?case using escalation_ok_later by simp
next
  case (Cons r rest)
  obtain avail t rq where r: "r = (avail, t, rq)" by (cases r)
  have "escalation_ok p t (snd (ip_dispatch cfg avail t rq db))"
    by (rule dispatch_keeps [OF escalation_ok_later [OF Cons.prems(1)]]) (use Cons.prems in \<open>auto simp: r\<close>)
  moreover have "sorted (map (\<lambda>(avail, t, rq). t) rest)" "t \<le> now"
    and "\<forall>(avail, t', rq) \<in> set rest. t \<le> t' \<and> t' \<le> now \<and> (avail = 0 \<or> 6 \<le> avail)"
    using Cons.prems(2,3) by (auto simp: r)
  ultimately have "escalation_ok p now (snd (serve_all cfg rest (snd (ip_dispatch cfg avail t rq db))))"
    by (intro Cons.IH)
  then show ?case by (simp add: r Let_def case_prod_beta)
qed

lemma blocked_bound:
  assumes "escalation_ok p now db" and "is_blocked now p (1, db) = (Some (Some ttl), rest)"
  shows "ttl \<le> 900"
proof -
  have "ttl = (case redis_get now (BLOCK_PREFIX @ p) db of
      None \<Rightarrow> - 2 | Some (v, None) \<Rightarrow> - 1 | Some (v, Some t) \<Rightarrow> (t - now + 500) div 1000)"
    using assms(2) by (simp add: is_blocked_def redis_ttl_def rbind_def command_def rreturn_def split: if_splits)
  then show ?thesis using assms(1)
    by (cases "db (BLOCK_PREFIX @ p)") (fastforce simp: escalation_ok_def redis_get_def split: option.splits if_splits)+
qed

section \<open>Claims\<close>

text \<open>
  C40: when requests are served one after the other and Redis does not fail in the
  middle of one, no address is ever blocked for more than 15 minutes: its counter of violations expires
  before an eighth can be counted, so the last entry of the escalation, one hour, is never imposed.
\<close>
theorem hour_block_unreachable:
  assumes "sorted (map (\<lambda>(avail, t, rq). t) requests)"
    and "\<forall>(avail, t, rq) \<in> set requests. t \<le> now \<and> (avail = 0 \<or> 6 \<le> avail)"
    and "is_blocked now (''ip:'' @ a) (1, snd (serve_all cfg requests (\<lambda>_. None))) = (Some (Some ttl), rest)"
  shows "ttl \<le> 900"
proof -
  define t0 where "t0 = (case requests of [] \<Rightarrow> now | (avail, t, rq) # _ \<Rightarrow> t)"
  have "escalation_ok (''ip:'' @ a) t0 (\<lambda>_. None)" by (simp add: escalation_ok_def)
  moreover have "\<forall>(avail, t, rq) \<in> set requests. t0 \<le> t \<and> t \<le> now \<and> (avail = 0 \<or> 6 \<le> avail)" "t0 \<le> now"
    using assms(1,2) by (auto simp: t0_def split: list.splits)
  ultimately have "escalation_ok (''ip:'' @ a) now (snd (serve_all cfg requests (\<lambda>_. None)))"
    using serve_keeps assms(1) by blast
  then show ?thesis using assms(3) by (rule blocked_bound)
qed

definition witness_request :: http_request where
  "witness_request = \<lparr>rq_method = ''POST'', rq_path = ''/auth/login'', rq_content_length = Some ''12'',
     rq_client_ip = ''a'', rq_user_id = None, rq_user_role = []\<rparr>"

definition witness_config :: ip_config where
  "witness_config = \<lparr>ip_general_tier = \<lparr>rt_limit = 300, rt_window_seconds = 60\<rparr>,
     ip_login_tier = \<lparr>rt_limit = 1, rt_window_seconds = 60\<rparr>, ip_max_body_bytes = 1000\<rparr>"

definition witness_requests :: "(nat \<times> millis \<times> http_request) list" where
  "witness_requests = map (\<lambda>i. (6, 1000 * i, witness_request)) [0..5]
     @ [(6, 70000, witness_request), (6, 70500, witness_request)]"

lemma hour_block_unreachable_witness:
  "fst (is_blocked 71000 (''ip:'' @ ''a'') (1, snd (serve_all witness_config witness_requests (\<lambda>_. None)))) = Some (Some 300)
   \<and> (300 :: int) \<le> 900"
proof -
  let ?db = "snd (serve_all witness_config witness_requests (\<lambda>_. None))"
  have blocked: "fst (is_blocked 71000 (''ip:'' @ ''a'') (1, ?db)) = Some (Some 300)"
    by code_simp
  then obtain rest where "is_blocked 71000 (''ip:'' @ ''a'') (1, ?db) = (Some (Some 300), rest)"
    by (metis prod.collapse)
  moreover have "sorted (map (\<lambda>(avail, t, rq). t) witness_requests)"
    and "\<forall>(avail, t, rq) \<in> set witness_requests. t \<le> 71000 \<and> (avail = 0 \<or> 6 \<le> avail)"
    by code_simp+
  ultimately have "(300 :: int) \<le> 900"
    by (intro hour_block_unreachable [of witness_requests 71000 "''a''" witness_config 300])
  with blocked show ?thesis by (rule conjI)
qed

text \<open>
  Redis failing between the two commands that count the first violation leaves a counter without an
  expiry, and no later violation gives it one: the violations of that client never age.
\<close>

lemma outage_leaves_counter:
  "redis_get now (VIOLATION_PREFIX @ p) db = None \<Longrightarrow>
   record_violation now p (1, db) = (None, 0, db(VIOLATION_PREFIX @ p \<mapsto> (1, None)))"
  by (simp add: record_violation_def redis_incr_def redis_expire_def Let_def)

lemma counter_never_expires:
  assumes "db (VIOLATION_PREFIX @ p) = Some (c, None)" and "1 \<le> c"
  shows "snd (snd (record_violation now p (Suc n, db))) (VIOLATION_PREFIX @ p) = Some (c + 1, None)"
  using assms
  by (cases n) (auto simp: record_violation_def redis_incr_def redis_get_def redis_set_ex_def rreturn_def Let_def)

end
