(* ===== verification/Request_Text.thy ===== *)
theory Request_Text
  imports Prelude
begin

text \<open>
  The texts of a request and the standard library functions the contract setup applies to them
  (\<open>run_contract_setup.py\<close>, \<open>grade_band.py\<close>, \<open>education_policy.py\<close>). A text is its UTF-8 bytes.
  Blanks, digits and letter case are those of ASCII, with the one further letter whose case the code's
  constants need; every byte outside ASCII counts as part of a letter. The regular expressions of the
  code are written out as matchers: in each of them a run of blanks is followed by a letter, so greedy
  matching needs no backtracking.
\<close>

section \<open>Letters and lengths\<close>

definition byte :: "char \<Rightarrow> nat" where
  "byte c = of_char c"

definition upper_char :: "char \<Rightarrow> bool" where
  "upper_char c \<longleftrightarrow> 65 \<le> byte c \<and> byte c \<le> 90"

definition lower_char :: "char \<Rightarrow> char" where
  "lower_char c = (if upper_char c then char_of (byte c + 32) else c)"

text \<open>\<open>str.lower\<close> and \<open>str.casefold\<close>; the letter with the bytes C4 90 becomes C4 91.\<close>

fun lower :: "string \<Rightarrow> string" where
  "lower [] = []"
| "lower [c] = [lower_char c]"
| "lower (c # d # s) =
     (if c = CHR 0xC4 \<and> d = CHR 0x90 then CHR 0xC4 # CHR 0x91 # lower s else lower_char c # lower (d # s))"

definition digit_char :: "char \<Rightarrow> bool" where
  "digit_char c \<longleftrightarrow> 48 \<le> byte c \<and> byte c \<le> 57"

definition word_char :: "char \<Rightarrow> bool" where
  "word_char c \<longleftrightarrow> digit_char c \<or> upper_char c \<or> (97 \<le> byte c \<and> byte c \<le> 122) \<or> c = CHR ''_'' \<or> 128 \<le> byte c"

text \<open>\<open>len\<close> and slicing count characters, of one or more bytes.\<close>

definition continuation :: "char \<Rightarrow> bool" where
  "continuation c \<longleftrightarrow> 128 \<le> byte c \<and> byte c < 192"

function chars :: "string \<Rightarrow> string list" where
  "chars [] = []"
| "chars (c # s) = (c # takeWhile continuation s) # chars (dropWhile continuation s)"
  by pat_completeness auto
termination
  by (relation "measure length") (auto simp: le_imp_less_Suc length_dropWhile_le)

definition text_length :: "string \<Rightarrow> nat" where
  "text_length s = length (chars s)"

definition text_take :: "nat \<Rightarrow> string \<Rightarrow> string" where
  "text_take n s = concat (take n (chars s))"

definition rstrip :: "string \<Rightarrow> string" where
  "rstrip s = rev (dropWhile blank (rev s))"

fun contains :: "string \<Rightarrow> string \<Rightarrow> bool" where
  "contains sub [] = (sub = [])"
| "contains sub (c # s) = (take (length sub) (c # s) = sub \<or> contains sub s)"

definition replace_char :: "char \<Rightarrow> char \<Rightarrow> string \<Rightarrow> string" where
  "replace_char a b s = map (\<lambda>c. if c = a then b else c) s"

text \<open>\<open>str.split()\<close> and \<open>' '.join(words)\<close>.\<close>

fun words_of :: "string \<Rightarrow> string \<Rightarrow> string list" where
  "words_of acc [] = (if acc = [] then [] else [rev acc])"
| "words_of acc (c # s) =
     (if blank c then (if acc = [] then words_of [] s else rev acc # words_of [] s) else words_of (c # acc) s)"

definition split_words :: "string \<Rightarrow> string list" where
  "split_words s = words_of [] s"

fun join_words :: "string list \<Rightarrow> string" where
  "join_words [] = []"
| "join_words [w] = w"
| "join_words (w # v # ws) = w @ CHR '' '' # join_words (v # ws)"

section \<open>Matchers\<close>

definition at_end_of_word :: "string \<Rightarrow> bool" where
  "at_end_of_word s = (case s of [] \<Rightarrow> True | c # _ \<Rightarrow> \<not> word_char c)"

definition starts_word :: "char option \<Rightarrow> bool" where
  "starts_word prev = (case prev of None \<Rightarrow> True | Some c \<Rightarrow> \<not> word_char c)"

text \<open>A literal, whatever the case of its letters, and a non-empty run of blanks.\<close>

definition eat :: "string \<Rightarrow> string \<Rightarrow> string option" where
  "eat w s = (if map lower_char (take (length w) s) = w then Some (drop (length w) s) else None)"

fun eat_any :: "string list \<Rightarrow> string \<Rightarrow> string option" where
  "eat_any [] s = None"
| "eat_any (w # ws) s = (case eat w s of None \<Rightarrow> eat_any ws s | Some t \<Rightarrow> Some t)"

definition eat_blanks :: "string \<Rightarrow> string option" where
  "eat_blanks s = (case s of [] \<Rightarrow> None | c # _ \<Rightarrow> if blank c then Some (dropWhile blank s) else None)"

definition obind :: "'a option \<Rightarrow> ('a \<Rightarrow> 'b option) \<Rightarrow> 'b option" where
  "obind m f = (case m of None \<Rightarrow> None | Some x \<Rightarrow> f x)"

text \<open>\<open>_DECK_REQUEST_RE\<close>: the text that follows its leftmost match.\<close>

definition eat_two :: "string \<Rightarrow> string \<Rightarrow> string \<Rightarrow> string option" where
  "eat_two v w s = obind (eat v s) (\<lambda>t. obind (eat_blanks t) (eat w))"

definition eat_deck :: "string \<Rightarrow> string option" where
  "eat_deck s =
     (case eat_two ''slide'' ''deck'' s of
        Some t \<Rightarrow> Some t
      | None \<Rightarrow> (case eat ''slidedeck'' s of Some t \<Rightarrow> Some t | None \<Rightarrow> eat_two ''presentation'' ''deck'' s))"

definition deck_at :: "string \<Rightarrow> string option" where
  "deck_at s =
     obind (eat_any [''generate'', ''create'', ''make'', ''build''] s) (\<lambda>s1.
     obind (eat_blanks s1) (\<lambda>s2.
       let s3 = (case obind (eat ''a'' s2) eat_blanks of Some t \<Rightarrow> t | None \<Rightarrow> s2)
       in obind (eat_deck s3) (\<lambda>s4.
          obind (eat_blanks s4) (\<lambda>s5. obind (eat ''for'' s5) eat_blanks))))"

fun deck_search :: "char option \<Rightarrow> string \<Rightarrow> string option" where
  "deck_search prev [] = None"
| "deck_search prev (c # s) =
     (case (if starts_word prev then deck_at (c # s) else None) of
        Some t \<Rightarrow> Some t | None \<Rightarrow> deck_search (Some c) s)"

text \<open>
  \<open>_TRAILING_INSTRUCTION_RE.sub("", topic)\<close>: the match runs from the leftmost blank before an
  instruction to the end of the text, which a line break may precede but not interrupt.
\<close>

definition one_line :: "string \<Rightarrow> bool" where
  "one_line s \<longleftrightarrow> CHR 0x0A \<notin> set (butlast s)"

definition last_break :: "string \<Rightarrow> string" where
  "last_break s = (if s \<noteq> [] \<and> last s = CHR 0x0A then [CHR 0x0A] else [])"

definition instruction_at :: "string \<Rightarrow> string option" where
  "instruction_at s =
     obind (eat_blanks s) (\<lambda>t.
       case filter (\<lambda>w. case eat w t of None \<Rightarrow> False | Some u \<Rightarrow> at_end_of_word u \<and> one_line u)
              [''include'', ''with'', ''and include'', ''please include''] of
         [] \<Rightarrow> None
       | w # _ \<Rightarrow> eat w t)"

fun cut_instruction :: "string \<Rightarrow> string" where
  "cut_instruction [] = []"
| "cut_instruction (c # s) =
     (case instruction_at (c # s) of Some u \<Rightarrow> last_break u | None \<Rightarrow> c # cut_instruction s)"

section \<open>Lemmas\<close>

lemma dropWhile_hd: "dropWhile p s = c # t \<Longrightarrow> \<not> p c"
  by (induction s) (auto split: if_splits)

lemma strip_hd: "strip s = c # t \<Longrightarrow> \<not> blank c"
proof -
  assume s: "strip s = c # t"
  let ?d = "dropWhile blank s"
  have "?d \<noteq> []"
  proof
    assume "?d = []"
    then have "strip s = []" unfolding strip_def by (simp only: rev.simps dropWhile.simps)
    with s show False by simp
  qed
  then obtain d u where d: "?d = d # u" by (cases ?d) auto
  then have nb: "\<not> blank d" by (rule dropWhile_hd)
  have "strip s = rev (dropWhile blank (rev u @ [d]))" by (simp add: strip_def d)
  also have "\<dots> = d # rev (dropWhile blank (rev u))"
    using nb by (simp add: dropWhile_append)
  finally show ?thesis using s nb by simp
qed

lemma text_length_closed:
  "text_length s = (case s of [] \<Rightarrow> 0 | c # t \<Rightarrow> Suc (length (filter (\<lambda>c. \<not> continuation c) t)))"
proof (induction s rule: chars.induct)
  case 1
  then show ?case by (simp add: text_length_def)
next
  case (2 c s)
  have tw: "filter (\<lambda>c. \<not> continuation c) (takeWhile continuation s) = []"
    by (auto simp: filter_empty_conv dest: set_takeWhileD)
  have "filter (\<lambda>c. \<not> continuation c) s =
      filter (\<lambda>c. \<not> continuation c) (takeWhile continuation s @ dropWhile continuation s)" by simp
  then have "filter (\<lambda>c. \<not> continuation c) s = filter (\<lambda>c. \<not> continuation c) (dropWhile continuation s)"
    unfolding filter_append tw by simp
  moreover have "text_length (c # s) = Suc (text_length (dropWhile continuation s))" by (simp add: text_length_def)
  ultimately show ?case using 2
    by (cases "dropWhile continuation s") (auto dest: dropWhile_hd)
qed

lemma text_length_0 [simp]: "text_length s = 0 \<longleftrightarrow> s = []"
  by (cases s) (simp_all add: text_length_closed)

lemma text_length_pos [simp]: "Suc 0 \<le> text_length s \<longleftrightarrow> s \<noteq> []"
  by (cases s) (simp_all add: text_length_closed)

lemma text_length_prefix: "text_length s \<le> text_length (s @ t)"
  by (cases s) (simp_all add: text_length_closed)

lemma text_length_append_le: "text_length (s @ t) \<le> text_length s + text_length t"
  by (cases s; cases t) (simp_all add: text_length_closed)

lemma text_length_rstrip: "text_length (rstrip s) \<le> text_length s"
proof -
  have "s = rev (takeWhile blank (rev s) @ dropWhile blank (rev s))" by simp
  then have "s = rstrip s @ rev (takeWhile blank (rev s))" unfolding rstrip_def by (metis rev_append)
  then show ?thesis by (metis text_length_prefix)
qed

lemma text_take_Cons:
  "text_take (Suc n) (c # s) = c # takeWhile continuation s @ text_take n (dropWhile continuation s)"
  by (simp add: text_take_def)

lemma text_take_hd: "text_take n s = c # t \<Longrightarrow> \<exists>u. s = c # u"
  by (cases s; cases n) (auto simp: text_take_def)

lemma dropWhile_takeWhile_append:
  "u = [] \<or> \<not> p (hd u) \<Longrightarrow> dropWhile p (takeWhile p s @ u) = u"
  by (induction s) (cases u; auto)+

lemma text_length_take: "text_length (text_take n s) \<le> n"
proof (induction s arbitrary: n rule: chars.induct)
  case 1
  then show ?case by (simp add: text_take_def text_length_def)
next
  case (2 c s)
  show ?case
  proof (cases n)
    case 0
    then show ?thesis by (simp add: text_take_def text_length_def)
  next
    case (Suc m)
    let ?u = "text_take m (dropWhile continuation s)"
    have "?u = [] \<or> \<not> continuation (hd ?u)"
    proof (cases ?u)
      case (Cons d v)
      then show ?thesis using text_take_hd [OF Cons] dropWhile_hd by (metis list.sel(1))
    qed simp
    then have "dropWhile continuation (takeWhile continuation s @ ?u) = ?u"
      by (rule dropWhile_takeWhile_append)
    then have "text_length (text_take n (c # s)) = Suc (text_length ?u)"
      by (simp add: Suc text_take_Cons text_length_def)
    with 2 [of m] Suc show ?thesis by simp
  qed
qed

lemma rstrip_Nil: "rstrip s = [] \<longleftrightarrow> (\<forall>c \<in> set s. blank c)"
  by (simp add: rstrip_def)

lemma text_length_suffix: "text_length t \<le> text_length (s @ t)"
  by (cases s; cases t) (auto simp: text_length_closed)

lemma text_length_strip: "text_length (strip s) \<le> text_length s"
proof -
  have "strip s = rstrip (dropWhile blank s)" by (simp add: strip_def rstrip_def)
  moreover have "text_length (dropWhile blank s) \<le> text_length (takeWhile blank s @ dropWhile blank s)"
    by (rule text_length_suffix)
  ultimately show ?thesis using text_length_rstrip [of "dropWhile blank s"] by simp
qed

end
