(* ===== verification/Run_Setup.thy ===== *)
theory Run_Setup
  imports Request_Text Completion
begin

text \<open>
  From a teacher's request to a run contract: the contract setup
  (\<open>services/gateway/run_contract_setup.py\<close>, \<open>run_contract_policy.py\<close>), the contract and its
  validators (\<open>common/contracts/run_contract.py\<close>, \<open>education_policy.py\<close>, \<open>grade_band.py\<close>), the conflict
  check of source collections (\<open>source_collection.py\<close>), the minimisation of student evidence
  (\<open>research_safety.py\<close>) and the briefs that launch runs (\<open>teaching_brief.py\<close>,
  \<open>routers/teaching_briefs.py\<close>). Parameters are the digest of the default policy and Python's \<open>str\<close>
  of a list or dictionary.
\<close>

section \<open>Education policy\<close>

datatype grade_band_value = K_2 | GRADES_3_5 | GRADES_6_8 | GRADES_9_12

fun band_text :: "grade_band_value \<Rightarrow> string" where
  "band_text K_2 = ''k_2''"
| "band_text GRADES_3_5 = ''grades_3_5''"
| "band_text GRADES_6_8 = ''grades_6_8''"
| "band_text GRADES_9_12 = ''grades_9_12''"

definition all_bands :: "grade_band_value list" where
  "all_bands = [K_2, GRADES_3_5, GRADES_6_8, GRADES_9_12]"

definition grade_band_for_grade :: "int \<Rightarrow> grade_band_value result" where
  "grade_band_for_grade grade =
     (if grade < 0 \<or> 12 < grade then Inl (ValueError ''grade must be between 0 and 12'')
      else if grade \<le> 2 then Inr K_2
      else if grade \<le> 5 then Inr GRADES_3_5
      else if grade \<le> 8 then Inr GRADES_6_8
      else Inr GRADES_9_12)"

text \<open>\<open>\bk(indergarten)?\b\<close> anywhere in the text.\<close>

fun mentions_kindergarten :: "char option \<Rightarrow> string \<Rightarrow> bool" where
  "mentions_kindergarten prev [] = False"
| "mentions_kindergarten prev (c # s) =
     ((starts_word prev
       \<and> ((case eat ''kindergarten'' (c # s) of None \<Rightarrow> False | Some t \<Rightarrow> at_end_of_word t)
          \<or> (case eat ''k'' (c # s) of None \<Rightarrow> False | Some t \<Rightarrow> at_end_of_word t)))
      \<or> mentions_kindergarten (Some c) s)"

text \<open>The leftmost match of \<open>-?\d+\<close>.\<close>

fun first_number :: "string \<Rightarrow> int option" where
  "first_number [] = None"
| "first_number (c # s) =
     (if digit_char c then Some (int (read_nat (takeWhile digit_char (c # s))))
      else if c = CHR ''-'' \<and> s \<noteq> [] \<and> digit_char (hd s) then Some (- int (read_nat (takeWhile digit_char s)))
      else first_number s)"

definition grade_band_for_label :: "string \<Rightarrow> grade_band_value option" where
  "grade_band_for_label label =
     (let normalized = replace_char (CHR ''-'') (CHR ''_'') (lower (strip label))
      in case filter (\<lambda>b. normalized = band_text b) all_bands of
           b # _ \<Rightarrow> Some b
         | [] \<Rightarrow>
             if mentions_kindergarten None label then Some K_2
             else (case first_number label of
                 None \<Rightarrow> None
               | Some grade \<Rightarrow> if 0 \<le> grade \<and> grade \<le> 12
                   then (case grade_band_for_grade grade of Inl _ \<Rightarrow> None | Inr b \<Rightarrow> Some b) else None))"

definition SUBJECT_KEYS :: "string list" where
  "SUBJECT_KEYS = [''english'', ''geography'', ''history'', ''informatics'', ''language_arts'',
     ''literature'', ''math'', ''science'', ''vietnamese'']"

definition normalize_subject :: "string \<Rightarrow> string option" where
  "normalize_subject value =
     (let normalized = replace_char (CHR '' '') (CHR ''_'') (lower (strip value))
      in if normalized \<in> set SUBJECT_KEYS then Some normalized
         else map_of [(''english_esl'', ''english''), (''language'', ''language_arts''), (''maths'', ''math''),
           (''mathematics'', ''math''), (''social_studies'', ''history'')] normalized)"

text \<open>The last alternative for Vietnamese is \<open>tieng viet\<close> with its diacritics, in bytes.\<close>

definition tieng_viet :: string where
  "tieng_viet = ''ti'' @ [CHR 0xE1, CHR 0xBA, CHR 0xBF] @ ''ng vi'' @ [CHR 0xE1, CHR 0xBB, CHR 0x87] @ ''t''"

definition normalize_language :: "string \<Rightarrow> string option" where
  "normalize_language value =
     (let normalized = replace_char (CHR ''_'') (CHR ''-'') (lower (strip value))
      in if normalized \<in> {''en'', ''en-us'', ''en-gb'', ''english''} then Some ''en''
         else if normalized \<in> {''vi'', ''vi-vn'', ''vietnamese'', tieng_viet} then Some ''vi''
         else None)"

definition viet_nam :: string where
  "viet_nam = ''Vi'' @ [CHR 0xE1, CHR 0xBB, CHR 0x87] @ ''t Nam''"

definition BGDDT :: string where
  "BGDDT = ''BGD'' @ [CHR 0xC4, CHR 0x90] @ ''T '' @ viet_nam"

definition curriculum_framework_for :: "string option \<Rightarrow> string" where
  "curriculum_framework_for value =
     (case value of
        None \<Rightarrow> ''general''
      | Some v \<Rightarrow>
          let normalized = lower (strip v)
          in if strip v = [] then ''general''
             else if normalized \<in> {''ccss'', ''common core''} then ''ccss''
             else if normalized = ''ngss'' then ''ngss''
             else if normalized \<in> {''moet_2018'', lower BGDDT, ''ct 2018''} then ''moet_2018''
             else ''general'')"

section \<open>The contract\<close>

definition ARTIFACT_TYPES :: "string list" where
  "ARTIFACT_TYPES = [''lesson'', ''worksheet'', ''quiz'', ''drill'', ''recap'', ''infographic'', ''flashcard_deck'',
     ''answer_key'', ''roadmap'', ''slide_deck'', ''reading_passage'', ''exit_ticket'']"

definition EXPORT_FORMATS :: "string list" where
  "EXPORT_FORMATS = [''html'', ''gift'', ''h5p'', ''qti'', ''anki_apkg'', ''flashcard_tsv'', ''pptx'']"

definition PIPELINE_MODES :: "string list" where
  "PIPELINE_MODES = [''generate_pack'', ''diagnose_then_generate'', ''plan_unit'', ''vocabulary_batch'']"

definition RESEARCH_POLICIES :: "string list" where
  "RESEARCH_POLICIES = [''basic'', ''standard'', ''rigorous'']"

definition SUPPORTED_ARTIFACTS :: "string list" where
  "SUPPORTED_ARTIFACTS = [''lesson'', ''worksheet'', ''quiz'', ''drill'', ''recap'', ''infographic'',
     ''flashcard_deck'', ''answer_key'', ''roadmap'', ''slide_deck'']"

definition SUPPORTED_EXPORTS :: "string list" where
  "SUPPORTED_EXPORTS = [''html'', ''gift'', ''h5p'', ''qti'', ''anki_apkg'', ''flashcard_tsv'', ''pptx'']"

definition CONFIG_VERSION :: string where
  "CONFIG_VERSION = ''teaching-packs-contract-setup@1''"

definition DEFAULT_ARTIFACTS :: "string list" where
  "DEFAULT_ARTIFACTS = [''lesson'', ''worksheet'', ''quiz'', ''drill'', ''slide_deck'']"

record decomposition_intent =
  di_target_sessions :: int
  di_session_length_minutes :: int
  di_source :: string
  di_rationale :: string

record run_contract =
  k_contract_id :: string
  k_run_id :: string
  k_teacher_id :: string
  k_mode :: string
  k_topic :: string
  k_grade_band :: string
  k_subject :: string
  k_locale :: string
  k_target_language :: string
  k_instruction_language :: string
  k_curriculum :: "string option"
  k_curriculum_framework :: string
  k_citation_locale :: string
  k_artifact_types :: "string list"
  k_export_formats :: "string list"
  k_research_policy :: string
  k_config_hash :: string
  k_student_evidence :: "json_object option"
  k_decomposition_intent :: "decomposition_intent option"

definition text_between :: "nat \<Rightarrow> nat \<Rightarrow> string \<Rightarrow> bool" where
  "text_between lo hi s \<longleftrightarrow> lo \<le> text_length s \<and> text_length s \<le> hi"

text \<open>Pydantic's lax reading of an \<open>int\<close> and a \<open>bool\<close>.\<close>

fun lax_int :: "json \<Rightarrow> int option" where
  "lax_int (JInt i) = Some i"
| "lax_int (JBool b) = Some (if b then 1 else 0)"
| "lax_int (JStr s) = int_of_text s"
| "lax_int _ = None"

fun lax_bool :: "json \<Rightarrow> bool option" where
  "lax_bool (JBool b) = Some b"
| "lax_bool (JInt i) = (if i = 1 then Some True else if i = 0 then Some False else None)"
| "lax_bool (JStr s) =
     (if lower s \<in> {''1'', ''on'', ''t'', ''true'', ''y'', ''yes''} then Some True
      else if lower s \<in> {''0'', ''off'', ''f'', ''false'', ''n'', ''no''} then Some False else None)"
| "lax_bool _ = None"

definition decomposition_intent_of :: "json_object \<Rightarrow> decomposition_intent result" where
  "decomposition_intent_of d =
     (case (lax_int (dict_get d ''target_sessions''), lax_int (dict_get d ''session_length_minutes''),
            dict_get d ''source'', dict_get d ''rationale'') of
        (Some n, Some m, JStr src, JStr why) \<Rightarrow>
          if dict_get_or d ''schema_version'' (JStr ''decomposition_intent.v1'') = JStr ''decomposition_intent.v1''
             \<and> 1 \<le> n \<and> n \<le> 20 \<and> 10 \<le> m \<and> m \<le> 90 \<and> src \<in> {''teacher'', ''system'', ''admin''}
             \<and> text_between 1 500 why
          then Inr \<lparr>di_target_sessions = n, di_session_length_minutes = m, di_source = src, di_rationale = why\<rparr>
          else Inl (ValidationError ''DecompositionIntent'')
      | _ \<Rightarrow> Inl (ValidationError ''DecompositionIntent''))"

text \<open>
  \<open>RunContract(...)\<close>: its validators rewrite the subject and the languages, then every field is
  checked. \<open>education_policy_version\<close>, \<open>publish_targets\<close>, \<open>config_version\<close> and \<open>revision_meta\<close> are
  constants of the setup.
\<close>

definition normalized_contract :: "run_contract \<Rightarrow> run_contract" where
  "normalized_contract k = k\<lparr>
     k_subject := the_default (k_subject k) (normalize_subject (k_subject k)),
     k_target_language := the_default (k_target_language k) (normalize_language (k_target_language k)),
     k_instruction_language :=
       the_default (k_instruction_language k) (normalize_language (k_instruction_language k))\<rparr>"

definition contract_fields_ok :: "run_contract \<Rightarrow> bool" where
  "contract_fields_ok k \<longleftrightarrow>
     text_between 1 64 (k_contract_id k) \<and> text_between 1 64 (k_run_id k) \<and> text_between 1 64 (k_teacher_id k)
     \<and> k_mode k \<in> set PIPELINE_MODES \<and> text_between 1 200 (k_topic k)
     \<and> k_grade_band k \<in> set (map band_text all_bands) \<and> k_subject k \<in> set SUBJECT_KEYS
     \<and> text_between 2 16 (k_locale k) \<and> k_target_language k \<in> {''en'', ''vi''}
     \<and> k_instruction_language k \<in> {''en'', ''vi''}
     \<and> (case k_curriculum k of None \<Rightarrow> True | Some c \<Rightarrow> text_length c \<le> 80)
     \<and> text_between 2 16 (k_citation_locale k)
     \<and> k_artifact_types k \<noteq> [] \<and> set (k_artifact_types k) \<subseteq> set ARTIFACT_TYPES
     \<and> k_export_formats k \<noteq> [] \<and> set (k_export_formats k) \<subseteq> set EXPORT_FORMATS
     \<and> k_research_policy k \<in> set RESEARCH_POLICIES \<and> text_between 64 64 (k_config_hash k)"

definition make_contract :: "run_contract \<Rightarrow> run_contract result" where
  "make_contract k =
     (let k' = normalized_contract k
      in if contract_fields_ok k' then Inr k' else Inl (ValidationError ''RunContract''))"

definition intent_json :: "decomposition_intent \<Rightarrow> json_object" where
  "intent_json d = [(''schema_version'', JStr ''decomposition_intent.v1''),
     (''target_sessions'', JInt (di_target_sessions d)),
     (''session_length_minutes'', JInt (di_session_length_minutes d)), (''source'', JStr (di_source d)),
     (''rationale'', JStr (di_rationale d))]"

definition opt_object :: "json_object option \<Rightarrow> json" where
  "opt_object x = (case x of None \<Rightarrow> JNull | Some d \<Rightarrow> JObj d)"

definition contract_dump :: "run_contract \<Rightarrow> json_object" where
  "contract_dump k =
     [(''contract_id'', JStr (k_contract_id k)), (''run_id'', JStr (k_run_id k)),
      (''teacher_id'', JStr (k_teacher_id k)), (''mode'', JStr (k_mode k)), (''topic'', JStr (k_topic k)),
      (''education_policy_version'', JStr ''education_policy.v1''), (''grade_band'', JStr (k_grade_band k)),
      (''subject'', JStr (k_subject k)), (''locale'', JStr (k_locale k)),
      (''target_language'', JStr (k_target_language k)),
      (''instruction_language'', JStr (k_instruction_language k)), (''curriculum'', opt_json (k_curriculum k)),
      (''curriculum_framework'', JStr (k_curriculum_framework k)),
      (''citation_locale'', JStr (k_citation_locale k)),
      (''artifact_types'', JList (map JStr (k_artifact_types k))),
      (''export_formats'', JList (map JStr (k_export_formats k))), (''publish_targets'', JList []),
      (''research_policy'', JStr (k_research_policy k)), (''config_version'', JStr CONFIG_VERSION),
      (''config_hash'', JStr (k_config_hash k)), (''student_evidence'', opt_object (k_student_evidence k)),
      (''decomposition_intent'', opt_object (map_option intent_json (k_decomposition_intent k))),
      (''revision_meta'', JObj [(''revision'', JInt 1), (''actor'', JStr ''system''), (''source'', JStr ''request''),
         (''reason'', JStr ''initial_contract_setup''), (''effective_stage'', JStr ''setup_contract'')])]"

section \<open>Source conflicts\<close>

record source_entry =
  se_entry_id :: string
  se_authority :: string
  se_subject_key :: "string option"
  se_claim_value :: "string option"

record verified_finding =
  vf_subject_key :: string
  vf_claim_value :: string
  vf_source_id :: string
  vf_status :: string

record source_conflict =
  sc_entry_id :: string
  sc_subject_key :: string
  sc_required_claim_value :: string
  sc_verified_claim_value :: string
  sc_verified_source_id :: string

text \<open>\<open>SourceCollection.model_validate\<close> and \<open>VerifiedFinding.model_validate\<close>: types, lengths, literals.\<close>

definition text_field :: "nat \<Rightarrow> nat \<Rightarrow> json_object \<Rightarrow> string \<Rightarrow> string option" where
  "text_field lo hi d k = (case dict_get d k of JStr s \<Rightarrow> if text_between lo hi s then Some s else None | _ \<Rightarrow> None)"

definition optional_text :: "nat \<Rightarrow> json_object \<Rightarrow> string \<Rightarrow> string option option" where
  "optional_text hi d k =
     (case dict_get d k of
        JNull \<Rightarrow> Some None
      | JStr s \<Rightarrow> if text_length s \<le> hi then Some (Some s) else None
      | _ \<Rightarrow> None)"

definition source_entry_of :: "json \<Rightarrow> source_entry option" where
  "source_entry_of j =
     (case j of
        JObj d \<Rightarrow>
          (case (text_field 1 80 d ''entry_id'', text_field 1 500 d ''title'', text_field 0 20 d ''authority'',
                 optional_text 120 d ''subject_key'', optional_text 500 d ''claim_value'') of
             (Some i, Some _, Some a, Some sk, Some cv) \<Rightarrow>
               if a \<in> {''required'', ''preferred'', ''reference''} \<and> optional_text 2000 d ''url'' \<noteq> None
                  \<and> optional_text 8000 d ''excerpt'' \<noteq> None
                  \<and> lax_bool (dict_get_or d ''copyright_ack'' (JBool False)) \<noteq> None
               then Some \<lparr>se_entry_id = i, se_authority = a, se_subject_key = sk, se_claim_value = cv\<rparr>
               else None
           | _ \<Rightarrow> None)
      | _ \<Rightarrow> None)"

fun collect :: "'a option list \<Rightarrow> 'a list option" where
  "collect [] = Some []"
| "collect (x # xs) = obind x (\<lambda>y. map_option ((#) y) (collect xs))"

definition source_collection_of :: "json_object \<Rightarrow> source_entry list result" where
  "source_collection_of d =
     (case (text_field 1 80 d ''collection_id'', text_field 0 20 d ''scope'', text_field 1 64 d ''owner_id'',
            dict_get d ''entries'') of
        (Some _, Some scope, Some _, JList (e # es)) \<Rightarrow>
          if scope \<in> {''private_teacher'', ''organization'', ''system''}
          then (case collect (map source_entry_of (e # es)) of
              None \<Rightarrow> Inl (ValidationError ''SourceCollection'') | Some entries \<Rightarrow> Inr entries)
          else Inl (ValidationError ''SourceCollection'')
      | _ \<Rightarrow> Inl (ValidationError ''SourceCollection''))"

definition verified_finding_of :: "json_object \<Rightarrow> verified_finding option" where
  "verified_finding_of d =
     (case (text_field 1 120 d ''subject_key'', text_field 1 500 d ''claim_value'', text_field 1 64 d ''source_id'',
            text_field 0 20 d ''verification_status'') of
        (Some sk, Some cv, Some i, Some st) \<Rightarrow>
          if st \<in> {''VERIFIED'', ''MODIFIED'', ''REMOVED'', ''UNCERTAIN''}
          then Some \<lparr>vf_subject_key = sk, vf_claim_value = cv, vf_source_id = i, vf_status = st\<rparr> else None
      | _ \<Rightarrow> None)"

definition make_conflict :: "source_conflict \<Rightarrow> source_conflict result" where
  "make_conflict c =
     (if text_between 1 80 (sc_entry_id c) \<and> text_between 1 120 (sc_subject_key c)
         \<and> text_between 1 500 (sc_required_claim_value c) \<and> text_between 1 500 (sc_verified_claim_value c)
         \<and> text_between 1 64 (sc_verified_source_id c)
      then Inr c else Inl (ValidationError ''SourceConflict''))"

text \<open>The dictionary of findings keeps the last of each subject.\<close>

definition verified_by_subject :: "verified_finding list \<Rightarrow> string \<Rightarrow> verified_finding option" where
  "verified_by_subject fs k =
     (case rev (filter (\<lambda>f. vf_status f = ''VERIFIED'' \<and> vf_subject_key f = k) fs) of [] \<Rightarrow> None | f # _ \<Rightarrow> Some f)"

fun detect_required_source_conflicts ::
  "source_entry list \<Rightarrow> verified_finding list \<Rightarrow> source_conflict list result" where
  "detect_required_source_conflicts [] fs = Inr []"
| "detect_required_source_conflicts (e # es) fs =
     (case (se_authority e = ''required'', se_subject_key e, se_claim_value e) of
        (True, Some k, Some v) \<Rightarrow>
          (case verified_by_subject fs k of
             None \<Rightarrow> detect_required_source_conflicts es fs
           | Some f \<Rightarrow>
               if vf_claim_value f = v then detect_required_source_conflicts es fs
               else ebind (make_conflict \<lparr>sc_entry_id = se_entry_id e, sc_subject_key = k,
                        sc_required_claim_value = v, sc_verified_claim_value = vf_claim_value f,
                        sc_verified_source_id = vf_source_id f\<rparr>)
                      (\<lambda>c. ebind (detect_required_source_conflicts es fs) (\<lambda>cs. Inr (c # cs))))
      | _ \<Rightarrow> detect_required_source_conflicts es fs)"

definition conflict_json :: "source_conflict \<Rightarrow> json" where
  "conflict_json c = JObj [(''entry_id'', JStr (sc_entry_id c)), (''subject_key'', JStr (sc_subject_key c)),
     (''required_claim_value'', JStr (sc_required_claim_value c)),
     (''verified_claim_value'', JStr (sc_verified_claim_value c)),
     (''verified_source_id'', JStr (sc_verified_source_id c))]"

section \<open>Student evidence\<close>

definition PII_KEYS :: "string list" where
  "PII_KEYS = [''name'', ''student_name'', ''email'', ''score'', ''class_id'', ''student_id'']"

definition minimize_student_evidence :: "json_object \<Rightarrow> json_object" where
  "minimize_student_evidence evidence = filter (\<lambda>(k, v). k \<notin> set PII_KEYS) evidence"

definition minimize_class_info :: "json_object \<Rightarrow> json_object" where
  "minimize_class_info class_info =
     (case dict_get class_info ''student_evidence'' of
        JObj evidence \<Rightarrow> AList.update ''student_evidence'' (JObj (minimize_student_evidence evidence)) class_info
      | _ \<Rightarrow> class_info)"

section \<open>Reading the class info\<close>

record setup_env =
  su_config_hash :: string
  su_py_str :: "json \<Rightarrow> string"

record contract_setup_input =
  si_run_id :: string
  si_teacher_id :: string
  si_raw_request :: string
  si_class_info :: json_object

definition setup_text :: "json_object \<Rightarrow> string \<Rightarrow> string option" where
  "setup_text d k =
     (case dict_get d k of JStr s \<Rightarrow> if strip s \<noteq> [] then Some (strip s) else None | _ \<Rightarrow> None)"

definition string_list :: "setup_env \<Rightarrow> json \<Rightarrow> string list \<Rightarrow> string list" where
  "string_list env value fallback =
     (case value of JList xs \<Rightarrow> map (json_str (su_py_str env)) xs | _ \<Rightarrow> fallback)"

definition MAX_TOPIC_LENGTH :: nat where "MAX_TOPIC_LENGTH = 200"

definition cap_topic :: "string \<Rightarrow> string" where
  "cap_topic value =
     (let topic = strip value
      in if text_length topic \<le> MAX_TOPIC_LENGTH then topic else rstrip (text_take MAX_TOPIC_LENGTH topic))"

definition deck_topic_from :: "string \<Rightarrow> string option" where
  "deck_topic_from raw =
     (case deck_search None raw of
        None \<Rightarrow> None
      | Some rest \<Rightarrow>
          let topic = strip (takeWhile (\<lambda>c. c \<noteq> CHR ''.'') (cut_instruction rest))
          in if topic = [] then None else Some topic)"

text \<open>The second verb is the Vietnamese one, in bytes.\<close>

definition TEACH_VERBS :: "string list" where
  "TEACH_VERBS = [''teach'', ''d'' @ [CHR 0xE1, CHR 0xBA, CHR 0xA1] @ ''y'']"

definition topic_from :: "string \<Rightarrow> string option" where
  "topic_from raw =
     (let request = strip raw
      in case deck_topic_from request of
           Some t \<Rightarrow> Some (cap_topic t)
         | None \<Rightarrow>
             let words = split_words request
             in if 2 \<le> length words
                then Some (cap_topic
                  (if lower (hd words) \<in> set TEACH_VERBS then join_words (tl words) else request))
                else None)"

definition nonempty :: "string option \<Rightarrow> string option" where
  "nonempty x = (case x of Some (c # s) \<Rightarrow> Some (c # s) | _ \<Rightarrow> None)"

definition topic_text :: "json_object \<Rightarrow> string \<Rightarrow> string" where
  "topic_text class_info raw =
     (case setup_text class_info ''topic'' of
        Some t \<Rightarrow> cap_topic t
      | None \<Rightarrow> the_default (cap_topic raw) (nonempty (topic_from raw)))"

definition language_for :: "string \<Rightarrow> string" where
  "language_for locale = (if take 2 (lower locale) = ''vi'' then ''vi'' else ''en'')"

definition MATH_NAMES :: "string list" where
  "MATH_NAMES = [''math'', ''to'' @ [CHR 0xC3, CHR 0xA1] @ ''n'', ''toan'']"

definition curriculum_for :: "string \<Rightarrow> string \<Rightarrow> json_object \<Rightarrow> string option" where
  "curriculum_for locale subject class_info =
     (case setup_text class_info ''curriculum'' of
        Some c \<Rightarrow> Some c
      | None \<Rightarrow>
          if locale = ''vi-VN'' \<and> lower subject \<in> set MATH_NAMES then Some (BGDDT)
          else if lower subject \<in> {''english'', ''esl''} then Some ''English ESL''
          else None)"

text \<open>Vowels and the consonant with Vietnamese diacritics that the code looks for, in bytes.\<close>

definition VIETNAMESE_LETTERS :: "string list" where
  "VIETNAMESE_LETTERS = [[CHR 0xC4, CHR 0x83], [CHR 0xC3, CHR 0xA2], [CHR 0xC4, CHR 0x91], [CHR 0xC3, CHR 0xAA],
     [CHR 0xC3, CHR 0xB4], [CHR 0xC6, CHR 0xA1], [CHR 0xC6, CHR 0xB0]]"

definition looks_mixed_language :: "string \<Rightarrow> bool" where
  "looks_mixed_language raw \<longleftrightarrow>
     (\<exists>l \<in> set VIETNAMESE_LETTERS. contains l raw)
     \<and> (\<exists>w \<in> set (split_words (lower raw)). w \<in> {''teach'', ''lesson'', ''quiz'', ''worksheet''})"

definition requests_slide_deck :: "string \<Rightarrow> bool" where
  "requests_slide_deck raw \<longleftrightarrow>
     (\<exists>m \<in> set [''slide_deck'', ''slide deck'', ''slidedeck'', ''presentation deck''].
        contains m (replace_char (CHR ''-'') (CHR ''_'') (lower raw)))"

definition artifact_types_for :: "setup_env \<Rightarrow> string \<Rightarrow> json_object \<Rightarrow> string list" where
  "artifact_types_for env raw class_info =
     (case dict_get class_info ''artifact_types'' of
        JList xs \<Rightarrow> map (json_str (su_py_str env)) xs
      | _ \<Rightarrow> if requests_slide_deck raw then [''slide_deck''] else DEFAULT_ARTIFACTS)"

definition grade_input :: "setup_env \<Rightarrow> json_object \<Rightarrow> string" where
  "grade_input env class_info =
     (case setup_text class_info ''grade_band'' of
        Some g \<Rightarrow> g
      | None \<Rightarrow>
          (case dict_get class_info ''grade'' of
             JNull \<Rightarrow> []
           | g \<Rightarrow> ''Grade '' @ json_str (su_py_str env) g))"

definition setup_grade_band :: "setup_env \<Rightarrow> json_object \<Rightarrow> grade_band_value option" where
  "setup_grade_band env class_info = grade_band_for_label (grade_input env class_info)"

section \<open>The setup\<close>

datatype contract_setup_result =
    Setup_Ready run_contract
  | Setup_Gate string json_object "run_contract option"

definition missing_required :: "string \<Rightarrow> json_object \<Rightarrow> string list" where
  "missing_required raw class_info =
     (if raw = [] then [''raw_request''] else [])
     @ (if setup_text class_info ''topic'' = None \<and> nonempty (topic_from raw) = None then [''topic''] else [])
     @ (if setup_text class_info ''grade_band'' = None \<and> dict_get class_info ''grade'' = JNull
        then [''grade_band''] else [])
     @ (if setup_text class_info ''subject'' = None then [''subject''] else [])"

definition unsupported_values :: "setup_env \<Rightarrow> json_object \<Rightarrow> (string \<times> string) list" where
  "unsupported_values env class_info =
     map (Pair ''artifact_types'') (filter (\<lambda>v. v \<notin> set SUPPORTED_ARTIFACTS)
       (string_list env (dict_get class_info ''artifact_types'') DEFAULT_ARTIFACTS))
     @ map (Pair ''export_formats'') (filter (\<lambda>v. v \<notin> set SUPPORTED_EXPORTS)
       (string_list env (dict_get class_info ''export_formats'') [''html'']))"

definition questions_for :: "string list \<Rightarrow> (string \<times> string) list \<Rightarrow> json list" where
  "questions_for missing unsupported =
     map (\<lambda>f. JObj [(''field'', JStr f), (''prompt'', JStr (''Please provide '' @ f @ ''.''))]) missing
     @ map (\<lambda>(f, v). JObj [(''field'', JStr f),
         (''prompt'', JStr (''Choose a supported value instead of '' @ v @ ''.''))]) unsupported"

definition str_or :: "setup_env \<Rightarrow> json_object \<Rightarrow> string \<Rightarrow> string \<Rightarrow> string" where
  "str_or env d k fallback = json_str (su_py_str env) (dict_get_or d k (JStr fallback))"

definition evidence_of :: "json_object \<Rightarrow> json_object option" where
  "evidence_of class_info = (case dict_get class_info ''student_evidence'' of JObj d \<Rightarrow> Some d | _ \<Rightarrow> None)"

definition decomposition_of :: "json_object \<Rightarrow> decomposition_intent option result" where
  "decomposition_of class_info =
     (case dict_get class_info ''decomposition_intent'' of
        JObj d \<Rightarrow> ebind (decomposition_intent_of d) (\<lambda>i. Inr (Some i))
      | _ \<Rightarrow> Inr None)"

text \<open>A missing subject raises \<open>KeyError\<close>; the grade band is not missing where this is called.\<close>

definition build_contract ::
  "setup_env \<Rightarrow> contract_setup_input \<Rightarrow> string \<Rightarrow> json_object option \<Rightarrow> run_contract result" where
  "build_contract env p raw evidence =
     (let class_info = si_class_info p;
          locale = the_default ''en-US'' (setup_text class_info ''locale'');
          language = the_default (language_for locale) (setup_text class_info ''instruction_language'')
      in case map_of class_info ''subject'' of
           None \<Rightarrow> Inl (KeyError ''subject'')
         | Some subject_value \<Rightarrow>
             let subject = json_str (su_py_str env) subject_value;
                 curriculum = curriculum_for locale subject class_info
             in ebind (decomposition_of class_info) (\<lambda>intent.
                  make_contract
                    \<lparr>k_contract_id = ''contract-'' @ si_run_id p, k_run_id = si_run_id p,
                     k_teacher_id = si_teacher_id p, k_mode = str_or env class_info ''mode'' ''generate_pack'',
                     k_topic = topic_text class_info raw,
                     k_grade_band =
                       (case setup_grade_band env class_info of None \<Rightarrow> [] | Some b \<Rightarrow> band_text b),
                     k_subject = subject, k_locale = locale,
                     k_target_language = the_default language (setup_text class_info ''target_language''),
                     k_instruction_language = language, k_curriculum = curriculum,
                     k_curriculum_framework = curriculum_framework_for curriculum,
                     k_citation_locale = the_default locale (setup_text class_info ''citation_locale''),
                     k_artifact_types = artifact_types_for env raw class_info,
                     k_export_formats = string_list env (dict_get class_info ''export_formats'') [''html''],
                     k_research_policy = str_or env class_info ''research_policy'' ''standard'',
                     k_config_hash = su_config_hash env,
                     k_student_evidence = map_option minimize_student_evidence evidence,
                     k_decomposition_intent = intent\<rparr>))"

definition source_conflicts :: "json_object \<Rightarrow> source_conflict list result" where
  "source_conflicts class_info =
     (case dict_get class_info ''source_collection'' of
        JObj raw_collection \<Rightarrow>
          ebind (source_collection_of raw_collection) (\<lambda>entries.
            case dict_get class_info ''verified_findings'' of
              JList items \<Rightarrow>
                (case collect (map verified_finding_of
                    (List.map_filter (\<lambda>j. case j of JObj d \<Rightarrow> Some d | _ \<Rightarrow> None) items)) of
                   None \<Rightarrow> Inl (ValidationError ''VerifiedFinding'')
                 | Some findings \<Rightarrow> detect_required_source_conflicts entries findings)
            | _ \<Rightarrow> detect_required_source_conflicts entries [])
      | _ \<Rightarrow> Inr [])"

definition risky_inferences :: "string \<Rightarrow> json_object \<Rightarrow> run_contract \<Rightarrow> json list" where
  "risky_inferences raw class_info contract =
     (let risk = (\<lambda>field value reason. JObj [(''field'', JStr field), (''value'', JStr value), (''reason'', JStr reason)])
      in (if setup_text class_info ''topic'' = None
          then [risk ''topic'' (k_topic contract) ''inferred_from_request''] else [])
         @ (if looks_mixed_language raw \<and> setup_text class_info ''instruction_language'' = None
            then [risk ''instruction_language'' (k_instruction_language contract) ''mixed_language_request''] else [])
         @ (case k_curriculum contract of
              Some c \<Rightarrow> if setup_text class_info ''curriculum'' = None
                then [risk ''curriculum'' c ''locale_default''] else []
            | None \<Rightarrow> []))"

definition resolve_contract_setup ::
  "setup_env \<Rightarrow> contract_setup_input \<Rightarrow> contract_setup_result result" where
  "resolve_contract_setup env p =
     (let raw = strip (si_raw_request p);
          class_info = si_class_info p;
          missing0 = missing_required raw class_info;
          unsupported = unsupported_values env class_info
            @ (if setup_grade_band env class_info = None \<and> missing0 = []
               then [(''grade_band'', grade_input env class_info)] else []);
          evidence = evidence_of class_info;
          missing = missing0
            @ (if str_or env class_info ''mode'' ''generate_pack'' = ''diagnose_then_generate'' \<and> evidence = None
               then [''student_evidence''] else [])
      in if missing \<noteq> [] \<or> unsupported \<noteq> []
         then Inr (Setup_Gate ''clarification_required''
           [(''questions'', JList (questions_for missing unsupported)),
            (''missing_fields'', JList (map JStr missing)),
            (''unsupported_values'',
              JList (map (\<lambda>(f, v). JObj [(''field'', JStr f), (''value'', JStr v)]) unsupported))] None)
         else ebind (build_contract env p raw evidence) (\<lambda>contract.
              ebind (source_conflicts class_info) (\<lambda>conflicts.
                if conflicts \<noteq> []
                then Inr (Setup_Gate ''source_conflict''
                  [(''conflicts'', JList (map conflict_json conflicts)),
                   (''contract'', JObj (contract_dump contract))] (Some contract))
                else
                  let risky = risky_inferences raw class_info contract;
                      reasons = string_list env (dict_get class_info ''planning_review_reasons'') []
                  in if reasons \<noteq> []
                     then Inr (Setup_Gate ''contract_confirmation''
                       [(''planning_review'', JBool True), (''materiality_reasons'', JList (map JStr reasons)),
                        (''contract'', JObj (contract_dump contract))] (Some contract))
                     else if risky \<noteq> []
                     then Inr (Setup_Gate ''contract_confirmation''
                       [(''inferred_fields'', JList risky), (''contract'', JObj (contract_dump contract))]
                       (Some contract))
                     else Inr (Setup_Ready contract))))"

end
