(* ===== verification/Teaching_Brief.thy ===== *)
theory Teaching_Brief
  imports Run_Setup
begin

text \<open>
  Teaching briefs (\<open>common/contracts/teaching_brief.py\<close>, \<open>services/gateway/teaching_brief_store.py\<close>), what
  \<open>routers/teaching_briefs.py\<close> hands from a brief to the contract setup, and what the setup makes of it.
  A stored brief is the validated value; its JSON form and back is pydantic's.
\<close>

section \<open>Briefs\<close>

record teaching_brief =
  b_raw_request :: string
  b_topic :: string
  b_grade :: int
  b_subject :: string
  b_target_language :: string
  b_instruction_language :: string
  b_curriculum :: "string option"
  b_class_context :: string
  b_artifact_types :: "string list"
  b_export_formats :: "string list"
  b_methodology :: "string option"
  b_research_policy :: string
  b_must_include :: string
  b_avoid :: string
  b_always_review :: bool

definition brief_fields_ok :: "teaching_brief \<Rightarrow> bool" where
  "brief_fields_ok b \<longleftrightarrow>
     text_between 1 4000 (b_raw_request b) \<and> text_between 1 200 (b_topic b)
     \<and> 1 \<le> b_grade b \<and> b_grade b \<le> 12 \<and> b_subject b \<in> set SUBJECT_KEYS
     \<and> b_target_language b \<in> {''en'', ''vi''} \<and> b_instruction_language b \<in> {''en'', ''vi''}
     \<and> (case b_curriculum b of None \<Rightarrow> True | Some c \<Rightarrow> text_length c \<le> 80)
     \<and> text_length (b_class_context b) \<le> 1000
     \<and> set (b_artifact_types b) \<subseteq> set ARTIFACT_TYPES \<and> set (b_export_formats b) \<subseteq> set EXPORT_FORMATS
     \<and> (case b_methodology b of None \<Rightarrow> True | Some m \<Rightarrow> text_length m \<le> 80)
     \<and> b_research_policy b \<in> set RESEARCH_POLICIES
     \<and> text_length (b_must_include b) \<le> 1000 \<and> text_length (b_avoid b) \<le> 1000"

text \<open>\<open>TeachingBrief(...)\<close>: the subject and the languages are normalised first.\<close>

definition make_brief :: "teaching_brief \<Rightarrow> teaching_brief result" where
  "make_brief b =
     (let b' = b\<lparr>b_subject := the_default (b_subject b) (normalize_subject (b_subject b)),
        b_target_language := the_default (b_target_language b) (normalize_language (b_target_language b)),
        b_instruction_language :=
          the_default (b_instruction_language b) (normalize_language (b_instruction_language b))\<rparr>
      in if brief_fields_ok b' then Inr b' else Inl (ValidationError ''TeachingBrief''))"

definition materiality_reasons :: "teaching_brief \<Rightarrow> string list" where
  "materiality_reasons b =
     (if b_always_review b then [''always_review''] else [])
     @ (if b_research_policy b = ''rigorous'' then [''rigorous_research''] else [])
     @ (if b_artifact_types b \<noteq> DEFAULT_ARTIFACTS then [''custom_artifact_scope''] else [])
     @ (if b_export_formats b \<noteq> [''html''] then [''non_html_export''] else [])
     @ (if b_methodology b \<noteq> None then [''methodology_preference''] else [])"

section \<open>The store\<close>

record brief_row =
  br_brief_id :: string
  br_teacher_id :: string
  br_brief :: teaching_brief

definition brief_create :: "string \<Rightarrow> string \<Rightarrow> teaching_brief \<Rightarrow> brief_row list \<Rightarrow> (brief_row \<times> brief_row list) result" where
  "brief_create i t b rows =
     (if i \<in> set (map br_brief_id rows) then Inl IntegrityError
      else let row = \<lparr>br_brief_id = i, br_teacher_id = t, br_brief = b\<rparr> in Inr (row, rows @ [row]))"

definition brief_is :: "string \<Rightarrow> string \<Rightarrow> brief_row \<Rightarrow> bool" where
  "brief_is i t r \<longleftrightarrow> br_brief_id r = i \<and> br_teacher_id r = t"

definition brief_get :: "string \<Rightarrow> string \<Rightarrow> brief_row list \<Rightarrow> brief_row option result" where
  "brief_get i t rows = scalar_one_or_none (filter (brief_is i t) rows)"

definition brief_replace ::
  "string \<Rightarrow> string \<Rightarrow> teaching_brief \<Rightarrow> brief_row list \<Rightarrow> (brief_row option \<times> brief_row list) result" where
  "brief_replace i t b rows =
     ebind (brief_get i t rows) (\<lambda>x. case x of
       None \<Rightarrow> Inr (None, rows)
     | Some r \<Rightarrow> Inr (Some (r\<lparr>br_brief := b\<rparr>), update_where (brief_is i t) (\<lambda>r. r\<lparr>br_brief := b\<rparr>) rows))"

section \<open>From a brief to a setup\<close>

definition locale_of_language :: "string \<Rightarrow> string" where
  "locale_of_language language = (if language = ''vi'' then ''vi-VN'' else ''en-US'')"

definition brief_class_info :: "teaching_brief \<Rightarrow> json_object" where
  "brief_class_info b =
     [(''topic'', JStr (b_topic b)), (''grade'', JInt (b_grade b)), (''subject'', JStr (b_subject b)),
      (''locale'', JStr (locale_of_language (b_target_language b))),
      (''target_language'', JStr (b_target_language b)),
      (''instruction_language'', JStr (b_instruction_language b)),
      (''curriculum'', opt_json (b_curriculum b)), (''artifact_types'', JList (map JStr (b_artifact_types b))),
      (''export_formats'', JList (map JStr (b_export_formats b))),
      (''research_policy'', JStr (b_research_policy b))]"

definition class_info_with_materiality :: "teaching_brief \<Rightarrow> json_object" where
  "class_info_with_materiality b =
     (let reasons = materiality_reasons b
      in brief_class_info b
         @ (if reasons \<noteq> [] then [(''planning_review_reasons'', JList (map JStr reasons))] else []))"

definition brief_setup_input :: "string \<Rightarrow> string \<Rightarrow> teaching_brief \<Rightarrow> contract_setup_input" where
  "brief_setup_input r t b =
     \<lparr>si_run_id = r, si_teacher_id = t, si_raw_request = b_raw_request b,
      si_class_info = class_info_with_materiality b\<rparr>"

definition preview_brief_contract ::
  "setup_env \<Rightarrow> string \<Rightarrow> string \<Rightarrow> brief_row list \<Rightarrow> contract_setup_result result" where
  "preview_brief_contract env i t rows =
     ebind (brief_get i t rows) (\<lambda>x. case x of
       None \<Rightarrow> Inl (HTTPException 404 ''brief_not_found'')
     | Some r \<Rightarrow> resolve_contract_setup env (brief_setup_input (''preview-'' @ i) t (br_brief r)))"

section \<open>Lemmas\<close>

lemma dict_get_brief [simp]:
  "dict_get (class_info_with_materiality b) ''topic'' = JStr (b_topic b)"
  "dict_get (class_info_with_materiality b) ''grade'' = JInt (b_grade b)"
  "dict_get (class_info_with_materiality b) ''subject'' = JStr (b_subject b)"
  "dict_get (class_info_with_materiality b) ''locale'' = JStr (locale_of_language (b_target_language b))"
  "dict_get (class_info_with_materiality b) ''target_language'' = JStr (b_target_language b)"
  "dict_get (class_info_with_materiality b) ''instruction_language'' = JStr (b_instruction_language b)"
  "dict_get (class_info_with_materiality b) ''curriculum'' = opt_json (b_curriculum b)"
  "dict_get (class_info_with_materiality b) ''artifact_types'' = JList (map JStr (b_artifact_types b))"
  "dict_get (class_info_with_materiality b) ''export_formats'' = JList (map JStr (b_export_formats b))"
  by (simp_all add: dict_get_def class_info_with_materiality_def brief_class_info_def Let_def)

lemma dict_get_brief_absent [simp]:
  "dict_get (class_info_with_materiality b) ''grade_band'' = JNull"
  "dict_get (class_info_with_materiality b) ''student_evidence'' = JNull"
  "dict_get (class_info_with_materiality b) ''source_collection'' = JNull"
  "dict_get (class_info_with_materiality b) ''decomposition_intent'' = JNull"
  "dict_get (class_info_with_materiality b) ''citation_locale'' = JNull"
  "dict_get_or (class_info_with_materiality b) ''mode'' v = v"
  "dict_get_or (class_info_with_materiality b) ''research_policy'' v = JStr (b_research_policy b)"
  "map_of (class_info_with_materiality b) ''subject'' = Some (JStr (b_subject b))"
  by (simp_all add: dict_get_def dict_get_or_def class_info_with_materiality_def brief_class_info_def Let_def)

lemma json_str_strings [simp]: "map (json_str f) (map JStr xs) = xs" "map (json_str f \<circ> JStr) xs = xs"
  by (induction xs) auto

lemma cap_topic_length: "text_length (cap_topic v) \<le> 200"
proof (cases "text_length (strip v) \<le> 200")
  case False
  have "text_length (rstrip (text_take 200 (strip v))) \<le> 200"
    using text_length_rstrip text_length_take le_trans by blast
  with False show ?thesis by (simp add: cap_topic_def MAX_TOPIC_LENGTH_def)
qed (simp add: cap_topic_def MAX_TOPIC_LENGTH_def)

lemma cap_topic_nonempty:
  assumes "strip v \<noteq> []"
  shows "cap_topic v \<noteq> []"
proof (cases "text_length (strip v) \<le> 200")
  case False
  obtain c t where v: "strip v = c # t" using assms by (cases "strip v") auto
  have "text_take 200 (strip v) = c # takeWhile continuation t @ text_take 199 (dropWhile continuation t)"
    using text_take_Cons [of 199 c t] by (simp add: v)
  moreover have "\<not> blank c" by (rule strip_hd [OF v])
  ultimately have "rstrip (text_take 200 (strip v)) \<noteq> []" by (simp add: rstrip_Nil)
  with False show ?thesis by (simp add: cap_topic_def MAX_TOPIC_LENGTH_def)
qed (use assms in \<open>simp add: cap_topic_def MAX_TOPIC_LENGTH_def\<close>)

lemma topic_from_length: "topic_from raw = Some t \<Longrightarrow> text_length t \<le> 200"
  by (auto simp: topic_from_def Let_def cap_topic_length split: option.splits if_splits)

lemma strip_strip [simp]: "strip (strip s) = strip s"
proof -
  have dd: "dropWhile p (dropWhile p xs) = dropWhile p xs" for p and xs :: string
    by (induction xs) auto
  have hd: "dropWhile blank (strip s) = strip s"
    using strip_hd [of s] by (cases "strip s") auto
  have "strip (strip s) = rev (dropWhile blank (rev (strip s)))"
    unfolding strip_def [of "strip s"] hd ..
  also have "rev (strip s) = dropWhile blank (rev (dropWhile blank s))" by (simp add: strip_def)
  also have "rev (dropWhile blank (dropWhile blank (rev (dropWhile blank s)))) = strip s"
    unfolding dd by (simp add: strip_def)
  finally show ?thesis .
qed

lemma setup_text_strip: "setup_text d k = Some t \<Longrightarrow> strip t = t \<and> t \<noteq> []"
  by (auto simp: setup_text_def split: json.splits if_splits)

lemma topic_text_ok:
  assumes "setup_text d ''topic'' \<noteq> None \<or> nonempty (topic_from raw) \<noteq> None"
  shows "text_between 1 200 (topic_text d raw)"
proof (cases "setup_text d ''topic''")
  case (Some t)
  then have "strip t \<noteq> []" using setup_text_strip by simp
  then show ?thesis using Some cap_topic_nonempty cap_topic_length
    by (simp add: topic_text_def text_between_def)
next
  case None
  then obtain c t where "topic_from raw = Some (c # t)" using assms
    by (auto simp: nonempty_def split: option.splits list.splits)
  with None show ?thesis using topic_from_length
    by (simp add: topic_text_def text_between_def nonempty_def)
qed

lemma grade_labels: "1 \<le> n \<Longrightarrow> n \<le> 12 \<Longrightarrow> \<exists>b. grade_band_for_label (''Grade '' @ show_int n) = Some b"
proof -
  assume "1 \<le> n" "n \<le> 12"
  then have "n \<in> set [1..12]" by simp
  moreover have "\<forall>n \<in> set [1..12]. grade_band_for_label (''Grade '' @ show_int n) \<noteq> None" by code_simp
  ultimately show ?thesis by blast
qed

lemma normalize_subject_key: "s \<in> set SUBJECT_KEYS \<Longrightarrow> normalize_subject s = Some s"
proof -
  have "\<forall>s \<in> set SUBJECT_KEYS. normalize_subject s = Some s" by code_simp
  then show "s \<in> set SUBJECT_KEYS \<Longrightarrow> normalize_subject s = Some s" by blast
qed

lemma normalize_language_key [simp]: "normalize_language ''en'' = Some ''en''" "normalize_language ''vi'' = Some ''vi''"
  by code_simp+

lemma locale_texts [simp]:
  "strip ''vi-VN'' = ''vi-VN''" "strip ''en-US'' = ''en-US''" "strip ''en'' = ''en''" "strip ''vi'' = ''vi''"
  "text_between 2 16 ''vi-VN''" "text_between 2 16 ''en-US''" "text_length ''English ESL'' \<le> 80" "text_length BGDDT \<le> 80"
  by code_simp+

lemma band_text_member [simp]: "band_text b \<in> set (map band_text all_bands)"
  by (cases b) (simp_all add: all_bands_def)

lemma subject_texts: "s \<in> set SUBJECT_KEYS \<Longrightarrow> strip s = s \<and> s \<noteq> []"
proof -
  have "\<forall>s \<in> set SUBJECT_KEYS. strip s = s \<and> s \<noteq> []" by code_simp
  then show "s \<in> set SUBJECT_KEYS \<Longrightarrow> strip s = s \<and> s \<noteq> []" by blast
qed

section \<open>What the setup makes of a brief\<close>

text \<open>The setup asks the teacher back, or infers a curriculum.\<close>

definition brief_asks :: "teaching_brief \<Rightarrow> bool" where
  "brief_asks b \<longleftrightarrow>
     strip (b_raw_request b) = []
     \<or> (strip (b_topic b) = [] \<and> nonempty (topic_from (strip (b_raw_request b))) = None)
     \<or> (\<exists>a \<in> set (b_artifact_types b). a = ''reading_passage'' \<or> a = ''exit_ticket'')"

definition brief_infers_curriculum :: "teaching_brief \<Rightarrow> bool" where
  "brief_infers_curriculum b \<longleftrightarrow>
     (case b_curriculum b of None \<Rightarrow> True | Some c \<Rightarrow> strip c = [])
     \<and> (b_subject b = ''english'' \<or> (b_subject b = ''math'' \<and> b_target_language b = ''vi''))"

lemma brief_texts [simp]:
  assumes "brief_fields_ok b"
  shows "setup_text (class_info_with_materiality b) ''subject'' = Some (b_subject b)"
    and "setup_text (class_info_with_materiality b) ''locale'' = Some (locale_of_language (b_target_language b))"
    and "setup_text (class_info_with_materiality b) ''target_language'' = Some (b_target_language b)"
    and "setup_text (class_info_with_materiality b) ''instruction_language'' = Some (b_instruction_language b)"
    and "setup_text (class_info_with_materiality b) ''grade_band'' = None"
    and "setup_text (class_info_with_materiality b) ''citation_locale'' = None"
  using assms subject_texts [of "b_subject b"]
  by (auto simp: setup_text_def brief_fields_ok_def locale_of_language_def)

lemma brief_topic_text: "setup_text (class_info_with_materiality b) ''topic'' =
    (if strip (b_topic b) = [] then None else Some (strip (b_topic b)))"
  by (simp add: setup_text_def)

lemma brief_grade:
  assumes "brief_fields_ok b"
  shows "\<exists>g. setup_grade_band env (class_info_with_materiality b) = Some g"
  using assms grade_labels [of "b_grade b"] by (simp add: setup_grade_band_def grade_input_def brief_fields_ok_def)

lemma brief_missing:
  assumes "brief_fields_ok b"
  shows "missing_required (strip (b_raw_request b)) (class_info_with_materiality b) = [] \<longleftrightarrow>
    strip (b_raw_request b) \<noteq> [] \<and> (strip (b_topic b) \<noteq> [] \<or> nonempty (topic_from (strip (b_raw_request b))) \<noteq> None)"
  using assms by (auto simp: missing_required_def brief_topic_text)

lemma brief_unsupported:
  assumes "brief_fields_ok b"
  shows "unsupported_values env (class_info_with_materiality b) = [] \<longleftrightarrow>
    (\<forall>a \<in> set (b_artifact_types b). a \<noteq> ''reading_passage'' \<and> a \<noteq> ''exit_ticket'')"
proof -
  have "set ARTIFACT_TYPES = set SUPPORTED_ARTIFACTS \<union> {''reading_passage'', ''exit_ticket''}"
    and "''reading_passage'' \<notin> set SUPPORTED_ARTIFACTS" "''exit_ticket'' \<notin> set SUPPORTED_ARTIFACTS"
    and "EXPORT_FORMATS = SUPPORTED_EXPORTS"
    by (auto simp: ARTIFACT_TYPES_def SUPPORTED_ARTIFACTS_def EXPORT_FORMATS_def SUPPORTED_EXPORTS_def)
  moreover have "set (b_artifact_types b) \<subseteq> set ARTIFACT_TYPES" "set (b_export_formats b) \<subseteq> set EXPORT_FORMATS"
    using assms by (simp_all add: brief_fields_ok_def)
  ultimately show ?thesis
    unfolding unsupported_values_def dict_get_brief string_list_def json.case json_str_strings
    by (auto simp: filter_empty_conv)
qed

lemma brief_resolve:
  assumes "brief_fields_ok b"
  shows "brief_asks b \<Longrightarrow> \<exists>p. resolve_contract_setup env (brief_setup_input r t b) =
      Inr (Setup_Gate ''clarification_required'' p None)"
    and "\<not> brief_asks b \<Longrightarrow> resolve_contract_setup env (brief_setup_input r t b) =
      ebind (build_contract env (brief_setup_input r t b) (strip (b_raw_request b)) None) (\<lambda>k.
        let risky = risky_inferences (strip (b_raw_request b)) (class_info_with_materiality b) k;
            reasons = string_list env (dict_get (class_info_with_materiality b) ''planning_review_reasons'') []
        in if reasons \<noteq> []
           then Inr (Setup_Gate ''contract_confirmation'' [(''planning_review'', JBool True),
             (''materiality_reasons'', JList (map JStr reasons)), (''contract'', JObj (contract_dump k))] (Some k))
           else if risky \<noteq> []
           then Inr (Setup_Gate ''contract_confirmation''
             [(''inferred_fields'', JList risky), (''contract'', JObj (contract_dump k))] (Some k))
           else Inr (Setup_Ready k))"
proof -
  let ?c = "class_info_with_materiality b"
  have free: "evidence_of ?c = None" "source_conflicts ?c = Inr []" "str_or env ?c ''mode'' ''generate_pack'' \<noteq> ''diagnose_then_generate''"
    by (simp_all add: evidence_of_def source_conflicts_def str_or_def)
  obtain g where g: "setup_grade_band env ?c = Some g" using brief_grade [OF assms] by blast
  have asks: "brief_asks b \<longleftrightarrow> missing_required (strip (b_raw_request b)) ?c \<noteq> [] \<or> unsupported_values env ?c \<noteq> []"
    unfolding brief_missing [OF assms] brief_unsupported [OF assms] brief_asks_def
    by (simp only: de_Morgan_conj de_Morgan_disj not_not ball_simps disj_assoc)
  note resolve = resolve_contract_setup_def brief_setup_input_def contract_setup_input.select_convs g free
    option.distinct simp_thms if_False append_Nil2 asks [symmetric] ebind.simps
  show "brief_asks b \<Longrightarrow> \<exists>p. resolve_contract_setup env (brief_setup_input r t b) =
      Inr (Setup_Gate ''clarification_required'' p None)"
    by (simp only: resolve Let_def if_True) blast
  assume n: "\<not> brief_asks b"
  show "resolve_contract_setup env (brief_setup_input r t b) =
      ebind (build_contract env (brief_setup_input r t b) (strip (b_raw_request b)) None) (\<lambda>k.
        let risky = risky_inferences (strip (b_raw_request b)) ?c k;
            reasons = string_list env (dict_get ?c ''planning_review_reasons'') []
        in if reasons \<noteq> []
           then Inr (Setup_Gate ''contract_confirmation'' [(''planning_review'', JBool True),
             (''materiality_reasons'', JList (map JStr reasons)), (''contract'', JObj (contract_dump k))] (Some k))
           else if risky \<noteq> []
           then Inr (Setup_Gate ''contract_confirmation''
             [(''inferred_fields'', JList risky), (''contract'', JObj (contract_dump k))] (Some k))
           else Inr (Setup_Ready k))"
    by (simp only: resolve n Let_def if_True)
qed

lemma brief_reasons: "string_list env (dict_get (class_info_with_materiality b) ''planning_review_reasons'') [] =
    materiality_reasons b"
  by (auto simp: string_list_def dict_get_def class_info_with_materiality_def brief_class_info_def Let_def)

lemma brief_curriculum:
  assumes "brief_fields_ok b"
  shows "curriculum_for (locale_of_language (b_target_language b)) (b_subject b) (class_info_with_materiality b) \<noteq> None
      \<and> setup_text (class_info_with_materiality b) ''curriculum'' = None \<longleftrightarrow> brief_infers_curriculum b"
    and "curriculum_for (locale_of_language (b_target_language b)) (b_subject b) (class_info_with_materiality b) = Some c
      \<Longrightarrow> text_length c \<le> 80"
proof -
  have keys: "\<forall>s \<in> set SUBJECT_KEYS. (lower s \<in> set MATH_NAMES \<longleftrightarrow> s = ''math'') \<and> (lower s = ''english'' \<longleftrightarrow> s = ''english'')
      \<and> lower s \<noteq> ''esl''"
    by code_simp
  then have lower: "lower (b_subject b) \<in> set MATH_NAMES \<longleftrightarrow> b_subject b = ''math''"
      "lower (b_subject b) = ''english'' \<longleftrightarrow> b_subject b = ''english''" "lower (b_subject b) \<noteq> ''esl''"
    using assms by (simp_all add: brief_fields_ok_def)
  have blank: "setup_text (class_info_with_materiality b) ''curriculum'' =
      (case b_curriculum b of None \<Rightarrow> None | Some c \<Rightarrow> if strip c = [] then None else Some (strip c))"
    by (auto simp: setup_text_def opt_json_def split: option.splits)
  show "curriculum_for (locale_of_language (b_target_language b)) (b_subject b) (class_info_with_materiality b) \<noteq> None
      \<and> setup_text (class_info_with_materiality b) ''curriculum'' = None \<longleftrightarrow> brief_infers_curriculum b"
    unfolding curriculum_for_def blank brief_infers_curriculum_def
    using lower by (auto simp: locale_of_language_def split: option.splits)
  show "text_length c \<le> 80"
    if "curriculum_for (locale_of_language (b_target_language b)) (b_subject b) (class_info_with_materiality b) = Some c"
    using that assms text_length_strip unfolding curriculum_for_def blank brief_fields_ok_def
    by (fastforce split: option.splits if_splits intro: le_trans)
qed

lemma brief_contract:
  assumes ok: "brief_fields_ok b" and asks: "\<not> brief_asks b" and digest: "text_length (su_config_hash env) = 64"
    and ids: "r \<noteq> []" "text_length r \<le> 55" "text_between 1 64 t"
  shows "b_artifact_types b = [] \<or> b_export_formats b = [] \<Longrightarrow>
      build_contract env (brief_setup_input r t b) (strip (b_raw_request b)) None = Inl (ValidationError ''RunContract'')"
    and "b_artifact_types b \<noteq> [] \<Longrightarrow> b_export_formats b \<noteq> [] \<Longrightarrow>
      \<exists>k. build_contract env (brief_setup_input r t b) (strip (b_raw_request b)) None = Inr k
        \<and> k_run_id k = r \<and> k_teacher_id k = t \<and> k_mode k = ''generate_pack'' \<and> k_subject k = b_subject b
        \<and> k_artifact_types k = b_artifact_types b \<and> k_export_formats k = b_export_formats b
        \<and> k_research_policy k = b_research_policy b \<and> k_student_evidence k = None
        \<and> k_target_language k = b_target_language b \<and> k_instruction_language k = b_instruction_language b
        \<and> k_curriculum k =
            curriculum_for (locale_of_language (b_target_language b)) (b_subject b) (class_info_with_materiality b)"
proof -
  obtain g where g: "setup_grade_band env (class_info_with_materiality b) = Some g" using brief_grade [OF ok] by blast
  have langs: "b_target_language b = ''en'' \<or> b_target_language b = ''vi''"
      "b_instruction_language b = ''en'' \<or> b_instruction_language b = ''vi''"
    using ok by (auto simp: brief_fields_ok_def)
  have norm: "normalize_subject (b_subject b) = Some (b_subject b)"
      "normalize_language (b_target_language b) = Some (b_target_language b)"
      "normalize_language (b_instruction_language b) = Some (b_instruction_language b)"
    using ok normalize_subject_key langs by (auto simp: brief_fields_ok_def)
  have topic: "text_between 1 200 (topic_text (class_info_with_materiality b) (strip (b_raw_request b)))"
    using asks by (intro topic_text_ok) (auto simp: brief_asks_def brief_topic_text)
  have cid: "text_between 1 64 (''contract-'' @ r)" "text_between 1 64 r"
    using text_length_append_le [of "''contract-''" r] ids
    by (simp_all add: text_between_def text_length_closed [of "''contract-'' @ r"] text_length_closed [of "''contract-''"]
        continuation_def byte_def)
  have loc: "text_between 2 16 (locale_of_language (b_target_language b))"
    by (simp add: locale_of_language_def)
  have policy: "b_research_policy b \<in> set RESEARCH_POLICIES" and mode: "''generate_pack'' \<in> set PIPELINE_MODES"
    using ok by (simp_all add: brief_fields_ok_def PIPELINE_MODES_def)
  have curr: "case curriculum_for (locale_of_language (b_target_language b)) (b_subject b) (class_info_with_materiality b) of
      None \<Rightarrow> True | Some c \<Rightarrow> text_length c \<le> 80"
    using brief_curriculum(2) [OF ok] by (auto split: option.splits)
  have sets: "set (b_artifact_types b) \<subseteq> set ARTIFACT_TYPES" "set (b_export_formats b) \<subseteq> set EXPORT_FORMATS"
      "b_subject b \<in> set SUBJECT_KEYS"
    using ok by (simp_all add: brief_fields_ok_def)
  note build = build_contract_def brief_setup_input_def Let_def brief_texts [OF ok] str_or_def decomposition_of_def
    make_contract_def normalized_contract_def artifact_types_for_def string_list_def g norm contract_fields_ok_def
  show "build_contract env (brief_setup_input r t b) (strip (b_raw_request b)) None = Inl (ValidationError ''RunContract'')"
    if "b_artifact_types b = [] \<or> b_export_formats b = []"
    using that by (auto simp: build)
  show "\<exists>k. build_contract env (brief_setup_input r t b) (strip (b_raw_request b)) None = Inr k
        \<and> k_run_id k = r \<and> k_teacher_id k = t \<and> k_mode k = ''generate_pack'' \<and> k_subject k = b_subject b
        \<and> k_artifact_types k = b_artifact_types b \<and> k_export_formats k = b_export_formats b
        \<and> k_research_policy k = b_research_policy b \<and> k_student_evidence k = None
        \<and> k_target_language k = b_target_language b \<and> k_instruction_language k = b_instruction_language b
        \<and> k_curriculum k =
            curriculum_for (locale_of_language (b_target_language b)) (b_subject b) (class_info_with_materiality b)"
    if "b_artifact_types b \<noteq> []" and "b_export_formats b \<noteq> []"
    using that topic cid loc policy mode curr sets langs ids(3) digest
    by (simp add: build text_between_def del: set_map)
qed

lemma brief_risky:
  assumes "brief_fields_ok b"
    and "k_curriculum k =
      curriculum_for (locale_of_language (b_target_language b)) (b_subject b) (class_info_with_materiality b)"
  shows "risky_inferences raw (class_info_with_materiality b) k = [] \<longleftrightarrow>
    strip (b_topic b) \<noteq> [] \<and> \<not> brief_infers_curriculum b"
  using brief_curriculum(1) [OF assms(1)] assms
  by (auto simp: risky_inferences_def Let_def brief_topic_text split: option.splits)

text \<open>
  What launching a brief that passed validation leads to. The teacher is asked back for a
  blank request, for a blank topic that the request does not supply, and for the two artifact types the
  brief offers but the setup does not support. Otherwise an empty list of artifacts or formats, which the
  brief allows, raises; a brief whose choices are material or whose curriculum is inferred waits for
  confirmation; every other brief starts with a contract made of the teacher's own choices.
\<close>
lemma brief_launch:
  assumes "make_brief b0 = Inr b" and "text_length (su_config_hash env) = 64"
    and "r \<noteq> []" and "text_length r \<le> 55" and "text_between 1 64 t"
  shows "case resolve_contract_setup env (brief_setup_input r t b) of
      Inl e \<Rightarrow> e = ValidationError ''RunContract'' \<and> \<not> brief_asks b
        \<and> (b_artifact_types b = [] \<or> b_export_formats b = [])
    | Inr (Setup_Gate name payload contract) \<Rightarrow>
        (if brief_asks b then name = ''clarification_required'' \<and> contract = None
         else name = ''contract_confirmation'' \<and> (\<exists>k. contract = Some k \<and> k_artifact_types k = b_artifact_types b)
           \<and> (materiality_reasons b \<noteq> [] \<or> strip (b_topic b) = [] \<or> brief_infers_curriculum b))
    | Inr (Setup_Ready k) \<Rightarrow>
        \<not> brief_asks b \<and> materiality_reasons b = [] \<and> strip (b_topic b) \<noteq> [] \<and> \<not> brief_infers_curriculum b
        \<and> k_run_id k = r \<and> k_teacher_id k = t \<and> k_subject k = b_subject b
        \<and> k_artifact_types k = b_artifact_types b \<and> k_export_formats k = b_export_formats b
        \<and> k_target_language k = b_target_language b \<and> k_student_evidence k = None"
proof -
  have ok: "brief_fields_ok b" using assms(1) by (auto simp: make_brief_def Let_def split: if_splits)
  show ?thesis
  proof (cases "brief_asks b")
    case True
    then show ?thesis using brief_resolve(1) [OF ok True, of env r t] by auto
  next
    case False
    note resolve = brief_resolve(2) [OF ok False, of env r t]
    note contract = brief_contract [OF ok False assms(2-5)]
    show ?thesis
    proof (cases "b_artifact_types b = [] \<or> b_export_formats b = []")
      case True
      with False show ?thesis by (simp add: resolve contract(1))
    next
      case filled: False
      then obtain k where k: "build_contract env (brief_setup_input r t b) (strip (b_raw_request b)) None = Inr k"
        and fields: "k_run_id k = r" "k_teacher_id k = t" "k_subject k = b_subject b"
          "k_artifact_types k = b_artifact_types b" "k_export_formats k = b_export_formats b"
          "k_target_language k = b_target_language b" "k_student_evidence k = None"
          "k_curriculum k =
            curriculum_for (locale_of_language (b_target_language b)) (b_subject b) (class_info_with_materiality b)"
        using contract(2) by blast
      note risky = brief_risky [OF ok fields(8)]
      show ?thesis
        using False fields risky by (simp add: resolve k brief_reasons Let_def)
    qed
  qed
qed

definition witness_brief :: teaching_brief where
  "witness_brief = \<lparr>b_raw_request = ''Teach photosynthesis'', b_topic = ''Photosynthesis'', b_grade = 7,
     b_subject = ''Science'', b_target_language = ''en'', b_instruction_language = ''English'', b_curriculum = None,
     b_class_context = [], b_artifact_types = DEFAULT_ARTIFACTS, b_export_formats = [''html''],
     b_methodology = None, b_research_policy = ''standard'', b_must_include = [], b_avoid = [],
     b_always_review = False\<rparr>"

definition witness_env :: setup_env where
  "witness_env = \<lparr>su_config_hash = replicate 64 CHR ''0'', su_py_str = (\<lambda>_. [])\<rparr>"

lemma brief_launch_witness:
  "\<exists>b k. make_brief witness_brief = Inr b
     \<and> resolve_contract_setup witness_env (brief_setup_input ''r1'' ''t1'' b) = Inr (Setup_Ready k)
     \<and> k_subject k = ''science'' \<and> k_artifact_types k = DEFAULT_ARTIFACTS"
proof -
  let ?b = "witness_brief\<lparr>b_subject := ''science'', b_instruction_language := ''en''\<rparr>"
  have b: "make_brief witness_brief = Inr ?b" by code_simp
  have "case resolve_contract_setup witness_env (brief_setup_input ''r1'' ''t1'' ?b) of
      Inr (Setup_Ready k) \<Rightarrow> True | _ \<Rightarrow> False" by code_simp
  then obtain k where k: "resolve_contract_setup witness_env (brief_setup_input ''r1'' ''t1'' ?b) = Inr (Setup_Ready k)"
    by (auto split: sum.splits contract_setup_result.splits)
  have "text_length (su_config_hash witness_env) = 64" "''r1'' \<noteq> []" "text_length ''r1'' \<le> 55" "text_between 1 64 ''t1''"
    by code_simp+
  from brief_launch [OF b this] have "k_subject k = ''science'' \<and> k_artifact_types k = DEFAULT_ARTIFACTS"
    unfolding k by (simp add: witness_brief_def)
  with b k show ?thesis by blast
qed

text \<open>What the teacher wrote about the class, what to include and what to avoid never leaves the brief.\<close>

lemma brief_guidance_dropped:
  "brief_setup_input r t (b\<lparr>b_class_context := x, b_must_include := y, b_avoid := z\<rparr>) = brief_setup_input r t b"
  by (simp add: brief_setup_input_def class_info_with_materiality_def brief_class_info_def materiality_reasons_def)

end
