(* ===== verification/Search_Plan.thy ===== *)
theory Search_Plan
  imports Run_Setup
begin

text \<open>
  Reading a stored contract back (\<open>RunContract.model_validate\<close>, \<open>common/contracts/run_contract.py\<close>) and
  planning its research (\<open>services/gateway/research_engine.py\<close>: \<open>plan_search\<close>; \<open>research_safety.py\<close>:
  \<open>evidence_terms\<close>). \<open>scrub\<close> stands for \<open>scrub_text\<close>, two regular expressions for mail addresses and
  names of students.
\<close>

section \<open>Reading a contract\<close>

definition string_items :: "json list \<Rightarrow> string list option" where
  "string_items xs = collect (map (\<lambda>j. case j of JStr s \<Rightarrow> Some s | _ \<Rightarrow> None) xs)"

definition text_or :: "json_object \<Rightarrow> string \<Rightarrow> string \<Rightarrow> string option" where
  "text_or d k fallback = (case dict_get_or d k (JStr fallback) of JStr s \<Rightarrow> Some s | _ \<Rightarrow> None)"

definition required_text :: "json_object \<Rightarrow> string \<Rightarrow> string option" where
  "required_text d k = (case dict_get d k of JStr s \<Rightarrow> Some s | _ \<Rightarrow> None)"

definition nullable_text :: "json_object \<Rightarrow> string \<Rightarrow> string option option" where
  "nullable_text d k = (case dict_get d k of JNull \<Rightarrow> Some None | JStr s \<Rightarrow> Some (Some s) | _ \<Rightarrow> None)"

definition required_list :: "json_object \<Rightarrow> string \<Rightarrow> string list option" where
  "required_list d k = (case dict_get d k of JList xs \<Rightarrow> string_items xs | _ \<Rightarrow> None)"

definition nullable_object :: "json_object \<Rightarrow> string \<Rightarrow> json_object option option" where
  "nullable_object d k = (case dict_get d k of JNull \<Rightarrow> Some None | JObj x \<Rightarrow> Some (Some x) | _ \<Rightarrow> None)"

definition nullable_intent :: "json_object \<Rightarrow> decomposition_intent option option" where
  "nullable_intent d =
     (case dict_get d ''decomposition_intent'' of
        JNull \<Rightarrow> Some None
      | JObj x \<Rightarrow> (case decomposition_intent_of x of Inl _ \<Rightarrow> None | Inr i \<Rightarrow> Some (Some i))
      | _ \<Rightarrow> None)"

definition revision_meta_ok :: "json_object \<Rightarrow> bool" where
  "revision_meta_ok d \<longleftrightarrow>
     (case dict_get d ''revision_meta'' of
        JObj m \<Rightarrow>
          (case lax_int (dict_get m ''revision'') of None \<Rightarrow> False | Some n \<Rightarrow> 1 \<le> n)
          \<and> required_text m ''actor'' \<in> Some ` {''system'', ''teacher'', ''admin''}
          \<and> required_text m ''source'' \<in>
              Some ` {''code_defaults'', ''policy'', ''env'', ''request'', ''teacher'', ''admin''}
          \<and> text_field 1 200 m ''reason'' \<noteq> None \<and> text_field 1 64 m ''effective_stage'' \<noteq> None
      | _ \<Rightarrow> False)"

definition constant_fields_ok :: "json_object \<Rightarrow> bool" where
  "constant_fields_ok d \<longleftrightarrow>
     text_or d ''education_policy_version'' ''education_policy.v1'' = Some ''education_policy.v1''
     \<and> text_field 1 64 d ''config_version'' \<noteq> None
     \<and> (case dict_get_or d ''publish_targets'' (JList []) of
          JList xs \<Rightarrow> (\<forall>x \<in> set xs. x = JStr ''google_forms'') | _ \<Rightarrow> False)
     \<and> text_or d ''curriculum_framework'' ''general'' \<in> Some ` {''ccss'', ''general'', ''moet_2018'', ''ngss''}
     \<and> revision_meta_ok d"

definition band_or :: "string \<Rightarrow> string" where
  "band_or s = (case grade_band_for_label s of Some b \<Rightarrow> band_text b | None \<Rightarrow> s)"

definition contract_of_json :: "json_object \<Rightarrow> run_contract result" where
  "contract_of_json d =
     (case obind (required_text d ''contract_id'') (\<lambda>cid. obind (required_text d ''run_id'') (\<lambda>r.
           obind (required_text d ''teacher_id'') (\<lambda>t. obind (text_or d ''mode'' ''generate_pack'') (\<lambda>mode.
           obind (required_text d ''topic'') (\<lambda>topic. obind (required_text d ''grade_band'') (\<lambda>band.
           obind (required_text d ''subject'') (\<lambda>subject. obind (required_text d ''locale'') (\<lambda>loc.
           obind (text_or d ''target_language'' ''en'') (\<lambda>target.
           obind (required_text d ''instruction_language'') (\<lambda>language.
           obind (nullable_text d ''curriculum'') (\<lambda>curriculum.
           obind (text_or d ''curriculum_framework'' ''general'') (\<lambda>framework.
           obind (required_text d ''citation_locale'') (\<lambda>citation. obind (required_list d ''artifact_types'') (\<lambda>arts.
           obind (required_list d ''export_formats'') (\<lambda>exps.
           obind (text_or d ''research_policy'' ''standard'') (\<lambda>policy.
           obind (required_text d ''config_hash'') (\<lambda>digest. obind (nullable_object d ''student_evidence'') (\<lambda>evidence.
           obind (nullable_intent d) (\<lambda>intent.
             Some \<lparr>k_contract_id = cid, k_run_id = r, k_teacher_id = t, k_mode = mode, k_topic = topic,
               k_grade_band = band_or band, k_subject = subject, k_locale = loc, k_target_language = target,
               k_instruction_language = language, k_curriculum = curriculum, k_curriculum_framework = framework,
               k_citation_locale = citation, k_artifact_types = arts, k_export_formats = exps,
               k_research_policy = policy, k_config_hash = digest, k_student_evidence = evidence,
               k_decomposition_intent = intent\<rparr>)))))))))))))))))))
      of None \<Rightarrow> Inl (ValidationError ''RunContract'')
       | Some k \<Rightarrow> if constant_fields_ok d then make_contract k else Inl (ValidationError ''RunContract''))"

section \<open>The search plan\<close>

record search_query =
  sq_query :: string
  sq_purpose :: string

record search_plan =
  sp_queries :: "search_query list"
  sp_confirmation_reasons :: "string list"
  sp_topic :: string
  sp_subject :: string

definition requires_confirmation :: "search_plan \<Rightarrow> bool" where
  "requires_confirmation p \<longleftrightarrow> sp_confirmation_reasons p \<noteq> []"

fun json_terms :: "json \<Rightarrow> string list" where
  "json_terms (JStr s) = [s]"
| "json_terms (JList xs) = concat (map json_terms xs)"
| "json_terms (JObj kvs) = concat (map (\<lambda>(k, v). if k \<in> set PII_KEYS then [] else json_terms v) kvs)"
| "json_terms _ = []"

definition evidence_terms :: "(string \<Rightarrow> string) \<Rightarrow> json_object option \<Rightarrow> string" where
  "evidence_terms scrub evidence =
     (case evidence of
        None \<Rightarrow> []
      | Some d \<Rightarrow> scrub (join_words (concat (map (\<lambda>(k, v). if k \<in> set PII_KEYS then [] else json_terms v) d))))"

definition queries_for :: "(string \<Rightarrow> string) \<Rightarrow> run_contract \<Rightarrow> search_query list" where
  "queries_for scrub k =
     (let topic = scrub (k_topic k);
          subject = lower (k_subject k);
          evidence = evidence_terms scrub (k_student_evidence k);
          query = (\<lambda>q purpose. \<lparr>sq_query = q, sq_purpose = purpose\<rparr>)
      in if subject \<in> set MATH_NAMES
         then [query (topic @ '' grade '' @ k_grade_band k @ '' math misconceptions'') ''misconceptions'',
               query (strip (topic @ '' '' @ evidence @ '' teaching intervention'')) ''intervention'']
         else if subject \<in> {''english'', ''esl''}
         then [query (topic @ '' ESL lesson common learner errors'') ''language_errors'',
               query (topic @ '' '' @ k_instruction_language k @ '' scaffolded practice'') ''scaffold'']
         else [query (topic @ '' '' @ k_subject k @ '' key concepts'') ''concepts'',
               query (topic @ '' classroom examples citations'') ''examples''])"

definition search_confirmation_reasons :: "run_contract \<Rightarrow> nat \<Rightarrow> string list" where
  "search_confirmation_reasons k query_count =
     (if k_locale k = ''vi-VN'' \<and> k_curriculum k = None then [''ambiguous_curriculum''] else [])
     @ (if 5 < query_count then [''high_budget''] else [])"

text \<open>The brief's own limits hold for every contract that passed validation.\<close>

definition plan_search :: "(string \<Rightarrow> string) \<Rightarrow> run_contract \<Rightarrow> search_plan" where
  "plan_search scrub k =
     (let queries = queries_for scrub k
      in \<lparr>sp_queries = queries, sp_confirmation_reasons = search_confirmation_reasons k (length queries),
          sp_topic = k_topic k, sp_subject = k_subject k\<rparr>)"

lemma two_queries: "length (queries_for scrub k) = 2"
  by (simp add: queries_for_def Let_def)

text \<open>The budget reason is never given: a plan has two queries.\<close>

lemma plan_needs_confirmation: "requires_confirmation (plan_search scrub k) \<longleftrightarrow> k_locale k = ''vi-VN'' \<and> k_curriculum k = None"
  by (simp add: requires_confirmation_def plan_search_def Let_def search_confirmation_reasons_def two_queries)

section \<open>A dumped contract reads back\<close>

text \<open>\<open>RunContract.model_validate(contract.model_dump(mode="json"))\<close> gives the contract back.\<close>

lemma collect_Some [simp]: "collect (map Some xs) = Some xs" "collect (map (Some \<circ> f) ys) = Some (map f ys)"
  by (induction xs) (simp_all add: obind_def, induction ys, simp_all add: obind_def)

lemma normalized_fixed:
  assumes "contract_fields_ok k"
  shows "normalized_contract k = k"
proof -
  have "\<forall>s \<in> set SUBJECT_KEYS. normalize_subject s = Some s" by code_simp
  then have "normalize_subject (k_subject k) = Some (k_subject k)" using assms by (simp add: contract_fields_ok_def)
  moreover have "\<forall>l \<in> {''en'', ''vi''}. normalize_language l = Some l" by code_simp
  then have "normalize_language (k_target_language k) = Some (k_target_language k)"
      "normalize_language (k_instruction_language k) = Some (k_instruction_language k)"
    using assms by (auto simp: contract_fields_ok_def)
  ultimately show ?thesis by (simp add: normalized_contract_def)
qed

lemma make_contract_Inr: "make_contract k = Inr k' \<Longrightarrow> contract_fields_ok k' \<and> k' = normalized_contract k"
  by (auto simp: make_contract_def Let_def split: if_splits)

lemma band_or_fixed: "s \<in> set (map band_text all_bands) \<Longrightarrow> band_or s = s"
proof -
  have "\<forall>s \<in> set (map band_text all_bands). band_or s = s" by code_simp
  then show "s \<in> set (map band_text all_bands) \<Longrightarrow> band_or s = s" by blast
qed

lemma string_items_JStr [simp]: "string_items (map JStr xs) = Some xs"
  by (induction xs) (simp_all add: string_items_def obind_def)

definition intent_ok :: "decomposition_intent \<Rightarrow> bool" where
  "intent_ok i \<longleftrightarrow> 1 \<le> di_target_sessions i \<and> di_target_sessions i \<le> 20 \<and> 10 \<le> di_session_length_minutes i
     \<and> di_session_length_minutes i \<le> 90 \<and> di_source i \<in> {''teacher'', ''system'', ''admin''}
     \<and> text_between 1 500 (di_rationale i)"

lemma intent_of_ok: "decomposition_intent_of d = Inr i \<Longrightarrow> intent_ok i"
  by (auto simp: decomposition_intent_of_def intent_ok_def split: option.splits json.splits if_splits prod.splits)

lemma intent_round_trip: "intent_ok i \<Longrightarrow> decomposition_intent_of (intent_json i) = Inr i"
  by (simp add: decomposition_intent_of_def intent_json_def intent_ok_def dict_get_def dict_get_or_def)

lemma frameworks: "curriculum_framework_for c \<in> {''ccss'', ''general'', ''moet_2018'', ''ngss''}"
  by (simp add: curriculum_framework_for_def Let_def split: option.splits)

lemma dumped_constants:
  assumes "k_curriculum_framework k \<in> {''ccss'', ''general'', ''moet_2018'', ''ngss''}"
  shows "constant_fields_ok (contract_dump k)"
proof -
  have "text_between 1 64 CONFIG_VERSION" "text_between 1 200 ''initial_contract_setup''" "text_between 1 64 ''setup_contract''"
    by code_simp+
  then show ?thesis using assms
    by (auto simp: constant_fields_ok_def revision_meta_ok_def contract_dump_def text_or_def text_field_def
        required_text_def dict_get_def dict_get_or_def)
qed

lemma dumped_fields:
  "required_text (contract_dump k) ''contract_id'' = Some (k_contract_id k)"
  "required_text (contract_dump k) ''run_id'' = Some (k_run_id k)"
  "required_text (contract_dump k) ''teacher_id'' = Some (k_teacher_id k)"
  "required_text (contract_dump k) ''topic'' = Some (k_topic k)"
  "required_text (contract_dump k) ''grade_band'' = Some (k_grade_band k)"
  "required_text (contract_dump k) ''subject'' = Some (k_subject k)"
  "required_text (contract_dump k) ''locale'' = Some (k_locale k)"
  "required_text (contract_dump k) ''instruction_language'' = Some (k_instruction_language k)"
  "required_text (contract_dump k) ''citation_locale'' = Some (k_citation_locale k)"
  "required_text (contract_dump k) ''config_hash'' = Some (k_config_hash k)"
  "text_or (contract_dump k) ''mode'' v = Some (k_mode k)"
  "text_or (contract_dump k) ''target_language'' v = Some (k_target_language k)"
  "text_or (contract_dump k) ''curriculum_framework'' v = Some (k_curriculum_framework k)"
  "text_or (contract_dump k) ''research_policy'' v = Some (k_research_policy k)"
  "nullable_text (contract_dump k) ''curriculum'' = Some (k_curriculum k)"
  "required_list (contract_dump k) ''artifact_types'' = Some (k_artifact_types k)"
  "required_list (contract_dump k) ''export_formats'' = Some (k_export_formats k)"
  "nullable_object (contract_dump k) ''student_evidence'' = Some (k_student_evidence k)"
  by (simp_all add: required_text_def text_or_def nullable_text_def required_list_def nullable_object_def contract_dump_def
      dict_get_def dict_get_or_def opt_json_def opt_object_def split: option.splits)

lemma contract_reads_back:
  assumes ok: "contract_fields_ok k" and fw: "k_curriculum_framework k \<in> {''ccss'', ''general'', ''moet_2018'', ''ngss''}"
    and intent: "\<And>i. k_decomposition_intent k = Some i \<Longrightarrow> intent_ok i"
  shows "contract_of_json (contract_dump k) = Inr k"
proof -
  have band: "band_or (k_grade_band k) = k_grade_band k"
    using ok band_or_fixed by (simp add: contract_fields_ok_def del: set_map)
  have i: "nullable_intent (contract_dump k) = Some (k_decomposition_intent k)"
    using intent intent_round_trip
    by (cases "k_decomposition_intent k") (simp_all add: nullable_intent_def contract_dump_def dict_get_def opt_object_def)
  have "contract_of_json (contract_dump k) = make_contract k"
    using dumped_constants [OF fw] band i
    by (simp add: contract_of_json_def obind_def dumped_fields)
      (rule arg_cong [where f = make_contract], rule run_contract.equality, simp_all)
  then show ?thesis using ok by (simp add: make_contract_def normalized_fixed Let_def)
qed

lemma build_contract_Inr:
  assumes "build_contract env p raw ev = Inr k"
  shows "contract_fields_ok k" and "k_curriculum_framework k \<in> {''ccss'', ''general'', ''moet_2018'', ''ngss''}"
    and "k_decomposition_intent k = Some i \<Longrightarrow> intent_ok i"
    and "k_run_id k = si_run_id p" and "k_teacher_id k = si_teacher_id p" and "k_contract_id k = ''contract-'' @ si_run_id p"
    and "k_student_evidence k = map_option minimize_student_evidence ev"
proof -
  obtain subject where s: "map_of (si_class_info p) ''subject'' = Some subject"
    using assms by (auto simp: build_contract_def Let_def split: option.splits)
  obtain intent where i: "decomposition_of (si_class_info p) = Inr intent"
    using assms s by (auto simp: build_contract_def Let_def ebind_Inr_iff)
  note m = assms [unfolded build_contract_def Let_def s option.case i ebind.simps]
  note k = conjunct2 [OF make_contract_Inr [OF m]]
  show "contract_fields_ok k" using make_contract_Inr [OF m] ..
  show "k_curriculum_framework k \<in> {''ccss'', ''general'', ''moet_2018'', ''ngss''}"
    using frameworks by (simp add: k normalized_contract_def)
  show "k_decomposition_intent k = Some i \<Longrightarrow> intent_ok i"
    using i intent_of_ok
    by (auto simp: k normalized_contract_def decomposition_of_def ebind_Inr_iff split: json.splits)
  show "k_run_id k = si_run_id p" and "k_teacher_id k = si_teacher_id p" and "k_contract_id k = ''contract-'' @ si_run_id p"
    and "k_student_evidence k = map_option minimize_student_evidence ev"
    by (simp_all add: k normalized_contract_def)
qed

text \<open>The contract a setup answers with, started or held at a gate.\<close>

fun setup_contract :: "contract_setup_result \<Rightarrow> run_contract option" where
  "setup_contract (Setup_Ready k) = Some k"
| "setup_contract (Setup_Gate name payload k) = k"

lemma resolve_contract:
  assumes "resolve_contract_setup env p = Inr s" and "setup_contract s = Some k"
  shows "build_contract env p (strip (si_raw_request p)) (evidence_of (si_class_info p)) = Inr k"
  using assms by (auto simp: resolve_contract_setup_def Let_def ebind_Inr_iff split: if_splits)

end
