(* ===== verification/Backpressure.thy ===== *)
theory Backpressure
  imports Gateway_Db
begin

text \<open>
  Load control: the admission of new runs (\<open>services/gateway/backpressure.py\<close>), the sizing of the worker
  fleet (\<open>autoscaler.py\<close>) and the per-run budget ledger with its table (\<open>budget.py\<close>,
  \<open>budget_db.py\<close>). The autoscaler drives \<open>docker compose\<close>, which is outside: its decision is modelled.
\<close>

section \<open>Admission\<close>

definition ACTIVE_STATUSES :: "run_status list" where
  "ACTIVE_STATUSES = [PENDING, PLANNING, RESEARCHING, GENERATING, REVIEWING, AWAITING_APPROVAL, EXPORTING]"

record backpressure_config =
  max_active_runs_per_teacher :: nat
  max_queued_runs_per_teacher :: nat
  max_total_active_runs :: nat
  max_total_queued_runs :: nat
  queue_delay_seconds :: int

definition default_backpressure_config :: backpressure_config where
  "default_backpressure_config = \<lparr>max_active_runs_per_teacher = 3, max_queued_runs_per_teacher = 5,
     max_total_active_runs = 20, max_total_queued_runs = 50, queue_delay_seconds = 30\<rparr>"

record backpressure_result =
  bp_allowed :: bool
  bp_queued :: bool
  bp_reason :: string
  bp_active_for_teacher :: nat
  bp_queued_for_teacher :: nat
  bp_total_active :: nat
  bp_total_queued :: nat
  bp_eligible_at :: "instant option"

definition count_active :: "(run_row \<Rightarrow> bool) \<Rightarrow> run_row list \<Rightarrow> nat" where
  "count_active p rows = length (filter (\<lambda>r. p r \<and> run_status r \<in> set ACTIVE_STATUSES) rows)"

definition count_queued :: "(string \<Rightarrow> bool) \<Rightarrow> jobs \<Rightarrow> nat" where
  "count_queued p js = length (filter (\<lambda>j. p (job_run_id j) \<and> job_status j = JOB_QUEUED) js)"

definition check_backpressure ::
  "string \<Rightarrow> backpressure_config \<Rightarrow> instant \<Rightarrow> run_row list \<Rightarrow> jobs \<Rightarrow> backpressure_result" where
  "check_backpressure teacher cfg now rows js =
     (let active = count_active (\<lambda>r. run_teacher_id r = teacher) rows;
          total_active = count_active (\<lambda>_. True) rows;
          teacher_run_ids = map run_id (filter (\<lambda>r. run_teacher_id r = teacher) rows);
          queued = count_queued (\<lambda>r. r \<in> set teacher_run_ids) js;
          total_queued = count_queued (\<lambda>_. True) js;
          answer = (\<lambda>allowed is_queued reason eligible.
            \<lparr>bp_allowed = allowed, bp_queued = is_queued, bp_reason = reason, bp_active_for_teacher = active,
             bp_queued_for_teacher = queued, bp_total_active = total_active, bp_total_queued = total_queued,
             bp_eligible_at = eligible\<rparr>)
      in if active < max_active_runs_per_teacher cfg \<and> total_active < max_total_active_runs cfg
         then answer True False ''ok'' None
         else if max_queued_runs_per_teacher cfg \<le> queued
         then answer False False
           (''per_teacher_queue_limit:'' @ show_nat queued @ ''/'' @ show_nat (max_queued_runs_per_teacher cfg)) None
         else if max_total_queued_runs cfg \<le> total_queued
         then answer False False
           (''global_queue_limit:'' @ show_nat total_queued @ ''/'' @ show_nat (max_total_queued_runs cfg)) None
         else answer False True ''queued'' (Some (now + seconds (queue_delay_seconds cfg))))"

section \<open>The worker fleet\<close>

record autoscale_config =
  floor_replicas :: int
  max_replicas :: int
  jobs_per_worker :: int
  worker_concurrency :: int
  provider_max_concurrent_requests :: int
  breaker_providers :: "string list"
  redis_url :: "string option"

definition effective_ceiling :: "autoscale_config \<Rightarrow> int" where
  "effective_ceiling cfg =
     (let provider_ceiling = max 1 (provider_max_concurrent_requests cfg div max 1 (worker_concurrency cfg))
      in max (floor_replicas cfg) (min (max_replicas cfg) provider_ceiling))"

definition compute_desired_replicas :: "int \<Rightarrow> autoscale_config \<Rightarrow> bool \<Rightarrow> int" where
  "compute_desired_replicas queue_depth cfg breaker_open =
     (if queue_depth \<le> 0 then floor_replicas cfg
      else if breaker_open then floor_replicas cfg
      else max (floor_replicas cfg)
             (min (effective_ceiling cfg) (- ((- queue_depth) div max 1 (jobs_per_worker cfg)))))"

text \<open>\<open>store_get\<close> reads the stored state of a breaker; \<open>None\<close> for the whole store means it is unreachable.\<close>

definition any_provider_breaker_open ::
  "string list \<Rightarrow> string option \<Rightarrow> (string \<Rightarrow> string option) option \<Rightarrow> bool" where
  "any_provider_breaker_open providers url store =
     (if providers = [] \<or> url = None \<or> url = Some [] then False
      else case store of
          None \<Rightarrow> False
        | Some store_get \<Rightarrow> (\<exists>p \<in> set providers. store_get (''cb:provider:'' @ p) = Some ''open''))"

definition compute_target_replicas ::
  "autoscale_config \<Rightarrow> (string \<Rightarrow> string option) option \<Rightarrow> instant \<Rightarrow> jobs \<Rightarrow> int" where
  "compute_target_replicas cfg store now js =
     compute_desired_replicas (int (count_claimable_run_jobs now js)) cfg
       (any_provider_breaker_open (breaker_providers cfg) (redis_url cfg) store)"

section \<open>Budgets\<close>

record budget_config =
  max_tokens_per_run :: int
  max_searches_per_run :: int
  max_fetches_per_run :: int
  max_retries_per_artifact :: int
  max_parallel_artifacts :: int

record budget_ledger =
  tokens_used :: int
  searches_used :: int
  fetches_used :: int
  retries_used :: "(string \<times> int) list"

definition empty_ledger :: budget_ledger where
  "empty_ledger = \<lparr>tokens_used = 0, searches_used = 0, fetches_used = 0, retries_used = []\<rparr>"

definition check_budget :: "budget_ledger \<Rightarrow> budget_config \<Rightarrow> string \<Rightarrow> bool" where
  "check_budget l cfg check =
     (if check = ''tokens'' then tokens_used l < max_tokens_per_run cfg
      else if check = ''searches'' then searches_used l < max_searches_per_run cfg
      else if check = ''fetches'' then fetches_used l < max_fetches_per_run cfg
      else if check = ''retries''
      then (\<exists>(a, n) \<in> set (retries_used l). n < max_retries_per_artifact cfg) \<or> retries_used l = []
      else check = ''parallel_artifacts'')"

definition record_usage :: "budget_ledger \<Rightarrow> string \<Rightarrow> int \<Rightarrow> budget_ledger" where
  "record_usage l check amount =
     (if check = ''tokens'' then l\<lparr>tokens_used := tokens_used l + amount\<rparr>
      else if check = ''searches'' then l\<lparr>searches_used := searches_used l + amount\<rparr>
      else if check = ''fetches'' then l\<lparr>fetches_used := fetches_used l + amount\<rparr>
      else l)"

definition record_retry :: "budget_ledger \<Rightarrow> string \<Rightarrow> budget_ledger" where
  "record_retry l artifact =
     l\<lparr>retries_used := AList.update artifact (the_default 0 (map_of (retries_used l) artifact) + 1) (retries_used l)\<rparr>"

text \<open>The table of ledgers is keyed by run; the upsert replaces every counter.\<close>

type_synonym budget_table = "(string \<times> budget_ledger) list"

definition save_budget_ledger :: "string \<Rightarrow> budget_ledger \<Rightarrow> budget_table \<Rightarrow> budget_table" where
  "save_budget_ledger r l t = AList.update r l t"

definition load_budget_ledger :: "string \<Rightarrow> budget_table \<Rightarrow> budget_ledger" where
  "load_budget_ledger r t = the_default empty_ledger (map_of t r)"

definition budget_ledger_payload :: "budget_ledger \<Rightarrow> json_object" where
  "budget_ledger_payload l =
     [(''tokens_used'', JInt (tokens_used l)), (''searches_used'', JInt (searches_used l)),
      (''fetches_used'', JInt (fetches_used l)),
      (''retries_used'', JObj (map (\<lambda>(a, n). (a, JInt n)) (retries_used l)))]"

definition save_budget_ledger_with_event ::
  "instant \<Rightarrow> string \<Rightarrow> budget_ledger \<Rightarrow> budget_table \<times> pack_db \<Rightarrow> (budget_table \<times> pack_db) result" where
  "save_budget_ledger_with_event now r l = (\<lambda>(t, p).
     ebind (write_event now \<lparr>ec_run_id = r, ec_event_name = ''teaching_pack.budget.ledger_recorded'',
              ec_visibility = VIS_INTERNAL, ec_stage = None, ec_payload = Some (budget_ledger_payload l)\<rparr> p)
       (\<lambda>(_, p'). Inr (save_budget_ledger r l t, p')))"

section \<open>Laws of the fleet\<close>

text \<open>The backlog per worker is rounded up.\<close>

lemma ceil_div: "0 < d \<Longrightarrow> n \<le> - ((- n) div d) * d \<and> - ((- n) div d) * d < n + (d :: int)"
proof -
  assume d: "0 < d"
  have "- n = (- n) div d * d + (- n) mod d" by simp
  moreover have "0 \<le> (- n) mod d" "(- n) mod d < d" using d by simp_all
  ultimately show ?thesis by (smt (verit) mult_minus_left)
qed

text \<open>
  The fleet is never sized below its floor or above its ceiling; with a closed breaker and
  a backlog it has just enough workers for the backlog unless the ceiling stops it; with an open breaker it
  falls back to the floor. It keeps within the provider's budget of concurrent requests whenever the floor
  and a single worker do.
\<close>
lemma replicas_bounded:
  shows "floor_replicas cfg \<le> compute_desired_replicas n cfg open"
    and "compute_desired_replicas n cfg open \<le> effective_ceiling cfg"
    and "open \<or> n \<le> 0 \<longrightarrow> compute_desired_replicas n cfg open = floor_replicas cfg"
    and "\<not> open \<and> 0 < n \<and> compute_desired_replicas n cfg open < effective_ceiling cfg \<longrightarrow>
      n \<le> compute_desired_replicas n cfg open * max 1 (jobs_per_worker cfg)"
    and "floor_replicas cfg \<le> max 1 (provider_max_concurrent_requests cfg div max 1 (worker_concurrency cfg))
      \<and> worker_concurrency cfg \<le> provider_max_concurrent_requests cfg \<and> 0 < worker_concurrency cfg \<longrightarrow>
      compute_desired_replicas n cfg open * worker_concurrency cfg \<le> provider_max_concurrent_requests cfg"
proof -
  let ?d = "max 1 (jobs_per_worker cfg)" and ?w = "- ((- n) div max 1 (jobs_per_worker cfg))"
  show low: "floor_replicas cfg \<le> compute_desired_replicas n cfg open"
    by (simp add: compute_desired_replicas_def)
  show high: "compute_desired_replicas n cfg open \<le> effective_ceiling cfg"
    by (simp add: compute_desired_replicas_def effective_ceiling_def Let_def)
  show "open \<or> n \<le> 0 \<longrightarrow> compute_desired_replicas n cfg open = floor_replicas cfg"
    by (simp add: compute_desired_replicas_def)
  show "\<not> open \<and> 0 < n \<and> compute_desired_replicas n cfg open < effective_ceiling cfg \<longrightarrow>
      n \<le> compute_desired_replicas n cfg open * ?d"
  proof (intro impI, elim conjE)
    assume a: "\<not> open" "0 < n" "compute_desired_replicas n cfg open < effective_ceiling cfg"
    then have "?w \<le> compute_desired_replicas n cfg open"
      by (auto simp: compute_desired_replicas_def)
    moreover have "n \<le> ?w * ?d" using ceil_div [of ?d n] by simp
    ultimately show "n \<le> compute_desired_replicas n cfg open * ?d"
      by (smt (verit) mult_right_mono)
  qed
  show "floor_replicas cfg \<le> max 1 (provider_max_concurrent_requests cfg div max 1 (worker_concurrency cfg))
      \<and> worker_concurrency cfg \<le> provider_max_concurrent_requests cfg \<and> 0 < worker_concurrency cfg \<longrightarrow>
      compute_desired_replicas n cfg open * worker_concurrency cfg \<le> provider_max_concurrent_requests cfg"
  proof (intro impI, elim conjE)
    let ?p = "provider_max_concurrent_requests cfg" and ?c = "worker_concurrency cfg"
    assume a: "floor_replicas cfg \<le> max 1 (?p div max 1 ?c)" "?c \<le> ?p" "0 < ?c"
    have "1 \<le> ?p div ?c" using a(2,3) by (metis div_self less_irrefl zdiv_mono1)
    then have "effective_ceiling cfg \<le> ?p div ?c"
      using a by (auto simp: effective_ceiling_def Let_def max_def min_def split: if_splits)
    with high have "compute_desired_replicas n cfg open * ?c \<le> ?p div ?c * ?c"
      using a(3) by (intro mult_right_mono) linarith+
    also have "\<dots> \<le> ?p" using a(3) by (smt (verit) div_mult_mod_eq pos_mod_sign)
    finally show "compute_desired_replicas n cfg open * ?c \<le> ?p" .
  qed
qed

section \<open>Laws of the budget\<close>

text \<open>The counters only grow, and saving and loading a ledger gives it back.\<close>

lemma load_save_ledger [simp]: "load_budget_ledger r (save_budget_ledger r l t) = l"
  by (simp add: load_budget_ledger_def save_budget_ledger_def update_conv')

lemma load_save_other: "r \<noteq> r' \<Longrightarrow> load_budget_ledger r (save_budget_ledger r' l t) = load_budget_ledger r t"
  by (simp add: load_budget_ledger_def save_budget_ledger_def update_conv')

text \<open>
  The check of retries answers for the run as a whole: an artifact that used up its retries may be retried
  as long as any artifact has some left.
\<close>

lemma exhausted_artifact_may_retry:
  assumes "b \<noteq> a" and "n < max_retries_per_artifact cfg"
  shows "check_budget (l\<lparr>retries_used := [(a, m), (b, n)]\<rparr>) cfg ''retries''"
  using assms by (simp add: check_budget_def)

end
