(* ===== verification/Run_Api.thy ===== *)
theory Run_Api
  imports Teaching_Brief Search_Plan Backpressure Worker Auth Retention
begin

text \<open>
  The teacher's operations on runs: creation (\<open>services/gateway/run_creation.py\<close>), the routes that create,
  resume, revise, cancel and read runs (\<open>routers/teaching_pack_runs.py\<close>, \<open>teaching_pack_lifecycle.py\<close>,
  \<open>teaching_pack_deps.py\<close>, the launch of \<open>routers/teaching_briefs.py\<close>), the registry of gates and their
  actions (\<open>teaching_pack_gate_registry.py\<close>), idempotency keys (\<open>teaching_pack_idempotency.py\<close>), the edits
  of a contract confirmation (\<open>contract_confirmation_edits.py\<close>) and the search plan gate
  (\<open>research_gate.py\<close>, \<open>teaching_pack_search_resume.py\<close>). A route runs in one session that it commits at
  its end, so a route that raises leaves the tables as they were. Fresh ids are arguments. The digests
  and \<open>orjson\<close> are parameters.
\<close>

section \<open>Gates and actions\<close>

datatype gate_label =
    CLARIFICATION_REQUIRED | CONTRACT_CONFIRMATION | SOURCE_CONFLICT | SEARCH_PLAN_CONFIRMATION
  | BLUEPRINT_APPROVAL | CONTENT_APPROVAL | UNIT_APPROVAL

datatype gate_action = ANSWER | APPROVE | APPROVE_SELECTED | REJECT | REJECT_SELECTED | EDIT

fun gate_label_value :: "gate_label \<Rightarrow> string" where
  "gate_label_value CLARIFICATION_REQUIRED = ''clarification_required''"
| "gate_label_value CONTRACT_CONFIRMATION = ''contract_confirmation''"
| "gate_label_value SOURCE_CONFLICT = ''source_conflict''"
| "gate_label_value SEARCH_PLAN_CONFIRMATION = ''search_plan_confirmation''"
| "gate_label_value BLUEPRINT_APPROVAL = ''blueprint_approval''"
| "gate_label_value CONTENT_APPROVAL = ''content_approval''"
| "gate_label_value UNIT_APPROVAL = ''unit_approval''"

fun gate_action_value :: "gate_action \<Rightarrow> string" where
  "gate_action_value ANSWER = ''answer''"
| "gate_action_value APPROVE = ''approve''"
| "gate_action_value APPROVE_SELECTED = ''approve_selected''"
| "gate_action_value REJECT = ''reject''"
| "gate_action_value REJECT_SELECTED = ''reject_selected''"
| "gate_action_value EDIT = ''edit''"

definition all_gate_labels :: "gate_label list" where
  "all_gate_labels = [CLARIFICATION_REQUIRED, CONTRACT_CONFIRMATION, SOURCE_CONFLICT, SEARCH_PLAN_CONFIRMATION,
     BLUEPRINT_APPROVAL, CONTENT_APPROVAL, UNIT_APPROVAL]"

definition all_gate_actions :: "gate_action list" where
  "all_gate_actions = [ANSWER, APPROVE, APPROVE_SELECTED, REJECT, REJECT_SELECTED, EDIT]"

fun allowed_actions_for_gate :: "gate_label \<Rightarrow> gate_action list" where
  "allowed_actions_for_gate CLARIFICATION_REQUIRED = [ANSWER]"
| "allowed_actions_for_gate CONTRACT_CONFIRMATION = [APPROVE, EDIT, REJECT]"
| "allowed_actions_for_gate SOURCE_CONFLICT = [APPROVE, EDIT, REJECT]"
| "allowed_actions_for_gate SEARCH_PLAN_CONFIRMATION = [APPROVE, EDIT]"
| "allowed_actions_for_gate BLUEPRINT_APPROVAL = [APPROVE, REJECT, EDIT]"
| "allowed_actions_for_gate CONTENT_APPROVAL = [APPROVE, APPROVE_SELECTED, REJECT, REJECT_SELECTED, EDIT]"
| "allowed_actions_for_gate UNIT_APPROVAL = [APPROVE, REJECT, EDIT]"

datatype gate_validation = Gate_Accepted gate_label gate_action | Gate_Rejected string

definition validate_gate_response :: "string \<Rightarrow> string \<Rightarrow> gate_validation" where
  "validate_gate_response gate action =
     (case find_value gate_label_value all_gate_labels gate of
        None \<Rightarrow> Gate_Rejected ''unknown_gate''
      | Some g \<Rightarrow>
          (case find_value gate_action_value all_gate_actions action of
             None \<Rightarrow> Gate_Rejected ''unknown_action''
           | Some a \<Rightarrow>
               if a \<notin> set (allowed_actions_for_gate g) then Gate_Rejected ''action_not_allowed''
               else Gate_Accepted g a))"

section \<open>Environment\<close>

record api_env =
  ae_setup :: setup_env
  ae_sha :: "string \<Rightarrow> string"
  ae_hash_json :: "json \<Rightarrow> string"
  ae_json_size :: "json_object \<Rightarrow> nat"
  ae_scrub :: "string \<Rightarrow> string"
  ae_users :: "users_row list"
  ae_max_raw_request_chars :: nat
  ae_max_class_info_bytes :: nat

record fresh_ids =
  id_run :: string
  id_job :: string
  id_gate :: string
  id_response :: string

definition scoped_idempotency_key :: "api_env \<Rightarrow> string \<Rightarrow> string \<Rightarrow> string \<Rightarrow> string" where
  "scoped_idempotency_key env namespace teacher value =
     ''idem:'' @ namespace @ '':'' @ ae_sha env (namespace @ '':'' @ teacher @ '':'' @ value)"

definition scoped_create_idempotency_key :: "api_env \<Rightarrow> string \<Rightarrow> string \<Rightarrow> string" where
  "scoped_create_idempotency_key env teacher key = scoped_idempotency_key env ''create'' teacher key"

definition scoped_resume_idempotency_key :: "api_env \<Rightarrow> string \<Rightarrow> string \<Rightarrow> string \<Rightarrow> string" where
  "scoped_resume_idempotency_key env r teacher key =
     scoped_idempotency_key env ''resume'' teacher (r @ '':'' @ key)"

definition http_error :: "nat \<Rightarrow> string \<Rightarrow> exc" where
  "http_error code detail = Py_Exc (HTTPException code detail)"

text \<open>A route: what it wrote is kept only when it reaches its commit.\<close>

definition route :: "'a action \<Rightarrow> 'a action" where
  "route m db = (case m db of (db', Inr x) \<Rightarrow> (db', Inr x) | (_, Inl e) \<Rightarrow> (db, Inl e))"

definition do_create_run :: "run_create \<Rightarrow> unit action" where
  "do_create_run p = on_pack (\<lambda>db. unit_result (create_run p db))"

definition do_create_contract :: "run_contract_create \<Rightarrow> unit action" where
  "do_create_contract p db = on_control (\<lambda>c. unit_result (create_contract (run_exists (g_pack db)) p c)) db"

definition do_enqueue :: "instant \<Rightarrow> run_job_create \<Rightarrow> run_job_read action" where
  "do_enqueue now p db = on_jobs (enqueue (run_exists (g_pack db)) now p) db"

definition do_find_job :: "string \<Rightarrow> run_job_read option action" where
  "do_find_job key = act_get (\<lambda>db. find_by_idempotency_key key (g_jobs db))"

definition do_cancel_jobs :: "string \<Rightarrow> nat action" where
  "do_cancel_jobs r = on_jobs (\<lambda>js. Inr (cancel_run_jobs r js))"

definition do_cancel_gates :: "string \<Rightarrow> nat action" where
  "do_cancel_gates r = on_control (\<lambda>c. Inr (cancel_active_gates r c))"

section \<open>Creating a run\<close>

record run_created =
  cr_run_id :: string
  cr_job_id :: "string option"
  cr_status :: run_status
  cr_queued :: bool

definition contract_create :: "run_contract \<Rightarrow> string \<Rightarrow> run_contract_create" where
  "contract_create k r = \<lparr>rcc_contract_id = k_contract_id k, rcc_run_id = r, rcc_teacher_id = k_teacher_id k,
     rcc_contract_json = contract_dump k\<rparr>"

definition create_ready_run ::
  "instant \<Rightarrow> fresh_ids \<Rightarrow> run_contract \<Rightarrow> string \<Rightarrow> string option \<Rightarrow> string \<Rightarrow> instant option \<Rightarrow> run_created action" where
  "create_ready_run now ids k request_hash key raw eligible_at =
     (let job = ''job-'' @ id_job ids
      in act_bind (do_create_contract (contract_create k (k_run_id k))) (\<lambda>_.
         act_bind (do_write_event now (k_run_id k) ''teaching_pack.run.accepted'' VIS_TEACHER
           [(''job_id'', JStr job)]) (\<lambda>_.
         act_bind (do_enqueue now
           \<lparr>jc_job_id = job, jc_run_id = k_run_id k, jc_kind = START,
            jc_idempotency_key =
              (case nonempty key of Some s \<Rightarrow> s | None \<Rightarrow> ''start:'' @ k_run_id k),
            jc_payload = [(''source'', JStr ''http_create''), (''request_hash'', JStr request_hash),
              (''contract'', JObj (contract_dump k)), (''raw_request'', JStr raw)],
            jc_eligible_at = eligible_at\<rparr>) (\<lambda>j.
         act_return \<lparr>cr_run_id = jr_run_id j, cr_job_id = Some (jr_job_id j), cr_status = PENDING,
           cr_queued = (eligible_at \<noteq> None)\<rparr>))))"

definition gate_notice :: "string \<Rightarrow> string \<Rightarrow> string \<Rightarrow> notice" where
  "gate_notice r teacher gate = \<lparr>notice_run_id = r, notice_teacher_id = teacher,
     notice_kind = (if gate = ''contract_confirmation'' then ''contract_confirmation'' else ''clarification_required''),
     notice_text = gate\<rparr>"

definition create_gated_run ::
  "instant \<Rightarrow> fresh_ids \<Rightarrow> string \<Rightarrow> json_object \<Rightarrow> run_contract option \<Rightarrow> string \<Rightarrow> string option \<Rightarrow> run_created action" where
  "create_gated_run now ids gate payload contract request_hash key =
     (let r = id_run ids; gate_id = ''gate-'' @ id_gate ids
      in act_bind (case contract of None \<Rightarrow> act_return () | Some k \<Rightarrow> do_create_contract (contract_create k r)) (\<lambda>_.
         act_bind (do_open_gate now \<lparr>gc_gate_id = gate_id, gc_run_id = r, gc_gate_name = gate,
           gc_payload = dict_merge [(''gate_id'', JStr gate_id)] payload\<rparr>) (\<lambda>_.
         act_bind (do_transition now r AWAITING_APPROVAL (Some ''setup_contract'') (Some gate)) (\<lambda>_.
         act_bind (do_write_event now r (''teaching_pack.'' @ gate @ ''.opened'') VIS_TEACHER
           [(''gate_id'', JStr gate_id), (''gate_name'', JStr gate)]) (\<lambda>_.
         act_bind (do_get_run r) (\<lambda>run.
         act_bind (case run of None \<Rightarrow> act_return () | Some x \<Rightarrow> add_notice (gate_notice r (rr_teacher_id x) gate)) (\<lambda>_.
         act_bind (case key of
             None \<Rightarrow> act_return ()
           | Some s \<Rightarrow>
               act_bind (do_enqueue now
                 \<lparr>jc_job_id = ''job-'' @ id_job ids, jc_run_id = r, jc_kind = START, jc_idempotency_key = s,
                  jc_payload = [(''source'', JStr ''http_create''), (''request_hash'', JStr request_hash),
                    (''blocked_by_gate'', JStr gate)], jc_eligible_at = None\<rparr>) (\<lambda>_.
               act_bind (do_cancel_jobs r) (\<lambda>_. act_return ()))) (\<lambda>_.
         act_return \<lparr>cr_run_id = r, cr_job_id = None, cr_status = AWAITING_APPROVAL, cr_queued = False\<rparr>))))))))"

definition placeholder_sequence :: "run_contract \<Rightarrow> json_object" where
  "placeholder_sequence k =
     [(''schema_version'', JStr ''lesson_sequence.placeholder.v1''), (''topic'', JStr (k_topic k)),
      (''target_sessions'', JInt (case k_decomposition_intent k of None \<Rightarrow> 1 | Some i \<Rightarrow> di_target_sessions i)),
      (''status'', JStr ''awaiting_unit_planning'')]"

definition set_unit_parent :: "string \<Rightarrow> json_object \<Rightarrow> pack_db \<Rightarrow> pack_db" where
  "set_unit_parent r seq p = p\<lparr>runs := update_where (\<lambda>x. run_id x = r)
     (\<lambda>x. x\<lparr>run_unit_role := UNIT_PARENT, run_lesson_sequence := Some seq\<rparr>) (runs p)\<rparr>"

definition mark_unit_parent_if_needed :: "run_contract \<Rightarrow> unit action" where
  "mark_unit_parent_if_needed k =
     (if k_mode k \<noteq> ''plan_unit'' then act_return ()
      else on_pack (\<lambda>p. ebind (scalar_one (filter (\<lambda>x. run_id x = k_run_id k) (runs p)))
        (\<lambda>_. Inr ((), set_unit_parent (k_run_id k) (placeholder_sequence k) p))))"

definition create_teaching_pack_run_record ::
  "api_env \<Rightarrow> instant \<Rightarrow> fresh_ids \<Rightarrow> string \<Rightarrow> string \<Rightarrow> json_object \<Rightarrow> string \<Rightarrow> string option \<Rightarrow> instant option
   \<Rightarrow> run_created action" where
  "create_teaching_pack_run_record env now ids teacher raw class_info request_hash key eligible_at =
     (let r = id_run ids; info = minimize_class_info class_info
      in act_bind (do_create_run \<lparr>rc_run_id = r, rc_teacher_id = teacher, rc_raw_request = raw,
           rc_class_info = info, rc_retention_days = Some (retention_days_for_class_info info),
           rc_organization_id = None\<rparr>) (\<lambda>_.
         act_bind (act_get (\<lambda>_. resolve_contract_setup (ae_setup env)
           \<lparr>si_run_id = r, si_teacher_id = teacher, si_raw_request = raw, si_class_info = info\<rparr>)) (\<lambda>setup.
           case setup of
             Setup_Ready k \<Rightarrow>
               act_bind (mark_unit_parent_if_needed k)
                 (\<lambda>_. create_ready_run now ids k request_hash key raw eligible_at)
           | Setup_Gate gate payload contract \<Rightarrow>
               act_bind (case contract of None \<Rightarrow> act_return () | Some k \<Rightarrow> mark_unit_parent_if_needed k)
                 (\<lambda>_. create_gated_run now ids gate payload contract request_hash key))))"

definition enforce_payload_size_limits :: "api_env \<Rightarrow> string \<Rightarrow> json_object \<Rightarrow> unit action" where
  "enforce_payload_size_limits env raw class_info =
     (if ae_max_raw_request_chars env < text_length raw
      then act_raise (http_error 413 (''raw_request exceeds '' @ show_nat (ae_max_raw_request_chars env) @ '' characters''))
      else if ae_max_class_info_bytes env < ae_json_size env class_info
      then act_raise (http_error 413 (''class_info exceeds '' @ show_nat (ae_max_class_info_bytes env) @ '' bytes''))
      else act_return ())"

definition admit_run :: "backpressure_config \<Rightarrow> instant \<Rightarrow> string \<Rightarrow> backpressure_result action" where
  "admit_run cfg now teacher =
     act_bind (act_get (\<lambda>db. Inr (check_backpressure teacher cfg now (runs (g_pack db)) (g_jobs db)))) (\<lambda>bp.
       if \<not> bp_allowed bp \<and> \<not> bp_queued bp then act_raise (http_error 429 (bp_reason bp)) else act_return bp)"

definition create_request_hash :: "api_env \<Rightarrow> string \<Rightarrow> json_object \<Rightarrow> string" where
  "create_request_hash env raw class_info =
     ae_hash_json env (JObj [(''raw_request'', JStr raw), (''class_info'', JObj class_info)])"

text \<open>The answer for a job that an earlier request with the same key left.\<close>

definition replayed_creation :: "string \<Rightarrow> run_job_read \<Rightarrow> run_created action" where
  "replayed_creation request_hash j =
     (if dict_get (jr_payload j) ''request_hash'' \<noteq> JStr request_hash
      then act_raise (http_error 409 ''idempotency_conflict'')
      else if dict_get (jr_payload j) ''blocked_by_gate'' \<noteq> JNull
      then act_return \<lparr>cr_run_id = jr_run_id j, cr_job_id = None, cr_status = AWAITING_APPROVAL, cr_queued = False\<rparr>
      else act_return \<lparr>cr_run_id = jr_run_id j, cr_job_id = Some (jr_job_id j), cr_status = PENDING, cr_queued = False\<rparr>)"

definition create_teaching_pack_run ::
  "api_env \<Rightarrow> backpressure_config \<Rightarrow> instant \<Rightarrow> fresh_ids \<Rightarrow> user \<Rightarrow> string \<Rightarrow> json_object \<Rightarrow> string option
   \<Rightarrow> run_created action" where
  "create_teaching_pack_run env cfg now ids u raw class_info idempotency_key =
     route (act_bind (enforce_payload_size_limits env raw class_info) (\<lambda>_.
       let teacher = user_user_id u;
           request_hash = create_request_hash env raw class_info;
           scoped = map_option (scoped_create_idempotency_key env teacher) idempotency_key
       in act_bind (case scoped of None \<Rightarrow> act_return None | Some s \<Rightarrow> do_find_job s) (\<lambda>existing.
          case existing of
            Some j \<Rightarrow> replayed_creation request_hash j
          | None \<Rightarrow>
              act_bind (admit_run cfg now teacher) (\<lambda>bp.
              create_teaching_pack_run_record env now ids teacher raw class_info request_hash scoped
                (bp_eligible_at bp)))))"

text \<open>Launching a stored brief, without an idempotency key.\<close>

definition launch_teaching_brief ::
  "api_env \<Rightarrow> backpressure_config \<Rightarrow> instant \<Rightarrow> fresh_ids \<Rightarrow> user \<Rightarrow> string \<Rightarrow> json \<Rightarrow> brief_row list
   \<Rightarrow> run_created action" where
  "launch_teaching_brief env cfg now ids u brief_id dump rows =
     route (act_bind (act_get (\<lambda>_. brief_get brief_id (user_user_id u) rows)) (\<lambda>stored.
       case stored of
         None \<Rightarrow> act_raise (http_error 404 ''brief_not_found'')
       | Some row \<Rightarrow>
           act_bind (admit_run cfg now (user_user_id u)) (\<lambda>bp.
           create_teaching_pack_run_record env now ids (user_user_id u) (b_raw_request (br_brief row))
             (class_info_with_materiality (br_brief row))
             (ae_hash_json env (JObj [(''brief_id'', JStr brief_id), (''brief'', dump)])) None (bp_eligible_at bp))))"

section \<open>Access to a run\<close>

definition deleted_in_pack :: "string \<Rightarrow> pack_db \<Rightarrow> bool result" where
  "deleted_in_pack r p =
     ebind (scalar_one_or_none (filter (\<lambda>x. run_id x = r) (runs p)))
       (\<lambda>found. Inr (case found of None \<Rightarrow> False | Some x \<Rightarrow> run_deleted_at x \<noteq> None))"

definition owned_run :: "bool \<Rightarrow> users_row list \<Rightarrow> string \<Rightarrow> user \<Rightarrow> pack_db \<Rightarrow> run_read result" where
  "owned_run want_deleted users r u p =
     ebind (if user_role u = Role_SYSTEM_ADMIN then get_run_by_id p r else get_run p r (user_user_id u)) (\<lambda>run.
       case run of
         None \<Rightarrow> Inl (HTTPException 404 ''run_not_found'')
       | Some x \<Rightarrow>
           ebind (deleted_in_pack r p) (\<lambda>deleted.
           if deleted \<noteq> want_deleted then Inl (HTTPException 404 ''run_not_found'')
           else ebind (check_run_owner users (runs p) r u) (\<lambda>owner.
             if \<not> owner then Inl (HTTPException 403 ''not_run_owner'') else Inr x)))"

definition get_run_with_ownership :: "users_row list \<Rightarrow> string \<Rightarrow> user \<Rightarrow> pack_db \<Rightarrow> run_read result" where
  "get_run_with_ownership = owned_run False"

definition get_deleted_run_with_ownership :: "users_row list \<Rightarrow> string \<Rightarrow> user \<Rightarrow> pack_db \<Rightarrow> run_read result" where
  "get_deleted_run_with_ownership = owned_run True"

definition get_run_with_reviewer_access ::
  "users_row list \<Rightarrow> run_delegation list \<Rightarrow> string \<Rightarrow> user \<Rightarrow> pack_db \<Rightarrow> run_read result" where
  "get_run_with_reviewer_access users dels r u p =
     ebind (get_run_by_id p r) (\<lambda>run.
       case run of
         None \<Rightarrow> Inl (HTTPException 404 ''run_not_found'')
       | Some x \<Rightarrow>
           ebind (deleted_in_pack r p) (\<lambda>deleted.
           if deleted then Inl (HTTPException 404 ''run_not_found'')
           else ebind (check_run_reviewer users (runs p) dels r u) (\<lambda>reviewer.
             if \<not> reviewer then Inl (HTTPException 403 ''not_run_reviewer'') else Inr x)))"

definition require_owned :: "api_env \<Rightarrow> string \<Rightarrow> user \<Rightarrow> run_read action" where
  "require_owned env r u = act_get (\<lambda>db. get_run_with_ownership (ae_users env) r u (g_pack db))"

section \<open>Answering a gate\<close>

record resume_request =
  rq_gate_id :: string
  rq_gate_name :: string
  rq_action :: string
  rq_response :: json_object

record resume_accepted =
  ra_run_id :: string
  ra_response_id :: string
  ra_job_id :: "string option"

text \<open>Membership of an unhashable value in a set raises.\<close>

definition contract_confirmation_edits :: "json_object \<Rightarrow> json_object result" where
  "contract_confirmation_edits response =
     ebind (case dict_get response ''mode'' of
         JList _ \<Rightarrow> Inl (TypeError ''unhashable type'')
       | JObj _ \<Rightarrow> Inl (TypeError ''unhashable type'')
       | JStr m \<Rightarrow> Inr (if m \<in> {''generate_pack'', ''plan_unit'', ''diagnose_then_generate''}
           then [(''mode'', JStr m)] else [])
       | _ \<Rightarrow> Inr [])
       (\<lambda>edits. case dict_get response ''decomposition_intent'' of
          JObj d \<Rightarrow> (case decomposition_intent_of d of
              Inl _ \<Rightarrow> Inr edits
            | Inr intent \<Rightarrow> Inr (edits @ [(''decomposition_intent'', JObj (intent_json intent))]))
        | _ \<Rightarrow> Inr edits)"

definition search_gate_payload :: "string \<Rightarrow> search_plan \<Rightarrow> json_object" where
  "search_gate_payload gid plan =
     (let reasons = JList (map JStr (sp_confirmation_reasons plan))
      in [(''gate_id'', JStr gid), (''gate_name'', JStr ''search_plan_confirmation''),
          (''confirmation_reasons'', reasons),
          (''queries'', JList (map (\<lambda>q. JObj [(''query'', JStr (sq_query q)), (''purpose'', JStr (sq_purpose q))])
             (sp_queries plan))),
          (''brief'', JObj [(''topic'', JStr (sp_topic plan)), (''subject'', JStr (sp_subject plan)),
             (''risk_level'', JStr (if requires_confirmation plan then ''medium'' else ''low'')),
             (''query_count'', JInt (int (length (sp_queries plan)))), (''confirmation_reasons'', reasons)])])"

definition prepare_search_plan_gate :: "instant \<Rightarrow> string \<Rightarrow> string \<Rightarrow> search_plan \<Rightarrow> bool action" where
  "prepare_search_plan_gate now gate_uuid r plan =
     (let query_count = JInt (int (length (sp_queries plan)));
          gate_id = ''gate-'' @ gate_uuid
      in if \<not> requires_confirmation plan
         then act_bind (do_write_event now r ''teaching_pack.search_plan.skipped_confirmation'' VIS_INTERNAL
           [(''query_count'', query_count)]) (\<lambda>_. act_return False)
         else act_bind (do_open_gate now \<lparr>gc_gate_id = gate_id, gc_run_id = r,
             gc_gate_name = ''search_plan_confirmation'', gc_payload = search_gate_payload gate_id plan\<rparr>) (\<lambda>_.
           act_bind (do_write_event now r ''teaching_pack.search_plan_confirmation.opened'' VIS_TEACHER
             [(''gate_id'', JStr gate_id), (''query_count'', query_count)]) (\<lambda>_. act_return True)))"

definition open_search_plan_gate_if_required ::
  "api_env \<Rightarrow> instant \<Rightarrow> string \<Rightarrow> string \<Rightarrow> string \<Rightarrow> json_object \<Rightarrow> bool action" where
  "open_search_plan_gate_if_required env now gate_uuid r teacher stored =
     act_bind (act_get (\<lambda>_. contract_of_json stored)) (\<lambda>k.
     act_bind (prepare_search_plan_gate now gate_uuid r (plan_search (ae_scrub env) k)) (\<lambda>opened.
       if \<not> opened then act_return False
       else act_bind (add_notice \<lparr>notice_run_id = r, notice_teacher_id = teacher,
              notice_kind = ''search_confirmation'', notice_text = ''search_plan_confirmation''\<rparr>)
            (\<lambda>_. act_return True)))"

definition do_respond :: "gate_response_create \<Rightarrow> unit action" where
  "do_respond p = on_control (\<lambda>c. unit_result (respond_to_gate p c))"

definition do_edit_contract :: "string \<Rightarrow> json_object \<Rightarrow> nat action" where
  "do_edit_contract r edits = on_control (apply_contract_edits r edits)"

definition revise_if :: "string \<Rightarrow> json_object option \<Rightarrow> json_object \<Rightarrow> json_object action" where
  "revise_if r edits payload =
     (case edits of
        None \<Rightarrow> act_return payload
      | Some e \<Rightarrow> act_bind (do_edit_contract r e)
          (\<lambda>n. act_return (dict_merge payload [(''contract_revision'', JInt (int n))])))"

text \<open>The edits an answer asks for: those of an edit, and the choices made with an approval.\<close>

definition requested_edits :: "gate_label \<Rightarrow> gate_action \<Rightarrow> json_object \<Rightarrow> json_object option result" where
  "requested_edits g a response =
     (if g \<noteq> CONTRACT_CONFIRMATION then Inr None
      else if a = EDIT
      then Inr (case dict_get response ''edits'' of JObj e \<Rightarrow> Some e | _ \<Rightarrow> None)
      else if a = APPROVE
      then ebind (contract_confirmation_edits response) (\<lambda>e. Inr (if e = [] then None else Some e))
      else Inr None)"

text \<open>What the answer leads to: a job, or nothing while a search plan waits for its own confirmation.\<close>

definition resumed_work ::
  "api_env \<Rightarrow> instant \<Rightarrow> fresh_ids \<Rightarrow> string \<Rightarrow> string \<Rightarrow> string \<Rightarrow> gate_label \<Rightarrow> gate_action \<Rightarrow> json_object
   \<Rightarrow> json_object \<Rightarrow> string \<Rightarrow> (job_kind \<times> json_object) option action" where
  "resumed_work env now ids r teacher gid g a response answer request_hash =
     (let response_id = ''response-'' @ id_response ids;
          common = (\<lambda>payload. [(''response_id'', JStr response_id), (''request_hash'', JStr request_hash),
            (''resume_payload'', JObj payload)])
      in act_bind (do_respond \<lparr>grc_response_id = response_id, grc_gate_id = gid, grc_run_id = r,
           grc_teacher_id = teacher, grc_response_json = answer\<rparr>) (\<lambda>_.
         act_bind (act_get (\<lambda>_. requested_edits g a response)) (\<lambda>edits.
         act_bind (revise_if r edits answer) (\<lambda>payload.
           if g = CONTRACT_CONFIRMATION
           then act_bind (act_get (\<lambda>db. get_contract_json r (g_control db))) (\<lambda>contract_json.
                act_bind (open_search_plan_gate_if_required env now (id_gate ids) r teacher contract_json) (\<lambda>opened.
                  act_return (if opened then None
                    else Some (START, common payload @ [(''contract'', JObj contract_json)]))))
           else if g = SEARCH_PLAN_CONFIRMATION
           then act_bind (act_get (\<lambda>db. get_contract_json r (g_control db))) (\<lambda>contract_json.
                  act_return (Some (START, common payload @ [(''contract'', JObj contract_json)])))
           else act_return (Some (RESUME, common payload))))))"

definition is_stale_gate :: "exc \<Rightarrow> bool" where
  "is_stale_gate e = (case e of Py_Exc (StaleGateResponseError _) \<Rightarrow> True | _ \<Rightarrow> False)"

definition replayed_answer :: "api_env \<Rightarrow> string \<Rightarrow> run_job_read \<Rightarrow> resume_accepted action" where
  "replayed_answer env request_hash j =
     (if dict_get (jr_payload j) ''request_hash'' \<noteq> JStr request_hash
      then act_raise (http_error 409 ''idempotency_conflict'')
      else act_return \<lparr>ra_run_id = jr_run_id j,
        ra_response_id = json_str (su_py_str (ae_setup env)) (dict_get (jr_payload j) ''response_id''),
        ra_job_id = Some (jr_job_id j)\<rparr>)"

definition resume_teaching_pack_run ::
  "api_env \<Rightarrow> instant \<Rightarrow> fresh_ids \<Rightarrow> user \<Rightarrow> string \<Rightarrow> resume_request \<Rightarrow> string option \<Rightarrow> resume_accepted action" where
  "resume_teaching_pack_run env now ids u r rq idempotency_key =
     route (case validate_gate_response (rq_gate_name rq) (rq_action rq) of
       Gate_Rejected reason \<Rightarrow> act_raise (http_error 422 reason)
     | Gate_Accepted g a \<Rightarrow>
         act_bind (require_owned env r u) (\<lambda>_.
         let teacher = user_user_id u;
             resume_payload = dict_merge [(''action'', JStr (gate_action_value a))] (rq_response rq);
             request_hash = ae_hash_json env (JObj [(''gate_id'', JStr (rq_gate_id rq)),
               (''gate_name'', JStr (rq_gate_name rq)), (''response'', JObj resume_payload)]);
             scoped = map_option (scoped_resume_idempotency_key env r teacher) idempotency_key;
             response_id = ''response-'' @ id_response ids
         in act_bind (case scoped of None \<Rightarrow> act_return None | Some s \<Rightarrow> do_find_job s) (\<lambda>existing.
            case existing of
              Some j \<Rightarrow> replayed_answer env request_hash j
            | None \<Rightarrow>
                act_bind (act_catch
                  (resumed_work env now ids r teacher (rq_gate_id rq) g a (rq_response rq) resume_payload request_hash)
                  (\<lambda>e. if is_stale_gate e then act_raise (http_error 409 ''stale_gate'') else act_raise e)) (\<lambda>work.
                case work of
                  None \<Rightarrow> act_return \<lparr>ra_run_id = r, ra_response_id = response_id, ra_job_id = None\<rparr>
                | Some (kind, payload) \<Rightarrow>
                    act_bind (do_enqueue now
                      \<lparr>jc_job_id = ''job-'' @ id_job ids, jc_run_id = r, jc_kind = kind,
                       jc_idempotency_key = the_default (''resume:'' @ response_id) scoped,
                       jc_payload = payload, jc_eligible_at = None\<rparr>) (\<lambda>j.
                    act_return \<lparr>ra_run_id = jr_run_id j, ra_response_id = response_id,
                      ra_job_id = Some (jr_job_id j)\<rparr>)))))"

section \<open>Revision, cancellation, deletion\<close>

definition request_artifact_revision ::
  "api_env \<Rightarrow> instant \<Rightarrow> fresh_ids \<Rightarrow> user \<Rightarrow> string \<Rightarrow> string \<Rightarrow> string \<Rightarrow> string option \<Rightarrow> string action" where
  "request_artifact_revision env now ids u r artifact feedback idempotency_key =
     route (act_bind (require_owned env r u) (\<lambda>_.
       let request_hash = ae_hash_json env (JObj [(''artifact_id'', JStr artifact), (''feedback'', JStr feedback)]);
           key = (case idempotency_key of
               Some s \<Rightarrow> scoped_resume_idempotency_key env r (user_user_id u) s
             | None \<Rightarrow> ''request_revision:'' @ r @ '':'' @ artifact @ '':'' @ id_response ids)
       in act_bind (do_find_job key) (\<lambda>existing.
          case existing of
            Some j \<Rightarrow>
              if dict_get (jr_payload j) ''request_hash'' \<noteq> JStr request_hash
              then act_raise (http_error 409 ''idempotency_conflict'') else act_return (jr_job_id j)
          | None \<Rightarrow>
              act_bind (do_enqueue now
                \<lparr>jc_job_id = ''job-'' @ id_job ids, jc_run_id = r, jc_kind = RESUME, jc_idempotency_key = key,
                 jc_payload = [(''request_hash'', JStr request_hash),
                   (''resume_payload'', JObj [(''action'', JStr ''reject_selected''),
                     (''rejection_type'', JStr ''scoped''),
                     (''artifact_rejections'', JList [JObj [(''artifact_id'', JStr artifact),
                        (''reason'', JStr feedback)]])])],
                 jc_eligible_at = None\<rparr>) (\<lambda>j. act_return (jr_job_id j)))))"

definition cancel_teaching_pack_run :: "api_env \<Rightarrow> instant \<Rightarrow> user \<Rightarrow> string \<Rightarrow> nat action" where
  "cancel_teaching_pack_run env now u r =
     route (act_bind (require_owned env r u) (\<lambda>_.
       act_bind (do_cancel_jobs r) (\<lambda>cancelled_jobs.
       act_bind (do_cancel_gates r) (\<lambda>cancelled_gates.
       act_bind (act_catch (do_transition now r CANCELLED None (Some ''teacher_cancelled''))
         (\<lambda>e. act_raise (if is_invalid_transition e then http_error 409 ''cancel_not_allowed'' else e))) (\<lambda>_.
       act_bind (do_write_event now r ''teaching_pack.run.cancelled'' VIS_TEACHER
         [(''actor_id'', JStr (user_user_id u)), (''reason'', JStr ''teacher_cancelled''),
          (''cancelled_jobs'', JInt (int cancelled_jobs)), (''cancelled_gates'', JInt (int cancelled_gates))]) (\<lambda>_.
       act_return cancelled_jobs))))))"

definition delete_teaching_pack_run ::
  "users_row list \<Rightarrow> instant \<Rightarrow> user \<Rightarrow> string \<Rightarrow> lifecycle_db \<Rightarrow> lifecycle_db result" where
  "delete_teaching_pack_run users now u r db =
     ebind (get_run_with_ownership users r u (lc_pack db)) (\<lambda>_. soft_delete_run now r (user_user_id u) db)"

definition restore_teaching_pack_run ::
  "users_row list \<Rightarrow> instant \<Rightarrow> user \<Rightarrow> string \<Rightarrow> lifecycle_db \<Rightarrow> lifecycle_db result" where
  "restore_teaching_pack_run users now u r db =
     ebind (get_deleted_run_with_ownership users r u (lc_pack db)) (\<lambda>_. restore_run now r (user_user_id u) db)"

section \<open>Reading a run\<close>

record pending_gate =
  pg_gate_id :: string
  pg_gate_name :: string
  pg_allowed_actions :: "string list"
  pg_snapshot_ids :: "string list"

definition pending_gate_response :: "api_env \<Rightarrow> gate_row \<Rightarrow> pending_gate result" where
  "pending_gate_response env g =
     (case find_value gate_label_value all_gate_labels (gate_name g) of
        None \<Rightarrow> Inl (ValueError (gate_name g))
      | Some label \<Rightarrow> Inr \<lparr>pg_gate_id = gate_id g, pg_gate_name = gate_name g,
          pg_allowed_actions = map gate_action_value (allowed_actions_for_gate label),
          pg_snapshot_ids = (case dict_get (gate_payload g) ''snapshot_ids'' of
             JList xs \<Rightarrow> map (json_str (su_py_str (ae_setup env))) xs | _ \<Rightarrow> [])\<rparr>)"

definition latest_artifact_statuses :: "event_read list \<Rightarrow> json_object list" where
  "latest_artifact_statuses events =
     (case filter (\<lambda>e. case dict_get (the_default [] (er_payload e)) ''artifact_statuses'' of JList _ \<Rightarrow> True | _ \<Rightarrow> False)
        (rev events) of
        [] \<Rightarrow> []
      | e # _ \<Rightarrow> (case dict_get (the_default [] (er_payload e)) ''artifact_statuses'' of
          JList vs \<Rightarrow> List.map_filter (\<lambda>v. case v of JObj d \<Rightarrow> Some d | _ \<Rightarrow> None) vs | _ \<Rightarrow> []))"

record run_status_answer =
  rs_run :: run_read
  rs_artifact_statuses :: "json_object list"
  rs_pending_gate :: "pending_gate option"

definition get_teaching_pack_run :: "api_env \<Rightarrow> user \<Rightarrow> string \<Rightarrow> gateway_db \<Rightarrow> run_status_answer result" where
  "get_teaching_pack_run env u r db =
     ebind (get_run_with_ownership (ae_users env) r u (g_pack db)) (\<lambda>run.
       let statuses = latest_artifact_statuses (run_replay_events (g_pack db) r 0);
           active = list_active_gates r (g_control db)
       in ebind (if active = [] then Inr None
                 else ebind (pending_gate_response env (last active)) (\<lambda>g. Inr (Some g)))
            (\<lambda>gate. Inr \<lparr>rs_run = run, rs_artifact_statuses = statuses, rs_pending_gate = gate\<rparr>))"

end
