(* ===== verification/Run_Api_Laws.thy ===== *)
theory Run_Api_Laws
  imports Run_Api Worker_Laws
begin

text \<open>
  What the teacher's operations guarantee: who reaches a run, that every route keeps the joint invariant
  of the stores, what creating, answering and cancelling leave behind, and where an answer does not do
  what it says.
\<close>

section \<open>Access\<close>

lemma school_admin_owns_nothing:
  assumes "distinct (map run_id rows)" and "user_role u = Role_SCHOOL_ADMIN" and "distinct (map ur_user_id users)"
  shows "check_run_owner users rows r u = Inr False"
proof -
  have one: "scalar_one_or_none (filter (\<lambda>x. f x = k) xs) \<noteq> Inl e"
    if "distinct (map f xs)" for f :: "'a \<Rightarrow> string" and k xs e
  proof -
    have "\<exists>y. scalar_one_or_none (filter (\<lambda>x. f x = k) xs) = Inr y"
    proof (cases "filter (\<lambda>x. f x = k) xs")
      case (Cons x ys)
      then have "x \<in> set (filter (\<lambda>x. f x = k) xs)" by simp
      then have "x \<in> set xs" "f x = k" by simp_all
      then have "filter (\<lambda>x. f x = k) xs = [x]" using filter_key_le_one [OF that, of x] by simp
      then show ?thesis by simp
    qed simp
    then show ?thesis by auto
  qed
  have same: "check_same_organization users t u = Inr False" for t
    using one [OF assms(3), of t]
    by (auto simp: check_same_organization_def owner_organization_def split: option.splits)
      (cases "scalar_one_or_none (filter (\<lambda>r. ur_user_id r = t) users)"; auto split: option.splits)
  show ?thesis using one [OF assms(1), of r] assms(2) same
    by (auto simp: check_run_owner_def)
      (cases "scalar_one_or_none (filter (\<lambda>x. run_id x = r) rows)"; auto split: option.splits)
qed

lemma filter_two_keys:
  assumes "filter (\<lambda>x. run_id x = r) rows = [y]"
  shows "filter (\<lambda>x. run_id x = r \<and> run_teacher_id x = t) rows = (if run_teacher_id y = t then [y] else [])"
  using assms filter_and [of "\<lambda>x. run_teacher_id x = t" "\<lambda>x. run_id x = r" rows] by (simp add: conj_commute)

text \<open>
  C19: who passes the ownership check of the run routes. A run that does not exist, is deleted or
  belongs to another teacher is reported as not found to everyone but the system administrator. A
  teacher or administrator reaches exactly their own runs. A school administrator reaches no run at all,
  not even the runs they created: the row is found and then refused.
\<close>
theorem run_access:
  assumes "pack_ok p" and "distinct (map ur_user_id users)"
  shows "get_run_with_ownership users r u p =
    (case filter (\<lambda>x. run_id x = r) (runs p) of
       [] \<Rightarrow> Inl (HTTPException 404 ''run_not_found'')
     | x # _ \<Rightarrow>
         if run_deleted_at x \<noteq> None \<or> (user_role u \<noteq> Role_SYSTEM_ADMIN \<and> run_teacher_id x \<noteq> user_user_id u)
         then Inl (HTTPException 404 ''run_not_found'')
         else if user_role u = Role_SCHOOL_ADMIN then Inl (HTTPException 403 ''not_run_owner'')
         else Inr (read_run x))"
proof (cases "filter (\<lambda>x. run_id x = r) (runs p)")
  case Nil
  then have "filter (\<lambda>x. run_id x = r \<and> run_teacher_id x = t) (runs p) = []" for t
    by (auto simp: filter_empty_conv)
  then show ?thesis
    by (simp add: get_run_with_ownership_def owned_run_def get_run_by_id_def get_run_def Nil)
next
  case (Cons x ys)
  have distinct: "distinct (map run_id (runs p))" using pack_okD(1) [OF assms(1)] .
  have "x \<in> set (filter (\<lambda>x. run_id x = r) (runs p))" using Cons by simp
  then have "filter (\<lambda>x. run_id x = r) (runs p) = [x]" using filter_key_le_one [OF distinct, of x] by simp
  note one = this filter_two_keys [OF this]
  show ?thesis
    using school_admin_owns_nothing [OF distinct _ assms(2), of u r]
    by (auto simp: get_run_with_ownership_def owned_run_def get_run_by_id_def get_run_def one deleted_in_pack_def
        check_run_owner_def)
qed

lemma owned_run_exists:
  assumes "get_run_with_ownership users r u p = Inr x"
  shows "run_exists p r"
proof -
  have "\<exists>y. y \<in> set (runs p) \<and> run_id y = r"
    using assms
    by (auto simp: get_run_with_ownership_def owned_run_def ebind_Inr_iff get_run_by_id_def get_run_def
        split: if_splits option.splits dest!: filter_singletonD)
  then show ?thesis by (auto simp: run_exists_def)
qed

section \<open>The joint invariant\<close>

text \<open>What the routes need beyond the worker: marking a run as the parent of a unit.\<close>

locale api_invariant = session_invariant +
  assumes unit_parent: "P db \<Longrightarrow> P (db\<lparr>g_pack := set_unit_parent r seq (g_pack db)\<rparr>)"
begin

lemma create_run_keeps: "keeps P (do_create_run p)"
  unfolding do_create_run_def
  by (rule on_pack_keeps) (auto simp: unit_result_def ebind_Inr_iff intro: pack_step.create)

lemma create_contract_keeps: "keeps P (do_create_contract p)"
  by (auto simp: keeps_def do_create_contract_def on_control_def unit_result_def ebind_Inr_iff
      split: sum.splits intro!: control control_step.create_contract)

lemma enqueue_keeps: "keeps P (do_enqueue now p)"
  by (auto simp: keeps_def do_enqueue_def on_jobs_def split: sum.splits intro!: jobs job_step.enqueue)

lemma find_job_keeps: "keeps P (do_find_job key)"
  by (simp add: do_find_job_def keeps_get)

lemma cancel_jobs_keeps: "keeps P (do_cancel_jobs r)"
proof -
  have "job_step js x" if "cancel_run_jobs r js = (n, x)" for js n x
    using job_step.cancel [of js r] that by simp
  then show ?thesis by (auto simp: keeps_def do_cancel_jobs_def on_jobs_def split: prod.splits intro!: jobs)
qed

lemma cancel_gates_keeps: "keeps P (do_cancel_gates r)"
  by (auto simp: keeps_def do_cancel_gates_def on_control_def split: prod.splits intro!: control control_step.cancel_gates)

lemma respond_keeps: "keeps P (do_respond p)"
  by (auto simp: keeps_def do_respond_def on_control_def unit_result_def ebind_Inr_iff
      split: sum.splits intro!: control control_step.respond)

lemma edit_contract_keeps: "keeps P (do_edit_contract r e)"
  by (auto simp: keeps_def do_edit_contract_def on_control_def split: sum.splits intro!: control control_step.edit_contract)

lemma unit_parent_keeps: "keeps P (mark_unit_parent_if_needed k)"
  by (auto simp: mark_unit_parent_if_needed_def keeps_def on_pack_def ebind_Inr_iff split: sum.splits intro: unit_parent)

lemma require_owned_keeps: "keeps P (require_owned env r u)"
  by (simp add: require_owned_def keeps_get)

lemmas api_steps = create_run_keeps create_contract_keeps enqueue_keeps find_job_keeps cancel_jobs_keeps
  cancel_gates_keeps respond_keeps edit_contract_keeps unit_parent_keeps require_owned_keeps

lemma route_keeps: "keeps P m \<Longrightarrow> keeps P (route m)"
  by (auto simp: keeps_def route_def split: prod.splits sum.splits)

lemma create_record_keeps:
  "keeps P (create_teaching_pack_run_record env now ids teacher raw info h key eligible)"
  by (auto simp: create_teaching_pack_run_record_def create_ready_run_def create_gated_run_def Let_def
      intro!: api_steps composed split: contract_setup_result.split option.split)

lemma create_keeps: "keeps P (create_teaching_pack_run env cfg now ids u raw info key)"
  by (auto simp: create_teaching_pack_run_def enforce_payload_size_limits_def admit_run_def replayed_creation_def Let_def
      intro!: route_keeps create_record_keeps api_steps composed split: option.split)

lemma launch_keeps: "keeps P (launch_teaching_brief env cfg now ids u i dump rows)"
  by (auto simp: launch_teaching_brief_def admit_run_def Let_def
      intro!: route_keeps create_record_keeps api_steps composed split: option.split)

lemma resumed_work_keeps: "keeps P (resumed_work env now ids r t gid g a response answer h)"
  by (auto simp: resumed_work_def revise_if_def open_search_plan_gate_if_required_def prepare_search_plan_gate_def Let_def
      intro!: api_steps composed split: option.split)

lemma resume_keeps: "keeps P (resume_teaching_pack_run env now ids u r rq key)"
  by (auto simp: resume_teaching_pack_run_def replayed_answer_def Let_def
      intro!: route_keeps resumed_work_keeps api_steps composed split: option.split gate_validation.split)

lemma revise_keeps: "keeps P (request_artifact_revision env now ids u r artifact feedback key)"
  by (auto simp: request_artifact_revision_def Let_def intro!: route_keeps api_steps composed split: option.split)

lemma cancel_keeps: "keeps P (cancel_teaching_pack_run env now u r)"
  by (auto simp: cancel_teaching_pack_run_def intro!: route_keeps api_steps composed)

end

lemma unit_parent_pack_ok: "pack_ok (set_unit_parent r seq p) = pack_ok p"
proof -
  let ?q = "set_unit_parent r seq p"
  have same: "run_history ?q = run_history p" "run_events ?q = run_events p" "outbox ?q = outbox p"
    "next_outbox_id ?q = next_outbox_id p" "map run_id (runs ?q) = map run_id (runs p)"
    by (simp_all add: set_unit_parent_def map_update_where)
  have ids: "run_id ` set (runs ?q) = run_id ` set (runs p)" using same(5) by (metis set_map)
  have pairs: "map (\<lambda>x. (run_id x, run_status x)) (runs ?q) = map (\<lambda>x. (run_id x, run_status x)) (runs p)"
    by (simp add: set_unit_parent_def map_update_where)
  have all: "(\<forall>x \<in> set (runs ?q). Q (run_id x) (run_status x)) \<longleftrightarrow> (\<forall>x \<in> set (runs p). Q (run_id x) (run_status x))" for Q
    using arg_cong [OF pairs, of "\<lambda>l. \<forall>(a, b) \<in> set l. Q a b"] by simp
  have st: "statuses_of ?q = statuses_of p" by (simp add: statuses_of_def same fun_eq_iff)
  have ex: "run_exists ?q = run_exists p" by (simp add: run_exists_def ids fun_eq_iff)
  have sq: "event_seqs ?q = event_seqs p" by (simp add: event_seqs_def same fun_eq_iff)
  have "history_ok ?q = history_ok p"
    unfolding history_ok_def st ex same
    using all [of "\<lambda>i s. \<exists>ss. statuses_of p i = PENDING # ss \<and> run_path (PENDING # ss) \<and> last (PENDING # ss) = s"]
    by simp
  moreover have "ledger_ok ?q = ledger_ok p" by (simp add: ledger_ok_def ex sq same)
  moreover have "outbox_ok ?q = outbox_ok p" by (simp add: outbox_ok_def same)
  ultimately show ?thesis by (simp only: pack_ok_def same)
qed

lemma unit_parent_statuses:
  "map run_status (filter (\<lambda>x. run_id x = r) (runs (set_unit_parent r' seq p))) =
   map run_status (filter (\<lambda>x. run_id x = r) (runs p))"
proof -
  have same: "map run_status (filter (\<lambda>x. run_id x = r) (update_where q f xs)) =
      map run_status (filter (\<lambda>x. run_id x = r) xs)"
    if "\<And>x. run_id (f x) = run_id x" "\<And>x. run_status (f x) = run_status x" for q f xs
    using that by (induction xs) (auto simp: table_simps)
  show ?thesis by (simp add: set_unit_parent_def) (rule same; simp)
qed

interpretation api_store: api_invariant senv "gateway_ok senv" for senv
  by unfold_locales (simp add: gateway_ok_def unit_parent_pack_ok, simp add: set_unit_parent_def)

interpretation api_final: api_invariant senv "\<lambda>db. run_terminal s \<and> status_is r s db" for senv s r
proof unfold_locales
  fix db r' seq
  assume a: "run_terminal s \<and> status_is r s db"
  with unit_parent_statuses [of r r' seq "g_pack db"]
  show "run_terminal s \<and> status_is r s (db\<lparr>g_pack := set_unit_parent r' seq (g_pack db)\<rparr>)"
    by (simp add: status_is_def)
qed

text \<open>A teacher, and an environment whose digests are the identity.\<close>

definition demo_teacher :: "account_role \<Rightarrow> user" where
  "demo_teacher role = \<lparr>user_user_id = ''t1'', user_username = ''t'', user_role = role, user_email = None,
     user_organization_id = None, user_class_id = None\<rparr>"

definition demo_api :: api_env where
  "demo_api = \<lparr>ae_setup = witness_env, ae_sha = (\<lambda>s. s),
     ae_hash_json = (\<lambda>j. case j of JObj ((_, JStr s) # _) \<Rightarrow> s | _ \<Rightarrow> []), ae_json_size = (\<lambda>_. 10), ae_scrub = (\<lambda>s. s),
     ae_users = [], ae_max_raw_request_chars = 1000, ae_max_class_info_bytes = 1000\<rparr>"

definition demo_ids :: fresh_ids where
  "demo_ids = \<lparr>id_run = ''r2'', id_job = ''a'', id_gate = ''b'', id_response = ''c''\<rparr>"

definition demo_class :: json_object where
  "demo_class = brief_class_info (witness_brief\<lparr>b_subject := ''science'', b_instruction_language := ''en''\<rparr>)"

theorem run_access_witness:
  "get_run_with_ownership [] ''r1'' (demo_teacher Role_SCHOOL_ADMIN) demo_db
     = Inl (HTTPException 403 ''not_run_owner'')
   \<and> (\<exists>x. get_run_with_ownership [] ''r1'' (demo_teacher Role_TEACHER) demo_db = Inr x)"
proof -
  have ok: "pack_ok demo_db" by (rule pack_reachable_ok [OF demo_db_reachable])
  have "\<exists>x. runs demo_db = [x] \<and> run_id x = ''r1'' \<and> run_teacher_id x = ''t1'' \<and> run_deleted_at x = None"
    by (simp add: demo_db_def create_run_def run_exists_def empty_db_def demo_run_def)
  then obtain x where "runs demo_db = [x]" "run_id x = ''r1''" "run_teacher_id x = ''t1''" "run_deleted_at x = None"
    by blast
  then show ?thesis using run_access [OF ok, of "[]"] by (simp add: demo_teacher_def)
qed

lemma keeps_fst: "keeps P m \<Longrightarrow> P db \<Longrightarrow> P (fst (m db))"
  by (simp add: keeps_def)

text \<open>
  C13: creating a run, launching a brief, answering a gate, asking for a revision and
  cancelling keep every store of the gateway consistent, whatever the request holds, whatever the answer
  and wherever the route raises.
\<close>
theorem api_keeps_invariants:
  assumes "gateway_ok senv db"
  shows "gateway_ok senv (fst (create_teaching_pack_run env cfg now ids u raw info key db))
    \<and> gateway_ok senv (fst (launch_teaching_brief env cfg now ids u i dump rows db))
    \<and> gateway_ok senv (fst (resume_teaching_pack_run env now ids u r rq key db))
    \<and> gateway_ok senv (fst (request_artifact_revision env now ids u r artifact feedback key db))
    \<and> gateway_ok senv (fst (cancel_teaching_pack_run env now u r db))"
  by (intro conjI keeps_fst [OF api_store.create_keeps assms] keeps_fst [OF api_store.launch_keeps assms]
      keeps_fst [OF api_store.resume_keeps assms] keeps_fst [OF api_store.revise_keeps assms]
      keeps_fst [OF api_store.cancel_keeps assms])

theorem api_keeps_invariants_witness:
  "gateway_ok demo_env (fst (cancel_teaching_pack_run demo_api 20 (demo_teacher Role_TEACHER) ''r1'' demo_gateway))"
  using api_keeps_invariants [OF demo_gateway_ok] by blast

section \<open>Cancelling and revising\<close>

lemma cancelled_jobs_inactive:
  assumes "j \<in> set (snd (cancel_run_jobs r js))" and "job_run_id j = r"
  shows "\<not> active_job j"
proof -
  let ?f = "\<lambda>j. j\<lparr>job_status := JOB_CANCELLED, job_lease_owner := None, job_lease_expires_at := None\<rparr>"
  obtain k where k: "j = (if job_run_id k = r \<and> active_job k then ?f k else k)"
    using assms(1) unfolding cancel_run_jobs_def snd_conv set_update_where by blast
  show ?thesis
  proof (cases "job_run_id k = r \<and> active_job k")
    case True
    then show ?thesis using k by (simp add: active_job_def)
  next
    case False
    then show ?thesis using k assms(2) by auto
  qed
qed

lemma no_active_gates: "list_active_gates r (snd (cancel_active_gates r db)) = []"
proof -
  have "\<not> (gate_run_id g = r \<and> gate_status g = GATE_ACTIVE)"
    if "g \<in> set (gates (snd (cancel_active_gates r db)))" for g
    using that by (auto simp: cancel_active_gates_def list_active_gates_def set_gates_def set_update_where)
  then show ?thesis by (auto simp: list_active_gates_def filter_empty_conv)
qed

lemma owned_status:
  assumes "pack_ok p" and "get_run_with_ownership users r u p = Inr x"
  shows "map run_status (filter (\<lambda>x. run_id x = r) (runs p)) = [rr_status x]"
proof -
  have "distinct (map run_id (runs p))" using pack_okD(1) [OF assms(1)] .
  then have le: "y \<in> set (filter (\<lambda>x. run_id x = r) (runs p)) \<Longrightarrow> filter (\<lambda>x. run_id x = r) (runs p) = [y]" for y
    using filter_key_le_one [of run_id "runs p" y] by simp
  have "\<exists>y. y \<in> set (filter (\<lambda>x. run_id x = r) (runs p)) \<and> run_status y = rr_status x"
    using assms(2)
    by (auto simp: get_run_with_ownership_def owned_run_def ebind_Inr_iff get_run_by_id_def get_run_def read_run_def
        split: if_splits option.splits dest!: filter_singletonD)
  then show ?thesis using le by fastforce
qed

text \<open>
  C16: cancelling a run its owner can see succeeds exactly when its status allows it (otherwise
  409 and nothing changes). It then leaves the run cancelled, none of its jobs active and none of its gates
  open, and answers how many jobs it stopped.
\<close>
theorem cancel_outcome:
  assumes ok: "gateway_ok senv db" and own: "get_run_with_ownership (ae_users env) r u (g_pack db) = Inr x"
  shows "if run_step (rr_status x) CANCELLED
    then \<exists>db'. cancel_teaching_pack_run env now u r db
           = (db', Inr (length (filter (\<lambda>j. job_run_id j = r \<and> active_job j) (g_jobs db))))
         \<and> status_is r CANCELLED db' \<and> (\<forall>j \<in> set (g_jobs db'). job_run_id j = r \<longrightarrow> \<not> active_job j)
         \<and> list_active_gates r (g_control db') = []
    else cancel_teaching_pack_run env now u r db = (db, Inl (http_error 409 ''cancel_not_allowed''))"
proof -
  have p: "pack_ok (g_pack db)" using ok by (simp add: gateway_ok_def)
  define db1 where "db1 = db\<lparr>g_jobs := snd (cancel_run_jobs r (g_jobs db)),
    g_control := snd (cancel_active_gates r (g_control db))\<rparr>"
  have st: "status_is r (rr_status x) db1"
    using owned_status [OF p own] by (simp add: status_is_def db1_def)
  have p1: "pack_ok (g_pack db1)" using p by (simp add: db1_def)
  let ?tail = "\<lambda>nj ng. act_bind (act_catch (do_transition now r CANCELLED None (Some ''teacher_cancelled''))
         (\<lambda>e. act_raise (if is_invalid_transition e then http_error 409 ''cancel_not_allowed'' else e))) (\<lambda>_.
       act_bind (do_write_event now r ''teaching_pack.run.cancelled'' VIS_TEACHER
         [(''actor_id'', JStr (user_user_id u)), (''reason'', JStr ''teacher_cancelled''),
          (''cancelled_jobs'', JInt (int nj)), (''cancelled_gates'', JInt (int ng))]) (\<lambda>_.
       act_return nj))"
  let ?nj = "fst (cancel_run_jobs r (g_jobs db))" and ?ng = "fst (cancel_active_gates r (g_control db))"
  have run: "cancel_teaching_pack_run env now u r db = route (\<lambda>d. ?tail ?nj ?ng db1) db"
    by (simp add: cancel_teaching_pack_run_def route_def require_owned_def act_bind_def act_get_def own
        do_cancel_jobs_def do_cancel_gates_def on_jobs_def on_control_def db1_def split: prod.splits)
  show ?thesis
  proof (cases "run_step (rr_status x) CANCELLED")
    case False
    from do_transition_refused [OF st False] have "?tail ?nj ?ng db1 = (db1, Inl (http_error 409 ''cancel_not_allowed''))"
      by (simp add: act_bind_def act_catch_def is_invalid_transition_def)
    then show ?thesis using False by (simp add: run route_def)
  next
    case True
    obtain q where q: "do_transition now r CANCELLED None (Some ''teacher_cancelled'') db1 = (db1\<lparr>g_pack := q\<rparr>, Inr ())"
      "pack_ok q" "map run_status (filter (\<lambda>x. run_id x = r) (runs q)) = [CANCELLED]"
      using do_transition_total [OF p1 st True, of now None "Some ''teacher_cancelled''"]
      by (elim exE conjE) (rule that; assumption)
    have "status_is r CANCELLED (db1\<lparr>g_pack := q\<rparr>)" using q(3) by simp
    from status_is_exists [OF this] do_write_event_total [of "db1\<lparr>g_pack := q\<rparr>" r] q(2)
    obtain w where w: "do_write_event now r ''teaching_pack.run.cancelled'' VIS_TEACHER
         [(''actor_id'', JStr (user_user_id u)), (''reason'', JStr ''teacher_cancelled''),
          (''cancelled_jobs'', JInt (int ?nj)), (''cancelled_gates'', JInt (int ?ng))] (db1\<lparr>g_pack := q\<rparr>)
        = (db1\<lparr>g_pack := w\<rparr>, Inr ())" "runs w = runs q" by fastforce
    have t: "?tail ?nj ?ng db1 = (db1\<lparr>g_pack := w\<rparr>, Inr ?nj)"
      using q(1) w(1) by (simp add: act_bind_def act_catch_def)
    have "status_is r CANCELLED (db1\<lparr>g_pack := w\<rparr>)" using q(3) w(2) by simp
    moreover have "\<forall>j \<in> set (g_jobs (db1\<lparr>g_pack := w\<rparr>)). job_run_id j = r \<longrightarrow> \<not> active_job j"
      using cancelled_jobs_inactive by (auto simp: db1_def)
    moreover have "list_active_gates r (g_control (db1\<lparr>g_pack := w\<rparr>)) = []"
      using no_active_gates by (simp add: db1_def)
    ultimately show ?thesis using True t by (simp add: run route_def cancel_run_jobs_def)
  qed
qed

lemma demo_owned:
  "\<exists>x. get_run_with_ownership (ae_users demo_api) ''r1'' (demo_teacher Role_TEACHER) (g_pack demo_gateway) = Inr x \<and> rr_status x = PENDING"
proof -
  obtain x where x: "get_run_with_ownership [] ''r1'' (demo_teacher Role_TEACHER) demo_db = Inr x"
    using run_access_witness by blast
  then show ?thesis
    using owned_status [OF _ x] pack_reachable_ok [OF demo_db_reachable] demo_db_runs
    by (auto simp: demo_api_def demo_gateway_def demo_db_def create_run_def run_exists_def empty_db_def demo_run_def)
qed

theorem cancel_outcome_witness:
  "\<exists>db' n. cancel_teaching_pack_run demo_api 20 (demo_teacher Role_TEACHER) ''r1'' demo_gateway
     = (db', Inr n) \<and> status_is ''r1'' CANCELLED db'"
proof -
  obtain x where x: "get_run_with_ownership (ae_users demo_api) ''r1'' (demo_teacher Role_TEACHER)
      (g_pack demo_gateway) = Inr x" and s: "rr_status x = PENDING"
    using demo_owned by auto
  have "run_step PENDING CANCELLED" by code_simp
  then show ?thesis using cancel_outcome [OF demo_gateway_ok x, of 20] s by auto
qed

lemma filter_fresh: "k \<notin> set (map f xs) \<Longrightarrow> filter (\<lambda>x. f x = k) xs = []"
  by (auto simp: filter_empty_conv)

lemma enqueue_fresh:
  assumes "jc_idempotency_key p \<notin> set (map job_idempotency_key js)" and "jc_job_id p \<notin> set (map job_id js)"
    and "known (jc_run_id p)"
  shows "enqueue known now p js = Inr (read_job (new_job now p), js @ [new_job now p])"
  using assms filter_fresh [OF assms(1)]
  by (simp add: enqueue_def get_by_idempotency_key_def new_job_def)

lemma do_enqueue_fresh:
  assumes "jc_idempotency_key p \<notin> set (map job_idempotency_key (g_jobs db))"
    and "jc_job_id p \<notin> set (map job_id (g_jobs db))" and "run_exists (g_pack db) (jc_run_id p)"
  shows "do_enqueue now p db = (db\<lparr>g_jobs := g_jobs db @ [new_job now p]\<rparr>, Inr (read_job (new_job now p)))"
  by (simp add: do_enqueue_def on_jobs_def enqueue_fresh [where known = "run_exists (g_pack db)", OF assms])

text \<open>
  A request for a revision looks at no status: a run that was cancelled, exported or failed gets a job that
  a worker may claim at once.
\<close>

lemma revision_whatever_status:
  assumes "get_run_with_ownership (ae_users env) r u (g_pack db) = Inr x"
    and id: "''job-'' @ id_job ids \<notin> set (map job_id (g_jobs db))"
    and key: "''request_revision:'' @ r @ '':'' @ artifact @ '':'' @ id_response ids \<notin> set (map job_idempotency_key (g_jobs db))"
  shows "\<exists>j. request_artifact_revision env now ids u r artifact feedback None db
       = (db\<lparr>g_jobs := g_jobs db @ [j]\<rparr>, Inr (job_id j))
     \<and> job_run_id j = r \<and> job_kind j = RESUME \<and> job_claimable now j"
proof -
  let ?p = "\<lparr>jc_job_id = ''job-'' @ id_job ids, jc_run_id = r, jc_kind = RESUME,
      jc_idempotency_key = ''request_revision:'' @ r @ '':'' @ artifact @ '':'' @ id_response ids,
      jc_payload = [(''request_hash'', JStr (ae_hash_json env
           (JObj [(''artifact_id'', JStr artifact), (''feedback'', JStr feedback)]))),
         (''resume_payload'', JObj [(''action'', JStr ''reject_selected''), (''rejection_type'', JStr ''scoped''),
           (''artifact_rejections'', JList [JObj [(''artifact_id'', JStr artifact), (''reason'', JStr feedback)]])])],
      jc_eligible_at = None\<rparr>"
  have e: "do_enqueue now ?p db = (db\<lparr>g_jobs := g_jobs db @ [new_job now ?p]\<rparr>, Inr (read_job (new_job now ?p)))"
    by (rule do_enqueue_fresh) (use id key owned_run_exists [OF assms(1)] in simp_all)
  have f: "do_find_job (jc_idempotency_key ?p) db = (db, Inr None)"
    using filter_fresh [OF key] by (simp add: do_find_job_def act_get_def find_by_idempotency_key_def)
  have "request_artifact_revision env now ids u r artifact feedback None db
       = (db\<lparr>g_jobs := g_jobs db @ [new_job now ?p]\<rparr>, Inr (job_id (new_job now ?p)))"
    using e f assms(1)
    by (simp add: request_artifact_revision_def route_def require_owned_def act_bind_def act_get_def Let_def read_job_def)
  moreover have "job_run_id (new_job now ?p) = r \<and> job_kind (new_job now ?p) = RESUME \<and> job_claimable now (new_job now ?p)"
    by (simp add: new_job_def job_claimable_def lease_over_def)
  ultimately show ?thesis by blast
qed

end
