(* ===== verification/Run_Creation.thy ===== *)
theory Run_Creation
  imports Run_Api_Laws
begin

text \<open>
  Creating a run: the contract that is stored reads back as the one the setup built, and a request with an
  idempotency key is remembered by its job, so that repeating it changes nothing.
\<close>

section \<open>The stored contract\<close>

text \<open>
  C18: the contract a run starts with, stored as JSON when the run is created and read back
  when a gate is answered, is the one the setup built: it names the run and the teacher of the request, and
  of the student's evidence it holds only the minimised form.
\<close>
theorem contract_round_trip:
  assumes "resolve_contract_setup env p = Inr s" and "setup_contract s = Some k"
  shows "contract_of_json (contract_dump k) = Inr k
    \<and> k_run_id k = si_run_id p \<and> k_teacher_id k = si_teacher_id p
    \<and> k_student_evidence k = map_option minimize_student_evidence (evidence_of (si_class_info p))"
proof -
  note built = build_contract_Inr [OF resolve_contract [OF assms]]
  show ?thesis using contract_reads_back [OF built(1,2,3)] built(4,5,7) by simp
qed

theorem contract_round_trip_witness:
  "\<exists>k. contract_of_json (contract_dump k) = Inr k \<and> k_run_id k = ''r1'' \<and> k_subject k = ''science''"
proof -
  obtain b k where k: "resolve_contract_setup witness_env (brief_setup_input ''r1'' ''t1'' b) = Inr (Setup_Ready k)"
    "k_subject k = ''science''"
    using brief_launch_witness by blast
  from contract_round_trip [OF k(1)] k(2) show ?thesis
    by (intro exI [of _ k]) (simp add: brief_setup_input_def)
qed

section \<open>Repeated requests\<close>

text \<open>What the job of a creation keeps of it: the answer a repeated request gets.\<close>

definition remembered :: "string \<Rightarrow> string \<Rightarrow> run_created \<Rightarrow> run_job \<Rightarrow> bool" where
  "remembered key request_hash c j \<longleftrightarrow>
     job_idempotency_key j = key \<and> job_run_id j = cr_run_id c
     \<and> dict_get (job_payload j) ''request_hash'' = JStr request_hash
     \<and> (if dict_get (job_payload j) ''blocked_by_gate'' = JNull
        then cr_job_id c = Some (job_id j) \<and> cr_status c = PENDING
        else cr_job_id c = None \<and> cr_status c = AWAITING_APPROVAL)"

lemma remembered_evolves: "row_evolves j j' \<Longrightarrow> remembered key h c j \<Longrightarrow> remembered key h c j'"
  by (simp add: remembered_def row_evolves_def)

lemma remembered_step:
  assumes "job_step js js'" and "jobs_ok js" and "\<exists>j \<in> set js. remembered key h c j"
  shows "\<exists>j \<in> set js'. remembered key h c j"
  using job_step_rows [OF assms(1,2)] assms(3)
proof (elim disjE bexE exE)
  fix j assume "evolves js js'" "j \<in> set js" "remembered key h c j"
  then show ?thesis by (metis evolves_row remembered_evolves)
qed auto

lemma remembered_steps:
  assumes "job_step\<^sup>*\<^sup>* js js'" and "jobs_ok js" and "\<exists>j \<in> set js. remembered key h c j"
  shows "\<exists>j \<in> set js'. remembered key h c j"
  using assms(1)
proof (induction rule: rtranclp_induct)
  case (step y z)
  then show ?case using remembered_step job_steps_ok assms(2) by metis
qed (use assms(3) in simp)

lemma find_keyed:
  assumes "jobs_ok js" and "j \<in> set js" and "job_idempotency_key j = key"
  shows "find_by_idempotency_key key js = Inr (Some (read_job j))"
proof -
  have "distinct (map job_idempotency_key js)" using assms(1) by (simp add: jobs_ok_def)
  from filter_key_le_one [OF this assms(2)] assms(3) show ?thesis
    by (simp add: find_by_idempotency_key_def)
qed

lemma find_none: "find_by_idempotency_key key js = Inr None \<longleftrightarrow> key \<notin> set (map job_idempotency_key js)"
  by (auto simp: find_by_idempotency_key_def ebind_Inr_iff filter_empty_conv)

lemma remembered_replay:
  assumes "remembered key h c j"
  shows "replayed_creation h' (read_job j) db =
    (db, if h' = h then Inr (c\<lparr>cr_queued := False\<rparr>) else Inl (http_error 409 ''idempotency_conflict''))"
  using assms by (auto simp: remembered_def replayed_creation_def read_job_def split: if_splits)

lemma replay_remembered:
  assumes "replayed_creation h (read_job j) db = (db', Inr c)"
  shows "db' = db \<and> remembered (job_idempotency_key j) h c j"
  using assms by (auto simp: remembered_def replayed_creation_def read_job_def split: if_splits)

text \<open>The actions of a creation that leave the job table alone.\<close>

lemma jobs_frame:
  "keeps (\<lambda>db. g_jobs db = js) (do_create_run p)" "keeps (\<lambda>db. g_jobs db = js) (do_create_contract k)"
  "keeps (\<lambda>db. g_jobs db = js) (do_write_event now r name vis payload)"
  "keeps (\<lambda>db. g_jobs db = js) (do_open_gate now g)" "keeps (\<lambda>db. g_jobs db = js) (do_transition now r s stg why)"
  "keeps (\<lambda>db. g_jobs db = js) (do_get_run r)" "keeps (\<lambda>db. g_jobs db = js) (add_notice n)"
  "keeps (\<lambda>db. g_jobs db = js) (mark_unit_parent_if_needed kk)" "keeps (\<lambda>db. g_jobs db = js) (admit_run cfg now t)"
  "keeps (\<lambda>db. g_jobs db = js) (enforce_payload_size_limits env raw info)"
  by (auto simp: keeps_def do_create_run_def do_create_contract_def do_write_event_def do_open_gate_def
      do_transition_def do_get_run_def add_notice_def mark_unit_parent_if_needed_def admit_run_def
      enforce_payload_size_limits_def act_get_def act_bind_def on_pack_def on_control_def split: sum.splits prod.splits if_splits)

lemma enqueue_remembered:
  assumes "do_enqueue now p db = (db', Inr x)" and "jc_idempotency_key p \<notin> set (map job_idempotency_key (g_jobs db))"
  shows "x = read_job (new_job now p) \<and> new_job now p \<in> set (g_jobs db')"
  using assms filter_fresh
  by (auto simp: do_enqueue_def on_jobs_def enqueue_def get_by_idempotency_key_def new_job_def ebind_Inr_iff Let_def
      split: sum.splits if_splits)


text \<open>What a computation that starts with a job table establishes when it returns.\<close>

definition yields :: "jobs \<Rightarrow> 'a action \<Rightarrow> (gateway_db \<Rightarrow> 'a \<Rightarrow> bool) \<Rightarrow> bool" where
  "yields js m Q \<longleftrightarrow> (\<forall>db db' x. g_jobs db = js \<longrightarrow> m db = (db', Inr x) \<longrightarrow> Q db' x)"

lemma yieldsD: "yields js m Q \<Longrightarrow> g_jobs db = js \<Longrightarrow> m db = (db', Inr x) \<Longrightarrow> Q db' x"
  by (simp add: yields_def)

lemma yields_bind:
  assumes "keeps (\<lambda>db. g_jobs db = js) m" and "\<And>x. yields js (f x) Q"
  shows "yields js (act_bind m f) Q"
  using assms unfolding yields_def keeps_def act_bind_Inr by (metis fst_conv)

lemma yields_get:
  assumes "\<And>x. yields js (f x) Q"
  shows "yields js (act_bind (act_get g) f) Q"
  by (rule yields_bind [OF keeps_get assms])

lemma yields_enqueue:
  assumes "jc_idempotency_key p \<notin> set (map job_idempotency_key js)"
    and "\<And>db' db'' c. new_job now p \<in> set (g_jobs db') \<Longrightarrow>
      f (read_job (new_job now p)) db' = (db'', Inr c) \<Longrightarrow> Q db'' c"
  shows "yields js (act_bind (do_enqueue now p) f) Q"
  unfolding yields_def act_bind_Inr
  by (metis assms enqueue_remembered)


abbreviation leaves_memory :: "string \<Rightarrow> string \<Rightarrow> gateway_db \<Rightarrow> run_created \<Rightarrow> bool" where
  "leaves_memory key h db c \<equiv> \<exists>j \<in> set (g_jobs db). remembered key h c j"

lemma nonempty_Some: "key \<noteq> [] \<Longrightarrow> nonempty (Some key) = Some key"
  by (cases key) (simp_all add: nonempty_def)

lemma ready_remembered:
  assumes "key \<noteq> []" and "key \<notin> set (map job_idempotency_key js)"
  shows "yields js (create_ready_run now ids k h (Some key) raw e) (leaves_memory key h)"
  unfolding create_ready_run_def Let_def nonempty_Some [OF assms(1)] option.case
proof -
  let ?p = "\<lparr>jc_job_id = ''job-'' @ id_job ids, jc_run_id = k_run_id k, jc_kind = START, jc_idempotency_key = key,
     jc_payload = [(''source'', JStr ''http_create''), (''request_hash'', JStr h),
       (''contract'', JObj (contract_dump k)), (''raw_request'', JStr raw)], jc_eligible_at = e\<rparr>"
  let ?answer = "\<lambda>j. act_return \<lparr>cr_run_id = jr_run_id j, cr_job_id = Some (jr_job_id j), cr_status = PENDING,
      cr_queued = (e \<noteq> None)\<rparr>"
  have fin: "leaves_memory key h db'' c"
    if "new_job now ?p \<in> set (g_jobs db')" "?answer (read_job (new_job now ?p)) db' = (db'', Inr c)" for db' db'' c
    using that
    by (intro bexI [of _ "new_job now ?p"]) (auto simp: remembered_def new_job_def read_job_def dict_get_def)
  have "yields js (act_bind (do_enqueue now ?p) ?answer) (leaves_memory key h)"
    by (rule yields_enqueue) (use assms(2) in simp, rule fin)
  then show "yields js (act_bind (do_create_contract (contract_create k (k_run_id k))) (\<lambda>_.
      act_bind (do_write_event now (k_run_id k) ''teaching_pack.run.accepted'' VIS_TEACHER
        [(''job_id'', JStr (''job-'' @ id_job ids))]) (\<lambda>_.
      act_bind (do_enqueue now ?p) ?answer))) (leaves_memory key h)"
    by (rule yields_bind [OF jobs_frame(2) yields_bind [OF jobs_frame(3)]])
qed

lemma gated_remembered:
  assumes "key \<notin> set (map job_idempotency_key js)"
  shows "yields js (create_gated_run now ids gate payload k h (Some key)) (leaves_memory key h)"
proof -
  let ?p = "\<lparr>jc_job_id = ''job-'' @ id_job ids, jc_run_id = id_run ids, jc_kind = START, jc_idempotency_key = key,
     jc_payload = [(''source'', JStr ''http_create''), (''request_hash'', JStr h), (''blocked_by_gate'', JStr gate)],
     jc_eligible_at = None\<rparr>"
  let ?c = "\<lparr>cr_run_id = id_run ids, cr_job_id = None, cr_status = AWAITING_APPROVAL, cr_queued = False\<rparr>"
  have opt: "keeps (\<lambda>db. g_jobs db = js) (case k of None \<Rightarrow> act_return () | Some x \<Rightarrow> do_create_contract (f x))"
    "keeps (\<lambda>db. g_jobs db = js) (case run of None \<Rightarrow> act_return () | Some x \<Rightarrow> add_notice (g x))" for f g and run :: "run_read option"
    by (auto split: option.split intro: jobs_frame keeps_return)
  have "yields js (act_bind (act_bind (do_enqueue now ?p) (\<lambda>_. act_bind (do_cancel_jobs (id_run ids)) (\<lambda>_. act_return ())))
      (\<lambda>_. act_return ?c)) (leaves_memory key h)"
    unfolding yields_def
  proof (intro allI impI)
    fix db db' c
    assume js: "g_jobs db = js" and "act_bind (act_bind (do_enqueue now ?p)
      (\<lambda>_. act_bind (do_cancel_jobs (id_run ids)) (\<lambda>_. act_return ()))) (\<lambda>_. act_return ?c) db = (db', Inr c)"
    then obtain db1 x n where e: "do_enqueue now ?p db = (db1, Inr x)"
      and c: "do_cancel_jobs (id_run ids) db1 = (db', Inr n)" "c = ?c" by (auto simp: act_bind_Inr)
    have "jc_idempotency_key ?p \<notin> set (map job_idempotency_key (g_jobs db))" using assms js by simp
    from enqueue_remembered [OF e this] have "new_job now ?p \<in> set (g_jobs db1)" ..
    moreover have "evolves (g_jobs db1) (g_jobs db')"
      using c(1) cancel_evolves [of "g_jobs db1" "id_run ids"]
      by (auto simp: do_cancel_jobs_def on_jobs_def split: prod.splits)
    ultimately obtain j where "j \<in> set (g_jobs db')" "row_evolves (new_job now ?p) j" by (metis evolves_row)
    moreover have "remembered key h ?c (new_job now ?p)" by (simp add: remembered_def new_job_def dict_get_def)
    ultimately show "leaves_memory key h db' c" unfolding c(2) using remembered_evolves by blast
  qed
  note memory = this
  show ?thesis unfolding create_gated_run_def Let_def option.case
    by (rule yields_bind, rule opt, (rule yields_bind, rule jobs_frame)+, rule yields_bind, rule opt, rule memory)
qed

lemma record_remembered:
  assumes "key \<noteq> []" and "key \<notin> set (map job_idempotency_key js)"
  shows "yields js (create_teaching_pack_run_record env now ids teacher raw info h (Some key) e) (leaves_memory key h)"
proof -
  have opt: "keeps (\<lambda>db. g_jobs db = js) (case k of None \<Rightarrow> act_return () | Some x \<Rightarrow> mark_unit_parent_if_needed x)" for k
    by (auto split: option.split intro: jobs_frame keeps_return)
  show ?thesis unfolding create_teaching_pack_run_record_def Let_def
    by (intro yields_bind yields_get jobs_frame, split contract_setup_result.split)
      (auto intro!: yields_bind jobs_frame opt ready_remembered gated_remembered assms)
qed

lemma scoped_key_nonempty: "scoped_create_idempotency_key env t key \<noteq> []"
  by (simp add: scoped_create_idempotency_key_def scoped_idempotency_key_def)

lemma creation_remembered:
  assumes ok: "jobs_ok (g_jobs db)" and run: "create_teaching_pack_run env cfg now ids u raw info (Some key) db = (db', Inr c)"
  shows "leaves_memory (scoped_create_idempotency_key env (user_user_id u) key) (create_request_hash env raw info) db' c"
proof -
  let ?k = "scoped_create_idempotency_key env (user_user_id u) key" and ?h = "create_request_hash env raw info"
  let ?js = "g_jobs db"
  have whole: "yields ?js (act_bind (enforce_payload_size_limits env raw info) (\<lambda>_.
      act_bind (do_find_job ?k) (\<lambda>existing. case existing of
          Some j \<Rightarrow> replayed_creation ?h j
        | None \<Rightarrow> act_bind (admit_run cfg now (user_user_id u)) (\<lambda>bp.
            create_teaching_pack_run_record env now ids (user_user_id u) raw info ?h (Some ?k) (bp_eligible_at bp)))))
    (leaves_memory ?k ?h)"
  proof (rule yields_bind [OF jobs_frame(10)])
    show "yields ?js (act_bind (do_find_job ?k) (\<lambda>existing. case existing of
          Some j \<Rightarrow> replayed_creation ?h j
        | None \<Rightarrow> act_bind (admit_run cfg now (user_user_id u)) (\<lambda>bp.
            create_teaching_pack_run_record env now ids (user_user_id u) raw info ?h (Some ?k) (bp_eligible_at bp))))
      (leaves_memory ?k ?h)"
    proof (cases "?k \<in> set (map job_idempotency_key ?js)")
      case True
      then obtain j where j: "j \<in> set ?js" "job_idempotency_key j = ?k" by auto
      then show ?thesis using find_keyed [OF ok j] replay_remembered
        by (fastforce simp: yields_def do_find_job_def act_get_def act_bind_def)
    next
      case False
      then have "find_by_idempotency_key ?k ?js = Inr None" by (simp add: find_none)
      moreover have "yields ?js (act_bind (admit_run cfg now (user_user_id u)) (\<lambda>bp.
            create_teaching_pack_run_record env now ids (user_user_id u) raw info ?h (Some ?k) (bp_eligible_at bp)))
          (leaves_memory ?k ?h)"
        by (intro yields_bind jobs_frame record_remembered scoped_key_nonempty False)
      ultimately show ?thesis
        by (auto simp: yields_def do_find_job_def act_get_def act_bind_def)
    qed
  qed
  have "(act_bind (enforce_payload_size_limits env raw info) (\<lambda>_.
      act_bind (do_find_job ?k) (\<lambda>existing. case existing of
          Some j \<Rightarrow> replayed_creation ?h j
        | None \<Rightarrow> act_bind (admit_run cfg now (user_user_id u)) (\<lambda>bp.
            create_teaching_pack_run_record env now ids (user_user_id u) raw info ?h (Some ?k) (bp_eligible_at bp)))))
    db = (db', Inr c)"
    using run by (auto simp: create_teaching_pack_run_def Let_def route_def split: prod.splits sum.splits)
  from yieldsD [OF whole refl this] show ?thesis .
qed

text \<open>
  C14: a creation with an idempotency key happens once. After any later operations on the job
  table the same request, even under other limits, at another time and with other fresh ids, writes nothing
  and names the same run and job; a request with the key and another content is refused as a conflict.
\<close>
theorem create_replay:
  assumes ok: "gateway_ok senv db"
    and run: "create_teaching_pack_run env cfg now ids u raw info (Some key) db = (db1, Inr c)"
    and later: "job_step\<^sup>*\<^sup>* (g_jobs db1) (g_jobs db2)"
  shows "create_teaching_pack_run env cfg' now' ids' u raw info (Some key) db2 = (db2, Inr (c\<lparr>cr_queued := False\<rparr>))
    \<and> (\<forall>raw' info'. enforce_payload_size_limits env raw' info' db2 = (db2, Inr ()) \<longrightarrow>
         create_request_hash env raw' info' \<noteq> create_request_hash env raw info \<longrightarrow>
         create_teaching_pack_run env cfg' now' ids' u raw' info' (Some key) db2
           = (db2, Inl (http_error 409 ''idempotency_conflict'')))"
proof -
  let ?k = "scoped_create_idempotency_key env (user_user_id u) key" and ?h = "create_request_hash env raw info"
  have "jobs_ok (g_jobs db)" using ok by (simp add: gateway_ok_def)
  note memory = creation_remembered [OF this run]
  have "gateway_ok senv db1" using keeps_fst [OF api_store.create_keeps ok] run by (metis fst_conv)
  then have ok1: "jobs_ok (g_jobs db1)" by (simp add: gateway_ok_def)
  obtain j where j: "j \<in> set (g_jobs db2)" "remembered ?k ?h c j" using remembered_steps [OF later ok1 memory] by blast
  have "job_idempotency_key j = ?k" using j(2) by (simp add: remembered_def)
  then have found: "do_find_job ?k db2 = (db2, Inr (Some (read_job j)))"
    using find_keyed [OF job_steps_ok [OF later ok1] j(1)] by (simp add: do_find_job_def act_get_def)
  have step: "create_teaching_pack_run env cfg' now' ids' u raw' info' (Some key) db2
      = (db2, if create_request_hash env raw' info' = ?h then Inr (c\<lparr>cr_queued := False\<rparr>)
              else Inl (http_error 409 ''idempotency_conflict''))"
    if "enforce_payload_size_limits env raw' info' db2 = (db2, Inr ())" for raw' info'
    using that found remembered_replay [OF j(2)]
    by (simp add: create_teaching_pack_run_def Let_def route_def act_bind_def)
  have "enforce_payload_size_limits env raw info db2 = (db2, Inr ())"
    using run by (auto simp: create_teaching_pack_run_def enforce_payload_size_limits_def Let_def route_def act_bind_def
      split: if_splits)
  with step show ?thesis by auto
qed

definition demo_class :: json_object where
  "demo_class = brief_class_info (witness_brief\<lparr>b_topic := ''Heat'', b_artifact_types := [''quiz''], b_subject := ''science'', b_instruction_language := ''en''\<rparr>)"

lemma demo_creation: "\<exists>db1 c. create_teaching_pack_run demo_api default_backpressure_config 20 demo_ids
   (demo_teacher Role_TEACHER) ''Heat'' demo_class (Some ''k'') demo_gateway = (db1, Inr c)"
proof -
  have "case create_teaching_pack_run demo_api default_backpressure_config 20 demo_ids
   (demo_teacher Role_TEACHER) ''Heat'' demo_class (Some ''k'') demo_gateway of (db1, Inr c) \<Rightarrow> True | _ \<Rightarrow> False"
   by code_simp
  then show ?thesis by (auto split: prod.splits sum.splits)
qed

theorem create_replay_witness:
  "\<exists>db1 c. create_teaching_pack_run demo_api default_backpressure_config 20 demo_ids (demo_teacher Role_TEACHER)
       ''Heat'' demo_class (Some ''k'') demo_gateway = (db1, Inr c)
     \<and> create_teaching_pack_run demo_api default_backpressure_config 90 demo_ids (demo_teacher Role_TEACHER)
       ''Heat'' demo_class (Some ''k'') db1 = (db1, Inr (c\<lparr>cr_queued := False\<rparr>))
     \<and> create_teaching_pack_run demo_api default_backpressure_config 90 demo_ids (demo_teacher Role_TEACHER)
       ''Light'' [] (Some ''k'') db1 = (db1, Inl (http_error 409 ''idempotency_conflict''))"
proof -
  obtain db1 c where c: "create_teaching_pack_run demo_api default_backpressure_config 20 demo_ids (demo_teacher Role_TEACHER)
       ''Heat'' demo_class (Some ''k'') demo_gateway = (db1, Inr c)"
    using demo_creation by blast
  have "text_length ''Light'' \<le> 1000" by code_simp
  then have "enforce_payload_size_limits demo_api ''Light'' [] db1 = (db1, Inr ())"
    by (simp add: enforce_payload_size_limits_def demo_api_def)
  moreover have "create_request_hash demo_api ''Light'' [] \<noteq>
      create_request_hash demo_api ''Heat'' demo_class" by code_simp
  ultimately show ?thesis
    using c create_replay [OF demo_gateway_ok c rtranclp.rtrancl_refl] by blast
qed

end
