(* ===== verification/Run_Answers.thy ===== *)
theory Run_Answers
  imports Run_Api_Laws
begin

text \<open>
  Answering the gates of a run's setup: what is queued, and what the worker makes of it.
\<close>

section \<open>What an answer queues\<close>

lemma enqueue_appends:
  assumes "do_enqueue now p db = (db', Inr x)" and "jc_idempotency_key p \<notin> set (map job_idempotency_key (g_jobs db))"
  shows "x = read_job (new_job now p) \<and> db' = db\<lparr>g_jobs := g_jobs db @ [new_job now p]\<rparr>"
  using assms filter_fresh
  by (auto simp: do_enqueue_def on_jobs_def enqueue_def get_by_idempotency_key_def new_job_def ebind_Inr_iff Let_def
      split: sum.splits if_splits)

definition answer_json :: "gate_action \<Rightarrow> resume_request \<Rightarrow> json_object" where
  "answer_json a rq = dict_merge [(''action'', JStr (gate_action_value a))] (rq_response rq)"

definition answer_hash :: "api_env \<Rightarrow> gate_action \<Rightarrow> resume_request \<Rightarrow> string" where
  "answer_hash env a rq = ae_hash_json env (JObj [(''gate_id'', JStr (rq_gate_id rq)),
     (''gate_name'', JStr (rq_gate_name rq)), (''response'', JObj (answer_json a rq))])"

lemma answer_runs:
  assumes run: "resume_teaching_pack_run env now ids u r rq None db = (db', Inr acc)"
    and gate: "validate_gate_response (rq_gate_name rq) (rq_action rq) = Gate_Accepted g a"
  obtains db1 w where
    "resumed_work env now ids r (user_user_id u) (rq_gate_id rq) g a (rq_response rq) (answer_json a rq)
       (answer_hash env a rq) db = (db1, Inr w)"
    and "w = None \<Longrightarrow> ra_job_id acc = None"
    and "\<And>kind payload. w = Some (kind, payload) \<Longrightarrow> \<exists>x. ra_job_id acc = Some (jr_job_id x) \<and>
      do_enqueue now \<lparr>jc_job_id = ''job-'' @ id_job ids, jc_run_id = r, jc_kind = kind,
        jc_idempotency_key = ''resume:response-'' @ id_response ids, jc_payload = payload, jc_eligible_at = None\<rparr> db1
      = (db', Inr x)"
proof -
  let ?w = "resumed_work env now ids r (user_user_id u) (rq_gate_id rq) g a (rq_response rq) (answer_json a rq)
       (answer_hash env a rq) db"
  have r: "(case act_catch (\<lambda>_. ?w) (\<lambda>e. if is_stale_gate e then act_raise (http_error 409 ''stale_gate'') else act_raise e) db of
      (db1, Inl e) \<Rightarrow> (db1, Inl e)
    | (db1, Inr None) \<Rightarrow> (db1, Inr \<lparr>ra_run_id = r, ra_response_id = ''response-'' @ id_response ids, ra_job_id = None\<rparr>)
    | (db1, Inr (Some (kind, payload))) \<Rightarrow> act_bind (do_enqueue now \<lparr>jc_job_id = ''job-'' @ id_job ids, jc_run_id = r, jc_kind = kind,
                       jc_idempotency_key = ''resume:response-'' @ id_response ids,
                       jc_payload = payload, jc_eligible_at = None\<rparr>) (\<lambda>j.
                    act_return \<lparr>ra_run_id = jr_run_id j, ra_response_id = ''response-'' @ id_response ids,
                      ra_job_id = Some (jr_job_id j)\<rparr>) db1) = (db', Inr acc)"
    using run
    by (auto simp: resume_teaching_pack_run_def gate Let_def route_def act_bind_def require_owned_def act_get_def the_default_def
      answer_json_def answer_hash_def act_catch_def
      split: prod.splits sum.splits option.splits)
  then obtain db1 w where w: "?w = (db1, Inr w)"
    by (auto simp: act_catch_def split: prod.splits sum.splits if_splits)
  show ?thesis
    by (rule that [OF w]) (use r w in \<open>auto simp: act_catch_def act_bind_def split: prod.splits sum.splits\<close>)
qed

lemma answer_queued:
  assumes run: "resume_teaching_pack_run env now ids u r rq None db = (db', Inr acc)"
    and gate: "validate_gate_response (rq_gate_name rq) (rq_action rq) = Gate_Accepted g a"
    and fresh: "''resume:response-'' @ id_response ids \<notin> set (map job_idempotency_key (g_jobs db))"
    and w: "resumed_work env now ids r (user_user_id u) (rq_gate_id rq) g a (rq_response rq) (answer_json a rq)
       (answer_hash env a rq) db = (db1, Inr (Some (kind, payload)))"
    and frame: "g_jobs db1 = g_jobs db"
  shows "\<exists>j. db' = db1\<lparr>g_jobs := g_jobs db @ [j]\<rparr> \<and> ra_job_id acc = Some (job_id j) \<and> job_run_id j = r
    \<and> job_kind j = kind \<and> job_payload j = payload \<and> job_claimable now j"
proof -
  let ?p = "\<lparr>jc_job_id = ''job-'' @ id_job ids, jc_run_id = r, jc_kind = kind,
    jc_idempotency_key = ''resume:response-'' @ id_response ids, jc_payload = payload, jc_eligible_at = None\<rparr>"
  obtain x where acc: "ra_job_id acc = Some (jr_job_id x)" and e: "do_enqueue now ?p db1 = (db', Inr x)"
  proof (rule answer_runs [OF run gate])
    fix db2 w2
    assume "resumed_work env now ids r (user_user_id u) (rq_gate_id rq) g a (rq_response rq) (answer_json a rq)
       (answer_hash env a rq) db = (db2, Inr w2)"
      and *: "\<And>kind payload. w2 = Some (kind, payload) \<Longrightarrow> \<exists>x. ra_job_id acc = Some (jr_job_id x) \<and>
      do_enqueue now \<lparr>jc_job_id = ''job-'' @ id_job ids, jc_run_id = r, jc_kind = kind,
        jc_idempotency_key = ''resume:response-'' @ id_response ids, jc_payload = payload, jc_eligible_at = None\<rparr> db2
      = (db', Inr x)"
    with w have "w2 = Some (kind, payload)" "db2 = db1" by simp_all
    with * [OF this(1)] show ?thesis using that by blast
  qed
  have "jc_idempotency_key ?p \<notin> set (map job_idempotency_key (g_jobs db1))" using fresh frame by simp
  from enqueue_appends [OF e this] acc frame
  show ?thesis
    by (intro exI [of _ "new_job now ?p"]) (auto simp: new_job_def job_claimable_def lease_over_def read_job_def)
qed

lemma resumed_answer:
  assumes "g \<noteq> CONTRACT_CONFIRMATION" and "g \<noteq> SEARCH_PLAN_CONFIRMATION"
    and "resumed_work env now ids r t gid g a response answer h db = (db1, Inr w)"
  shows "\<exists>c. db1 = db\<lparr>g_control := c\<rparr>" and "w = Some (RESUME, [(''response_id'', JStr (''response-'' @ id_response ids)),
    (''request_hash'', JStr h), (''resume_payload'', JObj answer)])"
  using assms
  by (auto simp: resumed_work_def Let_def act_bind_Inr do_respond_def on_control_def act_get_def requested_edits_def
      revise_if_def split: sum.splits prod.splits)

lemma respond_contracts: "respond_to_gate p c = Inr c' \<Longrightarrow> contracts c' = contracts c"
  by (auto simp: respond_to_gate_def ebind_Inr_iff set_gates_def split: if_splits)

lemma event_runs:
  "do_write_event now r name vis payload db = (db1, Inr x) \<Longrightarrow>
   \<exists>p. db1 = db\<lparr>g_pack := p\<rparr> \<and> runs p = runs (g_pack db)"
  by (auto simp: do_write_event_def on_pack_def write_event_def ebind_Inr_iff dest: insert_event_Inr(6)
      split: sum.splits prod.splits)

lemma gate_not_opened:
  assumes "open_search_plan_gate_if_required env now gid r t stored db = (db1, Inr opened)" and "\<not> opened"
  shows "\<exists>p. db1 = db\<lparr>g_pack := p\<rparr> \<and> runs p = runs (g_pack db)"
  using assms
  by (auto simp: open_search_plan_gate_if_required_def prepare_search_plan_gate_def act_bind_Inr act_get_def Let_def
      split: if_splits sum.splits dest!: event_runs)

lemma responded_db:
  "do_respond p db = (db1, Inr x) \<Longrightarrow>
   \<exists>c. db1 = db\<lparr>g_control := c\<rparr> \<and> contracts c = contracts (g_control db)"
  by (auto simp: do_respond_def on_control_def unit_result_def ebind_Inr_iff dest: respond_contracts split: sum.splits prod.splits)

lemma act_get_Inr: "act_get f db = (db1, Inr x) \<longleftrightarrow> db1 = db \<and> f db = Inr x"
  by (auto simp: act_get_def split: sum.splits)

lemma act_bind_get_const: "act_bind (act_get (\<lambda>_. Inr x)) f = f x"
  by (simp add: act_bind_def act_get_def fun_eq_iff)

lemma act_bind_return: "act_bind (act_return x) f = f x"
  by (simp add: act_bind_def fun_eq_iff)

lemma resumed_confirmation:
  assumes edits: "requested_edits CONTRACT_CONFIRMATION a response = Inr None"
    and run: "resumed_work env now ids r t gid CONTRACT_CONFIRMATION a response answer h db = (db1, Inr (Some (kind, payload)))"
  shows "g_jobs db1 = g_jobs db \<and> runs (g_pack db1) = runs (g_pack db) \<and> kind = START
    \<and> (\<exists>c. get_contract_json r (g_control db) = Inr c
      \<and> payload = [(''response_id'', JStr (''response-'' @ id_response ids)), (''request_hash'', JStr h),
          (''resume_payload'', JObj answer), (''contract'', JObj c)])"
proof -
  define rid where "rid = ''response-'' @ id_response ids"
  let ?common = "[(''response_id'', JStr rid), (''request_hash'', JStr h), (''resume_payload'', JObj answer)]"
  have "resumed_work env now ids r t gid CONTRACT_CONFIRMATION a response answer h =
    act_bind (do_respond \<lparr>grc_response_id = rid, grc_gate_id = gid, grc_run_id = r,
        grc_teacher_id = t, grc_response_json = answer\<rparr>) (\<lambda>_.
      act_bind (act_get (\<lambda>db. get_contract_json r (g_control db))) (\<lambda>contract_json.
        act_bind (open_search_plan_gate_if_required env now (id_gate ids) r t contract_json) (\<lambda>opened.
          act_return (if opened then None else Some (START, ?common @ [(''contract'', JObj contract_json)])))))"
    unfolding resumed_work_def Let_def rid_def [symmetric] edits act_bind_get_const revise_if_def option.case act_bind_return
    by simp
  from run [unfolded this act_bind_Inr] obtain db2 x cj opened where
    d: "do_respond \<lparr>grc_response_id = rid, grc_gate_id = gid, grc_run_id = r, grc_teacher_id = t,
      grc_response_json = answer\<rparr> db = (db2, Inr x)"
    and c: "get_contract_json r (g_control db2) = Inr cj"
    and o: "open_search_plan_gate_if_required env now (id_gate ids) r t cj db2 = (db1, Inr opened)"
    and out: "(if opened then None else Some (START, ?common @ [(''contract'', JObj cj)])) = Some (kind, payload)"
    by (auto simp: act_get_Inr)
  obtain c where db2: "db2 = db\<lparr>g_control := c\<rparr>" "contracts c = contracts (g_control db)" using responded_db [OF d] by blast
  have "\<not> opened" using out by (auto split: if_splits)
  with gate_not_opened [OF o] obtain p where "db1 = db2\<lparr>g_pack := p\<rparr>" "runs p = runs (g_pack db2)" by blast
  moreover have "get_contract_json r (g_control db) = Inr cj" using c db2 by (simp add: get_contract_json_def)
  ultimately show ?thesis using out db2 \<open>\<not> opened\<close> unfolding rid_def [symmetric] by simp
qed

text \<open>A rejected contract, or one approved without changes.\<close>

definition confirmation_answer :: "resume_request \<Rightarrow> bool" where
  "confirmation_answer rq \<longleftrightarrow> rq_gate_name rq = ''contract_confirmation''
     \<and> (rq_action rq = ''reject'' \<or> (rq_action rq = ''approve'' \<and> contract_confirmation_edits (rq_response rq) = Inr []))"

lemma confirmation_accepted:
  "validate_gate_response ''contract_confirmation'' ''reject'' = Gate_Accepted CONTRACT_CONFIRMATION REJECT"
  "validate_gate_response ''contract_confirmation'' ''approve'' = Gate_Accepted CONTRACT_CONFIRMATION APPROVE"
  "requested_edits CONTRACT_CONFIRMATION REJECT response = Inr None"
  "contract_confirmation_edits response = Inr [] \<Longrightarrow> requested_edits CONTRACT_CONFIRMATION APPROVE response = Inr None"
  by (code_simp, code_simp, simp_all add: requested_edits_def)

lemma confirmation_gate:
  assumes "confirmation_answer rq"
  shows "\<exists>a. validate_gate_response (rq_gate_name rq) (rq_action rq) = Gate_Accepted CONTRACT_CONFIRMATION a
    \<and> requested_edits CONTRACT_CONFIRMATION a (rq_response rq) = Inr None"
  using assms unfolding confirmation_answer_def
proof (elim conjE disjE)
  assume n: "rq_gate_name rq = ''contract_confirmation''" and a: "rq_action rq = ''reject''"
  show ?thesis unfolding n a by (intro exI conjI) (rule confirmation_accepted(1), rule confirmation_accepted(3))
next
  assume n: "rq_gate_name rq = ''contract_confirmation''" and a: "rq_action rq = ''approve''"
    and e: "contract_confirmation_edits (rq_response rq) = Inr []"
  show ?thesis unfolding n a
    by (intro exI conjI) (rule confirmation_accepted(2), rule confirmation_accepted(4) [OF e])
qed

lemma accepted_gate:
  assumes "validate_gate_response name action = Gate_Accepted g a"
  shows "gate_label_value g = name"
  using assms
  by (auto simp: validate_gate_response_def find_value_def find_Some_iff split: option.splits if_splits)

text \<open>
  C17: the answer to a contract confirmation is not looked at. Rejecting the contract queues
  the same work as approving it without changes: a start job whose worker starts the graph with the stored
  contract and its topic, and with nothing of the answer. The run keeps its status.
\<close>
theorem rejection_starts_run:
  assumes "confirmation_answer rq"
    and "resume_teaching_pack_run env now ids u r rq None db = (db', Inr acc)" and "ra_job_id acc = Some i"
    and "''resume:response-'' @ id_response ids \<notin> set (map job_idempotency_key (g_jobs db))"
  shows "\<exists>c j. get_contract_json r (g_control db) = Inr c \<and> g_jobs db' = g_jobs db @ [j] \<and> job_id j = i
    \<and> job_claimable now j \<and> runs (g_pack db') = runs (g_pack db)
    \<and> (\<forall>w t. execute w t (read_job j) = run_start_job w t r
          [(''run_id'', JStr r), (''contract'', JObj c), (''raw_request'', dict_get_or c ''topic'' (JStr []))])"
proof -
  obtain a where gate: "validate_gate_response (rq_gate_name rq) (rq_action rq) = Gate_Accepted CONTRACT_CONFIRMATION a"
    and edits: "requested_edits CONTRACT_CONFIRMATION a (rq_response rq) = Inr None"
    using confirmation_gate [OF assms(1)] by blast
  obtain db1 kind payload where w: "resumed_work env now ids r (user_user_id u) (rq_gate_id rq) CONTRACT_CONFIRMATION a
      (rq_response rq) (answer_json a rq) (answer_hash env a rq) db = (db1, Inr (Some (kind, payload)))"
    by (rule answer_runs [OF assms(2) gate]) (use assms(3) in force)
  obtain j where j: "db' = db1\<lparr>g_jobs := g_jobs db @ [j]\<rparr>" "ra_job_id acc = Some (job_id j)" "job_run_id j = r"
      "job_kind j = kind" "job_payload j = payload" "job_claimable now j"
    using answer_queued [OF assms(2) gate assms(4) w] resumed_confirmation [OF edits w] by blast
  from resumed_confirmation [OF edits w] obtain c where c: "get_contract_json r (g_control db) = Inr c" "kind = START"
    "runs (g_pack db1) = runs (g_pack db)"
    "payload = [(''response_id'', JStr (''response-'' @ id_response ids)), (''request_hash'', JStr (answer_hash env a rq)),
       (''resume_payload'', JObj (answer_json a rq)), (''contract'', JObj c)]" by blast
  have "execute w t (read_job j) = run_start_job w t r
          [(''run_id'', JStr r), (''contract'', JObj c), (''raw_request'', dict_get_or c ''topic'' (JStr []))]" for w t
    using j c by (simp add: execute_def read_job_def initial_state_def dict_get_def)
  then show ?thesis using c j assms(3) by (intro exI [of _ c] exI [of _ j]) simp
qed


section \<open>Witnesses\<close>

text \<open>A run held at the confirmation of its contract, and one held for clarification.\<close>

definition held_run :: "string \<Rightarrow> json_object \<Rightarrow> gateway_db" where
  "held_run raw info = fst (create_teaching_pack_run demo_api default_backpressure_config 20 demo_ids
     (demo_teacher Role_TEACHER) raw info None demo_gateway)"

definition demo_plan :: json_object where
  "demo_plan = dict_merge (brief_class_info (witness_brief\<lparr>b_topic := ''Heat'', b_artifact_types := [''quiz''], b_subject := ''science'', b_instruction_language := ''en''\<rparr>))
     [(''planning_review_reasons'', JList [JStr ''teacher_requested''])]"

definition demo_rejection :: resume_request where
  "demo_rejection = \<lparr>rq_gate_id = ''gate-b'', rq_gate_name = ''contract_confirmation'', rq_action = ''reject'', rq_response = []\<rparr>"

definition answer_ids :: fresh_ids where
  "answer_ids = \<lparr>id_run = ''r3'', id_job = ''d'', id_gate = ''e'', id_response = ''f''\<rparr>"

theorem rejection_starts_run_witness:
  "\<exists>db' j c. fst (resume_teaching_pack_run demo_api 30 answer_ids (demo_teacher Role_TEACHER) ''r2'' demo_rejection None
       (held_run ''Heat'' demo_plan)) = db'
     \<and> g_jobs db' = g_jobs (held_run ''Heat'' demo_plan) @ [j]
     \<and> execute demo_worker 40 (read_job j) = run_start_job demo_worker 40 ''r2''
         [(''run_id'', JStr ''r2''), (''contract'', JObj c), (''raw_request'', dict_get_or c ''topic'' (JStr []))]"
proof -
  let ?db = "held_run ''Heat'' demo_plan"
  have "case resume_teaching_pack_run demo_api 30 answer_ids (demo_teacher Role_TEACHER) ''r2'' demo_rejection None ?db of
      (db', Inr acc) \<Rightarrow> ra_job_id acc = Some ''job-d'' | _ \<Rightarrow> False" by code_simp
  then obtain db' acc where run: "resume_teaching_pack_run demo_api 30 answer_ids (demo_teacher Role_TEACHER) ''r2''
      demo_rejection None ?db = (db', Inr acc)" "ra_job_id acc = Some ''job-d''"
    by (auto split: prod.splits sum.splits)
  have "confirmation_answer demo_rejection" by code_simp
  moreover have "''resume:response-'' @ id_response answer_ids \<notin> set (map job_idempotency_key (g_jobs ?db))" by code_simp
  ultimately show ?thesis using rejection_starts_run [OF _ run] run(1) by (metis fst_conv)
qed

definition demo_clarification :: resume_request where
  "demo_clarification = \<lparr>rq_gate_id = ''gate-b'', rq_gate_name = ''clarification_required'', rq_action = ''answer'',
     rq_response = [(''topic'', JStr ''photosynthesis'')]\<rparr>"

definition lost_worker :: worker_env where
  "lost_worker = demo_worker\<lparr>w_ainvoke := (\<lambda>r g. case g of Graph_Start _ \<Rightarrow> Inr []
     | Graph_Resume _ \<Rightarrow> Inl (Empty_Input_Error ''no input''))\<rparr>"


end
