(* ===== verification/Spec2Isabelle.thy ===== *)
theory Spec2Isabelle
  imports Stages Outbox Job_Queue Control_Laws Snapshot_Laws Worker_Laws Admin_Recovery Cleanup_Claims Unit_Laws
    Response_Laws Session_Join Webhooks Pack_Losses Document_Mapping Rate_Limit Run_Creation Run_Answers
begin

text \<open>
  A verification development for the gateway of oh-my-class, the service that turns a teacher's
  request into a reviewed teaching pack and runs it as a live session. The Python sources are under
  \<open>src/services/gateway\<close> and \<open>src/packages/agents\<close>.

  \<^bold>\<open>The program.\<close> A run is a row whose status moves along a table of allowed transitions. Every
  change is written to an append-only ledger of run events, numbered per run, and put in the same
  transaction into an outbox that a publisher drains. Work is done by jobs: workers claim them under
  leases, execute a graph of agents, and record its outcome: a gate for the teacher, a snapshot, an
  export, a failure. A sweeper recovers what crashed workers leave. Live teaching sessions have
  their own event log, read model and role tokens. Deleted runs are pruned by a daily cleanup.

  \<^bold>\<open>Theories, in the order of the code's layers.\<close>
  \<^item> \<open>Prelude\<close>: Python and SQL idioms the code uses everywhere (results, JSON, dictionaries,
    \<open>scalar_one\<close>, updates of rows, instants, decimal text, \<open>int\<close> of text), with their laws.
  \<^item> \<open>Status_Machine\<close>: a locale for tables of allowed transitions, interpreted for runs (\<open>Run_Status\<close>,
    \<open>models.py\<close>, \<open>teaching_pack_status.py\<close>) and sessions (\<open>Session_Policy\<close>). \<open>Stages\<close>: the pipeline
    stages (\<open>packages/agents/teaching_pack/stages.py\<close>).
  \<^item> \<open>Sequenced_Log\<close>: a locale for gapless numbered logs. \<open>Run_Store\<close> has every operation of
    \<open>teaching_pack_store.py\<close>, \<open>Run_Ledger\<close> its invariants; \<open>Outbox\<close> models \<open>run_event_outbox.py\<close>.
  \<^item> \<open>Leased_Table\<close>: a locale for tables claimed under leases, interpreted by the outbox and by the
    job table. \<open>Job_Store\<close> has the operations of \<open>teaching_pack_job_store.py\<close>, \<open>queue_depth.py\<close> and
    \<open>recovery_sweeper.py\<close>; \<open>Job_Queue\<close> proves that they refine an abstract job lifecycle.
  \<^item> \<open>Control_Store\<close>, \<open>Control_Laws\<close>: contracts, gates, responses, artifact workflows
    (\<open>teaching_pack_control_store.py\<close>, \<open>teaching_pack_contract_edits.py\<close>).
  \<^item> \<open>Snapshot_Store\<close>, \<open>Snapshot_Laws\<close>: snapshots and export records
    (\<open>teaching_pack_snapshot_store.py\<close>, \<open>teaching_pack_snapshot_validators.py\<close>,
    \<open>teaching_pack_export_store.py\<close>).
  \<^item> \<open>Gateway_Db\<close>: all tables together and the effects of a database session that keeps what was
    written before an exception. \<open>Completion\<close> (\<open>teaching_pack_completion.py\<close>), \<open>Worker\<close>
    (\<open>teaching_pack_executor.py\<close>, \<open>teaching_pack_worker.py\<close>), \<open>Session_Invariant\<close> (the joint
    invariant as a locale of what every store keeps) and \<open>Worker_Laws\<close>.
  \<^item> \<open>Admin_Recovery\<close>: the administrator's recovery actions (\<open>admin_recovery.py\<close>).
  \<^item> \<open>Kpi_Rollup\<close>, \<open>Retention\<close>, \<open>Purge\<close>: rollups of events, retention periods, the prune policy, soft
    deletion, the purges and the daily cleanup (\<open>run_event_rollup.py\<close>, \<open>retention.py\<close>,
    \<open>prune_policy.py\<close>, \<open>soft_delete.py\<close>, \<open>purge.py\<close>, \<open>data_lifecycle_cleanup.py\<close>); \<open>Purge_Laws\<close>,
    \<open>Purge_Safety\<close>, \<open>Cleanup\<close> and \<open>Cleanup_Claims\<close> prove what survives and what is lost.
  \<^item> \<open>Sliding_Window\<close>: a locale for call limits, interpreted for joining, webhooks and rewrites.
    \<open>Webhooks\<close>: inbound and outbound webhooks (\<open>routers/webhooks.py\<close>). \<open>Auth\<close>: accounts, tokens,
    ownership, delegation (\<open>auth\<close>, \<open>run_delegation_store.py\<close>).
  \<^item> \<open>Session_Policy\<close>, \<open>Session_Join\<close>, \<open>Session_Events\<close>, \<open>Session_Log\<close>, \<open>Session_Responses\<close>,
    \<open>Response_Laws\<close>: live sessions (\<open>teaching_session\<close>, \<open>routers/teaching_session_live.py\<close>).
  \<^item> \<open>Unit_Orchestrator\<close>, \<open>Unit_Laws\<close>: units, their sessions' prerequisites and the sweep that
    spawns them (\<open>unit_run_store.py\<close>, \<open>unit_orchestrator.py\<close>, \<open>lesson_sequence.py\<close>).
  \<^item> \<open>Circuit_Breaker\<close>: the breakers of \<open>packages/agents/healing\<close> and \<open>packages/llm_client\<close>.
  \<^item> \<open>Dependency_Plan\<close>, \<open>Artifact_Channels\<close>, \<open>Fanout\<close>, \<open>Fanout_Laws\<close>, \<open>Fanout_Order\<close>: the artifact
    fan-out of the graph (\<open>dependency_plan.py\<close>, \<open>reducers.py\<close>, \<open>artifact_fanout.py\<close>,
    \<open>artifact_fanout_helpers.py\<close>, \<open>scoped_regeneration.py\<close>). A locale states what a channel's reducer
    owes; both reducers interpret it.
  \<^item> \<open>Healing\<close>, \<open>Quality_Runtime\<close>, \<open>Healing_Laws\<close>: the healing strategies, the orchestrator that counts
    failures and picks one, and the quality stage that calls it (\<open>packages/agents/healing\<close>,
    \<open>healing_runtime.py\<close>, \<open>quality_runtime.py\<close>, \<open>quality_routing.py\<close>).
  \<^item> \<open>Pack_Graph\<close>, \<open>Pack_Laws\<close>, \<open>Pack_Losses\<close>: the stage graph as a step relation: the wrapper of the
    stages with its re-entry rule, what each stage writes of the state that routes, the edges, the
    compliance gate and the teacher's answers (\<open>nodes.py\<close>, \<open>graph.py\<close>, \<open>compliance.py\<close>,
    \<open>teacher_gate_payload.py\<close>, \<open>artifact_status.py\<close>). What agents find and teachers answer is the input
    of a step; the laws hold for every input.
  \<^item> \<open>Document_Contract\<close>, \<open>Document_Store\<close>: artifact documents, their validators, the mapping between
    generated content and documents, the append-only tables of versions, answers, variants,
    dependencies, notes and approvals, and the services on them (\<open>artifact_document.py\<close>,
    \<open>artifact_projection_mapper.py\<close>, \<open>artifact_document_store.py\<close>, \<open>artifact_document_edit_service.py\<close>,
    \<open>artifact_language_version_service.py\<close>, \<open>review_note_store.py\<close>, \<open>artifact_approval_service.py\<close>,
    \<open>artifact_document_content_store.py\<close>). \<open>Document_Invariant\<close>, \<open>Document_Laws\<close>, \<open>Document_Claims\<close>,
    \<open>Document_Mapping\<close>: version lineages as numbered logs, what edits, restores and approvals do
    exactly, why a regenerated artifact cannot be stored, and the round trip of a document.
  \<^item> \<open>Request_Text\<close>, \<open>Run_Setup\<close>, \<open>Teaching_Brief\<close>, \<open>Search_Plan\<close>: how a teacher's request or brief becomes a
    contract or a gate (\<open>run_contract_setup.py\<close>, \<open>common/contracts/run_contract.py\<close>,
    \<open>education_policy.py\<close>, \<open>grade_band.py\<close>, \<open>source_collection.py\<close>, \<open>teaching_brief.py\<close>,
    \<open>teaching_brief_store.py\<close>, \<open>routers/teaching_briefs.py\<close>), the contract read back and the plan of its
    research (\<open>research_engine.py\<close>). Text is a list of bytes in UTF-8.
  \<^item> \<open>Backpressure\<close>: admission of runs, target replicas of workers, budget ledgers (\<open>backpressure.py\<close>,
    \<open>autoscaler.py\<close>, \<open>budget.py\<close>, \<open>budget_db.py\<close>). \<open>Rate_Limit\<close>: call limits and blocks in Redis and both
    middlewares (\<open>rate_limiting.py\<close>, \<open>rate_limit_middleware.py\<close>), as computations that Redis may cut off
    after any command.
  \<^item> \<open>Run_Api\<close>: the routes on runs (\<open>run_creation.py\<close>, \<open>routers/teaching_pack_runs.py\<close>,
    \<open>teaching_pack_lifecycle.py\<close>, \<open>teaching_pack_deps.py\<close>, \<open>teaching_pack_gate_registry.py\<close>,
    \<open>teaching_pack_idempotency.py\<close>, \<open>research_gate.py\<close>). \<open>Run_Api_Laws\<close> extends the joint invariant's locale
    by what the routes write, and proves who reaches a run and what cancelling does; \<open>Run_Creation\<close> that
    a creation with a key happens once; \<open>Run_Answers\<close> what an answered gate leads to.
  \<^bold>\<open>State and operations.\<close> A table is a list of records in insertion order; a record has the columns
  of its row class that the modelled code reads or writes. A store operation takes the tables and
  returns \<open>Inl\<close> of the exception it raises or \<open>Inr\<close> of its result and the new tables. A constraint of
  the schema (a primary key, a unique or foreign key) is a test that raises \<open>IntegrityError\<close>. Where
  several stores share a session, an operation is an action on all tables that returns the state
  with either outcome, since the caller may commit after catching an exception. Instants are
  integers in microseconds; the clock is an argument. Concurrent claims (\<open>SKIP LOCKED\<close>) take the list
  of rows other transactions have locked.

  \<^bold>\<open>What the lemmas show.\<close> For each store an invariant holds initially and is kept by every operation
  (\<open>pack_ok\<close>, \<open>outbox_ok\<close>, \<open>jobs_ok\<close>, \<open>gates_ok\<close>, \<open>contracts_ok\<close> and the snapshot invariants); the
  joint invariant is kept by whole worker passes. On these rest the functional claims: what each
  operation answers on each branch, that retries and reruns are harmless or, where they are not,
  what exactly they lose. Claims that state a loss describe the code as it is.

  \<^bold>\<open>Bounds and fuel.\<close> Loops of the code run over lists that the iteration does not grow and are
  structural recursions, folds or functions with a termination proof (\<open>cascade\<close>, \<open>show_nat\<close>,
  \<open>dependents_closure\<close>). Only \<open>fanout_loop\<close> has fuel, and thirteen units are proved to be enough. The worker's endless loop takes the list of its passes' inputs.

  \<^bold>\<open>Parameters.\<close> Code outside the repository, and text or byte processing whose result the claims do
  not depend on, is an argument: the compiled graph of agents, the renderer and the export bridge,
  digests, PyJWT, the HTML checks, the scrubbing of names and the database's collation.

  \<^bold>\<open>Not modelled.\<close> The agents' content generation and prompts, the LLM clients, the TypeScript web
  application, renderer and exporters, HTTP routing and request parsing, Alembic migrations,
  scripts, dashboards and logging. Floating point scores and success rates are left out.
\<close>

end
